(* ===== verification/Prelude.thy ===== *)
theory Prelude
  imports Complex_Main "HOL-Library.AList" "HOL-Library.Sublist"
begin

text \<open>
  Shared vocabulary of the development: points in time and durations, Python dictionaries,
  the string operations of the Python standard library that the gateway uses, the exceptions it
  raises, and the functions of the standard library that are passed as a record.

  Conventions used everywhere:
  \<^item> A Python \<open>str\<close> is a \<open>string\<close>, one \<open>char\<close> per code point; code points above 255 are
    outside the model.
  \<^item> A Python \<open>float\<close>, a timestamp (POSIX seconds) and a duration (seconds) are rationals, with
    exact arithmetic; binary rounding is not modelled.
  \<^item> A \<open>dict\<close> is an association list in insertion order; assignment to a present key keeps
    its position, as in Python.
  \<^item> A raised exception is \<open>Inl e\<close>, a returned value is \<open>Inr v\<close>.
\<close>

named_theorems gw_defs "definitions unfolded by the component proofs"
named_theorems gw_trans "preservation facts about the task table"

type_synonym time = rat
type_synonym secs = rat

subsection \<open>Dictionaries\<close>

type_synonym 'v dict = "(string \<times> 'v) list"

definition dict_get :: "'v dict \<Rightarrow> string \<Rightarrow> 'v option" where
  "dict_get d k = map_of d k"

definition dict_set :: "string \<Rightarrow> 'v \<Rightarrow> 'v dict \<Rightarrow> 'v dict" where
  "dict_set k v d = AList.update k v d"

definition dict_pop :: "string \<Rightarrow> 'v dict \<Rightarrow> 'v dict" where
  "dict_pop k d = AList.delete k d"

text \<open>\<open>d.update(e)\<close>: the entries of \<open>e\<close> in order.\<close>

fun dict_update :: "'v dict \<Rightarrow> 'v dict \<Rightarrow> 'v dict" where
  "dict_update d [] = d"
| "dict_update d ((k, v) # e) = dict_update (dict_set k v d) e"

lemma dict_get_Nil [simp]: "dict_get [] k = None"
  by (simp add: dict_get_def)

lemma dict_get_Cons [simp]: "dict_get ((a, v) # d) k = (if a = k then Some v else dict_get d k)"
  by (simp add: dict_get_def)

lemma dict_get_set [simp]: "dict_get (dict_set k v d) j = (if j = k then Some v else dict_get d j)"
  by (simp add: dict_get_def dict_set_def update_conv')

lemma dict_get_pop [simp]: "dict_get (dict_pop k d) j = (if j = k then None else dict_get d j)"
  by (simp add: dict_get_def dict_pop_def delete_conv')

lemma dict_get_append:
  "dict_get (d @ e) k = (case dict_get d k of Some v \<Rightarrow> Some v | None \<Rightarrow> dict_get e k)"
  by (simp add: dict_get_def map_add_def split: option.splits)

lemma dict_get_update:
  "dict_get (dict_update d e) k = (case dict_get (rev e) k of Some v \<Rightarrow> Some v | None \<Rightarrow> dict_get d k)"
  by (induction d e rule: dict_update.induct) (auto simp: dict_get_append split: option.splits)

lemma dict_get_update_absent [simp]:
  "k \<notin> fst ` set e \<Longrightarrow> dict_get (dict_update d e) k = dict_get d k"
  by (induction d e rule: dict_update.induct) auto

subsection \<open>Strings\<close>

text \<open>Code points \<open>str.isspace\<close> accepts, up to 255.\<close>

definition py_space :: "char \<Rightarrow> bool" where
  "py_space c \<longleftrightarrow> (let n = (of_char c :: nat)
     in n = 32 \<or> (9 \<le> n \<and> n \<le> 13) \<or> (28 \<le> n \<and> n \<le> 31) \<or> n = 133 \<or> n = 160)"

definition py_digit :: "char \<Rightarrow> bool" where
  "py_digit c \<longleftrightarrow> (let n = (of_char c :: nat) in 48 \<le> n \<and> n \<le> 57)"

definition ascii_upper :: "char \<Rightarrow> bool" where
  "ascii_upper c \<longleftrightarrow> (let n = (of_char c :: nat) in 65 \<le> n \<and> n \<le> 90)"

definition ascii_lower :: "char \<Rightarrow> bool" where
  "ascii_lower c \<longleftrightarrow> (let n = (of_char c :: nat) in 97 \<le> n \<and> n \<le> 122)"

definition ascii_alpha :: "char \<Rightarrow> bool" where
  "ascii_alpha c \<longleftrightarrow> ascii_upper c \<or> ascii_lower c"

definition ascii_alnum :: "char \<Rightarrow> bool" where
  "ascii_alnum c \<longleftrightarrow> ascii_alpha c \<or> py_digit c"

definition lstrip :: "string \<Rightarrow> string" where
  "lstrip s = dropWhile py_space s"

definition rstrip :: "string \<Rightarrow> string" where
  "rstrip s = rev (dropWhile py_space (rev s))"

definition strip :: "string \<Rightarrow> string" where
  "strip s = rstrip (lstrip s)"

definition lstrip_char :: "char \<Rightarrow> string \<Rightarrow> string" where
  "lstrip_char c s = dropWhile (\<lambda>x. x = c) s"

definition rstrip_char :: "char \<Rightarrow> string \<Rightarrow> string" where
  "rstrip_char c s = rev (dropWhile (\<lambda>x. x = c) (rev s))"

definition starts_with :: "string \<Rightarrow> string \<Rightarrow> bool" where
  "starts_with p s \<longleftrightarrow> take (length p) s = p"

definition ends_with :: "string \<Rightarrow> string \<Rightarrow> bool" where
  "ends_with p s \<longleftrightarrow> starts_with (rev p) (rev s)"

text \<open>\<open>p in s\<close>.\<close>

fun contains :: "string \<Rightarrow> string \<Rightarrow> bool" where
  "contains p [] = (p = [])"
| "contains p (c # s) = (starts_with p (c # s) \<or> contains p s)"

text \<open>\<open>str.lower\<close> and \<open>str.upper\<close> on ASCII letters; other code points are kept.\<close>

definition lower_char :: "char \<Rightarrow> char" where
  "lower_char c = (if ascii_upper c then char_of (of_char c + 32 :: nat) else c)"

definition upper_char :: "char \<Rightarrow> char" where
  "upper_char c = (if ascii_lower c then char_of (of_char c - 32 :: nat) else c)"

definition lower :: "string \<Rightarrow> string" where
  "lower s = List.map lower_char s"

definition upper :: "string \<Rightarrow> string" where
  "upper s = List.map upper_char s"

text \<open>\<open>s.replace(old, new)\<close> for a non-empty \<open>old\<close>: leftmost, non-overlapping.\<close>

fun replace_all :: "nat \<Rightarrow> string \<Rightarrow> string \<Rightarrow> string \<Rightarrow> string" where
  "replace_all _ old new [] = []"
| "replace_all (Suc k) old new (c # s) = replace_all k old new s"
| "replace_all 0 old new (c # s) =
     (if starts_with old (c # s) then new @ replace_all (length old - 1) old new s
      else c # replace_all 0 old new s)"

definition str_replace :: "string \<Rightarrow> string \<Rightarrow> string \<Rightarrow> string" where
  "str_replace old new s = replace_all 0 old new s"

text \<open>\<open>s.split(sep)\<close> for a one-character separator.\<close>

fun split_on :: "char \<Rightarrow> string \<Rightarrow> string list" where
  "split_on c [] = [[]]"
| "split_on c (x # s) =
     (if x = c then [] # split_on c s
      else (case split_on c s of [] \<Rightarrow> [[x]] | w # ws \<Rightarrow> (x # w) # ws))"

fun join :: "string \<Rightarrow> string list \<Rightarrow> string" where
  "join sep [] = []"
| "join sep [w] = w"
| "join sep (w # v # ws) = w @ sep @ join sep (v # ws)"

lemma split_on_join:
  assumes "parts \<noteq> []" and "\<And>p. p \<in> set parts \<Longrightarrow> c \<notin> set p"
  shows "split_on c (join [c] parts) = parts"
  using assms
proof (induction parts)
  case (Cons p ps)
  have one: "c \<notin> set p \<Longrightarrow> split_on c p = [p]" for p by (induction p) auto
  have more: "c \<notin> set p \<Longrightarrow> split_on c (p @ c # s) = p # split_on c s" for p s by (induction p) auto
  show ?case using Cons by (cases ps) (auto simp: one more)
qed simp

lemma join_split_on: "join [c] (split_on c s) = s"
proof (induction s)
  case (Cons d s)
  then show ?case by (cases "split_on c s" rule: join.cases [where ?x = "([c], _)", simplified]) (auto split: list.splits)
qed simp

subsection \<open>Decimal numerals\<close>

definition digit_char :: "nat \<Rightarrow> char" where
  "digit_char d = char_of (48 + d)"

definition digit_val :: "char \<Rightarrow> nat" where
  "digit_val c = of_char c - 48"

fun show_nat :: "nat \<Rightarrow> string" where
  "show_nat n = (if n < 10 then [digit_char n] else show_nat (n div 10) @ [digit_char (n mod 10)])"

declare show_nat.simps [simp del]

definition show_int :: "int \<Rightarrow> string" where
  "show_int i = (if i < 0 then CHR ''-'' # show_nat (nat (- i)) else show_nat (nat i))"

fun read_nat :: "nat \<Rightarrow> string \<Rightarrow> nat" where
  "read_nat acc [] = acc"
| "read_nat acc (c # s) = read_nat (10 * acc + digit_val c) s"

lemma digit_val_char [simp]: "d < 10 \<Longrightarrow> digit_val (digit_char d) = d"
  by (simp add: digit_val_def digit_char_def)

lemma py_digit_char [simp]: "d < 10 \<Longrightarrow> py_digit (digit_char d)"
  by (simp add: py_digit_def digit_char_def)

lemma read_nat_append: "read_nat acc (s @ t) = read_nat (read_nat acc s) t"
  by (induction s arbitrary: acc) auto

lemma read_show_nat [simp]: "read_nat 0 (show_nat n) = n"
proof (induction n rule: show_nat.induct)
  case (1 n)
  show ?case
  proof (cases "n < 10")
    case True
    then show ?thesis by (simp add: show_nat.simps)
  next
    case False
    then show ?thesis using 1 by (subst show_nat.simps) (simp add: read_nat_append)
  qed
qed

lemma show_nat_digits: "list_all py_digit (show_nat n)"
proof (induction n rule: show_nat.induct)
  case (1 n)
  then show ?case by (subst show_nat.simps) auto
qed

lemma show_nat_not_Nil [simp]: "show_nat n \<noteq> []"
  by (subst show_nat.simps) auto

lemma show_nat_small:
  "n < 10 \<Longrightarrow> show_nat n = [digit_char n]"
  "10 \<le> n \<Longrightarrow> n < 100 \<Longrightarrow> show_nat n = [digit_char (n div 10), digit_char (n mod 10)]"
  "100 \<le> n \<Longrightarrow> n < 1000 \<Longrightarrow> show_nat n = [digit_char (n div 100), digit_char (n div 10 mod 10), digit_char (n mod 10)]"
proof -
  show one: "n < 10 \<Longrightarrow> show_nat n = [digit_char n]" for n by (simp add: show_nat.simps)
  show two: "10 \<le> n \<Longrightarrow> n < 100 \<Longrightarrow> show_nat n = [digit_char (n div 10), digit_char (n mod 10)]" for n
    by (subst show_nat.simps) (simp add: one)
  show "100 \<le> n \<Longrightarrow> n < 1000 \<Longrightarrow> show_nat n = [digit_char (n div 100), digit_char (n div 10 mod 10), digit_char (n mod 10)]"
    by (subst show_nat.simps) (simp add: two div_mult2_eq [symmetric])
qed

lemma digit_char_zero: "d < 10 \<Longrightarrow> digit_char d = CHR ''0'' \<longleftrightarrow> d = 0"
proof -
  have "digit_char 0 = CHR ''0''" by code_simp
  then show "d < 10 \<Longrightarrow> digit_char d = CHR ''0'' \<longleftrightarrow> d = 0"
    using digit_val_char [of d] digit_val_char [of 0] by (metis zero_less_numeral)
qed

lemma show_nat_no: "\<not> py_digit c \<Longrightarrow> c \<notin> set (show_nat n)"
  using show_nat_digits [of n] by (auto simp: list_all_iff)

text \<open>\<open>int(s)\<close> on a string: surrounding blanks, a sign, digits (single underscores between digits too).\<close>

fun digits_value :: "int \<Rightarrow> string \<Rightarrow> int option" where
  "digits_value acc [] = Some acc"
| "digits_value acc (c # s) =
     (if py_digit c then digits_value (10 * acc + int (digit_val c)) s
      else if c = CHR ''_'' then (case s of d # r \<Rightarrow> if py_digit d then digits_value acc s else None | [] \<Rightarrow> None)
      else None)"

definition unsigned_value :: "string \<Rightarrow> int option" where
  "unsigned_value s = (case s of c # r \<Rightarrow> if py_digit c then digits_value 0 s else None | [] \<Rightarrow> None)"

definition read_int :: "string \<Rightarrow> int option" where
  "read_int s = (case strip s of
       [] \<Rightarrow> None
     | c # r \<Rightarrow> if c = CHR ''-'' then map_option uminus (unsigned_value r)
               else if c = CHR ''+'' then unsigned_value r
               else unsigned_value (c # r))"

lemma digits_value_nat:
  "list_all py_digit s \<Longrightarrow> digits_value (int acc) s = Some (int (read_nat acc s))"
proof (induction s arbitrary: acc)
  case (Cons c s)
  then show ?case using Cons.IH [of "10 * acc + digit_val c"] by simp
qed simp

lemma digit_not_space: "py_digit c \<Longrightarrow> \<not> py_space c"
  by (auto simp: py_digit_def py_space_def Let_def)

lemma unsigned_show_nat: "unsigned_value (show_nat n) = Some (int n)"
proof (cases "show_nat n")
  case (Cons c r)
  then have "py_digit c" using show_nat_digits [of n] by simp
  moreover have "digits_value 0 (show_nat n) = Some (int n)"
    using digits_value_nat [OF show_nat_digits [of n], of 0] by simp
  ultimately show ?thesis using Cons by (simp add: unsigned_value_def del: digits_value.simps)
qed simp

lemma strip_plain:
  assumes "s \<noteq> []" and "\<not> py_space (hd s)" and "\<not> py_space (last s)"
  shows "strip s = s"
proof -
  have 1: "dropWhile py_space s = s" using assms by (simp add: dropWhile_eq_self_iff)
  have 2: "dropWhile py_space (rev s) = rev s" using assms by (simp add: dropWhile_eq_self_iff hd_rev)
  show ?thesis by (simp add: strip_def lstrip_def rstrip_def 1 2)
qed

lemma show_nat_ends: "\<not> py_space (hd (show_nat n)) \<and> \<not> py_space (last (show_nat n)) \<and> py_digit (hd (show_nat n))"
  using show_nat_digits [of n] digit_not_space by (simp add: list_all_iff)

lemma read_show_int: "read_int (show_int i) = Some i"
proof (cases "i < 0")
  case True
  have "strip (CHR ''-'' # show_nat (nat (- i))) = CHR ''-'' # show_nat (nat (- i))"
    by (rule strip_plain) (use show_nat_ends in \<open>simp_all add: py_space_def\<close>)
  with True show ?thesis by (simp add: show_int_def read_int_def unsigned_show_nat)
next
  case False
  have "strip (show_nat (nat i)) = show_nat (nat i)"
    by (rule strip_plain) (use show_nat_ends in simp_all)
  moreover have "hd (show_nat (nat i)) \<noteq> CHR ''-''" "hd (show_nat (nat i)) \<noteq> CHR ''+''"
    using show_nat_ends [of "nat i"] by (auto simp: py_digit_def)
  ultimately show ?thesis
    using False unsigned_show_nat [of "nat i"] by (cases "show_nat (nat i)") (auto simp: show_int_def read_int_def)
qed

subsection \<open>Exceptions\<close>

text \<open>
  What the modelled code raises. \<open>TransitionError\<close> carries the two status values as strings
  (their \<open>.value\<close>); the library's own \<open>ValueError\<close>, \<open>KeyError\<close> and so on carry the message the
  source builds, or the empty string where the library builds it.
\<close>

datatype exn =
    TransitionError string string
  | ValueError string
  | KeyError string
  | TypeError string
  | RuntimeError string
  | AssertionError
  | RenderError string
  | UnsafeInterpolationValue string
  | ExpressionError string
  | PathNotFound string
  | PathWriteSkipped string
  | EvalBudgetExceeded string
  | RequestDataNotFound string
  | ObjectNotFound string
  | QueueSaturated string int int
  | SsrfViolation string
  | AcceptError int string "secs option"
  | HTTPException int string
  | IntegrityError
  | AttributeError string
  | ZeroDivisionError
  | IndexError string
  | OverflowError

type_synonym 'a res = "exn + 'a"

fun bind_res :: "'a res \<Rightarrow> ('a \<Rightarrow> 'b res) \<Rightarrow> 'b res" where
  "bind_res (Inl e) f = Inl e"
| "bind_res (Inr x) f = f x"

lemma bind_res_Inr_iff: "bind_res r f = Inr y \<longleftrightarrow> (\<exists>x. r = Inr x \<and> f x = Inr y)"
  by (cases r) auto

subsection \<open>The standard library\<close>

text \<open>
  Functions of Python's standard library the gateway calls, passed along as a record; \<open>cpython\<close> of the theory \<open>Python\<close> fills in the
  digests and the texts of times:
  \<^item> \<open>lib_sha256 s\<close>: the 64 hexadecimal digits of SHA-256 of the UTF-8 bytes of \<open>s\<close>;
  \<^item> \<open>lib_float s\<close>: \<open>float(s)\<close> for a finite numeral, \<open>None\<close> where it raises \<open>ValueError\<close>;
  \<^item> \<open>lib_float_repr x\<close>: the text of the float \<open>x\<close> in a JSON column;
  \<^item> \<open>lib_http_date s\<close>: the timestamp of \<open>email.utils.parsedate_to_datetime(s)\<close>, \<open>None\<close> where it
    raises or yields nothing;
  \<^item> \<open>lib_isoformat t\<close>, \<open>lib_datetime_str t\<close>: \<open>datetime.isoformat()\<close> and \<open>str(datetime)\<close> of a UTC time;
  \<^item> \<open>lib_ymd t\<close>: the UTC date as \<open>YYYYMMDD\<close>;
  \<^item> \<open>lib_strftime t\<close>: the UTC wall clock as \<open>%Y-%m-%dT%H:%M:%S.%f\<close>;
  \<^item> \<open>lib_hmac k m\<close>: the hexadecimal HMAC-SHA-256 of the message \<open>m\<close> under the key \<open>k\<close>.
\<close>

record pylib =
  lib_sha256 :: "string \<Rightarrow> string"
  lib_float :: "string \<Rightarrow> rat option"
  lib_float_repr :: "rat \<Rightarrow> string"
  lib_http_date :: "string \<Rightarrow> time option"
  lib_isoformat :: "time \<Rightarrow> string"
  lib_datetime_str :: "time \<Rightarrow> string"
  lib_ymd :: "time \<Rightarrow> string"
  lib_strftime :: "time \<Rightarrow> string"
  lib_hmac :: "string \<Rightarrow> string \<Rightarrow> string"

text \<open>
  An instance used only to evaluate the model on concrete inputs in the witnesses.
\<close>

definition sample_lib :: pylib where
  "sample_lib = \<lparr>lib_sha256 = (\<lambda>s. s), lib_float = (\<lambda>_. None), lib_float_repr = (\<lambda>_. ''0.5''), lib_http_date = (\<lambda>_. None),
     lib_isoformat = (\<lambda>_. ''t''), lib_datetime_str = (\<lambda>_. ''t''), lib_ymd = (\<lambda>_. ''20260101''),
     lib_strftime = (\<lambda>_. ''t''), lib_hmac = (\<lambda>k m. CHR ''h'' # k @ m)\<rparr>"

subsection \<open>Generic list facts\<close>

lemma find_map_same:
  "(\<And>x. P (f x) = P x) \<Longrightarrow> find P (List.map f xs) = map_option f (find P xs)"
  by (induction xs) auto

end
