(* ===== verification/Domain.thy ===== *)
theory Domain
  imports Prelude
begin

text \<open>
  \<open>domain/enums.py\<close> and \<open>domain/state_machine.py\<close>: the status values of a task, the sets the rest
  of the gateway reads (business terminal, internal terminal, retry pending, unknown), the
  transition whitelist and its accessors, and the laws of the whitelist: terminal statuses are
  final up to the human close of \<open>dead_awaiting_confirm\<close>, the value shown to the caller never
  changes once a task is terminal, and no active status is a dead end.
\<close>

subsection \<open>enums.py\<close>

datatype task_status =
    ACCEPTED
  | UPSTREAM_SUBMITTED
  | IN_PROGRESS
  | SUBMIT_UNKNOWN
  | POLL_UNRECOGNIZED
  | FAILED
  | SUCCEEDED
  | CANCELLED
  | TIMEOUT
  | DEAD
  | DEAD_AWAITING_CONFIRM

fun status_value :: "task_status \<Rightarrow> string" where
  "status_value ACCEPTED = ''accepted''"
| "status_value UPSTREAM_SUBMITTED = ''upstream_submitted''"
| "status_value IN_PROGRESS = ''in_progress''"
| "status_value SUBMIT_UNKNOWN = ''submit_unknown''"
| "status_value POLL_UNRECOGNIZED = ''poll_unrecognized''"
| "status_value FAILED = ''failed''"
| "status_value SUCCEEDED = ''succeeded''"
| "status_value CANCELLED = ''cancelled''"
| "status_value TIMEOUT = ''timeout''"
| "status_value DEAD = ''dead''"
| "status_value DEAD_AWAITING_CONFIRM = ''dead_awaiting_confirm''"

text \<open>\<open>for s in TaskStatus\<close> visits the members in declaration order: the type's \<open>enum\<close> list.\<close>

instantiation task_status :: enum
begin

definition enum_task_status :: "task_status list" where
  "enum_task_status = [ACCEPTED, UPSTREAM_SUBMITTED, IN_PROGRESS, SUBMIT_UNKNOWN, POLL_UNRECOGNIZED,
     FAILED, SUCCEEDED, CANCELLED, TIMEOUT, DEAD, DEAD_AWAITING_CONFIRM]"

definition enum_all_task_status :: "(task_status \<Rightarrow> bool) \<Rightarrow> bool" where
  "enum_all_task_status P \<longleftrightarrow> list_all P enum_class.enum"

definition enum_ex_task_status :: "(task_status \<Rightarrow> bool) \<Rightarrow> bool" where
  "enum_ex_task_status P \<longleftrightarrow> list_ex P enum_class.enum"

instance
proof
  show U: "(UNIV :: task_status set) = set enum_class.enum"
  proof (rule UNIV_eq_I)
    fix s :: task_status
    show "s \<in> set enum_class.enum"
      by (cases s) (simp_all add: enum_task_status_def)
  qed
  show "distinct (enum_class.enum :: task_status list)"
    by (simp add: enum_task_status_def)
  fix P :: "task_status \<Rightarrow> bool"
  show "enum_class.enum_all P = Ball UNIV P"
    by (simp add: enum_all_task_status_def list_all_iff U)
  show "enum_class.enum_ex P = Bex UNIV P"
    by (simp add: enum_ex_task_status_def list_ex_iff U)
qed

end

datatype output_terminal = OUT_IN_PROGRESS | OUT_SUCCEEDED | OUT_FAILED

fun output_terminal_value :: "output_terminal \<Rightarrow> string" where
  "output_terminal_value OUT_IN_PROGRESS = ''in_progress''"
| "output_terminal_value OUT_SUCCEEDED = ''succeeded''"
| "output_terminal_value OUT_FAILED = ''failed''"

datatype origin = ORIGIN_USER | ORIGIN_DRY_RUN | ORIGIN_REPLAY

fun origin_value :: "origin \<Rightarrow> string" where
  "origin_value ORIGIN_USER = ''user''"
| "origin_value ORIGIN_DRY_RUN = ''dry_run''"
| "origin_value ORIGIN_REPLAY = ''replay''"

datatype error_class =
    CLS_RETRY_SAFE | CLS_FAIL_FAST | CLS_CONFIRM_REQUIRED | CLS_RATE_LIMITED | CLS_CHANNEL_FAULT

datatype error_code =
    EC_UPSTREAM_4XX | EC_UPSTREAM_5XX | EC_UPSTREAM_TERMINAL | EC_TRANSPORT | EC_RATE_LIMITED
  | EC_TIMEOUT | EC_CANCELLED | EC_TRANSFER_FAILED | EC_UNKNOWN_EXHAUSTED | EC_REQUEST_LOST

fun error_code_value :: "error_code \<Rightarrow> string" where
  "error_code_value EC_UPSTREAM_4XX = ''UPSTREAM_4XX''"
| "error_code_value EC_UPSTREAM_5XX = ''UPSTREAM_5XX''"
| "error_code_value EC_UPSTREAM_TERMINAL = ''UPSTREAM_TERMINAL''"
| "error_code_value EC_TRANSPORT = ''TRANSPORT''"
| "error_code_value EC_RATE_LIMITED = ''RATE_LIMITED''"
| "error_code_value EC_TIMEOUT = ''TIMEOUT''"
| "error_code_value EC_CANCELLED = ''CANCELLED''"
| "error_code_value EC_TRANSFER_FAILED = ''TRANSFER_FAILED''"
| "error_code_value EC_UNKNOWN_EXHAUSTED = ''UNKNOWN_EXHAUSTED''"
| "error_code_value EC_REQUEST_LOST = ''REQUEST_LOST''"

definition INTERNAL_TERMINAL :: "task_status set" where
  "INTERNAL_TERMINAL = {TIMEOUT, DEAD, DEAD_AWAITING_CONFIRM}"

definition BUSINESS_TERMINAL :: "task_status set" where
  "BUSINESS_TERMINAL = {SUCCEEDED, CANCELLED, TIMEOUT, DEAD, DEAD_AWAITING_CONFIRM}"

definition RETRY_PENDING :: "task_status set" where
  "RETRY_PENDING = {FAILED}"

definition UNKNOWN_STATES :: "task_status set" where
  "UNKNOWN_STATES = {SUBMIT_UNKNOWN, POLL_UNRECOGNIZED}"

subsection \<open>state\_machine.py\<close>

fun ALLOWED_TRANSITIONS :: "task_status \<Rightarrow> task_status set" where
  "ALLOWED_TRANSITIONS ACCEPTED =
     {UPSTREAM_SUBMITTED, CANCELLED, SUBMIT_UNKNOWN, DEAD, DEAD_AWAITING_CONFIRM, TIMEOUT}"
| "ALLOWED_TRANSITIONS UPSTREAM_SUBMITTED =
     {IN_PROGRESS, SUCCEEDED, FAILED, CANCELLED, TIMEOUT, DEAD, DEAD_AWAITING_CONFIRM,
      SUBMIT_UNKNOWN, POLL_UNRECOGNIZED}"
| "ALLOWED_TRANSITIONS IN_PROGRESS =
     {SUCCEEDED, FAILED, CANCELLED, TIMEOUT, DEAD, DEAD_AWAITING_CONFIRM, POLL_UNRECOGNIZED,
      SUBMIT_UNKNOWN}"
| "ALLOWED_TRANSITIONS SUBMIT_UNKNOWN = {UPSTREAM_SUBMITTED, DEAD_AWAITING_CONFIRM, ACCEPTED}"
| "ALLOWED_TRANSITIONS POLL_UNRECOGNIZED =
     {IN_PROGRESS, DEAD_AWAITING_CONFIRM, TIMEOUT, SUCCEEDED, FAILED}"
| "ALLOWED_TRANSITIONS FAILED =
     {UPSTREAM_SUBMITTED, SUBMIT_UNKNOWN, DEAD, DEAD_AWAITING_CONFIRM, CANCELLED}"
| "ALLOWED_TRANSITIONS SUCCEEDED = {}"
| "ALLOWED_TRANSITIONS CANCELLED = {}"
| "ALLOWED_TRANSITIONS TIMEOUT = {}"
| "ALLOWED_TRANSITIONS DEAD = {}"
| "ALLOWED_TRANSITIONS DEAD_AWAITING_CONFIRM = {DEAD}"

definition WRITE_PATHS :: "task_status set dict" where
  "WRITE_PATHS =
    [(''cancel_requested'', {ACCEPTED, UPSTREAM_SUBMITTED, IN_PROGRESS, SUBMIT_UNKNOWN}),
     (''submit_intent'', {ACCEPTED}),
     (''submit_ok'', {ACCEPTED}),
     (''cancel_after_submit'', {UPSTREAM_SUBMITTED, IN_PROGRESS}),
     (''advance'', UNIV - BUSINESS_TERMINAL),
     (''store_result'', {SUCCEEDED}),
     (''next_poll_at'', {ACCEPTED, UPSTREAM_SUBMITTED, IN_PROGRESS, SUBMIT_UNKNOWN,
        POLL_UNRECOGNIZED, FAILED}),
     (''compensate_relocate'', {SUBMIT_UNKNOWN}),
     (''replay_child'', {DEAD, DEAD_AWAITING_CONFIRM})]"

definition can_transition :: "task_status \<Rightarrow> task_status \<Rightarrow> bool" where
  "can_transition src dst \<longleftrightarrow> dst \<in> ALLOWED_TRANSITIONS src"

definition assert_transition :: "task_status \<Rightarrow> task_status \<Rightarrow> unit res" where
  "assert_transition src dst =
     (if can_transition src dst then Inr ()
      else Inl (TransitionError (status_value src) (status_value dst)))"

definition is_business_terminal :: "task_status \<Rightarrow> bool" where
  "is_business_terminal s \<longleftrightarrow> s \<in> BUSINESS_TERMINAL"

definition is_internal_terminal :: "task_status \<Rightarrow> bool" where
  "is_internal_terminal s \<longleftrightarrow> s \<in> INTERNAL_TERMINAL"

definition is_terminal_for_output :: "task_status \<Rightarrow> bool" where
  "is_terminal_for_output s \<longleftrightarrow> is_business_terminal s"

definition output_terminal :: "task_status \<Rightarrow> output_terminal" where
  "output_terminal s =
     (if s = SUCCEEDED then OUT_SUCCEEDED
      else if s \<in> BUSINESS_TERMINAL \<or> s = FAILED then OUT_FAILED
      else OUT_IN_PROGRESS)"

definition allowed_targets :: "task_status \<Rightarrow> task_status set" where
  "allowed_targets s = ALLOWED_TRANSITIONS s"

subsection \<open>Library facts\<close>

lemmas status_sets [gw_defs] = BUSINESS_TERMINAL_def INTERNAL_TERMINAL_def RETRY_PENDING_def
  UNKNOWN_STATES_def is_business_terminal_def is_internal_terminal_def

lemma status_value_inj [simp]: "status_value s = status_value t \<longleftrightarrow> s = t"
  by (cases s; cases t; simp)

lemma all_status: "(\<forall>s. P s) \<longleftrightarrow> list_all P (enum_class.enum :: task_status list)"
  by (simp add: list_all_iff enum_UNIV)

lemma assert_transition_Inr [simp]: "assert_transition s t = Inr u \<longleftrightarrow> can_transition s t"
  by (simp add: assert_transition_def)

lemma can_transition_from_terminal:
  "is_business_terminal s \<Longrightarrow> can_transition s t \<Longrightarrow> s = DEAD_AWAITING_CONFIRM \<and> t = DEAD"
  by (cases s) (auto simp: can_transition_def gw_defs)

lemma can_transition_irrefl: "\<not> can_transition s s"
  by (cases s) (simp_all add: can_transition_def)

lemma can_transition_succeeded:
  "can_transition s SUCCEEDED \<longleftrightarrow> s \<in> {UPSTREAM_SUBMITTED, IN_PROGRESS, POLL_UNRECOGNIZED}"
  by (cases s) (simp_all add: can_transition_def)

lemma evolves_from_terminal:
  assumes "can_transition\<^sup>*\<^sup>* s t" and "is_business_terminal s"
  shows "t = s \<or> (s = DEAD_AWAITING_CONFIRM \<and> t = DEAD)"
  using assms
proof (induction rule: rtranclp_induct)
  case base
  then show ?case by simp
next
  case (step t u)
  then have "is_business_terminal t"
    by (auto simp: gw_defs)
  with step can_transition_from_terminal [of t u] show ?case by auto
qed

end
