(* ===== verification/Json.thy ===== *)
theory Json
  imports Prelude "HOL-Library.Char_ord" "HOL-Library.List_Lexorder"
begin

text \<open>
  The JSON values the gateway moves around (\<open>json.loads\<close> results held in Python objects), with the
  operations the source applies to them: truth value, \<open>str\<close>, \<open>json.dumps\<close> (with and without
  \<open>sort_keys\<close> and compact separators, always \<open>ensure_ascii=False\<close>) and the length in bytes of its
  UTF-8 encoding. A JSON number with a fraction or an exponent is a Python \<open>float\<close>; only its
  \<open>repr\<close> is ever used, so \<open>JFloat\<close> carries that text.
\<close>

datatype json =
    JNull
  | JBool bool
  | JInt int
  | JFloat string
  | JStr string
  | JArr "json list"
  | JObj "(string \<times> json) list"

type_synonym jobj = "json dict"

fun is_dict :: "json \<Rightarrow> bool" where
  "is_dict (JObj _) = True"
| "is_dict _ = False"

text \<open>\<open>bool(v)\<close>; a float is false when it is a zero.\<close>

fun truthy :: "json \<Rightarrow> bool" where
  "truthy JNull = False"
| "truthy (JBool b) = b"
| "truthy (JInt i) = (i \<noteq> 0)"
| "truthy (JFloat t) = (t \<noteq> ''0.0'' \<and> t \<noteq> ''-0.0'')"
| "truthy (JStr s) = (s \<noteq> [])"
| "truthy (JArr xs) = (xs \<noteq> [])"
| "truthy (JObj kvs) = (kvs \<noteq> [])"

subsection \<open>\<open>str\<close> and \<open>repr\<close>\<close>

definition hex_char :: "nat \<Rightarrow> char" where
  "hex_char d = (if d < 10 then char_of (48 + d) else char_of (87 + d))"

definition hex2 :: "nat \<Rightarrow> string" where
  "hex2 n = [hex_char (n div 16), hex_char (n mod 16)]"

definition repr_char :: "char \<Rightarrow> char \<Rightarrow> string" where
  "repr_char q c = (let n = (of_char c :: nat) in
     if c = q \<or> n = 92 then [CHR 0x5C, c]
     else if n = 9 then [CHR 0x5C, CHR ''t'']
     else if n = 10 then [CHR 0x5C, CHR ''n'']
     else if n = 13 then [CHR 0x5C, CHR ''r'']
     else if n < 32 \<or> (127 \<le> n \<and> n \<le> 160) \<or> n = 173 then [CHR 0x5C, CHR ''x''] @ hex2 n
     else [c])"

definition repr_str :: "string \<Rightarrow> string" where
  "repr_str s = (let q = (if CHR 0x27 \<in> set s \<and> CHR 0x22 \<notin> set s then CHR 0x22 else CHR 0x27)
     in q # List.concat (List.map (repr_char q) s) @ [q])"

fun py_repr :: "json \<Rightarrow> string"
and repr_items :: "json list \<Rightarrow> string list"
and repr_fields :: "(string \<times> json) list \<Rightarrow> string list" where
  "py_repr JNull = ''None''"
| "py_repr (JBool b) = (if b then ''True'' else ''False'')"
| "py_repr (JInt i) = show_int i"
| "py_repr (JFloat t) = t"
| "py_repr (JStr s) = repr_str s"
| "py_repr (JArr xs) = ''['' @ join '', '' (repr_items xs) @ '']''"
| "py_repr (JObj kvs) = ''{'' @ join '', '' (repr_fields kvs) @ ''}''"
| "repr_items [] = []"
| "repr_items (x # xs) = py_repr x # repr_items xs"
| "repr_fields [] = []"
| "repr_fields ((k, v) # kvs) = (repr_str k @ '': '' @ py_repr v) # repr_fields kvs"

fun py_str :: "json \<Rightarrow> string" where
  "py_str (JStr s) = s"
| "py_str v = py_repr v"

subsection \<open>\<open>json.dumps\<close>\<close>

text \<open>The floats that are no numbers have names of their own in JSON.\<close>

definition float_text :: "string \<Rightarrow> string" where
  "float_text t = (if t = ''nan'' then ''NaN'' else if t = ''inf'' then ''Infinity'' else if t = ''-inf'' then ''-Infinity'' else t)"

definition dumps_char :: "char \<Rightarrow> string" where
  "dumps_char c = (let n = (of_char c :: nat) in
     if n = 34 \<or> n = 92 then [CHR 0x5C, c]
     else if n = 8 then [CHR 0x5C, CHR ''b'']
     else if n = 9 then [CHR 0x5C, CHR ''t'']
     else if n = 10 then [CHR 0x5C, CHR ''n'']
     else if n = 12 then [CHR 0x5C, CHR ''f'']
     else if n = 13 then [CHR 0x5C, CHR ''r'']
     else if n < 32 then [CHR 0x5C, CHR ''u'', CHR ''0'', CHR ''0''] @ hex2 n
     else [c])"

definition dumps_str :: "string \<Rightarrow> string" where
  "dumps_str s = CHR 0x22 # List.concat (List.map dumps_char s) @ [CHR 0x22]"

text \<open>
  \<open>sk\<close> is \<open>sort_keys=True\<close>; \<open>cs\<close> is \<open>separators=(",", ":")\<close>. Sorting the fields after they are
  rendered keeps the recursion structural: the keys travel with the rendered fields.
\<close>

definition sort_fields :: "bool \<Rightarrow> (string \<times> string) list \<Rightarrow> (string \<times> string) list" where
  "sort_fields sk kvs = (if sk then sort_key fst kvs else kvs)"

definition item_sep :: "bool \<Rightarrow> string" where
  "item_sep cs = (if cs then '','' else '', '')"

definition key_sep :: "bool \<Rightarrow> string" where
  "key_sep cs = (if cs then '':'' else '': '')"

fun dumps :: "bool \<Rightarrow> bool \<Rightarrow> json \<Rightarrow> string"
and dumps_items :: "bool \<Rightarrow> bool \<Rightarrow> json list \<Rightarrow> string list"
and dumps_fields :: "bool \<Rightarrow> bool \<Rightarrow> (string \<times> json) list \<Rightarrow> (string \<times> string) list" where
  "dumps sk cs JNull = ''null''"
| "dumps sk cs (JBool b) = (if b then ''true'' else ''false'')"
| "dumps sk cs (JInt i) = show_int i"
| "dumps sk cs (JFloat t) = float_text t"
| "dumps sk cs (JStr s) = dumps_str s"
| "dumps sk cs (JArr xs) =
     ''['' @ join (item_sep cs) (dumps_items sk cs xs) @ '']''"
| "dumps sk cs (JObj kvs) =
     ''{'' @ join (item_sep cs)
       (List.map (\<lambda>(k, t). dumps_str k @ key_sep cs @ t)
         (sort_fields sk (dumps_fields sk cs kvs))) @ ''}''"
| "dumps_items sk cs [] = []"
| "dumps_items sk cs (x # xs) = dumps sk cs x # dumps_items sk cs xs"
| "dumps_fields sk cs [] = []"
| "dumps_fields sk cs ((k, v) # kvs) =
     (k, dumps sk cs v) # dumps_fields sk cs kvs"

definition utf8_length :: "string \<Rightarrow> nat" where
  "utf8_length s = sum_list (List.map (\<lambda>c. if (of_char c :: nat) < 128 then 1 else 2) s)"

lemma utf8_length_ge: "List.length s \<le> utf8_length s"
  by (induction s) (auto simp: utf8_length_def)

end
