(* ===== verification/Models.thy ===== *)
theory Models
  imports Domain Json
begin

text \<open>
  \<open>db/models.py\<close>: the rows of the gateway's tables, one record per table with the columns of the
  source, and the column assignments an \<open>UPDATE\<close> statement makes. A status column holds a member
  of \<open>TaskStatus\<close> and an error code column a member of \<open>ErrorCode\<close> (every writer stores a
  \<open>.value\<close>), so they are typed by those enumerations.
\<close>

subsection \<open>async\_task\<close>

record task =
  task_id :: string
  idempotency_key :: string
  idempotency_bucket :: int
  idempotency_window_seconds :: int
  tenant :: string
  channel :: string
  task_type :: string
  status :: task_status
  row_version :: int
  template_alias :: string
  template_version :: int
  upstream_task_id :: "string option"
  attempts :: int
  max_attempts :: int
  submit_started_at :: "time option"
  deadline_at :: "time option"
  origin :: origin
  replay_of :: "string option"
  callback_token :: "string option"
  create_req_ref :: "string option"
  create_req_digest :: "string option"
  result_ref :: "string option"
  result_summary :: "jobj option"
  result_degraded :: "json option"
  status_snapshot :: "json option"
  status_snapshot_at :: "time option"
  raw_status :: "string option"
  final_output_status :: "string option"
  error_code :: "error_code option"
  error_message :: "string option"
  retryable :: "bool option"
  cancel_requested :: bool
  cancel_requested_at :: "time option"
  unknown_since :: "time option"
  confirm_attempts :: int
  last_confirmed_at :: "time option"
  poll_count :: int
  next_poll_at :: "time option"
  last_polled_at :: "time option"
  created_at :: time
  updated_at :: time
  started_at :: "time option"
  finished_at :: "time option"
  trace_id :: "string option"
  attributes :: "jobj option"

text \<open>\<open>task.attributes or {}\<close>.\<close>

definition attributes_of :: "task \<Rightarrow> jobj" where
  "attributes_of t = (case attributes t of None \<Rightarrow> [] | Some a \<Rightarrow> a)"

text \<open>The row as \<open>AsyncTask(...)\<close> builds it from the required columns, with the column defaults.\<close>

definition new_task :: "string \<Rightarrow> string \<Rightarrow> int \<Rightarrow> string \<Rightarrow> string \<Rightarrow> time \<Rightarrow> task" where
  "new_task tid key bucket chan alias now =
    \<lparr>task_id = tid, idempotency_key = key, idempotency_bucket = bucket,
     idempotency_window_seconds = 86400, tenant = ''default'', channel = chan,
     task_type = ''default'', status = ACCEPTED, row_version = 0, template_alias = alias,
     template_version = 1, upstream_task_id = None, attempts = 0, max_attempts = 3,
     submit_started_at = None, deadline_at = None, origin = ORIGIN_USER, replay_of = None,
     callback_token = None, create_req_ref = None, create_req_digest = None, result_ref = None,
     result_summary = None, result_degraded = None, status_snapshot = None,
     status_snapshot_at = None, raw_status = None, final_output_status = None, error_code = None,
     error_message = None, retryable = None, cancel_requested = False, cancel_requested_at = None,
     unknown_since = None, confirm_attempts = 0, last_confirmed_at = None, poll_count = 0,
     next_poll_at = None, last_polled_at = None, created_at = now, updated_at = now,
     started_at = None, finished_at = None, trace_id = None, attributes = None\<rparr>"

definition is_terminal :: "task \<Rightarrow> bool" where
  "is_terminal t \<longleftrightarrow> status t \<in> {SUCCEEDED, CANCELLED, TIMEOUT, DEAD, DEAD_AWAITING_CONFIRM}"

subsection \<open>The other tables\<close>

record callback_event =
  cb_channel :: string
  cb_dedup_key :: string
  cb_upstream_task_id :: "string option"
  cb_raw_status :: "string option"
  cb_kid :: "string option"
  cb_payload :: "json option"
  cb_received_at :: time

record orphan_callback =
  oc_channel :: string
  oc_upstream_task_id :: string
  oc_raw_status :: "string option"
  oc_payload :: "json option"
  oc_received_at :: time
  oc_resolved :: bool
  oc_resolved_task_id :: "string option"
  oc_resolved_at :: "time option"

record template_row =
  tr_alias :: string
  tr_namespace :: string
  tr_version :: int
  tr_enabled :: bool
  tr_config :: jobj
  tr_config_hash :: string
  tr_patch_ids :: "string list"
  tr_canary_weight :: rat
  tr_in_place_patches :: int
  tr_created_by :: "string option"
  tr_approved_by :: "string option"
  tr_updated_at :: time

subsection \<open>Assignments of an UPDATE\<close>

text \<open>
  One constructor per column the DAO writes; the last four are SQL expressions over the row's old
  value. \<open>col_of\<close> is the dictionary key, which is what \<open>setdefault\<close> looks at.
\<close>

datatype assignment =
    SetStatus task_status
  | SetUpdatedAt time
  | SetUpstreamTaskId "string option"
  | SetRawStatus "string option"
  | SetSnapshot "json option"
  | SetSnapshotAt "time option"
  | SetStartedAt "time option"
  | SetNextPollAt "time option"
  | SetErrorCode "error_code option"
  | SetErrorMessage "string option"
  | SetFinishedAt "time option"
  | SetRetryable "bool option"
  | SetUnknownSince "time option"
  | SetSubmitStartedAt "time option"
  | SetDeadlineAt "time option"
  | SetCancelRequested bool
  | SetCancelRequestedAt "time option"
  | SetResultRef "string option"
  | SetResultSummary "jobj option"
  | SetResultDegraded "json option"
  | SetAttributes "jobj option"
  | SetPollCount int
  | SetLastPolledAt "time option"
  | SetLastConfirmedAt "time option"
  | IncRowVersion
  | IncAttempts
  | DecAttempts
  | IncPollCount
  | IncConfirmAttempts

datatype column =
    C_status | C_updated_at | C_upstream_task_id | C_raw_status | C_status_snapshot
  | C_status_snapshot_at | C_started_at | C_next_poll_at | C_error_code | C_error_message
  | C_finished_at | C_retryable | C_unknown_since | C_submit_started_at | C_deadline_at
  | C_cancel_requested | C_cancel_requested_at | C_result_ref | C_result_summary
  | C_result_degraded | C_attributes | C_poll_count | C_last_polled_at | C_last_confirmed_at
  | C_row_version | C_attempts | C_confirm_attempts

fun col_of :: "assignment \<Rightarrow> column" where
  "col_of (SetStatus _) = C_status"
| "col_of (SetUpdatedAt _) = C_updated_at"
| "col_of (SetUpstreamTaskId _) = C_upstream_task_id"
| "col_of (SetRawStatus _) = C_raw_status"
| "col_of (SetSnapshot _) = C_status_snapshot"
| "col_of (SetSnapshotAt _) = C_status_snapshot_at"
| "col_of (SetStartedAt _) = C_started_at"
| "col_of (SetNextPollAt _) = C_next_poll_at"
| "col_of (SetErrorCode _) = C_error_code"
| "col_of (SetErrorMessage _) = C_error_message"
| "col_of (SetFinishedAt _) = C_finished_at"
| "col_of (SetRetryable _) = C_retryable"
| "col_of (SetUnknownSince _) = C_unknown_since"
| "col_of (SetSubmitStartedAt _) = C_submit_started_at"
| "col_of (SetDeadlineAt _) = C_deadline_at"
| "col_of (SetCancelRequested _) = C_cancel_requested"
| "col_of (SetCancelRequestedAt _) = C_cancel_requested_at"
| "col_of (SetResultRef _) = C_result_ref"
| "col_of (SetResultSummary _) = C_result_summary"
| "col_of (SetResultDegraded _) = C_result_degraded"
| "col_of (SetAttributes _) = C_attributes"
| "col_of (SetPollCount _) = C_poll_count"
| "col_of (SetLastPolledAt _) = C_last_polled_at"
| "col_of (SetLastConfirmedAt _) = C_last_confirmed_at"
| "col_of IncRowVersion = C_row_version"
| "col_of IncAttempts = C_attempts"
| "col_of DecAttempts = C_attempts"
| "col_of IncPollCount = C_poll_count"
| "col_of IncConfirmAttempts = C_confirm_attempts"

text \<open>\<open>_decremented_attempts\<close>: \<open>CASE WHEN attempts - 1 > 0 THEN attempts - 1 ELSE 0 END\<close>.\<close>

definition decremented_attempts :: "int \<Rightarrow> int" where
  "decremented_attempts n = (if n - 1 > 0 then n - 1 else 0)"

fun assign :: "assignment \<Rightarrow> task \<Rightarrow> task" where
  "assign (SetStatus s) t = t\<lparr>status := s\<rparr>"
| "assign (SetUpdatedAt x) t = t\<lparr>updated_at := x\<rparr>"
| "assign (SetUpstreamTaskId x) t = t\<lparr>upstream_task_id := x\<rparr>"
| "assign (SetRawStatus x) t = t\<lparr>raw_status := x\<rparr>"
| "assign (SetSnapshot x) t = t\<lparr>status_snapshot := x\<rparr>"
| "assign (SetSnapshotAt x) t = t\<lparr>status_snapshot_at := x\<rparr>"
| "assign (SetStartedAt x) t = t\<lparr>started_at := x\<rparr>"
| "assign (SetNextPollAt x) t = t\<lparr>next_poll_at := x\<rparr>"
| "assign (SetErrorCode x) t = t\<lparr>error_code := x\<rparr>"
| "assign (SetErrorMessage x) t = t\<lparr>error_message := x\<rparr>"
| "assign (SetFinishedAt x) t = t\<lparr>finished_at := x\<rparr>"
| "assign (SetRetryable x) t = t\<lparr>retryable := x\<rparr>"
| "assign (SetUnknownSince x) t = t\<lparr>unknown_since := x\<rparr>"
| "assign (SetSubmitStartedAt x) t = t\<lparr>submit_started_at := x\<rparr>"
| "assign (SetDeadlineAt x) t = t\<lparr>deadline_at := x\<rparr>"
| "assign (SetCancelRequested x) t = t\<lparr>cancel_requested := x\<rparr>"
| "assign (SetCancelRequestedAt x) t = t\<lparr>cancel_requested_at := x\<rparr>"
| "assign (SetResultRef x) t = t\<lparr>result_ref := x\<rparr>"
| "assign (SetResultSummary x) t = t\<lparr>result_summary := x\<rparr>"
| "assign (SetResultDegraded x) t = t\<lparr>result_degraded := x\<rparr>"
| "assign (SetAttributes x) t = t\<lparr>attributes := x\<rparr>"
| "assign (SetPollCount x) t = t\<lparr>poll_count := x\<rparr>"
| "assign (SetLastPolledAt x) t = t\<lparr>last_polled_at := x\<rparr>"
| "assign (SetLastConfirmedAt x) t = t\<lparr>last_confirmed_at := x\<rparr>"
| "assign IncRowVersion t = t\<lparr>row_version := row_version t + 1\<rparr>"
| "assign IncAttempts t = t\<lparr>attempts := attempts t + 1\<rparr>"
| "assign DecAttempts t = t\<lparr>attempts := decremented_attempts (attempts t)\<rparr>"
| "assign IncPollCount t = t\<lparr>poll_count := poll_count t + 1\<rparr>"
| "assign IncConfirmAttempts t = t\<lparr>confirm_attempts := confirm_attempts t + 1\<rparr>"

definition has_col :: "column \<Rightarrow> assignment list \<Rightarrow> bool" where
  "has_col c vs \<longleftrightarrow> c \<in> set (List.map col_of vs)"

text \<open>\<open>payload.setdefault(key, value)\<close>.\<close>

definition set_default :: "assignment \<Rightarrow> assignment list \<Rightarrow> assignment list" where
  "set_default a vs = (if has_col (col_of a) vs then vs else vs @ [a])"

definition assign_all :: "assignment list \<Rightarrow> task \<Rightarrow> task" where
  "assign_all vs t = fold assign vs t"

subsection \<open>Frame facts\<close>

lemma assign_task_id [simp]: "task_id (assign a t) = task_id t"
  by (cases a) simp_all

lemma assign_all_task_id [simp]: "task_id (assign_all vs t) = task_id t"
  by (induction vs arbitrary: t) (simp_all add: assign_all_def)

lemma assign_status: "col_of a \<noteq> C_status \<Longrightarrow> status (assign a t) = status t"
  by (cases a) simp_all

lemma assign_all_status: "\<not> has_col C_status vs \<Longrightarrow> status (assign_all vs t) = status t"
  by (induction vs arbitrary: t) (auto simp: assign_all_def has_col_def assign_status)

lemma assign_all_Nil [simp]: "assign_all [] t = t"
  by (simp add: assign_all_def)

lemma assign_all_Cons [simp]: "assign_all (a # vs) t = assign_all vs (assign a t)"
  by (simp add: assign_all_def)

lemma assign_all_append [simp]: "assign_all (vs @ ws) t = assign_all ws (assign_all vs t)"
  by (simp add: assign_all_def)

lemma has_col_Nil [simp]: "\<not> has_col c []"
  by (simp add: has_col_def)

lemma has_col_Cons [simp]: "has_col c (a # vs) \<longleftrightarrow> col_of a = c \<or> has_col c vs"
  by (auto simp: has_col_def)

lemma has_col_append [simp]: "has_col c (vs @ ws) \<longleftrightarrow> has_col c vs \<or> has_col c ws"
  by (auto simp: has_col_def)

lemma has_col_set_default [simp]:
  "has_col c (set_default a vs) \<longleftrightarrow> has_col c vs \<or> col_of a = c"
  by (auto simp: set_default_def)

end
