(* ===== verification/Dao.thy ===== *)
theory Dao
  imports Models
begin

text \<open>
  \<open>db/dao.py\<close>: every conditional update and query of \<open>TaskDAO\<close>, on the table as the list of its
  rows in insertion order. A method runs as one statement; \<open>now\<close> is what \<open>now_utc()\<close> returns
  in it. Where SQL leaves the order of equal keys open, the insertion order is used.

  The contract the callers rely on is the locale \<open>conditional_update\<close>: a conditional write hits
  exactly the rows its condition selects, reports whether it hit any, and a write whose effect
  falsifies its own condition can be won only once. The table interprets it.
\<close>

subsection \<open>The interface: conditional writes\<close>

locale conditional_update =
  fixes rows :: "'s \<Rightarrow> 'r list"
    and update_where :: "('r \<Rightarrow> bool) \<Rightarrow> ('r \<Rightarrow> 'r) \<Rightarrow> 's \<Rightarrow> bool \<times> 's"
  assumes rows_update: "rows (snd (update_where P f s)) = List.map (\<lambda>r. if P r then f r else r) (rows s)"
    and hit_iff: "fst (update_where P f s) \<longleftrightarrow> (\<exists>r \<in> set (rows s). P r)"
begin

lemma miss_unchanged: "\<not> fst (update_where P f s) \<Longrightarrow> rows (snd (update_where P f s)) = rows s"
  by (auto simp: rows_update hit_iff intro: map_idI)

lemma frame:
  "r \<in> set (rows s) \<Longrightarrow> \<not> P r \<Longrightarrow> r \<in> set (rows (snd (update_where P f s)))"
  by (force simp: rows_update)

lemma single_winner:
  assumes "\<And>r. P r \<Longrightarrow> \<not> Q (f r)" and "\<And>r. \<not> P r \<Longrightarrow> \<not> Q r"
  shows "\<not> fst (update_where Q g (snd (update_where P f s)))"
  using assms by (auto simp: hit_iff rows_update)

lemma pointwise:
  assumes "\<And>r. r \<in> set (rows s) \<Longrightarrow> P r \<Longrightarrow> R r (f r)" and "\<And>r. R r r"
  shows "list_all2 R (rows s) (rows (snd (update_where P f s)))"
  using assms by (auto simp: rows_update list_all2_conv_all_nth)

end

type_synonym table = "task list"

definition update_rows :: "(task \<Rightarrow> bool) \<Rightarrow> (task \<Rightarrow> task) \<Rightarrow> table \<Rightarrow> bool \<times> table" where
  "update_rows P f tbl = (list_ex P tbl, List.map (\<lambda>r. if P r then f r else r) tbl)"

interpretation tab: conditional_update "\<lambda>tbl. tbl" update_rows
  by unfold_locales (auto simp: update_rows_def list_ex_iff)

subsection \<open>Constants\<close>

definition ACTIVE_STATUSES :: "task_status list" where
  "ACTIVE_STATUSES = [ACCEPTED, UPSTREAM_SUBMITTED, IN_PROGRESS, SUBMIT_UNKNOWN,
     POLL_UNRECOGNIZED, FAILED]"

fun DISPATCH_BY_STATUS :: "task_status \<Rightarrow> string option" where
  "DISPATCH_BY_STATUS UPSTREAM_SUBMITTED = Some ''poll_upstream''"
| "DISPATCH_BY_STATUS IN_PROGRESS = Some ''poll_upstream''"
| "DISPATCH_BY_STATUS POLL_UNRECOGNIZED = Some ''poll_upstream''"
| "DISPATCH_BY_STATUS SUBMIT_UNKNOWN = Some ''compensate_orphan''"
| "DISPATCH_BY_STATUS FAILED = Some ''submit_upstream''"
| "DISPATCH_BY_STATUS _ = None"

definition ACCEPTED_RESUBMIT_HANDLER :: string where
  "ACCEPTED_RESUBMIT_HANDLER = ''submit_upstream''"

definition CANCEL_PRECONDITIONS :: "task_status list" where
  "CANCEL_PRECONDITIONS = [ACCEPTED, UPSTREAM_SUBMITTED, IN_PROGRESS, SUBMIT_UNKNOWN]"

subsection \<open>Lookups and insertion\<close>

definition get_task :: "string \<Rightarrow> table \<Rightarrow> task option" where
  "get_task tid tbl = find (\<lambda>t. task_id t = tid) tbl"

definition find_by_idempotency :: "string \<Rightarrow> int \<Rightarrow> table \<Rightarrow> task option" where
  "find_by_idempotency key bucket tbl =
     find (\<lambda>t. idempotency_key t = key \<and> idempotency_bucket t = bucket) tbl"

definition find_by_upstream_id :: "string \<Rightarrow> string \<Rightarrow> table \<Rightarrow> task option" where
  "find_by_upstream_id chan uid tbl =
     find (\<lambda>t. channel t = chan \<and> upstream_task_id t = Some uid) tbl"

definition find_by_callback_token :: "string \<Rightarrow> table \<Rightarrow> task option" where
  "find_by_callback_token token tbl = find (\<lambda>t. callback_token t = Some token) tbl"

text \<open>The unique constraints of the table: primary key, (key, bucket), callback token (NULLs apart).\<close>

definition conflicts :: "task \<Rightarrow> task \<Rightarrow> bool" where
  "conflicts t r \<longleftrightarrow> task_id t = task_id r
     \<or> (idempotency_key t = idempotency_key r \<and> idempotency_bucket t = idempotency_bucket r)
     \<or> (callback_token t \<noteq> None \<and> callback_token t = callback_token r)"

definition insert_task :: "task \<Rightarrow> table \<Rightarrow> table res" where
  "insert_task t tbl = (if list_ex (conflicts t) tbl then Inl IntegrityError else Inr (tbl @ [t]))"

subsection \<open>The conditional update\<close>

definition cas :: "time \<Rightarrow> string \<Rightarrow> task_status list \<Rightarrow> assignment list \<Rightarrow> (task \<Rightarrow> bool)
    \<Rightarrow> table \<Rightarrow> bool \<times> table" where
  "cas now tid expected vs extra tbl =
     (if expected = [] then (False, tbl)
      else update_rows (\<lambda>t. task_id t = tid \<and> status t \<in> set expected \<and> extra t)
             (assign_all (IncRowVersion # SetUpdatedAt now # vs)) tbl)"

abbreviation no_extra :: "task \<Rightarrow> bool" where
  "no_extra \<equiv> (\<lambda>_. True)"

definition mark_submit_intent :: "time \<Rightarrow> string \<Rightarrow> table \<Rightarrow> bool \<times> table" where
  "mark_submit_intent now tid tbl =
     cas now tid [ACCEPTED] [SetSubmitStartedAt (Some now), IncAttempts]
       (\<lambda>t. submit_started_at t = None) tbl"

definition mark_submitted :: "time \<Rightarrow> string \<Rightarrow> string \<Rightarrow> string option \<Rightarrow> json option \<Rightarrow> time
    \<Rightarrow> table \<Rightarrow> bool \<times> table" where
  "mark_submitted now tid uid raw snapshot next_at tbl =
     cas now tid [ACCEPTED]
       [SetStatus UPSTREAM_SUBMITTED, SetUpstreamTaskId (Some uid), SetRawStatus raw,
        SetSnapshot snapshot, SetSnapshotAt (Some now), SetStartedAt (Some now),
        SetNextPollAt (Some next_at), SetErrorCode None, SetErrorMessage None]
       (\<lambda>t. submit_started_at t \<noteq> None) tbl"

definition advance_sources :: "task_status \<Rightarrow> task_status list option \<Rightarrow> task_status list" where
  "advance_sources dst expected = (case expected of
       None \<Rightarrow> filter (\<lambda>s. dst \<in> allowed_targets s) enum_class.enum
     | Some ss \<Rightarrow> ss)"

definition advance_payload :: "time \<Rightarrow> task_status \<Rightarrow> assignment list \<Rightarrow> assignment list" where
  "advance_payload now dst vs =
     (let p0 = filter (\<lambda>a. col_of a \<noteq> C_status) vs @ [SetStatus dst];
          p1 = (if dst \<in> INTERNAL_TERMINAL \<or> dst = SUCCEEDED
                then set_default (SetFinishedAt (Some now)) p0 else p0);
          p2 = (if dst = CANCELLED then set_default (SetFinishedAt (Some now)) p1 else p1);
          p3 = (if dst \<noteq> SUCCEEDED \<and> (dst \<in> INTERNAL_TERMINAL \<or> dst = CANCELLED)
                then set_default (SetNextPollAt None) p2 else p2)
      in p3)"

definition advance :: "time \<Rightarrow> string \<Rightarrow> task_status \<Rightarrow> task_status list option \<Rightarrow> assignment list
    \<Rightarrow> table \<Rightarrow> bool res \<times> table" where
  "advance now tid dst expected vs tbl =
     (case find (\<lambda>s. \<not> can_transition s dst) (case expected of None \<Rightarrow> [] | Some ss \<Rightarrow> ss) of
        Some s \<Rightarrow> (Inl (TransitionError (status_value s) (status_value dst)), tbl)
      | None \<Rightarrow> (case cas now tid (advance_sources dst expected) (advance_payload now dst vs)
                   no_extra tbl of (b, tbl') \<Rightarrow> (Inr b, tbl')))"

definition set_cancel_requested :: "time \<Rightarrow> string \<Rightarrow> table \<Rightarrow> bool \<times> table" where
  "set_cancel_requested now tid tbl =
     cas now tid CANCEL_PRECONDITIONS [SetCancelRequested True, SetCancelRequestedAt (Some now)]
       no_extra tbl"

definition cancel_immediately_after_submit :: "time \<Rightarrow> string \<Rightarrow> table \<Rightarrow> bool \<times> table" where
  "cancel_immediately_after_submit now tid tbl =
     cas now tid [UPSTREAM_SUBMITTED, IN_PROGRESS]
       [SetStatus CANCELLED, SetFinishedAt (Some now), SetNextPollAt None]
       (\<lambda>t. cancel_requested t) tbl"

definition set_result_ref :: "time \<Rightarrow> string \<Rightarrow> string \<Rightarrow> jobj option \<Rightarrow> json option
    \<Rightarrow> table \<Rightarrow> bool \<times> table" where
  "set_result_ref now tid ref summary degraded tbl =
     cas now tid [SUCCEEDED]
       [SetResultRef (Some ref), SetResultSummary summary, SetResultDegraded degraded]
       (\<lambda>t. result_ref t = None) tbl"

definition schedule_next_poll :: "time \<Rightarrow> string \<Rightarrow> time \<Rightarrow> table \<Rightarrow> bool \<times> table" where
  "schedule_next_poll now tid np tbl =
     cas now tid ACTIVE_STATUSES [SetNextPollAt (Some np)] no_extra tbl"

definition record_poll_result :: "time \<Rightarrow> string \<Rightarrow> json option \<Rightarrow> string option \<Rightarrow> time option
    \<Rightarrow> task_status list \<Rightarrow> table \<Rightarrow> bool \<times> table" where
  "record_poll_result now tid snapshot raw next_at expected tbl =
     cas now tid expected
       ([SetSnapshot snapshot, SetSnapshotAt (Some now), SetRawStatus raw, IncPollCount,
         SetLastPolledAt (Some now)]
        @ (if next_at \<noteq> None then [SetNextPollAt next_at] else []))
       no_extra tbl"

definition mark_failure :: "time \<Rightarrow> string \<Rightarrow> task_status list \<Rightarrow> error_code \<Rightarrow> string option \<Rightarrow> bool
    \<Rightarrow> time option \<Rightarrow> json option \<Rightarrow> table \<Rightarrow> bool \<times> table" where
  "mark_failure now tid expected code msg retry next_at snapshot tbl =
     cas now tid expected
       ([SetErrorCode (Some code), SetErrorMessage msg, SetRetryable (Some retry),
         SetNextPollAt next_at]
        @ (if snapshot \<noteq> None then [SetSnapshot snapshot, SetSnapshotAt (Some now)] else []))
       no_extra tbl"

text \<open>\<open>expected or [ACCEPTED]\<close>: an absent or empty list means \<open>accepted\<close>.\<close>

definition enter_unknown :: "time \<Rightarrow> string \<Rightarrow> error_code \<Rightarrow> string option \<Rightarrow> task_status list
    \<Rightarrow> table \<Rightarrow> bool res \<times> table" where
  "enter_unknown now tid code msg expected tbl =
     advance now tid SUBMIT_UNKNOWN (Some (if expected = [] then [ACCEPTED] else expected))
       [SetErrorCode (Some code), SetErrorMessage msg, SetUnknownSince (Some now),
        SetNextPollAt (Some now)] tbl"

definition relocate_compensate :: "time \<Rightarrow> string \<Rightarrow> string option \<Rightarrow> task_status \<Rightarrow> string option
    \<Rightarrow> json option \<Rightarrow> time option \<Rightarrow> string option \<Rightarrow> table \<Rightarrow> bool res \<times> table" where
  "relocate_compensate now tid uid target raw snapshot next_at note tbl =
     advance now tid target (Some [SUBMIT_UNKNOWN])
       ([SetLastConfirmedAt (Some now), IncConfirmAttempts]
        @ (case uid of Some (c # u) \<Rightarrow> [SetUpstreamTaskId uid] | _ \<Rightarrow> [])
        @ (if raw \<noteq> None then [SetRawStatus raw] else [])
        @ (if snapshot \<noteq> None then [SetSnapshot snapshot, SetSnapshotAt (Some now)] else [])
        @ (if next_at \<noteq> None then [SetNextPollAt next_at] else [])
        @ (case note of Some (c # n) \<Rightarrow> [SetAttributes (Some [(''compensate_note'', JStr (c # n))])]
             | _ \<Rightarrow> [])
        @ (if target = UPSTREAM_SUBMITTED then [SetUnknownSince None] else [])) tbl"

definition lease_dispatch :: "time \<Rightarrow> string \<Rightarrow> secs \<Rightarrow> task_status list \<Rightarrow> table \<Rightarrow> bool \<times> table" where
  "lease_dispatch now tid lease expected tbl =
     cas now tid expected [SetNextPollAt (Some (now + max 1 lease))]
       (\<lambda>t. case next_poll_at t of None \<Rightarrow> False | Some np \<Rightarrow> np \<le> now) tbl"

definition release_submit_intent :: "time \<Rightarrow> string \<Rightarrow> task_status list \<Rightarrow> time \<Rightarrow> bool
    \<Rightarrow> error_code option \<Rightarrow> string option \<Rightarrow> bool option \<Rightarrow> jobj option \<Rightarrow> time option
    \<Rightarrow> table \<Rightarrow> bool \<times> table" where
  "release_submit_intent now tid expected next_at decrement code msg retry attrs new_deadline tbl =
     cas now tid expected
       ([SetSubmitStartedAt None, SetNextPollAt (Some next_at), SetErrorCode code,
         SetErrorMessage msg, SetRetryable retry]
        @ (if new_deadline \<noteq> None then [SetDeadlineAt new_deadline] else [])
        @ (if decrement then [DecAttempts] else [])
        @ (case attrs of Some (a # as) \<Rightarrow> [SetAttributes attrs] | _ \<Rightarrow> []))
       no_extra tbl"

text \<open>
  \<open>note_attribute\<close> reads the row and then writes the merged dictionary: two statements. The write
  is \<open>write_attributes\<close>; \<open>merged_attributes\<close> is the dictionary computed in between.
\<close>

definition merged_attributes :: "task \<Rightarrow> jobj \<Rightarrow> jobj" where
  "merged_attributes t attrs =
     dict_update (case attributes t of None \<Rightarrow> [] | Some a \<Rightarrow> a) attrs"

definition write_attributes :: "time \<Rightarrow> string \<Rightarrow> jobj \<Rightarrow> table \<Rightarrow> bool \<times> table" where
  "write_attributes now tid merged tbl =
     cas now tid ACTIVE_STATUSES [SetAttributes (Some merged)] no_extra tbl"

definition note_attribute :: "time \<Rightarrow> string \<Rightarrow> jobj \<Rightarrow> table \<Rightarrow> bool \<times> table" where
  "note_attribute now tid attrs tbl = (case get_task tid tbl of
       None \<Rightarrow> (False, tbl)
     | Some t \<Rightarrow> write_attributes now tid (merged_attributes t attrs) tbl)"

definition schedule_transfer_retry :: "time \<Rightarrow> string \<Rightarrow> time \<Rightarrow> int \<Rightarrow> table \<Rightarrow> bool \<times> table" where
  "schedule_transfer_retry now tid next_at n tbl =
     cas now tid [SUCCEEDED]
       [SetNextPollAt (Some next_at), SetAttributes (Some [(''transfer_attempts'', JInt n)])]
       (\<lambda>t. result_ref t = None) tbl"

definition mark_result_unavailable :: "time \<Rightarrow> string \<Rightarrow> string \<Rightarrow> table \<Rightarrow> bool \<times> table" where
  "mark_result_unavailable now tid detail tbl =
     cas now tid [SUCCEEDED]
       [SetResultDegraded (Some (JArr [JStr ''transfer_failed''])),
        SetErrorCode (Some EC_TRANSFER_FAILED), SetErrorMessage (Some (take 500 detail)),
        SetNextPollAt None]
       (\<lambda>t. result_ref t = None) tbl"

end
