(* ===== verification/Queries.thy ===== *)
theory Queries
  imports Dao
begin

text \<open>
  The read side of \<open>TaskDAO\<close> (scheduler and inspector queries), the callback and orphan tables and
  the template rows of \<open>db/dao.py\<close>. \<open>ORDER BY\<close> is a stable sort and \<open>LIMIT\<close> a \<open>take\<close> of it.
\<close>

subsection \<open>Task queries\<close>

definition due :: "time \<Rightarrow> task \<Rightarrow> bool" where
  "due now t \<longleftrightarrow> (case next_poll_at t of None \<Rightarrow> False | Some np \<Rightarrow> np \<le> now)"

definition at_or_before :: "time \<Rightarrow> time option \<Rightarrow> bool" where
  "at_or_before cutoff x \<longleftrightarrow> (case x of None \<Rightarrow> False | Some y \<Rightarrow> y \<le> cutoff)"

definition by_next_poll :: "table \<Rightarrow> table" where
  "by_next_poll ts = sort_key (\<lambda>t. case next_poll_at t of None \<Rightarrow> 0 | Some np \<Rightarrow> np) ts"

definition dispatchable :: "time \<Rightarrow> task \<Rightarrow> bool" where
  "dispatchable now t \<longleftrightarrow>
     (DISPATCH_BY_STATUS (status t) \<noteq> None \<or> (status t = ACCEPTED \<and> submit_started_at t = None))
     \<and> due now t"

definition due_for_dispatch :: "nat \<Rightarrow> time \<Rightarrow> table \<Rightarrow> table" where
  "due_for_dispatch limit now tbl = take limit (by_next_poll (filter (dispatchable now) tbl))"

definition stalled_accepted :: "secs \<Rightarrow> nat \<Rightarrow> time \<Rightarrow> table \<Rightarrow> table" where
  "stalled_accepted stall limit now tbl =
     take limit (sort_key created_at
       (filter (\<lambda>t. status t = ACCEPTED \<and> updated_at t \<le> now - stall) tbl))"

definition is_unknown_status :: "task \<Rightarrow> bool" where
  "is_unknown_status t \<longleftrightarrow> status t = SUBMIT_UNKNOWN \<or> status t = POLL_UNRECOGNIZED"

definition unknown_tasks :: "nat \<Rightarrow> time \<Rightarrow> table \<Rightarrow> table" where
  "unknown_tasks limit now tbl =
     take limit (by_next_poll (filter (\<lambda>t. is_unknown_status t \<and> due now t) tbl))"

text \<open>\<open>GROUP BY\<close>: the keys in order of first appearance, each with its number of rows.\<close>

definition group_count :: "('r \<Rightarrow> 'k) \<Rightarrow> 'r list \<Rightarrow> ('k \<times> int) list" where
  "group_count key rs =
     List.map (\<lambda>k. (k, int (length (filter (\<lambda>r. key r = k) rs)))) (remdups (List.map key rs))"

definition count_unknown_by_channel :: "table \<Rightarrow> (string \<times> int) list" where
  "count_unknown_by_channel tbl = group_count channel (filter is_unknown_status tbl)"

definition over_lifetime_unknown :: "secs \<Rightarrow> nat \<Rightarrow> time \<Rightarrow> table \<Rightarrow> table" where
  "over_lifetime_unknown max_lifetime limit now tbl =
     take limit (filter (\<lambda>t. is_unknown_status t \<and> at_or_before (now - max_lifetime) (unknown_since t)) tbl)"

definition is_active :: "task \<Rightarrow> bool" where
  "is_active t \<longleftrightarrow> status t \<in> set ACTIVE_STATUSES"

definition overdue_deadlines :: "nat \<Rightarrow> time \<Rightarrow> table \<Rightarrow> table" where
  "overdue_deadlines limit now tbl =
     take limit (filter (\<lambda>t. is_active t \<and> at_or_before now (deadline_at t)) tbl)"

definition active_counts :: "table \<Rightarrow> ((string \<times> string) \<times> int) list" where
  "active_counts tbl = group_count (\<lambda>t. (channel t, tenant t)) (filter is_active tbl)"

definition active_counts_by_channel :: "table \<Rightarrow> (string \<times> int) list" where
  "active_counts_by_channel tbl = group_count channel (filter is_active tbl)"

definition status_histogram :: "table \<Rightarrow> (task_status \<times> int) list" where
  "status_histogram tbl = group_count status tbl"

definition pending_transfers :: "nat \<Rightarrow> time \<Rightarrow> table \<Rightarrow> table" where
  "pending_transfers limit now tbl =
     take limit (by_next_poll
       (filter (\<lambda>t. status t = SUCCEEDED \<and> result_ref t = None \<and> due now t) tbl))"

definition stalled_active :: "secs \<Rightarrow> nat \<Rightarrow> time \<Rightarrow> task_status list \<Rightarrow> table \<Rightarrow> table" where
  "stalled_active stall limit now statuses tbl =
     take limit (filter (\<lambda>t. status t \<in> set statuses
       \<and> (next_poll_at t = None \<or> at_or_before (now - stall) (next_poll_at t))
       \<and> updated_at t \<le> now - stall) tbl)"

subsection \<open>Callbacks and orphans\<close>

text \<open>
  \<open>dedup_key\<close> alone is unique in \<open>callback_event\<close>, so the insert of an event whose key is already
  there raises \<open>IntegrityError\<close>, which the nested transaction turns into \<open>False\<close>.
\<close>

definition insert_callback_event :: "callback_event \<Rightarrow> callback_event list
    \<Rightarrow> bool \<times> callback_event list" where
  "insert_callback_event ev evs =
     (if list_ex (\<lambda>e. cb_dedup_key e = cb_dedup_key ev) evs then (False, evs) else (True, evs @ [ev]))"

definition stash_orphan :: "time \<Rightarrow> string \<Rightarrow> string \<Rightarrow> string option \<Rightarrow> json option
    \<Rightarrow> orphan_callback list \<Rightarrow> orphan_callback list" where
  "stash_orphan now chan uid raw payload os =
     os @ [\<lparr>oc_channel = chan, oc_upstream_task_id = uid, oc_raw_status = raw, oc_payload = payload,
            oc_received_at = now, oc_resolved = False, oc_resolved_task_id = None,
            oc_resolved_at = None\<rparr>]"

definition unresolved_orphans :: "nat \<Rightarrow> orphan_callback list \<Rightarrow> orphan_callback list" where
  "unresolved_orphans limit os =
     take limit (sort_key oc_received_at (filter (\<lambda>r. \<not> oc_resolved r) os))"

subsection \<open>Template rows\<close>

definition some_truthy :: "string option \<Rightarrow> bool" where
  "some_truthy x \<longleftrightarrow> (case x of Some (_ # _) \<Rightarrow> True | _ \<Rightarrow> False)"

definition list_templates :: "string option \<Rightarrow> string option \<Rightarrow> template_row list
    \<Rightarrow> template_row list" where
  "list_templates alias ns rs =
     sort_key tr_alias (sort_key tr_version
       (filter (\<lambda>r. (some_truthy alias \<longrightarrow> alias = Some (tr_alias r))
                  \<and> (some_truthy ns \<longrightarrow> ns = Some (tr_namespace r))) rs))"

definition same_version :: "template_row \<Rightarrow> template_row \<Rightarrow> bool" where
  "same_version a b \<longleftrightarrow> tr_namespace a = tr_namespace b \<and> tr_alias a = tr_alias b
     \<and> tr_version a = tr_version b"

definition upsert_template_version :: "time \<Rightarrow> template_row \<Rightarrow> template_row list
    \<Rightarrow> template_row list" where
  "upsert_template_version now new rs =
     (if list_ex (same_version new) rs then
        List.map (\<lambda>r. if same_version new r then
            r\<lparr>tr_config := tr_config new, tr_config_hash := tr_config_hash new,
              tr_patch_ids := tr_patch_ids new, tr_enabled := tr_enabled new,
              tr_canary_weight := tr_canary_weight new,
              tr_approved_by := (if some_truthy (tr_approved_by new) then tr_approved_by new
                                 else tr_approved_by r),
              tr_updated_at := now\<rparr> else r) rs
      else rs @ [new\<lparr>tr_in_place_patches := 0, tr_updated_at := now\<rparr>])"

definition patch_template_in_place :: "time \<Rightarrow> string \<Rightarrow> string \<Rightarrow> int \<Rightarrow> jobj \<Rightarrow> string
    \<Rightarrow> template_row list \<Rightarrow> bool \<times> template_row list" where
  "patch_template_in_place now alias ns v config hash rs =
     (let hit = (\<lambda>r. tr_alias r = alias \<and> tr_namespace r = ns \<and> tr_version r = v)
      in (list_ex hit rs,
          List.map (\<lambda>r. if hit r then r\<lparr>tr_config := config, tr_config_hash := hash,
              tr_in_place_patches := tr_in_place_patches r + 1, tr_updated_at := now\<rparr> else r) rs))"

subsection \<open>Lemmas\<close>

lemma set_by_next_poll [simp]: "set (by_next_poll ts) = set ts"
  by (simp add: by_next_poll_def)

lemma due_for_dispatch_sound:
  "t \<in> set (due_for_dispatch limit now tbl) \<Longrightarrow> t \<in> set tbl \<and> dispatchable now t"
  by (auto simp: due_for_dispatch_def dest: in_set_takeD)

lemma due_for_dispatch_complete:
  assumes "t \<in> set tbl" and "dispatchable now t" and "length (filter (dispatchable now) tbl) \<le> limit"
  shows "t \<in> set (due_for_dispatch limit now tbl)"
  using assms by (simp add: due_for_dispatch_def by_next_poll_def)

lemma sum_filter_split:
  assumes "k \<notin> set ks"
  shows "length (filter (\<lambda>r. key r \<in> insert k (set ks)) rs)
       = length (filter (\<lambda>r. key r = k) rs) + length (filter (\<lambda>r. key r \<in> set ks) rs)"
  using assms by (induction rs) auto

lemma group_count_aux:
  "distinct ks \<Longrightarrow> (\<Sum>k\<leftarrow>ks. int (length (filter (\<lambda>r. key r = k) rs)))
     = int (length (filter (\<lambda>r. key r \<in> set ks) rs))"
proof (induction ks)
  case (Cons k ks)
  then show ?case using sum_filter_split [of k ks key rs] by simp
qed simp

lemma group_count_total: "(\<Sum>p\<leftarrow>group_count key rs. snd p) = int (length rs)"
  by (simp add: group_count_def o_def group_count_aux)

lemma group_count_pos: "(k, n) \<in> set (group_count key rs) \<Longrightarrow> 0 < n"
  by (auto simp: group_count_def filter_empty_conv)

lemma group_count_keys: "distinct (List.map fst (group_count key rs))"
  by (simp add: group_count_def o_def)

end
