(* ===== verification/DaoFacts.thy ===== *)
theory DaoFacts
  imports Queries
begin

text \<open>
  What the conditional writes of \<open>db/dao.py\<close> guarantee to everything above them. \<open>dao_write\<close> has
  one constructor per write method of \<open>TaskDAO\<close> and \<open>exec_write\<close> runs it, so that a fact about
  every write is one theorem; the handlers' programs issue their writes through it.
\<close>

subsection \<open>The writes as data\<close>

datatype dao_write =
    W_mark_submit_intent string
  | W_mark_submitted string string "string option" "json option" time
  | W_advance string task_status "task_status list option" "assignment list"
  | W_set_cancel_requested string
  | W_cancel_immediately string
  | W_set_result_ref string string "jobj option" "json option"
  | W_schedule_next_poll string time
  | W_record_poll_result string "json option" "string option" "time option" "task_status list"
  | W_mark_failure string "task_status list" error_code "string option" bool "time option" "json option"
  | W_enter_unknown string error_code "string option" "task_status list"
  | W_relocate_compensate string "string option" task_status "string option" "json option"
      "time option" "string option"
  | W_lease_dispatch string secs "task_status list"
  | W_release_submit_intent string "task_status list" time bool "error_code option" "string option"
      "bool option" "jobj option" "time option"
  | W_write_attributes string jobj
  | W_schedule_transfer_retry string time int
  | W_mark_result_unavailable string string

definition ok :: "bool \<times> table \<Rightarrow> bool res \<times> table" where
  "ok p = (Inr (fst p), snd p)"

fun exec_write :: "time \<Rightarrow> dao_write \<Rightarrow> table \<Rightarrow> bool res \<times> table" where
  "exec_write now (W_mark_submit_intent tid) tbl = ok (mark_submit_intent now tid tbl)"
| "exec_write now (W_mark_submitted tid uid raw snap np) tbl = ok (mark_submitted now tid uid raw snap np tbl)"
| "exec_write now (W_advance tid dst e vs) tbl = advance now tid dst e vs tbl"
| "exec_write now (W_set_cancel_requested tid) tbl = ok (set_cancel_requested now tid tbl)"
| "exec_write now (W_cancel_immediately tid) tbl = ok (cancel_immediately_after_submit now tid tbl)"
| "exec_write now (W_set_result_ref tid ref sm dg) tbl = ok (set_result_ref now tid ref sm dg tbl)"
| "exec_write now (W_schedule_next_poll tid np) tbl = ok (schedule_next_poll now tid np tbl)"
| "exec_write now (W_record_poll_result tid snap raw np e) tbl = ok (record_poll_result now tid snap raw np e tbl)"
| "exec_write now (W_mark_failure tid e code msg r np snap) tbl = ok (mark_failure now tid e code msg r np snap tbl)"
| "exec_write now (W_enter_unknown tid code msg e) tbl = enter_unknown now tid code msg e tbl"
| "exec_write now (W_relocate_compensate tid uid dst raw snap np note) tbl =
     relocate_compensate now tid uid dst raw snap np note tbl"
| "exec_write now (W_lease_dispatch tid lease e) tbl = ok (lease_dispatch now tid lease e tbl)"
| "exec_write now (W_release_submit_intent tid e np dec code msg r attrs dl) tbl =
     ok (release_submit_intent now tid e np dec code msg r attrs dl tbl)"
| "exec_write now (W_write_attributes tid m) tbl = ok (write_attributes now tid m tbl)"
| "exec_write now (W_schedule_transfer_retry tid np n) tbl = ok (schedule_transfer_retry now tid np n tbl)"
| "exec_write now (W_mark_result_unavailable tid d) tbl = ok (mark_result_unavailable now tid d tbl)"

fun write_target :: "dao_write \<Rightarrow> string" where
  "write_target (W_mark_submit_intent tid) = tid"
| "write_target (W_mark_submitted tid _ _ _ _) = tid"
| "write_target (W_advance tid _ _ _) = tid"
| "write_target (W_set_cancel_requested tid) = tid"
| "write_target (W_cancel_immediately tid) = tid"
| "write_target (W_set_result_ref tid _ _ _) = tid"
| "write_target (W_schedule_next_poll tid _) = tid"
| "write_target (W_record_poll_result tid _ _ _ _) = tid"
| "write_target (W_mark_failure tid _ _ _ _ _ _) = tid"
| "write_target (W_enter_unknown tid _ _ _) = tid"
| "write_target (W_relocate_compensate tid _ _ _ _ _ _) = tid"
| "write_target (W_lease_dispatch tid _ _) = tid"
| "write_target (W_release_submit_intent tid _ _ _ _ _ _ _ _) = tid"
| "write_target (W_write_attributes tid _) = tid"
| "write_target (W_schedule_transfer_retry tid _ _) = tid"
| "write_target (W_mark_result_unavailable tid _) = tid"

subsection \<open>One write, one row, one whitelisted step\<close>

text \<open>The columns no \<open>UPDATE\<close> of the gateway touches.\<close>

definition identity_columns :: "task \<Rightarrow> (string list \<times> int \<times> int \<times> int \<times> origin \<times> time \<times> string option list)" where
  "identity_columns t =
     ([task_id t, idempotency_key t, tenant t, channel t, task_type t, template_alias t],
      idempotency_bucket t, template_version t, max_attempts t, origin t, created_at t,
      [callback_token t, replay_of t, create_req_ref t, create_req_digest t, trace_id t])"

definition row_step :: "task \<Rightarrow> task \<Rightarrow> bool" where
  "row_step r r' \<longleftrightarrow> r' = r \<or>
     (identity_columns r' = identity_columns r \<and> row_version r' = row_version r + 1
      \<and> (status r' = status r \<or> can_transition (status r) (status r')))"

definition table_step :: "string \<Rightarrow> table \<Rightarrow> table \<Rightarrow> bool" where
  "table_step tid = list_all2 (\<lambda>r r'. if task_id r = tid then row_step r r' else r' = r)"

lemma row_step_refl [simp, intro]: "row_step r r"
  by (simp add: row_step_def)

lemma table_step_refl [simp, intro]: "table_step tid tbl tbl"
  by (auto simp: table_step_def list_all2_same)

lemma assign_identity [simp]: "identity_columns (assign a t) = identity_columns t"
  by (cases a) (simp_all add: identity_columns_def)

lemma assign_all_identity [simp]: "identity_columns (assign_all vs t) = identity_columns t"
  by (induction vs arbitrary: t) simp_all

lemma assign_all_row_version:
  "\<not> has_col C_row_version vs \<Longrightarrow> row_version (assign_all vs t) = row_version t"
proof (induction vs arbitrary: t)
  case (Cons a vs)
  then show ?case by (cases a) auto
qed simp

text \<open>The status an update writes, if it writes one.\<close>

fun written_status :: "assignment list \<Rightarrow> task_status option" where
  "written_status [] = None"
| "written_status (SetStatus s # vs) = (case written_status vs of None \<Rightarrow> Some s | Some d \<Rightarrow> Some d)"
| "written_status (_ # vs) = written_status vs"

lemma status_assign_all:
  "status (assign_all vs t) = (case written_status vs of None \<Rightarrow> status t | Some d \<Rightarrow> d)"
  by (induction vs arbitrary: t rule: written_status.induct) (auto split: option.splits)

lemma written_status_append [simp]:
  "written_status (vs @ ws) = (case written_status ws of None \<Rightarrow> written_status vs | Some d \<Rightarrow> Some d)"
  by (induction vs rule: written_status.induct) (auto split: option.splits)

lemma written_status_set_default:
  "written_status vs \<noteq> None \<Longrightarrow> col_of a \<noteq> C_status \<Longrightarrow> written_status (set_default a vs) = written_status vs"
  by (cases a) (auto simp: set_default_def)

lemma cas_table_step:
  assumes "\<not> has_col C_row_version vs"
    and "\<And>s d. s \<in> set expected \<Longrightarrow> written_status vs = Some d \<Longrightarrow> can_transition s d"
  shows "table_step tid tbl (snd (cas now tid expected vs extra tbl))"
  using assms
  by (auto simp: cas_def update_rows_def table_step_def row_step_def list_all2_conv_all_nth
      assign_all_row_version status_assign_all identity_columns_def [of "_\<lparr>updated_at := _\<rparr>"]
      identity_columns_def [of "_\<lparr>row_version := _, updated_at := _\<rparr>"]
      split: option.splits) (auto simp: identity_columns_def)

lemma cas_miss: "\<not> fst (cas now tid e vs x tbl) \<Longrightarrow> snd (cas now tid e vs x tbl) = tbl"
  unfolding cas_def using tab.miss_unchanged by (auto split: if_splits)

lemma cas_hit_iff:
  "fst (cas now tid e vs x tbl) \<longleftrightarrow>
     (\<exists>r \<in> set tbl. task_id r = tid \<and> status r \<in> set e \<and> x r)"
  by (auto simp: cas_def update_rows_def list_ex_iff)

lemma cas_snd:
  "snd (cas now tid e vs x tbl) =
     List.map (\<lambda>r. if task_id r = tid \<and> status r \<in> set e \<and> x r
        then assign_all (IncRowVersion # SetUpdatedAt now # vs) r else r) tbl"
  by (auto simp: cas_def update_rows_def)

lemma filter_status_no_status:
  "written_status (filter (\<lambda>a. col_of a \<noteq> C_status) vs) = None"
  by (induction vs rule: written_status.induct) auto

lemma written_advance_payload [simp]: "written_status (advance_payload now dst vs) = Some dst"
  by (simp add: advance_payload_def Let_def written_status_set_default)

lemma has_col_filter [simp]:
  "has_col c (filter (\<lambda>a. col_of a \<noteq> d) vs) \<longleftrightarrow> c \<noteq> d \<and> has_col c vs"
  by (auto simp: has_col_def)

lemma has_col_advance_payload:
  "has_col C_row_version (advance_payload now dst vs) \<longleftrightarrow> has_col C_row_version vs"
  by (simp add: advance_payload_def Let_def)

lemma advance_sources_default:
  "s \<in> set (advance_sources dst None) \<longleftrightarrow> can_transition s dst"
  by (cases s) (auto simp: advance_sources_def can_transition_def allowed_targets_def enum_task_status_def)

lemma find_illegal_None:
  "find (\<lambda>s. \<not> can_transition s dst) ss = None \<longleftrightarrow> (\<forall>s \<in> set ss. can_transition s dst)"
  by (auto simp: find_None_iff)

lemma advance_sources_legal:
  assumes "find (\<lambda>s. \<not> can_transition s dst) (case e of None \<Rightarrow> [] | Some ss \<Rightarrow> ss) = None"
    and "s \<in> set (advance_sources dst e)"
  shows "can_transition s dst"
proof (cases e)
  case None
  then show ?thesis using assms(2) advance_sources_default by simp
next
  case (Some ss)
  then show ?thesis using assms by (auto simp: find_None_iff advance_sources_def)
qed

lemma advance_table_step:
  assumes "\<not> has_col C_row_version vs"
  shows "table_step tid tbl (snd (advance now tid dst e vs tbl))"
proof (cases "find (\<lambda>s. \<not> can_transition s dst) (case e of None \<Rightarrow> [] | Some ss \<Rightarrow> ss)")
  case None
  have "table_step tid tbl
      (snd (cas now tid (advance_sources dst e) (advance_payload now dst vs) no_extra tbl))"
    by (rule cas_table_step)
      (auto simp: has_col_advance_payload assms intro: advance_sources_legal [OF None])
  then show ?thesis by (simp add: advance_def None case_prod_beta)
qed (simp add: advance_def)

text \<open>What the code passes as extra columns of \<open>advance\<close>: never \<open>row_version\<close>.\<close>

fun write_ok :: "dao_write \<Rightarrow> bool" where
  "write_ok (W_advance _ _ _ vs) = (\<not> has_col C_row_version vs)"
| "write_ok _ = True"

lemma exec_write_table_step [gw_trans]:
  assumes "write_ok w"
  shows "table_step (write_target w) tbl (snd (exec_write now w tbl))"
proof (cases w)
  case (W_advance tid dst e vs)
  with assms advance_table_step show ?thesis by simp
next
  case (W_enter_unknown tid code msg e)
  with advance_table_step show ?thesis by (simp add: enter_unknown_def)
next
  case (W_relocate_compensate tid uid dst raw snap np nt)
  then show ?thesis
    by (auto simp: relocate_compensate_def intro!: advance_table_step
        split: option.splits list.splits)
qed (auto simp: ok_def mark_submit_intent_def mark_submitted_def set_cancel_requested_def
    cancel_immediately_after_submit_def set_result_ref_def schedule_next_poll_def
    record_poll_result_def mark_failure_def lease_dispatch_def release_submit_intent_def
    write_attributes_def schedule_transfer_retry_def mark_result_unavailable_def
    can_transition_def intro!: cas_table_step split: option.splits list.splits if_splits)

subsection \<open>Consequences for a row\<close>

definition row_of :: "string \<Rightarrow> table \<Rightarrow> task_status option" where
  "row_of tid tbl = map_option status (get_task tid tbl)"

lemma identity_task_id: "identity_columns a = identity_columns b \<Longrightarrow> task_id a = task_id b"
  by (simp add: identity_columns_def)

lemma table_step_get:
  assumes "table_step w tbl tbl'" and "get_task tid tbl = Some r"
  shows "\<exists>r'. get_task tid tbl' = Some r' \<and> (if tid = w then row_step r r' else r' = r)"
  using assms unfolding table_step_def get_task_def
proof (induction rule: list_all2_induct)
  case (Cons x xs y ys)
  then have "task_id y = task_id x"
    by (auto simp: row_step_def dest: identity_task_id split: if_splits)
  with Cons show ?case by (auto split: if_splits)
qed simp

lemma table_step_get_None:
  assumes "table_step w tbl tbl'" and "get_task tid tbl = None"
  shows "get_task tid tbl' = None"
  using assms unfolding table_step_def get_task_def
proof (induction rule: list_all2_induct)
  case (Cons x xs y ys)
  then have "task_id y = task_id x"
    by (auto simp: row_step_def dest: identity_task_id split: if_splits)
  with Cons show ?case by (auto split: if_splits)
qed simp

lemma row_step_status: "row_step r r' \<Longrightarrow> can_transition\<^sup>*\<^sup>* (status r) (status r')"
  by (auto simp: row_step_def)

lemma row_step_version: "row_step r r' \<Longrightarrow> row_version r \<le> row_version r'"
  by (auto simp: row_step_def)

lemma row_step_identity: "row_step r r' \<Longrightarrow> identity_columns r' = identity_columns r"
  by (auto simp: row_step_def)

lemma row_step_terminal:
  "row_step r r' \<Longrightarrow> is_business_terminal (status r) \<Longrightarrow>
     status r' = status r \<or> (status r = DEAD_AWAITING_CONFIRM \<and> status r' = DEAD)"
  by (auto simp: row_step_def dest: can_transition_from_terminal)

lemma exec_write_get:
  assumes "write_ok w" and "get_task tid tbl = Some r"
  shows "\<exists>r'. get_task tid (snd (exec_write now w tbl)) = Some r'
     \<and> (if tid = write_target w then row_step r r' else r' = r)"
  using table_step_get [OF exec_write_table_step [OF assms(1)] assms(2)] .

subsection \<open>Row identities\<close>

abbreviation ids_ok :: "table \<Rightarrow> bool" where
  "ids_ok tbl \<equiv> distinct (List.map task_id tbl)"

lemma table_step_ids: "table_step w tbl tbl' \<Longrightarrow> List.map task_id tbl' = List.map task_id tbl"
  unfolding table_step_def
  by (induction rule: list_all2_induct)
    (auto simp: row_step_def dest: identity_task_id split: if_splits)

lemma exec_write_ids: "write_ok w \<Longrightarrow> List.map task_id (snd (exec_write now w tbl)) = List.map task_id tbl"
  by (rule table_step_ids [OF exec_write_table_step])

lemma get_task_in: "get_task tid tbl = Some r \<Longrightarrow> r \<in> set tbl \<and> task_id r = tid"
  by (auto simp: get_task_def find_Some_iff)

lemma get_task_unique: "ids_ok tbl \<Longrightarrow> r \<in> set tbl \<Longrightarrow> get_task (task_id r) tbl = Some r"
  by (induction tbl) (auto simp: get_task_def)

subsection \<open>The submit intent\<close>

lemma mark_submit_intent_hit:
  "fst (mark_submit_intent now tid tbl) \<longleftrightarrow>
     (\<exists>r \<in> set tbl. task_id r = tid \<and> status r = ACCEPTED \<and> submit_started_at r = None)"
  by (auto simp: mark_submit_intent_def cas_hit_iff)

lemma mark_submit_intent_snd:
  "snd (mark_submit_intent now tid tbl) =
     List.map (\<lambda>r. if task_id r = tid \<and> status r = ACCEPTED \<and> submit_started_at r = None
        then r\<lparr>row_version := row_version r + 1, updated_at := now, submit_started_at := Some now,
               attempts := attempts r + 1\<rparr> else r) tbl"
  by (simp add: mark_submit_intent_def cas_snd)

lemma mark_submit_intent_row:
  assumes "r \<in> set (snd (mark_submit_intent now tid tbl))" and "task_id r = tid" and "status r = ACCEPTED"
  shows "submit_started_at r \<noteq> None"
proof -
  obtain q where "q \<in> set tbl"
    and "r = (if task_id q = tid \<and> status q = ACCEPTED \<and> submit_started_at q = None
        then q\<lparr>row_version := row_version q + 1, updated_at := now, submit_started_at := Some now,
               attempts := attempts q + 1\<rparr> else q)"
    using assms(1) unfolding mark_submit_intent_snd set_map by (rule imageE)
  with assms(2,3) show ?thesis by (simp split: if_splits)
qed

lemma mark_submit_intent_exclusive:
  "\<not> fst (mark_submit_intent later tid (snd (mark_submit_intent now tid tbl)))"
  using mark_submit_intent_row by (auto simp only: mark_submit_intent_hit)

lemma mark_submit_intent_blocks_dispatch:
  assumes "r \<in> set (snd (mark_submit_intent now tid tbl))" and "task_id r = tid" and "status r = ACCEPTED"
  shows "\<not> dispatchable later r"
  using mark_submit_intent_row [OF assms] assms(3) by (simp add: dispatchable_def)

subsection \<open>Sequences of writes\<close>

fun exec_writes :: "(time \<times> dao_write) list \<Rightarrow> table \<Rightarrow> table" where
  "exec_writes [] tbl = tbl"
| "exec_writes ((now, w) # ws) tbl = exec_writes ws (snd (exec_write now w tbl))"

text \<open>The writes that give a submit intent back.\<close>

fun releases_intent :: "string \<Rightarrow> dao_write \<Rightarrow> bool" where
  "releases_intent tid (W_release_submit_intent t _ _ _ _ _ _ _ _) = (t = tid)"
| "releases_intent tid (W_advance t _ _ vs) = (t = tid \<and> has_col C_submit_started_at vs)"
| "releases_intent tid _ = False"

definition intent_held :: "string \<Rightarrow> table \<Rightarrow> bool" where
  "intent_held tid tbl \<longleftrightarrow> (\<forall>r \<in> set tbl. task_id r = tid \<longrightarrow> submit_started_at r \<noteq> None)"

lemma assign_submit_started:
  "col_of a \<noteq> C_submit_started_at \<Longrightarrow> submit_started_at (assign a t) = submit_started_at t"
  by (cases a) simp_all

lemma assign_all_submit_started:
  "\<not> has_col C_submit_started_at vs \<Longrightarrow> submit_started_at (assign_all vs t) = submit_started_at t"
  by (induction vs arbitrary: t) (auto simp: assign_submit_started)

lemma cas_intent_held:
  assumes "\<not> has_col C_submit_started_at vs \<or> t \<noteq> tid \<or> (\<exists>x. vs = [SetSubmitStartedAt (Some x), IncAttempts])"
    and "intent_held tid tbl"
  shows "intent_held tid (snd (cas now t e vs x tbl))"
proof -
  have "task_id r = t \<Longrightarrow> r \<in> set tbl \<Longrightarrow> task_id r = tid \<Longrightarrow>
      submit_started_at (assign_all (IncRowVersion # SetUpdatedAt now # vs) r) \<noteq> None" for r
    using assms by (auto simp: intent_held_def assign_all_submit_started)
  then show ?thesis using assms(2) by (auto simp: cas_snd intent_held_def)
qed

lemma has_col_submit_advance_payload:
  "has_col C_submit_started_at (advance_payload now dst vs) \<longleftrightarrow> has_col C_submit_started_at vs"
  by (simp add: advance_payload_def Let_def)

lemma advance_intent_held:
  assumes "t = tid \<Longrightarrow> \<not> has_col C_submit_started_at vs" and "intent_held tid tbl"
  shows "intent_held tid (snd (advance now t dst e vs tbl))"
  using assms cas_intent_held [of "advance_payload now dst vs" t tid]
  by (auto simp: advance_def has_col_submit_advance_payload case_prod_beta split: option.splits)

lemma exec_write_intent_held:
  assumes "\<not> releases_intent tid w" and "intent_held tid tbl"
  shows "intent_held tid (snd (exec_write now w tbl))"
proof (cases w)
  case (W_advance t dst e vs)
  with assms advance_intent_held show ?thesis by simp
next
  case (W_enter_unknown t code msg e)
  with assms advance_intent_held show ?thesis by (simp add: enter_unknown_def)
next
  case (W_relocate_compensate t uid dst raw snap np nt)
  with assms(2) show ?thesis
    by (auto simp: relocate_compensate_def intro!: advance_intent_held
        split: option.splits list.splits)
qed (use assms in \<open>auto simp: ok_def mark_submit_intent_def mark_submitted_def
    set_cancel_requested_def cancel_immediately_after_submit_def set_result_ref_def
    schedule_next_poll_def record_poll_result_def mark_failure_def lease_dispatch_def
    release_submit_intent_def write_attributes_def schedule_transfer_retry_def
    mark_result_unavailable_def intro!: cas_intent_held\<close>)

lemma exec_writes_intent_held:
  assumes "\<forall>(t, w) \<in> set ws. \<not> releases_intent tid w" and "intent_held tid tbl"
  shows "intent_held tid (exec_writes ws tbl)"
  using assms by (induction ws tbl rule: exec_writes.induct) (auto intro: exec_write_intent_held)

lemma intent_held_no_hit: "intent_held tid tbl \<Longrightarrow> \<not> fst (mark_submit_intent now tid tbl)"
  by (auto simp: mark_submit_intent_hit intent_held_def)

lemma distinct_task_id:
  "distinct (List.map task_id tbl) \<Longrightarrow> r \<in> set tbl \<Longrightarrow> q \<in> set tbl \<Longrightarrow> task_id r = task_id q \<Longrightarrow> r = q"
  by (meson eq_key_imp_eq_value distinct_map inj_onD)

lemma mark_submit_intent_held:
  assumes "distinct (List.map task_id tbl)" and "fst (mark_submit_intent now tid tbl)"
  shows "intent_held tid (snd (mark_submit_intent now tid tbl))"
proof -
  obtain r where r: "r \<in> set tbl" "task_id r = tid" "status r = ACCEPTED" "submit_started_at r = None"
    using assms(2) by (auto simp: mark_submit_intent_hit)
  show ?thesis
    unfolding intent_held_def mark_submit_intent_snd set_map
  proof (intro ballI impI, elim imageE)
    fix p q
    assume q: "q \<in> set tbl" and p: "task_id p = tid"
      "p = (if task_id q = tid \<and> status q = ACCEPTED \<and> submit_started_at q = None
        then q\<lparr>row_version := row_version q + 1, updated_at := now, submit_started_at := Some now,
               attempts := attempts q + 1\<rparr> else q)"
    then have "task_id q = tid" by (simp split: if_splits)
    then have "q = r" using distinct_task_id [OF assms(1) q r(1)] r(2) by simp
    with p r show "submit_started_at p \<noteq> None" by simp
  qed
qed

lemma exec_writes_status:
  assumes "\<forall>(t, w) \<in> set ws. write_ok w" and "get_task tid tbl = Some r"
  shows "\<exists>r'. get_task tid (exec_writes ws tbl) = Some r' \<and> can_transition\<^sup>*\<^sup>* (status r) (status r')
     \<and> identity_columns r' = identity_columns r \<and> row_version r \<le> row_version r'"
  using assms
proof (induction ws tbl arbitrary: r rule: exec_writes.induct)
  case (2 now w ws tbl)
  then have "write_ok w" and ws: "\<forall>(t, w) \<in> set ws. write_ok w" by auto
  then obtain q where q: "get_task tid (snd (exec_write now w tbl)) = Some q" "row_step r q"
    using exec_write_get [of w tid tbl r now] 2(3) by (metis row_step_refl)
  obtain r' where "get_task tid (exec_writes ws (snd (exec_write now w tbl))) = Some r'"
    "can_transition\<^sup>*\<^sup>* (status q) (status r')" "identity_columns r' = identity_columns q"
    "row_version q \<le> row_version r'"
    using 2(1) [OF ws q(1)] by blast
  moreover have "can_transition\<^sup>*\<^sup>* (status r) (status r')"
    by (rule rtranclp_trans [OF row_step_status [OF q(2)]]) fact
  moreover have "row_version r \<le> row_version r'"
    by (rule order_trans [OF row_step_version [OF q(2)]]) fact
  ultimately show ?case using row_step_identity [OF q(2)] by simp
qed auto

lemma output_of_evolved:
  assumes "can_transition\<^sup>*\<^sup>* s d" and "is_business_terminal s"
  shows "output_terminal d = output_terminal s"
  using evolves_from_terminal [OF assms] by (auto simp: output_terminal_def gw_defs)

lemma advance_value:
  "fst (advance now tid dst e vs tbl) =
     (case find (\<lambda>s. \<not> can_transition s dst) (case e of None \<Rightarrow> [] | Some ss \<Rightarrow> ss) of
        Some s \<Rightarrow> Inl (TransitionError (status_value s) (status_value dst))
      | None \<Rightarrow> Inr (\<exists>r \<in> set tbl. task_id r = tid \<and> status r \<in> set (advance_sources dst e)))"
  by (auto simp: advance_def case_prod_beta cas_hit_iff split: option.splits)

subsection \<open>Properties\<close>


definition sample_task :: "string \<Rightarrow> task_status \<Rightarrow> task" where
  "sample_task tid st = (new_task tid tid 0 ''chan'' ''tpl'' 1000)\<lparr>status := st\<rparr>"


text \<open>
  C9: No double submission. Once a worker has won the submit intent of a task, then after any
  sequence of DAO writes by anyone, none of which gives the intent back, every further attempt to
  win it fails; so between two create requests for one task there is a release.
\<close>

theorem submit_intent_single_winner:
  assumes "distinct (List.map task_id tbl)"
    and "fst (mark_submit_intent now tid tbl)"
    and "\<forall>(t, w) \<in> set ws. \<not> releases_intent tid w"
  shows "\<not> fst (mark_submit_intent later tid (exec_writes ws (snd (mark_submit_intent now tid tbl))))"
  by (rule intent_held_no_hit [OF exec_writes_intent_held [OF assms(3) mark_submit_intent_held [OF assms(1,2)]]])

theorem submit_intent_single_winner_witness:
  "\<not> fst (mark_submit_intent 2100 ''a'' (exec_writes
       [(2050, W_enter_unknown ''a'' EC_TRANSPORT None []), (2060, W_set_cancel_requested ''a'')]
       (snd (mark_submit_intent 2000 ''a'' [sample_task ''a'' ACCEPTED]))))"
  by (rule submit_intent_single_winner)
    (simp_all add: sample_task_def new_task_def mark_submit_intent_hit)

text \<open>
  A terminal output never flips. Whatever sequence of DAO writes follows, the outcome a client
  has been shown for a task in a business terminal status stays what it is.
\<close>

theorem terminal_output_stable:
  assumes "\<forall>(t, w) \<in> set ws. write_ok w" and "get_task tid tbl = Some r"
    and "is_business_terminal (status r)"
  shows "\<exists>r'. get_task tid (exec_writes ws tbl) = Some r'
    \<and> output_terminal (status r') = output_terminal (status r) \<and> is_business_terminal (status r')"
proof -
  obtain r' where "get_task tid (exec_writes ws tbl) = Some r'" "can_transition\<^sup>*\<^sup>* (status r) (status r')"
    using exec_writes_status [OF assms(1,2)] by blast
  then show ?thesis
    using output_of_evolved evolves_from_terminal assms(3) by (fastforce simp: gw_defs)
qed

theorem terminal_output_stable_witness:
  "\<exists>r'. get_task ''a'' (exec_writes
       [(2000, W_advance ''a'' CANCELLED None []), (2001, W_mark_submit_intent ''a'')]
       [sample_task ''a'' SUCCEEDED]) = Some r'
     \<and> output_terminal (status r') = output_terminal (status (sample_task ''a'' SUCCEEDED))
     \<and> is_business_terminal (status r')"
  by (rule terminal_output_stable)
    (simp_all add: get_task_def sample_task_def new_task_def gw_defs)

text \<open>
  \<open>advance\<close> on every branch. With explicit expected states it raises \<open>TransitionError\<close> for the
  first one the whitelist does not connect to the target, and writes nothing; otherwise it returns
  whether the row is in one of the expected states, which by default are exactly the states the
  whitelist connects to the target, and the row it hits ends in the target status.
\<close>

theorem advance_outcome:
  "fst (advance now tid dst e vs tbl) = (case e of
      None \<Rightarrow> Inr (\<exists>r \<in> set tbl. task_id r = tid \<and> can_transition (status r) dst)
    | Some ss \<Rightarrow> (case find (\<lambda>s. \<not> can_transition s dst) ss of
          Some s \<Rightarrow> Inl (TransitionError (status_value s) (status_value dst))
        | None \<Rightarrow> Inr (\<exists>r \<in> set tbl. task_id r = tid \<and> status r \<in> set ss)))
   \<and> List.map status (snd (advance now tid dst e vs tbl)) = (case fst (advance now tid dst e vs tbl) of
      Inl _ \<Rightarrow> List.map status tbl
    | Inr _ \<Rightarrow> List.map (\<lambda>r. if task_id r = tid \<and> status r \<in> set (advance_sources dst e)
                          then dst else status r) tbl)"
proof (rule conjI, goal_cases)
  case 1
  show ?case
    by (auto simp: advance_value advance_sources_default split: option.splits)
      (auto simp: advance_sources_def)
next
  case 2
  show ?case
    by (auto simp: advance_def case_prod_beta cas_snd status_assign_all split: option.splits)
qed

end
