(* ===== verification/Errors.thy ===== *)
theory Errors
  imports Domain
begin

text \<open>
  \<open>domain/errors.py\<close>: the three-way error classification that decides whether a failed upstream call
  is retried, confirmed or given up, the parsing of \<open>Retry-After\<close> and the exponential backoff.
  The template never sets \<open>retryable\<close>; it follows from the class computed here.
\<close>

datatype call_context = CTX_SUBMIT | CTX_POLL | CTX_CANCEL | CTX_RESULT

datatype action = ACT_RETRY | ACT_BACKOFF | ACT_FAIL | ACT_CONFIRM | ACT_CHANNEL_BREAK

record classification =
  cl_error_class :: error_class
  cl_error_code :: error_code
  cl_retryable :: bool
  cl_consumes_attempt :: bool
  cl_channel_fault :: bool
  cl_action :: action

definition is_unknown :: "classification \<Rightarrow> bool" where
  "is_unknown c \<longleftrightarrow> cl_action c = ACT_CONFIRM"

subsection \<open>Transport exceptions\<close>

text \<open>
  The leaves of httpx's exception hierarchy; \<open>UnexpectedError\<close> is any exception outside it. The
  \<open>is_\<dots>\<close> predicates are the \<open>isinstance\<close> tests of the source, over that documented hierarchy.
\<close>

datatype transport_exn =
    ConnectTimeout | ReadTimeout | WriteTimeout | PoolTimeout
  | ConnectError | ReadError | WriteError | CloseError
  | RemoteProtocolError | LocalProtocolError
  | OtherHTTPError
  | UnexpectedError

definition is_timeout_exception :: "transport_exn \<Rightarrow> bool" where
  "is_timeout_exception e \<longleftrightarrow> e \<in> {ConnectTimeout, ReadTimeout, WriteTimeout, PoolTimeout}"

definition is_http_error :: "transport_exn \<Rightarrow> bool" where
  "is_http_error e \<longleftrightarrow> e \<noteq> UnexpectedError"

definition RETRY_SAFE_TRANSPORT :: classification where
  "RETRY_SAFE_TRANSPORT = \<lparr>cl_error_class = CLS_RETRY_SAFE, cl_error_code = EC_TRANSPORT,
     cl_retryable = True, cl_consumes_attempt = True, cl_channel_fault = False,
     cl_action = ACT_RETRY\<rparr>"

definition CONFIRM_TRANSPORT :: classification where
  "CONFIRM_TRANSPORT = \<lparr>cl_error_class = CLS_CONFIRM_REQUIRED, cl_error_code = EC_TRANSPORT,
     cl_retryable = False, cl_consumes_attempt = True, cl_channel_fault = False,
     cl_action = ACT_CONFIRM\<rparr>"

definition CONFIRM_TIMEOUT :: classification where
  "CONFIRM_TIMEOUT = \<lparr>cl_error_class = CLS_CONFIRM_REQUIRED, cl_error_code = EC_TIMEOUT,
     cl_retryable = False, cl_consumes_attempt = True, cl_channel_fault = False,
     cl_action = ACT_CONFIRM\<rparr>"

definition retry_with :: "error_code \<Rightarrow> action \<Rightarrow> classification" where
  "retry_with code act = \<lparr>cl_error_class = CLS_RETRY_SAFE, cl_error_code = code,
     cl_retryable = True, cl_consumes_attempt = True, cl_channel_fault = False, cl_action = act\<rparr>"

definition classify_exception :: "transport_exn \<Rightarrow> call_context \<Rightarrow> classification" where
  "classify_exception e ctx =
     (if e = ConnectTimeout then RETRY_SAFE_TRANSPORT
      else if e = ConnectError then RETRY_SAFE_TRANSPORT
      else if is_timeout_exception e then
        (if ctx = CTX_POLL then retry_with EC_TIMEOUT ACT_BACKOFF else CONFIRM_TIMEOUT)
      else if e \<in> {RemoteProtocolError, ReadError, WriteError} then
        (if ctx = CTX_POLL then retry_with EC_TRANSPORT ACT_BACKOFF else CONFIRM_TRANSPORT)
      else if is_http_error e then
        (if ctx = CTX_POLL then retry_with EC_TRANSPORT ACT_BACKOFF else CONFIRM_TRANSPORT)
      else if ctx = CTX_POLL then retry_with EC_TRANSPORT ACT_BACKOFF
      else CONFIRM_TRANSPORT)"

subsection \<open>HTTP statuses\<close>

definition classify_status :: "int \<Rightarrow> call_context \<Rightarrow> classification" where
  "classify_status code ctx =
     (if code = 429 then
        \<lparr>cl_error_class = CLS_RATE_LIMITED, cl_error_code = EC_RATE_LIMITED, cl_retryable = True,
         cl_consumes_attempt = False, cl_channel_fault = False, cl_action = ACT_BACKOFF\<rparr>
      else if code = 401 \<or> code = 403 then
        \<lparr>cl_error_class = CLS_CHANNEL_FAULT, cl_error_code = EC_UPSTREAM_4XX, cl_retryable = False,
         cl_consumes_attempt = False, cl_channel_fault = True, cl_action = ACT_CHANNEL_BREAK\<rparr>
      else if code = 409 then
        \<lparr>cl_error_class = CLS_CONFIRM_REQUIRED, cl_error_code = EC_UPSTREAM_4XX, cl_retryable = False,
         cl_consumes_attempt = False, cl_channel_fault = False, cl_action = ACT_CONFIRM\<rparr>
      else if code = 404 \<and> ctx = CTX_POLL then
        \<lparr>cl_error_class = CLS_CONFIRM_REQUIRED, cl_error_code = EC_UPSTREAM_4XX, cl_retryable = False,
         cl_consumes_attempt = False, cl_channel_fault = False, cl_action = ACT_CONFIRM\<rparr>
      else if 400 \<le> code \<and> code < 500 then
        \<lparr>cl_error_class = CLS_FAIL_FAST, cl_error_code = EC_UPSTREAM_4XX, cl_retryable = False,
         cl_consumes_attempt = True, cl_channel_fault = False, cl_action = ACT_FAIL\<rparr>
      else if 500 \<le> code \<and> code < 600 then
        (if ctx = CTX_POLL then
           \<lparr>cl_error_class = CLS_RETRY_SAFE, cl_error_code = EC_UPSTREAM_5XX, cl_retryable = True,
            cl_consumes_attempt = False, cl_channel_fault = False, cl_action = ACT_BACKOFF\<rparr>
         else
           \<lparr>cl_error_class = CLS_CONFIRM_REQUIRED, cl_error_code = EC_UPSTREAM_5XX, cl_retryable = False,
            cl_consumes_attempt = True, cl_channel_fault = False, cl_action = ACT_CONFIRM\<rparr>)
      else
        \<lparr>cl_error_class = CLS_CONFIRM_REQUIRED, cl_error_code = EC_UPSTREAM_5XX, cl_retryable = False,
         cl_consumes_attempt = False, cl_channel_fault = False, cl_action = ACT_CONFIRM\<rparr>)"

subsection \<open>Retry-After and backoff\<close>

text \<open>
  Header names reach this function in lower case or spelled \<open>Retry-After\<close>; an empty value counts as
  absent. \<open>now\<close> is the clock reading of the HTTP-date branch.
\<close>

definition header_or :: "string dict \<Rightarrow> string \<Rightarrow> string \<Rightarrow> string" where
  "header_or hs a b = (case dict_get hs a of Some (c # v) \<Rightarrow> c # v
     | _ \<Rightarrow> (case dict_get hs b of Some v \<Rightarrow> v | None \<Rightarrow> []))"

definition extract_retry_after :: "pylib \<Rightarrow> time \<Rightarrow> string dict \<Rightarrow> secs \<Rightarrow> secs" where
  "extract_retry_after L now hs dflt =
     (let raw = header_or hs ''retry-after'' ''Retry-After'' in
      if raw = [] then dflt
      else (case lib_float L raw of
          Some x \<Rightarrow> max 0 x
        | None \<Rightarrow> (case lib_http_date L raw of
              None \<Rightarrow> dflt
            | Some t \<Rightarrow> max 0 (t - now))))"

text \<open>\<open>rnd\<close> is the value of \<open>random.random()\<close>, in \<open>[0, 1)\<close>.\<close>

definition backoff_seconds :: "int \<Rightarrow> secs \<Rightarrow> secs \<Rightarrow> rat \<Rightarrow> rat \<Rightarrow> secs" where
  "backoff_seconds attempt base cap jitter rnd =
     (let raw = min cap (base * 2 ^ nat (max 0 (attempt - 1)));
          jittered = raw * (1 - jitter) + raw * jitter * 2 * rnd
      in min cap jittered)"

subsection \<open>Library facts\<close>

lemma classify_status_retryable:
  "cl_retryable (classify_status code ctx) \<longleftrightarrow>
     cl_error_class (classify_status code ctx) \<in> {CLS_RETRY_SAFE, CLS_RATE_LIMITED}"
  by (simp add: classify_status_def)

lemma backoff_seconds_le: "backoff_seconds a b c j r \<le> c"
  by (simp add: backoff_seconds_def Let_def)

lemma backoff_seconds_pos:
  assumes "0 < base" and "0 < cap" and "0 \<le> j" and "j < 1" and "0 \<le> r"
  shows "0 < backoff_seconds a base cap j r"
proof -
  define raw where "raw = min cap (base * 2 ^ nat (max 0 (a - 1)))"
  have raw: "0 < raw"
    using assms by (simp add: raw_def)
  have "0 < raw * (1 - j)"
    using raw assms by simp
  moreover have "0 \<le> raw * j * 2 * r"
    using raw assms by simp
  ultimately have "0 < raw * (1 - j) + raw * j * 2 * r"
    by (rule add_pos_nonneg)
  then show ?thesis
    using assms by (simp add: backoff_seconds_def raw_def [symmetric])
qed

lemma backoff_seconds_ge:
  assumes "0 \<le> cap" and "0 \<le> base" and "0 \<le> j" and "j \<le> 1" and "0 \<le> r"
  shows "(1 - j) * min cap (base * 2 ^ nat (max 0 (a - 1))) \<le> backoff_seconds a base cap j r"
proof -
  define raw where "raw = min cap (base * 2 ^ nat (max 0 (a - 1)))"
  have raw: "0 \<le> raw" "raw \<le> cap"
    using assms by (simp_all add: raw_def)
  have "(1 - j) * raw \<le> raw * (1 - j) + raw * j * 2 * r"
    using raw assms by simp
  moreover have "(1 - j) * raw \<le> cap"
  proof -
    have "(1 - j) * raw \<le> 1 * raw"
      using assms raw by (intro mult_right_mono) auto
    with raw show ?thesis by simp
  qed
  ultimately show ?thesis
    by (simp add: backoff_seconds_def raw_def [symmetric])
qed

lemma classify_submit_exception:
  "classify_exception e CTX_SUBMIT =
     (if e = ConnectTimeout \<or> e = ConnectError then RETRY_SAFE_TRANSPORT
      else if is_timeout_exception e then CONFIRM_TIMEOUT else CONFIRM_TRANSPORT)"
  by (simp add: classify_exception_def)

lemma is_unknown_transport [simp]:
  "\<not> is_unknown RETRY_SAFE_TRANSPORT" "is_unknown CONFIRM_TIMEOUT" "is_unknown CONFIRM_TRANSPORT"
  "cl_retryable RETRY_SAFE_TRANSPORT" "\<not> cl_retryable CONFIRM_TIMEOUT" "\<not> cl_retryable CONFIRM_TRANSPORT"
  by (simp_all add: is_unknown_def RETRY_SAFE_TRANSPORT_def CONFIRM_TRANSPORT_def CONFIRM_TIMEOUT_def)

lemma classify_submit_status:
  "cl_retryable (classify_status code CTX_SUBMIT) = (code = 429)"
  "is_unknown (classify_status code CTX_SUBMIT) = (code = 409 \<or> \<not> (400 \<le> code \<and> code < 500))"
  by (auto simp: is_unknown_def classify_status_def)

subsection \<open>Properties\<close>

text \<open>
  A create request that may have reached the upstream is never retried blindly. While
  submitting, an exception is classified retryable exactly when the connection was never
  established, a status exactly when the upstream refused the request for rate limiting, and
  everything that leaves the fate of the request open (a timeout, a broken connection, a 5xx, a
  409, an unexpected status) asks for confirmation.
\<close>

theorem submit_retry_only_if_not_sent:
  "cl_retryable (classify_exception e CTX_SUBMIT) = (e = ConnectTimeout \<or> e = ConnectError)
   \<and> is_unknown (classify_exception e CTX_SUBMIT) = (e \<noteq> ConnectTimeout \<and> e \<noteq> ConnectError)
   \<and> cl_retryable (classify_status code CTX_SUBMIT) = (code = 429)
   \<and> is_unknown (classify_status code CTX_SUBMIT) = (code = 409 \<or> code < 400 \<or> 500 \<le> code)"
  by (auto simp: classify_submit_exception classify_submit_status)

text \<open>
  The backoff stays between the downward jitter of the exponential curve and its cap, whatever
  the random value, so the cap is a hard one and a retry is never immediate.
\<close>

theorem backoff_bounds:
  assumes "0 < base" and "0 < cap" and "0 \<le> jitter" and "jitter < 1" and "0 \<le> rnd"
  shows "0 < backoff_seconds attempt base cap jitter rnd
    \<and> (1 - jitter) * min cap (base * 2 ^ nat (max 0 (attempt - 1))) \<le> backoff_seconds attempt base cap jitter rnd
    \<and> backoff_seconds attempt base cap jitter rnd \<le> cap"
  using assms backoff_seconds_pos backoff_seconds_ge backoff_seconds_le by simp

theorem backoff_bounds_witness:
  "0 < backoff_seconds 9 1 60 (1/5) (9/10) \<and> backoff_seconds 9 1 60 (1/5) (9/10) \<le> 60"
  using backoff_bounds [of 1 60 "1/5" "9/10" 9] by simp

end
