(* ===== verification/Expression.thy ===== *)
theory Expression
  imports Json
begin

text \<open>
  \<open>templates/expression.py\<close>, the JSONPath sandbox, and \<open>set_path_on_doc\<close> of \<open>gateway/output.py\<close>, the
  in-place write along such a path. The (Chinese) exception messages are replaced by a short name
  of their kind; everything else is the source's, the order of the checks included.
\<close>

definition MAX_PATH_STEPS :: nat where
  "MAX_PATH_STEPS = 32"

definition MAX_RESULT_BYTES :: nat where
  "MAX_RESULT_BYTES = 65536"

definition FORBIDDEN_TOKENS :: "string list" where
  "FORBIDDEN_TOKENS = [''..'', ''*'', ''[?'', ''[('', ''@'', ''|'']"

text \<open>\<open>Step(kind, value)\<close>.\<close>

datatype step = Key string | Index int

type_synonym json_path = "step list"

subsection \<open>compile\_expression\<close>

text \<open>\<open>_NAME_RE\<close> and \<open>_INDEX_RE\<close>.\<close>

definition name_start :: "char \<Rightarrow> bool" where
  "name_start c \<longleftrightarrow> ascii_alpha c \<or> c = CHR ''_''"

definition name_char :: "char \<Rightarrow> bool" where
  "name_char c \<longleftrightarrow> ascii_alnum c \<or> c = CHR ''_'' \<or> c = CHR ''-''"

fun index_of :: "string \<Rightarrow> int option" where
  "index_of [] = None"
| "index_of (c # s) =
     (if c = CHR ''-'' then (if s \<noteq> [] \<and> list_all py_digit s then Some (- int (read_nat 0 s)) else None)
      else if list_all py_digit (c # s) then Some (int (read_nat 0 (c # s))) else None)"

definition quoted :: "string \<Rightarrow> bool" where
  "quoted s \<longleftrightarrow> 2 \<le> length s \<and> hd s = last s \<and> (hd s = CHR 0x27 \<or> hd s = CHR 0x22)"

definition bracket_step :: "string \<Rightarrow> step res" where
  "bracket_step inner =
     (if quoted inner then Inr (Key (butlast (tl inner)))
      else (case index_of inner of
          None \<Rightarrow> Inl (ExpressionError ''index'')
        | Some i \<Rightarrow> Inr (Index i)))"

lemma dropWhile_Cons_length: "dropWhile P s = x # r \<Longrightarrow> length r < length s"
  by (metis Suc_le_eq length_Cons length_dropWhile_le)

text \<open>The loop over \<open>spec[i:]\<close>.\<close>

function parse_steps :: "string \<Rightarrow> step list res" where
  "parse_steps [] = Inr []"
| "parse_steps (c # s) =
     (if c = CHR ''.'' then
        (case s of
           [] \<Rightarrow> Inl (ExpressionError ''name'')
         | d # r \<Rightarrow>
             if name_start d then
               bind_res (parse_steps (dropWhile name_char r))
                 (\<lambda>ss. Inr (Key (d # takeWhile name_char r) # ss))
             else Inl (ExpressionError ''name''))
      else if c = CHR ''['' then
        (case dropWhile (\<lambda>x. x \<noteq> CHR '']'') s of
           [] \<Rightarrow> Inl (ExpressionError ''unclosed'')
         | _ # r \<Rightarrow>
             bind_res (bracket_step (strip (takeWhile (\<lambda>x. x \<noteq> CHR '']'') s)))
               (\<lambda>st. bind_res (parse_steps r) (\<lambda>ss. Inr (st # ss))))
      else Inl (ExpressionError ''char''))"
  by pat_completeness auto

termination
  by (relation "measure length")
    (auto simp: less_Suc_eq_le intro: le_trans [OF length_dropWhile_le] less_imp_le
      dest: dropWhile_Cons_length)

definition compile_expression :: "string \<Rightarrow> json_path res" where
  "compile_expression spec =
     (if spec = [] then Inl (ExpressionError ''empty'')
      else if list_ex (\<lambda>t. contains t spec) FORBIDDEN_TOKENS then Inl (ExpressionError ''forbidden'')
      else if hd spec \<noteq> CHR ''$'' then Inl (ExpressionError ''root'')
      else bind_res (parse_steps (tl spec))
        (\<lambda>ss. if length ss > MAX_PATH_STEPS then Inl (ExpressionError ''steps'') else Inr ss))"

definition is_valid_expression :: "string \<Rightarrow> bool" where
  "is_valid_expression spec \<longleftrightarrow> (case compile_expression spec of Inl _ \<Rightarrow> False | Inr _ \<Rightarrow> True)"

subsection \<open>Evaluation\<close>

text \<open>
  \<open>late i\<close> says that the clock is past the deadline when the \<open>i\<close>-th step is about to be taken.
\<close>

definition list_index :: "int \<Rightarrow> 'a list \<Rightarrow> 'a option" where
  "list_index i xs =
     (if - int (length xs) \<le> i \<and> i < int (length xs)
      then Some (xs ! nat (if i < 0 then i + int (length xs) else i)) else None)"

fun child :: "step \<Rightarrow> json \<Rightarrow> json option" where
  "child (Key k) (JObj d) = dict_get d k"
| "child (Key k) _ = None"
| "child (Index i) (JArr xs) = list_index i xs"
| "child (Index i) _ = None"

fun walk :: "(nat \<Rightarrow> bool) \<Rightarrow> nat \<Rightarrow> json_path \<Rightarrow> json \<Rightarrow> json res" where
  "walk late n [] node = Inr node"
| "walk late n (s # ss) node =
     (if late n then Inl (EvalBudgetExceeded ''deadline'')
      else (case child s node of
          None \<Rightarrow> Inl (PathNotFound ''path'')
        | Some c \<Rightarrow> walk late (Suc n) ss c))"

definition extract_path :: "(nat \<Rightarrow> bool) \<Rightarrow> json \<Rightarrow> json_path \<Rightarrow> json res" where
  "extract_path late doc path =
     bind_res (walk late 0 path doc)
       (\<lambda>node. if utf8_length (dumps False False node) > MAX_RESULT_BYTES
          then Inl (EvalBudgetExceeded ''bytes'') else Inr node)"

definition extract_value :: "(nat \<Rightarrow> bool) \<Rightarrow> json \<Rightarrow> string \<Rightarrow> json res" where
  "extract_value late doc spec = bind_res (compile_expression spec) (extract_path late doc)"

text \<open>
  \<open>try_extract\<close>: \<open>PathNotFound\<close> and \<open>EvalBudgetExceeded\<close> become \<open>(False, None)\<close>; an illegal
  expression still raises.
\<close>

definition try_extract :: "(nat \<Rightarrow> bool) \<Rightarrow> json \<Rightarrow> string \<Rightarrow> json option res" where
  "try_extract late doc spec = (case extract_value late doc spec of
       Inr v \<Rightarrow> Inr (Some v)
     | Inl (PathNotFound _) \<Rightarrow> Inr None
     | Inl (EvalBudgetExceeded _) \<Rightarrow> Inr None
     | Inl e \<Rightarrow> Inl e)"

subsection \<open>set\_path\_on\_doc\<close>

text \<open>
  The function mutates the document it is given; the model returns it, together with the exception
  it ends in, if any. Levels visited before a \<open>PathWriteSkipped\<close> keep what was written to them.
\<close>

fun set_path :: "json_path \<Rightarrow> json \<Rightarrow> json \<Rightarrow> json \<times> exn option" where
  "set_path [] v doc = (doc, Some (PathWriteSkipped ''empty''))"
| "set_path [Key k] v (JObj d) = (JObj (dict_set k v d), None)"
| "set_path [Key k] v doc = (doc, Some (AttributeError ''get''))"
| "set_path [Index i] v doc = (doc, Some (PathWriteSkipped ''last index''))"
| "set_path (Index i # s # ss) v doc = (doc, Some (PathWriteSkipped ''index''))"
| "set_path (Key k # s # ss) v (JObj d) =
     (case set_path (s # ss) v (case dict_get d k of Some (JObj c) \<Rightarrow> JObj c | _ \<Rightarrow> JObj []) of
        (c', e) \<Rightarrow> (JObj (dict_set k c' d), e))"
| "set_path (Key k # s # ss) v doc = (doc, Some (AttributeError ''get''))"

definition set_path_on_doc :: "json \<Rightarrow> string \<Rightarrow> json \<Rightarrow> json \<times> exn option" where
  "set_path_on_doc doc spec v = (case compile_expression spec of
       Inl e \<Rightarrow> (doc, Some e)
     | Inr path \<Rightarrow> set_path path v doc)"

text \<open>
  A write whose \<open>PathWriteSkipped\<close> the caller swallows, with whatever it had done to the document.
\<close>

definition write_or_skip :: "json \<Rightarrow> string \<Rightarrow> json \<Rightarrow> json res" where
  "write_or_skip doc spec v = (case set_path_on_doc doc spec v of
       (doc', None) \<Rightarrow> Inr doc'
     | (doc', Some (PathWriteSkipped _)) \<Rightarrow> Inr doc'
     | (_, Some e) \<Rightarrow> Inl e)"

subsection \<open>Writing and reading back\<close>

fun is_key :: "step \<Rightarrow> bool" where
  "is_key (Key _) = True"
| "is_key (Index _) = False"

lemma set_path_keys:
  assumes "list_all is_key path" and "path \<noteq> []"
  shows "\<exists>d'. set_path path v (JObj d) = (JObj d', None)"
  using assms
proof (induction path v "JObj d" arbitrary: d rule: set_path.induct)
  case (6 k s ss v d)
  then show ?case by (cases "dict_get d k") (auto split: json.splits)
qed auto

lemma walk_set_path:
  assumes "list_all is_key path" and "path \<noteq> []" and "\<And>i. \<not> late i"
  shows "walk late n path (fst (set_path path v (JObj d))) = Inr v"
  using assms(1,2)
proof (induction path v "JObj d" arbitrary: d n rule: set_path.induct)
  case (6 k s ss v d)
  have "\<exists>c. (case dict_get d k of Some (JObj c) \<Rightarrow> JObj c | _ \<Rightarrow> JObj []) = JObj c"
    by (simp split: option.splits json.splits)
  then obtain c where c: "(case dict_get d k of Some (JObj c) \<Rightarrow> JObj c | _ \<Rightarrow> JObj []) = JObj c" ..
  obtain c' where "set_path (s # ss) v (JObj c) = (JObj c', None)"
    using set_path_keys [of "s # ss" v c] 6(2) by auto
  moreover from this have "walk late m (s # ss) (JObj c') = Inr v" for m
    using 6(1) [OF c, of m] 6(2) by auto
  ultimately show ?case using assms(3) c by simp
qed (use assms(3) in auto)

lemma set_path_frame:
  assumes "list_all is_key path" and "path \<noteq> []" and "hd path \<noteq> Key j"
  shows "child (Key j) (fst (set_path path v (JObj d))) = dict_get d j"
  using assms by (induction path v "JObj d" arbitrary: d rule: set_path.induct)
    (auto split: prod.splits)

text \<open>Two paths that part at some step: a write along one is not seen along the other.\<close>

fun diverge :: "json_path \<Rightarrow> json_path \<Rightarrow> bool" where
  "diverge (s # ss) (t # ts) = (if s = t then diverge ss ts else True)"
| "diverge _ _ = False"

lemma walk_set_path_other:
  assumes "list_all is_key q" and "diverge q p" and "\<And>i. \<not> late i" and "walk late n q (JObj d) = Inr x"
  shows "walk late n q (fst (set_path p v (JObj d))) = Inr x"
  using assms(1,2,4)
proof (induction p v "JObj d" arbitrary: d q n rule: set_path.induct)
  case (2 k v d)
  then obtain j ss where "q = Key j # ss" "j \<noteq> k"
    by (cases q; cases "hd q") (auto split: if_splits)
  with 2 assms(3) show ?case by (auto split: option.splits)
next
  case (6 k s ss v d)
  obtain j ts where q: "q = Key j # ts"
    using 6(2,3) by (cases q; cases "hd q") auto
  show ?case
  proof (cases "j = k")
    case True
    then have "diverge ts (s # ss)" using 6(3) q by simp
    moreover obtain c where c: "dict_get d k = Some c" "walk late (Suc n) ts c = Inr x"
      using 6(4) q True assms(3) by (auto split: option.splits)
    moreover obtain t us where ts: "ts = t # us" using \<open>diverge ts (s # ss)\<close> by (cases ts) auto
    moreover have "is_key t" using 6(2) q ts by simp
    ultimately obtain c0 where c0: "c = JObj c0"
      using assms(3) by (cases t; cases c) auto
    have "walk late (Suc n) ts (fst (set_path (s # ss) v (JObj c0))) = Inr x"
      using 6(1) [of c0 ts "Suc n"] c c0 6(2) q \<open>diverge ts (s # ss)\<close> by simp
    then show ?thesis using q True c(1) c0 assms(3) by (simp add: case_prod_beta)
  next
    case False
    then show ?thesis using 6(4) q assms(3) by (auto simp: case_prod_beta split: option.splits)
  qed
qed auto

lemma set_path_obj: "\<exists>d'. fst (set_path p v (JObj d)) = JObj d'"
  by (induction p v "JObj d" arbitrary: d rule: set_path.induct) (auto simp: case_prod_beta)

lemma write_or_skip_doc: "write_or_skip doc spec v = Inr x \<Longrightarrow> x = fst (set_path_on_doc doc spec v)"
  by (cases "set_path_on_doc doc spec v") (auto simp: write_or_skip_def split: option.splits exn.splits)

lemma write_or_skip_obj:
  assumes "write_or_skip (JObj d) spec v = Inr doc"
  shows "\<exists>d'. doc = JObj d'"
proof (cases "compile_expression spec")
  case (Inl e)
  then show ?thesis using write_or_skip_doc [OF assms] by (simp add: set_path_on_doc_def)
next
  case (Inr p)
  then show ?thesis using write_or_skip_doc [OF assms] set_path_obj by (simp add: set_path_on_doc_def)
qed

text \<open>How such a write is seen by an evaluation of another expression, and of its own.\<close>

definition read_now :: "json \<Rightarrow> string \<Rightarrow> json res" where
  "read_now doc spec = bind_res (compile_expression spec) (\<lambda>p. walk (\<lambda>_. False) 0 p doc)"

lemma write_or_skip_reads:
  assumes "compile_expression spec = Inr p" and "list_all is_key p" and "p \<noteq> []"
  shows "\<exists>d'. write_or_skip (JObj d) spec v = Inr (JObj d') \<and> read_now (JObj d') spec = Inr v"
proof -
  obtain d' where d': "set_path p v (JObj d) = (JObj d', None)" using set_path_keys [OF assms(2,3)] by blast
  then show ?thesis
    using walk_set_path [OF assms(2,3), of "\<lambda>_. False" 0 v d] assms(1)
    by (simp add: write_or_skip_def set_path_on_doc_def read_now_def)
qed

lemma write_or_skip_other:
  assumes "compile_expression spec = Inr q" and "list_all is_key q"
    and "\<forall>p. compile_expression other = Inr p \<longrightarrow> diverge q p"
    and "write_or_skip (JObj d) other v = Inr doc" and "read_now (JObj d) spec = Inr x"
  shows "read_now doc spec = Inr x"
proof (cases "compile_expression other")
  case (Inl e)
  with assms(4,5) show ?thesis using write_or_skip_doc [OF assms(4)] by (simp add: set_path_on_doc_def)
next
  case (Inr p)
  have "doc = fst (set_path p v (JObj d))"
    using write_or_skip_doc [OF assms(4)] Inr by (simp add: set_path_on_doc_def)
  then show ?thesis
    using walk_set_path_other [OF assms(2), of p "\<lambda>_. False" 0 d x v] assms(1,3,5) Inr by (simp add: read_now_def)
qed

subsection \<open>Rendering a path\<close>

definition name_ok :: "string \<Rightarrow> bool" where
  "name_ok k \<longleftrightarrow> (case k of [] \<Rightarrow> False | c # r \<Rightarrow> name_start c \<and> list_all name_char r)"

fun step_ok :: "step \<Rightarrow> bool" where
  "step_ok (Key k) = name_ok k"
| "step_ok (Index _) = True"

fun show_step :: "step \<Rightarrow> string" where
  "show_step (Key k) = ''.'' @ k"
| "show_step (Index i) = ''['' @ show_int i @ '']''"

definition show_path :: "json_path \<Rightarrow> string" where
  "show_path path = ''$'' @ List.concat (List.map show_step path)"

lemma index_of_show_int [simp]: "index_of (show_int i) = Some i"
proof (cases "i < 0")
  case True
  then show ?thesis
    using show_nat_digits [of "nat (- i)"] by (simp add: show_int_def)
next
  case False
  obtain c s where cs: "show_nat (nat i) = c # s"
    using show_nat_not_Nil [of "nat i"] by (cases "show_nat (nat i)") auto
  have "list_all py_digit (c # s)"
    using show_nat_digits [of "nat i"] cs by simp
  moreover from this have "c \<noteq> CHR ''-''"
    by (auto simp: py_digit_def)
  ultimately show ?thesis
    using False cs read_show_nat [of "nat i"] by (simp add: show_int_def del: read_show_nat)
qed

lemma show_int_chars: "c \<in> set (show_int i) \<Longrightarrow> py_digit c \<or> c = CHR ''-''"
  using show_nat_digits by (auto simp: show_int_def list_all_iff split: if_splits)

abbreviation show_steps :: "json_path \<Rightarrow> string" where
  "show_steps path \<equiv> List.concat (List.map show_step path)"

lemma show_steps_start: "show_steps path = [] \<or> hd (show_steps path) = CHR ''.'' \<or> hd (show_steps path) = CHR ''[''"
proof (cases path)
  case (Cons s ss)
  then show ?thesis by (cases s) auto
qed simp

lemma takeWhile_append_stop:
  "list_all P xs \<Longrightarrow> ys = [] \<or> \<not> P (hd ys) \<Longrightarrow> takeWhile P (xs @ ys) = xs \<and> dropWhile P (xs @ ys) = ys"
  by (induction xs) (auto, (cases ys; simp)+)

lemma strip_id: "list_all (\<lambda>c. \<not> py_space c) s \<Longrightarrow> strip s = s"
proof -
  assume s: "list_all (\<lambda>c. \<not> py_space c) s"
  then have "dropWhile py_space s = s" by (cases s) auto
  moreover have "dropWhile py_space (rev s) = rev s"
  proof (cases "rev s")
    case (Cons x xs)
    then have "x \<in> set s" by (metis list.set_intros(1) set_rev)
    with s Cons show ?thesis by (auto simp: list_all_iff)
  qed simp
  ultimately show ?thesis by (simp add: strip_def lstrip_def rstrip_def)
qed

lemma digit_or_minus:
  "py_digit c \<or> c = CHR ''-'' \<Longrightarrow> \<not> py_space c \<and> c \<noteq> CHR '']'' \<and> c \<noteq> CHR 0x27 \<and> c \<noteq> CHR 0x22
     \<and> c \<noteq> CHR ''.'' \<and> c \<noteq> CHR ''['' \<and> c \<noteq> CHR ''*'' \<and> c \<noteq> CHR ''@'' \<and> c \<noteq> CHR ''|''
     \<and> c \<noteq> CHR ''?'' \<and> c \<noteq> CHR ''(''"
  by (auto simp: py_digit_def py_space_def Let_def)

lemma show_int_not_Nil [simp]: "show_int i \<noteq> []"
  by (simp add: show_int_def)

lemma bracket_show_int [simp]: "bracket_step (show_int i) = Inr (Index i)"
proof -
  have "\<not> quoted (show_int i)"
    using digit_or_minus [OF show_int_chars, of "hd (show_int i)" i] by (auto simp: quoted_def)
  then show ?thesis by (simp add: bracket_step_def)
qed

lemma strip_show_int [simp]: "strip (show_int i) = show_int i"
  by (rule strip_id) (use show_int_chars digit_or_minus in \<open>auto simp: list_all_iff\<close>)

lemma parse_show_steps: "list_all step_ok path \<Longrightarrow> parse_steps (show_steps path) = Inr path"
proof (induction path)
  case (Cons s ss)
  then have IH: "parse_steps (show_steps ss) = Inr ss" by simp
  show ?case
  proof (cases s)
    case (Key k)
    with Cons.prems obtain c r where k: "k = c # r" "name_start c" "list_all name_char r"
      by (auto simp: name_ok_def split: list.splits)
    have "takeWhile name_char (r @ show_steps ss) = r \<and> dropWhile name_char (r @ show_steps ss) = show_steps ss"
      by (rule takeWhile_append_stop [OF k(3)])
        (use show_steps_start [of ss] in \<open>auto simp: name_char_def ascii_alnum_def ascii_alpha_def
          ascii_upper_def ascii_lower_def py_digit_def\<close>)
    with IH Key k show ?thesis by simp
  next
    case (Index i)
    have "takeWhile (\<lambda>x. x \<noteq> CHR '']'') (show_int i @ CHR '']'' # show_steps ss) = show_int i
      \<and> dropWhile (\<lambda>x. x \<noteq> CHR '']'') (show_int i @ CHR '']'' # show_steps ss) = CHR '']'' # show_steps ss"
      by (rule takeWhile_append_stop)
        (use show_int_chars digit_or_minus in \<open>auto simp: list_all_iff\<close>)
    with IH Index show ?thesis by simp
  qed
qed simp

subsection \<open>The forbidden tokens never occur in a rendered path\<close>

lemma starts_with_Cons: "starts_with (a # p) (c # s) \<longleftrightarrow> a = c \<and> starts_with p s"
  by (auto simp: starts_with_def)

lemma starts_with_Nil [simp]: "starts_with [] s"
  by (simp add: starts_with_def)

lemma contains_1: "contains [a] s \<longleftrightarrow> a \<in> set s"
  by (induction s) (auto simp: starts_with_Cons)

lemma contains_2: "contains [a, b] (c # s) \<longleftrightarrow> (c = a \<and> s \<noteq> [] \<and> hd s = b) \<or> contains [a, b] s"
  by (cases s) (auto simp: starts_with_Cons starts_with_def)

lemma contains_2_append:
  "contains [a, b] (u @ v) \<longleftrightarrow>
     contains [a, b] u \<or> contains [a, b] v \<or> (u \<noteq> [] \<and> v \<noteq> [] \<and> last u = a \<and> hd v = b)"
proof (induction u)
  case (Cons c u)
  then show ?case by (cases u; cases v) (auto simp: contains_2 starts_with_def)
qed simp

lemma contains_2_set: "contains [a, b] s \<Longrightarrow> a \<in> set s \<and> b \<in> set s"
  by (induction s) (auto simp: contains_2 simp del: contains.simps(2))

definition plain_char :: "char \<Rightarrow> bool" where
  "plain_char c \<longleftrightarrow> c \<noteq> CHR ''.'' \<and> c \<noteq> CHR ''['' \<and> c \<noteq> CHR ''*'' \<and> c \<noteq> CHR ''@'' \<and> c \<noteq> CHR ''|''
     \<and> c \<noteq> CHR ''?'' \<and> c \<noteq> CHR ''(''"

lemma name_char_plain: "name_char c \<or> name_start c \<Longrightarrow> plain_char c"
  by (auto simp: plain_char_def name_char_def name_start_def ascii_alnum_def ascii_alpha_def
      ascii_upper_def ascii_lower_def py_digit_def)

lemma show_step_shape:
  assumes "step_ok s"
  shows "\<exists>c m. show_step s = c # m \<and> (c = CHR ''.'' \<or> c = CHR ''['') \<and> m \<noteq> [] \<and> list_all plain_char m"
proof (cases s)
  case (Key k)
  with assms obtain c r where "k = c # r" "name_start c" "list_all name_char r"
    by (auto simp: name_ok_def split: list.splits)
  with Key name_char_plain show ?thesis by (auto simp: list_all_iff)
next
  case (Index i)
  then show ?thesis
    using show_int_chars [of _ i] digit_or_minus by (auto simp: list_all_iff plain_char_def)
qed

lemma show_steps_clean:
  assumes "list_all step_ok path" and "a = CHR ''.'' \<and> b = CHR ''.'' \<or> a = CHR ''['' \<and> (b = CHR ''?'' \<or> b = CHR ''('')"
  shows "\<not> contains [a, b] (show_steps path)"
  using assms(1)
proof (induction path)
  case (Cons s ss)
  then obtain c m where m: "show_step s = c # m" "c = CHR ''.'' \<or> c = CHR ''[''" "m \<noteq> []" "list_all plain_char m"
    using show_step_shape [of s] by auto
  have "a \<notin> set m" and "b \<notin> set m"
    using m(4) assms(2) by (auto simp: list_all_iff plain_char_def)
  then have "\<not> contains [a, b] (c # m)"
    using contains_2_set [of a b m] hd_in_set [OF m(3)]
    by (auto simp: contains_2 simp del: contains.simps(2))
  moreover have "last (c # m) \<noteq> a"
    using m(3) last_in_set [OF m(3)] \<open>a \<notin> set m\<close> by auto
  ultimately show ?case
    using Cons m(1) by (simp add: contains_2_append del: contains.simps(2) append_Cons)
qed simp

lemma show_steps_plain:
  assumes "list_all step_ok path" and "a = CHR ''*'' \<or> a = CHR ''@'' \<or> a = CHR ''|''"
  shows "a \<notin> set (show_steps path)"
  using assms(1)
proof (induction path)
  case (Cons s ss)
  then show ?case
    using show_step_shape [of s] assms(2) by (auto simp: list_all_iff plain_char_def)
qed simp

lemma show_path_allowed:
  assumes "list_all step_ok path"
  shows "\<not> list_ex (\<lambda>t. contains t (show_path path)) FORBIDDEN_TOKENS"
  using show_steps_clean [OF assms] show_steps_plain [OF assms]
  by (auto simp: FORBIDDEN_TOKENS_def show_path_def contains_1 contains_2 simp del: contains.simps(2))

lemma compile_show_path:
  assumes "list_all step_ok path" and "length path \<le> MAX_PATH_STEPS"
  shows "compile_expression (show_path path) = Inr path"
  using show_path_allowed [OF assms(1)] parse_show_steps [OF assms(1)] assms(2)
  by (simp add: compile_expression_def) (simp add: show_path_def)

subsection \<open>A path through an array loses the array\<close>

text \<open>
  The intermediate level is replaced by an empty object before the index further down makes the
  function give up, so a caller that ignores \<open>PathWriteSkipped\<close> goes on with a damaged document.
\<close>

lemma set_path_index_destroys:
  assumes "compile_expression spec = Inr (Key k # Index i # rest)" and "dict_get d k = Some (JArr xs)"
  shows "set_path_on_doc (JObj d) spec v =
     (JObj (dict_set k (JObj []) d),
      Some (PathWriteSkipped (if rest = [] then ''last index'' else ''index'')))"
  using assms by (cases rest) (simp_all add: set_path_on_doc_def)

subsection \<open>Properties\<close>

text \<open>
  C31: The sandbox accepts every path of identifier keys and integer indices of at most 32 steps,
  and reads it as exactly those steps; whatever it accepts has no forbidden construct in it,
  starts at the root and has at most 32 steps.
\<close>

theorem expression_round_trip:
  "(list_all step_ok path \<and> length path \<le> MAX_PATH_STEPS \<longrightarrow>
      compile_expression (show_path path) = Inr path)
   \<and> (compile_expression spec = Inr p \<longrightarrow>
      list_all (\<lambda>t. \<not> contains t spec) FORBIDDEN_TOKENS \<and> (\<exists>r. spec = CHR ''$'' # r)
      \<and> length p \<le> MAX_PATH_STEPS)"
proof (intro conjI impI, goal_cases)
  case 1
  then show ?case using compile_show_path by blast
next
  case 2
  then show ?case by (auto simp: compile_expression_def list_all_iff list_ex_iff split: if_splits)
next
  case 3
  then show ?case by (cases spec) (auto simp: compile_expression_def split: if_splits)
next
  case 4
  then show ?case by (auto simp: compile_expression_def bind_res_Inr_iff split: if_splits)
qed

theorem expression_round_trip_witness:
  "compile_expression (show_path [Key ''data'', Index (- 1), Key ''url'']) = Inr [Key ''data'', Index (- 1), Key ''url'']"
  using expression_round_trip [of "[Key ''data'', Index (- 1), Key ''url'']"]
  by (simp add: name_ok_def name_start_def name_char_def ascii_alnum_def ascii_alpha_def ascii_upper_def
      ascii_lower_def MAX_PATH_STEPS_def)

text \<open>
  A write along a path of keys succeeds, is read back by evaluating the same expression (while
  the value respects the size bound and the deadline is not hit), and leaves every other
  top-level field of the document as it was.
\<close>

theorem set_path_reads_back:
  assumes "compile_expression spec = Inr path" and "list_all is_key path" and "path \<noteq> []"
    and "\<And>i. \<not> late i" and "utf8_length (dumps False False v) \<le> MAX_RESULT_BYTES"
  shows "snd (set_path_on_doc (JObj d) spec v) = None
    \<and> extract_value late (fst (set_path_on_doc (JObj d) spec v)) spec = Inr v
    \<and> (\<forall>j. hd path \<noteq> Key j \<longrightarrow>
         child (Key j) (fst (set_path_on_doc (JObj d) spec v)) = dict_get d j)"
proof (intro conjI allI impI)
  show "snd (set_path_on_doc (JObj d) spec v) = None"
    using set_path_keys [OF assms(2,3), of v d] assms(1) by (auto simp: set_path_on_doc_def)
  show "extract_value late (fst (set_path_on_doc (JObj d) spec v)) spec = Inr v"
    using walk_set_path [OF assms(2,3,4)] assms(1,5)
    by (simp add: extract_value_def extract_path_def set_path_on_doc_def)
next
  fix j assume "hd path \<noteq> Key j"
  then show "child (Key j) (fst (set_path_on_doc (JObj d) spec v)) = dict_get d j"
    using set_path_frame [OF assms(2,3)] assms(1) by (simp add: set_path_on_doc_def)
qed

theorem set_path_reads_back_witness:
  "extract_value (\<lambda>_. False) (fst (set_path_on_doc (JObj [(''id'', JInt 7)]) ''$.task.status'' (JStr ''done'')))
     ''$.task.status'' = Inr (JStr ''done'')"
proof -
  have "compile_expression ''$.task.status'' = Inr [Key ''task'', Key ''status'']"
    by code_simp
  from set_path_reads_back [OF this, of "\<lambda>_. False" "JStr ''done''" "[(''id'', JInt 7)]"]
  show ?thesis by (simp add: utf8_length_def dumps_str_def dumps_char_def MAX_RESULT_BYTES_def)
qed

end
