(* ===== verification/Config.thy ===== *)
theory Config
  imports Prelude
begin

text \<open>
  \<open>config.py\<close>: the settings the modelled code reads, with the defaults of the source, the derived
  properties and the strategy group. Strategy values (integers and floats in the source) are
  rationals; \<open>py_int\<close> is \<open>int(v)\<close> on them.
\<close>

datatype app_env = ENV_DEV | ENV_TEST | ENV_PROD
datatype queue_driver = DRIVER_STREAM | DRIVER_TASKIQ | DRIVER_MEMORY
datatype auth_mode = AUTH_PASSTHROUGH | AUTH_ADMIN
datatype submit_mode = MODE_INLINE | MODE_QUEUED

record settings =
  app_env :: app_env
  redis_url :: string
  queue_driver :: queue_driver
  queue_stream_prefix :: string
  queue_group :: string
  queue_max_depth :: int
  s3_endpoint :: string
  s3_access_key :: string
  s3_secret_key :: string
  s3_bucket :: string
  idempotency_window_seconds_default :: int
  max_attempts_default :: int
  task_deadline_seconds :: int
  result_retention_days :: int
  result_presign_ttl_seconds :: int
  result_max_bytes :: int
  result_mode_store_default :: bool
  submit_confirm_window_seconds :: int
  accept_rate_per_second :: rat
  accept_burst :: int
  channel_concurrency :: int
  tenant_concurrency :: int
  poll_base_interval :: secs
  poll_min_interval :: secs
  poll_max_interval :: secs
  poll_initial_interval :: secs
  poll_hot_start_samples :: int
  submit_retry_max_seconds :: secs
  deadline_extension_max_seconds :: secs
  aimd_quiet_seconds :: secs
  min_refresh_interval :: secs
  unknown_max_per_channel :: int
  unknown_max_lifetime_seconds :: int
  auth_mode :: auth_mode
  ownership_check :: bool
  upstream_auth_header :: string
  submit_mode :: submit_mode
  ssrf_allow_hosts :: "string list"
  ssrf_allow_schemes :: "string list"
  ssrf_pin_dns :: bool
  ssrf_deny_private :: bool
  url_direct_config_enabled :: bool
  url_direct_allowed_prefixes :: "string list"
  callback_base_url :: string
  callback_hmac_keys :: "string dict"
  callback_active_kid :: string
  callback_tolerance_seconds :: int
  admin_token :: string
  replay_rate_per_minute :: int
  scheduler_tick_seconds :: secs
  scheduler_batch_size :: int
  inspector_tick_seconds :: secs
  accepted_stall_seconds :: int

definition default_settings :: settings where
  "default_settings = \<lparr>
     app_env = ENV_DEV, redis_url = ''redis://localhost:6379/0'', queue_driver = DRIVER_STREAM,
     queue_stream_prefix = ''ag:q:'', queue_group = ''ag-workers'', queue_max_depth = 100000,
     s3_endpoint = ''https://oss.s3ai.cn'', s3_access_key = [], s3_secret_key = [], s3_bucket = ''cdn'',
     idempotency_window_seconds_default = 86400, max_attempts_default = 3,
     task_deadline_seconds = 1800, result_retention_days = 30, result_presign_ttl_seconds = 900,
     result_max_bytes = 268435456, result_mode_store_default = False,
     submit_confirm_window_seconds = 120, accept_rate_per_second = 20, accept_burst = 40,
     channel_concurrency = 16, tenant_concurrency = 8, poll_base_interval = 3,
     poll_min_interval = 3, poll_max_interval = 60, poll_initial_interval = 5,
     poll_hot_start_samples = 30, submit_retry_max_seconds = 30,
     deadline_extension_max_seconds = 900, aimd_quiet_seconds = 300, min_refresh_interval = 3,
     unknown_max_per_channel = 200, unknown_max_lifetime_seconds = 3600,
     auth_mode = AUTH_PASSTHROUGH, ownership_check = True, upstream_auth_header = ''Authorization'',
     submit_mode = MODE_QUEUED, ssrf_allow_hosts = [], ssrf_allow_schemes = [''https'', ''http''],
     ssrf_pin_dns = True, ssrf_deny_private = True, url_direct_config_enabled = True,
     url_direct_allowed_prefixes = [], callback_base_url = ''http://localhost:8000'',
     callback_hmac_keys = [(''k1'', ''dev-only-secret'')], callback_active_kid = ''k1'',
     callback_tolerance_seconds = 300, admin_token = ''dev-admin-token'',
     replay_rate_per_minute = 100, scheduler_tick_seconds = 1, scheduler_batch_size = 500,
     inspector_tick_seconds = 15, accepted_stall_seconds = 60\<rparr>"

definition is_test :: "settings \<Rightarrow> bool" where
  "is_test s \<longleftrightarrow> app_env s = ENV_TEST"

definition uses_ephemeral_infra :: "settings \<Rightarrow> bool" where
  "uses_ephemeral_infra s \<longleftrightarrow> is_test s \<or> redis_url s = []"

definition s3_configured :: "settings \<Rightarrow> bool" where
  "s3_configured s \<longleftrightarrow> s3_endpoint s \<noteq> [] \<and> s3_access_key s \<noteq> [] \<and> s3_secret_key s \<noteq> []
     \<and> s3_bucket s \<noteq> []"

definition s3_secure :: "settings \<Rightarrow> bool" where
  "s3_secure s \<longleftrightarrow> starts_with ''https'' (lower (strip (s3_endpoint s)))"

type_synonym strategy = "rat dict"

definition load_strategy_defaults :: "settings \<Rightarrow> strategy" where
  "load_strategy_defaults s =
    [(''idempotency_window_seconds'', of_int (idempotency_window_seconds_default s)),
     (''max_attempts'', of_int (max_attempts_default s)),
     (''deadline_seconds'', of_int (task_deadline_seconds s)),
     (''min_refresh_interval'', min_refresh_interval s),
     (''retention_days'', of_int (result_retention_days s)),
     (''presign_ttl_seconds'', of_int (result_presign_ttl_seconds s)),
     (''unknown_max_per_channel'', of_int (unknown_max_per_channel s)),
     (''unknown_max_lifetime_seconds'', of_int (unknown_max_lifetime_seconds s)),
     (''submit_confirm_window_seconds'', of_int (submit_confirm_window_seconds s))]"

text \<open>\<open>int(x)\<close> truncates towards zero.\<close>

definition py_int :: "rat \<Rightarrow> int" where
  "py_int x = (if x < 0 then - \<lfloor>- x\<rfloor> else \<lfloor>x\<rfloor>)"

definition strategy_get :: "strategy \<Rightarrow> string \<Rightarrow> rat \<Rightarrow> rat" where
  "strategy_get st k d = (case dict_get st k of None \<Rightarrow> d | Some v \<Rightarrow> v)"

lemma py_int_of_int [simp]: "py_int (of_int i) = i"
  by (simp add: py_int_def)

end
