(* ===== verification/Template.thy ===== *)
theory Template
  imports Expression Config Domain
begin

text \<open>
  \<open>templates/schema.py\<close>: the expanded template every operation works from, its capability set and
  terminal mapping, the mapping of an upstream status to the lifecycle, and the effective failure
  values of \<open>templates/derive.py\<close>. A status value read from a response is compared as the string
  \<open>str(v)\<close>.
\<close>

datatype confirm_strategy = CS_QUERY_BY_CLIENT_KEY | CS_LIST_AND_MATCH | CS_MANUAL_ONLY
datatype status_source = SRC_POLL | SRC_CALLBACK
datatype result_mode = RM_STORE | RM_PASSTHROUGH | RM_REDIRECT
datatype template_tier = TIER_MINIMAL | TIER_DIFF | TIER_FULL
datatype field_source = FS_EXPLICIT | FS_DERIVED | FS_DEFAULT | FS_PATCHED

record capabilities =
  cap_upstream_idempotent :: bool
  cap_confirm_strategy :: confirm_strategy
  cap_cancel :: bool
  cap_callback :: bool
  cap_list_tasks :: bool
  cap_max_payload_bytes :: int
  cap_permanent_result_url :: bool
  cap_rate_limit_side_effect_free :: bool
  cap_per_key_isolation :: bool

definition default_capabilities :: capabilities where
  "default_capabilities = \<lparr>cap_upstream_idempotent = False, cap_confirm_strategy = CS_MANUAL_ONLY,
     cap_cancel = False, cap_callback = False, cap_list_tasks = False,
     cap_max_payload_bytes = 1048576, cap_permanent_result_url = False,
     cap_rate_limit_side_effect_free = False, cap_per_key_isolation = True\<rparr>"

definition confirm_auto_allowed :: "capabilities \<Rightarrow> bool" where
  "confirm_auto_allowed c \<longleftrightarrow> cap_confirm_strategy c \<noteq> CS_MANUAL_ONLY"

record terminal_mapping =
  tm_success :: "string list"
  tm_failure :: "string list"
  tm_expired :: "string list"
  tm_internal_rewrite :: "string option"
  tm_internal_error_code :: "string option"
  tm_error_field :: "string option"

definition default_terminal :: terminal_mapping where
  "default_terminal = \<lparr>tm_success = [''succeeded''], tm_failure = [''failed''],
     tm_expired = [''expired''], tm_internal_rewrite = None, tm_internal_error_code = None,
     tm_error_field = None\<rparr>"

record result_policy =
  rp_mode :: result_mode
  rp_presign_ttl_seconds :: "int option"
  rp_retention_days :: "int option"
  rp_unavailable_gone :: bool

definition default_result_policy :: result_policy where
  "default_result_policy = \<lparr>rp_mode = RM_STORE, rp_presign_ttl_seconds = None,
     rp_retention_days = None, rp_unavailable_gone = True\<rparr>"

definition requires_transfer :: "result_policy \<Rightarrow> bool" where
  "requires_transfer p \<longleftrightarrow> rp_mode p = RM_STORE"

record normalization_rules =
  nr_fields :: "string list"
  nr_case_insensitive_fields :: "string list"
  nr_trim_strings :: bool

record resolved_template =
  rt_alias :: string
  rt_namespace :: string
  rt_base_url :: string
  rt_create_path :: string
  rt_create_method :: string
  rt_get_path_template :: string
  rt_get_method :: string
  rt_cancel_path_template :: string
  rt_cancel_method :: string
  rt_id_location :: string
  rt_status_field :: string
  rt_result_location :: string
  rt_terminal :: terminal_mapping
  rt_capabilities :: capabilities
  rt_result_policy :: result_policy
  rt_pool :: string
  rt_status_source :: status_source
  rt_callback_param :: string
  rt_normalize :: normalization_rules
  rt_strategy :: strategy
  rt_extra_headers :: "string dict"
  rt_request_body_template :: "jobj option"
  rt_notes :: "string option"
  rt_provenance :: "field_source dict"

definition is_managed :: "resolved_template \<Rightarrow> string \<Rightarrow> bool" where
  "is_managed t f \<longleftrightarrow> (case dict_get (rt_provenance t) f of None \<Rightarrow> FS_DEFAULT | Some s \<Rightarrow> s) = FS_EXPLICIT"

definition supports_cancel :: "resolved_template \<Rightarrow> bool" where
  "supports_cancel t \<longleftrightarrow> cap_cancel (rt_capabilities t)"

definition maps_status :: "resolved_template \<Rightarrow> string \<Rightarrow> task_status option" where
  "maps_status t s =
     (if s \<in> set (tm_success (rt_terminal t)) then Some SUCCEEDED
      else if s \<in> set (tm_expired (rt_terminal t)) then Some TIMEOUT
      else if s \<in> set (tm_failure (rt_terminal t)) then Some FAILED
      else None)"

subsection \<open>templates/derive.py: effective failure values\<close>

text \<open>\<open>a or b\<close> on optional strings.\<close>

definition or_str :: "string option \<Rightarrow> string \<Rightarrow> string" where
  "or_str x d = (case x of Some (c # s) \<Rightarrow> c # s | _ \<Rightarrow> d)"

definition first_or :: "string list \<Rightarrow> string \<Rightarrow> string" where
  "first_or xs d = (case xs of [] \<Rightarrow> d | x # _ \<Rightarrow> x)"

definition effective_failure_status :: "resolved_template \<Rightarrow> string" where
  "effective_failure_status t =
     or_str (tm_internal_rewrite (rt_terminal t)) (first_or (tm_failure (rt_terminal t)) ''failed'')"

definition effective_failure_error_code :: "resolved_template \<Rightarrow> string" where
  "effective_failure_error_code t =
     or_str (tm_internal_error_code (rt_terminal t)) (effective_failure_status t)"

lemma maps_status_terminal:
  "maps_status t s = Some st \<Longrightarrow> st \<in> {SUCCEEDED, TIMEOUT, FAILED}"
  by (auto simp: maps_status_def split: if_splits)

text \<open>A template of the minimal form, for the witnesses.\<close>

definition sample_template :: resolved_template where
  "sample_template = \<lparr>rt_alias = ''video'', rt_namespace = ''default'',
     rt_base_url = ''https://up.example'', rt_create_path = ''/v1/tasks'', rt_create_method = ''POST'',
     rt_get_path_template = ''/v1/tasks/{id}'', rt_get_method = ''GET'',
     rt_cancel_path_template = ''/v1/tasks/{id}'', rt_cancel_method = ''DELETE'',
     rt_id_location = ''$.id'', rt_status_field = ''$.status'', rt_result_location = ''$.url'',
     rt_terminal = default_terminal, rt_capabilities = default_capabilities\<lparr>cap_cancel := True\<rparr>,
     rt_result_policy = default_result_policy, rt_pool = ''shared'', rt_status_source = SRC_POLL,
     rt_callback_param = ''callback_url'',
     rt_normalize = \<lparr>nr_fields = [], nr_case_insensitive_fields = [], nr_trim_strings = True\<rparr>,
     rt_strategy = load_strategy_defaults default_settings, rt_extra_headers = [],
     rt_request_body_template = None, rt_notes = None, rt_provenance = []\<rparr>"

end
