(* ===== verification/Redaction.thy ===== *)
theory Redaction
  imports Json
begin

text \<open>
  \<open>security/redaction.py\<close> and \<open>security/sanitize.py\<close>, with the part of Python's \<open>re\<close> their
  patterns use: concatenation, alternatives of literals, greedy repetition of a character class,
  and word boundaries. A matcher returns the candidate rests in backtracking order, so the first
  one is the match of the library; characters are code points up to 255.
\<close>

subsection \<open>A matcher for the patterns of the source\<close>

datatype rx =
    Chars "char \<Rightarrow> bool" nat "nat option"
  | Boundary
  | Lit string
  | Alts "string list"

type_synonym cursor = "char option \<times> string"

definition re_word :: "char \<Rightarrow> bool" where
  "re_word c \<longleftrightarrow> (let n = (of_char c :: nat) in
     ascii_alnum c \<or> n = 95 \<or> n = 170 \<or> n = 178 \<or> n = 179 \<or> n = 181 \<or> n = 185 \<or> n = 186
     \<or> (188 \<le> n \<and> n \<le> 190) \<or> (192 \<le> n \<and> n \<noteq> 215 \<and> n \<noteq> 247))"

definition at_boundary :: "cursor \<Rightarrow> bool" where
  "at_boundary cur \<longleftrightarrow>
     (case fst cur of None \<Rightarrow> False | Some c \<Rightarrow> re_word c)
     \<noteq> (case snd cur of [] \<Rightarrow> False | c # _ \<Rightarrow> re_word c)"

definition advance_by :: "nat \<Rightarrow> cursor \<Rightarrow> cursor" where
  "advance_by k cur = ((if k = 0 then fst cur else Some (snd cur ! (k - 1))), drop k (snd cur))"

definition run_length :: "(char \<Rightarrow> bool) \<Rightarrow> nat option \<Rightarrow> string \<Rightarrow> nat" where
  "run_length p m s = (let k = length (takeWhile p s) in case m of None \<Rightarrow> k | Some b \<Rightarrow> min b k)"

fun rx_one :: "bool \<Rightarrow> rx \<Rightarrow> cursor \<Rightarrow> cursor list" where
  "rx_one ic (Chars p n m) cur =
     List.map (\<lambda>k. advance_by k cur) (rev [n ..< Suc (run_length p m (snd cur))])"
| "rx_one ic Boundary cur = (if at_boundary cur then [cur] else [])"
| "rx_one ic (Lit w) cur =
     (if starts_with (if ic then lower w else w)
           (if ic then lower (take (length w) (snd cur)) else snd cur)
      then [advance_by (length w) cur] else [])"
| "rx_one ic (Alts ws) cur = List.concat (List.map (\<lambda>w.
     if starts_with (if ic then lower w else w)
          (if ic then lower (take (length w) (snd cur)) else snd cur)
     then [advance_by (length w) cur] else []) ws)"

fun rx_match :: "bool \<Rightarrow> rx list \<Rightarrow> cursor \<Rightarrow> cursor list" where
  "rx_match ic [] cur = [cur]"
| "rx_match ic (r # rs) cur = List.concat (List.map (rx_match ic rs) (rx_one ic r cur))"

text \<open>\<open>shape.search(s) is not None\<close>, and \<open>shape.sub(repl, s)\<close> for patterns that match no empty string.\<close>

fun rx_search :: "bool \<Rightarrow> rx list \<Rightarrow> char option \<Rightarrow> string \<Rightarrow> bool" where
  "rx_search ic rs prev [] = (rx_match ic rs (prev, []) \<noteq> [])"
| "rx_search ic rs prev (c # s) =
     (rx_match ic rs (prev, c # s) \<noteq> [] \<or> rx_search ic rs (Some c) s)"

function rx_sub :: "bool \<Rightarrow> rx list \<Rightarrow> string \<Rightarrow> char option \<Rightarrow> string \<Rightarrow> string" where
  "rx_sub ic rs repl prev [] = []"
| "rx_sub ic rs repl prev (c # s) = (case rx_match ic rs (prev, c # s) of
       [] \<Rightarrow> c # rx_sub ic rs repl (Some c) s
     | (prev', rest) # _ \<Rightarrow>
         if length rest \<le> length s then repl @ rx_sub ic rs repl prev' rest
         else c # rx_sub ic rs repl (Some c) s)"
  by pat_completeness auto
termination by (relation "measure (\<lambda>(_, _, _, _, s). length s)") auto

subsection \<open>redaction.py\<close>

definition SENSITIVE_HEADERS :: "string list" where
  "SENSITIVE_HEADERS = [''authorization'', ''proxy-authorization'', ''x-api-key'', ''api-key'',
     ''apikey'', ''x-goog-api-key'', ''x-auth-token'', ''cookie'', ''set-cookie'',
     ''x-amz-security-token'']"

definition OTEL_SAFE_HEADERS :: "string list" where
  "OTEL_SAFE_HEADERS = [''content-type'', ''accept'', ''accept-encoding'', ''user-agent'',
     ''content-length'', ''retry-after'', ''x-request-id'', ''traceparent'', ''tracestate'',
     ''x-b3-traceid'', ''x-b3-spanid'']"

definition token_char :: "char \<Rightarrow> bool" where
  "token_char c \<longleftrightarrow> ascii_alnum c \<or> c = CHR ''-'' \<or> c = CHR ''_''"

definition bearer_char :: "char \<Rightarrow> bool" where
  "bearer_char c \<longleftrightarrow> ascii_alnum c \<or> c \<in> set ''-._~+/''"

definition akia_char :: "char \<Rightarrow> bool" where
  "akia_char c \<longleftrightarrow> py_digit c \<or> ascii_upper c"

definition SECRET_SHAPES :: "(bool \<times> rx list) list" where
  "SECRET_SHAPES =
    [(True, [Boundary, Alts [''sk'', ''pk'', ''api'', ''key'', ''token'', ''bearer''],
        Chars (\<lambda>c. c = CHR ''-'' \<or> c = CHR ''_'') 1 (Some 1), Chars token_char 12 None, Boundary]),
     (True, [Boundary, Lit ''Bearer'', Chars py_space 1 None, Chars bearer_char 16 None,
        Chars (\<lambda>c. c = CHR ''='') 0 None]),
     (False, [Boundary, Lit ''AKIA'', Chars akia_char 16 (Some 16), Boundary]),
     (False, [Boundary, Chars ascii_alnum 32 None, Chars (\<lambda>c. c = CHR ''='') 0 (Some 2), Boundary])]"

definition REDACTED :: string where
  "REDACTED = ''***redacted***''"

definition has_shape :: "nat \<Rightarrow> string \<Rightarrow> bool" where
  "has_shape n s \<longleftrightarrow> list_ex (\<lambda>(ic, rs). rx_search ic rs None s) (take n SECRET_SHAPES)"

definition redact_headers :: "string dict \<Rightarrow> string dict" where
  "redact_headers hs = List.map (\<lambda>(k, v).
     (k, if lower k \<in> set SENSITIVE_HEADERS then REDACTED
         else if has_shape 2 v then REDACTED else v)) hs"

definition otel_safe_headers :: "string dict \<Rightarrow> string dict" where
  "otel_safe_headers hs = filter (\<lambda>(k, v). lower k \<in> set OTEL_SAFE_HEADERS) hs"

definition scrub_text :: "string list \<Rightarrow> string \<Rightarrow> string" where
  "scrub_text secrets text =
     fold (\<lambda>(ic, rs) out. rx_sub ic rs REDACTED None out) SECRET_SHAPES
       (fold (\<lambda>secret out. if length secret \<ge> 6 then str_replace secret REDACTED out else out)
         secrets text)"

text \<open>\<open>scrub_payload\<close> first drops empty secrets, then walks the value; keys are kept.\<close>

fun scrub_value :: "string list \<Rightarrow> json \<Rightarrow> json"
and scrub_items :: "string list \<Rightarrow> json list \<Rightarrow> json list"
and scrub_fields :: "string list \<Rightarrow> (string \<times> json) list \<Rightarrow> (string \<times> json) list" where
  "scrub_value secrets (JObj kvs) = JObj (scrub_fields secrets kvs)"
| "scrub_value secrets (JArr xs) = JArr (scrub_items secrets xs)"
| "scrub_value secrets (JStr s) = JStr (scrub_text secrets s)"
| "scrub_value secrets v = v"
| "scrub_items secrets [] = []"
| "scrub_items secrets (x # xs) = scrub_value secrets x # scrub_items secrets xs"
| "scrub_fields secrets [] = []"
| "scrub_fields secrets ((k, v) # kvs) = (k, scrub_value secrets v) # scrub_fields secrets kvs"

definition scrub_payload :: "string list \<Rightarrow> json \<Rightarrow> json" where
  "scrub_payload secrets v = scrub_value (filter (\<lambda>s. s \<noteq> []) secrets) v"

definition safe_json_dump :: "string list \<Rightarrow> nat \<Rightarrow> json \<Rightarrow> string" where
  "safe_json_dump secrets limit v = take limit (dumps False False (scrub_payload secrets v))"

subsection \<open>sanitize.py\<close>

text \<open>
  \<open>_DANGEROUS\<close> and \<open>_SAFE\<close>. \<open>v\<close> is the value as a JSON value; \<open>str(value)\<close> is \<open>py_str\<close>.
\<close>

definition dangerous_char :: "char \<Rightarrow> bool" where
  "dangerous_char c \<longleftrightarrow> c \<in> set ''/:%?#@'' \<or> c = CHR 0x5C \<or> py_space c"

definition safe_char :: "char \<Rightarrow> bool" where
  "safe_char c \<longleftrightarrow> ascii_alnum c \<or> c \<in> set ''._~-''"

definition sanitize_interpolation_value :: "json \<Rightarrow> string res" where
  "sanitize_interpolation_value v =
     (case v of
        JBool _ \<Rightarrow> Inl (UnsafeInterpolationValue ''illegal'')
      | JNull \<Rightarrow> Inl (UnsafeInterpolationValue ''illegal'')
      | _ \<Rightarrow> (let raw = py_str v in
          if raw = [] then Inl (UnsafeInterpolationValue ''empty'')
          else if list_ex dangerous_char raw \<or> contains ''..'' raw
            then Inl (UnsafeInterpolationValue ''dangerous'')
          else if \<not> (list_all safe_char raw \<and> length raw \<le> 256)
            then Inl (UnsafeInterpolationValue ''charset'')
          else Inr raw))"

definition is_safe_interpolation_value :: "json \<Rightarrow> bool" where
  "is_safe_interpolation_value v \<longleftrightarrow>
     (case sanitize_interpolation_value v of Inl _ \<Rightarrow> False | Inr _ \<Rightarrow> True)"

subsection \<open>Lemmas\<close>

lemma sanitize_Inr:
  "sanitize_interpolation_value v = Inr s \<Longrightarrow>
     s \<noteq> [] \<and> length s \<le> 256 \<and> list_all safe_char s \<and> \<not> contains ''..'' s \<and> py_str v = s"
  by (cases v) (auto simp: sanitize_interpolation_value_def Let_def simp del: contains.simps split: if_splits)

lemma safe_char_plain:
  "safe_char c \<Longrightarrow> c \<noteq> CHR ''/'' \<and> c \<noteq> CHR ''{'' \<and> c \<noteq> CHR ''}'' \<and> c \<noteq> CHR '':'' \<and> c \<noteq> CHR ''?''
     \<and> c \<noteq> CHR ''#'' \<and> c \<noteq> CHR ''@'' \<and> c \<noteq> CHR ''%'' \<and> c \<noteq> CHR 0x5C"
  by (auto simp: safe_char_def ascii_alnum_def ascii_alpha_def ascii_upper_def ascii_lower_def py_digit_def)

lemma redact_headers_keys: "List.map fst (redact_headers hs) = List.map fst hs"
  by (induction hs) (auto simp: redact_headers_def)

lemma redact_headers_sensitive:
  "(k, v) \<in> set (redact_headers hs) \<Longrightarrow> lower k \<in> set SENSITIVE_HEADERS \<Longrightarrow> v = REDACTED"
  by (auto simp: redact_headers_def split: if_splits)

lemma scrub_fields_keys [simp]: "List.map fst (scrub_fields secrets kvs) = List.map fst kvs"
  by (induction kvs) auto

lemma scrub_items_length [simp]: "length (scrub_items secrets xs) = length xs"
  by (induction xs) auto

end
