(* ===== verification/Ipaddr.thy ===== *)
theory Ipaddr
  imports Json "HOL-Library.Word"
begin

text \<open>
  What \<open>security/ssrf.py\<close> uses of Python's \<open>ipaddress\<close> (3.11): addresses as words of 32 and 128 bits, reading a
  text, printing an address, membership in a network and the predicates over the special-purpose networks of the
  IANA registries. \<open>None\<close> is the \<open>AddressValueError\<close> of a text that is no address.
\<close>

unbundle bit_operations_syntax

datatype ip_addr = IPv4 "32 word" | IPv6 "128 word" "string option"

subsection \<open>Reading\<close>

definition parse_octet :: "string \<Rightarrow> int option" where
  "parse_octet s =
     (if s = [] \<or> \<not> list_all py_digit s \<or> length s > 3 \<or> (s \<noteq> ''0'' \<and> hd s = CHR ''0'') then None
      else case digits_value 0 s of Some n \<Rightarrow> if n > 255 then None else Some n | None \<Rightarrow> None)"

definition octets_word :: "int list \<Rightarrow> 32 word" where
  "octets_word os = fold (\<lambda>n w. push_bit 8 w OR of_int n) os 0"

definition all_some :: "'a option list \<Rightarrow> 'a list option" where
  "all_some xs = (if None \<in> set xs then None else Some (List.map the xs))"

definition parse_v4 :: "string \<Rightarrow> 32 word option" where
  "parse_v4 s = (let octets = split_on (CHR ''.'') s in
     if length octets \<noteq> 4 then None
     else map_option octets_word (all_some (List.map parse_octet octets)))"

definition hex_val :: "char \<Rightarrow> nat option" where
  "hex_val c = (let n = (of_char c :: nat) in
     if 48 \<le> n \<and> n \<le> 57 then Some (n - 48)
     else if 65 \<le> n \<and> n \<le> 70 then Some (n - 55)
     else if 97 \<le> n \<and> n \<le> 102 then Some (n - 87) else None)"

fun read_hex :: "int \<Rightarrow> string \<Rightarrow> int option" where
  "read_hex acc [] = Some acc"
| "read_hex acc (c # s) = (case hex_val c of None \<Rightarrow> None | Some d \<Rightarrow> read_hex (16 * acc + int d) s)"

text \<open>An empty hextet reaches \<open>int(s, 16)\<close>, which raises.\<close>

definition parse_hextet :: "string \<Rightarrow> int option" where
  "parse_hextet s = (if s = [] \<or> length s > 4 then None else read_hex 0 s)"

text \<open>\<open>'%x' % n\<close>.\<close>

fun show_hex :: "nat \<Rightarrow> string" where
  "show_hex n = (if n < 16 then [hex_char n] else show_hex (n div 16) @ [hex_char (n mod 16)])"

declare show_hex.simps [simp del]

lemma hex_digits:
  "hex_char 0 = CHR ''0''" "hex_char 1 = CHR ''1''" "hex_char 2 = CHR ''2''" "hex_char 3 = CHR ''3''"
  "hex_char 4 = CHR ''4''" "hex_char 5 = CHR ''5''" "hex_char 6 = CHR ''6''" "hex_char 7 = CHR ''7''"
  "hex_char 8 = CHR ''8''" "hex_char 9 = CHR ''9''" "hex_char 10 = CHR ''a''" "hex_char 11 = CHR ''b''"
  "hex_char 12 = CHR ''c''" "hex_char 13 = CHR ''d''" "hex_char 14 = CHR ''e''" "hex_char 15 = CHR ''f''"
  "hex_char (Suc 0) = CHR ''1''"
  by code_simp+

text \<open>A dotted tail becomes two hextets.\<close>

definition expand_dotted :: "string list \<Rightarrow> string list option" where
  "expand_dotted parts =
     (if CHR ''.'' \<in> set (last parts) then
        (case parse_v4 (last parts) of
           None \<Rightarrow> None
         | Some w \<Rightarrow> Some (butlast parts @ [show_hex (unat (drop_bit 16 w)), show_hex (unat (w AND 0xFFFF))]))
      else Some parts)"

definition hextets_word :: "int list \<Rightarrow> 128 word" where
  "hextets_word hs = fold (\<lambda>h w. push_bit 16 w OR of_int h) hs 0"

text \<open>The empty parts between the first and the last one: where a \<open>::\<close> stands.\<close>

definition skip_indices :: "string list \<Rightarrow> nat list" where
  "skip_indices parts = filter (\<lambda>i. parts ! i = []) [1..<length parts - 1]"

definition parse_hextets :: "string list \<Rightarrow> 128 word option" where
  "parse_hextets parts = (case skip_indices parts of
       [] \<Rightarrow>
         if length parts \<noteq> 8 then None
         else map_option hextets_word (all_some (List.map parse_hextet parts))
     | [i] \<Rightarrow>
         (let hi = i; lo = length parts - i - 1;
              hi' = (if hd parts = [] then hi - 1 else hi);
              lo' = (if last parts = [] then lo - 1 else lo) in
          if hd parts = [] \<and> hi' > 0 then None
          else if last parts = [] \<and> lo' > 0 then None
          else if hi' + lo' \<ge> 8 then None
          else (case all_some (List.map parse_hextet (take hi' parts)) of
              None \<Rightarrow> None
            | Some his \<Rightarrow> (case all_some (List.map parse_hextet (drop (length parts - lo') parts)) of
                None \<Rightarrow> None
              | Some los \<Rightarrow> Some (hextets_word (his @ replicate (8 - (hi' + lo')) 0 @ los)))))
     | _ \<Rightarrow> None)"

definition parse_v6 :: "string \<Rightarrow> 128 word option" where
  "parse_v6 s = (let parts = split_on (CHR '':'') s in
     if length parts < 3 then None
     else case expand_dotted parts of
         None \<Rightarrow> None
       | Some parts' \<Rightarrow> if length parts' > 9 then None else parse_hextets parts')"

text \<open>\<open>s.partition(c)\<close>: the text before and after the first \<open>c\<close>, when there is one.\<close>

fun partition_at :: "char \<Rightarrow> string \<Rightarrow> string \<times> string option" where
  "partition_at c [] = ([], None)"
| "partition_at c (x # s) =
     (if x = c then ([], Some s) else (case partition_at c s of (a, b) \<Rightarrow> (x # a, b)))"

definition split_scope_id :: "string \<Rightarrow> (string \<times> string option) option" where
  "split_scope_id s = (case partition_at (CHR ''%'') s of
       (a, None) \<Rightarrow> Some (a, None)
     | (a, Some z) \<Rightarrow> if z = [] \<or> CHR ''%'' \<in> set z then None else Some (a, Some z))"

definition ip_address :: "string \<Rightarrow> ip_addr option" where
  "ip_address s =
     (if CHR ''/'' \<in> set s then None
      else case parse_v4 s of
          Some w \<Rightarrow> Some (IPv4 w)
        | None \<Rightarrow> (case split_scope_id s of
              None \<Rightarrow> None
            | Some (a, z) \<Rightarrow> map_option (\<lambda>w. IPv6 w z) (parse_v6 a)))"

subsection \<open>Printing\<close>

definition v4_octets :: "32 word \<Rightarrow> nat list" where
  "v4_octets w = List.map (\<lambda>k. unat (drop_bit k w AND 0xFF)) [24, 16, 8, 0]"

definition show_v4 :: "32 word \<Rightarrow> string" where
  "show_v4 w = join ''.'' (List.map show_nat (v4_octets w))"

definition v6_hextets :: "128 word \<Rightarrow> nat list" where
  "v6_hextets w = List.map (\<lambda>k. unat (drop_bit k w AND 0xFFFF)) [112, 96, 80, 64, 48, 32, 16, 0]"

text \<open>The first longest run of zero hextets: its start and its length.\<close>

fun best_zero_run :: "nat \<Rightarrow> string list \<Rightarrow> nat \<Rightarrow> nat \<Rightarrow> nat \<Rightarrow> nat \<times> nat" where
  "best_zero_run i [] start best_start best_len = (best_start, best_len)"
| "best_zero_run i (h # hs) start best_start best_len =
     (if h = ''0'' then
        (if Suc i - start > best_len then best_zero_run (Suc i) hs start start (Suc i - start)
         else best_zero_run (Suc i) hs start best_start best_len)
      else best_zero_run (Suc i) hs (Suc i) best_start best_len)"

definition compress_hextets :: "string list \<Rightarrow> string list" where
  "compress_hextets hs = (case best_zero_run 0 hs 0 0 0 of (start, len) \<Rightarrow>
     if len > 1 then
       (if start = 0 then [[]] else []) @ take start hs @ [[]] @ drop (start + len) hs
       @ (if start + len = length hs then [[]] else [])
     else hs)"

definition show_v6 :: "128 word \<Rightarrow> string" where
  "show_v6 w = join '':'' (compress_hextets (List.map show_hex (v6_hextets w)))"

definition show_ip :: "ip_addr \<Rightarrow> string" where
  "show_ip a = (case a of
       IPv4 w \<Rightarrow> show_v4 w
     | IPv6 w z \<Rightarrow> show_v6 w @ (case z of None \<Rightarrow> [] | Some s \<Rightarrow> CHR ''%'' # s))"

subsection \<open>Networks\<close>

text \<open>\<open>a in network\<close>: a network is its address and its prefix length.\<close>

definition in_v4 :: "32 word \<Rightarrow> 32 word \<times> nat \<Rightarrow> bool" where
  "in_v4 a net \<longleftrightarrow> a AND NOT (mask (32 - snd net)) = fst net"

definition in_v6 :: "128 word \<Rightarrow> 128 word \<times> nat \<Rightarrow> bool" where
  "in_v6 a net \<longleftrightarrow> a AND NOT (mask (128 - snd net)) = fst net"

definition v4_private :: "(32 word \<times> nat) list" where
  "v4_private = [(0, 8), (0x0A000000, 8), (0x7F000000, 8), (0xA9FE0000, 16), (0xAC100000, 12), (0xC0000000, 24),
     (0xC00000AA, 31), (0xC0000200, 24), (0xC0A80000, 16), (0xC6120000, 15), (0xC6336400, 24), (0xCB007100, 24),
     (0xF0000000, 4), (0xFFFFFFFF, 32)]"

definition v4_private_exceptions :: "(32 word \<times> nat) list" where
  "v4_private_exceptions = [(0xC0000009, 32), (0xC000000A, 32)]"

definition v6_private :: "(128 word \<times> nat) list" where
  "v6_private = [(1, 128), (0, 128), (0xFFFF00000000, 96), (0x0064FF9B000100000000000000000000, 48),
     (0x01000000000000000000000000000000, 64), (0x20010000000000000000000000000000, 23),
     (0x20010DB8000000000000000000000000, 32), (0x20020000000000000000000000000000, 16),
     (0xFC000000000000000000000000000000, 7), (0xFE800000000000000000000000000000, 10)]"

definition v6_private_exceptions :: "(128 word \<times> nat) list" where
  "v6_private_exceptions = [(0x20010001000000000000000000000001, 128), (0x20010001000000000000000000000002, 128),
     (0x20010003000000000000000000000000, 32), (0x20010004011200000000000000000000, 48),
     (0x20010020000000000000000000000000, 28), (0x20010030000000000000000000000000, 28)]"

definition v6_reserved :: "(128 word \<times> nat) list" where
  "v6_reserved = [(0, 8), (0x01000000000000000000000000000000, 8), (0x02000000000000000000000000000000, 7),
     (0x04000000000000000000000000000000, 6), (0x08000000000000000000000000000000, 5),
     (0x10000000000000000000000000000000, 4), (0x40000000000000000000000000000000, 3),
     (0x60000000000000000000000000000000, 3), (0x80000000000000000000000000000000, 3),
     (0xA0000000000000000000000000000000, 3), (0xC0000000000000000000000000000000, 3),
     (0xE0000000000000000000000000000000, 4), (0xF0000000000000000000000000000000, 5),
     (0xF8000000000000000000000000000000, 6), (0xFE000000000000000000000000000000, 9)]"

definition ipv4_mapped :: "128 word \<Rightarrow> 32 word option" where
  "ipv4_mapped w = (if drop_bit 32 w = 0xFFFF then Some (ucast w) else None)"

definition v4_is_private :: "32 word \<Rightarrow> bool" where
  "v4_is_private w \<longleftrightarrow> list_ex (in_v4 w) v4_private \<and> \<not> list_ex (in_v4 w) v4_private_exceptions"

fun is_private :: "ip_addr \<Rightarrow> bool" where
  "is_private (IPv4 w) = v4_is_private w"
| "is_private (IPv6 w _) = (case ipv4_mapped w of
     Some v \<Rightarrow> v4_is_private v
   | None \<Rightarrow> list_ex (in_v6 w) v6_private \<and> \<not> list_ex (in_v6 w) v6_private_exceptions)"

fun is_loopback :: "ip_addr \<Rightarrow> bool" where
  "is_loopback (IPv4 w) = in_v4 w (0x7F000000, 8)"
| "is_loopback (IPv6 w _) = (w = 1)"

fun is_link_local :: "ip_addr \<Rightarrow> bool" where
  "is_link_local (IPv4 w) = in_v4 w (0xA9FE0000, 16)"
| "is_link_local (IPv6 w _) = in_v6 w (0xFE800000000000000000000000000000, 10)"

fun is_multicast :: "ip_addr \<Rightarrow> bool" where
  "is_multicast (IPv4 w) = in_v4 w (0xE0000000, 4)"
| "is_multicast (IPv6 w _) = in_v6 w (0xFF000000000000000000000000000000, 8)"

fun is_reserved :: "ip_addr \<Rightarrow> bool" where
  "is_reserved (IPv4 w) = in_v4 w (0xF0000000, 4)"
| "is_reserved (IPv6 w _) = list_ex (in_v6 w) v6_reserved"

fun is_unspecified :: "ip_addr \<Rightarrow> bool" where
  "is_unspecified (IPv4 w) = (w = 0)"
| "is_unspecified (IPv6 w _) = (w = 0)"

subsection \<open>Lemmas\<close>

text \<open>A network is an interval of numbers.\<close>

lemma unat_and_not_mask: "unat (a AND NOT (mask k) :: 'a::len word) = unat a div 2 ^ k * 2 ^ k"
proof -
  have 1: "a AND NOT (mask k) = push_bit k (drop_bit k a)"
    by (rule bit_word_eqI) (auto simp: bit_simps)
  have 2: "push_bit k (drop_bit k a) = a - take_bit k a"
    using bits_ident [of k a] by (metis add_diff_cancel_right')
  have 3: "take_bit k a \<le> a" by (simp add: word_le_nat_alt unsigned_take_bit_eq take_bit_nat_def)
  show ?thesis unfolding 1 2 unat_sub [OF 3] unsigned_take_bit_eq take_bit_nat_def
    by (simp add: minus_mod_eq_div_mult)
qed

lemma div_block: "0 < m \<Longrightarrow> a div m = q \<longleftrightarrow> q * m \<le> a \<and> a < q * m + (m :: nat)"
  by (metis add.commute div_nat_eqI div_times_less_eq_dividend dividend_less_div_times mult.commute mult_Suc_right
      times_div_less_eq_dividend)

lemma unat_and_not_mask_iff:
  assumes "unat net mod 2 ^ k = 0"
  shows "a AND NOT (mask k) = net \<longleftrightarrow> unat net \<le> unat a \<and> unat a < unat net + 2 ^ k"
proof -
  define q where "q = unat net div 2 ^ k"
  have net: "unat net = q * 2 ^ k" using assms by (simp add: q_def dvd_div_mult_self mod_0_imp_dvd)
  show ?thesis unfolding word_unat_eq_iff unat_and_not_mask net
    using div_block [of "2 ^ k" "unat a" q] by simp
qed

lemmas in_v4_iff = unat_and_not_mask_iff [of "fst net" "32 - snd net" for net :: "32 word \<times> nat", folded in_v4_def]
lemmas in_v6_iff = unat_and_not_mask_iff [of "fst net" "128 - snd net" for net :: "128 word \<times> nat", folded in_v6_def]

text \<open>Printing and reading an IPv4 address.\<close>

lemma parse_octet_show:
  assumes "n < 256" shows "parse_octet (show_nat n) = Some (int n)"
proof -
  consider "n < 10" | "10 \<le> n" "n < 100" | "100 \<le> n" "n < 1000" using assms by linarith
  then have "length (show_nat n) \<le> 3 \<and> (show_nat n = ''0'' \<or> hd (show_nat n) \<noteq> CHR ''0'')"
    by cases (auto simp: show_nat_small digit_char_zero)
  then show ?thesis using assms show_nat_digits [of n] digits_value_nat [OF show_nat_digits [of n], of 0]
    by (auto simp: parse_octet_def)
qed

lemma and_255: "(w :: 32 word) AND 0xFF = take_bit 8 w"
  by (simp add: take_bit_eq_mask mask_numeral)

lemma octets_word_v4: "octets_word (List.map int (v4_octets w)) = w"
proof (rule bit_word_eqI)
  fix n assume "n < LENGTH(32)"
  then consider "n < 8" | "8 \<le> n" "n < 16" | "16 \<le> n" "n < 24" | "24 \<le> n" "n < 32" by fastforce
  then show "bit (octets_word (List.map int (v4_octets w))) n = bit w n"
    by cases (simp_all add: octets_word_def v4_octets_def and_255 bit_simps less_diff_conv2)
qed

lemma v4_octets_small: "list_all (\<lambda>n. n < 256) (v4_octets w)"
  by (simp add: v4_octets_def and_255 unsigned_take_bit_eq take_bit_nat_def)

lemma all_some_map: "\<forall>x \<in> set xs. f x = Some (g x) \<Longrightarrow> all_some (List.map f xs) = Some (List.map g xs)"
  by (auto simp: all_some_def)

lemma parse_show_v4: "parse_v4 (show_v4 w) = Some w"
proof -
  have s: "split_on (CHR ''.'') (show_v4 w) = List.map show_nat (v4_octets w)"
    unfolding show_v4_def
    by (rule split_on_join) (auto simp: v4_octets_def show_nat_no py_digit_def)
  have "\<forall>n \<in> set (v4_octets w). (parse_octet \<circ> show_nat) n = Some (int n)"
    using v4_octets_small [of w] by (simp add: list_all_iff parse_octet_show)
  then have "all_some (List.map parse_octet (List.map show_nat (v4_octets w))) = Some (List.map int (v4_octets w))"
    unfolding map_map by (rule all_some_map)
  moreover have "length (v4_octets w) = 4" by (simp add: v4_octets_def)
  ultimately show ?thesis by (simp add: parse_v4_def s octets_word_v4)
qed

lemma show_v4_inj: "show_v4 a = show_v4 b \<longleftrightarrow> a = b"
  using parse_show_v4 by (metis option.inject)

end
