(* ===== verification/Urls.thy ===== *)
theory Urls
  imports Ipaddr
begin

text \<open>
  What the gateway uses of Python's \<open>urllib.parse\<close> (3.11): \<open>urlsplit\<close> with the parts of a network location,
  \<open>urlparse\<close> and \<open>urljoin\<close>. A \<open>ValueError\<close> carries no text here. The check of a network location for characters
  whose compatibility form is a delimiter concerns code points above 255 only, so it is left out.
\<close>

subsection \<open>Text functions\<close>

text \<open>\<open>s.rpartition(c)[0]\<close> (when there is a \<open>c\<close>) and \<open>[2]\<close>.\<close>

definition rpartition_at :: "char \<Rightarrow> string \<Rightarrow> string option \<times> string" where
  "rpartition_at c s = (case partition_at c (rev s) of (b, a) \<Rightarrow> (map_option rev a, rev b))"

definition after_at :: "char \<Rightarrow> string \<Rightarrow> string" where
  "after_at c s = (case snd (partition_at c s) of None \<Rightarrow> [] | Some r \<Rightarrow> r)"

subsection \<open>Splitting\<close>

record split_url =
  us_scheme :: string
  us_netloc :: string
  us_path :: string
  us_query :: string
  us_fragment :: string

definition scheme_char :: "char \<Rightarrow> bool" where
  "scheme_char c \<longleftrightarrow> ascii_alnum c \<or> c \<in> set ''+-.''"

definition control_or_space :: "char \<Rightarrow> bool" where
  "control_or_space c \<longleftrightarrow> (of_char c :: nat) \<le> 32"

definition unsafe_byte :: "char \<Rightarrow> bool" where
  "unsafe_byte c \<longleftrightarrow> (of_char c :: nat) \<in> {9, 10, 13}"

definition clean_url :: "string \<Rightarrow> string" where
  "clean_url s = filter (\<lambda>c. \<not> unsafe_byte c) (dropWhile control_or_space s)"

text \<open>The scheme in front of the first colon, if it is one, and the rest.\<close>

definition split_scheme :: "string \<Rightarrow> string \<Rightarrow> string \<times> string" where
  "split_scheme sch url = (case partition_at (CHR '':'') url of
       (c # s, Some rest) \<Rightarrow>
         if ascii_alpha c \<and> list_all scheme_char (c # s) then (lower (c # s), rest) else (sch, url)
     | _ \<Rightarrow> (sch, url))"

definition netloc_end :: "char \<Rightarrow> bool" where
  "netloc_end c \<longleftrightarrow> c \<in> set ''/?#''"

definition split_netloc :: "string \<Rightarrow> string \<times> string" where
  "split_netloc url = (if take 2 url = ''//''
     then (takeWhile (\<lambda>c. \<not> netloc_end c) (drop 2 url), dropWhile (\<lambda>c. \<not> netloc_end c) (drop 2 url))
     else ([], url))"

definition hex_char_ok :: "char \<Rightarrow> bool" where
  "hex_char_ok c \<longleftrightarrow> hex_val c \<noteq> None"

text \<open>\<open>v\<close>, hexadecimal digits, a dot, and at least one character; or an IPv6 address.\<close>

definition bracketed_ok :: "string \<Rightarrow> bool" where
  "bracketed_ok h = (case h of
       c # s \<Rightarrow> if c = CHR ''v'' then
           (let digits = takeWhile hex_char_ok s; rest = dropWhile hex_char_ok s in
            digits \<noteq> [] \<and> (case rest of d # e # r \<Rightarrow> d = CHR ''.'' | _ \<Rightarrow> False))
         else (case ip_address h of Some (IPv6 _ _) \<Rightarrow> True | _ \<Rightarrow> False)
     | [] \<Rightarrow> False)"

definition netloc_ok :: "string \<Rightarrow> bool" where
  "netloc_ok n =
     (if CHR ''['' \<in> set n \<and> CHR '']'' \<in> set n
      then bracketed_ok (fst (partition_at (CHR '']'') (after_at (CHR ''['') n)))
      else CHR ''['' \<notin> set n \<and> CHR '']'' \<notin> set n)"

definition split_rest :: "string \<Rightarrow> string \<times> string \<times> string" where
  "split_rest url =
     (let (front, fragment) = (fst (partition_at (CHR ''#'') url), after_at (CHR ''#'') url)
      in (fst (partition_at (CHR ''?'') front), after_at (CHR ''?'') front, fragment))"

definition urlsplit :: "string \<Rightarrow> string \<Rightarrow> split_url res" where
  "urlsplit sch url =
     (let (scheme, rest) = split_scheme sch (clean_url url);
          (netloc, tail) = split_netloc rest;
          (path, query, fragment) = split_rest tail
      in if netloc_ok netloc
         then Inr \<lparr>us_scheme = scheme, us_netloc = netloc, us_path = path, us_query = query, us_fragment = fragment\<rparr>
         else Inl (ValueError []))"

subsection \<open>The parts of a network location\<close>

definition userinfo :: "string \<Rightarrow> string option \<times> string option" where
  "userinfo netloc = (case fst (rpartition_at (CHR ''@'') netloc) of
       None \<Rightarrow> (None, None)
     | Some u \<Rightarrow> (case partition_at (CHR '':'') u of (name, pw) \<Rightarrow> (Some name, pw)))"

definition hostinfo :: "string \<Rightarrow> string \<times> string option" where
  "hostinfo netloc =
     (let h = snd (rpartition_at (CHR ''@'') netloc);
          (host, port) = (case snd (partition_at (CHR ''['') h) of
              Some b \<Rightarrow> (fst (partition_at (CHR '']'') b), after_at (CHR '':'') (after_at (CHR '']'') b))
            | None \<Rightarrow> (fst (partition_at (CHR '':'') h), after_at (CHR '':'') h))
      in (host, if port = [] then None else Some port))"

definition url_hostname :: "split_url \<Rightarrow> string option" where
  "url_hostname u = (case fst (hostinfo (us_netloc u)) of
       [] \<Rightarrow> None
     | h \<Rightarrow> (case partition_at (CHR ''%'') h of
         (a, None) \<Rightarrow> Some (lower a)
       | (a, Some zone) \<Rightarrow> Some (lower a @ CHR ''%'' # zone)))"

definition url_port :: "split_url \<Rightarrow> int option res" where
  "url_port u = (case snd (hostinfo (us_netloc u)) of
       None \<Rightarrow> Inr None
     | Some p \<Rightarrow> if \<not> list_all py_digit p then Inl (ValueError [])
         else (case digits_value 0 p of
             Some n \<Rightarrow> if n \<le> 65535 then Inr (Some n) else Inl (ValueError [])
           | None \<Rightarrow> Inl (ValueError [])))"

subsection \<open>Parsing and joining\<close>

record parsed_url = split_url +
  up_params :: string

definition uses_relative :: "string set" where
  "uses_relative = {'''', ''ftp'', ''http'', ''gopher'', ''nntp'', ''imap'', ''wais'', ''file'', ''https'', ''shttp'', ''mms'',
     ''prospero'', ''rtsp'', ''rtsps'', ''rtspu'', ''sftp'', ''svn'', ''svn+ssh'', ''ws'', ''wss''}"

definition uses_netloc :: "string set" where
  "uses_netloc = {'''', ''ftp'', ''http'', ''gopher'', ''nntp'', ''telnet'', ''imap'', ''wais'', ''file'', ''mms'', ''https'', ''shttp'',
     ''snews'', ''prospero'', ''rtsp'', ''rtsps'', ''rtspu'', ''rsync'', ''svn'', ''svn+ssh'', ''sftp'', ''nfs'', ''git'', ''git+ssh'',
     ''ws'', ''wss''}"

definition uses_params :: "string set" where
  "uses_params = {'''', ''ftp'', ''hdl'', ''prospero'', ''http'', ''imap'', ''https'', ''shttp'', ''rtsp'', ''rtsps'', ''rtspu'',
     ''sip'', ''sips'', ''mms'', ''sftp'', ''tel''}"

text \<open>The parameters of the last segment: from the first semicolon after the last slash on.\<close>

definition split_params :: "string \<Rightarrow> string \<times> string" where
  "split_params path = (case rpartition_at (CHR ''/'') path of
       (None, seg) \<Rightarrow> (fst (partition_at (CHR '';'') seg), after_at (CHR '';'') seg)
     | (Some dir, seg) \<Rightarrow> (dir @ CHR ''/'' # fst (partition_at (CHR '';'') seg), after_at (CHR '';'') seg))"

definition urlparse :: "string \<Rightarrow> string \<Rightarrow> parsed_url res" where
  "urlparse sch url = bind_res (urlsplit sch url) (\<lambda>u.
     case (if us_scheme u \<in> uses_params then split_params (us_path u) else (us_path u, [])) of
       (path, params) \<Rightarrow> Inr (split_url.extend (u\<lparr>us_path := path\<rparr>) (parsed_url.fields params)))"

definition urlunsplit :: "split_url \<Rightarrow> string" where
  "urlunsplit u =
     (let path = us_path u;
          a = (if us_netloc u \<noteq> [] \<or> (us_scheme u \<noteq> [] \<and> us_scheme u \<in> uses_netloc) \<or> take 2 path = ''//''
               then ''//'' @ us_netloc u @ (if path \<noteq> [] \<and> hd path \<noteq> CHR ''/'' then CHR ''/'' # path else path)
               else path);
          b = (if us_scheme u = [] then a else us_scheme u @ '':'' @ a);
          c = (if us_query u = [] then b else b @ ''?'' @ us_query u)
      in if us_fragment u = [] then c else c @ ''#'' @ us_fragment u)"

definition urlunparse :: "parsed_url \<Rightarrow> string" where
  "urlunparse u = urlunsplit (split_url.truncate
     (if up_params u = [] then u else u\<lparr>us_path := us_path u @ '';'' @ up_params u\<rparr>))"

text \<open>The segments of the joined path, and their reduction.\<close>

definition join_segments :: "string \<Rightarrow> string \<Rightarrow> string list" where
  "join_segments bpath path =
     (let base = split_on (CHR ''/'') bpath;
          base' = (if last base \<noteq> [] then butlast base else base) in
      if take 1 path = ''/'' then split_on (CHR ''/'') path
      else (let segs = base' @ split_on (CHR ''/'') path in
        if length segs \<le> 1 then segs
        else hd segs # filter (\<lambda>s. s \<noteq> []) (butlast (tl segs)) @ [last segs]))"

definition reduce_segment :: "string \<Rightarrow> string list \<Rightarrow> string list" where
  "reduce_segment seg acc =
     (if seg = ''..'' then butlast acc else if seg = ''.'' then acc else acc @ [seg])"

definition resolve_segments :: "string list \<Rightarrow> string list" where
  "resolve_segments segs =
     (let out = fold reduce_segment segs [] in
      if last segs = ''.'' \<or> last segs = ''..'' then out @ [[]] else out)"

definition urljoin :: "string \<Rightarrow> string \<Rightarrow> string res" where
  "urljoin base url =
     (if base = [] then Inr url
      else if url = [] then Inr base
      else bind_res (urlparse [] base) (\<lambda>b. bind_res (urlparse (us_scheme b) url) (\<lambda>u.
        if us_scheme u \<noteq> us_scheme b \<or> us_scheme u \<notin> uses_relative then Inr url
        else if us_scheme u \<in> uses_netloc \<and> us_netloc u \<noteq> [] then Inr (urlunparse u)
        else (let u' = (if us_scheme u \<in> uses_netloc then u\<lparr>us_netloc := us_netloc b\<rparr> else u) in
          if us_path u = [] \<and> up_params u = []
          then Inr (urlunparse (u'\<lparr>us_path := us_path b, up_params := up_params b,
                 us_query := (if us_query u = [] then us_query b else us_query u)\<rparr>))
          else (let path = join ''/'' (resolve_segments (join_segments (us_path b) (us_path u))) in
            Inr (urlunparse (u'\<lparr>us_path := (if path = [] then ''/'' else path)\<rparr>)))))))"

text \<open>What two urls must share to be of the same origin: \<open>(scheme, hostname, port)\<close>.\<close>

definition url_origin :: "string \<Rightarrow> (string \<times> string option \<times> int option) res" where
  "url_origin url = bind_res (urlparse [] url) (\<lambda>u. bind_res (url_port (split_url.truncate u)) (\<lambda>p.
     Inr (us_scheme u, url_hostname (split_url.truncate u), p)))"

end
