(* ===== verification/Render.thy ===== *)
theory Render
  imports Template Redaction Urls
begin

text \<open>
  \<open>templates/render.py\<close>: the outgoing requests. Values interpolated into a path come from the
  upstream's responses and are untrusted: they are sanitised, the path must be fully resolved
  without traversal, and the final URL must keep the origin of the template's \<open>base_url\<close>.
\<close>

record rendered_request =
  rr_method :: string
  rr_url :: string
  rr_headers :: "string dict"
  rr_json_body :: "jobj option"

definition credential_header :: "string \<Rightarrow> bool" where
  "credential_header k \<longleftrightarrow> lower k \<in> set [''authorization'', ''x-api-key'', ''api-key'', ''cookie'']"

definition json_of_headers :: "string dict \<Rightarrow> json" where
  "json_of_headers hs = JObj (List.map (\<lambda>(k, v). (k, JStr v)) hs)"

definition summary :: "bool \<Rightarrow> rendered_request \<Rightarrow> jobj" where
  "summary redacted r =
    [(''method'', JStr (rr_method r)), (''url'', JStr (rr_url r)),
     (''headers'', json_of_headers (if redacted
        then List.map (\<lambda>(k, v). (k, if credential_header k then ''***redacted***'' else v)) (rr_headers r)
        else rr_headers r)),
     (''json_body'', case rr_json_body r of None \<Rightarrow> JNull | Some b \<Rightarrow> JObj b)]"

definition ID_PLACEHOLDER :: string where
  "ID_PLACEHOLDER = ''{id}''"

definition render_path :: "string \<Rightarrow> jobj \<Rightarrow> string res" where
  "render_path tpl vals =
     bind_res
       (if contains ID_PLACEHOLDER tpl then
          (case dict_get vals ''id'' of
             None \<Rightarrow> Inl (RenderError ''missing value'')
           | Some v \<Rightarrow> (case sanitize_interpolation_value v of
                 Inl (UnsafeInterpolationValue m) \<Rightarrow> Inl (RenderError m)
               | Inl e \<Rightarrow> Inl e
               | Inr safe \<Rightarrow> Inr (str_replace ID_PLACEHOLDER safe tpl)))
        else Inr tpl)
       (\<lambda>out. if CHR ''{'' \<in> set out \<or> CHR ''}'' \<in> set out then Inl (RenderError ''unresolved'')
          else if contains ''..'' out then Inl (RenderError ''traversal'')
          else Inr out)"

definition join_url :: "string \<Rightarrow> string \<Rightarrow> string res" where
  "join_url base_url path =
     (let base = rstrip_char (CHR ''/'') base_url @ ''/'' in
      bind_res (urljoin base (lstrip_char (CHR ''/'') path)) (\<lambda>url.
      bind_res (url_origin base) (\<lambda>base_parts. bind_res (url_origin url) (\<lambda>url_parts.
        if base_parts \<noteq> url_parts then Inl (RenderError ''origin'') else Inr url))))"

definition base_headers :: "resolved_template \<Rightarrow> string dict" where
  "base_headers t = dict_update [(''Content-Type'', ''application/json''), (''Accept'', ''application/json'')]
     (rt_extra_headers t)"

definition render_create :: "resolved_template \<Rightarrow> jobj \<Rightarrow> string option
    \<Rightarrow> rendered_request res" where
  "render_create t body callback_url =
     (let payload = (case callback_url of
          Some (c # u) \<Rightarrow> if cap_callback (rt_capabilities t)
            then dict_set (rt_callback_param t) (JStr (c # u)) body else body
        | _ \<Rightarrow> body)
      in bind_res (join_url (rt_base_url t) (rt_create_path t)) (\<lambda>url.
         Inr \<lparr>rr_method = rt_create_method t, rr_url = url, rr_headers = base_headers t,
              rr_json_body = Some payload\<rparr>))"

definition render_get :: "resolved_template \<Rightarrow> string \<Rightarrow> rendered_request res" where
  "render_get t uid =
     bind_res (render_path (rt_get_path_template t) [(''id'', JStr uid)]) (\<lambda>path.
     bind_res (join_url (rt_base_url t) path) (\<lambda>url.
       Inr \<lparr>rr_method = rt_get_method t, rr_url = url, rr_headers = base_headers t,
            rr_json_body = None\<rparr>))"

definition render_cancel :: "resolved_template \<Rightarrow> string \<Rightarrow> rendered_request res" where
  "render_cancel t uid =
     (if \<not> cap_cancel (rt_capabilities t) then Inl (RenderError ''cancel unsupported'')
      else
        bind_res (render_path (rt_cancel_path_template t) [(''id'', JStr uid)]) (\<lambda>path.
        bind_res (join_url (rt_base_url t) path) (\<lambda>url.
          Inr \<lparr>rr_method = rt_cancel_method t, rr_url = url, rr_headers = base_headers t,
               rr_json_body = None\<rparr>)))"

definition SAMPLE_BODY :: jobj where
  "SAMPLE_BODY = [(''model'', JStr ''sample-model''),
     (''content'', JArr [JObj [(''type'', JStr ''text''), (''text'', JStr ''sample prompt'')]])]"

definition preview_requests :: "resolved_template \<Rightarrow> jobj option \<Rightarrow> string \<Rightarrow> string option
    \<Rightarrow> jobj res" where
  "preview_requests t sample_body sample_id callback_url =
     bind_res (render_create t (case sample_body of Some b \<Rightarrow> b | None \<Rightarrow> SAMPLE_BODY) callback_url)
       (\<lambda>c. bind_res (render_get t sample_id) (\<lambda>g.
         bind_res (if cap_cancel (rt_capabilities t)
                   then bind_res (render_cancel t sample_id) (\<lambda>x. Inr (JObj (summary True x)))
                   else Inr (JObj [(''supported'', JBool False), (''degraded'', JStr ''cancel_requested'')]))
           (\<lambda>x. Inr [(''create'', JObj (summary True c)), (''get'', JObj (summary True g)), (''cancel'', x)])))"

subsection \<open>Lemmas\<close>

lemma join_url_origin:
  "join_url b p = Inr url \<Longrightarrow> \<exists>origin. url_origin url = Inr origin \<and> url_origin (rstrip_char (CHR ''/'') b @ ''/'') = Inr origin"
  by (auto simp: join_url_def Let_def bind_res_Inr_iff split: if_splits)

lemma render_path_clean:
  assumes "render_path tpl vals = Inr out"
  shows "CHR ''{'' \<notin> set out \<and> CHR ''}'' \<notin> set out \<and> \<not> contains ''..'' out"
  using assms by (auto simp: render_path_def bind_res_Inr_iff simp del: contains.simps split: if_splits)

text \<open>\<open>str_replace\<close> on a text in which the pattern occurs once.\<close>

lemma replace_all_skip: "replace_all (length u) old new (u @ s) = replace_all 0 old new s"
  by (induction u) (cases s; simp)+

lemma starts_with_append [simp]: "starts_with p (p @ s)"
  by (simp add: starts_with_def)

lemma replace_all_here:
  assumes "old \<noteq> []"
  shows "replace_all 0 old new (old @ s) = new @ replace_all 0 old new s"
proof -
  obtain c u where old: "old = c # u" using assms by (cases old) auto
  then show ?thesis
    using replace_all_skip [of u old new s] starts_with_append [of old s] by simp
qed

lemma replace_all_none: "\<not> contains old s \<Longrightarrow> replace_all 0 old new s = s"
  by (induction s) auto

lemma replace_all_prefix:
  assumes "CHR ''{'' \<notin> set pre"
  shows "replace_all 0 ID_PLACEHOLDER new (pre @ s) = pre @ replace_all 0 ID_PLACEHOLDER new s"
  using assms by (induction pre) (auto simp: ID_PLACEHOLDER_def starts_with_def)

lemma contains_prefix_skip:
  assumes "CHR ''{'' \<notin> set pre"
  shows "contains ID_PLACEHOLDER (pre @ s) = contains ID_PLACEHOLDER s"
  using assms by (induction pre) (auto simp: ID_PLACEHOLDER_def starts_with_def)

lemma not_contains_no_brace: "CHR ''{'' \<notin> set s \<Longrightarrow> \<not> contains ID_PLACEHOLDER s"
  using contains_prefix_skip [of s "[]"] by (simp add: ID_PLACEHOLDER_def)

lemma str_replace_id:
  assumes "CHR ''{'' \<notin> set pre" and "CHR ''{'' \<notin> set post"
  shows "str_replace ID_PLACEHOLDER safe (pre @ ID_PLACEHOLDER @ post) = pre @ safe @ post"
    "contains ID_PLACEHOLDER (pre @ ID_PLACEHOLDER @ post)"
proof -
  have ne: "ID_PLACEHOLDER \<noteq> []" by (simp add: ID_PLACEHOLDER_def)
  show "str_replace ID_PLACEHOLDER safe (pre @ ID_PLACEHOLDER @ post) = pre @ safe @ post"
    unfolding str_replace_def replace_all_prefix [OF assms(1)]
    by (simp only: replace_all_here [OF ne] replace_all_none [OF not_contains_no_brace [OF assms(2)]] simp_thms)
  show "contains ID_PLACEHOLDER (pre @ ID_PLACEHOLDER @ post)"
    unfolding contains_prefix_skip [OF assms(1)] by (simp add: ID_PLACEHOLDER_def starts_with_def)
qed

lemma render_get_Inr:
  "render_get t uid = Inr r \<Longrightarrow> \<exists>p. render_path (rt_get_path_template t) [(''id'', JStr uid)] = Inr p
     \<and> join_url (rt_base_url t) p = Inr (rr_url r) \<and> rr_json_body r = None \<and> rr_method r = rt_get_method t"
  by (auto simp: render_get_def bind_res_Inr_iff)

lemma render_cancel_Inr:
  "render_cancel t uid = Inr r \<Longrightarrow> cap_cancel (rt_capabilities t) \<and>
     (\<exists>p. render_path (rt_cancel_path_template t) [(''id'', JStr uid)] = Inr p
      \<and> join_url (rt_base_url t) p = Inr (rr_url r) \<and> rr_json_body r = None \<and> rr_method r = rt_cancel_method t)"
  by (auto simp: render_cancel_def bind_res_Inr_iff split: if_splits)

lemma render_create_Inr:
  "render_create t b cb = Inr r \<Longrightarrow> join_url (rt_base_url t) (rt_create_path t) = Inr (rr_url r)
     \<and> rr_method r = rt_create_method t"
  by (auto simp: render_create_def Let_def bind_res_Inr_iff)

lemma render_path_id:
  assumes "CHR ''{'' \<notin> set (pre @ post)"
    and "render_path (pre @ ID_PLACEHOLDER @ post) [(''id'', v)] = Inr out"
  shows "\<exists>s. out = pre @ s @ post \<and> list_all safe_char s \<and> s \<noteq> [] \<and> length s \<le> 256 \<and> py_str v = s
    \<and> \<not> contains ''..'' out"
proof -
  have b: "CHR ''{'' \<notin> set pre" "CHR ''{'' \<notin> set post" using assms(1) by auto
  obtain s where s: "sanitize_interpolation_value v = Inr s" and "out = pre @ s @ post"
    using assms(2) str_replace_id [OF b]
    by (auto simp: render_path_def bind_res_Inr_iff simp del: contains.simps split: sum.splits exn.splits if_splits)
  with sanitize_Inr [OF s] render_path_clean [OF assms(2)] show ?thesis by auto
qed

subsection \<open>Properties\<close>



end
