(* ===== verification/Ssrf.thy ===== *)
theory Ssrf
  imports Config Urls
begin

text \<open>
  \<open>security/ssrf.py\<close>: validation of an outgoing target at request time. The only parameter is the resolver:
  \<open>socket.getaddrinfo\<close> yields addresses, or raises an \<open>OSError\<close>, or a \<open>UnicodeError\<close> (a \<open>ValueError\<close>) for a host
  it cannot encode. The synchronous and asynchronous validators have the same body.
\<close>

datatype dns_answer = Dns_addresses "string list" | Dns_error | Dns_unencodable

type_synonym resolver = "string \<Rightarrow> int \<Rightarrow> dns_answer"

definition ALWAYS_DENY_IPS :: "string list" where
  "ALWAYS_DENY_IPS = [''169.254.169.254'', ''100.100.100.200'', ''169.254.170.2'', ''fd00:ec2::254'']"

definition DENY_PORTS :: "int list" where
  "DENY_PORTS = [22, 23, 25, 111, 445, 1433, 3306, 5432, 6379, 9200, 11211, 27017]"

record validated_target =
  vt_url :: string
  vt_scheme :: string
  vt_host :: string
  vt_port :: int
  vt_addresses :: "string list"
  vt_allowlisted :: bool

definition vt_origin :: "validated_target \<Rightarrow> string" where
  "vt_origin t = vt_scheme t @ ''://'' @ vt_host t @ '':'' @ show_int (vt_port t)"

definition opt_truthy :: "string option \<Rightarrow> bool" where
  "opt_truthy x \<longleftrightarrow> (case x of Some (_ # _) \<Rightarrow> True | _ \<Rightarrow> False)"

definition parse_url :: "string \<Rightarrow> (string \<times> string \<times> int) res" where
  "parse_url url = bind_res (urlsplit [] url) (\<lambda>parts.
     if lower (us_scheme parts) \<notin> {''http'', ''https''} then Inl (SsrfViolation ''scheme'')
     else if opt_truthy (fst (userinfo (us_netloc parts))) \<or> opt_truthy (snd (userinfo (us_netloc parts)))
       then Inl (SsrfViolation ''credentials'')
     else (let host = lower (case url_hostname parts of None \<Rightarrow> [] | Some h \<Rightarrow> h) in
       if host = [] then Inl (SsrfViolation ''host'')
       else bind_res (url_port parts) (\<lambda>port. Inr (lower (us_scheme parts), host,
         (case port of Some q \<Rightarrow> if q \<noteq> 0 then q else if lower (us_scheme parts) = ''https'' then 443 else 80
          | None \<Rightarrow> if lower (us_scheme parts) = ''https'' then 443 else 80)))))"

definition allow_matches :: "string \<Rightarrow> string \<Rightarrow> bool" where
  "allow_matches host pattern = (let a = strip (lower pattern) in
     if a = [] then False
     else if starts_with ''*.'' a then ends_with (tl a) host
     else host = a \<or> ends_with (CHR ''.'' # a) host)"

definition host_allowlisted :: "string \<Rightarrow> string list \<Rightarrow> bool" where
  "host_allowlisted h allow_hosts = (let host = lower h in
     if host \<in> set ALWAYS_DENY_IPS then False else list_ex (allow_matches host) allow_hosts)"

definition plain_forbidden :: "ip_addr \<Rightarrow> bool" where
  "plain_forbidden a \<longleftrightarrow> is_private a \<or> is_loopback a \<or> is_link_local a \<or> is_multicast a
     \<or> is_reserved a \<or> is_unspecified a"

text \<open>An IPv4-mapped address is judged as the IPv4 address it maps to, which is not mapped again.\<close>

definition forbidden_v4 :: "32 word \<Rightarrow> bool" where
  "forbidden_v4 w \<longleftrightarrow> show_ip (IPv4 w) \<in> set ALWAYS_DENY_IPS \<or> plain_forbidden (IPv4 w)"

fun forbidden_addr :: "ip_addr \<Rightarrow> bool" where
  "forbidden_addr (IPv4 w) = forbidden_v4 w"
| "forbidden_addr (IPv6 w z) =
     (if show_ip (IPv6 w z) \<in> set ALWAYS_DENY_IPS then True
      else case ipv4_mapped w of
          Some v \<Rightarrow> forbidden_v4 v
        | None \<Rightarrow> in_v6 w (0xFC000000000000000000000000000000, 7)
            \<or> in_v6 w (0xFE800000000000000000000000000000, 10) \<or> plain_forbidden (IPv6 w z))"

definition is_forbidden_ip :: "string \<Rightarrow> bool" where
  "is_forbidden_ip ip = (case ip_address ip of None \<Rightarrow> True | Some a \<Rightarrow> forbidden_addr a)"

definition resolve_addresses :: "resolver \<Rightarrow> string \<Rightarrow> int \<Rightarrow> string list res" where
  "resolve_addresses R host port = (case R host port of
       Dns_error \<Rightarrow> Inl (SsrfViolation ''dns'')
     | Dns_unencodable \<Rightarrow> Inl (ValueError [])
     | Dns_addresses infos \<Rightarrow> Inr (sort (remdups infos)))"

definition validate_target :: "resolver \<Rightarrow> string list \<Rightarrow> string list \<Rightarrow> bool \<Rightarrow> bool \<Rightarrow> string
    \<Rightarrow> validated_target res" where
  "validate_target R allow_hosts allow_schemes deny_private resolve url =
     bind_res (parse_url url) (\<lambda>(scheme, host, port).
       if scheme \<notin> set (List.map lower allow_schemes) then Inl (SsrfViolation ''scheme not allowed'')
       else (let allowlisted = host_allowlisted host allow_hosts in
         if \<not> allowlisted \<and> deny_private \<and> port \<in> set DENY_PORTS then Inl (SsrfViolation ''port'')
         else if \<not> resolve then Inr \<lparr>vt_url = url, vt_scheme = scheme, vt_host = host, vt_port = port,
             vt_addresses = [], vt_allowlisted = allowlisted\<rparr>
         else bind_res (resolve_addresses R host port) (\<lambda>as.
           if as = [] then Inl (SsrfViolation ''no address'')
           else if \<not> allowlisted \<and> list_ex is_forbidden_ip as then Inl (SsrfViolation ''address'')
           else Inr \<lparr>vt_url = url, vt_scheme = scheme, vt_host = host, vt_port = port,
             vt_addresses = as, vt_allowlisted = allowlisted\<rparr>)))"

text \<open>\<open>validate_target\<close>: hosts and schemes that are not given are those of the settings.\<close>

definition validate_target_now :: "settings \<Rightarrow> resolver \<Rightarrow> string list option \<Rightarrow> string list option \<Rightarrow> bool \<Rightarrow> bool \<Rightarrow> string
    \<Rightarrow> validated_target res" where
  "validate_target_now st R allow_hosts allow_schemes deny_private resolve url =
     validate_target R (case allow_hosts of Some hs \<Rightarrow> hs | None \<Rightarrow> ssrf_allow_hosts st)
       (case allow_schemes of Some ss \<Rightarrow> ss | None \<Rightarrow> ssrf_allow_schemes st) deny_private resolve url"

definition validate_redirect_chain :: "resolver \<Rightarrow> string list \<Rightarrow> string list \<Rightarrow> string list
    \<Rightarrow> validated_target list res" where
  "validate_redirect_chain R allow_hosts allow_schemes hops =
     fold (\<lambda>hop acc. bind_res acc (\<lambda>ts.
       bind_res (validate_target R allow_hosts allow_schemes True True hop) (\<lambda>t. Inr (ts @ [t])))) hops (Inr [])"

subsection \<open>Lemmas\<close>

lemma parse_url_Inr:
  "parse_url url = Inr (s, h, p) \<Longrightarrow> (s = ''http'' \<or> s = ''https'') \<and> h \<noteq> []"
  by (auto simp: parse_url_def bind_res_Inr_iff Let_def split: if_splits)

lemma validate_target_Inr:
  assumes "validate_target R ah as dp r url = Inr t"
  shows "parse_url url = Inr (vt_scheme t, vt_host t, vt_port t)
    \<and> vt_scheme t \<in> set (List.map lower as) \<and> vt_allowlisted t = host_allowlisted (vt_host t) ah
    \<and> vt_url t = url
    \<and> (\<not> vt_allowlisted t \<longrightarrow> dp \<longrightarrow> vt_port t \<notin> set DENY_PORTS)
    \<and> (r \<longrightarrow> vt_addresses t \<noteq> [] \<and> resolve_addresses R (vt_host t) (vt_port t) = Inr (vt_addresses t)
         \<and> (\<not> vt_allowlisted t \<longrightarrow> list_all (\<lambda>a. \<not> is_forbidden_ip a) (vt_addresses t)))"
  using assms
  by (auto simp: validate_target_def bind_res_Inr_iff Let_def list_ex_iff list_all_iff
      split: if_splits option.splits)

lemma host_allowlisted_metadata: "lower h \<in> set ALWAYS_DENY_IPS \<Longrightarrow> \<not> host_allowlisted h ah"
  by (simp add: host_allowlisted_def)

lemma validate_chain_aux:
  "fold (\<lambda>hop acc. bind_res acc (\<lambda>ts. bind_res (f hop) (\<lambda>t. Inr (ts @ [t])))) hops (Inr ts0) = Inr ts
   \<Longrightarrow> \<exists>us. ts = ts0 @ us \<and> list_all2 (\<lambda>h t. f h = Inr t) hops us"
proof (induction hops arbitrary: ts0)
  case (Cons h hops)
  show ?case
  proof (cases "f h")
    case (Inl e)
    have "fold (\<lambda>hop acc. bind_res acc (\<lambda>ts. bind_res (f hop) (\<lambda>t. Inr (ts @ [t])))) hops (Inl e) = Inl e"
      by (induction hops) auto
    with Cons.prems Inl show ?thesis by simp
  next
    case (Inr t)
    with Cons.prems Cons.IH [of "ts0 @ [t]"] show ?thesis by auto
  qed
qed simp

subsection \<open>Metadata addresses behind an allow-listed name\<close>

text \<open>
  The deny list is consulted for the host name only: an allow-listed name that resolves to a
  metadata address is accepted.
\<close>

lemma allowlisted_name_reaches_metadata:
  assumes "parse_url url = Inr (''https'', ''inner.example'', 443)"
    and "R ''inner.example'' 443 = Dns_addresses [''169.254.169.254'']"
  shows "validate_target R [''inner.example''] [''https''] True True url =
    Inr \<lparr>vt_url = url, vt_scheme = ''https'', vt_host = ''inner.example'', vt_port = 443,
         vt_addresses = [''169.254.169.254''], vt_allowlisted = True\<rparr>"
proof -
  have "host_allowlisted ''inner.example'' [''inner.example'']" by code_simp
  moreover have "lower ''https'' = ''https''" by code_simp
  ultimately show ?thesis using assms by (simp add: validate_target_def resolve_addresses_def)
qed

subsection \<open>Which addresses are let through\<close>

definition between :: "nat \<Rightarrow> nat \<times> nat \<Rightarrow> bool" where
  "between n r \<longleftrightarrow> fst r \<le> n \<and> n < snd r"

text \<open>
  The IPv4 addresses a target may have: none below \<open>1.0.0.0\<close> or from \<open>224.0.0.0\<close> on, none of the listed blocks
  (10/8, 127/8, 169.254/16, 172.16/12, 192.0.2/24, 192.168/16, 198.18/15, 198.51.100/24, 203.0.113/24), of 192.0.0/24 only the two
  anycast addresses, and not the metadata address \<open>100.100.100.200\<close>.
\<close>

definition special_v4 :: "(nat \<times> nat) list" where
  "special_v4 = [(0, 0x01000000), (0x0A000000, 0x0B000000), (0x7F000000, 0x80000000), (0xA9FE0000, 0xA9FF0000),
     (0xAC100000, 0xAC200000), (0xC0000000, 0xC0000009), (0xC000000B, 0xC0000100), (0xC0000200, 0xC0000300),
     (0xC0A80000, 0xC0A90000), (0xC6120000, 0xC6140000), (0xC6336400, 0xC6336500), (0xCB007100, 0xCB007200),
     (0xE0000000, 0x100000000)]"

definition public_v4 :: "32 word \<Rightarrow> bool" where
  "public_v4 w \<longleftrightarrow> \<not> list_ex (between (unat w)) special_v4 \<and> w \<noteq> 0x646464C8"

text \<open>
  The IPv6 addresses: global unicast \<open>2000::/3\<close> without the documentation block, 6to4 and all of \<open>2001::/23\<close> that is not
  globally reachable; and the old site-local block \<open>fec0::/10\<close>.
\<close>

definition public_v6 :: "128 word \<Rightarrow> bool" where
  "public_v6 w \<longleftrightarrow>
     between (unat w) (0x20000000000000000000000000000000, 0x40000000000000000000000000000000)
       \<and> \<not> between (unat w) (0x20010DB8000000000000000000000000, 0x20010DB9000000000000000000000000)
       \<and> \<not> between (unat w) (0x20020000000000000000000000000000, 0x20030000000000000000000000000000)
       \<and> (between (unat w) (0x20010000000000000000000000000000, 0x20010200000000000000000000000000)
            \<longrightarrow> list_ex (in_v6 w) v6_private_exceptions)
     \<or> between (unat w) (0xFEC00000000000000000000000000000, 0xFF000000000000000000000000000000)"

definition public_addr :: "ip_addr \<Rightarrow> bool" where
  "public_addr a = (case a of
       IPv4 w \<Rightarrow> public_v4 w
     | IPv6 w z \<Rightarrow> (case ipv4_mapped w of Some v \<Rightarrow> public_v4 v | None \<Rightarrow> public_v6 w))"

lemma deny_text_v4: "show_v4 w \<in> set ALWAYS_DENY_IPS \<longleftrightarrow> w \<in> {0xA9FEA9FE, 0x646464C8, 0xA9FEAA02}"
proof -
  have t: "''169.254.169.254'' = show_v4 0xA9FEA9FE" "''100.100.100.200'' = show_v4 0x646464C8"
    "''169.254.170.2'' = show_v4 0xA9FEAA02"
    by code_simp+
  have "parse_v4 ''fd00:ec2::254'' = None" by code_simp
  then have "show_v4 w \<noteq> ''fd00:ec2::254''" using parse_show_v4 [of w] by auto
  then show ?thesis by (auto simp: ALWAYS_DENY_IPS_def t show_v4_inj)
qed

lemma split_at: "(n < c \<Longrightarrow> P) \<Longrightarrow> (c \<le> n \<Longrightarrow> P) \<Longrightarrow> P" for n c :: nat
  using not_less by blast

lemma plain_forbidden_v4: "plain_forbidden (IPv4 w) \<longleftrightarrow> list_ex (between (unat w)) special_v4"
proof -
  define n where "n = unat w"
  have zero: "w = 0 \<longleftrightarrow> n = 0" by (simp add: n_def unsigned_eq_0_iff)
  have bound: "n < 0x100000000" using unsigned_less [of w] by (simp add: n_def)
  show ?thesis
    using bound
    apply (simp add: plain_forbidden_def v4_is_private_def v4_private_def v4_private_exceptions_def in_v4_iff special_v4_def
      between_def zero flip: n_def)
    apply (rule split_at [of n "0x1"], simp, rule split_at [of n "0x1000000"], simp)
    apply (rule split_at [of n "0xA000000"], simp, rule split_at [of n "0xB000000"], simp)
    apply (rule split_at [of n "0x7F000000"], simp, rule split_at [of n "0x80000000"], simp)
    apply (rule split_at [of n "0xA9FE0000"], simp, rule split_at [of n "0xA9FF0000"], simp)
    apply (rule split_at [of n "0xAC100000"], simp, rule split_at [of n "0xAC200000"], simp)
    apply (rule split_at [of n "0xC0000000"], simp, rule split_at [of n "0xC0000009"], simp)
    apply (rule split_at [of n "0xC000000A"], simp, rule split_at [of n "0xC000000B"], simp)
    apply (rule split_at [of n "0xC00000AA"], simp, rule split_at [of n "0xC00000AC"], simp)
    apply (rule split_at [of n "0xC0000100"], simp, rule split_at [of n "0xC0000200"], simp)
    apply (rule split_at [of n "0xC0000300"], simp, rule split_at [of n "0xC0A80000"], simp)
    apply (rule split_at [of n "0xC0A90000"], simp, rule split_at [of n "0xC6120000"], simp)
    apply (rule split_at [of n "0xC6140000"], simp, rule split_at [of n "0xC6336400"], simp)
    apply (rule split_at [of n "0xC6336500"], simp, rule split_at [of n "0xCB007100"], simp)
    apply (rule split_at [of n "0xCB007200"], simp, rule split_at [of n "0xE0000000"], simp)
    apply (rule split_at [of n "0xF0000000"], simp, rule split_at [of n "0xFFFFFFFF"], simp)
    apply simp
    done
qed

lemma forbidden_v4_iff: "forbidden_v4 w \<longleftrightarrow> \<not> public_v4 w"
proof -
  have "list_ex (between (unat w)) special_v4" if "w = 0xA9FEA9FE \<or> w = 0xA9FEAA02"
    using that by (elim disjE) (simp_all add: special_v4_def between_def)
  then show ?thesis
    by (auto simp: forbidden_v4_def public_v4_def show_ip_def deny_text_v4 plain_forbidden_v4)
qed

text \<open>The reserved blocks leave four ranges.\<close>

lemma unreserved_v6:
  assumes "\<not> list_ex (in_v6 w) v6_reserved"
  shows "between (unat w) (0x20000000000000000000000000000000, 0x40000000000000000000000000000000)
    \<or> between (unat w) (0xFC000000000000000000000000000000, 0xFE000000000000000000000000000000)
    \<or> 0xFE800000000000000000000000000000 \<le> unat w"
proof -
  define n where "n = unat w"
  show ?thesis
    using assms
    apply (simp add: v6_reserved_def in_v6_iff between_def flip: n_def)
    apply (elim conjE)
    apply presburger
    done
qed

lemma allowed_addr_public: "\<not> forbidden_addr a \<Longrightarrow> public_addr a"
proof (cases a)
  case (IPv4 w)
  then show "\<not> forbidden_addr a \<Longrightarrow> public_addr a" by (simp add: public_addr_def forbidden_v4_iff)
next
  case (IPv6 w z)
  assume ok: "\<not> forbidden_addr a"
  show ?thesis
  proof (cases "ipv4_mapped w")
    case (Some v)
    then show ?thesis using ok IPv6 by (simp add: public_addr_def forbidden_v4_iff split: if_splits)
  next
    case None
    with ok IPv6 have f: "\<not> in_v6 w (0xFC000000000000000000000000000000, 7)" "\<not> in_v6 w (0xFE800000000000000000000000000000, 10)"
      "\<not> list_ex (in_v6 w) v6_reserved" "\<not> in_v6 w (0xFF000000000000000000000000000000, 8)"
      "list_ex (in_v6 w) v6_private \<Longrightarrow> list_ex (in_v6 w) v6_private_exceptions"
      by (auto simp: plain_forbidden_def split: if_splits)
    have bound: "unat w < 0x100000000000000000000000000000000" using unsigned_less [of w] by simp
    let ?E = "list_ex (in_v6 w) v6_private_exceptions"
    have ex: "?E \<Longrightarrow> between (unat w) (0x20010000000000000000000000000000, 0x20010200000000000000000000000000)"
      by (auto simp: v6_private_exceptions_def in_v6_iff between_def)
    have p: "between (unat w) (0x20010DB8000000000000000000000000, 0x20010DB9000000000000000000000000) \<Longrightarrow> ?E"
      "between (unat w) (0x20020000000000000000000000000000, 0x20030000000000000000000000000000) \<Longrightarrow> ?E"
      "between (unat w) (0x20010000000000000000000000000000, 0x20010200000000000000000000000000) \<Longrightarrow> ?E"
      by (rule f(5); simp add: v6_private_def in_v6_iff between_def)+
    show ?thesis
      using unreserved_v6 [OF f(3)]
    proof (elim disjE)
      assume "between (unat w) (0x20000000000000000000000000000000, 0x40000000000000000000000000000000)"
      moreover have "\<not> between (unat w) (0x20010DB8000000000000000000000000, 0x20010DB9000000000000000000000000)"
        "\<not> between (unat w) (0x20020000000000000000000000000000, 0x20030000000000000000000000000000)"
        using p(1,2) ex by (auto simp: between_def)
      ultimately show ?thesis using IPv6 None p(3) by (simp add: public_addr_def public_v6_def)
    next
      assume "between (unat w) (0xFC000000000000000000000000000000, 0xFE000000000000000000000000000000)"
      with f(1) show ?thesis by (simp add: in_v6_iff between_def)
    next
      assume "0xFE800000000000000000000000000000 \<le> unat w"
      with f(2,4) bound have "between (unat w) (0xFEC00000000000000000000000000000, 0xFF000000000000000000000000000000)"
        by (simp add: in_v6_iff between_def)
      with IPv6 None show ?thesis by (simp add: public_addr_def public_v6_def)
    qed
  qed
qed

lemma validated_public:
  assumes "validate_target R ah as dp True url = Inr t" and "\<not> vt_allowlisted t"
  shows "\<forall>a \<in> set (vt_addresses t). \<exists>ip. ip_address a = Some ip \<and> public_addr ip"
  using validate_target_Inr [OF assms(1)] assms(2) allowed_addr_public
  by (fastforce simp: is_forbidden_ip_def list_all_iff split: option.splits)

text \<open>
  What the ranges leave open: the shared address space of carriers \<open>100.64.0.0/10\<close>, which Python counts neither as private nor
  as global, and the site-local block, for which there is a predicate of its own that is not asked.
\<close>

lemma shared_space_passes: "in_v4 w (0x64400000, 10) \<Longrightarrow> w \<noteq> 0x646464C8 \<Longrightarrow> \<not> forbidden_addr (IPv4 w)"
  by (auto simp: forbidden_v4_iff public_v4_def in_v4_iff special_v4_def between_def)

lemma site_local_passes: "\<not> is_forbidden_ip ''fec0::1''"
proof -
  have a: "ip_address ''fec0::1'' = Some (IPv6 0xFEC00000000000000000000000000001 None)" by code_simp
  have t: "show_ip (IPv6 0xFEC00000000000000000000000000001 None) = ''fec0::1''"
    by (simp add: show_ip_def show_v6_def v6_hextets_def compress_hextets_def show_hex.simps hex_digits)
  show ?thesis
    by (simp add: is_forbidden_ip_def a t ALWAYS_DENY_IPS_def ipv4_mapped_def in_v6_iff plain_forbidden_def v6_private_def
      v6_reserved_def)
qed

text \<open>A port that is no number is an exception of another class than a refusal; so is a host the resolver cannot encode.\<close>

lemma bad_port_not_refused:
  "validate_target R ah as dp r ''https://files.example:99999/out.mp4'' = Inl (ValueError [])"
proof -
  have "parse_url ''https://files.example:99999/out.mp4'' = Inl (ValueError [])" by code_simp
  then show ?thesis by (simp add: validate_target_def)
qed

subsection \<open>Properties\<close>

text \<open>
  C26: What the SSRF check lets through. A validated target is http(s), has a host, its scheme is
  in the configured list, and unless its host matches the allow-list every address it will
  be pinned to is one outside the private, loopback, link-local, multicast, reserved and metadata ranges, and its port is
  not an internal service port; a metadata address given as the host never counts as allow-listed.
\<close>

theorem validated_target_safe:
  assumes "validate_target R ah as True True url = Inr t"
  shows "(vt_scheme t = ''http'' \<or> vt_scheme t = ''https'') \<and> vt_host t \<noteq> [] \<and> vt_addresses t \<noteq> []
    \<and> vt_scheme t \<in> set (List.map lower as)
    \<and> (\<not> host_allowlisted (vt_host t) ah \<or> lower (vt_host t) \<in> set ALWAYS_DENY_IPS \<longrightarrow>
         (\<forall>a \<in> set (vt_addresses t). \<exists>ip. ip_address a = Some ip \<and> public_addr ip) \<and> vt_port t \<notin> set DENY_PORTS)"
  using validate_target_Inr [OF assms] validated_public [OF assms] parse_url_Inr [of url]
    host_allowlisted_metadata [of "vt_host t" ah]
  by auto

definition sample_resolver :: resolver where
  "sample_resolver host port = Dns_addresses [''93.184.216.34'', ''93.184.216.34'']"

definition sample_target :: validated_target where
  "sample_target = \<lparr>vt_url = ''https://api.example/v1'', vt_scheme = ''https'', vt_host = ''api.example'',
     vt_port = 443, vt_addresses = [''93.184.216.34''], vt_allowlisted = False\<rparr>"

lemma sample_target_validated:
  "validate_target sample_resolver [] [''https''] True True ''https://api.example/v1'' = Inr sample_target"
proof -
  have p: "parse_url ''https://api.example/v1'' = Inr (''https'', ''api.example'', 443)" by code_simp
  have a: "ip_address ''93.184.216.34'' = Some (IPv4 0x5DB8D822)" by code_simp
  have ok: "\<not> is_forbidden_ip ''93.184.216.34''"
    by (simp add: is_forbidden_ip_def a forbidden_v4_iff public_v4_def special_v4_def between_def)
  have "lower ''https'' = ''https''" by code_simp
  then show ?thesis
    by (simp add: validate_target_def p ok resolve_addresses_def sample_resolver_def sample_target_def host_allowlisted_def
      DENY_PORTS_def)
qed

theorem validated_target_safe_witness:
  "\<exists>ip. ip_address ''93.184.216.34'' = Some ip \<and> public_addr ip"
  using validated_target_safe [OF sample_target_validated]
  by (simp add: sample_target_def host_allowlisted_def)

end
