(* ===== verification/Client.thy ===== *)
theory Client
  imports Errors Render Ssrf
begin

text \<open>
  \<open>upstream/client.py\<close>: one outgoing call. The HTTP library is a function from the request to what
  it answers; everything before it (target validation, headers, pinning) and after it (scrubbing
  of credentials, classification, the readable reason of an error) is the source's.
\<close>

datatype outcome =
    O_OK | O_HTTP_ERROR | O_TRANSPORT_ERROR | O_SSRF_REJECTED | O_TIMEOUT_UNKNOWN | O_BUDGET_EXCEEDED

record upstream_response =
  ur_status_code :: int
  ur_headers :: "string dict"
  ur_json_body :: "json option"
  ur_text :: string
  ur_raw_json_body :: "json option"

definition ur_ok :: "upstream_response \<Rightarrow> bool" where
  "ur_ok r \<longleftrightarrow> 200 \<le> ur_status_code r \<and> ur_status_code r < 300"

text \<open>\<open>splitlines()[0]\<close> of a non-empty text, and \<open>" ".join(s.split())\<close>.\<close>

definition line_break :: "char \<Rightarrow> bool" where
  "line_break c \<longleftrightarrow> (let n = (of_char c :: nat) in (10 \<le> n \<and> n \<le> 13) \<or> (28 \<le> n \<and> n \<le> 30) \<or> n = 133)"

definition first_line :: "string \<Rightarrow> string" where
  "first_line s = takeWhile (\<lambda>c. \<not> line_break c) s"

fun words_acc :: "string \<Rightarrow> string \<Rightarrow> string list" where
  "words_acc w [] = (if w = [] then [] else [rev w])"
| "words_acc w (c # s) =
     (if py_space c then (if w = [] then words_acc [] s else rev w # words_acc [] s)
      else words_acc (c # w) s)"

definition words :: "string \<Rightarrow> string list" where
  "words s = words_acc [] s"

definition field_or_null :: "jobj \<Rightarrow> string \<Rightarrow> json" where
  "field_or_null d k = (case dict_get d k of None \<Rightarrow> JNull | Some v \<Rightarrow> v)"

definition error_candidates :: "upstream_response \<Rightarrow> json list" where
  "error_candidates up =
     (case ur_json_body up of
        Some (JObj (f # fs)) \<Rightarrow> (let body = f # fs in
          (case field_or_null body ''error'' of
             JObj err \<Rightarrow> [field_or_null err ''message'', field_or_null err ''msg'', field_or_null err ''code'']
           | JStr err \<Rightarrow> [JStr err]
           | _ \<Rightarrow> [])
          @ [field_or_null body ''message'', field_or_null body ''msg'', field_or_null body ''detail''])
      | _ \<Rightarrow> [])
     @ (if strip (ur_text up) = [] then [] else [JStr (first_line (strip (ur_text up)))])"

definition error_detail_suffix :: "nat \<Rightarrow> upstream_response \<Rightarrow> string" where
  "error_detail_suffix limit up =
     (case filter (\<lambda>v. v \<noteq> []) (List.map (\<lambda>raw. if truthy raw then strip (py_str raw) else [])
             (error_candidates up)) of
        [] \<Rightarrow> []
      | v # _ \<Rightarrow> '': '' @ take limit (join '' '' (words v)))"

record call_result =
  cr_outcome :: outcome
  cr_response :: "upstream_response option"
  cr_class :: "classification option"
  cr_error :: "string option"
  cr_retry_after :: "secs option"
  cr_target :: "validated_target option"

definition cr_ok :: "call_result \<Rightarrow> bool" where
  "cr_ok r \<longleftrightarrow> cr_outcome r = O_OK"

definition needs_confirm :: "call_result \<Rightarrow> bool" where
  "needs_confirm r \<longleftrightarrow> (case cr_class r of None \<Rightarrow> False | Some c \<Rightarrow> is_unknown c)"

definition safe_error :: "call_result \<Rightarrow> string option" where
  "safe_error r = map_option (scrub_text []) (cr_error r)"

definition safe_body :: "string list \<Rightarrow> call_result \<Rightarrow> json option" where
  "safe_body secrets r = (case cr_response r of None \<Rightarrow> None
     | Some up \<Rightarrow> map_option (scrub_payload secrets) (ur_json_body up))"

subsection \<open>Resolve and pin\<close>

text \<open>The parts of an \<open>httpx.Request\<close> that pinning touches.\<close>

record http_request =
  hq_scheme :: string
  hq_host :: string
  hq_port :: "int option"
  hq_headers :: "string dict"
  hq_sni :: "string option"

definition pin_request :: "string list dict \<Rightarrow> http_request \<Rightarrow> http_request" where
  "pin_request pins q = (case dict_get pins (hq_host q) of
       Some (ip # _) \<Rightarrow>
         (let default_port = (if hq_scheme q = ''https'' then 443 else 80);
              port = (case hq_port q of Some p \<Rightarrow> if p \<noteq> 0 then p else default_port | None \<Rightarrow> default_port)
          in q\<lparr>hq_host := ip,
               hq_headers := dict_set ''Host'' (if port = default_port then hq_host q
                   else hq_host q @ '':'' @ show_int port) (hq_headers q),
               hq_sni := Some (hq_host q)\<rparr>)
     | _ \<Rightarrow> q)"

subsection \<open>call\<close>

text \<open>
  What the HTTP library yields: a response (status, headers, the parsed body if it is JSON, the
  decoded first \<open>max_response_bytes\<close> of the content), or an exception with the name and text it
  prints. Exceptions outside httpx's hierarchy propagate.
\<close>

record http_response =
  hr_status :: int
  hr_headers :: "string dict"
  hr_json :: "json option"
  hr_text :: string
  hr_content :: string

datatype http_answer = HttpResponse http_response | HttpFails transport_exn string

text \<open>
  Which transport the kept \<open>httpx\<close> client has: the one the caller injected, one that pins hosts to addresses, or the plain one.
\<close>

datatype connection = Injected | Pinned "string list dict" | Plain

text \<open>\<open>uc_connection\<close> is the field \<open>_client\<close>: the client in use is made at the first call and kept for the later ones.\<close>

record client =
  uc_auth_header :: string
  uc_pin_dns :: bool
  uc_allow_hosts :: "string list"
  uc_allow_schemes :: "string list"
  uc_deny_private :: bool
  uc_max_result_bytes :: int
  uc_injected :: bool
  uc_connection :: "connection option"
  uc_secrets :: "string list"

definition remember_secret :: "string option \<Rightarrow> client \<Rightarrow> client" where
  "remember_secret v c = (case v of
       Some (x # s) \<Rightarrow> if x # s \<in> set (uc_secrets c) then c else c\<lparr>uc_secrets := uc_secrets c @ [x # s]\<rparr>
     | _ \<Rightarrow> c)"

definition with_bearer :: "client \<Rightarrow> string dict \<Rightarrow> string option \<Rightarrow> string dict" where
  "with_bearer c hs bearer = (case bearer of
       Some (x # s) \<Rightarrow> dict_set (uc_auth_header c) (x # s) hs
     | _ \<Rightarrow> hs)"

definition chosen_connection :: "client \<Rightarrow> validated_target \<Rightarrow> connection" where
  "chosen_connection c target =
     (if uc_injected c then Injected
      else if uc_pin_dns c \<and> vt_addresses target \<noteq> [] then Pinned [(vt_host target, vt_addresses target)]
      else Plain)"

definition ensure_client :: "connection \<Rightarrow> client \<Rightarrow> client" where
  "ensure_client chosen c =
     (case uc_connection c of None \<Rightarrow> c\<lparr>uc_connection := Some chosen\<rparr> | Some _ \<Rightarrow> c)"

text \<open>The gateway passes no client of its own making, so the one kept is always closed.\<close>

definition aclose :: "client \<Rightarrow> client" where
  "aclose c = c\<lparr>uc_connection := None\<rparr>"

definition connection_of :: "client \<Rightarrow> connection" where
  "connection_of c = (case uc_connection c of None \<Rightarrow> Plain | Some k \<Rightarrow> k)"

text \<open>The client once the target is validated: the credential is remembered, the connection exists.\<close>

definition ready :: "client \<Rightarrow> string option \<Rightarrow> validated_target \<Rightarrow> client" where
  "ready c bearer target = ensure_client (chosen_connection c target) (remember_secret bearer c)"

definition scrub_response :: "string list \<Rightarrow> http_response \<Rightarrow> upstream_response" where
  "scrub_response secrets r =
     \<lparr>ur_status_code = hr_status r,
      ur_headers = List.map (\<lambda>(k, v). (lower k, v)) (hr_headers r),
      ur_json_body = map_option (scrub_payload secrets) (hr_json r),
      ur_text = scrub_text secrets (hr_text r),
      ur_raw_json_body = hr_json r\<rparr>"

definition call_result_of_response :: "pylib \<Rightarrow> time \<Rightarrow> call_context \<Rightarrow> validated_target
    \<Rightarrow> upstream_response \<Rightarrow> call_result" where
  "call_result_of_response L now ctx target up =
     (if ur_ok up then
        \<lparr>cr_outcome = O_OK, cr_response = Some up, cr_class = None, cr_error = None,
         cr_retry_after = None, cr_target = Some target\<rparr>
      else
        \<lparr>cr_outcome = O_HTTP_ERROR, cr_response = Some up,
         cr_class = Some (classify_status (ur_status_code up) ctx),
         cr_error = Some (''upstream HTTP '' @ show_int (ur_status_code up) @ error_detail_suffix 180 up),
         cr_retry_after = (if ur_status_code up = 429
           then Some (extract_retry_after L now (ur_headers up) 1) else None),
         cr_target = Some target\<rparr>)"

definition call_result_of_failure :: "call_context \<Rightarrow> validated_target \<Rightarrow> transport_exn \<Rightarrow> string
    \<Rightarrow> call_result" where
  "call_result_of_failure ctx target e msg =
     (let c = classify_exception e ctx in
      \<lparr>cr_outcome = (if is_unknown c then O_TIMEOUT_UNKNOWN else O_TRANSPORT_ERROR),
       cr_response = None, cr_class = Some c, cr_error = Some msg, cr_retry_after = None,
       cr_target = Some target\<rparr>)"

definition ssrf_rejected :: "string \<Rightarrow> call_result" where
  "ssrf_rejected msg = \<lparr>cr_outcome = O_SSRF_REJECTED, cr_response = None, cr_class = None,
     cr_error = Some msg, cr_retry_after = None, cr_target = None\<rparr>"

text \<open>
  \<open>http\<close> is the library: it gets the connection, the url with its method and body, and the headers.
  Both calls yield the client they leave behind.
\<close>

definition call :: "pylib \<Rightarrow> resolver \<Rightarrow> (connection \<Rightarrow> rendered_request \<Rightarrow> string dict \<Rightarrow> http_answer)
    \<Rightarrow> time \<Rightarrow> client \<Rightarrow> rendered_request \<Rightarrow> call_context \<Rightarrow> string option \<Rightarrow> client \<times> call_result res" where
  "call L R http now c q ctx bearer =
     (case validate_target R (uc_allow_hosts c) (uc_allow_schemes c) (uc_deny_private c) True (rr_url q) of
        Inl (SsrfViolation m) \<Rightarrow> (c, Inr (ssrf_rejected m))
      | Inl e \<Rightarrow> (c, Inl e)
      | Inr target \<Rightarrow>
          (let c' = ready c bearer target in
           (c', case http (connection_of c') q (with_bearer c (rr_headers q) bearer) of
             HttpFails e msg \<Rightarrow>
               if is_http_error e then Inr (call_result_of_failure ctx target e msg)
               else Inl (RuntimeError msg)
           | HttpResponse r \<Rightarrow>
               Inr (call_result_of_response L now ctx target (scrub_response (uc_secrets c') r)))))"

definition fetch_result :: "resolver \<Rightarrow> (connection \<Rightarrow> string \<Rightarrow> string dict \<Rightarrow> http_answer) \<Rightarrow> client \<Rightarrow> string
    \<Rightarrow> string option \<Rightarrow> client \<times> (string + string) res" where
  "fetch_result R http c url bearer =
     (case validate_target R (uc_allow_hosts c) (uc_allow_schemes c) True True url of
        Inl (SsrfViolation m) \<Rightarrow> (c, Inr (Inl (''ssrf_rejected: '' @ m)))
      | Inl e \<Rightarrow> (c, Inl e)
      | Inr target \<Rightarrow>
          (let c' = ready c bearer target in
           (c', case http (connection_of c') url (with_bearer c [] bearer) of
             HttpFails e msg \<Rightarrow>
               if is_http_error e then Inr (Inl (''transport: '' @ msg)) else Inl (RuntimeError msg)
           | HttpResponse r \<Rightarrow>
               Inr (if \<not> (200 \<le> hr_status r \<and> hr_status r < 300) then Inl (''http '' @ show_int (hr_status r))
                 else if int (length (hr_content r)) > uc_max_result_bytes c
                   then Inl (''result too large: '' @ show_int (int (length (hr_content r))) @ ''B > ''
                     @ show_int (uc_max_result_bytes c) @ ''B'')
                 else Inr (hr_content r)))))"

subsection \<open>Timeouts, extraction and the health of a call\<close>

record call_timeout =
  to_connect :: secs
  to_read :: secs
  to_write :: secs
  to_pool :: secs

text \<open>The three settings of \<open>config.py\<close> are arguments.\<close>

definition timeout_for :: "secs \<Rightarrow> secs \<Rightarrow> secs \<Rightarrow> call_context \<Rightarrow> call_timeout" where
  "timeout_for submit_connect_timeout submit_read_timeout poll_read_timeout context =
     (if context = CTX_POLL
      then \<lparr>to_connect = submit_connect_timeout, to_read = poll_read_timeout, to_write = 10, to_pool = 5\<rparr>
      else \<lparr>to_connect = submit_connect_timeout, to_read = submit_read_timeout, to_write = 15, to_pool = 5\<rparr>)"

text \<open>What leaves the process for a request \<open>q\<close> over a connection.\<close>

definition handle_pinned :: "(http_request \<Rightarrow> http_answer) \<Rightarrow> string list dict \<Rightarrow> http_request \<Rightarrow> http_answer" where
  "handle_pinned send pins q = send (pin_request pins q)"

fun outcome_value :: "outcome \<Rightarrow> string" where
  "outcome_value O_OK = ''ok''"
| "outcome_value O_HTTP_ERROR = ''http_error''"
| "outcome_value O_TRANSPORT_ERROR = ''transport_error''"
| "outcome_value O_SSRF_REJECTED = ''ssrf_rejected''"
| "outcome_value O_TIMEOUT_UNKNOWN = ''timeout_unknown''"
| "outcome_value O_BUDGET_EXCEEDED = ''budget_exceeded''"

fun error_class_value :: "error_class \<Rightarrow> string" where
  "error_class_value CLS_RETRY_SAFE = ''retry_safe''"
| "error_class_value CLS_FAIL_FAST = ''fail_fast''"
| "error_class_value CLS_CONFIRM_REQUIRED = ''confirm_required''"
| "error_class_value CLS_RATE_LIMITED = ''rate_limited''"
| "error_class_value CLS_CHANNEL_FAULT = ''channel_fault''"

definition probe_health :: "call_result \<Rightarrow> json" where
  "probe_health r = (let text = (\<lambda>x. case x of None \<Rightarrow> JNull | Some s \<Rightarrow> JStr s) in JObj
     [(''outcome'', JStr (outcome_value (cr_outcome r))),
      (''status_code'', (case cr_response r of None \<Rightarrow> JNull | Some up \<Rightarrow> JInt (ur_status_code up))),
      (''error'', text (safe_error r)),
      (''error_class'', text (map_option (\<lambda>c. error_class_value (cl_error_class c)) (cr_class r)))])"

subsection \<open>Lemmas\<close>

text \<open>What every result of \<open>call\<close> satisfies; the handlers branch on exactly these fields.\<close>

definition result_ok :: "call_context \<Rightarrow> call_result \<Rightarrow> bool" where
  "result_ok ctx r \<longleftrightarrow>
     (cr_ok r \<longrightarrow> cr_response r \<noteq> None \<and> cr_class r = None)
     \<and> (\<not> cr_ok r \<and> cr_outcome r \<noteq> O_SSRF_REJECTED \<longrightarrow> cr_class r \<noteq> None)
     \<and> (cr_outcome r = O_TIMEOUT_UNKNOWN \<longrightarrow> needs_confirm r)
     \<and> (cr_retry_after r \<noteq> None \<longrightarrow> (\<exists>up. cr_response r = Some up \<and> ur_status_code up = 429))"

abbreviation target_of :: "resolver \<Rightarrow> client \<Rightarrow> rendered_request \<Rightarrow> validated_target res" where
  "target_of R c q \<equiv>
     validate_target R (uc_allow_hosts c) (uc_allow_schemes c) (uc_deny_private c) True (rr_url q)"

lemma call_cases:
  assumes "call L R http now c q ctx bearer = (c', Inr r)"
  obtains (ssrf) m where "target_of R c q = Inl (SsrfViolation m)" "r = ssrf_rejected m" "c' = c"
    | (failed) t e m where "target_of R c q = Inr t" "r = call_result_of_failure ctx t e m" "c' = ready c bearer t"
    | (answered) t h where "target_of R c q = Inr t" "c' = ready c bearer t"
        "http (connection_of c') q (with_bearer c (rr_headers q) bearer) = HttpResponse h"
        "r = call_result_of_response L now ctx t (scrub_response (uc_secrets c') h)"
proof (cases "target_of R c q")
  case (Inl e)
  with assms show ?thesis by (cases e) (auto simp: call_def intro: that(1))
next
  case (Inr t)
  with assms show ?thesis
    by (cases "http (connection_of c') q (with_bearer c (rr_headers q) bearer)")
      (auto simp: call_def Let_def intro: that(2,3) split: if_splits)
qed

lemma ready_simps [simp]:
  "uc_connection c = None \<Longrightarrow> connection_of (ready c bearer t) = chosen_connection c t"
  "uc_connection c = Some k \<Longrightarrow> connection_of (ready c bearer t) = k"
  "uc_secrets (ready c bearer t) = uc_secrets (remember_secret bearer c)"
  by (auto simp: ready_def ensure_client_def connection_of_def remember_secret_def chosen_connection_def
      split: option.split list.split)

lemma failure_fields:
  "cr_outcome (call_result_of_failure ctx t e m) \<noteq> O_OK"
  "cr_outcome (call_result_of_failure ctx t e m) \<noteq> O_SSRF_REJECTED"
  "cr_outcome (call_result_of_failure ctx t e m) = O_TIMEOUT_UNKNOWN \<longleftrightarrow> is_unknown (classify_exception e ctx)"
  "cr_class (call_result_of_failure ctx t e m) = Some (classify_exception e ctx)"
  "cr_retry_after (call_result_of_failure ctx t e m) = None"
  "cr_response (call_result_of_failure ctx t e m) = None"
  by (simp_all add: call_result_of_failure_def Let_def)

lemma response_fields:
  "cr_outcome (call_result_of_response L now ctx t up) = (if ur_ok up then O_OK else O_HTTP_ERROR)"
  "cr_class (call_result_of_response L now ctx t up)
     = (if ur_ok up then None else Some (classify_status (ur_status_code up) ctx))"
  "cr_response (call_result_of_response L now ctx t up) = Some up"
  "cr_retry_after (call_result_of_response L now ctx t up) =
     (if \<not> ur_ok up \<and> ur_status_code up = 429 then Some (extract_retry_after L now (ur_headers up) 1) else None)"
  by (simp_all add: call_result_of_response_def)

lemma call_result_ok:
  assumes "call L R http now c q ctx bearer = (c', Inr r)"
  shows "result_ok ctx r"
  using assms
  by (cases rule: call_cases)
    (simp_all add: result_ok_def cr_ok_def needs_confirm_def failure_fields response_fields ssrf_rejected_def)

lemma pin_request_sni:
  "dict_get pins (hq_host q) = Some (ip # ips) \<Longrightarrow>
     hq_host (pin_request pins q) = ip \<and> hq_sni (pin_request pins q) = Some (hq_host q)"
  by (simp add: pin_request_def Let_def)

text \<open>A client that is kept for a second host goes on pinning the first one only.\<close>

lemma kept_client_unpinned:
  assumes "uc_connection c = Some (Pinned [(h, as)])" and "hq_host q \<noteq> h"
  shows "connection_of (ready c bearer t) = Pinned [(h, as)] \<and> handle_pinned send [(h, as)] q = send q"
  using assms by (simp add: handle_pinned_def pin_request_def)

lemma bad_port_raises:
  "fetch_result R http c ''https://files.example:99999/out.mp4'' bearer = (c, Inl (ValueError []))"
  by (simp add: fetch_result_def bad_port_not_refused)

subsection \<open>Properties\<close>

text \<open>
  The outcome of an upstream call. The HTTP library is reached only for a validated target;
  an exception while submitting is a confirmable outcome unless the connection was never made; a
  successful outcome carries the 2xx response with its body scrubbed and no classification; every
  other outcome but an SSRF rejection carries a classification, and \<open>Retry-After\<close> is read from 429 only.
\<close>

theorem call_outcome:
  assumes "call L R http now c q ctx bearer = (c', Inr r)"
  shows "(cr_outcome r = O_SSRF_REJECTED \<longleftrightarrow>
            (\<exists>m. validate_target R (uc_allow_hosts c) (uc_allow_schemes c) (uc_deny_private c) True (rr_url q)
               = Inl (SsrfViolation m)))
    \<and> (cr_ok r \<longrightarrow> (\<exists>t h. validate_target R (uc_allow_hosts c) (uc_allow_schemes c) (uc_deny_private c) True (rr_url q) = Inr t
          \<and> http (connection_of c') q (with_bearer c (rr_headers q) bearer) = HttpResponse h
          \<and> 200 \<le> hr_status h \<and> hr_status h < 300 \<and> cr_class r = None
          \<and> cr_response r = Some (scrub_response (uc_secrets (remember_secret bearer c)) h)))
    \<and> (\<not> cr_ok r \<and> cr_outcome r \<noteq> O_SSRF_REJECTED \<longrightarrow> (\<exists>k. cr_class r = Some k))
    \<and> (cr_outcome r = O_TIMEOUT_UNKNOWN \<longrightarrow> needs_confirm r)
    \<and> (cr_retry_after r \<noteq> None \<longrightarrow> (\<exists>up. cr_response r = Some up \<and> ur_status_code up = 429))"
  using assms
proof (cases rule: call_cases)
  case (ssrf m)
  then show ?thesis by (simp add: cr_ok_def ssrf_rejected_def)
next
  case (failed t e m)
  then show ?thesis by (simp add: cr_ok_def needs_confirm_def failure_fields)
next
  case (answered t h)
  then show ?thesis
    by (auto simp: cr_ok_def needs_confirm_def response_fields ur_ok_def scrub_response_def)
qed

definition sample_client :: client where
  "sample_client = \<lparr>uc_auth_header = ''Authorization'', uc_pin_dns = True, uc_allow_hosts = [], uc_allow_schemes = [''https''],
     uc_deny_private = True, uc_max_result_bytes = 1000, uc_injected = False, uc_connection = None, uc_secrets = []\<rparr>"

definition sample_request :: rendered_request where
  "sample_request = \<lparr>rr_method = ''GET'', rr_url = ''https://api.example/v1'', rr_headers = [], rr_json_body = None\<rparr>"

lemma sample_call:
  "call sample_lib sample_resolver (\<lambda>_ _ _. HttpFails ReadTimeout ''ReadTimeout: '') 0 sample_client sample_request CTX_SUBMIT None
     = (ready sample_client None sample_target, Inr (call_result_of_failure CTX_SUBMIT sample_target ReadTimeout ''ReadTimeout: ''))"
  by (simp add: call_def sample_client_def sample_request_def sample_target_validated is_http_error_def Let_def)

theorem call_outcome_witness:
  "\<exists>c' r. call sample_lib sample_resolver (\<lambda>_ _ _. HttpFails ReadTimeout ''ReadTimeout: '') 0 sample_client
        sample_request CTX_SUBMIT None = (c', Inr r) \<and> needs_confirm r"
proof -
  have "cr_outcome (call_result_of_failure CTX_SUBMIT sample_target ReadTimeout ''ReadTimeout: '') = O_TIMEOUT_UNKNOWN"
    by (simp add: call_result_of_failure_def classify_submit_exception is_timeout_exception_def)
  with call_outcome [OF sample_call] sample_call show ?thesis by blast
qed

text \<open>
  C27: Resolve and pin. A call of a fresh client that pins goes over a connection that dials, for the host that was validated,
  one of the addresses that were validated with it - a public one unless the host is allow-listed - with the certificate
  still checked against the host; no name is resolved in between.
\<close>

theorem call_dials_validated_address:
  assumes "call L R http now c q ctx bearer = (c', Inr r)" and "cr_target r = Some t"
    and "uc_connection c = None" and "uc_pin_dns c" and "\<not> uc_injected c"
  shows "\<exists>pins. connection_of c' = Pinned pins \<and> (\<forall>h. hq_host h = vt_host t \<longrightarrow>
           hq_host (pin_request pins h) \<in> set (vt_addresses t) \<and> hq_sni (pin_request pins h) = Some (vt_host t))
    \<and> (\<not> host_allowlisted (vt_host t) (uc_allow_hosts c) \<longrightarrow>
         (\<forall>a \<in> set (vt_addresses t). \<exists>ip. ip_address a = Some ip \<and> public_addr ip))"
proof -
  from assms(1,2) have v: "target_of R c q = Inr t" and c': "c' = ready c bearer t"
    by (cases rule: call_cases;
      auto simp: ssrf_rejected_def call_result_of_failure_def call_result_of_response_def Let_def split: if_splits)+
  note t = validate_target_Inr [OF v]
  then have "vt_addresses t \<noteq> []" by simp
  then obtain a as where as: "vt_addresses t = a # as" by (cases "vt_addresses t") auto
  have "connection_of c' = Pinned [(vt_host t, a # as)]"
    using assms(3-5) as by (simp add: c' chosen_connection_def)
  then show ?thesis
    using t validated_public [OF v] pin_request_sni [of "[(vt_host t, a # as)]"] as by auto
qed

theorem call_dials_validated_address_witness:
  "\<exists>c' r pins. call sample_lib sample_resolver (\<lambda>_ _ _. HttpFails ReadTimeout ''ReadTimeout: '') 0 sample_client
        sample_request CTX_SUBMIT None = (c', Inr r) \<and> connection_of c' = Pinned pins"
proof -
  have "cr_target (call_result_of_failure CTX_SUBMIT sample_target ReadTimeout ''ReadTimeout: '') = Some sample_target"
    by (simp add: call_result_of_failure_def Let_def)
  from call_dials_validated_address [OF sample_call this] sample_call show ?thesis
    by (auto simp: sample_client_def)
qed

end
