(* ===== verification/Container.thy ===== *)
theory Container
  imports Template Models
begin

text \<open>
  The parts of \<open>gateway/container.py\<close> and \<open>templates/registry.py\<close> that resolve a template version and
  its strategy for a channel, the queue names of \<open>tasks/queues.py\<close>, and the keys and lifetimes of the
  short-lived stores (\<open>infra/request_store.py\<close>, \<open>infra/credentials.py\<close>, \<open>infra/object_store.py\<close>).
\<close>

subsection \<open>Template versions\<close>

record template_version =
  tv_alias :: string
  tv_namespace :: string
  tv_version :: int
  tv_enabled :: bool
  tv_resolved :: resolved_template
  tv_raw :: jobj
  tv_patch_ids :: "string list"
  tv_canary_weight :: rat

text \<open>The registry: the versions of each alias, sorted by version.\<close>

type_synonym registry = "template_version list dict"

definition versions_of :: "registry \<Rightarrow> string \<Rightarrow> template_version list" where
  "versions_of r alias = (case dict_get r alias of None \<Rightarrow> [] | Some vs \<Rightarrow> vs)"

definition registry_get :: "registry \<Rightarrow> string \<Rightarrow> int option \<Rightarrow> template_version option" where
  "registry_get r alias version = (let vs = versions_of r alias in
     (case version of
        None \<Rightarrow> (case find (\<lambda>tv. tv_enabled tv \<and> tv_canary_weight tv > 0) (rev vs) of
             Some tv \<Rightarrow> Some tv
           | None \<Rightarrow> if vs = [] then None else Some (last vs))
      | Some v \<Rightarrow> find (\<lambda>tv. tv_version tv = v) vs))"

definition registry_require :: "registry \<Rightarrow> string \<Rightarrow> int option \<Rightarrow> template_version res" where
  "registry_require r alias version = (case registry_get r alias version of
       None \<Rightarrow> Inl (KeyError (''unknown template alias: '' @ alias))
     | Some tv \<Rightarrow> Inr tv)"

definition put_version :: "registry \<Rightarrow> template_version \<Rightarrow> registry" where
  "put_version r tv = dict_set (tv_alias tv)
     (sort_key tv_version (filter (\<lambda>v. tv_version v \<noteq> tv_version tv) (versions_of r (tv_alias tv)) @ [tv])) r"

definition next_version :: "registry \<Rightarrow> string \<Rightarrow> int" where
  "next_version r alias = (case List.map tv_version (versions_of r alias) of [] \<Rightarrow> 0 | v # vs \<Rightarrow> fold max vs v) + 1"

definition set_canary_weight :: "registry \<Rightarrow> string \<Rightarrow> int \<Rightarrow> rat \<Rightarrow> registry res" where
  "set_canary_weight r alias version w =
     bind_res (registry_require r alias (Some version)) (\<lambda>tv.
       Inr (dict_set alias (List.map (\<lambda>v. if tv_version v = version
          then v\<lparr>tv_canary_weight := max 0 (min 1 w)\<rparr> else v) (versions_of r alias)) r))"

subsection \<open>Channel policies\<close>

record channel_policy =
  cp_policy :: strategy
  cp_canary :: "(int \<times> rat) list dict"
  cp_url_direct_enabled :: "bool option"
  cp_url_direct :: "jobj option"

definition no_policy :: channel_policy where
  "no_policy = \<lparr>cp_policy = [], cp_canary = [], cp_url_direct_enabled = None, cp_url_direct = None\<rparr>"

type_synonym policies = "channel_policy dict"

definition policy_of :: "policies \<Rightarrow> string \<Rightarrow> channel_policy" where
  "policy_of ps chan = (case dict_get ps chan of None \<Rightarrow> no_policy | Some p \<Rightarrow> p)"

text \<open>
  \<open>select_version\<close>: \<open>pick\<close> is \<open>random.uniform(0, total)\<close>. A binding that names the alias gives
  every version it does not mention weight 0; without one every enabled version has weight 1.
\<close>

definition version_weight :: "(int \<times> rat) list \<Rightarrow> template_version \<Rightarrow> rat" where
  "version_weight binding tv = (case map_of binding (tv_version tv) of
       Some w \<Rightarrow> w
     | None \<Rightarrow> if binding = [] then 1 else 0)"

fun pick_weighted :: "rat \<Rightarrow> rat \<Rightarrow> (template_version \<times> rat) list \<Rightarrow> template_version option" where
  "pick_weighted pick acc [] = None"
| "pick_weighted pick acc ((tv, w) # rest) =
     (if pick \<le> acc + w then Some tv else pick_weighted pick (acc + w) rest)"

definition select_version :: "template_version list \<Rightarrow> (int \<times> rat) list dict \<Rightarrow> string \<Rightarrow> rat
    \<Rightarrow> template_version option" where
  "select_version tvs canary alias pick =
     (let candidates = filter tv_enabled tvs;
          binding = (case dict_get canary alias of None \<Rightarrow> [] | Some b \<Rightarrow> b);
          weighted = filter (\<lambda>(tv, w). w > 0) (List.map (\<lambda>tv. (tv, version_weight binding tv)) candidates)
      in if candidates = [] then None
         else if weighted = [] then Some (last candidates)
         else (case pick_weighted pick 0 weighted of
             Some tv \<Rightarrow> Some tv
           | None \<Rightarrow> Some (fst (last weighted))))"

definition template_for_channel :: "registry \<Rightarrow> policies \<Rightarrow> string \<Rightarrow> string \<Rightarrow> rat
    \<Rightarrow> template_version res" where
  "template_for_channel r ps chan alias pick =
     (case select_version (versions_of r alias) (cp_canary (policy_of ps chan)) alias pick of
        None \<Rightarrow> Inl (KeyError (''unknown template alias: '' @ alias))
      | Some tv \<Rightarrow> Inr tv)"

definition EXTRA_OVERRIDABLE_KEYS :: "string list" where
  "EXTRA_OVERRIDABLE_KEYS = [''channel_concurrency'', ''tenant_concurrency'',
     ''accept_rate_per_second'', ''accept_burst'', ''max_attempts'', ''deadline_seconds'',
     ''idempotency_window_seconds'', ''min_refresh_interval'', ''retention_days'',
     ''presign_ttl_seconds'', ''unknown_max_per_channel'', ''unknown_max_lifetime_seconds'',
     ''submit_confirm_window_seconds'']"

text \<open>
  \<open>OVERRIDABLE_KEYS\<close> is this list and the names of the settings; the argument \<open>setting_names\<close> is the
  latter.
\<close>

definition strategy_for :: "string list \<Rightarrow> policies \<Rightarrow> string \<Rightarrow> resolved_template \<Rightarrow> strategy" where
  "strategy_for setting_names ps chan t =
     dict_update (rt_strategy t)
       (filter (\<lambda>(k, v). k \<in> set setting_names \<or> k \<in> set EXTRA_OVERRIDABLE_KEYS)
         (cp_policy (policy_of ps chan)))"

definition channel_limits :: "settings \<Rightarrow> policies \<Rightarrow> string \<Rightarrow> int \<times> int" where
  "channel_limits s ps chan = (let ov = cp_policy (policy_of ps chan) in
     (py_int (strategy_get ov ''channel_concurrency'' (of_int (channel_concurrency s))),
      py_int (strategy_get ov ''tenant_concurrency'' (of_int (tenant_concurrency s)))))"

definition url_direct_enabled :: "settings \<Rightarrow> policies \<Rightarrow> string \<Rightarrow> bool" where
  "url_direct_enabled s ps chan =
     (case cp_url_direct_enabled (policy_of ps chan) of Some b \<Rightarrow> b | None \<Rightarrow> url_direct_config_enabled s)"

subsection \<open>Queues\<close>

definition SHARED_QUEUES :: "string list" where
  "SHARED_QUEUES = [''submit:default'', ''compensate:default'', ''cancel:default'', ''finalize:default'']"

definition TRANSFER_QUEUE :: string where
  "TRANSFER_QUEUE = ''transfer:transfer''"

definition KNOWN_POOLS :: "string list" where
  "KNOWN_POOLS = [''heavy-poll'', ''light-poll'', ''poll'']"

definition DEFAULT_POOL :: string where
  "DEFAULT_POOL = ''light-poll''"

definition pool_of :: "string \<Rightarrow> string" where
  "pool_of p = (if p = [] \<or> p \<in> {''shared'', ''default''} then DEFAULT_POOL else p)"

definition poll_queue :: "string \<Rightarrow> string" where
  "poll_queue p = ''poll:'' @ pool_of p"

text \<open>The set of wanted pools is iterated in the order of first appearance.\<close>

definition queues_for_pools :: "string list \<Rightarrow> string list" where
  "queues_for_pools pools =
     (let wanted = remdups (filter (\<lambda>p. p \<noteq> []) (List.map strip pools))
      in if ''transfer'' \<in> set wanted then [TRANSFER_QUEUE]
         else SHARED_QUEUES @ List.map (\<lambda>p. ''poll:'' @ p) wanted)"

definition all_queues :: "string list" where
  "all_queues = SHARED_QUEUES @ List.map (\<lambda>p. ''poll:'' @ p) KNOWN_POOLS @ [TRANSFER_QUEUE]"

subsection \<open>Keys and lifetimes of the short-lived stores\<close>

definition request_key :: "string \<Rightarrow> string \<Rightarrow> string" where
  "request_key ten tid = ''req:'' @ ten @ '':'' @ tid"

definition response_key :: "string \<Rightarrow> string \<Rightarrow> string" where
  "response_key ten tid = ''reqresp:'' @ ten @ '':'' @ tid"

definition body_ttl_seconds :: "settings \<Rightarrow> int" where
  "body_ttl_seconds s = min 3600 (max 300 (task_deadline_seconds s + 300))"

definition response_ttl_seconds :: "settings \<Rightarrow> int" where
  "response_ttl_seconds s = max 60 (idempotency_window_seconds_default s)"

definition credential_ttl_seconds :: "settings \<Rightarrow> int" where
  "credential_ttl_seconds s = min 3600 (max 300 (task_deadline_seconds s + 300))"

definition credential_key :: "string \<Rightarrow> string" where
  "credential_key tid = ''cred:'' @ tid"

definition result_key :: "pylib \<Rightarrow> string \<Rightarrow> string \<Rightarrow> time \<Rightarrow> int \<Rightarrow> string \<Rightarrow> string" where
  "result_key L ten tid created n ext =
     lib_ymd L created @ ''/'' @ ten @ ''/'' @ tid @ ''/attempt-'' @ show_int n @ ''.'' @ ext"

subsection \<open>Lemmas\<close>

lemma pick_weighted_in: "pick_weighted p a ws = Some tv \<Longrightarrow> tv \<in> set (List.map fst ws)"
  by (induction p a ws rule: pick_weighted.induct) (auto split: if_splits)

lemma pick_weighted_total:
  assumes "p \<le> a + sum_list (List.map snd ws)" and "ws \<noteq> []"
  shows "pick_weighted p a ws \<noteq> None"
  using assms
proof (induction p a ws rule: pick_weighted.induct)
  case (2 p a tv w rest)
  then show ?case by (cases rest) (auto simp: algebra_simps)
qed simp

lemma queue_names_disjoint: "TRANSFER_QUEUE \<notin> set SHARED_QUEUES"
  by (simp add: TRANSFER_QUEUE_def SHARED_QUEUES_def)

end
