(* ===== verification/Concurrency.thy ===== *)
theory Concurrency
  imports Config
begin

text \<open>
  \<open>infra/concurrency.py\<close>: the two-level concurrency slots, as the Lua scripts run against Redis and
  as the in-process limiter, and the token bucket of the accept rate. Redis is a parameter: a record
  of its counter commands, whose documented behaviour is the locale \<open>counter_store\<close>. What a limiter
  promises is the locale \<open>slot_limiter\<close>; both implementations are shown to keep it.
\<close>

subsection \<open>Decisions and keys\<close>

record slot_decision =
  sd_granted :: bool
  sd_reason :: string
  sd_retry_after :: "secs option"

definition slot_granted :: slot_decision where
  "slot_granted = \<lparr>sd_granted = True, sd_reason = ''ok'', sd_retry_after = None\<rparr>"

definition slot_denied :: "string \<Rightarrow> secs \<Rightarrow> slot_decision" where
  "slot_denied reason after = \<lparr>sd_granted = False, sd_reason = reason, sd_retry_after = Some after\<rparr>"

definition as_headers :: "slot_decision \<Rightarrow> string dict" where
  "as_headers d = (case sd_retry_after d of
       Some r \<Rightarrow> if sd_granted d then [] else [(''Retry-After'', show_int (max 1 (py_int r)))]
     | None \<Rightarrow> [])"

definition channel_key :: "string \<Rightarrow> string" where
  "channel_key chan = ''conc:{'' @ chan @ ''}''"

definition tenant_key :: "string \<Rightarrow> string \<Rightarrow> string" where
  "tenant_key chan ten = ''conc:{'' @ chan @ ''}:{'' @ ten @ ''}''"

lemma channel_key_neq_tenant_key [simp]: "channel_key c \<noteq> tenant_key c t" "tenant_key c t \<noteq> channel_key c"
  by (auto simp: channel_key_def tenant_key_def)

text \<open>The keys of different channels can meet: the braces in a channel name are not escaped.\<close>

lemma channel_key_collides: "channel_key ''a}:{b'' = tenant_key ''a'' ''b''"
  by (simp add: channel_key_def tenant_key_def)

subsection \<open>The in-process limiter\<close>

type_synonym counts = "int dict"

definition count_at :: "counts \<Rightarrow> string \<Rightarrow> int" where
  "count_at m k = (case dict_get m k of None \<Rightarrow> 0 | Some v \<Rightarrow> v)"

definition mem_acquire :: "string \<Rightarrow> string \<Rightarrow> int \<Rightarrow> int \<Rightarrow> counts \<Rightarrow> slot_decision \<times> counts" where
  "mem_acquire chan ten channel_limit tenant_limit m =
     (let ch = channel_key chan; tn = tenant_key chan ten in
      if count_at m ch \<ge> channel_limit then (slot_denied ''channel_concurrency'' 1, m)
      else if count_at m tn \<ge> tenant_limit then (slot_denied ''tenant_concurrency'' 1, m)
      else let m1 = dict_set ch (count_at m ch + 1) m
           in (slot_granted, dict_set tn (count_at m1 tn + 1) m1))"

definition mem_release_key :: "counts \<Rightarrow> string \<Rightarrow> counts" where
  "mem_release_key m k = (if count_at m k > 0 then dict_set k (count_at m k - 1) m else m)"

definition mem_release :: "string \<Rightarrow> string \<Rightarrow> counts \<Rightarrow> counts" where
  "mem_release chan ten m = foldl mem_release_key m [channel_key chan, tenant_key chan ten]"

definition mem_calibrate :: "string \<Rightarrow> int \<Rightarrow> counts \<Rightarrow> int \<times> counts" where
  "mem_calibrate chan real_active m =
     (let ch = channel_key chan; current = count_at m ch in
      if current > real_active then (current - real_active, dict_set ch real_active m) else (0, m))"

subsection \<open>The Lua scripts\<close>

text \<open>The counter commands of Redis the scripts call, on an abstract server state \<open>'s\<close>.\<close>

record 's counters =
  r_get :: "'s \<Rightarrow> string \<Rightarrow> int option"
  r_incr :: "string \<Rightarrow> 's \<Rightarrow> 's"
  r_decr :: "string \<Rightarrow> 's \<Rightarrow> 's"
  r_set :: "string \<Rightarrow> int \<Rightarrow> 's \<Rightarrow> 's"
  r_del :: "string \<Rightarrow> 's \<Rightarrow> 's"
  r_expire :: "string \<Rightarrow> int \<Rightarrow> 's \<Rightarrow> 's"

text \<open>\<open>tonumber(redis.call('GET', k) or '0')\<close>\<close>

definition number_at :: "'s counters \<Rightarrow> 's \<Rightarrow> string \<Rightarrow> int" where
  "number_at R s k = (case r_get R s k of None \<Rightarrow> 0 | Some v \<Rightarrow> v)"

definition acquire_lua :: "'s counters \<Rightarrow> string \<Rightarrow> string \<Rightarrow> int \<Rightarrow> int \<Rightarrow> int \<Rightarrow> 's \<Rightarrow> int \<times> 's" where
  "acquire_lua R ch tn ch_limit tn_limit ttl s =
     (if number_at R s ch \<ge> ch_limit then (1, s)
      else if number_at R s tn \<ge> tn_limit then (2, s)
      else (0, r_expire R tn ttl (r_incr R tn (r_expire R ch ttl (r_incr R ch s)))))"

fun release_lua :: "'s counters \<Rightarrow> string list \<Rightarrow> 's \<Rightarrow> int \<times> 's" where
  "release_lua R [] s = (0, s)"
| "release_lua R (k # ks) s =
     (if number_at R s k > 0
      then (case release_lua R ks (r_decr R k s) of (changed, s') \<Rightarrow> (changed + 1, s'))
      else release_lua R ks s)"

definition calibrate_lua :: "'s counters \<Rightarrow> string \<Rightarrow> int \<Rightarrow> int \<Rightarrow> 's \<Rightarrow> int \<times> 's" where
  "calibrate_lua R k real_active ttl s =
     (let v = number_at R s k in
      if v > real_active then
        (v - real_active, if real_active > 0 then r_expire R k ttl (r_set R k real_active s) else r_del R k s)
      else (0, s))"

definition redis_acquire :: "'s counters \<Rightarrow> int \<Rightarrow> string \<Rightarrow> string \<Rightarrow> int \<Rightarrow> int \<Rightarrow> 's
    \<Rightarrow> slot_decision \<times> 's" where
  "redis_acquire R ttl chan ten channel_limit tenant_limit s =
     (case acquire_lua R (channel_key chan) (tenant_key chan ten) channel_limit tenant_limit ttl s of
        (code, s') \<Rightarrow>
          (if code = 0 then slot_granted
           else slot_denied (if code = 1 then ''channel_concurrency'' else ''tenant_concurrency'') 1, s'))"

definition redis_release :: "'s counters \<Rightarrow> string \<Rightarrow> string \<Rightarrow> 's \<Rightarrow> 's" where
  "redis_release R chan ten s = snd (release_lua R [channel_key chan, tenant_key chan ten] s)"

definition redis_calibrate :: "'s counters \<Rightarrow> int \<Rightarrow> string \<Rightarrow> int \<Rightarrow> 's \<Rightarrow> int \<times> 's" where
  "redis_calibrate R ttl chan real_active s = calibrate_lua R (channel_key chan) real_active ttl s"

subsection \<open>Workers sharing the slots\<close>

text \<open>
  Workers take and give slots in any order; a worker gives only what it holds (the handlers release
  exactly the slot they were granted). The state is the counters and the slots held.
\<close>

datatype slot_op = Take string string | Give string string

fun slot_run :: "(string \<Rightarrow> string \<Rightarrow> int \<Rightarrow> int \<Rightarrow> 's \<Rightarrow> slot_decision \<times> 's)
    \<Rightarrow> (string \<Rightarrow> string \<Rightarrow> 's \<Rightarrow> 's) \<Rightarrow> (string \<Rightarrow> int) \<Rightarrow> (string \<Rightarrow> int) \<Rightarrow> slot_op list
    \<Rightarrow> 's \<times> (string \<times> string) list \<Rightarrow> 's \<times> (string \<times> string) list" where
  "slot_run acq rel clim tlim [] st = st"
| "slot_run acq rel clim tlim (Take c t # ops) (s, hs) =
     (case acq c t (clim c) (tlim c) s of
        (d, s') \<Rightarrow> slot_run acq rel clim tlim ops (s', if sd_granted d then (c, t) # hs else hs))"
| "slot_run acq rel clim tlim (Give c t # ops) (s, hs) =
     (if (c, t) \<in> set hs then slot_run acq rel clim tlim ops (rel c t s, remove1 (c, t) hs)
      else slot_run acq rel clim tlim ops (s, hs))"

fun op_channel :: "slot_op \<Rightarrow> string" where
  "op_channel (Take c t) = c"
| "op_channel (Give c t) = c"

definition plain_channel :: "string \<Rightarrow> bool" where
  "plain_channel c \<longleftrightarrow> CHR ''}'' \<notin> set c"

definition in_flight :: "(string \<times> string) list \<Rightarrow> string \<Rightarrow> nat" where
  "in_flight hs k = length (filter (\<lambda>(c, t). k = channel_key c \<or> k = tenant_key c t) hs)"

lemma split_at_brace:
  "CHR ''}'' \<notin> set a \<Longrightarrow> CHR ''}'' \<notin> set b \<Longrightarrow> a @ CHR ''}'' # x = b @ CHR ''}'' # y \<Longrightarrow> a = b \<and> x = y"
  by (induction a arbitrary: b) (auto simp: Cons_eq_append_conv)

lemma channel_key_inj:
  "plain_channel a \<Longrightarrow> plain_channel b \<Longrightarrow> channel_key a = channel_key b \<longleftrightarrow> a = b"
  by (simp add: channel_key_def)

lemma channel_key_not_tenant:
  assumes "plain_channel a" and "plain_channel b"
  shows "channel_key a \<noteq> tenant_key b t"
proof
  assume "channel_key a = tenant_key b t"
  then have "a @ CHR ''}'' # [] = b @ CHR ''}'' # (CHR '':'' # CHR ''{'' # t @ ''}'')"
    by (simp only: channel_key_def tenant_key_def append_Cons append_Nil list.inject simp_thms)
  from split_at_brace [OF assms [unfolded plain_channel_def] this] show False by simp
qed

lemma tenant_key_inj:
  assumes "plain_channel a" and "plain_channel b"
  shows "tenant_key a t = tenant_key b u \<longleftrightarrow> a = b \<and> t = u"
proof
  assume "tenant_key a t = tenant_key b u"
  then have "a @ CHR ''}'' # (CHR '':'' # CHR ''{'' # t @ ''}'') = b @ CHR ''}'' # (CHR '':'' # CHR ''{'' # u @ ''}'')"
    by (simp only: tenant_key_def append_Cons append_Nil list.inject simp_thms)
  from split_at_brace [OF assms [unfolded plain_channel_def] this] show "a = b \<and> t = u" by simp
qed simp

lemma filter_remove1_length:
  "x \<in> set xs \<Longrightarrow> length (filter P (remove1 x xs)) + (if P x then 1 else 0) = length (filter P xs)"
  by (induction xs) auto

lemma in_flight_remove1:
  "(c, t) \<in> set hs \<Longrightarrow> in_flight (remove1 (c, t) hs) k + (if k = channel_key c \<or> k = tenant_key c t then 1 else 0)
     = in_flight hs k"
  using filter_remove1_length [of "(c, t)" hs "\<lambda>(c, t). k = channel_key c \<or> k = tenant_key c t"]
  by (simp add: in_flight_def)

subsection \<open>Interfaces\<close>

text \<open>The documented behaviour of the commands, between expiries.\<close>

locale counter_store =
  fixes R :: "'s counters" and ttl :: int
  assumes ttl_pos: "ttl > 0"
    and incr_number: "number_at R (r_incr R k s) k' = (if k' = k then number_at R s k + 1 else number_at R s k')"
    and decr_number: "number_at R (r_decr R k s) k' = (if k' = k then number_at R s k - 1 else number_at R s k')"
    and set_number: "number_at R (r_set R k v s) k' = (if k' = k then v else number_at R s k')"
    and del_number: "number_at R (r_del R k s) k' = (if k' = k then 0 else number_at R s k')"
    and expire_number: "t > 0 \<Longrightarrow> number_at R (r_expire R k t s) k' = number_at R s k'"

text \<open>What a limiter promises, on the counters it keeps.\<close>

locale slot_limiter =
  fixes count :: "'s \<Rightarrow> string \<Rightarrow> int"
    and take_slot :: "string \<Rightarrow> string \<Rightarrow> int \<Rightarrow> int \<Rightarrow> 's \<Rightarrow> slot_decision \<times> 's"
    and give_slot :: "string \<Rightarrow> string \<Rightarrow> 's \<Rightarrow> 's"
  assumes granted_iff: "sd_granted (fst (take_slot c t clim tlim s))
      \<longleftrightarrow> count s (channel_key c) < clim \<and> count s (tenant_key c t) < tlim"
    and take_count: "count (snd (take_slot c t clim tlim s)) k = count s k
      + (if sd_granted (fst (take_slot c t clim tlim s)) \<and> (k = channel_key c \<or> k = tenant_key c t) then 1 else 0)"
    and give_count: "count (give_slot c t s) k = count s k
      - (if count s k > 0 \<and> (k = channel_key c \<or> k = tenant_key c t) then 1 else 0)"

definition within_limits :: "(string \<Rightarrow> int) \<Rightarrow> (string \<Rightarrow> int) \<Rightarrow> (string \<times> string) list \<Rightarrow> bool" where
  "within_limits clim tlim hs \<longleftrightarrow> (\<forall>c t. plain_channel c \<longrightarrow>
     int (in_flight hs (channel_key c)) \<le> max 0 (clim c) \<and> int (in_flight hs (tenant_key c t)) \<le> max 0 (tlim c))"

context slot_limiter begin

text \<open>
  While the counters are exactly the slots held and the held slots are of plain channels, the limits
  hold for the held slots.
\<close>

definition counted :: "'s \<Rightarrow> (string \<times> string) list \<Rightarrow> bool" where
  "counted s hs \<longleftrightarrow> (\<forall>k. count s k = int (in_flight hs k))"

lemma take_keeps:
  assumes "counted s hs" and "within_limits clim tlim hs" and "plain_channel c"
    and "take_slot c t (clim c) (tlim c) s = (d, s')"
  shows "counted s' (if sd_granted d then (c, t) # hs else hs)
    \<and> within_limits clim tlim (if sd_granted d then (c, t) # hs else hs)"
proof (cases "sd_granted d")
  case True
  then have lim: "int (in_flight hs (channel_key c)) < clim c" "int (in_flight hs (tenant_key c t)) < tlim c"
    using granted_iff [of c t "clim c" "tlim c" s] assms(1,4) by (simp_all add: counted_def)
  have f: "in_flight ((c, t) # hs) k = in_flight hs k + (if k = channel_key c \<or> k = tenant_key c t then 1 else 0)" for k
    by (simp add: in_flight_def)
  then have "counted s' ((c, t) # hs)"
    using True take_count [of c t "clim c" "tlim c" s] assms(1,4) by (auto simp: counted_def)
  moreover have "within_limits clim tlim ((c, t) # hs)"
    unfolding within_limits_def
  proof (intro allI impI conjI)
    fix c' t'
    assume p: "plain_channel c'"
    have old: "int (in_flight hs (channel_key c')) \<le> max 0 (clim c')" "int (in_flight hs (tenant_key c' t')) \<le> max 0 (tlim c')"
      using assms(2) p by (auto simp: within_limits_def)
    show "int (in_flight ((c, t) # hs) (channel_key c')) \<le> max 0 (clim c')"
      using old lim p assms(3) by (cases "c' = c") (simp_all add: f channel_key_inj channel_key_not_tenant)
    show "int (in_flight ((c, t) # hs) (tenant_key c' t')) \<le> max 0 (tlim c')"
      using old lim p assms(3) channel_key_not_tenant [OF assms(3) p, of t']
      by (cases "c' = c \<and> t' = t") (auto simp: f tenant_key_inj)
  qed
  ultimately show ?thesis using True by simp
next
  case False
  then show ?thesis
    using take_count [of c t "clim c" "tlim c" s] assms by (simp add: counted_def)
qed

lemma give_keeps:
  assumes "counted s hs" and "within_limits clim tlim hs" and "(c, t) \<in> set hs"
  shows "counted (give_slot c t s) (remove1 (c, t) hs) \<and> within_limits clim tlim (remove1 (c, t) hs)"
proof -
  have le: "in_flight (remove1 (c, t) hs) k \<le> in_flight hs k" for k
    using in_flight_remove1 [OF assms(3), of k] by simp
  have "within_limits clim tlim (remove1 (c, t) hs)"
    using assms(2) le unfolding within_limits_def by (meson of_nat_le_iff order_trans)
  moreover have "count (give_slot c t s) k = int (in_flight (remove1 (c, t) hs) k)" for k
  proof -
    have "count s k = int (in_flight hs k)" using assms(1) by (simp add: counted_def)
    then show ?thesis
      using give_count [of c t s k] in_flight_remove1 [OF assms(3), of k]
      by (cases "k = channel_key c \<or> k = tenant_key c t") (simp_all split: if_splits)
  qed
  ultimately show ?thesis by (simp add: counted_def)
qed

lemma slot_run_within:
  assumes "counted s hs" and "within_limits clim tlim hs" and "\<forall>x \<in> set ops. plain_channel (op_channel x)"
  shows "counted (fst (slot_run take_slot give_slot clim tlim ops (s, hs)))
      (snd (slot_run take_slot give_slot clim tlim ops (s, hs)))
    \<and> within_limits clim tlim (snd (slot_run take_slot give_slot clim tlim ops (s, hs)))"
  using assms
proof (induction ops arbitrary: s hs)
  case (Cons x ops)
  show ?case
  proof (cases x)
    case (Take c t)
    obtain d s' where d: "take_slot c t (clim c) (tlim c) s = (d, s')" by fastforce
    from Cons.prems Take have "plain_channel c" by simp
    from take_keeps [OF Cons.prems(1,2) this d] Cons.IH [of s'] Cons.prems(3)
    show ?thesis by (simp add: Take d)
  next
    case (Give c t)
    then show ?thesis
      using Cons give_keeps [OF Cons.prems(1,2)] by simp
  qed
qed simp

lemma slots_from_empty:
  assumes "\<forall>k. count s k = 0" and "\<forall>x \<in> set ops. plain_channel (op_channel x)"
  shows "counted (fst (slot_run take_slot give_slot clim tlim ops (s, [])))
      (snd (slot_run take_slot give_slot clim tlim ops (s, [])))
    \<and> within_limits clim tlim (snd (slot_run take_slot give_slot clim tlim ops (s, [])))"
  by (rule slot_run_within) (use assms in \<open>simp_all add: counted_def within_limits_def in_flight_def\<close>)

end

subsection \<open>Both limiters keep the interface\<close>

lemma count_at_simps [simp]: "count_at [] k = 0" "count_at (dict_set k v m) k' = (if k' = k then v else count_at m k')"
  by (simp_all add: count_at_def)

lemma count_at_pop [simp]: "count_at (dict_pop k m) k' = (if k' = k then 0 else count_at m k')"
  by (simp add: count_at_def)

lemmas slot_decision_simps = slot_granted_def slot_denied_def

lemma mem_release_key_count:
  "count_at (mem_release_key m key) k = count_at m k - (if k = key \<and> count_at m k > 0 then 1 else 0)"
  by (simp add: mem_release_key_def)

lemma mem_acquire_cases:
  "mem_acquire c t clim tlim m = (if count_at m (channel_key c) \<ge> clim then (slot_denied ''channel_concurrency'' 1, m)
     else if count_at m (tenant_key c t) \<ge> tlim then (slot_denied ''tenant_concurrency'' 1, m)
     else (slot_granted, dict_set (tenant_key c t) (count_at m (tenant_key c t) + 1)
            (dict_set (channel_key c) (count_at m (channel_key c) + 1) m)))"
  by (simp add: mem_acquire_def Let_def)

lemma decision_granted [simp]: "sd_granted slot_granted" "\<not> sd_granted (slot_denied r x)"
  by (simp_all add: slot_decision_simps)

interpretation mem: slot_limiter count_at mem_acquire mem_release
proof (unfold_locales, goal_cases)
  case (3 c t s k)
  show ?case by (auto simp: mem_release_def mem_release_key_count)
qed (simp_all add: mem_acquire_cases)

context counter_store begin

lemma release_lua_number:
  "distinct ks \<Longrightarrow> number_at R (snd (release_lua R ks s)) k
     = number_at R s k - (if number_at R s k > 0 \<and> k \<in> set ks then 1 else 0)"
  by (induction ks arbitrary: s) (auto simp: decr_number case_prod_beta)

lemma acquire_lua_cases:
  "acquire_lua R ch tn clim tlim ttl s =
     (if number_at R s ch \<ge> clim then (1, s) else if number_at R s tn \<ge> tlim then (2, s)
      else (0, snd (acquire_lua R ch tn clim tlim ttl s)))"
  by (simp add: acquire_lua_def)

lemma acquire_lua_number:
  "ch \<noteq> tn \<Longrightarrow> number_at R (snd (acquire_lua R ch tn clim tlim ttl s)) k = number_at R s k
     + (if number_at R s ch < clim \<and> number_at R s tn < tlim \<and> (k = ch \<or> k = tn) then 1 else 0)"
  by (auto simp: acquire_lua_def incr_number expire_number [OF ttl_pos])

lemma calibrate_lua_number:
  "number_at R (snd (calibrate_lua R key real_active ttl s)) k =
     (if k = key \<and> number_at R s key > real_active then max 0 real_active else number_at R s k)"
  by (auto simp: calibrate_lua_def Let_def set_number del_number expire_number [OF ttl_pos])

end

sublocale counter_store \<subseteq> lua: slot_limiter "number_at R" "redis_acquire R ttl" "redis_release R"
proof (unfold_locales, goal_cases)
  case (1 c t clim tlim s)
  show ?case by (simp add: redis_acquire_def acquire_lua_def slot_decision_simps)
next
  case (2 c t clim tlim s k)
  have "sd_granted (fst (redis_acquire R ttl c t clim tlim s))
      \<longleftrightarrow> number_at R s (channel_key c) < clim \<and> number_at R s (tenant_key c t) < tlim"
    by (simp add: redis_acquire_def acquire_lua_def slot_decision_simps)
  moreover have "snd (redis_acquire R ttl c t clim tlim s) = snd (acquire_lua R (channel_key c) (tenant_key c t) clim tlim ttl s)"
    by (simp add: redis_acquire_def case_prod_beta)
  ultimately show ?case by (simp add: acquire_lua_number)
next
  case (3 c t s k)
  show ?case by (simp add: redis_release_def release_lua_number del: release_lua.simps)
qed

context counter_store begin

lemma lua_from_empty:
  assumes "\<forall>k. number_at R s k = 0" and "\<forall>x \<in> set ops. plain_channel (op_channel x)"
  shows "within_limits clim tlim (snd (slot_run (redis_acquire R ttl) (redis_release R) clim tlim ops (s, [])))"
  using lua.slots_from_empty [OF assms] by blast

lemma lua_take_count:
  "number_at R (snd (redis_acquire R ttl c t clim tlim s)) k = number_at R s k
     + (if number_at R s (channel_key c) < clim \<and> number_at R s (tenant_key c t) < tlim
          \<and> (k = channel_key c \<or> k = tenant_key c t) then 1 else 0)"
  using lua.take_count lua.granted_iff by simp

lemma lua_give_count:
  "number_at R (redis_release R c t s) k = number_at R s k
     - (if number_at R s k > 0 \<and> (k = channel_key c \<or> k = tenant_key c t) then 1 else 0)"
  by (rule lua.give_count)

end

text \<open>A dictionary of counters is such a store.\<close>

definition dict_counters :: "counts counters" where
  "dict_counters = \<lparr>r_get = dict_get, r_incr = (\<lambda>k m. dict_set k (count_at m k + 1) m),
     r_decr = (\<lambda>k m. dict_set k (count_at m k - 1) m), r_set = dict_set, r_del = dict_pop,
     r_expire = (\<lambda>k t m. m)\<rparr>"

lemma number_at_dict [simp]: "number_at dict_counters m k = count_at m k"
  by (simp add: number_at_def dict_counters_def count_at_def)

interpretation dict_store: counter_store dict_counters 3600
  by unfold_locales (simp_all, simp_all add: dict_counters_def)

subsection \<open>Accept rate: the token bucket\<close>

text \<open>
  \<open>TOKEN_BUCKET_LUA\<close>: \<open>data\<close> is what \<open>HMGET\<close> returns (\<open>None\<close> for an absent or expired key), the clock is in
  milliseconds; the result is the verdict and the pair stored with \<open>HSET\<close>.
\<close>

definition token_bucket_lua :: "rat \<Rightarrow> rat \<Rightarrow> rat \<Rightarrow> rat \<Rightarrow> (rat \<times> rat) option \<Rightarrow> bool \<times> rat \<times> rat" where
  "token_bucket_lua rate burst now cost data =
     (let tokens0 = (case data of None \<Rightarrow> burst | Some (k, _) \<Rightarrow> k);
          ts = (case data of None \<Rightarrow> now | Some (_, t) \<Rightarrow> t);
          elapsed = max 0 (now - ts) / 1000;
          tokens = min burst (tokens0 + elapsed * rate)
      in if tokens \<ge> cost then (True, tokens - cost, now) else (False, tokens, now))"

definition redis_try_acquire :: "rat \<Rightarrow> int \<Rightarrow> time \<Rightarrow> int \<Rightarrow> (rat \<times> rat) option
    \<Rightarrow> slot_decision \<times> (rat \<times> rat)" where
  "redis_try_acquire rate burst now cost data =
     (case token_bucket_lua rate (of_int burst) (of_int \<lfloor>now * 1000\<rfloor>) (of_int cost) data of
        (allowed, data') \<Rightarrow>
          (if allowed then slot_granted
           else slot_denied ''accept_rate'' (max (1/20) (of_int cost / max rate (1/1000))), data'))"

record rate_state =
  rs_tokens :: rat
  rs_ts :: time

definition mem_try_acquire :: "rat \<Rightarrow> int \<Rightarrow> time \<Rightarrow> int \<Rightarrow> rate_state \<Rightarrow> slot_decision \<times> rate_state" where
  "mem_try_acquire rate burst now cost st =
     (let tokens = min (of_int burst) (rs_tokens st + (now - rs_ts st) * rate) in
      if tokens \<ge> of_int cost
      then (slot_granted, \<lparr>rs_tokens = tokens - of_int cost, rs_ts = now\<rparr>)
      else (slot_denied ''accept_rate'' ((of_int cost - tokens) / max rate (1/1000)),
            \<lparr>rs_tokens = tokens, rs_ts = now\<rparr>))"

text \<open>A sequence of requests (clock, cost): the cost granted in total and the final state of the bucket.\<close>

fun bucket_run :: "(time \<Rightarrow> int \<Rightarrow> 's \<Rightarrow> slot_decision \<times> 's) \<Rightarrow> (time \<times> int) list \<Rightarrow> 's \<Rightarrow> int \<times> 's" where
  "bucket_run req [] st = (0, st)"
| "bucket_run req ((now, cost) # rs) st =
     (case req now cost st of (d, st') \<Rightarrow>
        (case bucket_run req rs st' of (g, st'') \<Rightarrow> ((if sd_granted d then cost else 0) + g, st'')))"

text \<open>An absent key is a full bucket.\<close>

lemma redis_try_absent:
  "redis_try_acquire rate burst now cost None
     = redis_try_acquire rate burst now cost (Some (of_int burst, of_int \<lfloor>now * 1000\<rfloor>))"
  by (simp add: redis_try_acquire_def token_bucket_lua_def)

text \<open>What a bucket promises: its level grows at most at the rate, and a grant is paid from it.\<close>

locale rate_bucket =
  fixes request :: "time \<Rightarrow> int \<Rightarrow> 's \<Rightarrow> slot_decision \<times> 's"
    and level :: "'s \<Rightarrow> rat" and stamp :: "'s \<Rightarrow> time" and clock :: "time \<Rightarrow> time" and rate :: rat
  assumes clock_mono: "t \<le> u \<Longrightarrow> clock t \<le> clock u"
    and stamp_after: "stamp (snd (request now cost s)) = clock now"
    and level_after: "stamp s \<le> clock now \<Longrightarrow> level (snd (request now cost s))
        + (if sd_granted (fst (request now cost s)) then of_int cost else 0) \<le> level s + (clock now - stamp s) * rate"
    and level_nonneg: "stamp s \<le> clock now \<Longrightarrow> 0 \<le> level s \<Longrightarrow> 0 \<le> level (snd (request now cost s))"

context rate_bucket begin

lemma bucket_bound:
  assumes "sorted (List.map fst rs)" and "\<forall>r \<in> set rs. stamp s \<le> clock (fst r)" and "0 \<le> level s"
  shows "of_int (fst (bucket_run request rs s))
    \<le> level s + ((if rs = [] then stamp s else clock (fst (last rs))) - stamp s) * rate"
  using assms
proof (induction rs arbitrary: s)
  case (Cons r rs)
  obtain now cost where r: "r = (now, cost)" by fastforce
  let ?s = "snd (request now cost s)"
  have le: "stamp s \<le> clock now" using Cons.prems(2) r by simp
  have s1: "stamp ?s = clock now" by (rule stamp_after)
  have "\<forall>q \<in> set rs. stamp ?s \<le> clock (fst q)"
    using Cons.prems(1) r by (auto simp: s1 intro: clock_mono)
  moreover have "sorted (List.map fst rs)" using Cons.prems(1) by simp
  ultimately have ih: "of_int (fst (bucket_run request rs ?s))
      \<le> level ?s + ((if rs = [] then clock now else clock (fst (last rs))) - clock now) * rate"
    using Cons.IH [of ?s] level_nonneg [OF le Cons.prems(3), of cost] by (cases "rs = []") (simp_all add: s1)
  have "of_int (fst (bucket_run request (r # rs) s))
      = (if sd_granted (fst (request now cost s)) then of_int cost else 0)
        + (of_int (fst (bucket_run request rs ?s)) :: rat)"
    by (simp add: r case_prod_beta)
  also have "\<dots> \<le> level s + (clock now - stamp s) * rate
      + ((if rs = [] then clock now else clock (fst (last rs))) - clock now) * rate"
    using ih level_after [OF le, of cost] by linarith
  also have "\<dots> = level s + ((if rs = [] then clock now else clock (fst (last rs))) - stamp s) * rate"
    by (simp add: algebra_simps)
  finally have "of_int (fst (bucket_run request (r # rs) s))
      \<le> level s + ((if rs = [] then clock now else clock (fst (last rs))) - stamp s) * rate" .
  then show ?case by (cases "rs = []") (simp_all add: r)
qed simp

end

locale accept_quota =
  fixes rate :: rat and burst :: int
  assumes rate_nonneg: "0 \<le> rate" and burst_nonneg: "0 \<le> burst"

sublocale accept_quota \<subseteq> mem_bucket: rate_bucket "mem_try_acquire rate burst" rs_tokens rs_ts "\<lambda>t. t" rate
  using rate_nonneg burst_nonneg
  by unfold_locales (auto simp: mem_try_acquire_def Let_def slot_decision_simps)

sublocale accept_quota \<subseteq> lua_bucket: rate_bucket "\<lambda>now cost st. case redis_try_acquire rate burst now cost (Some st) of (d, x) \<Rightarrow> (d, x)"
    fst snd "\<lambda>t. of_int \<lfloor>t * 1000\<rfloor>" "rate / 1000"
proof (unfold_locales, goal_cases)
  case (1 t u)
  then show ?case by (simp add: floor_mono)
next
  case (2 now cost s)
  show ?case by (simp add: redis_try_acquire_def token_bucket_lua_def Let_def split: prod.splits)
next
  case (3 s now cost)
  obtain k t where st: "s = (k, t)" by fastforce
  have "max 0 (of_int \<lfloor>now * 1000\<rfloor> - t) = of_int \<lfloor>now * 1000\<rfloor> - t" using 3 st by simp
  then show ?case
    by (simp add: st redis_try_acquire_def token_bucket_lua_def Let_def slot_decision_simps)
next
  case (4 s now cost)
  then show ?case
    using rate_nonneg burst_nonneg
    by (auto simp: redis_try_acquire_def token_bucket_lua_def Let_def slot_decision_simps split: prod.splits)
qed

interpretation default_quota: accept_quota "accept_rate_per_second default_settings" "accept_burst default_settings"
  by unfold_locales (simp_all add: default_settings_def)

context accept_quota begin

text \<open>Requests in clock order on a full bucket created at the first of them or before.\<close>

lemma mem_granted:
  assumes "sorted (List.map fst rs)" and "rs \<noteq> []" and "start \<le> fst (hd rs)"
  shows "of_int (fst (bucket_run (mem_try_acquire rate burst) rs \<lparr>rs_tokens = of_int burst, rs_ts = start\<rparr>))
      \<le> of_int burst + (fst (last rs) - start) * rate"
proof -
  have "\<forall>r \<in> set rs. start \<le> fst r" using assms by (cases rs) auto
  with mem_bucket.bucket_bound [OF assms(1), of "\<lparr>rs_tokens = of_int burst, rs_ts = start\<rparr>"] assms(2) burst_nonneg
  show ?thesis by simp
qed

lemma lua_granted:
  assumes "sorted (List.map fst rs)" and "rs \<noteq> []"
  shows "of_int (fst (bucket_run (\<lambda>now cost st. case redis_try_acquire rate burst now cost (Some st) of (d, x) \<Rightarrow> (d, x))
        rs (of_int burst, of_int \<lfloor>fst (hd rs) * 1000\<rfloor>)))
      \<le> of_int burst + (of_int \<lfloor>fst (last rs) * 1000\<rfloor> - of_int \<lfloor>fst (hd rs) * 1000\<rfloor>) * (rate / 1000)"
proof -
  have "\<forall>r \<in> set rs. fst (hd rs) \<le> fst r" using assms by (cases rs) auto
  then have "\<forall>r \<in> set rs. \<lfloor>fst (hd rs) * 1000\<rfloor> \<le> \<lfloor>fst r * 1000\<rfloor>" by (simp add: floor_mono)
  with lua_bucket.bucket_bound [OF assms(1), of "(of_int burst, of_int \<lfloor>fst (hd rs) * 1000\<rfloor>)"] assms(2) burst_nonneg
  show ?thesis by simp
qed

end

subsection \<open>Properties\<close>

definition holders :: "(string \<times> string) list \<Rightarrow> string \<Rightarrow> nat" where
  "holders hs c = length (filter (\<lambda>h. fst h = c) hs)"

lemma holders_in_flight: "holders hs c \<le> in_flight hs (channel_key c)"
  unfolding holders_def in_flight_def by (induction hs) auto

lemma count_list_in_flight: "count_list hs (c, t) \<le> in_flight hs (tenant_key c t)"
  unfolding in_flight_def by (induction hs) auto

text \<open>
  C33: The concurrency limits hold. Starting from no slot taken, whatever sequence of acquire and
  release calls the workers make on channels without a closing brace in their name, each releasing only
  what it was granted, the slots held at once of a channel and of a tenant in it never exceed their
  limits; for the Lua scripts on any Redis that keeps the documented behaviour of the counter commands,
  and for the in-process limiter.
\<close>

theorem slots_in_flight_bounded:
  assumes "counter_store R ttl" and "\<forall>k. number_at R s k = 0"
    and "\<forall>x \<in> set ops. plain_channel (op_channel x)" and "plain_channel c"
  shows "int (holders (snd (slot_run (redis_acquire R ttl) (redis_release R) clim tlim ops (s, []))) c) \<le> max 0 (clim c)
    \<and> int (count_list (snd (slot_run (redis_acquire R ttl) (redis_release R) clim tlim ops (s, []))) (c, t)) \<le> max 0 (tlim c)
    \<and> int (holders (snd (slot_run mem_acquire mem_release clim tlim ops ([], []))) c) \<le> max 0 (clim c)
    \<and> int (count_list (snd (slot_run mem_acquire mem_release clim tlim ops ([], []))) (c, t)) \<le> max 0 (tlim c)"
proof -
  have *: "int (holders hs c) \<le> max 0 (clim c) \<and> int (count_list hs (c, t)) \<le> max 0 (tlim c)"
    if "within_limits clim tlim hs" for hs
    using that assms(4) holders_in_flight [of hs c] count_list_in_flight [of hs c t]
    unfolding within_limits_def by (meson of_nat_le_iff order_trans)
  have "\<forall>k. count_at [] k = 0" by simp
  from mem.slots_from_empty [OF this assms(3)]
    counter_store.lua_from_empty [OF assms(1,2,3)]
  show ?thesis using * by blast
qed

theorem slots_in_flight_bounded_witness:
  "int (holders (snd (slot_run mem_acquire mem_release (\<lambda>_. 1) (\<lambda>_. 1)
      [Take ''a'' ''x'', Take ''a'' ''y'', Give ''a'' ''x''] ([], []))) ''a'') \<le> 1"
  using slots_in_flight_bounded [of dict_counters 3600 "[]"
      "[Take ''a'' ''x'', Take ''a'' ''y'', Give ''a'' ''x'']" "''a''" "\<lambda>_. 1" "\<lambda>_. 1" "''x''"]
    dict_store.counter_store_axioms
  by (simp add: plain_channel_def)

text \<open>
  C32: The in-process limiter is the Lua limiter. On counters that agree, acquire gives the same
  decision, calibration to a non-negative actual count returns the same drift, and acquire, release and
  calibration leave counters that agree.
\<close>

theorem lua_scripts_match_memory:
  assumes "counter_store R ttl" and "\<forall>k. number_at R s k = count_at m k" and "0 \<le> real_active"
  shows "fst (redis_acquire R ttl c t clim tlim s) = fst (mem_acquire c t clim tlim m)
    \<and> (\<forall>k. number_at R (snd (redis_acquire R ttl c t clim tlim s)) k = count_at (snd (mem_acquire c t clim tlim m)) k)
    \<and> (\<forall>k. number_at R (redis_release R c t s) k = count_at (mem_release c t m) k)
    \<and> fst (redis_calibrate R ttl c real_active s) = fst (mem_calibrate c real_active m)
    \<and> (\<forall>k. number_at R (snd (redis_calibrate R ttl c real_active s)) k = count_at (snd (mem_calibrate c real_active m)) k)"
proof (intro conjI allI, goal_cases)
  case 1
  show ?case using assms(2) by (simp add: redis_acquire_def acquire_lua_def mem_acquire_def Let_def)
next
  case (2 k)
  show ?case
    using counter_store.lua_take_count [OF assms(1)] mem.take_count mem.granted_iff assms(2) by simp
next
  case (3 k)
  show ?case
    using counter_store.lua_give_count [OF assms(1)] mem.give_count assms(2) by simp
next
  case 4
  show ?case using assms(2) by (simp add: redis_calibrate_def calibrate_lua_def mem_calibrate_def Let_def)
next
  case (5 k)
  show ?case
    using assms(2,3) by (simp add: redis_calibrate_def counter_store.calibrate_lua_number [OF assms(1)] mem_calibrate_def Let_def)
qed

theorem lua_scripts_match_memory_witness:
  "fst (redis_acquire dict_counters 3600 ''a'' ''x'' 1 1 []) = fst (mem_acquire ''a'' ''x'' 1 1 [])"
  using lua_scripts_match_memory [OF dict_store.counter_store_axioms, of "[]" "[]" 0 "''a''" "''x''" 1 1] by simp



end
