(* ===== verification/Prog.thy ===== *)
theory Prog
  imports DaoFacts Client Container Concurrency Queries
begin

text \<open>
  The worker's handlers as programs. A handler is a tree of atomic actions, each with the rest of
  the program as a function of its answer: reading a row, one conditional write, a clock or random
  reading, a question to the polling controller, the credential and request stores, taking a
  concurrency slot, one HTTP call, putting a message on the bus, and effects without an answer.
  The same tree is executed alone (\<open>run\<close> below, against scripted answers) and interleaved with
  other programs on shared state (theory \<open>Interleave\<close>), so no step of a handler is
  merged with its neighbour.
\<close>

subsection \<open>Actions\<close>

text \<open>Questions answered by a number.\<close>

datatype query =
    Q_now
  | Q_random
  | Q_next_interval string secs bool
  | Q_base_interval string secs bool
  | Q_paused_for string

text \<open>
  Effects on stores the task table does not know: the polling controller, the credential store, the
  slot counters, the request store, the result store and the audit log.
\<close>

datatype effect =
    E_note_rate_limited string "secs option"
  | E_decay_if_clean string secs
  | E_record_terminal string secs
  | E_drop_credential string
  | E_release string string
  | E_put_request string json int
  | E_put_object string string
  | E_audit string string string jobj
  | E_put_credential string string int
  | E_stash_orphan string string "string option" "jobj option"
  | E_reply int json "string dict"

datatype prog =
    Done
  | Fail exn
  | Load string "task option \<Rightarrow> prog"
  | Write dao_write "bool res \<Rightarrow> prog"
  | Ask query "rat \<Rightarrow> prog"
  | AskCred string "string option \<Rightarrow> prog"
  | AskBody string "jobj res \<Rightarrow> prog"
  | Acquire string string int int "slot_decision \<Rightarrow> prog"
  | Http string rendered_request call_context "string option" "call_result res \<Rightarrow> prog"
  | Fetch string "(string + string) res \<Rightarrow> prog"
  | Enqueue string string jobj "exn option \<Rightarrow> prog"
  | Tell effect prog
  | Seek "table \<Rightarrow> task option" "task option \<Rightarrow> prog"
  | Insert task "exn option \<Rightarrow> prog"
  | Draw "string \<Rightarrow> prog"
  | AskStored string "json option \<Rightarrow> prog"
  | Admit string "slot_decision \<Rightarrow> prog"
  | Depth string "int \<Rightarrow> prog"
  | Presign string int "string option \<Rightarrow> prog"
  | NewEvent callback_event "bool \<Rightarrow> prog"

text \<open>
  The last eight are the API's: a lookup in the table by something else than the id, an insertion, a fresh identifier or
  token, an archived response, the accept quota, the depth of a queue, a presigned url, and the insertion of a callback
  event (false when its dedup key is taken).
  \<open>Http tid\<close> and the actions on slots name the task and channel on whose behalf they happen; the
  upstream sees the request only.
\<close>

subsection \<open>Combinators\<close>

text \<open>\<open>await _apply(...)\<close>: a write whose exception propagates.\<close>

definition apply_write :: "dao_write \<Rightarrow> (bool \<Rightarrow> prog) \<Rightarrow> prog" where
  "apply_write w k = Write w (\<lambda>r. case r of Inl e \<Rightarrow> Fail e | Inr b \<Rightarrow> k b)"

definition send :: "string \<Rightarrow> string \<Rightarrow> jobj \<Rightarrow> prog \<Rightarrow> prog" where
  "send q name payload k = Enqueue q name payload (\<lambda>r. case r of Some e \<Rightarrow> Fail e | None \<Rightarrow> k)"

definition ask_now :: "(time \<Rightarrow> prog) \<Rightarrow> prog" where
  "ask_now k = Ask Q_now k"

definition require :: "'a res \<Rightarrow> ('a \<Rightarrow> prog) \<Rightarrow> prog" where
  "require r k = (case r of Inl e \<Rightarrow> Fail e | Inr x \<Rightarrow> k x)"

text \<open>\<open>try: p finally: eff\<close>.\<close>

primrec finally_do :: "effect \<Rightarrow> prog \<Rightarrow> prog" where
  "finally_do eff Done = Tell eff Done"
| "finally_do eff (Fail e) = Tell eff (Fail e)"
| "finally_do eff (Load t k) = Load t (\<lambda>x. finally_do eff (k x))"
| "finally_do eff (Write w k) = Write w (\<lambda>x. finally_do eff (k x))"
| "finally_do eff (Ask q k) = Ask q (\<lambda>x. finally_do eff (k x))"
| "finally_do eff (AskCred t k) = AskCred t (\<lambda>x. finally_do eff (k x))"
| "finally_do eff (AskBody t k) = AskBody t (\<lambda>x. finally_do eff (k x))"
| "finally_do eff (Acquire c t a b k) = Acquire c t a b (\<lambda>x. finally_do eff (k x))"
| "finally_do eff (Http t q c b k) = Http t q c b (\<lambda>x. finally_do eff (k x))"
| "finally_do eff (Fetch u k) = Fetch u (\<lambda>x. finally_do eff (k x))"
| "finally_do eff (Enqueue q n m k) = Enqueue q n m (\<lambda>x. finally_do eff (k x))"
| "finally_do eff (Tell e p) = Tell e (finally_do eff p)"
| "finally_do eff (Seek f k) = Seek f (\<lambda>x. finally_do eff (k x))"
| "finally_do eff (Insert t k) = Insert t (\<lambda>x. finally_do eff (k x))"
| "finally_do eff (Draw k) = Draw (\<lambda>x. finally_do eff (k x))"
| "finally_do eff (AskStored r k) = AskStored r (\<lambda>x. finally_do eff (k x))"
| "finally_do eff (Admit c k) = Admit c (\<lambda>x. finally_do eff (k x))"
| "finally_do eff (Depth q k) = Depth q (\<lambda>x. finally_do eff (k x))"
| "finally_do eff (Presign r l k) = Presign r l (\<lambda>x. finally_do eff (k x))"
| "finally_do eff (NewEvent v k) = NewEvent v (\<lambda>x. finally_do eff (k x))"

text \<open>\<open>p\<close>, then \<open>f\<close> of how it ended: of the exception, or of \<open>None\<close> when it returned.\<close>

primrec after_do :: "(exn option \<Rightarrow> prog) \<Rightarrow> prog \<Rightarrow> prog" where
  "after_do f Done = f None"
| "after_do f (Fail e) = f (Some e)"
| "after_do f (Tell e p) = Tell e (after_do f p)"
| "after_do f (Load t k) = Load t (\<lambda>x. after_do f (k x))"
| "after_do f (Write w k) = Write w (\<lambda>x. after_do f (k x))"
| "after_do f (Ask q k) = Ask q (\<lambda>x. after_do f (k x))"
| "after_do f (AskCred t k) = AskCred t (\<lambda>x. after_do f (k x))"
| "after_do f (AskBody t k) = AskBody t (\<lambda>x. after_do f (k x))"
| "after_do f (Acquire c t a b k) = Acquire c t a b (\<lambda>x. after_do f (k x))"
| "after_do f (Http t q c b k) = Http t q c b (\<lambda>x. after_do f (k x))"
| "after_do f (Fetch u k) = Fetch u (\<lambda>x. after_do f (k x))"
| "after_do f (Enqueue q n m k) = Enqueue q n m (\<lambda>x. after_do f (k x))"
| "after_do f (Seek g k) = Seek g (\<lambda>x. after_do f (k x))"
| "after_do f (Insert t k) = Insert t (\<lambda>x. after_do f (k x))"
| "after_do f (Draw k) = Draw (\<lambda>x. after_do f (k x))"
| "after_do f (AskStored r k) = AskStored r (\<lambda>x. after_do f (k x))"
| "after_do f (Admit c k) = Admit c (\<lambda>x. after_do f (k x))"
| "after_do f (Depth q k) = Depth q (\<lambda>x. after_do f (k x))"
| "after_do f (Presign r l k) = Presign r l (\<lambda>x. after_do f (k x))"
| "after_do f (NewEvent v k) = NewEvent v (\<lambda>x. after_do f (k x))"

lemma finally_after: "finally_do eff p = after_do (\<lambda>r. Tell eff (case r of None \<Rightarrow> Done | Some e \<Rightarrow> Fail e)) p"
  by (induction p) simp_all

subsection \<open>Running alone against scripted answers\<close>

text \<open>
  The world a program runs in: the table, and what the environment answers at each step (the
  argument counts the answers already given). \<open>o_time\<close> is the clock at that moment.
\<close>

record answers =
  o_time :: "nat \<Rightarrow> time"
  o_ask :: "nat \<Rightarrow> query \<Rightarrow> rat"
  o_cred :: "nat \<Rightarrow> string \<Rightarrow> string option"
  o_body :: "nat \<Rightarrow> string \<Rightarrow> jobj res"
  o_slot :: "nat \<Rightarrow> slot_decision"
  o_http :: "nat \<Rightarrow> rendered_request \<Rightarrow> call_result res"
  o_fetch :: "nat \<Rightarrow> string \<Rightarrow> (string + string) res"
  o_bus :: "nat \<Rightarrow> exn option"
  o_draw :: "nat \<Rightarrow> string"
  o_stored :: "nat \<Rightarrow> string \<Rightarrow> json option"
  o_admit :: "nat \<Rightarrow> string \<Rightarrow> slot_decision"
  o_depth :: "nat \<Rightarrow> string \<Rightarrow> int"
  o_presign :: "nat \<Rightarrow> string \<Rightarrow> string option"
  o_event :: "nat \<Rightarrow> callback_event \<Rightarrow> bool"

text \<open>What a run leaves: the exception it ended in, the table, and the visible actions in order.\<close>

datatype event =
    Wrote dao_write "bool res"
  | Told effect
  | Called string rendered_request call_context "string option"
  | Fetched string
  | Sent string string jobj
  | Acquired string string bool
  | Inserted task

record outcome_of_run =
  ro_exn :: "exn option"
  ro_table :: table
  ro_events :: "event list"

definition emit :: "event \<Rightarrow> outcome_of_run \<Rightarrow> outcome_of_run" where
  "emit e r = r\<lparr>ro_events := e # ro_events r\<rparr>"

primrec run :: "prog \<Rightarrow> answers \<Rightarrow> nat \<Rightarrow> table \<Rightarrow> outcome_of_run" where
  "run Done ora n tbl = \<lparr>ro_exn = None, ro_table = tbl, ro_events = []\<rparr>"
| "run (Fail e) ora n tbl = \<lparr>ro_exn = Some e, ro_table = tbl, ro_events = []\<rparr>"
| "run (Load t k) ora n tbl = run (k (get_task t tbl)) ora (Suc n) tbl"
| "run (Write w k) ora n tbl =
     (case exec_write (o_time ora n) w tbl of
        (r, tbl') \<Rightarrow> emit (Wrote w r) (run (k r) ora (Suc n) tbl'))"
| "run (Ask q k) ora n tbl = run (k (case q of Q_now \<Rightarrow> o_time ora n | _ \<Rightarrow> o_ask ora n q)) ora (Suc n) tbl"
| "run (AskCred t k) ora n tbl = run (k (o_cred ora n t)) ora (Suc n) tbl"
| "run (AskBody t k) ora n tbl = run (k (o_body ora n t)) ora (Suc n) tbl"
| "run (Acquire c t a b k) ora n tbl =
     emit (Acquired c t (sd_granted (o_slot ora n))) (run (k (o_slot ora n)) ora (Suc n) tbl)"
| "run (Http t q c b k) ora n tbl = emit (Called t q c b) (run (k (o_http ora n q)) ora (Suc n) tbl)"
| "run (Fetch u k) ora n tbl = emit (Fetched u) (run (k (o_fetch ora n u)) ora (Suc n) tbl)"
| "run (Enqueue q m p k) ora n tbl =
     (case o_bus ora n of
        Some e \<Rightarrow> run (k (Some e)) ora (Suc n) tbl
      | None \<Rightarrow> emit (Sent q m p) (run (k None) ora (Suc n) tbl))"
| "run (Tell e p) ora n tbl = emit (Told e) (run p ora (Suc n) tbl)"
| "run (Seek f k) ora n tbl = run (k (f tbl)) ora (Suc n) tbl"
| "run (Insert t k) ora n tbl = (case insert_task t tbl of
      Inl e \<Rightarrow> run (k (Some e)) ora (Suc n) tbl
    | Inr tbl' \<Rightarrow> emit (Inserted t) (run (k None) ora (Suc n) tbl'))"
| "run (Draw k) ora n tbl = run (k (o_draw ora n)) ora (Suc n) tbl"
| "run (AskStored r k) ora n tbl = run (k (o_stored ora n r)) ora (Suc n) tbl"
| "run (Admit c k) ora n tbl = run (k (o_admit ora n c)) ora (Suc n) tbl"
| "run (Depth q k) ora n tbl = run (k (o_depth ora n q)) ora (Suc n) tbl"
| "run (Presign r l k) ora n tbl = run (k (o_presign ora n r)) ora (Suc n) tbl"
| "run (NewEvent v k) ora n tbl = run (k (o_event ora n v)) ora (Suc n) tbl"

lemma emit_sel [simp]:
  "ro_exn (emit e r) = ro_exn r" "ro_table (emit e r) = ro_table r" "ro_events (emit e r) = e # ro_events r"
  by (simp_all add: emit_def)

subsection \<open>Predicates over all paths of a program\<close>

text \<open>
  \<open>prog_all P p\<close>: every write, call, message, effect and slot request on every path of \<open>p\<close> satisfies \<open>P\<close>,
  whatever the environment answers; a row read by id has that id.
\<close>

datatype act =
    A_write dao_write
  | A_http string rendered_request call_context
  | A_send string string jobj
  | A_tell effect
  | A_acquire string string
  | A_insert task

definition loads :: "string \<Rightarrow> task option \<Rightarrow> bool" where
  "loads tid x \<longleftrightarrow> (case x of None \<Rightarrow> True | Some r \<Rightarrow> task_id r = tid)"

primrec prog_all :: "(act \<Rightarrow> bool) \<Rightarrow> prog \<Rightarrow> bool" where
  "prog_all P Done = True"
| "prog_all P (Fail e) = True"
| "prog_all P (Load t k) = (\<forall>x. loads t x \<longrightarrow> prog_all P (k x))"
| "prog_all P (Write w k) = (P (A_write w) \<and> (\<forall>x. prog_all P (k x)))"
| "prog_all P (Ask q k) = (\<forall>x. prog_all P (k x))"
| "prog_all P (AskCred t k) = (\<forall>x. prog_all P (k x))"
| "prog_all P (AskBody t k) = (\<forall>x. prog_all P (k x))"
| "prog_all P (Acquire c t a b k) = (P (A_acquire c t) \<and> (\<forall>x. prog_all P (k x)))"
| "prog_all P (Http t q c b k) = (P (A_http t q c) \<and> (\<forall>x. prog_all P (k x)))"
| "prog_all P (Fetch u k) = (\<forall>x. prog_all P (k x))"
| "prog_all P (Enqueue q n m k) = (P (A_send q n m) \<and> (\<forall>x. prog_all P (k x)))"
| "prog_all P (Tell e p) = (P (A_tell e) \<and> prog_all P p)"
| "prog_all P (Seek f k) = (\<forall>x. prog_all P (k x))"
| "prog_all P (Insert t k) = (P (A_insert t) \<and> (\<forall>x. prog_all P (k x)))"
| "prog_all P (Draw k) = (\<forall>x. prog_all P (k x))"
| "prog_all P (AskStored r k) = (\<forall>x. prog_all P (k x))"
| "prog_all P (Admit c k) = (\<forall>x. prog_all P (k x))"
| "prog_all P (Depth q k) = (\<forall>x. prog_all P (k x))"
| "prog_all P (Presign r l k) = (\<forall>x. prog_all P (k x))"
| "prog_all P (NewEvent v k) = (\<forall>x. prog_all P (k x))"

lemma prog_all_apply [simp]:
  "prog_all P (apply_write w k) \<longleftrightarrow> P (A_write w) \<and> (\<forall>b. prog_all P (k b))"
  by (auto simp: apply_write_def split: sum.splits)

lemma prog_all_send [simp]:
  "prog_all P (send q n m k) \<longleftrightarrow> P (A_send q n m) \<and> prog_all P k"
  by (auto simp: send_def split: option.splits)

lemma prog_all_ask_now [simp]: "prog_all P (ask_now k) \<longleftrightarrow> (\<forall>t. prog_all P (k t))"
  by (simp add: ask_now_def)

lemma prog_all_require [simp]: "prog_all P (require r k) \<longleftrightarrow> (\<forall>x. r = Inr x \<longrightarrow> prog_all P (k x))"
  by (auto simp: require_def split: sum.splits)

lemma prog_all_finally [simp]:
  "prog_all P (finally_do e p) \<longleftrightarrow> P (A_tell e) \<and> prog_all P p"
proof (induction p)
  case (Load t k)
  have "loads t None" by (simp add: loads_def)
  with Load show ?case by auto
qed auto

lemma prog_all_after: "prog_all P p \<Longrightarrow> (\<And>r. prog_all P (f r)) \<Longrightarrow> prog_all P (after_do f p)"
  by (induction p) auto

lemma loads_simps [simp]: "loads tid None" "loads tid (Some r) \<longleftrightarrow> task_id r = tid"
  by (simp_all add: loads_def)

lemma loads_get_task: "loads tid (get_task tid tbl)"
  by (auto simp: loads_def get_task_def find_Some_iff split: option.splits)

lemma prog_all_mono:
  "prog_all P p \<Longrightarrow> (\<And>a. P a \<Longrightarrow> Q a) \<Longrightarrow> prog_all Q p"
  by (induction p) auto

end
