(* ===== verification/Handlers.thy ===== *)
theory Handlers
  imports Prog
begin

text \<open>
  \<open>tasks/handlers.py\<close>: the six handlers of the worker and the operations they share, as programs
  over the actions of \<open>Prog\<close>. Every call of the source that reads the clock, touches the database,
  the bus, the stores or the upstream is one action, in the order of the source; a function that
  \<open>await\<close>s is a function of its continuation \<open>k\<close>. The free text of audit records is left out.
\<close>

subsection \<open>Context\<close>

text \<open>
  What a handler reaches without an atomic action: the library, the settings, the template registry
  and channel policies of the process, whether a result store is configured, and the deadline clock
  of the expression sandbox.
\<close>

record henv =
  he_lib :: pylib
  he_settings :: settings
  he_setting_names :: "string list"
  he_registry :: registry
  he_policies :: policies
  he_result_store :: bool
  he_late :: "nat \<Rightarrow> bool"

definition MAX_TRANSFER_ATTEMPTS :: int where
  "MAX_TRANSFER_ATTEMPTS = 5"

definition POLL_404_CONFIRM_THRESHOLD :: int where
  "POLL_404_CONFIRM_THRESHOLD = 3"

text \<open>\<open>HandlerContext.task_id\<close>.\<close>

definition ctx_task_id :: "jobj \<Rightarrow> string res" where
  "ctx_task_id payload = (let v = field_or_null payload ''task_id'' in
     if truthy v then Inr (py_str v) else Inl (ValueError ''handler payload missing task_id''))"

definition enqueue :: "string \<Rightarrow> string \<Rightarrow> string \<Rightarrow> jobj \<Rightarrow> prog \<Rightarrow> prog" where
  "enqueue tid q name payload k = send q name (dict_update [(''task_id'', JStr tid)] payload) k"

text \<open>
  \<open>t + timedelta(seconds=d)\<close>: a time from the year 10000 on cannot be represented. Where a delay is the upstream's to
  choose, the sum is taken with this function; elsewhere the delays are bounded by settings.
\<close>

definition END_OF_TIME :: time where
  "END_OF_TIME = 253402300800"

definition plus_seconds :: "time \<Rightarrow> secs \<Rightarrow> time res" where
  "plus_seconds t d = (if t + d < END_OF_TIME then Inr (t + d) else Inl OverflowError)"

definition enqueue_self_later :: "string \<Rightarrow> secs \<Rightarrow> prog \<Rightarrow> prog" where
  "enqueue_self_later tid delay k =
     ask_now (\<lambda>n. require (plus_seconds n (max 0 delay)) (\<lambda>due.
       apply_write (W_schedule_next_poll tid due) (\<lambda>_. k)))"

definition task_template :: "henv \<Rightarrow> task \<Rightarrow> (resolved_template \<times> strategy) res" where
  "task_template E t =
     bind_res (registry_require (he_registry E) (template_alias t) (Some (template_version t)))
       (\<lambda>tv. Inr (tv_resolved tv,
          strategy_for (he_setting_names E) (he_policies E) (channel t) (tv_resolved tv)))"

definition note_attributes :: "string \<Rightarrow> jobj \<Rightarrow> (bool \<Rightarrow> prog) \<Rightarrow> prog" where
  "note_attributes tid attrs k = Load tid (\<lambda>r. case r of
       None \<Rightarrow> k False
     | Some t \<Rightarrow> apply_write (W_write_attributes tid (merged_attributes t attrs)) k)"

text \<open>\<open>float(v or 0.0)\<close> and \<open>int(v)\<close> on a JSON value.\<close>

definition json_number :: "pylib \<Rightarrow> json \<Rightarrow> rat res" where
  "json_number L v = (case v of
       JInt i \<Rightarrow> Inr (of_int i)
     | JBool b \<Rightarrow> Inr (if b then 1 else 0)
     | JFloat s \<Rightarrow> (case lib_float L s of Some x \<Rightarrow> Inr x | None \<Rightarrow> Inl (ValueError ''float''))
     | JStr s \<Rightarrow> (case lib_float L s of Some x \<Rightarrow> Inr x | None \<Rightarrow> Inl (ValueError ''float''))
     | _ \<Rightarrow> Inl (TypeError ''float''))"

definition used_extension :: "pylib \<Rightarrow> task \<Rightarrow> rat res" where
  "used_extension L t = (case dict_get (attributes_of t) ''deadline_extended_seconds'' of
       None \<Rightarrow> Inr 0
     | Some v \<Rightarrow> if truthy v then json_number L v else Inr 0)"

definition deadline_extension :: "pylib \<Rightarrow> task \<Rightarrow> secs \<Rightarrow> secs \<Rightarrow> secs res" where
  "deadline_extension L t want cap =
     bind_res (used_extension L t) (\<lambda>used. Inr (max 0 (min want (max 0 (cap - used)))))"

definition note_channel_healthy :: "henv \<Rightarrow> string \<Rightarrow> prog \<Rightarrow> prog" where
  "note_channel_healthy E chan k = Tell (E_decay_if_clean chan (aimd_quiet_seconds (he_settings E))) k"

definition extended_deadline :: "task \<Rightarrow> secs \<Rightarrow> time option res" where
  "extended_deadline t ext = (case deadline_at t of
       Some d \<Rightarrow> if ext > 0 then bind_res (plus_seconds d ext) (\<lambda>x. Inr (Some x)) else Inr None
     | None \<Rightarrow> Inr None)"

definition release_for_upstream_wait :: "henv \<Rightarrow> task \<Rightarrow> task_status list \<Rightarrow> secs \<Rightarrow> error_code
    \<Rightarrow> string option \<Rightarrow> bool \<Rightarrow> prog \<Rightarrow> prog" where
  "release_for_upstream_wait E t expected delay code msg decrement k =
     require (deadline_extension (he_lib E) t delay (deadline_extension_max_seconds (he_settings E))) (\<lambda>ext.
     require (extended_deadline t ext) (\<lambda>new_deadline.
     ask_now (\<lambda>n. require (plus_seconds n delay) (\<lambda>due.
       apply_write (W_release_submit_intent (task_id t) expected due decrement (Some code) msg
           (Some True) None new_deadline)
         (\<lambda>released.
           if released \<and> ext > 0 then
             require (used_extension (he_lib E) t) (\<lambda>used.
               note_attributes (task_id t)
                 [(''deadline_extended_seconds'', JFloat (lib_float_repr (he_lib E) (used + ext)))]
                 (\<lambda>_. k))
           else k)))))"

subsection \<open>Shared operations of TaskRuntime\<close>

definition elapsed_since_start :: "time \<Rightarrow> task \<Rightarrow> secs" where
  "elapsed_since_start n t =
     max 0 (n - (case started_at t of Some s \<Rightarrow> s | None \<Rightarrow> created_at t))"

definition terminal_sample :: "task \<Rightarrow> prog \<Rightarrow> prog" where
  "terminal_sample t k =
     ask_now (\<lambda>n. Tell (E_record_terminal (channel t) (elapsed_since_start n t)) k)"

definition transferable :: "henv \<Rightarrow> resolved_template \<Rightarrow> bool" where
  "transferable E tpl \<longleftrightarrow> rp_mode (rt_result_policy tpl) = RM_STORE \<and> he_result_store E"

definition finalize_success :: "henv \<Rightarrow> task \<Rightarrow> resolved_template \<Rightarrow> prog \<Rightarrow> prog" where
  "finalize_success E t tpl k =
     terminal_sample t
       (let rest = Tell (E_drop_credential (task_id t))
            (Tell (E_audit ''task.terminal'' ''task'' (task_id t)
               [(''status'', JStr (status_value SUCCEEDED)), (''alias'', JStr (template_alias t))]) k)
        in if transferable E tpl
           then enqueue (task_id t) TRANSFER_QUEUE ''store_result'' [(''attempt'', JInt 1)] rest
           else rest)"

definition finalize_terminal :: "task \<Rightarrow> task_status \<Rightarrow> prog \<Rightarrow> prog" where
  "finalize_terminal t st k =
     terminal_sample t
       (Tell (E_drop_credential (task_id t))
         (Tell (E_audit ''task.terminal'' ''task'' (task_id t) [(''status'', JStr (status_value st))]) k))"

definition load_create_body :: "task \<Rightarrow> (jobj res \<Rightarrow> prog) \<Rightarrow> prog" where
  "load_create_body t k = (case create_req_ref t of
       Some (c # r) \<Rightarrow> AskBody (c # r) k
     | _ \<Rightarrow> k (Inr []))"

definition or_empty :: "json option \<Rightarrow> json" where
  "or_empty v = (case v of Some j \<Rightarrow> if truthy j then j else JObj [] | None \<Rightarrow> JObj [])"

definition response_body :: "call_result \<Rightarrow> json option" where
  "response_body r = (case cr_response r of None \<Rightarrow> None | Some up \<Rightarrow> ur_json_body up)"

definition response_status :: "call_result \<Rightarrow> int option" where
  "response_status r = map_option ur_status_code (cr_response r)"

definition num_or :: "secs option \<Rightarrow> secs \<Rightarrow> secs" where
  "num_or x d = (case x of Some v \<Rightarrow> if v = 0 then d else v | None \<Rightarrow> d)"

definition max_attempts_for :: "strategy \<Rightarrow> task \<Rightarrow> int" where
  "max_attempts_for strat t = py_int (strategy_get strat ''max_attempts''
     (of_int (if max_attempts t = 0 then 1 else max_attempts t)))"

definition past_deadline :: "task \<Rightarrow> (bool \<Rightarrow> prog) \<Rightarrow> prog" where
  "past_deadline t k = (case deadline_at t of
       None \<Rightarrow> k False
     | Some d \<Rightarrow> ask_now (\<lambda>n. k (d \<le> n)))"

text \<open>\<open>advance\<close> to \<open>dead\<close> with the columns every such call of the module sets.\<close>

definition advance_dead :: "task \<Rightarrow> task_status list \<Rightarrow> error_code \<Rightarrow> string option \<Rightarrow> bool
    \<Rightarrow> (bool \<Rightarrow> prog) \<Rightarrow> prog" where
  "advance_dead t expected code msg retry k = ask_now (\<lambda>n.
     apply_write (W_advance (task_id t) DEAD (Some expected)
       [SetErrorCode (Some code), SetErrorMessage msg, SetRetryable (Some retry),
        SetFinishedAt (Some n), SetNextPollAt None]) k)"

subsection \<open>submit\_upstream\<close>

definition submit_ssrf_rejected :: "task \<Rightarrow> task_status list \<Rightarrow> call_result \<Rightarrow> prog" where
  "submit_ssrf_rejected t expected result =
     advance_dead t expected EC_UPSTREAM_TERMINAL (safe_error result) False
       (\<lambda>_. finalize_terminal t DEAD Done)"

definition store_create_response :: "henv \<Rightarrow> task \<Rightarrow> call_result \<Rightarrow> prog \<Rightarrow> prog" where
  "store_create_response E t result k = (case cr_response result of
       None \<Rightarrow> k
     | Some up \<Rightarrow> Tell (E_put_request (response_key (tenant t) (task_id t))
           (JObj [(''status'', JInt (ur_status_code up)),
                  (''body'', case ur_json_body up of None \<Rightarrow> JNull | Some b \<Rightarrow> b),
                  (''pending'', JBool False)])
           (response_ttl_seconds (he_settings E))) k)"

definition submit_succeeded :: "henv \<Rightarrow> task \<Rightarrow> resolved_template \<Rightarrow> call_result \<Rightarrow> prog" where
  "submit_succeeded E t tpl result =
     (let payload = or_empty (response_body result) in
      require (try_extract (he_late E) payload (rt_id_location tpl)) (\<lambda>found.
        case found of
          None \<Rightarrow>
            apply_write (W_enter_unknown (task_id t) EC_UPSTREAM_5XX
                (Some (''create succeeded but id not found at '' @ rt_id_location tpl)) [])
              (\<lambda>_. enqueue (task_id t) ''compensate:default'' ''compensate_orphan'' [] Done)
        | Some upstream_id \<Rightarrow>
            require (try_extract (he_late E) payload (rt_status_field tpl)) (\<lambda>raw.
            Ask (Q_next_interval (channel t) 0 True) (\<lambda>interval.
            ask_now (\<lambda>submitted_at.
            apply_write (W_mark_submitted (task_id t) (py_str upstream_id) (map_option py_str raw)
                None (submitted_at + interval))
              (\<lambda>hit. if \<not> hit then Done else
                note_attributes (task_id t)
                  [(''create_accepted_at'', JStr (lib_isoformat (he_lib E) submitted_at))]
                  (\<lambda>_. store_create_response E t result
                    (let rest = note_channel_healthy E (channel t)
                        (enqueue (task_id t) (poll_queue (rt_pool tpl)) ''poll_upstream'' [] Done)
                     in if cancel_requested t
                        then enqueue (task_id t) ''cancel:default'' ''cancel_upstream'' [] rest
                        else rest))))))))"

definition submit_rate_limited :: "henv \<Rightarrow> task \<Rightarrow> task_status list \<Rightarrow> error_code \<Rightarrow> call_result
    \<Rightarrow> prog" where
  "submit_rate_limited E t expected code result =
     Ask (Q_base_interval (channel t) 0 True) (\<lambda>base.
       Tell (E_note_rate_limited (channel t) (cr_retry_after result))
         (release_for_upstream_wait E t expected
            (num_or (cr_retry_after result) (min base (submit_retry_max_seconds (he_settings E))))
            code (safe_error result) True Done))"

definition submit_channel_fault :: "henv \<Rightarrow> task \<Rightarrow> task_status list \<Rightarrow> error_code \<Rightarrow> call_result
    \<Rightarrow> prog" where
  "submit_channel_fault E t expected code result =
     Tell (E_note_rate_limited (channel t) None)
       (Ask Q_random (\<lambda>rnd.
         release_for_upstream_wait E t expected (backoff_seconds (attempts t) 5 300 (1/5) rnd) code
           (safe_error result) True
           (note_attributes (task_id t) [(''channel_fault'', JBool True)]
             (\<lambda>_. Tell (E_audit ''governance.operation'' ''channel'' (channel t)
                [(''event'', JStr ''channel_fault''), (''task_id'', JStr (task_id t)),
                 (''error_code'', JStr (error_code_value code))]) Done))))"

definition submit_retry_safe :: "task \<Rightarrow> task_status list \<Rightarrow> strategy \<Rightarrow> error_code \<Rightarrow> call_result
    \<Rightarrow> prog" where
  "submit_retry_safe t expected strat code result =
     (if max_attempts_for strat t \<le> attempts t then
        advance_dead t expected code (safe_error result) True (\<lambda>_. finalize_terminal t DEAD Done)
      else ask_now (\<lambda>n. Ask Q_random (\<lambda>rnd.
        apply_write (W_release_submit_intent (task_id t) expected
            (n + backoff_seconds (attempts t) 1 60 (1/5) rnd) False (Some code) (safe_error result)
            (Some True) None None)
          (\<lambda>_. Done))))"

definition handle_submit_result :: "henv \<Rightarrow> task \<Rightarrow> resolved_template \<Rightarrow> strategy \<Rightarrow> call_result
    \<Rightarrow> prog" where
  "handle_submit_result E t tpl strat result =
     (let expected = [ACCEPTED, FAILED] in
      if cr_outcome result = O_SSRF_REJECTED then submit_ssrf_rejected t expected result
      else if cr_ok result then submit_succeeded E t tpl result
      else (case cr_class result of
          None \<Rightarrow> Fail AssertionError
        | Some c \<Rightarrow> (let code = cl_error_code c in
            if cl_error_class c = CLS_RATE_LIMITED then submit_rate_limited E t expected code result
            else if cl_channel_fault c then submit_channel_fault E t expected code result
            else if cl_error_class c = CLS_FAIL_FAST then
              advance_dead t expected code (safe_error result) False (\<lambda>_. finalize_terminal t DEAD Done)
            else if is_unknown c then
              apply_write (W_enter_unknown (task_id t) code (safe_error result) [])
                (\<lambda>_. enqueue (task_id t) ''compensate:default'' ''compensate_orphan'' [] Done)
            else submit_retry_safe t expected strat code result)))"

definition callback_url_for :: "henv \<Rightarrow> task \<Rightarrow> resolved_template \<Rightarrow> string option" where
  "callback_url_for E t tpl =
     (if cap_callback (rt_capabilities tpl)
      then (case callback_token t of
          Some (c # tok) \<Rightarrow> Some (rstrip_char (CHR ''/'') (callback_base_url (he_settings E))
             @ ''/callbacks/'' @ c # tok)
        | _ \<Rightarrow> None)
      else None)"

text \<open>The part between the slot and its release: intent, body, request, call, result.\<close>

definition submit_with_slot :: "henv \<Rightarrow> task \<Rightarrow> resolved_template \<Rightarrow> strategy \<Rightarrow> string option \<Rightarrow> prog" where
  "submit_with_slot E t tpl strat bearer =
     apply_write (W_mark_submit_intent (task_id t)) (\<lambda>won.
       if \<not> won then Done
       else load_create_body t (\<lambda>body. case body of
           Inl (RequestDataNotFound m) \<Rightarrow>
             advance_dead t [status t] EC_REQUEST_LOST
               (Some ''create request body missing in request store'') False
               (\<lambda>moved. if moved then finalize_terminal t DEAD Done else Done)
         | Inl e \<Rightarrow> Fail e
         | Inr b \<Rightarrow>
             require (render_create tpl b (callback_url_for E t tpl)) (\<lambda>request.
             Http (task_id t) request CTX_SUBMIT bearer (\<lambda>result.
               require result (handle_submit_result E t tpl strat)))))"

definition submit_admitted :: "henv \<Rightarrow> task \<Rightarrow> resolved_template \<Rightarrow> strategy \<Rightarrow> prog" where
  "submit_admitted E t tpl strat = AskCred (task_id t) (\<lambda>bearer.
     if \<not> some_truthy bearer then
       advance_dead t [status t] EC_UPSTREAM_4XX
         (Some ''upstream credential unavailable (expired or not retained)'') False
         (\<lambda>_. finalize_terminal t DEAD Done)
     else (case channel_limits (he_settings E) (he_policies E) (channel t) of (cl, tn) \<Rightarrow>
       Acquire (channel t) (tenant t) cl tn (\<lambda>d.
         if \<not> sd_granted d then enqueue_self_later (task_id t) (num_or (sd_retry_after d) 1) Done
         else finally_do (E_release (channel t) (tenant t)) (submit_with_slot E t tpl strat bearer))))"

definition submit_upstream :: "henv \<Rightarrow> jobj \<Rightarrow> prog" where
  "submit_upstream E payload = require (ctx_task_id payload) (\<lambda>tid. Load tid (\<lambda>row. case row of
       None \<Rightarrow> Done
     | Some t \<Rightarrow>
         if is_business_terminal (status t) then Done
         else if status t \<noteq> ACCEPTED \<and> status t \<noteq> FAILED then Done
         else require (task_template E t) (\<lambda>(tpl, strat).
           past_deadline t (\<lambda>late.
             if late then
               apply_write (W_advance (task_id t) TIMEOUT (Some [status t])
                   [SetErrorCode (Some EC_TIMEOUT), SetErrorMessage (Some ''deadline exceeded before submit'')])
                 (\<lambda>moved. if moved then finalize_terminal t TIMEOUT Done else Done)
             else if cancel_requested t then
               apply_write (W_advance (task_id t) CANCELLED (Some [status t]) [])
                 (\<lambda>moved. if moved then finalize_terminal t CANCELLED Done else Done)
             else submit_admitted E t tpl strat))))"

subsection \<open>poll\_upstream\<close>

definition reschedule :: "task \<Rightarrow> secs \<Rightarrow> secs option \<Rightarrow> prog \<Rightarrow> prog" where
  "reschedule t elapsed seconds k =
     (let go = (\<lambda>interval. ask_now (\<lambda>n.
          apply_write (W_schedule_next_poll (task_id t) (n + interval)) (\<lambda>_. k)))
      in if num_or seconds 0 \<noteq> 0 then go (num_or seconds 0)
         else Ask (Q_next_interval (channel t) elapsed False) go)"

definition snapshot_with_status :: "json option \<Rightarrow> resolved_template \<Rightarrow> string \<Rightarrow> json option res" where
  "snapshot_with_status body tpl native = (case body of
       Some (JObj d) \<Rightarrow> bind_res (write_or_skip (JObj d) (rt_status_field tpl) (JStr native)) (\<lambda>x. Inr (Some x))
     | _ \<Rightarrow> Inr body)"

definition restore_raw_result_field :: "henv \<Rightarrow> json option \<Rightarrow> resolved_template \<Rightarrow> call_result
    \<Rightarrow> json option res" where
  "restore_raw_result_field E snapshot tpl result =
     (case (snapshot, cr_response result) of
        (Some (JObj d), Some up) \<Rightarrow>
          (case ur_raw_json_body up of
             Some (JObj raw) \<Rightarrow>
               if rt_result_location tpl = [] then Inr snapshot
               else bind_res (try_extract (he_late E) (JObj raw) (rt_result_location tpl)) (\<lambda>found.
                 case found of
                   None \<Rightarrow> Inr snapshot
                 | Some JNull \<Rightarrow> Inr snapshot
                 | Some v \<Rightarrow> bind_res (write_or_skip (JObj d) (rt_result_location tpl) v) (\<lambda>x. Inr (Some x)))
           | _ \<Rightarrow> Inr snapshot)
      | _ \<Rightarrow> Inr snapshot)"

definition enter_poll_unrecognized :: "task \<Rightarrow> call_result \<Rightarrow> string \<Rightarrow> prog" where
  "enter_poll_unrecognized t result reason =
     (let body = response_body result in
      if status t = POLL_UNRECOGNIZED then
        ask_now (\<lambda>n. apply_write (W_record_poll_result (task_id t) body None (Some (n + 30)) [status t]) (\<lambda>_. Done))
      else ask_now (\<lambda>n1. ask_now (\<lambda>n2. ask_now (\<lambda>n3.
        apply_write (W_advance (task_id t) POLL_UNRECOGNIZED (Some [status t])
            [SetSnapshot body, SetSnapshotAt (Some n1), SetRawStatus None,
             SetErrorCode (Some EC_UNKNOWN_EXHAUSTED), SetErrorMessage (Some (take 500 reason)),
             SetUnknownSince (Some n2), SetNextPollAt (Some (n3 + 30))])
          (\<lambda>_. Tell (E_audit ''governance.operation'' ''task'' (task_id t)
             [(''event'', JStr ''poll_unrecognized''), (''reason'', JStr reason),
              (''alias'', JStr (template_alias t))]) Done)))))"

definition poll_failed_call :: "task \<Rightarrow> secs \<Rightarrow> pylib \<Rightarrow> call_result \<Rightarrow> prog" where
  "poll_failed_call t elapsed L result =
     (let expected = [status t] in
      if cr_outcome result = O_SSRF_REJECTED then submit_ssrf_rejected t expected result
      else (case cr_class result of
          None \<Rightarrow> reschedule t elapsed None Done
        | Some c \<Rightarrow> (let code = cl_error_code c in
            if cl_error_class c = CLS_RATE_LIMITED then
              Tell (E_note_rate_limited (channel t) (cr_retry_after result)) (ask_now (\<lambda>n.
                require (plus_seconds n (num_or (cr_retry_after result) 5)) (\<lambda>due.
                  apply_write (W_mark_failure (task_id t) expected code (safe_error result) True (Some due) None)
                    (\<lambda>_. Done))))
            else if cl_channel_fault c then
              Tell (E_note_rate_limited (channel t) None)
                (Tell (E_audit ''governance.operation'' ''channel'' (channel t)
                    [(''event'', JStr ''channel_fault''), (''task_id'', JStr (task_id t)),
                     (''phase'', JStr ''poll'')])
                  (Ask Q_random (\<lambda>rnd.
                    reschedule t elapsed (Some (backoff_seconds (poll_count t + 1) 5 300 (1/5) rnd)) Done)))
            else if cl_action c = ACT_CONFIRM then
              require (case dict_get (attributes_of t) ''poll_404_count'' of
                         None \<Rightarrow> Inr 0 | Some v \<Rightarrow> json_number L v) (\<lambda>seen.
                let count = py_int seen + 1 in
                if response_status result = Some 404 \<and> count < POLL_404_CONFIRM_THRESHOLD then
                  note_attributes (task_id t) [(''poll_404_count'', JInt count)] (\<lambda>_.
                    Ask Q_random (\<lambda>rnd.
                      reschedule t elapsed (Some (backoff_seconds count 5 60 (1/5) rnd)) Done))
                else ask_now (\<lambda>n1. ask_now (\<lambda>n2.
                  apply_write (W_advance (task_id t) SUBMIT_UNKNOWN (Some expected)
                      [SetErrorCode (Some code), SetErrorMessage (safe_error result),
                       SetUnknownSince (Some n1), SetNextPollAt (Some n2)])
                    (\<lambda>_. enqueue (task_id t) ''compensate:default'' ''compensate_orphan'' [] Done))))
            else
              apply_write (W_mark_failure (task_id t) expected code (safe_error result) True None None)
                (\<lambda>_. reschedule t elapsed None Done))))"

definition poll_still_running :: "task \<Rightarrow> secs \<Rightarrow> json option \<Rightarrow> string \<Rightarrow> prog" where
  "poll_still_running t elapsed snapshot native =
     Ask (Q_next_interval (channel t) elapsed False) (\<lambda>interval. ask_now (\<lambda>n.
       apply_write (W_record_poll_result (task_id t) snapshot (Some native) (Some (n + interval)) [status t])
         (\<lambda>_. if status t \<noteq> IN_PROGRESS
              then apply_write (W_advance (task_id t) IN_PROGRESS (Some [status t]) [SetUnknownSince None])
                (\<lambda>_. Done)
              else Done)))"

definition poll_succeeded :: "henv \<Rightarrow> task \<Rightarrow> resolved_template \<Rightarrow> json option \<Rightarrow> string \<Rightarrow> call_result
    \<Rightarrow> prog" where
  "poll_succeeded E t tpl snapshot native result =
     require (restore_raw_result_field E snapshot tpl result) (\<lambda>snap.
     ask_now (\<lambda>n1. ask_now (\<lambda>n2. ask_now (\<lambda>n3.
       apply_write (W_advance (task_id t) SUCCEEDED (Some [status t])
           [SetRawStatus (Some native), SetSnapshot snap, SetSnapshotAt (Some n1),
            SetPollCount (poll_count t + 1), SetLastPolledAt (Some n2), SetNextPollAt None,
            SetFinishedAt (Some n3), SetErrorCode None, SetErrorMessage None])
         (\<lambda>moved. if moved then finalize_success E t tpl Done else Done)))))"

definition poll_timed_out :: "task \<Rightarrow> json option \<Rightarrow> string \<Rightarrow> prog" where
  "poll_timed_out t snapshot native = ask_now (\<lambda>n.
     apply_write (W_advance (task_id t) TIMEOUT (Some [status t])
         [SetRawStatus (Some native), SetSnapshot snapshot, SetErrorCode (Some EC_TIMEOUT),
          SetErrorMessage (Some (''upstream reported '' @ native)), SetFinishedAt (Some n),
          SetNextPollAt None])
       (\<lambda>moved. if moved then finalize_terminal t TIMEOUT Done else Done))"

definition poll_failed_upstream :: "task \<Rightarrow> strategy \<Rightarrow> json option \<Rightarrow> string \<Rightarrow> prog" where
  "poll_failed_upstream t strat snapshot native =
     (let cap = max_attempts_for strat t in
      if attempts t < cap then
        ask_now (\<lambda>n1. ask_now (\<lambda>n2. Ask Q_random (\<lambda>rnd.
          apply_write (W_advance (task_id t) FAILED (Some [status t])
              [SetRawStatus (Some native), SetSnapshot snapshot, SetSnapshotAt (Some n1),
               SetErrorCode (Some EC_UPSTREAM_TERMINAL),
               SetErrorMessage (Some (''upstream reported '' @ native)), SetRetryable (Some True),
               SetNextPollAt (Some (n2 + backoff_seconds (attempts t) 1 60 (1/5) rnd))])
            (\<lambda>moved. if moved then
               Tell (E_audit ''governance.operation'' ''task'' (task_id t)
                 [(''event'', JStr ''task_level_retry''), (''attempts'', JInt (attempts t)),
                  (''max'', JInt cap)]) Done
             else Done))))
      else ask_now (\<lambda>n.
        apply_write (W_advance (task_id t) DEAD (Some [status t])
            [SetRawStatus (Some native), SetSnapshot snapshot, SetErrorCode (Some EC_UPSTREAM_TERMINAL),
             SetErrorMessage (Some (''upstream reported '' @ native @ ''; retries exhausted'')),
             SetRetryable (Some True), SetFinishedAt (Some n), SetNextPollAt None])
          (\<lambda>moved. if moved then finalize_terminal t DEAD Done else Done)))"

definition handle_poll_result :: "henv \<Rightarrow> task \<Rightarrow> resolved_template \<Rightarrow> strategy \<Rightarrow> call_result
    \<Rightarrow> prog" where
  "handle_poll_result E t tpl strat result = ask_now (\<lambda>n0.
     let elapsed = elapsed_since_start n0 t in
     if \<not> cr_ok result then poll_failed_call t elapsed (he_lib E) result
     else note_channel_healthy E (channel t)
       (let body = response_body result in
        require (try_extract (he_late E) (or_empty body) (rt_status_field tpl)) (\<lambda>found.
          case found of
            None \<Rightarrow> enter_poll_unrecognized t result ''status field not extractable''
          | Some raw \<Rightarrow> (let native = py_str raw in
              require (snapshot_with_status body tpl native) (\<lambda>snapshot.
                case maps_status tpl native of
                  None \<Rightarrow> poll_still_running t elapsed snapshot native
                | Some m \<Rightarrow>
                    if m = SUCCEEDED then poll_succeeded E t tpl snapshot native result
                    else if m = TIMEOUT then poll_timed_out t snapshot native
                    else poll_failed_upstream t strat snapshot native)))))"

text \<open>One poll; the client it makes is its own and is closed whatever happens.\<close>

definition poll_once :: "task \<Rightarrow> resolved_template \<Rightarrow> string option \<Rightarrow> (call_result res \<Rightarrow> prog) \<Rightarrow> prog" where
  poll_once_def [simp]: "poll_once t tpl bearer k =
     require (render_get tpl (case upstream_task_id t of Some u \<Rightarrow> u | None \<Rightarrow> [])) (\<lambda>request.
       Http (task_id t) request CTX_POLL bearer k)"

definition poll_with_slot :: "henv \<Rightarrow> task \<Rightarrow> resolved_template \<Rightarrow> strategy \<Rightarrow> string option \<Rightarrow> prog" where
  "poll_with_slot E t tpl strat bearer =
     poll_once t tpl bearer (\<lambda>result. require result (handle_poll_result E t tpl strat))"

definition POLLABLE :: "task_status list" where
  "POLLABLE = [UPSTREAM_SUBMITTED, IN_PROGRESS, POLL_UNRECOGNIZED]"

definition poll_upstream :: "henv \<Rightarrow> jobj \<Rightarrow> prog" where
  "poll_upstream E payload = require (ctx_task_id payload) (\<lambda>tid. Load tid (\<lambda>row. case row of
       None \<Rightarrow> Done
     | Some t \<Rightarrow>
         if is_business_terminal (status t) then Done
         else if status t = SUBMIT_UNKNOWN
           then enqueue tid ''compensate:default'' ''compensate_orphan'' [] Done
         else if status t \<notin> set POLLABLE then Done
         else require (task_template E t) (\<lambda>(tpl, strat).
           past_deadline t (\<lambda>late.
             if late then ask_now (\<lambda>n.
               apply_write (W_advance (task_id t) TIMEOUT (Some [status t])
                   [SetErrorCode (Some EC_TIMEOUT), SetErrorMessage (Some ''deadline exceeded''),
                    SetFinishedAt (Some n), SetNextPollAt None])
                 (\<lambda>moved. if moved then finalize_terminal t TIMEOUT Done else Done))
             else Ask (Q_paused_for (channel t)) (\<lambda>paused.
               if paused > 0 then enqueue_self_later tid (paused + 1/2) Done
               else if \<not> some_truthy (upstream_task_id t) then
                 ask_now (\<lambda>n1. ask_now (\<lambda>n2.
                   apply_write (W_advance (task_id t) SUBMIT_UNKNOWN (Some [status t])
                       [SetErrorCode (Some EC_UPSTREAM_TERMINAL),
                        SetErrorMessage (Some ''poll scheduled without upstream_task_id''),
                        SetUnknownSince (Some n1), SetNextPollAt (Some n2)])
                     (\<lambda>_. Done)))
               else AskCred (task_id t) (\<lambda>bearer.
                 case channel_limits (he_settings E) (he_policies E) (channel t) of (cl, tn) \<Rightarrow>
                 Acquire (channel t) (tenant t) cl tn (\<lambda>d.
                   if \<not> sd_granted d then enqueue_self_later tid (num_or (sd_retry_after d) 1) Done
                   else finally_do (E_release (channel t) (tenant t))
                     (poll_with_slot E t tpl strat bearer))))))))"

subsection \<open>compensate\_orphan\<close>

definition close_for_review :: "task \<Rightarrow> error_code \<Rightarrow> string \<Rightarrow> prog" where
  "close_for_review t code msg =
     apply_write (W_advance (task_id t) DEAD_AWAITING_CONFIRM (Some [SUBMIT_UNKNOWN])
         [SetErrorCode (Some code), SetErrorMessage (Some msg), SetNextPollAt None])
       (\<lambda>moved. if moved then finalize_terminal t DEAD_AWAITING_CONFIRM Done else Done)"

text \<open>
  \<open>_confirm\<close>: whether a conclusion was reached, the upstream id if the task exists, and a note. The
  client key is put into the path by a plain \<open>replace\<close>.
\<close>

definition confirm :: "henv \<Rightarrow> task \<Rightarrow> resolved_template \<Rightarrow> string option
    \<Rightarrow> (bool \<Rightarrow> string option \<Rightarrow> string \<Rightarrow> prog) \<Rightarrow> prog" where
  "confirm E t tpl bearer k =
     (let caps = rt_capabilities tpl in
      if cap_confirm_strategy caps = CS_QUERY_BY_CLIENT_KEY \<and> some_truthy (create_req_digest t) then
        require (join_url (rt_base_url tpl)
            (str_replace ID_PLACEHOLDER (the (create_req_digest t)) (rt_get_path_template tpl))) (\<lambda>url.
          Http (task_id t) \<lparr>rr_method = rt_get_method tpl, rr_url = url,
                rr_headers = [(''Accept'', ''application/json'')], rr_json_body = None\<rparr> CTX_POLL bearer
            (\<lambda>answer. require answer (\<lambda>result.
              let inconclusive =
                (if response_status result = Some 404 \<or> response_status result = Some 400
                 then k True None ''confirmed not created via query_by_client_key''
                 else k False None ''confirmation inconclusive (query_by_client_key)'')
              in (case response_body result of
                   Some (JObj d) \<Rightarrow>
                     if cr_ok result then
                       require (try_extract (he_late E) (JObj d) (rt_id_location tpl)) (\<lambda>found.
                         case found of
                           Some v \<Rightarrow> k True (Some (py_str v)) ''confirmed created via query_by_client_key''
                         | None \<Rightarrow> inconclusive)
                     else inconclusive
                 | _ \<Rightarrow> inconclusive))))
      else if cap_confirm_strategy caps = CS_LIST_AND_MATCH \<and> cap_list_tasks caps then
        k False None ''list_and_match not implemented in this milestone (requires list endpoint mapping)''
      else k False None ''no usable confirmation strategy'')"

definition act_on_confirmation :: "henv \<Rightarrow> task \<Rightarrow> resolved_template \<Rightarrow> bool \<Rightarrow> string option \<Rightarrow> string
    \<Rightarrow> prog" where
  "act_on_confirmation E t tpl confirmed uid detail =
     (if confirmed \<and> some_truthy uid then
        ask_now (\<lambda>n. apply_write (W_relocate_compensate (task_id t) uid UPSTREAM_SUBMITTED None None
              (Some (n + 1)) (Some detail))
          (\<lambda>_. enqueue (task_id t) (poll_queue (rt_pool tpl)) ''poll_upstream'' [] Done))
      else if confirmed then
        ask_now (\<lambda>n. apply_write (W_advance (task_id t) ACCEPTED (Some [SUBMIT_UNKNOWN])
              [SetSubmitStartedAt None, SetUnknownSince None, SetNextPollAt (Some n),
               SetErrorCode None, SetErrorMessage None])
          (\<lambda>moved. if moved then
             enqueue (task_id t) ''submit:default'' ''submit_upstream'' [(''recreated'', JBool True)] Done
           else Done))
      else Ask Q_random (\<lambda>rnd. ask_now (\<lambda>n.
        apply_write (W_relocate_compensate (task_id t) None SUBMIT_UNKNOWN None None
              (Some (n + backoff_seconds (confirm_attempts t + 1) 10 300 (1/5) rnd)) (Some detail))
          (\<lambda>_. Done))))"

definition compensate_undecided :: "henv \<Rightarrow> task \<Rightarrow> resolved_template \<Rightarrow> strategy \<Rightarrow> prog" where
  "compensate_undecided E t tpl strat = ask_now (\<lambda>n.
     if n - (case unknown_since t of Some u \<Rightarrow> u | None \<Rightarrow> updated_at t)
          \<ge> of_int (py_int (strategy_get strat ''unknown_max_lifetime_seconds'' 3600)) then
       close_for_review t EC_UNKNOWN_EXHAUSTED ''unknown lifetime exceeded; awaiting human confirmation''
     else if \<not> confirm_auto_allowed (rt_capabilities tpl) then
       close_for_review t EC_UNKNOWN_EXHAUSTED
         ''confirm_strategy=manual_only: never auto re-create; awaiting human confirmation''
     else AskCred (task_id t) (\<lambda>bearer. confirm E t tpl bearer (act_on_confirmation E t tpl)))"

definition compensate_orphan :: "henv \<Rightarrow> jobj \<Rightarrow> prog" where
  "compensate_orphan E payload = require (ctx_task_id payload) (\<lambda>tid. Load tid (\<lambda>row. case row of
       None \<Rightarrow> Done
     | Some t \<Rightarrow>
         if is_business_terminal (status t) then Done
         else if status t \<noteq> SUBMIT_UNKNOWN then Done
         else require (task_template E t) (\<lambda>(tpl, strat).
           if cancel_requested t then
             close_for_review t EC_CANCELLED
               ''cancel_requested while task was in submit_unknown; closed for human review''
           else if some_truthy (upstream_task_id t) then
             ask_now (\<lambda>n. apply_write (W_relocate_compensate (task_id t) (upstream_task_id t)
                   UPSTREAM_SUBMITTED None None (Some n)
                   (Some ''already created; resume polling (no re-create allowed)''))
               (\<lambda>moved. if moved
                 then enqueue tid (poll_queue (rt_pool tpl)) ''poll_upstream'' [] Done else Done))
           else compensate_undecided E t tpl strat)))"

subsection \<open>cancel\_upstream\<close>

definition cancel_degraded :: "task \<Rightarrow> prog" where
  "cancel_degraded t = note_attributes (task_id t) [(''cancel_degraded'', JBool True)] (\<lambda>_.
     if status t = ACCEPTED then ask_now (\<lambda>n.
       apply_write (W_advance (task_id t) CANCELLED (Some [ACCEPTED])
           [SetErrorCode (Some EC_CANCELLED), SetFinishedAt (Some n)])
         (\<lambda>_. finalize_terminal t CANCELLED Done))
     else enqueue_self_later (task_id t) 5 Done)"

definition cancel_answered :: "task \<Rightarrow> call_result \<Rightarrow> prog" where
  "cancel_answered t result =
     (if cr_ok result \<or> response_status result = Some 404 \<or> response_status result = Some 409 then
        ask_now (\<lambda>n. apply_write (W_advance (task_id t) CANCELLED (Some [status t])
            [SetRawStatus (Some ''cancelled''), SetErrorCode (Some EC_CANCELLED),
             SetFinishedAt (Some n), SetNextPollAt None])
          (\<lambda>moved. if moved then finalize_terminal t CANCELLED Done else Done))
      else note_attributes (task_id t) [(''cancel_degraded'', JBool True)] (\<lambda>_.
        Ask Q_random (\<lambda>rnd.
          enqueue_self_later (task_id t) (backoff_seconds (poll_count t + 1) 5 60 (1/5) rnd) Done)))"

definition cancel_upstream :: "henv \<Rightarrow> jobj \<Rightarrow> prog" where
  "cancel_upstream E payload = require (ctx_task_id payload) (\<lambda>tid. Load tid (\<lambda>row. case row of
       None \<Rightarrow> Done
     | Some t \<Rightarrow>
         if is_business_terminal (status t) then Done
         else require (task_template E t) (\<lambda>(tpl, strat).
           if \<not> cap_cancel (rt_capabilities tpl) then cancel_degraded t
           else if \<not> some_truthy (upstream_task_id t) then ask_now (\<lambda>n.
             apply_write (W_advance (task_id t) CANCELLED (Some [ACCEPTED])
                 [SetErrorCode (Some EC_CANCELLED), SetFinishedAt (Some n)])
               (\<lambda>moved. if moved then finalize_terminal t CANCELLED Done else Done))
           else AskCred (task_id t) (\<lambda>bearer.
             require (render_cancel tpl (the (upstream_task_id t))) (\<lambda>request.
             Http (task_id t) request CTX_CANCEL bearer (\<lambda>result. require result (cancel_answered t)))))))"

subsection \<open>finalize\_task and store\_result\<close>

definition finalize_task :: "henv \<Rightarrow> jobj \<Rightarrow> prog" where
  "finalize_task E payload = require (ctx_task_id payload) (\<lambda>tid. Load tid (\<lambda>row. case row of
       None \<Rightarrow> Done
     | Some t \<Rightarrow>
         if \<not> is_business_terminal (status t) then Done
         else require (task_template E t) (\<lambda>(tpl, strat).
           let rest = Tell (E_drop_credential (task_id t)) Done in
           if status t = SUCCEEDED \<and> transferable E tpl \<and> result_ref t = None
           then enqueue tid TRANSFER_QUEUE ''store_result'' [(''attempt'', JInt 1)] rest
           else rest)))"

definition transfer_failed_audit :: "task \<Rightarrow> jobj \<Rightarrow> prog" where
  "transfer_failed_audit t refs = Tell (E_audit ''governance.operation'' ''task'' (task_id t)
     ((''event'', JStr ''transfer_failed'') # refs)) Done"

definition transfer_error :: "task \<Rightarrow> int \<Rightarrow> string \<Rightarrow> prog" where
  "transfer_error t attempt detail =
     (let retryable = \<not> (starts_with ''ssrf_rejected'' detail \<or> starts_with ''result too large'' detail) in
      if retryable \<and> attempt < MAX_TRANSFER_ATTEMPTS then
        Ask Q_random (\<lambda>rnd. ask_now (\<lambda>n.
          apply_write (W_schedule_transfer_retry (task_id t)
              (n + backoff_seconds attempt 5 120 (1/5) rnd) attempt) (\<lambda>_. Done)))
      else apply_write (W_mark_result_unavailable (task_id t) detail) (\<lambda>_.
        transfer_failed_audit t [(''attempt'', JInt attempt), (''reason'', JStr (take 200 detail))]))"

definition transfer_done :: "henv \<Rightarrow> task \<Rightarrow> string \<Rightarrow> prog" where
  "transfer_done E t content =
     (let key = result_key (he_lib E) (tenant t) (task_id t) (created_at t) 1 ''bin'' in
      Tell (E_put_object key content)
        (apply_write (W_set_result_ref (task_id t) key
            (Some [(''bytes'', JInt (int (length content)))]) None)
          (\<lambda>moved. if moved then
             Tell (E_audit ''result.export'' ''task'' (task_id t)
               [(''result_ref'', JStr key), (''bytes'', JInt (int (length content)))]) Done
           else Done)))"

definition payload_attempt :: "pylib \<Rightarrow> jobj \<Rightarrow> int res" where
  "payload_attempt L payload = (case dict_get payload ''attempt'' of
       None \<Rightarrow> Inr 1
     | Some v \<Rightarrow> bind_res (json_number L v) (\<lambda>x. Inr (py_int x)))"

definition store_result :: "henv \<Rightarrow> jobj \<Rightarrow> prog" where
  "store_result E payload = require (ctx_task_id payload) (\<lambda>tid. Load tid (\<lambda>row. case row of
       None \<Rightarrow> Done
     | Some t \<Rightarrow>
         if status t \<noteq> SUCCEEDED then Done
         else if result_ref t \<noteq> None then Done
         else if \<not> he_result_store E then Done
         else require (task_template E t) (\<lambda>(tpl, strat).
           if rp_mode (rt_result_policy tpl) \<noteq> RM_STORE then Done
           else require (payload_attempt (he_lib E) payload) (\<lambda>attempt.
             require (try_extract (he_late E) (or_empty (status_snapshot t)) (rt_result_location tpl)) (\<lambda>found.
               case found of
                 Some (JStr url) \<Rightarrow> AskCred (task_id t) (\<lambda>bearer.
                   Fetch url (\<lambda>answer. require answer (\<lambda>r. case r of
                       Inl detail \<Rightarrow> transfer_error t attempt detail
                     | Inr content \<Rightarrow> transfer_done E t content)))
               | _ \<Rightarrow> apply_write (W_mark_result_unavailable (task_id t)
                       (''result url not extractable at '' @ rt_result_location tpl)) (\<lambda>_.
                     transfer_failed_audit t [(''reason'', JStr ''url_not_extractable'')]))))))"

subsection \<open>Dispatch\<close>

definition HANDLERS :: "string \<Rightarrow> (henv \<Rightarrow> jobj \<Rightarrow> prog) option" where
  "HANDLERS name =
     (if name = ''submit_upstream'' then Some submit_upstream
      else if name = ''poll_upstream'' then Some poll_upstream
      else if name = ''finalize_task'' then Some finalize_task
      else if name = ''cancel_upstream'' then Some cancel_upstream
      else if name = ''compensate_orphan'' then Some compensate_orphan
      else if name = ''store_result'' then Some store_result
      else None)"

definition dispatch_message :: "henv \<Rightarrow> string \<Rightarrow> jobj \<Rightarrow> prog" where
  "dispatch_message E name payload = (case HANDLERS name of
       None \<Rightarrow> Fail (KeyError (''unknown task name: '' @ name))
     | Some h \<Rightarrow> h E payload)"

subsection \<open>A concrete environment\<close>

definition sample_version :: template_version where
  "sample_version = \<lparr>tv_alias = ''tpl'', tv_namespace = ''ns'', tv_version = 1, tv_enabled = True,
     tv_resolved = sample_template, tv_raw = [], tv_patch_ids = [], tv_canary_weight = 1\<rparr>"

definition sample_env :: henv where
  "sample_env = \<lparr>he_lib = sample_lib, he_settings = default_settings, he_setting_names = [],
     he_registry = [(''tpl'', [sample_version])], he_policies = [], he_result_store = False,
     he_late = (\<lambda>_. False)\<rparr>"

end
