(* ===== verification/Loads.thy ===== *)
theory Loads
  imports Json
begin

text \<open>
  \<open>json.loads\<close>, the reader of the texts \<open>json.dumps\<close> writes: the scanner of Python's \<open>json\<close> package over the texts of the model,
  and the round trip of the two. A number with a fraction or an exponent becomes a float, and \<open>canon t\<close> is \<open>repr(float(t))\<close>.
  An escape of a code point from 256 on is outside the strings of the model and read as an error; the limits Python puts on
  nesting and on the digits of an integer are not modelled.
\<close>

definition json_space :: "char \<Rightarrow> bool" where
  "json_space c \<longleftrightarrow> c = CHR '' '' \<or> (let n = (of_char c :: nat) in n = 9 \<or> n = 10 \<or> n = 13)"

definition skip_space :: "string \<Rightarrow> string" where
  "skip_space s = dropWhile json_space s"

definition hex_value :: "char \<Rightarrow> nat option" where
  "hex_value c = (let n = (of_char c :: nat) in
     if 48 \<le> n \<and> n \<le> 57 then Some (n - 48) else if 65 \<le> n \<and> n \<le> 70 then Some (n - 55)
     else if 97 \<le> n \<and> n \<le> 102 then Some (n - 87) else None)"

definition hex4_char :: "char \<Rightarrow> char \<Rightarrow> char \<Rightarrow> char \<Rightarrow> char option" where
  "hex4_char a b c d = (if hex_value a = Some 0 \<and> hex_value b = Some 0 then
       (case (hex_value c, hex_value d) of (Some x, Some y) \<Rightarrow> Some (char_of (16 * x + y)) | _ \<Rightarrow> None)
     else None)"

definition simple_escape :: "char \<Rightarrow> char option" where
  "simple_escape c =
     (if c = CHR 0x22 \<or> c = CHR 0x5C \<or> c = CHR ''/'' then Some c
      else if c = CHR ''b'' then Some (CHR 0x08) else if c = CHR ''f'' then Some (CHR 0x0C)
      else if c = CHR ''n'' then Some (CHR 0x0A) else if c = CHR ''r'' then Some (CHR 0x0D)
      else if c = CHR ''t'' then Some (CHR 0x09) else None)"

definition add_char :: "char option \<Rightarrow> (string \<times> string) option \<Rightarrow> (string \<times> string) option" where
  "add_char c r = (case (c, r) of (Some x, Some (s, rest)) \<Rightarrow> Some (x # s, rest) | _ \<Rightarrow> None)"

text \<open>The rest of a string after its opening quote, with what follows the closing one.\<close>

fun scan_string :: "string \<Rightarrow> (string \<times> string) option" where
  "scan_string [] = None"
| "scan_string (c # s) =
     (if c = CHR 0x22 then Some ([], s)
      else if c = CHR 0x5C then (case s of
          [] \<Rightarrow> None
        | e # r \<Rightarrow> if e = CHR ''u'' then (case r of
              w # x # y # z # r' \<Rightarrow> add_char (hex4_char w x y z) (scan_string r')
            | _ \<Rightarrow> None)
          else add_char (simple_escape e) (scan_string r))
      else if (of_char c :: nat) < 32 then None
      else add_char (Some c) (scan_string s))"

text \<open>The longest numeral at the start of a text: its integer part, fraction and exponent.\<close>

definition scan_whole :: "string \<Rightarrow> (string \<times> string) option" where
  "scan_whole s = (case s of
       [] \<Rightarrow> None
     | d # r \<Rightarrow> if d = CHR ''0'' then Some ([d], r)
         else if py_digit d then Some (takeWhile py_digit s, dropWhile py_digit s) else None)"

definition scan_fraction :: "string \<Rightarrow> string \<times> string" where
  "scan_fraction s = (case s of
       p # d # r \<Rightarrow> if p = CHR ''.'' \<and> py_digit d then (p # takeWhile py_digit (d # r), dropWhile py_digit (d # r)) else ([], s)
     | _ \<Rightarrow> ([], s))"

definition scan_exponent :: "string \<Rightarrow> string \<times> string" where
  "scan_exponent s = (case s of
       e # r \<Rightarrow> if e = CHR ''e'' \<or> e = CHR ''E'' then
           (let sign = (case r of c # _ \<Rightarrow> if c = CHR ''+'' \<or> c = CHR ''-'' then [c] else [] | [] \<Rightarrow> []);
                ds = drop (length sign) r in
            if ds \<noteq> [] \<and> py_digit (hd ds) then (e # sign @ takeWhile py_digit ds, dropWhile py_digit ds) else ([], s))
         else ([], s)
     | [] \<Rightarrow> ([], s))"

definition scan_number :: "(string \<Rightarrow> string) \<Rightarrow> string \<Rightarrow> (json \<times> string) option" where
  "scan_number canon s = (let sign = (if starts_with ''-'' s then ''-'' else []) in
     (case scan_whole (drop (length sign) s) of
        None \<Rightarrow> None
      | Some (whole, r) \<Rightarrow> (case scan_fraction r of (fr, r1) \<Rightarrow> (case scan_exponent r1 of (ex, r2) \<Rightarrow>
          if fr = [] \<and> ex = [] then map_option (\<lambda>i. (JInt i, r2)) (read_int (sign @ whole))
          else Some (JFloat (canon (sign @ whole @ fr @ ex)), r2)))))"

definition json_words :: "(string \<times> json) list" where
  "json_words = [(''null'', JNull), (''true'', JBool True), (''false'', JBool False), (''NaN'', JFloat ''nan''),
     (''Infinity'', JFloat ''inf''), (''-Infinity'', JFloat ''-inf'')]"

definition scan_word :: "string \<Rightarrow> (json \<times> string) option" where
  "scan_word s = map_option (\<lambda>(w, v). (v, drop (length w) s)) (find (\<lambda>(w, v). starts_with w s) json_words)"

text \<open>Values, the rest of an array and the rest of an object; the first argument bounds the depth of the calls.\<close>

fun scan_value :: "(string \<Rightarrow> string) \<Rightarrow> nat \<Rightarrow> string \<Rightarrow> (json \<times> string) option"
and scan_items :: "(string \<Rightarrow> string) \<Rightarrow> nat \<Rightarrow> string \<Rightarrow> (json list \<times> string) option"
and scan_fields :: "(string \<Rightarrow> string) \<Rightarrow> nat \<Rightarrow> string \<Rightarrow> ((string \<times> json) list \<times> string) option" where
  "scan_value canon 0 s = None"
| "scan_value canon (Suc n) s = (case s of
       [] \<Rightarrow> None
     | c # r \<Rightarrow>
         if c = CHR 0x22 then map_option (\<lambda>(t, rest). (JStr t, rest)) (scan_string r)
         else if c = CHR ''['' then
           (if starts_with '']'' (skip_space r) then Some (JArr [], tl (skip_space r))
            else map_option (\<lambda>(xs, rest). (JArr xs, rest)) (scan_items canon n (skip_space r)))
         else if c = CHR ''{'' then
           (if starts_with ''}'' (skip_space r) then Some (JObj [], tl (skip_space r))
            else map_option (\<lambda>(kvs, rest). (JObj (dict_update [] kvs), rest)) (scan_fields canon n (skip_space r)))
         else (case scan_word s of Some x \<Rightarrow> Some x | None \<Rightarrow> scan_number canon s))"
| "scan_items canon 0 s = None"
| "scan_items canon (Suc n) s = (case scan_value canon n s of
       None \<Rightarrow> None
     | Some (v, r) \<Rightarrow> (case skip_space r of
           [] \<Rightarrow> None
         | c # r' \<Rightarrow>
             if c = CHR '']'' then Some ([v], r')
             else if c = CHR '','' then map_option (\<lambda>(vs, rest). (v # vs, rest)) (scan_items canon n (skip_space r'))
             else None))"
| "scan_fields canon 0 s = None"
| "scan_fields canon (Suc n) s = (if \<not> starts_with [CHR 0x22] s then None else (case scan_string (tl s) of
       None \<Rightarrow> None
     | Some (k, r0) \<Rightarrow>
         if \<not> starts_with '':'' (skip_space r0) then None
         else (case scan_value canon n (skip_space (tl (skip_space r0))) of
             None \<Rightarrow> None
           | Some (v, r) \<Rightarrow> (case skip_space r of
                 [] \<Rightarrow> None
               | c # r' \<Rightarrow>
                   if c = CHR ''}'' then Some ([(k, v)], r')
                   else if c = CHR '','' then map_option (\<lambda>(kvs, rest). ((k, v) # kvs, rest)) (scan_fields canon n (skip_space r'))
                   else None))))"

definition json_loads :: "(string \<Rightarrow> string) \<Rightarrow> string \<Rightarrow> json res" where
  "json_loads canon s = (case scan_value canon (Suc (2 * length s)) (skip_space s) of
       Some (v, r) \<Rightarrow> if skip_space r = [] then Inr v else Inl (ValueError ''json'')
     | None \<Rightarrow> Inl (ValueError ''json''))"

subsection \<open>Texts \<open>json.dumps\<close> has written\<close>

text \<open>A Python value with the texts of its floats as \<open>repr\<close> prints them and the keys of each dict distinct.\<close>

definition float_repr :: "(string \<Rightarrow> string) \<Rightarrow> string \<Rightarrow> bool" where
  "float_repr canon t \<longleftrightarrow> scan_number canon t = Some (JFloat t, []) \<or> t \<in> {''nan'', ''inf'', ''-inf''}"

fun python_json :: "(string \<Rightarrow> string) \<Rightarrow> json \<Rightarrow> bool" where
  "python_json canon (JFloat t) = float_repr canon t"
| "python_json canon (JArr xs) = list_all (python_json canon) xs"
| "python_json canon (JObj kvs) = (distinct (List.map fst kvs) \<and> list_all (\<lambda>p. python_json canon (snd p)) kvs)"
| "python_json canon v = True"

text \<open>The same value with the keys of each dict in order: what \<open>sort_keys=True\<close> writes.\<close>

fun sort_json :: "json \<Rightarrow> json" where
  "sort_json (JArr xs) = JArr (List.map sort_json xs)"
| "sort_json (JObj kvs) = JObj (sort_key fst (List.map (\<lambda>p. (fst p, sort_json (snd p))) kvs))"
| "sort_json v = v"

definition stops :: "string \<Rightarrow> bool" where
  "stops rest \<longleftrightarrow> (case rest of [] \<Rightarrow> True | c # _ \<Rightarrow> \<not> py_digit c \<and> c \<notin> {CHR ''.'', CHR ''e'', CHR ''E'', CHR ''+'', CHR ''-''})"

lemma stops_simps [simp]: "stops []"
    "stops (c # r) \<longleftrightarrow> \<not> py_digit c \<and> c \<notin> {CHR ''.'', CHR ''e'', CHR ''E'', CHR ''+'', CHR ''-''}"
  by (simp_all add: stops_def)

lemma digits_then_stop:
  assumes "stops rest"
  shows "takeWhile py_digit (s @ rest) = takeWhile py_digit s" "dropWhile py_digit (s @ rest) = dropWhile py_digit s @ rest"
  using assms by (induction s) (auto simp: stops_def split: list.splits)

lemma zero_digit: "py_digit (CHR ''0'')"
  by (simp add: py_digit_def)

lemma scan_whole_append:
  assumes "stops rest"
  shows "scan_whole (s @ rest) = map_option (\<lambda>(a, r). (a, r @ rest)) (scan_whole s)"
proof (cases s)
  case Nil
  then show ?thesis using assms zero_digit by (cases rest) (auto simp: scan_whole_def)
next
  case (Cons d t)
  then show ?thesis using digits_then_stop [OF assms, of t] by (simp add: scan_whole_def)
qed

lemma scan_fraction_append:
  "stops rest \<Longrightarrow> scan_fraction (s @ rest) = (fst (scan_fraction s), snd (scan_fraction s) @ rest)"
proof (cases s)
  case (Cons p t)
  moreover assume "stops rest"
  ultimately show ?thesis using digits_then_stop [of rest t]
    by (cases t; cases rest) (auto simp: scan_fraction_def)
qed (auto simp: scan_fraction_def stops_def split: list.splits)

lemma scan_exponent_append:
  "stops rest \<Longrightarrow> scan_exponent (s @ rest) = (fst (scan_exponent s), snd (scan_exponent s) @ rest)"
proof (cases s)
  case (Cons p t)
  moreover assume st: "stops rest"
  moreover have "hd (t @ rest) = hd t" if "t \<noteq> []" using that by simp
  ultimately show ?thesis using digits_then_stop [OF st, of t] digits_then_stop [OF st, of "tl t"]
    by (cases t; cases "tl t"; cases rest) (auto simp: scan_exponent_def Let_def)
qed (auto simp: scan_exponent_def stops_def split: list.splits)

lemma scan_number_append:
  assumes "stops rest" and "s \<noteq> []"
  shows "scan_number canon (s @ rest) = map_option (\<lambda>(v, r). (v, r @ rest)) (scan_number canon s)"
proof -
  obtain sign where sign: "sign = (if starts_with ''-'' s then ''-'' else [])" "sign = (if starts_with ''-'' (s @ rest) then ''-'' else [])"
    using assms(2) by (cases s) (auto simp: starts_with_def)
  have d: "drop (length sign) (s @ rest) = drop (length sign) s @ rest"
    using assms(2) sign(1) by (cases s) auto
  show ?thesis
  proof (cases "scan_whole (drop (length sign) s)")
    case None
    then show ?thesis
      by (simp add: scan_number_def Let_def sign [symmetric] d scan_whole_append [OF assms(1)] del: drop_append)
  next
    case (Some p)
    then show ?thesis
      by (cases p; cases "scan_fraction (snd p)"; cases "scan_exponent (snd (scan_fraction (snd p)))")
        (simp add: scan_number_def Let_def sign [symmetric] d scan_whole_append [OF assms(1)] scan_fraction_append [OF assms(1)]
          scan_exponent_append [OF assms(1)] option.map_comp comp_def del: drop_append)
  qed
qed

lemma scan_number_head:
  assumes "scan_number canon s = Some x"
  obtains d r where "s = d # r" "py_digit d" | d r where "s = CHR ''-'' # d # r" "py_digit d"
proof -
  have w: "\<exists>d r. t = d # r \<and> py_digit d" if "scan_whole t = Some y" for t y
    using that zero_digit by (auto simp: scan_whole_def split: list.splits if_splits)
  show ?thesis
  proof (cases "starts_with ''-'' s")
    case True
    then obtain t where s: "s = CHR ''-'' # t" by (cases s) (auto simp: starts_with_def)
    with assms True obtain y where "scan_whole t = Some y" by (auto simp: scan_number_def Let_def split: option.splits)
    with w s that(2) show ?thesis by blast
  next
    case False
    with assms obtain y where "scan_whole s = Some y" by (auto simp: scan_number_def Let_def split: option.splits)
    with w that(1) show ?thesis by blast
  qed
qed

lemma word_initials: "scan_word s = Some x \<Longrightarrow> (\<exists>c r. s = c # r \<and> c \<in> set ''ntfNI'') \<or> (\<exists>r. s = CHR ''-'' # CHR ''I'' # r)"
  by (cases s; cases "tl s") (auto simp: scan_word_def json_words_def starts_with_def split: if_splits)

lemma scan_word_number:
  assumes "scan_number canon s = Some x"
  shows "scan_word (s @ rest) = None"
proof (rule ccontr)
  assume "scan_word (s @ rest) \<noteq> None"
  then have "(\<exists>c r. s @ rest = c # r \<and> c \<in> set ''ntfNI'') \<or> (\<exists>r. s @ rest = CHR ''-'' # CHR ''I'' # r)"
    using word_initials by blast
  with assms show False by (cases rule: scan_number_head) (auto simp: py_digit_def)
qed

lemma show_nat_zero: "hd (show_nat n) = CHR ''0'' \<longleftrightarrow> n = 0"
proof (induction n rule: show_nat.induct)
  case (1 n)
  show ?case
  proof (cases "n < 10")
    case True
    then show ?thesis by (simp add: show_nat_small digit_char_zero)
  next
    case False
    then have "hd (show_nat n) = hd (show_nat (n div 10))" by (subst show_nat.simps) simp
    then show ?thesis using 1 False by simp
  qed
qed

lemma scan_whole_show_nat: "scan_whole (show_nat n) = Some (show_nat n, [])"
proof -
  obtain d r where dr: "show_nat n = d # r" using show_nat_not_Nil by (cases "show_nat n") blast+
  moreover have "list_all py_digit (d # r)" using show_nat_digits [of n] dr by simp
  moreover have "r = []" if "d = CHR ''0''" using show_nat_zero [of n] that dr by (simp add: show_nat.simps)
  ultimately show ?thesis by (auto simp: scan_whole_def list_all_iff)
qed

lemma scan_number_int: "scan_number canon (show_int i) = Some (JInt i, [])"
proof -
  have "\<not> starts_with ''-'' (show_nat n)" for n
    using show_nat_ends [of n] show_nat_not_Nil [of n] by (cases "show_nat n") (auto simp: starts_with_def py_digit_def)
  then show ?thesis using read_show_int [of i]
    by (auto simp: scan_number_def show_int_def starts_with_def scan_whole_show_nat scan_fraction_def scan_exponent_def Let_def)
qed

subsection \<open>Strings\<close>

lemma hex_value_char: "d < 16 \<Longrightarrow> hex_value (hex_char d) = Some d"
  by (auto simp: hex_value_def hex_char_def Let_def)

lemma hex4_of_hex2: "n < 32 \<Longrightarrow> hex4_char (CHR ''0'') (CHR ''0'') (hex_char (n div 16)) (hex_char (n mod 16)) = Some (char_of n)"
proof -
  have z: "hex_value (CHR ''0'') = Some 0" by code_simp
  show "n < 32 \<Longrightarrow> ?thesis" by (simp add: hex4_char_def z hex_value_char)
qed

lemma char_codes: "char_of (34 :: nat) = CHR 0x22" "char_of (92 :: nat) = CHR 0x5C" "char_of (8 :: nat) = CHR 0x08" "char_of (9 :: nat) = CHR 0x09"
    "char_of (10 :: nat) = CHR 0x0A" "char_of (12 :: nat) = CHR 0x0C" "char_of (13 :: nat) = CHR 0x0D"
  by code_simp+

lemma char_code: "(of_char c :: nat) = n \<Longrightarrow> c = char_of n"
  by (metis char_of_char)

lemma scan_dumps_char: "scan_string (dumps_char c @ s) = add_char (Some c) (scan_string s)"
proof -
  let ?n = "of_char c :: nat"
  consider "?n \<in> {34, 92, 8, 9, 10, 12, 13}" | "?n < 32" "?n \<notin> {8, 9, 10, 12, 13}" | "\<not> ?n < 32" "?n \<noteq> 34" "?n \<noteq> 92" by fastforce
  then show ?thesis
  proof cases
    case 1
    then have "c \<in> {CHR 0x22, CHR 0x5C, CHR 0x08, CHR 0x09, CHR 0x0A, CHR 0x0C, CHR 0x0D}"
      by (auto dest!: char_code simp: char_codes)
    then show ?thesis by (auto simp: dumps_char_def simple_escape_def)
  next
    case 2
    then have "dumps_char c = [CHR 0x5C, CHR ''u'', CHR ''0'', CHR ''0''] @ hex2 ?n" by (simp add: dumps_char_def Let_def)
    then show ?thesis using hex4_of_hex2 [OF 2(1)] by (simp add: hex2_def)
  next
    case 3
    then have "dumps_char c = [c]" by (simp add: dumps_char_def Let_def)
    moreover have "c \<noteq> CHR 0x22" "c \<noteq> CHR 0x5C" using 3 by auto
    ultimately show ?thesis using 3 by simp
  qed
qed

lemma scan_dumps_string: "scan_string (List.concat (List.map dumps_char s) @ CHR 0x22 # rest) = Some (s, rest)"
  by (induction s) (simp_all add: scan_dumps_char add_char_def)

subsection \<open>Values\<close>

text \<open>How deep the calls of the scanner go on the text of a value.\<close>

fun cost :: "json \<Rightarrow> nat" where
  "cost (JArr xs) = 1 + sum_list (List.map (\<lambda>x. 1 + cost x) xs)"
| "cost (JObj kvs) = 1 + sum_list (List.map (\<lambda>p. 1 + cost (snd p)) kvs)"
| "cost v = 1"

text \<open>A value is read where it was written, whatever follows it, as long as that does not carry on a numeral.\<close>

definition reads :: "(string \<Rightarrow> string) \<Rightarrow> bool \<Rightarrow> json \<Rightarrow> bool" where
  "reads canon cs v \<longleftrightarrow> (\<forall>n rest. cost v \<le> n \<longrightarrow> stops rest \<longrightarrow> scan_value canon n (dumps False cs v @ rest) = Some (v, rest))"

lemma dumps_items_map: "dumps_items sk cs xs = List.map (dumps sk cs) xs"
  by (induction xs) auto

lemma dumps_fields_map: "dumps_fields sk cs kvs = List.map (\<lambda>(k, v). (k, dumps sk cs v)) kvs"
  by (induction kvs) auto

definition field_text :: "bool \<Rightarrow> string \<times> json \<Rightarrow> string" where
  "field_text cs p = dumps_str (fst p) @ key_sep cs @ dumps False cs (snd p)"

lemma dumps_object: "dumps False cs (JObj kvs) = ''{'' @ join (item_sep cs) (List.map (field_text cs) kvs) @ ''}''"
  by (simp add: dumps_fields_map sort_fields_def field_text_def [abs_def] comp_def case_prod_beta)

lemma dumps_array: "dumps False cs (JArr xs) = ''['' @ join (item_sep cs) (List.map (dumps False cs) xs) @ '']''"
  by (simp add: dumps_items_map)

declare dumps.simps(6,7) [simp del]

lemma skip_space_id [simp]: "\<not> json_space c \<Longrightarrow> skip_space (c # s) = c # s"
  by (simp add: skip_space_def)

lemma skip_space_blank [simp]: "skip_space (CHR '' '' # s) = skip_space s"
  by (simp add: skip_space_def json_space_def)

lemma skip_sep: "\<exists>c r. s = c # r \<and> \<not> json_space c \<Longrightarrow> skip_space (tl (item_sep cs) @ s) = s"
    "\<exists>c r. s = c # r \<and> \<not> json_space c \<Longrightarrow> skip_space (tl (key_sep cs) @ s) = s"
  by (auto simp: item_sep_def key_sep_def)

lemma not_space: "\<not> json_space (CHR 0x22)" "\<not> json_space (CHR ''['')" "\<not> json_space (CHR '']'')" "\<not> json_space (CHR ''{'')"
    "\<not> json_space (CHR ''}'')" "\<not> json_space (CHR '','')" "\<not> json_space (CHR '':'')"
  by code_simp+

text \<open>The first character of a text: never a blank, never a closing bracket.\<close>

lemma digit_start: "py_digit d \<Longrightarrow> \<not> json_space d \<and> d \<noteq> CHR '']''"
  by (auto simp: py_digit_def json_space_def Let_def)

lemma number_start: "scan_number canon t = Some x \<Longrightarrow> \<exists>c r. t = c # r \<and> \<not> json_space c \<and> c \<noteq> CHR '']''"
  by (erule scan_number_head) (use digit_start in \<open>auto simp: json_space_def\<close>)

lemma float_text_number: "scan_number canon t = Some x \<Longrightarrow> float_text t = t"
  by (erule scan_number_head) (auto simp: float_text_def py_digit_def)

lemma dumps_start:
  assumes "python_json canon v"
  shows "\<exists>c r. dumps sk cs v = c # r \<and> \<not> json_space c \<and> c \<noteq> CHR '']''"
proof (cases v)
  case (JFloat t)
  then show ?thesis
    using assms number_start [of canon t] float_text_number [of canon t]
    by (auto simp: float_repr_def float_text_def json_space_def)
next
  case (JInt i)
  then show ?thesis using number_start [OF scan_number_int [of _ i]] by simp
qed (auto simp: dumps_str_def dumps.simps(6,7) not_space json_space_def)

lemma dumps_start_app:
  "python_json canon v \<Longrightarrow> \<exists>c r. dumps sk cs v @ s = c # r \<and> \<not> json_space c \<and> c \<noteq> CHR '']''"
  using dumps_start [of canon v sk cs] by auto

lemma field_text_start: "\<exists>r. field_text cs p = CHR 0x22 # r"
  by (simp add: field_text_def dumps_str_def)

subsubsection \<open>Numbers and words\<close>

lemma reads_number:
  assumes "scan_number canon t = Some (v, [])" and "stops rest" and "1 \<le> n"
  shows "scan_value canon n (t @ rest) = Some (v, rest)"
proof -
  obtain m where n: "n = Suc m" using assms(3) by (cases n) auto
  have w: "scan_word (t @ rest) = None" using scan_word_number [OF assms(1)] .
  have s: "scan_number canon (t @ rest) = Some (v, rest)"
    using scan_number_append [OF assms(2), of t canon] assms(1) scan_number_head [OF assms(1)] by fastforce
  show ?thesis using assms(1)
    by (cases rule: scan_number_head) (use s w in \<open>auto simp: n py_digit_def\<close>)
qed

lemma reads_word:
  assumes "(w, v) \<in> set json_words" and "1 \<le> n"
  shows "scan_value canon n (w @ rest) = Some (v, rest)"
  using assms by (cases n) (auto simp: json_words_def scan_word_def starts_with_def)

subsubsection \<open>Arrays and objects\<close>

lemma sep_Cons: "item_sep cs = CHR '','' # tl (item_sep cs)" "key_sep cs = CHR '':'' # tl (key_sep cs)"
  by (simp_all add: item_sep_def key_sep_def)

lemma stops_punctuation: "\<not> py_digit (CHR '','')" "\<not> py_digit (CHR '']'')" "\<not> py_digit (CHR ''}'')"
  by (simp_all add: py_digit_def)

lemma join_start:
  assumes "xs \<noteq> []" and "\<exists>c r. hd xs = c # r \<and> \<not> json_space c \<and> c \<noteq> CHR '']''"
  shows "\<exists>c r. join sep xs @ s = c # r \<and> \<not> json_space c \<and> c \<noteq> CHR '']''"
  using assms by (cases xs; cases "tl xs") auto

lemma join_Cons: "ys \<noteq> [] \<Longrightarrow> join sep (x # ys) = x @ sep @ join sep ys"
  by (cases ys) auto

lemma reads_items:
  assumes "\<forall>x \<in> set xs. reads canon cs x \<and> python_json canon x" and "xs \<noteq> []"
    and "sum_list (List.map (\<lambda>x. 1 + cost x) xs) \<le> n"
  shows "scan_items canon n (join (item_sep cs) (List.map (dumps False cs) xs) @ CHR '']'' # rest) = Some (xs, rest)"
  using assms
proof (induction xs arbitrary: n)
  case (Cons x ys)
  obtain m where n: "n = Suc m" using Cons.prems(3) by (cases n) auto
  have x: "scan_value canon m (dumps False cs x @ r) = Some (x, r)" if "stops r" for r
    using Cons.prems(1,3) that by (simp add: n reads_def)
  show ?case
  proof (cases "ys = []")
    case True
    then show ?thesis by (simp add: n x stops_punctuation not_space)
  next
    case False
    let ?more = "join (item_sep cs) (List.map (dumps False cs) ys) @ CHR '']'' # rest"
    have start: "\<exists>c r. ?more = c # r \<and> \<not> json_space c \<and> c \<noteq> CHR '']''"
      using False Cons.prems(1) dumps_start [of canon "hd ys" False cs] by (intro join_start) (auto simp: hd_map)
    have "scan_items canon m ?more = Some (ys, rest)" using Cons False by (simp add: n)
    moreover have "skip_space (tl (item_sep cs) @ ?more) = ?more" using start by (intro skip_sep) blast
    moreover have "join (item_sep cs) (List.map (dumps False cs) (x # ys)) @ CHR '']'' # rest
        = dumps False cs x @ CHR '','' # tl (item_sep cs) @ ?more"
      using False sep_Cons(1) [of cs] by (simp add: join_Cons)
    ultimately show ?thesis by (simp add: n x stops_punctuation not_space)
  qed
qed simp

lemma dict_set_new: "k \<notin> fst ` set d \<Longrightarrow> dict_set k v d = d @ [(k, v)]"
  by (induction d) (auto simp: dict_set_def)

lemma dict_update_distinct: "distinct (List.map fst (d @ e)) \<Longrightarrow> dict_update d e = d @ e"
  by (induction d e rule: dict_update.induct) (auto simp: dict_set_new)

lemma reads_fields:
  assumes "\<forall>p \<in> set kvs. reads canon cs (snd p) \<and> python_json canon (snd p)" and "kvs \<noteq> []"
    and "sum_list (List.map (\<lambda>p. 1 + cost (snd p)) kvs) \<le> n"
  shows "scan_fields canon n (join (item_sep cs) (List.map (field_text cs) kvs) @ CHR ''}'' # rest) = Some (kvs, rest)"
  using assms
proof (induction kvs arbitrary: n)
  case (Cons p qs)
  obtain k v where p: "p = (k, v)" by (cases p)
  obtain m where n: "n = Suc m" using Cons.prems(3) by (cases n) auto
  have v: "scan_value canon m (dumps False cs v @ r) = Some (v, r)" if "stops r" for r
    using Cons.prems(1,3) that by (simp add: n p reads_def)
  have key: "skip_space (tl (key_sep cs) @ dumps False cs v @ r) = dumps False cs v @ r" for r
    using dumps_start_app [of canon v False cs r] Cons.prems(1) by (intro skip_sep) (auto simp: p)
  have ft: "field_text cs p @ r = CHR 0x22 # (List.concat (List.map dumps_char k) @ CHR 0x22 # CHR '':'' # tl (key_sep cs) @ dumps False cs v @ r)" for r
    using sep_Cons(2) [of cs] by (simp add: field_text_def p dumps_str_def)
  show ?case
  proof (cases "qs = []")
    case True
    then show ?thesis by (simp add: n ft starts_with_def scan_dumps_string not_space key v stops_punctuation) (simp add: p)
  next
    case False
    let ?more = "join (item_sep cs) (List.map (field_text cs) qs) @ CHR ''}'' # rest"
    have "\<exists>c r. ?more = c # r \<and> \<not> json_space c \<and> c \<noteq> CHR '']''"
      using False field_text_start [of cs "hd qs"] not_space by (intro join_start) (auto simp: hd_map)
    then have "skip_space (tl (item_sep cs) @ ?more) = ?more" by (intro skip_sep) blast
    moreover have "scan_fields canon m ?more = Some (qs, rest)" using Cons False by (simp add: n)
    moreover have "join (item_sep cs) (List.map (field_text cs) (p # qs)) @ CHR ''}'' # rest
        = field_text cs p @ CHR '','' # tl (item_sep cs) @ ?more"
      using False sep_Cons(1) [of cs] by (simp add: join_Cons)
    ultimately show ?thesis
      by (simp add: n ft starts_with_def scan_dumps_string not_space key v stops_punctuation) (simp add: p)
  qed
qed simp

lemma reads_back: "python_json canon v \<Longrightarrow> reads canon cs v"
proof (induction v)
  case JNull
  show ?case using reads_word [of "''null''"] by (simp add: reads_def json_words_def)
next
  case (JBool b)
  show ?case using reads_word [of "''true''"] reads_word [of "''false''"] by (simp add: reads_def json_words_def)
next
  case (JInt i)
  show ?case using reads_number [OF scan_number_int] by (simp add: reads_def)
next
  case (JFloat t)
  then consider "scan_number canon t = Some (JFloat t, [])" | "(float_text t, JFloat t) \<in> set json_words"
    by (auto simp: float_repr_def float_text_def json_words_def)
  then show ?case
  proof cases
    case 1
    then show ?thesis using reads_number [OF 1] float_text_number [OF 1] by (simp add: reads_def)
  next
    case 2
    then show ?thesis using reads_word by (simp add: reads_def)
  qed
next
  case (JStr s)
  have "scan_value canon n (dumps_str s @ rest) = Some (JStr s, rest)" if "1 \<le> n" for n rest
    using that by (cases n) (simp_all add: dumps_str_def scan_dumps_string)
  then show ?case by (simp add: reads_def)
next
  case (JArr xs)
  show ?case unfolding reads_def
  proof (intro allI impI)
    fix n rest
    assume n: "cost (JArr xs) \<le> n"
    then obtain m where m: "n = Suc m" by (cases n) auto
    show "scan_value canon n (dumps False cs (JArr xs) @ rest) = Some (JArr xs, rest)"
    proof (cases "xs = []")
      case True
      then show ?thesis by (simp add: m dumps_array not_space starts_with_def)
    next
      case False
      let ?t = "join (item_sep cs) (List.map (dumps False cs) xs) @ CHR '']'' # rest"
      have ok: "\<forall>x \<in> set xs. reads canon cs x \<and> python_json canon x" using JArr by (simp add: list_all_iff)
      then obtain c r where "?t = c # r" "\<not> json_space c" "c \<noteq> CHR '']''"
        using False dumps_start [of canon "hd xs" False cs] join_start [of "List.map (dumps False cs) xs"] by (fastforce simp: hd_map)
      then have "skip_space ?t = ?t" "\<not> starts_with '']'' ?t" by (auto simp: starts_with_def)
      moreover have "scan_items canon m ?t = Some (xs, rest)" using ok False n by (intro reads_items) (auto simp: m)
      ultimately show ?thesis by (simp add: m dumps_array)
    qed
  qed
next
  case (JObj kvs)
  show ?case unfolding reads_def
  proof (intro allI impI)
    fix n rest
    assume n: "cost (JObj kvs) \<le> n"
    then obtain m where m: "n = Suc m" by (cases n) auto
    show "scan_value canon n (dumps False cs (JObj kvs) @ rest) = Some (JObj kvs, rest)"
    proof (cases "kvs = []")
      case True
      then show ?thesis by (simp add: m dumps_object not_space starts_with_def)
    next
      case False
      let ?t = "join (item_sep cs) (List.map (field_text cs) kvs) @ CHR ''}'' # rest"
      have ok: "\<forall>p \<in> set kvs. reads canon cs (snd p) \<and> python_json canon (snd p)"
        using JObj by (auto simp: list_all_iff)
      obtain r where t: "?t = CHR 0x22 # r"
        using False field_text_start [of cs "hd kvs"] by (cases kvs; cases "tl kvs") auto
      then have "skip_space ?t = ?t" "\<not> starts_with ''}'' ?t" by (simp_all add: starts_with_def not_space)
      moreover have "scan_fields canon m ?t = Some (kvs, rest)" using ok False n by (intro reads_fields) (auto simp: m)
      moreover have "dict_update [] kvs = kvs" using JObj.prems by (simp add: dict_update_distinct)
      ultimately show ?thesis by (simp add: m dumps_object)
    qed
  qed
qed

subsubsection \<open>The calls are few enough\<close>

lemma cost_join:
  assumes "\<forall>x \<in> set xs. c x \<le> 2 * length (f x)" and "1 \<le> length sep"
  shows "sum_list (List.map (\<lambda>x. 1 + c x) xs) \<le> 2 * length (join sep (List.map f xs)) + 1"
  using assms(1)
proof (induction xs)
  case (Cons x ys)
  then show ?case using assms(2) by (cases "ys = []") (auto simp: join_Cons)
qed simp

lemma sep_length: "1 \<le> length (item_sep cs)"
  by (simp add: item_sep_def)

lemma cost_bound: "python_json canon v \<Longrightarrow> cost v \<le> 2 * length (dumps False cs v)"
proof (induction v)
  case (JArr xs)
  then show ?case using cost_join [of xs cost "dumps False cs", OF _ sep_length [of cs]] by (simp add: dumps_array list_all_iff)
next
  case (JObj kvs)
  have "\<forall>p \<in> set kvs. cost (snd p) \<le> 2 * length (field_text cs p)"
    using JObj by (fastforce simp: list_all_iff field_text_def)
  then show ?case using cost_join [of kvs "\<lambda>p. cost (snd p)" "field_text cs", OF _ sep_length [of cs]] by (simp add: dumps_object)
next
  case (JInt i)
  then show ?case using dumps_start [of canon "JInt i" False cs] by auto
next
  case (JFloat t)
  then show ?case using dumps_start [of canon "JFloat t" False cs] by auto
qed (auto simp: dumps_str_def)

subsubsection \<open>Sorted keys\<close>

lemma insort_key_map: "(\<And>x. h (g x) = f x) \<Longrightarrow> List.map g (insort_key f x xs) = insort_key h (g x) (List.map g xs)"
  by (induction xs) auto

lemma sort_key_map: "(\<And>x. h (g x) = f x) \<Longrightarrow> List.map g (sort_key f xs) = sort_key h (List.map g xs)"
proof (induction xs)
  case (Cons a xs)
  then show ?case using insort_key_map [of h g f a "sort_key f xs"] by simp
qed simp

lemma dumps_sorted: "dumps True cs v = dumps False cs (sort_json v)"
proof (induction v)
  case (JArr xs)
  then have "List.map (dumps True cs) xs = List.map (dumps False cs) (List.map sort_json xs)" by simp
  then show ?case by (simp only: dumps.simps(6) dumps_items_map sort_json.simps)
next
  case (JObj kvs)
  have "dumps_fields True cs kvs = List.map (\<lambda>p. (fst p, dumps False cs (sort_json (snd p)))) kvs"
    using JObj by (fastforce simp: dumps_fields_map)
  also have "sort_key fst \<dots> = List.map (\<lambda>p. (fst p, dumps False cs (snd p))) (sort_key fst (List.map (\<lambda>p. (fst p, sort_json (snd p))) kvs))"
    using sort_key_map [of fst "\<lambda>p. (fst p, dumps False cs (snd p))" fst "List.map (\<lambda>p. (fst p, sort_json (snd p))) kvs"] by (simp add: comp_def)
  finally show ?case
    by (simp add: dumps.simps(7) sort_fields_def dumps_fields_map case_prod_beta comp_def)
qed auto

lemma sort_json_keys: "python_json canon v \<Longrightarrow> python_json canon (sort_json v)"
proof (induction v)
  case (JObj kvs)
  have "distinct (List.map fst (sort_key fst (List.map (\<lambda>p. (fst p, sort_json (snd p))) kvs)))"
    using JObj.prems by (simp add: distinct_map comp_def inj_on_def) fastforce
  moreover have "\<forall>p \<in> set kvs. python_json canon (sort_json (snd p))" using JObj by (fastforce simp: list_all_iff)
  ultimately show ?case by (auto simp: list_all_iff)
qed (auto simp: list_all_iff)

subsection \<open>The round trip\<close>

theorem json_loads_dumps:
  assumes "python_json canon v"
  shows "json_loads canon (dumps sk cs v) = Inr (if sk then sort_json v else v)"
proof -
  have "json_loads canon (dumps False cs w) = Inr w" if w: "python_json canon w" for w
  proof -
    obtain c r where "dumps False cs w = c # r" "\<not> json_space c" using dumps_start [OF w, of False cs] by auto
    then have "scan_value canon (Suc (2 * length (dumps False cs w))) (skip_space (dumps False cs w)) = Some (w, [])"
      using reads_back [OF w, of cs] cost_bound [OF w, of cs] unfolding reads_def by (metis append_Nil2 le_SucI skip_space_id stops_simps(1))
    then show ?thesis by (simp add: json_loads_def skip_space_def)
  qed
  with assms sort_json_keys [OF assms] show ?thesis by (cases sk) (simp_all add: dumps_sorted)
qed

text \<open>So two values have one text exactly when they are the same, up to the order of keys where it is sorted away.\<close>

lemma dumps_inject:
  assumes "python_json canon v" and "python_json canon w"
  shows "dumps sk cs v = dumps sk cs w \<longleftrightarrow> (if sk then sort_json v = sort_json w else v = w)"
  using json_loads_dumps [OF assms(1), of sk cs] json_loads_dumps [OF assms(2), of sk cs] dumps_sorted [of cs]
  by (cases sk) (metis Inr_inject)+

end
