(* ===== verification/Sha256.thy ===== *)
theory Sha256
  imports Json "HOL-Library.Word"
begin

text \<open>
  The digest functions the gateway takes from Python's \<open>hashlib\<close> and \<open>hmac\<close>: SHA-256 of a byte string and the keyed digest
  built on it, with the UTF-8 encoding in front and the hexadecimal text behind, as in \<open>sha256(s.encode()).hexdigest()\<close>.
\<close>

unbundle bit_operations_syntax

subsection \<open>Bytes\<close>

text \<open>A byte is a number below 256; code points up to 255 take one or two.\<close>

definition utf8_char :: "char \<Rightarrow> int list" where
  "utf8_char c = (let n = (of_char c :: int) in if n < 128 then [n] else [192 + n div 64, 128 + n mod 64])"

definition utf8 :: "string \<Rightarrow> int list" where
  "utf8 s = List.concat (List.map utf8_char s)"

text \<open>The \<open>k\<close> bytes of a number, the highest first, and back.\<close>

fun big_endian :: "nat \<Rightarrow> int \<Rightarrow> int list" where
  "big_endian 0 n = []"
| "big_endian (Suc k) n = big_endian k (n div 256) @ [n mod 256]"

definition from_bytes :: "int list \<Rightarrow> int" where
  "from_bytes bs = fold (\<lambda>b n. 256 * n + b) bs 0"

subsection \<open>SHA-256\<close>

type_synonym word32 = "32 word"

definition sha_K :: "word32 list" where
  "sha_K =
    [0x428A2F98, 0x71374491, 0xB5C0FBCF, 0xE9B5DBA5, 0x3956C25B, 0x59F111F1, 0x923F82A4, 0xAB1C5ED5,
     0xD807AA98, 0x12835B01, 0x243185BE, 0x550C7DC3, 0x72BE5D74, 0x80DEB1FE, 0x9BDC06A7, 0xC19BF174,
     0xE49B69C1, 0xEFBE4786, 0x0FC19DC6, 0x240CA1CC, 0x2DE92C6F, 0x4A7484AA, 0x5CB0A9DC, 0x76F988DA,
     0x983E5152, 0xA831C66D, 0xB00327C8, 0xBF597FC7, 0xC6E00BF3, 0xD5A79147, 0x06CA6351, 0x14292967,
     0x27B70A85, 0x2E1B2138, 0x4D2C6DFC, 0x53380D13, 0x650A7354, 0x766A0ABB, 0x81C2C92E, 0x92722C85,
     0xA2BFE8A1, 0xA81A664B, 0xC24B8B70, 0xC76C51A3, 0xD192E819, 0xD6990624, 0xF40E3585, 0x106AA070,
     0x19A4C116, 0x1E376C08, 0x2748774C, 0x34B0BCB5, 0x391C0CB3, 0x4ED8AA4A, 0x5B9CCA4F, 0x682E6FF3,
     0x748F82EE, 0x78A5636F, 0x84C87814, 0x8CC70208, 0x90BEFFFA, 0xA4506CEB, 0xBEF9A3F7, 0xC67178F2]"

definition sha_H :: "word32 list" where
  "sha_H =
    [0x6A09E667, 0xBB67AE85, 0x3C6EF372, 0xA54FF53A, 0x510E527F, 0x9B05688C, 0x1F83D9AB, 0x5BE0CD19]"

definition pad_message :: "int list \<Rightarrow> int list" where
  "pad_message m = m @ 0x80 # replicate ((119 - length m mod 64) mod 64) 0 @ big_endian 8 (8 * int (length m))"

fun chunks :: "nat \<Rightarrow> nat \<Rightarrow> 'a list \<Rightarrow> 'a list list" where
  "chunks 0 k xs = []"
| "chunks (Suc n) k xs = take k xs # chunks n k (drop k xs)"

definition block_words :: "int list \<Rightarrow> word32 list" where
  "block_words b = List.map (\<lambda>q. of_int (from_bytes q)) (chunks 16 4 b)"

definition small_sigma0 :: "word32 \<Rightarrow> word32" where
  "small_sigma0 x = word_rotr 7 x XOR word_rotr 18 x XOR drop_bit 3 x"

definition small_sigma1 :: "word32 \<Rightarrow> word32" where
  "small_sigma1 x = word_rotr 17 x XOR word_rotr 19 x XOR drop_bit 10 x"

definition big_sigma0 :: "word32 \<Rightarrow> word32" where
  "big_sigma0 x = word_rotr 2 x XOR word_rotr 13 x XOR word_rotr 22 x"

definition big_sigma1 :: "word32 \<Rightarrow> word32" where
  "big_sigma1 x = word_rotr 6 x XOR word_rotr 11 x XOR word_rotr 25 x"

text \<open>The schedule, newest word first: \<open>n\<close> more words after the sixteen of the block.\<close>

fun extend_schedule :: "nat \<Rightarrow> word32 list \<Rightarrow> word32 list" where
  "extend_schedule 0 ws = ws"
| "extend_schedule (Suc n) ws =
     extend_schedule n ((small_sigma1 (ws ! 1) + ws ! 6 + small_sigma0 (ws ! 14) + ws ! 15) # ws)"

definition schedule :: "word32 list \<Rightarrow> word32 list" where
  "schedule ws = rev (extend_schedule 48 (rev ws))"

type_synonym sha_state = "word32 \<times> word32 \<times> word32 \<times> word32 \<times> word32 \<times> word32 \<times> word32 \<times> word32"

fun sha_round :: "word32 \<times> word32 \<Rightarrow> sha_state \<Rightarrow> sha_state" where
  "sha_round (k, w) (a, b, c, d, e, f, g, h) =
     (let t1 = h + big_sigma1 e + ((e AND f) XOR (NOT e AND g)) + k + w;
          t2 = big_sigma0 a + ((a AND b) XOR (a AND c) XOR (b AND c))
      in (t1 + t2, a, b, c, d + t1, e, f, g))"

fun state_of :: "word32 list \<Rightarrow> sha_state" where
  "state_of [a, b, c, d, e, f, g, h] = (a, b, c, d, e, f, g, h)"
| "state_of _ = (0, 0, 0, 0, 0, 0, 0, 0)"

fun words_of :: "sha_state \<Rightarrow> word32 list" where
  "words_of (a, b, c, d, e, f, g, h) = [a, b, c, d, e, f, g, h]"

definition compress :: "int list \<Rightarrow> word32 list \<Rightarrow> word32 list" where
  "compress block hs =
     map2 (+) hs (words_of (fold sha_round (zip sha_K (schedule (block_words block))) (state_of hs)))"

definition sha256 :: "int list \<Rightarrow> int list" where
  "sha256 m = (let p = pad_message m in
     List.concat (List.map (\<lambda>w. big_endian 4 (uint w)) (fold compress (chunks (length p div 64) 64 p) sha_H)))"

definition hexdigest :: "int list \<Rightarrow> string" where
  "hexdigest bs = List.concat (List.map (\<lambda>b. [hex_char (nat (b div 16)), hex_char (nat (b mod 16))]) bs)"

definition sha256_text :: "string \<Rightarrow> string" where
  "sha256_text s = hexdigest (sha256 (utf8 s))"

subsection \<open>HMAC\<close>

definition hmac_key :: "int list \<Rightarrow> int list" where
  "hmac_key k = (let k' = (if length k > 64 then sha256 k else k) in k' @ replicate (64 - length k') 0)"

definition hmac_sha256 :: "int list \<Rightarrow> int list \<Rightarrow> int list" where
  "hmac_sha256 k m =
     sha256 (List.map (\<lambda>b. b XOR 0x5C) (hmac_key k) @ sha256 (List.map (\<lambda>b. b XOR 0x36) (hmac_key k) @ m))"

definition hmac_text :: "string \<Rightarrow> string \<Rightarrow> string" where
  "hmac_text k m = hexdigest (hmac_sha256 (utf8 k) (utf8 m))"

subsection \<open>The shape of a digest\<close>

lemma length_big_endian [simp]: "length (big_endian k n) = k"
  by (induction k n rule: big_endian.induct) auto

lemma big_endian_bytes: "b \<in> set (big_endian k n) \<Longrightarrow> 0 \<le> b \<and> b < 256"
  by (induction k n rule: big_endian.induct) auto

lemma length_words_of [simp]: "length (words_of s) = 8"
  by (cases s rule: words_of.cases) simp

lemma length_compress [simp]: "length hs = 8 \<Longrightarrow> length (compress b hs) = 8"
  by (simp add: compress_def)

lemma length_fold_compress: "length hs = 8 \<Longrightarrow> length (fold compress bs hs) = 8"
  by (induction bs arbitrary: hs) auto

lemma length_concat_same: "\<forall>x \<in> set xs. length (f x) = k \<Longrightarrow> length (List.concat (List.map f xs)) = k * length xs"
  by (induction xs) auto

lemma length_sha_H: "length sha_H = 8"
  by (simp add: sha_H_def)

lemma length_sha256 [simp]: "length (sha256 m) = 32"
  by (simp add: sha256_def Let_def length_concat_same [where k = 4] length_fold_compress [OF length_sha_H])

lemma sha256_bytes: "b \<in> set (sha256 m) \<Longrightarrow> 0 \<le> b \<and> b < 256"
  by (auto simp: sha256_def Let_def dest: big_endian_bytes)

lemma length_hexdigest [simp]: "length (hexdigest bs) = 2 * length bs"
  by (simp add: hexdigest_def length_concat_same [where k = 2])

lemma hex_char_plain: "d < 16 \<Longrightarrow> hex_char d \<noteq> CHR ''|'' \<and> hex_char d \<noteq> CHR ''.''"
proof -
  have c: "list_all (\<lambda>d. hex_char d \<noteq> CHR ''|'' \<and> hex_char d \<noteq> CHR ''.'') [0..<16]" by code_simp
  then show "d < 16 \<Longrightarrow> ?thesis" by (simp add: list_all_iff)
qed

lemma hexdigest_plain:
  assumes "\<forall>b \<in> set bs. 0 \<le> b \<and> b < 256"
  shows "CHR ''|'' \<notin> set (hexdigest bs)" "CHR ''.'' \<notin> set (hexdigest bs)"
proof -
  have "nat (b div 16) < 16 \<and> nat (b mod 16) < 16" if "b \<in> set bs" for b
    using assms that by auto
  then show "CHR ''|'' \<notin> set (hexdigest bs)" "CHR ''.'' \<notin> set (hexdigest bs)"
    using hex_char_plain by (fastforce simp: hexdigest_def)+
qed

lemma sha256_text_shape: "length (sha256_text s) = 64" "CHR ''|'' \<notin> set (sha256_text s)"
  using hexdigest_plain [of "sha256 (utf8 s)"] sha256_bytes by (auto simp: sha256_text_def)

lemma hmac_text_shape: "length (hmac_text k m) = 64"
  by (simp add: hmac_text_def hmac_sha256_def)

end
