(* ===== verification/Python.thy ===== *)
theory Python
  imports Sha256
begin

text \<open>
  The part of Python's library the gateway's texts rest on, computed: digests (\<open>Sha256\<close>) and the texts of a UTC time. \<open>cpython L\<close>
  is the library with these functions in the place of the parameters; what stays a parameter is the reading and the printing of
  floats and the reading of HTTP dates.
\<close>

subsection \<open>Dates\<close>

text \<open>Year, month and day of the \<open>n\<close>-th day of the calendar (the first is 0001-01-01), as \<open>datetime\<close> finds them.\<close>

definition days_before_month :: "int list" where
  "days_before_month = [0, 0, 31, 59, 90, 120, 151, 181, 212, 243, 273, 304, 334]"

definition days_in_month :: "int list" where
  "days_in_month = [0, 31, 28, 31, 30, 31, 30, 31, 31, 30, 31, 30, 31]"

definition ord2ymd :: "int \<Rightarrow> int \<times> int \<times> int" where
  "ord2ymd ordinal = (let
     n = ordinal - 1;
     n400 = n div 146097; n = n mod 146097;
     n100 = n div 36524; n = n mod 36524;
     n4 = n div 1461; n = n mod 1461;
     n1 = n div 365; n = n mod 365;
     year = n400 * 400 + 1 + n100 * 100 + n4 * 4 + n1
   in if n1 = 4 \<or> n100 = 4 then (year - 1, 12, 31)
      else let
        leap = (n1 = 3 \<and> (n4 \<noteq> 24 \<or> n100 = 3));
        month = (n + 50) div 32;
        preceding = days_before_month ! nat month + (if month > 2 \<and> leap then 1 else 0)
      in if preceding > n
         then (year, month - 1, n - (preceding - days_in_month ! nat (month - 1) - (if month - 1 = 2 \<and> leap then 1 else 0)) + 1)
         else (year, month, n - preceding + 1))"

definition EPOCH_ORDINAL :: int where
  "EPOCH_ORDINAL = 719163"

definition pad_int :: "nat \<Rightarrow> int \<Rightarrow> string" where
  "pad_int w n = (let s = show_int n in replicate (w - length s) (CHR ''0'') @ s)"

definition micros :: "time \<Rightarrow> int" where
  "micros t = \<lfloor>t * 1000000\<rfloor>"

definition date_parts :: "time \<Rightarrow> int \<times> int \<times> int" where
  "date_parts t = ord2ymd (EPOCH_ORDINAL + micros t div 86400000000)"

definition date_text :: "string \<Rightarrow> time \<Rightarrow> string" where
  "date_text sep t = (case date_parts t of (y, m, d) \<Rightarrow> pad_int 4 y @ sep @ pad_int 2 m @ sep @ pad_int 2 d)"

definition clock_text :: "time \<Rightarrow> string" where
  "clock_text t = (let s = micros t div 1000000 mod 86400 in
     pad_int 2 (s div 3600) @ '':'' @ pad_int 2 (s div 60 mod 60) @ '':'' @ pad_int 2 (s mod 60))"

definition micro_text :: "time \<Rightarrow> string" where
  "micro_text t = ''.'' @ pad_int 6 (micros t mod 1000000)"

definition iso_text :: "string \<Rightarrow> time \<Rightarrow> string" where
  "iso_text sep t = date_text ''-'' t @ sep @ clock_text t @ (if micros t mod 1000000 = 0 then [] else micro_text t) @ ''+00:00''"

subsection \<open>The library\<close>

definition cpython :: "pylib \<Rightarrow> pylib" where
  "cpython L = L\<lparr>lib_sha256 := sha256_text, lib_hmac := hmac_text, lib_isoformat := iso_text ''T'', lib_datetime_str := iso_text '' '',
     lib_ymd := date_text [], lib_strftime := (\<lambda>t. date_text ''-'' t @ ''T'' @ clock_text t @ micro_text t)\<rparr>"

text \<open>What the sources rely on: digests are 64 characters without the separators of the texts they are put into.\<close>

lemma cpython_sha256: "length (lib_sha256 (cpython L) s) = 64" "CHR ''|'' \<notin> set (lib_sha256 (cpython L) s)"
  using sha256_text_shape by (simp_all add: cpython_def)

lemma cpython_hmac: "length (lib_hmac (cpython L) k m) = 64"
  by (simp add: cpython_def hmac_text_shape)

lemma cpython_hmac_nonempty: "lib_hmac (cpython L) k m \<noteq> []"
  using cpython_hmac [of L k m] by auto

lemma cpython_keeps [simp]: "lib_float (cpython L) = lib_float L" "lib_float_repr (cpython L) = lib_float_repr L"
    "lib_http_date (cpython L) = lib_http_date L"
  by (simp_all add: cpython_def)

end
