(* ===== verification/Idempotency.thy ===== *)
theory Idempotency
  imports Template Loads Python "HOL-Library.Multiset"
begin

text \<open>
  \<open>gateway/idempotency.py\<close>: the derived idempotency key (key hash and digest of the normalised declared fields), the
  explicit key, the window bucket and the keys of business retries.
\<close>

record idempotency_key =
  ik_key :: string
  ik_derived :: bool
  ik_body_digest :: string

definition explicit :: "idempotency_key \<Rightarrow> bool" where
  "explicit k \<longleftrightarrow> \<not> ik_derived k"

definition DERIVED_PREFIX :: string where
  "DERIVED_PREFIX = ''auto:''"

fun get_parts :: "string list \<Rightarrow> json \<Rightarrow> json" where
  "get_parts [] node = node"
| "get_parts (p # ps) node = (case node of
      JObj kvs \<Rightarrow> (case dict_get kvs p of None \<Rightarrow> JNull | Some v \<Rightarrow> get_parts ps v)
    | _ \<Rightarrow> JNull)"

definition get_dotted :: "jobj \<Rightarrow> string \<Rightarrow> json" where
  "get_dotted body dotted = get_parts (split_on (CHR ''.'') dotted) (JObj body)"

definition normal_value :: "normalization_rules \<Rightarrow> jobj \<Rightarrow> string \<Rightarrow> json" where
  "normal_value rules body field = (case get_dotted body field of
       JStr s \<Rightarrow> (let s' = (if nr_trim_strings rules then strip s else s)
                 in JStr (if field \<in> set (List.map lower (nr_case_insensitive_fields rules)) then lower s' else s'))
     | v \<Rightarrow> v)"

definition declared_fields :: "normalization_rules \<Rightarrow> jobj \<Rightarrow> string list" where
  "declared_fields rules body =
     (if nr_fields rules = [] then sort_key (\<lambda>k. k) (List.map fst body) else nr_fields rules)"

definition canonical_payload :: "jobj \<Rightarrow> normalization_rules \<Rightarrow> jobj" where
  "canonical_payload body rules =
     fold (\<lambda>f. dict_set f (normal_value rules body f)) (sort_key (\<lambda>k. k) (declared_fields rules body)) []"

definition canonical_body :: "jobj \<Rightarrow> normalization_rules \<Rightarrow> string" where
  "canonical_body body rules = dumps True True (JObj (canonical_payload body rules))"

definition body_digest :: "pylib \<Rightarrow> jobj \<Rightarrow> normalization_rules \<Rightarrow> string" where
  "body_digest L body rules = lib_sha256 L (canonical_body body rules)"

definition derive_key :: "pylib \<Rightarrow> string \<Rightarrow> jobj \<Rightarrow> normalization_rules \<Rightarrow> idempotency_key" where
  "derive_key L key_hash body rules =
     (let digest = body_digest L body rules in
      if nr_fields rules = [] \<and> body = []
      then \<lparr>ik_key = DERIVED_PREFIX @ key_hash @ ''|empty'', ik_derived = True, ik_body_digest = digest\<rparr>
      else \<lparr>ik_key = DERIVED_PREFIX @ key_hash @ ''|'' @ take 32 digest, ik_derived = True, ik_body_digest = digest\<rparr>)"

definition resolve_key :: "pylib \<Rightarrow> string option \<Rightarrow> string \<Rightarrow> jobj \<Rightarrow> normalization_rules \<Rightarrow> idempotency_key" where
  "resolve_key L given key_hash body rules = (case given of
       Some (c # s) \<Rightarrow> \<lparr>ik_key = strip (c # s), ik_derived = False, ik_body_digest = body_digest L body rules\<rparr>
     | _ \<Rightarrow> derive_key L key_hash body rules)"

definition window_bucket :: "time \<Rightarrow> int \<Rightarrow> int" where
  "window_bucket now window_seconds = \<lfloor>now / of_int (max 1 window_seconds)\<rfloor>"

text \<open>\<open>s.split(p, 1)[0]\<close> and \<open>s.rsplit(p, 1)[1]\<close> (where \<open>p\<close> occurs).\<close>

fun before_first :: "string \<Rightarrow> string \<Rightarrow> string" where
  "before_first p [] = []"
| "before_first p (c # s) = (if starts_with p (c # s) then [] else c # before_first p s)"

fun after_last :: "string \<Rightarrow> string \<Rightarrow> string option" where
  "after_last p [] = None"
| "after_last p (c # s) = (case after_last p s of
      Some r \<Rightarrow> Some r
    | None \<Rightarrow> if starts_with p (c # s) then Some (drop (length p) (c # s)) else None)"

definition ATTEMPT_MARK :: string where
  "ATTEMPT_MARK = ''#attempt''"

definition retry_key :: "string \<Rightarrow> int \<Rightarrow> string" where
  "retry_key base_key attempt = before_first ATTEMPT_MARK base_key @ ATTEMPT_MARK @ show_int (max 1 attempt)"

definition attempt_of :: "string \<Rightarrow> int" where
  "attempt_of key = (case after_last ATTEMPT_MARK key of
      None \<Rightarrow> 1
    | Some d \<Rightarrow> (case read_int d of None \<Rightarrow> 1 | Some n \<Rightarrow> n))"

definition key_hash_of :: "pylib \<Rightarrow> string \<Rightarrow> string" where
  "key_hash_of L secret_value = take 24 (lib_sha256 L secret_value)"

subsection \<open>Lemmas\<close>

text \<open>The mark begins with a character that occurs nowhere else in it, so occurrences never overlap.\<close>

lemma mark_Cons: obtains m where "ATTEMPT_MARK = CHR ''#'' # m" and "CHR ''#'' \<notin> set m"
  by (rule that [of "''attempt''"]) (simp_all add: ATTEMPT_MARK_def)

lemma starts_with_mark: "starts_with ATTEMPT_MARK (c # s) \<Longrightarrow> c = CHR ''#''"
  by (simp add: starts_with_def ATTEMPT_MARK_def)

lemma starts_with_more: "starts_with p s \<Longrightarrow> starts_with p (s @ t)"
  by (cases "length p \<le> length s") (auto simp: starts_with_def)

lemma after_last_no_hash: "CHR ''#'' \<notin> set s \<Longrightarrow> after_last ATTEMPT_MARK s = None"
proof (induction s)
  case (Cons c s)
  then have "\<not> starts_with ATTEMPT_MARK (c # s)" using starts_with_mark by fastforce
  then show ?case using Cons by simp
qed simp

lemma after_last_append: "after_last p s = Some r \<Longrightarrow> after_last p (u @ s) = Some r"
  by (induction u) auto

lemma after_last_mark:
  assumes "CHR ''#'' \<notin> set d"
  shows "after_last ATTEMPT_MARK (u @ ATTEMPT_MARK @ d) = Some d"
proof (rule after_last_append)
  obtain m where m: "ATTEMPT_MARK = CHR ''#'' # m" "CHR ''#'' \<notin> set m" by (rule mark_Cons)
  then have none: "after_last (CHR ''#'' # m) (m @ d) = None"
    using after_last_no_hash [of "m @ d"] assms by simp
  show "after_last ATTEMPT_MARK (ATTEMPT_MARK @ d) = Some d"
    unfolding m(1) by (simp add: none starts_with_def)
qed

lemma starts_with_mark_append:
  assumes "starts_with ATTEMPT_MARK (c # u @ ATTEMPT_MARK @ d)"
  shows "starts_with ATTEMPT_MARK (c # u)"
proof (rule ccontr)
  let ?k = "length (c # u)"
  have tk: "take (length ATTEMPT_MARK) ((c # u) @ ATTEMPT_MARK @ d) = ATTEMPT_MARK"
    using assms by (simp add: starts_with_def)
  assume "\<not> starts_with ATTEMPT_MARK (c # u)"
  then have short: "?k < length ATTEMPT_MARK"
    using tk by (simp add: starts_with_def not_less [symmetric] take_append [of _ "c # u"] del: take_Cons' append.simps)
      (metis append_Nil2 diff_is_0_eq' not_less take0)
  obtain m where m: "ATTEMPT_MARK = CHR ''#'' # m" "CHR ''#'' \<notin> set m" by (rule mark_Cons)
  have "ATTEMPT_MARK ! ?k = take (length ATTEMPT_MARK) ((c # u) @ ATTEMPT_MARK @ d) ! ?k" by (simp only: tk)
  also have "\<dots> = ((c # u) @ ATTEMPT_MARK @ d) ! ?k" using short by (rule nth_take)
  also have "\<dots> = CHR ''#''" by (subst nth_append_length_plus [of _ _ 0, simplified add_0_right]) (simp add: m(1))
  finally have "m ! length u = CHR ''#''" by (simp add: m(1))
  moreover have "length u < length m" using short unfolding m(1) by simp
  ultimately show False using m(2) nth_mem by metis
qed

lemma before_first_take: "\<exists>r. s = before_first p s @ r"
proof (induction s)
  case (Cons c s)
  then show ?case by auto
qed simp

lemma before_first_none:
  "before_first ATTEMPT_MARK (before_first ATTEMPT_MARK s @ ATTEMPT_MARK @ d) = before_first ATTEMPT_MARK s"
proof (induction s)
  case Nil
  obtain m where m: "ATTEMPT_MARK = CHR ''#'' # m" by (rule mark_Cons)
  show ?case unfolding m by (simp add: starts_with_def)
next
  case (Cons c s)
  show ?case
  proof (cases "starts_with ATTEMPT_MARK (c # s)")
    case True
    obtain m where m: "ATTEMPT_MARK = CHR ''#'' # m" by (rule mark_Cons)
    show ?thesis using True unfolding m by (simp add: starts_with_def)
  next
    case False
    obtain r where "s = before_first ATTEMPT_MARK s @ r" using before_first_take by blast
    then have "\<not> starts_with ATTEMPT_MARK (c # before_first ATTEMPT_MARK s)"
      using False starts_with_more [of ATTEMPT_MARK "c # before_first ATTEMPT_MARK s" r] by auto
    then have "\<not> starts_with ATTEMPT_MARK (c # before_first ATTEMPT_MARK s @ ATTEMPT_MARK @ d)"
      using starts_with_mark_append by blast
    then show ?thesis using False Cons.IH by simp
  qed
qed

lemma show_int_no_hash: "0 \<le> n \<Longrightarrow> CHR ''#'' \<notin> set (show_int n)"
  using show_nat_digits [of "nat n"] by (auto simp: show_int_def list_all_iff py_digit_def)

lemma attempt_of_retry: "attempt_of (retry_key k n) = max 1 n"
  by (simp add: attempt_of_def retry_key_def after_last_mark show_int_no_hash read_show_int)

lemma show_int_inj: "show_int a = show_int b \<Longrightarrow> a = b"
  using read_show_int by (metis option.inject)

lemma takeWhile_upto: "x \<notin> set h \<Longrightarrow> takeWhile (\<lambda>c. c \<noteq> x) (h @ x # r) = h"
  by (induction h) auto

lemma floor_eq_close: "\<lfloor>a\<rfloor> = \<lfloor>b\<rfloor> \<Longrightarrow> \<bar>a - b\<bar> < (1 :: rat)"
  unfolding abs_less_iff using floor_correct [of a] floor_correct [of b] by (simp, linarith)

lemma same_bucket_close:
  assumes "window_bucket t1 w = window_bucket t2 w"
  shows "\<bar>t1 - t2\<bar> < of_int (max 1 w)"
proof -
  define c :: rat where "c = of_int (max 1 w)"
  have c: "0 < c" by (simp add: c_def)
  have "\<bar>t1 / c - t2 / c\<bar> < 1" using floor_eq_close assms by (simp add: window_bucket_def c_def)
  then have "\<bar>t1 - t2\<bar> / c < 1" using c by (simp add: diff_divide_distrib [symmetric] abs_divide)
  then show ?thesis using c by (simp add: c_def [symmetric] divide_less_eq)
qed

lemma bucket_boundary:
  assumes "0 < e"
  shows "window_bucket (of_int (n * max 1 w) - e) w < window_bucket (of_int (n * max 1 w)) w"
proof -
  define c :: rat where "c = of_int (max 1 w)"
  have c: "0 < c" by (simp add: c_def)
  have "(of_int n * c - e) / c < of_int n" using c assms by (simp add: divide_less_eq)
  then have "\<lfloor>(of_int n * c - e) / c\<rfloor> < n" by (simp add: floor_less_iff)
  moreover have "\<lfloor>(of_int n * c) / c\<rfloor> = n" using c by simp
  ultimately show ?thesis by (simp add: window_bucket_def c_def [symmetric] of_int_mult del: of_int_max)
qed

subsubsection \<open>The canonical payload\<close>

lemma sort_json_object_eq:
  assumes "distinct (List.map fst a)" and "distinct (List.map fst b)"
  shows "sort_json (JObj a) = sort_json (JObj b) \<longleftrightarrow> (\<forall>k. map_option sort_json (dict_get a k) = map_option sort_json (dict_get b k))"
proof -
  define f where "f = (\<lambda>p :: string \<times> json. (fst p, sort_json (snd p)))"
  have keys: "distinct (List.map fst (List.map f a))" "distinct (List.map fst (List.map f b))"
    using assms by (simp_all add: f_def comp_def)
  have get: "map_of (List.map f d) k = map_option sort_json (dict_get d k)" for d k
    by (induction d) (auto simp: f_def dict_get_def)
  have sort: "sort_json (JObj d) = JObj (sort_key fst (List.map f d))" for d by (simp add: f_def)
  show ?thesis
  proof
    assume "sort_json (JObj a) = sort_json (JObj b)"
    then have "mset (List.map f a) = mset (List.map f b)" unfolding sort json.inject by (metis mset_sort)
    then have "map_of (List.map f a) = map_of (List.map f b)"
      using keys by (intro map_of_inject_set [THEN iffD2]) (metis set_mset_mset)+
    then show "\<forall>k. map_option sort_json (dict_get a k) = map_option sort_json (dict_get b k)" by (metis get)
  next
    assume "\<forall>k. map_option sort_json (dict_get a k) = map_option sort_json (dict_get b k)"
    then have "set (List.map f a) = set (List.map f b)"
      using keys get by (intro map_of_inject_set [THEN iffD1]) auto
    moreover have "distinct (List.map f a)" "distinct (List.map f b)" using keys by (simp_all only: distinct_map)
    ultimately have m: "mset (List.map f a) = mset (List.map f b)" by (simp only: set_eq_iff_mset_eq_distinct [symmetric])
    have "sort_key fst (List.map f a) = sort_key fst (List.map f b)"
    proof (rule sort_key_inj_key_eq)
      show "mset (List.map f a) = mset (sort_key fst (List.map f b))" using m by simp
      show "inj_on fst (set (List.map f a))" using keys(1) by (simp only: distinct_map)
      show "sorted (List.map fst (sort_key fst (List.map f b)))" by simp
    qed
    then show "sort_json (JObj a) = sort_json (JObj b)" by (simp only: sort)
  qed
qed

lemma fold_dict_set:
  "dict_get (fold (\<lambda>f. dict_set f (g f)) fs d) k = (if k \<in> set fs then Some (g k) else dict_get d k)"
  by (induction fs arbitrary: d) auto

lemma fold_dict_set_keys: "distinct (List.map fst d) \<Longrightarrow> distinct (List.map fst (fold (\<lambda>f. dict_set f (g f)) fs d))"
  by (induction fs arbitrary: d) (auto simp: dict_set_def distinct_update)

lemma canonical_payload_get:
  "dict_get (canonical_payload body rules) k = (if k \<in> set (declared_fields rules body) then Some (normal_value rules body k) else None)"
  by (simp add: canonical_payload_def fold_dict_set)

lemma canonical_payload_keys: "distinct (List.map fst (canonical_payload body rules))"
  unfolding canonical_payload_def by (rule fold_dict_set_keys) simp

text \<open>Two bodies count as one request when the fields the rules look at have the same normalised values, up to the order of keys.\<close>

definition same_request :: "normalization_rules \<Rightarrow> jobj \<Rightarrow> jobj \<Rightarrow> bool" where
  "same_request rules body body' \<longleftrightarrow> set (declared_fields rules body) = set (declared_fields rules body')
     \<and> list_all (\<lambda>f. sort_json (normal_value rules body f) = sort_json (normal_value rules body' f)) (declared_fields rules body)"

lemma python_json_field:
  assumes "python_json canon (JObj kvs)" and "dict_get kvs p = Some w"
  shows "python_json canon w"
proof -
  have "(p, w) \<in> set kvs" using assms(2) by (intro map_of_SomeD) (simp add: dict_get_def)
  moreover have "\<forall>q \<in> set kvs. python_json canon (snd q)" using assms(1) unfolding python_json.simps list_all_iff by blast
  ultimately show ?thesis by (metis snd_conv)
qed

lemma get_parts_python: "python_json canon v \<Longrightarrow> python_json canon (get_parts ps v)"
proof (induction ps arbitrary: v)
  case (Cons p ps)
  show ?case
  proof (cases v)
    case (JObj kvs)
    then show ?thesis
      using Cons.IH python_json_field [of canon kvs p] Cons.prems by (cases "dict_get kvs p") simp_all
  qed simp_all
qed simp

lemma normal_value_python: "python_json canon (JObj body) \<Longrightarrow> python_json canon (normal_value rules body f)"
  using get_parts_python [of canon "JObj body" "split_on (CHR ''.'') f"]
  by (cases "get_dotted body f") (simp_all add: normal_value_def get_dotted_def Let_def)

lemma canonical_payload_python: "python_json canon (JObj body) \<Longrightarrow> python_json canon (JObj (canonical_payload body rules))"
proof -
  assume b: "python_json canon (JObj body)"
  have "python_json canon v" if "(k, v) \<in> set (canonical_payload body rules)" for k v
    using map_of_is_SomeI [OF canonical_payload_keys that] canonical_payload_get [of body rules k] normal_value_python [OF b]
    by (auto simp: dict_get_def split: if_splits)
  then show ?thesis using canonical_payload_keys by (auto simp: list_all_iff)
qed

lemma canonical_body_eq:
  assumes "python_json canon (JObj body)" and "python_json canon (JObj body')"
  shows "canonical_body body rules = canonical_body body' rules \<longleftrightarrow> same_request rules body body'"
proof -
  have "canonical_body body rules = canonical_body body' rules
      \<longleftrightarrow> sort_json (JObj (canonical_payload body rules)) = sort_json (JObj (canonical_payload body' rules))"
    unfolding canonical_body_def
    using dumps_inject [OF canonical_payload_python [OF assms(1)] canonical_payload_python [OF assms(2)], of True True rules rules]
    by (simp only: if_True)
  also have "\<dots> \<longleftrightarrow> (\<forall>k. map_option sort_json (dict_get (canonical_payload body rules) k) = map_option sort_json (dict_get (canonical_payload body' rules) k))"
    by (rule sort_json_object_eq) (rule canonical_payload_keys)+
  also have "\<dots> \<longleftrightarrow> same_request rules body body'"
    by (auto simp: canonical_payload_get same_request_def list_all_iff split: if_splits)
  finally show ?thesis .
qed

text \<open>
  What the normalisation does not do: a declared field name with a capital letter is never case-folded, a top-level key
  with a dot is read as a path, and an explicit key of blanks is the empty key.
\<close>

definition sample_rules :: normalization_rules where
  "sample_rules = \<lparr>nr_fields = [''Model''], nr_case_insensitive_fields = [''Model''], nr_trim_strings = True\<rparr>"

lemma mixed_case_field_kept: "normal_value sample_rules [(''Model'', JStr '' Pro '')] ''Model'' = JStr ''Pro''"
  by code_simp

lemma dotted_key_lost: "normal_value sample_rules [(''a.b'', JInt 1)] ''a.b'' = JNull"
  by code_simp

lemma blank_explicit_key: "ik_key (resolve_key L (Some ''  '') h body rules) = []"
  by (simp add: resolve_key_def strip_def lstrip_def rstrip_def py_space_def)

subsection \<open>Properties\<close>

text \<open>
  The key of a business retry carries its number and its base: the number is read back, a retry of a retry is the
  retry of the base, and two attempts of one request have the same key only if they are the same attempt.
\<close>

theorem retry_key_round_trip:
  "attempt_of (retry_key k n) = max 1 n
   \<and> retry_key (retry_key k m) n = retry_key k n
   \<and> (retry_key k m = retry_key k n \<longleftrightarrow> max 1 m = max 1 n)"
proof (intro conjI)
  show "attempt_of (retry_key k n) = max 1 n" by (rule attempt_of_retry)
  show "retry_key (retry_key k m) n = retry_key k n" by (simp add: retry_key_def before_first_none)
  show "retry_key k m = retry_key k n \<longleftrightarrow> max 1 m = max 1 n"
    using show_int_inj by (auto simp: retry_key_def)
qed

definition colliding_bodies :: "normalization_rules \<Rightarrow> jobj \<Rightarrow> jobj \<Rightarrow> bool" where
  "colliding_bodies rules body body' \<longleftrightarrow> canonical_body body rules \<noteq> canonical_body body' rules
     \<and> take 32 (sha256_text (canonical_body body rules)) = take 32 (sha256_text (canonical_body body' rules))"

text \<open>
  C6: A derived key identifies the caller and the request. Two requests have the same derived key only if they come under the same
  key hash and are the same request as the normalisation rules see it - or the two normalised texts differ and agree in the first
  half of their digest; and the same request under the same key hash always has the same key, whatever else the bodies carry
  and in whatever order.
\<close>

theorem derived_key_identifies_request:
  assumes "CHR ''|'' \<notin> set h" and "CHR ''|'' \<notin> set h'" and "python_json canon (JObj body)" and "python_json canon (JObj body')"
  shows "(h = h' \<and> same_request rules body body'
      \<longrightarrow> ik_key (resolve_key (cpython L) None h body rules) = ik_key (resolve_key (cpython L) None h' body' rules))
    \<and> (ik_key (resolve_key (cpython L) None h body rules) = ik_key (resolve_key (cpython L) None h' body' rules)
      \<longrightarrow> h = h' \<and> (same_request rules body body' \<or> colliding_bodies rules body body'))"
proof -
  note text_eq = canonical_body_eq [OF assms(3,4), of rules]
  have undeclared: "set (declared_fields rules b) = fst ` set b" if "nr_fields rules = []" for b
    using that by (simp add: declared_fields_def)
  note keys = resolve_key_def derive_key_def DERIVED_PREFIX_def
  have key: "ik_key (resolve_key (cpython L) None k b rules)
      = ''auto:'' @ k @ CHR ''|'' # (if nr_fields rules = [] \<and> b = [] then ''empty'' else take 32 (sha256_text (canonical_body b rules)))" for k b
    by (simp add: keys Let_def body_digest_def cpython_def)
  have digest: "take 32 (sha256_text t) \<noteq> ''empty''" for t
  proof
    assume "take 32 (sha256_text t) = ''empty''"
    then have "length (take 32 (sha256_text t)) = 5" by simp
    then show False by (simp add: sha256_text_shape(1))
  qed
  show ?thesis
  proof (intro conjI impI)
    assume same: "h = h' \<and> same_request rules body body'"
    then have "nr_fields rules = [] \<Longrightarrow> body = [] \<longleftrightarrow> body' = []"
      using undeclared [of body] undeclared [of body'] by (auto simp: same_request_def)
    then show "ik_key (resolve_key (cpython L) None h body rules) = ik_key (resolve_key (cpython L) None h' body' rules)"
      unfolding key using same text_eq by auto
  next
    assume eq: "ik_key (resolve_key (cpython L) None h body rules) = ik_key (resolve_key (cpython L) None h' body' rules)"
    then show h: "h = h'" unfolding key using takeWhile_upto [OF assms(1)] takeWhile_upto [OF assms(2)] by (metis same_append_eq)
    show "same_request rules body body' \<or> colliding_bodies rules body body'"
    proof (cases "nr_fields rules = [] \<and> (body = [] \<or> body' = [])")
      case True
      then have "body = [] \<and> body' = []" using eq digest [symmetric] digest unfolding key h by (auto split: if_splits)
      then show ?thesis by (simp add: same_request_def list_all_iff)
    next
      case False
      then have "take 32 (sha256_text (canonical_body body rules)) = take 32 (sha256_text (canonical_body body' rules))"
        using eq unfolding key h by auto
      then show ?thesis using text_eq by (auto simp: colliding_bodies_def)
    qed
  qed
qed

theorem derived_key_identifies_request_witness:
  "ik_key (resolve_key (cpython sample_lib) None ''h1'' [(''Model'', JStr ''a''), (''seed'', JInt 1)] sample_rules)
     = ik_key (resolve_key (cpython sample_lib) None ''h1'' [(''seed'', JInt 2), (''Model'', JStr '' a'')] sample_rules)"
proof -
  have "same_request sample_rules [(''Model'', JStr ''a''), (''seed'', JInt 1)] [(''seed'', JInt 2), (''Model'', JStr '' a'')]" by code_simp
  moreover have "python_json (\<lambda>t. t) (JObj [(''Model'', JStr ''a''), (''seed'', JInt 1)])"
    "python_json (\<lambda>t. t) (JObj [(''seed'', JInt 2), (''Model'', JStr '' a'')])" by code_simp+
  ultimately show ?thesis
    using derived_key_identifies_request [of "''h1''" "''h1''" "\<lambda>t. t" "[(''Model'', JStr ''a''), (''seed'', JInt 1)]"
        "[(''seed'', JInt 2), (''Model'', JStr '' a'')]" sample_rules sample_lib] by simp
qed

text \<open>
  The window of an idempotency key is a bucket of the clock: two requests share a bucket only if they are less than
  a window apart, requests a window or more apart never do, and requests however close on either side of a multiple of
  the window do not either.
\<close>

theorem window_bucket_bounds:
  "(window_bucket t1 w = window_bucket t2 w \<longrightarrow> \<bar>t1 - t2\<bar> < of_int (max 1 w))
   \<and> (0 < e \<longrightarrow> window_bucket (of_int (n * max 1 w) - e) w \<noteq> window_bucket (of_int (n * max 1 w)) w)"
proof (intro conjI impI)
  show "window_bucket t1 w = window_bucket t2 w \<Longrightarrow> \<bar>t1 - t2\<bar> < of_int (max 1 w)" by (rule same_bucket_close)
  show "0 < e \<Longrightarrow> window_bucket (of_int (n * max 1 w) - e) w \<noteq> window_bucket (of_int (n * max 1 w)) w"
    by (rule less_imp_neq) (rule bucket_boundary)
qed

theorem window_bucket_bounds_witness:
  "window_bucket 86399 86400 \<noteq> window_bucket 86400 86400"
  using window_bucket_bounds [of 0 86400 0 1 1] by simp

end
