(* ===== verification/CallbackAuth.thy ===== *)
theory CallbackAuth
  imports Config Json
begin

text \<open>
  \<open>security/callback_auth.py\<close>: signature verification of upstream callbacks with key rotation and a
  time window, and the deduplication key. HMAC and SHA-256 are those of the library passed along. The random part of
  an opaque token is an argument.
\<close>

definition KID_HEADER :: string where "KID_HEADER = ''x-ag-kid''"
definition TS_HEADER :: string where "TS_HEADER = ''x-ag-timestamp''"
definition SIG_HEADER :: string where "SIG_HEADER = ''x-ag-signature''"

definition TS_MAX_SKEW_SLACK :: rat where
  "TS_MAX_SKEW_SLACK = 1"

record verify_result =
  vr_ok :: bool
  vr_kid :: "string option"
  vr_reason :: "string option"
  vr_replay_suspect :: bool

definition failure_detail :: "verify_result \<Rightarrow> string" where
  "failure_detail r = (case vr_reason r of None \<Rightarrow> [] | Some s \<Rightarrow> s)"

definition new_opaque_token :: "string \<Rightarrow> string" where
  "new_opaque_token raw = str_replace ''_'' ''B'' (str_replace ''-'' ''A'' raw)"

definition sign :: "pylib \<Rightarrow> string \<Rightarrow> string \<Rightarrow> int \<Rightarrow> string \<Rightarrow> string" where
  "sign L kid secret timestamp body =
     lib_hmac L secret (kid @ ''.'' @ show_int timestamp @ ''.'' @ lib_sha256 L body)"

record authenticator =
  au_keys :: "string dict"
  au_active_kid :: string
  au_tolerance_seconds :: int

definition authenticator_of :: "settings \<Rightarrow> authenticator" where
  "authenticator_of s = \<lparr>au_keys = callback_hmac_keys s, au_active_kid = callback_active_kid s,
     au_tolerance_seconds = callback_tolerance_seconds s\<rparr>"

definition rotate :: "string \<Rightarrow> string \<Rightarrow> bool \<Rightarrow> authenticator \<Rightarrow> authenticator" where
  "rotate new_kid new_secret keep_previous a =
     (let keys = dict_set new_kid new_secret (au_keys a) in
      a\<lparr>au_keys := (if keep_previous then keys else filter (\<lambda>(k, v). k = new_kid) keys),
        au_active_kid := new_kid\<rparr>)"

fun header_lookup :: "string dict \<Rightarrow> string \<Rightarrow> string option" where
  "header_lookup [] name = None"
| "header_lookup ((k, v) # hs) name = (if lower k = name then Some v else header_lookup hs name)"

definition rejected :: "string option \<Rightarrow> string \<Rightarrow> bool \<Rightarrow> verify_result" where
  "rejected kid reason replay = \<lparr>vr_ok = False, vr_kid = kid, vr_reason = Some reason, vr_replay_suspect = replay\<rparr>"

definition verify :: "pylib \<Rightarrow> authenticator \<Rightarrow> string dict \<Rightarrow> string \<Rightarrow> time \<Rightarrow> verify_result" where
  "verify L a headers raw_body now =
     (let kid = header_lookup headers KID_HEADER;
          ts_raw = header_lookup headers TS_HEADER;
          sig = header_lookup headers SIG_HEADER
      in (case (kid, ts_raw, sig) of
            (Some (k # ks), Some (t # ts), Some (x # xs)) \<Rightarrow>
              (case dict_get (au_keys a) (k # ks) of
                 None \<Rightarrow> rejected kid (''unknown kid '' @ repr_str (k # ks)) False
               | Some secret \<Rightarrow>
                   (case read_int (t # ts) of
                      None \<Rightarrow> rejected kid ''timestamp not an integer'' False
                    | Some timestamp \<Rightarrow>
                        if abs (now - of_int timestamp) > of_int (au_tolerance_seconds a) + TS_MAX_SKEW_SLACK
                        then rejected kid (''timestamp outside tolerance window ('' @ show_int \<lfloor>abs (now - of_int timestamp)\<rfloor>
                          @ ''s > '' @ show_int (au_tolerance_seconds a) @ ''s)'') True
                        else if sign L (k # ks) secret timestamp raw_body \<noteq> x # xs
                        then rejected kid ''signature mismatch'' False
                        else \<lparr>vr_ok = True, vr_kid = kid, vr_reason = None, vr_replay_suspect = False\<rparr>))
          | _ \<Rightarrow> rejected kid ''missing signature headers'' False))"

definition callback_dedup_key :: "string option \<Rightarrow> string option \<Rightarrow> string option \<Rightarrow> string \<Rightarrow> string" where
  "callback_dedup_key event_id task_id raw_status digest = (case event_id of
       Some (c # s) \<Rightarrow> ''evt:'' @ c # s
     | _ \<Rightarrow> ''sig:'' @ (case task_id of Some (c # s) \<Rightarrow> c # s | _ \<Rightarrow> ''-'') @ '':''
              @ (case raw_status of Some (c # s) \<Rightarrow> c # s | _ \<Rightarrow> ''-'') @ '':'' @ digest)"

definition callback_body_digest :: "pylib \<Rightarrow> string \<Rightarrow> string" where
  "callback_body_digest L raw_body = take 32 (lib_sha256 L raw_body)"

subsection \<open>Lemmas\<close>

lemma header_names:
  "lower KID_HEADER = KID_HEADER" "lower TS_HEADER = TS_HEADER" "lower SIG_HEADER = SIG_HEADER"
  "KID_HEADER \<noteq> TS_HEADER" "KID_HEADER \<noteq> SIG_HEADER" "TS_HEADER \<noteq> SIG_HEADER"
  by code_simp+

lemma header_lookup_In: "header_lookup hs name = Some v \<Longrightarrow> \<exists>k. (k, v) \<in> set hs \<and> lower k = name"
  by (induction hs name rule: header_lookup.induct) (auto split: if_splits)

lemma rejected_simps [simp]: "\<not> vr_ok (rejected k r b)" "vr_kid (rejected k r b) = k"
  by (simp_all add: rejected_def)

text \<open>What an accepted callback carries.\<close>

definition genuine :: "pylib \<Rightarrow> authenticator \<Rightarrow> string dict \<Rightarrow> string \<Rightarrow> time \<Rightarrow> string \<Rightarrow> int \<Rightarrow> bool" where
  "genuine L a headers raw_body now kid timestamp \<longleftrightarrow>
     kid \<noteq> [] \<and> header_lookup headers KID_HEADER = Some kid
     \<and> (\<exists>ts. ts \<noteq> [] \<and> header_lookup headers TS_HEADER = Some ts \<and> read_int ts = Some timestamp)
     \<and> abs (now - of_int timestamp) \<le> of_int (au_tolerance_seconds a) + 1
     \<and> (\<exists>secret. dict_get (au_keys a) kid = Some secret \<and> sign L kid secret timestamp raw_body \<noteq> []
          \<and> header_lookup headers SIG_HEADER = Some (sign L kid secret timestamp raw_body))"

lemma verify_ok_iff:
  "vr_ok (verify L a headers raw_body now) \<longleftrightarrow> (\<exists>kid timestamp. genuine L a headers raw_body now kid timestamp)"
  by (auto simp: verify_def genuine_def Let_def TS_MAX_SKEW_SLACK_def not_less split: option.splits list.splits)

subsection \<open>Properties\<close>


definition signed_headers :: "pylib \<Rightarrow> string \<Rightarrow> string \<Rightarrow> int \<Rightarrow> string \<Rightarrow> string dict" where
  "signed_headers L kid secret timestamp raw_body =
     [(KID_HEADER, kid), (TS_HEADER, show_int timestamp), (SIG_HEADER, sign L kid secret timestamp raw_body)]"

text \<open>
  Key rotation. A callback signed with the secret of a configured key verifies within the tolerance,
  before and after the rotation to another key that keeps the previous ones; after a rotation that does not
  keep them it is rejected, and one signed with the new key verifies.
\<close>

theorem callback_signature_rotation:
  assumes "dict_get (au_keys a) kid = Some secret" and "kid \<noteq> []" and "kid \<noteq> kid'" and "kid' \<noteq> []"
    and "abs (now - of_int timestamp) \<le> of_int (au_tolerance_seconds a)"
    and "\<forall>k m. lib_hmac L k m \<noteq> []"
  shows "vr_ok (verify L a (signed_headers L kid secret timestamp body) body now)
    \<and> vr_ok (verify L (rotate kid' secret' True a) (signed_headers L kid secret timestamp body) body now)
    \<and> vr_ok (verify L (rotate kid' secret' keep a) (signed_headers L kid' secret' timestamp body) body now)
    \<and> \<not> vr_ok (verify L (rotate kid' secret' False a) (signed_headers L kid secret timestamp body) body now)"
proof -
  have hd: "header_lookup (signed_headers L k s timestamp body) KID_HEADER = Some k"
    "header_lookup (signed_headers L k s timestamp body) TS_HEADER = Some (show_int timestamp)"
    "header_lookup (signed_headers L k s timestamp body) SIG_HEADER = Some (sign L k s timestamp body)" for k s
    by (simp_all add: signed_headers_def header_names)
  have ne: "sign L k s timestamp body \<noteq> []" "show_int timestamp \<noteq> []" for k s
    using assms(6) by (auto simp: sign_def show_int_def)
  have acc: "vr_ok (verify L b (signed_headers L k s timestamp body) body now)"
    if "dict_get (au_keys b) k = Some s" "k \<noteq> []" "au_tolerance_seconds b = au_tolerance_seconds a" for b k s
    unfolding verify_ok_iff genuine_def using that assms(5) hd ne read_show_int
    by (intro exI [of _ k] exI [of _ timestamp]) auto
  have filtered: "dict_get (filter (\<lambda>(k, v). k = kid') ks) k = (if k = kid' then dict_get ks k else None)" for ks k
    by (induction ks) auto
  have "\<not> vr_ok (verify L (rotate kid' secret' False a) (signed_headers L kid secret timestamp body) body now)"
    unfolding verify_ok_iff genuine_def using assms(3) hd(1) by (auto simp: rotate_def filtered Let_def)
  moreover have "dict_get (au_keys (rotate kid' secret' keep a)) kid' = Some secret'"
    by (simp add: rotate_def filtered Let_def)
  ultimately show ?thesis
    using acc assms(1-4) by (simp add: rotate_def Let_def)
qed

theorem callback_signature_rotation_witness:
  "vr_ok (verify sample_lib (rotate ''k2'' ''s2'' True (authenticator_of default_settings))
     (signed_headers sample_lib ''k1'' ''dev-only-secret'' 1000 ''{}'') ''{}'' 1100)"
  by (rule conjunct1 [OF conjunct2 [OF callback_signature_rotation
        [of "authenticator_of default_settings" "''k1''" "''dev-only-secret''" "''k2''" 1100 1000 sample_lib "''{}''" "''s2''" True]]])
    (simp_all add: authenticator_of_def default_settings_def sample_lib_def)

text \<open>
  The replay window. The same headers and body cannot be accepted at two moments further apart
  than twice the tolerance and two seconds.
\<close>

theorem callback_replay_window:
  assumes "vr_ok (verify L a headers body t1)" and "vr_ok (verify L a headers body t2)"
  shows "abs (t1 - t2) \<le> 2 * (of_int (au_tolerance_seconds a) + 1)"
proof -
  obtain k1 s1 k2 s2 where g: "genuine L a headers body t1 k1 s1" "genuine L a headers body t2 k2 s2"
    using assms by (auto simp: verify_ok_iff)
  then have "s1 = s2" unfolding genuine_def by force
  then have "abs (t1 - of_int s1) \<le> of_int (au_tolerance_seconds a) + 1" "abs (t2 - of_int s1) \<le> of_int (au_tolerance_seconds a) + 1"
    using g unfolding genuine_def by blast+
  then have "abs (t1 - of_int s1) + abs (t2 - of_int s1) \<le> 2 * (of_int (au_tolerance_seconds a) + 1)"
    using add_mono by fastforce
  moreover have "abs (t1 - t2) \<le> abs (t1 - of_int s1) + abs (t2 - of_int s1)"
    using abs_triangle_ineq4 [of "t1 - of_int s1" "t2 - of_int s1"] by simp
  ultimately show ?thesis by (rule order_trans [rotated])
qed

theorem callback_replay_window_witness:
  "abs ((900 :: rat) - 1100) \<le> 2 * (of_int 300 + 1)"
proof -
  let ?h = "signed_headers sample_lib ''k1'' ''dev-only-secret'' 1000 ''{}''"
  have "vr_ok (verify sample_lib (authenticator_of default_settings) ?h ''{}'' 900)"
    "vr_ok (verify sample_lib (authenticator_of default_settings) ?h ''{}'' 1100)"
    by code_simp+
  from callback_replay_window [OF this] show ?thesis by (simp add: authenticator_of_def default_settings_def)
qed

end
