(* ===== verification/Accept.thy ===== *)
theory Accept
  imports Handlers Idempotency CallbackAuth
begin

text \<open>
  \<open>gateway/accept.py\<close> and the authentication of \<open>gateway/container.py\<close>: the acceptance of a create request as a
  program over the actions of \<open>Prog\<close>. The result of \<open>accept_create\<close> is passed to the continuation; \<open>AcceptError\<close> is
  the exception the program ends in. \<open>uuid4\<close> and the callback token are drawn from the environment.
\<close>

subsection \<open>Authentication\<close>

record auth_context =
  ac_channel :: string
  ac_tenant :: string
  ac_bearer :: "string option"
  ac_key_hash :: string
  ac_actor :: string
  ac_mode :: string

definition or_else :: "string \<Rightarrow> string \<Rightarrow> string" where
  "or_else s d = (if s = [] then d else s)"

definition header_or :: "string dict \<Rightarrow> string \<Rightarrow> string \<Rightarrow> string" where
  "header_or headers name d = or_str (dict_get headers name) d"

definition presented_token :: "string \<Rightarrow> string" where
  "presented_token raw = (if starts_with ''bearer '' (lower raw) then strip (drop 7 raw) else strip raw)"

definition authenticate :: "pylib \<Rightarrow> settings \<Rightarrow> string dict \<Rightarrow> string \<Rightarrow> auth_context res" where
  "authenticate L st headers alias =
     (let chan = or_else (strip (header_or headers ''x-ag-channel'' alias)) alias;
          ten = or_else (strip (header_or headers ''x-ag-tenant'' ''default'')) ''default'';
          raw = header_or headers ''authorization'' []
      in if auth_mode st = AUTH_ADMIN then
           (if presented_token raw = [] \<or> presented_token raw \<noteq> admin_token st
            then Inl (HTTPException 401 ''admin credential required'')
            else (let key = dict_get headers ''x-ag-upstream-key'' in
              Inr \<lparr>ac_channel = chan, ac_tenant = ten, ac_bearer = key,
                   ac_key_hash = key_hash_of L (or_str key chan), ac_actor = ''admin'', ac_mode = ''admin''\<rparr>))
         else if strip raw = [] then Inl (HTTPException 401 ''missing upstream credential'')
         else Inr \<lparr>ac_channel = chan, ac_tenant = ten, ac_bearer = Some (strip raw),
                   ac_key_hash = key_hash_of L (strip raw),
                   ac_actor = ''key:'' @ take 8 (key_hash_of L (strip raw)), ac_mode = ''passthrough''\<rparr>)"

definition assert_owned :: "settings \<Rightarrow> task \<Rightarrow> auth_context \<Rightarrow> unit res" where
  "assert_owned st t a =
     (if ownership_check st \<and> (channel t \<noteq> ac_channel a \<or> tenant t \<noteq> ac_tenant a)
      then Inl (HTTPException 404 ''task not found'') else Inr ())"

subsection \<open>Acceptance\<close>

text \<open>The process of the API: its environment, the depth limit of its bus and the callback keys.\<close>

record api =
  ap_env :: henv
  ap_max_depth :: int
  ap_auth :: authenticator

record accept_result =
  ar_task_id :: string
  ar_http_status :: int
  ar_body :: json
  ar_headers :: "string dict"
  ar_replayed :: bool

definition or_null :: "json option \<Rightarrow> json" where
  "or_null v = (case v of None \<Rightarrow> JNull | Some b \<Rightarrow> b)"

definition archived :: "json \<Rightarrow> json \<Rightarrow> bool \<Rightarrow> json" where
  "archived code body pending = JObj [(''status'', code), (''body'', body), (''pending'', JBool pending)]"

definition replay_result :: "task \<Rightarrow> json option \<Rightarrow> accept_result" where
  "replay_result t stored =
     (let headers = [(''X-AG-Task-Id'', task_id t), (''X-AG-Idempotent-Replay'', ''1'')];
          pending = \<lparr>ar_task_id = task_id t, ar_http_status = 202,
            ar_body = JObj [(''id'', JStr (task_id t)), (''task_id'', JStr (task_id t)), (''status'', JStr (status_value (status t)))],
            ar_headers = headers, ar_replayed = True\<rparr>
      in (case stored of
            Some (JObj kvs) \<Rightarrow>
              if kvs = [] \<or> truthy (field_or_null kvs ''pending'') then pending
              else \<lparr>ar_task_id = task_id t,
                    ar_http_status = (case field_or_null kvs ''status'' of JInt i \<Rightarrow> if i = 0 then 200 else i | _ \<Rightarrow> 200),
                    ar_body = field_or_null kvs ''body'', ar_headers = headers, ar_replayed = True\<rparr>
          | _ \<Rightarrow> pending))"

definition replay_or_conflict :: "task \<Rightarrow> string \<Rightarrow> (accept_result \<Rightarrow> prog) \<Rightarrow> prog" where
  "replay_or_conflict t digest k =
     (if some_truthy (create_req_digest t) \<and> digest \<noteq> [] \<and> create_req_digest t \<noteq> Some digest
      then Fail (AcceptError 409 ''idempotency key reused with a different request body within the dedup window'' None)
      else (let ref = (case dict_get (attributes_of t) ''create_response_ref'' of
                  Some (JStr (c # r)) \<Rightarrow> c # r | _ \<Rightarrow> response_key (tenant t) (task_id t))
            in AskStored ref (\<lambda>stored. k (replay_result t stored))))"

definition must_reload :: "string \<Rightarrow> (task \<Rightarrow> prog) \<Rightarrow> prog" where
  "must_reload tid k = Load tid (\<lambda>row. case row of
      None \<Rightarrow> Fail (AcceptError 500 ''task vanished'' None) | Some t \<Rightarrow> k t)"

definition error_body :: "string \<Rightarrow> string \<Rightarrow> string \<Rightarrow> json" where
  "error_body code msg tid = JObj [(''error'', JObj [(''code'', JStr code), (''message'', JStr msg), (''task_id'', JStr tid)])]"

definition or_body :: "json \<Rightarrow> json \<Rightarrow> json" where
  "or_body native d = (if truthy native then native else d)"

text \<open>What the caller of an inline submission is told, from the row the shared handler code has left.\<close>

definition inline_answer :: "henv \<Rightarrow> auth_context \<Rightarrow> resolved_template \<Rightarrow> string \<Rightarrow> call_result
    \<Rightarrow> (accept_result \<Rightarrow> prog) \<Rightarrow> prog" where
  "inline_answer E a tpl tid result k = must_reload tid (\<lambda>t.
     let native = or_null (response_body result);
         native_status = (case response_status result of Some c \<Rightarrow> c | None \<Rightarrow> 502);
         store = (\<lambda>code rest. Tell (E_put_request (response_key (ac_tenant a) tid) (archived (JInt code) native False)
           (response_ttl_seconds (he_settings E))) rest);
         headers = [(''X-AG-Task-Id'', tid), (''X-AG-Internal-Status'', status_value (status t))]
     in if status t = UPSTREAM_SUBMITTED then
          store native_status (enqueue tid (poll_queue (rt_pool tpl)) ''poll_upstream'' [] (k
            \<lparr>ar_task_id = tid, ar_http_status = (if 200 \<le> native_status \<and> native_status < 300 then native_status else 200),
             ar_body = native,
             ar_headers = [(''X-AG-Task-Id'', tid), (''X-AG-Upstream-Id'', case upstream_task_id t of Some u \<Rightarrow> u | None \<Rightarrow> [])],
             ar_replayed = False\<rparr>))
        else if status t = SUBMIT_UNKNOWN then
          store 504 (k \<lparr>ar_task_id = tid, ar_http_status = 504,
            ar_body = or_body native (error_body (error_code_value EC_TIMEOUT)
              ''upstream create outcome unknown; safe to retry with the same idempotency key'' tid),
            ar_headers = headers, ar_replayed = False\<rparr>)
        else
          store native_status (k \<lparr>ar_task_id = tid, ar_http_status = native_status,
            ar_body = or_body native (error_body
              (case error_code t of Some c \<Rightarrow> error_code_value c | None \<Rightarrow> error_code_value EC_UPSTREAM_TERMINAL)
              (or_str (error_message t) ''upstream create failed'') tid),
            ar_headers = headers, ar_replayed = False\<rparr>))"

definition release_then :: "auth_context \<Rightarrow> prog \<Rightarrow> exn option \<Rightarrow> prog" where
  "release_then a p r = Tell (E_release (ac_channel a) (ac_tenant a)) (case r of None \<Rightarrow> p | Some e \<Rightarrow> Fail e)"

text \<open>The part inside \<open>try ... finally: release\<close>; the answer is built after the release.\<close>

definition inline_with_slot :: "henv \<Rightarrow> auth_context \<Rightarrow> template_version \<Rightarrow> string \<Rightarrow> jobj
    \<Rightarrow> (accept_result \<Rightarrow> prog) \<Rightarrow> prog" where
  "inline_with_slot E a tv tid body k = Load tid (\<lambda>row.
     (let tpl = tv_resolved tv;
          url = (case row of None \<Rightarrow> None | Some t \<Rightarrow> callback_url_for E t tpl)
      in (case render_create tpl body url of
            Inl e \<Rightarrow> release_then a Done (Some e)
          | Inr request \<Rightarrow> Http tid request CTX_SUBMIT (ac_bearer a) (\<lambda>answer. case answer of
                Inl e \<Rightarrow> release_then a Done (Some e)
              | Inr result \<Rightarrow>
                  after_do (release_then a (inline_answer E a tpl tid result k))
                    (must_reload tid (\<lambda>t. handle_submit_result E t tpl
                       (strategy_for (he_setting_names E) (he_policies E) (ac_channel a) tpl) result))))))"

definition apply_mark_intent :: "string \<Rightarrow> (bool \<Rightarrow> prog) \<Rightarrow> prog" where
  apply_mark_intent_def [simp]: "apply_mark_intent tid k = apply_write (W_mark_submit_intent tid) k"

definition apply_release_intent :: "string \<Rightarrow> prog \<Rightarrow> prog" where
  apply_release_intent_def [simp]: "apply_release_intent tid k =
     ask_now (\<lambda>n. apply_write (W_release_submit_intent tid [ACCEPTED] n True None None None None None) (\<lambda>_. k))"

definition inline_submit :: "henv \<Rightarrow> auth_context \<Rightarrow> template_version \<Rightarrow> string \<Rightarrow> jobj
    \<Rightarrow> (accept_result \<Rightarrow> prog) \<Rightarrow> prog" where
  "inline_submit E a tv tid body k =
     apply_mark_intent tid (\<lambda>claimed.
       if \<not> claimed then
         enqueue tid ''submit:default'' ''submit_upstream'' [] (k
           \<lparr>ar_task_id = tid, ar_http_status = 202,
            ar_body = JObj [(''task_id'', JStr tid), (''status'', JStr (status_value ACCEPTED))],
            ar_headers = [], ar_replayed = False\<rparr>)
       else (case channel_limits (he_settings E) (he_policies E) (ac_channel a) of (cl, tn) \<Rightarrow>
         Acquire (ac_channel a) (ac_tenant a) cl tn (\<lambda>d.
           if \<not> sd_granted d then
             apply_release_intent tid (
               enqueue tid ''submit:default'' ''submit_upstream'' []
                 (Fail (AcceptError 429 ''channel concurrency exhausted'' (Some (num_or (sd_retry_after d) 1)))))
           else inline_with_slot E a tv tid body k)))"

definition accepted_row :: "auth_context \<Rightarrow> template_version \<Rightarrow> strategy \<Rightarrow> idempotency_key \<Rightarrow> int \<Rightarrow> int
    \<Rightarrow> string \<Rightarrow> time \<Rightarrow> int \<Rightarrow> string option \<Rightarrow> origin \<Rightarrow> task" where
  "accepted_row a tv strat idem bucket window tid now deadline token orig =
     (new_task tid (ik_key idem) bucket (ac_channel a) (rt_alias (tv_resolved tv)) now)
       \<lparr>idempotency_window_seconds := window, tenant := ac_tenant a, task_type := rt_alias (tv_resolved tv),
        template_version := tv_version tv, max_attempts := py_int (strategy_get strat ''max_attempts'' 3),
        deadline_at := Some (now + of_int deadline), origin := orig, callback_token := token,
        create_req_ref := Some (request_key (ac_tenant a) tid), create_req_digest := Some (ik_body_digest idem),
        attributes := Some [(''create_response_ref'', JStr (response_key (ac_tenant a) tid))]\<rparr>"

definition audit_accept :: "auth_context \<Rightarrow> string \<Rightarrow> template_version \<Rightarrow> idempotency_key \<Rightarrow> origin \<Rightarrow> prog \<Rightarrow> prog" where
  "audit_accept a tid tv idem orig k = Tell (E_audit ''task.accepted'' ''task'' tid
     [(''alias'', JStr (rt_alias (tv_resolved tv))), (''version'', JInt (tv_version tv)), (''channel'', JStr (ac_channel a)),
      (''tenant'', JStr (ac_tenant a)), (''origin'', JStr (origin_value orig)), (''derived_key'', JBool (ik_derived idem)),
      (''auth_mode'', JStr (ac_mode a))]) k"

definition retain_credential :: "henv \<Rightarrow> auth_context \<Rightarrow> string \<Rightarrow> prog \<Rightarrow> prog" where
  "retain_credential E a tid k = (case ac_bearer a of
      Some (c # b) \<Rightarrow> Tell (E_put_credential tid (c # b) (credential_ttl_seconds (he_settings E))) k
    | _ \<Rightarrow> k)"

text \<open>After the row is in: credential, audit, and the message or the inline submission.\<close>

definition accept_inserted :: "henv \<Rightarrow> auth_context \<Rightarrow> template_version \<Rightarrow> idempotency_key \<Rightarrow> origin \<Rightarrow> string \<Rightarrow> jobj
    \<Rightarrow> (accept_result \<Rightarrow> prog) \<Rightarrow> prog" where
  "accept_inserted E a tv idem orig tid body k =
     retain_credential E a tid (audit_accept a tid tv idem orig
       (if submit_mode (he_settings E) = MODE_QUEUED then
          enqueue tid ''submit:default'' ''submit_upstream'' [] (k
            \<lparr>ar_task_id = tid, ar_http_status = 202,
             ar_body = JObj [(''id'', JStr tid), (''task_id'', JStr tid), (''status'', JStr ''queued'')],
             ar_headers = [(''X-AG-Task-Id'', tid), (''X-AG-Internal-Status'', status_value ACCEPTED)],
             ar_replayed = False\<rparr>)
        else inline_submit E a tv tid body k))"

text \<open>The insertion, and the reading of the winner's row when it conflicts.\<close>

definition accept_insert :: "henv \<Rightarrow> auth_context \<Rightarrow> template_version \<Rightarrow> idempotency_key \<Rightarrow> int \<Rightarrow> task \<Rightarrow> jobj
    \<Rightarrow> (accept_result \<Rightarrow> prog) \<Rightarrow> prog" where
  "accept_insert E a tv idem bucket row body k = Insert row (\<lambda>r. case r of
      Some IntegrityError \<Rightarrow> Seek (find_by_idempotency (ik_key idem) bucket) (\<lambda>winner. case winner of
          None \<Rightarrow> Fail (AcceptError 409 ''idempotency conflict'' (Some 1))
        | Some w \<Rightarrow> replay_or_conflict w (ik_body_digest idem) k)
    | Some e \<Rightarrow> Fail e
    | None \<Rightarrow> accept_inserted E a tv idem (origin row) (task_id row) body k)"

definition draw_token :: "resolved_template \<Rightarrow> (string option \<Rightarrow> prog) \<Rightarrow> prog" where
  "draw_token tpl k = (if cap_callback (rt_capabilities tpl) then Draw (\<lambda>s. k (Some s)) else k None)"

definition accept_fresh :: "henv \<Rightarrow> auth_context \<Rightarrow> template_version \<Rightarrow> strategy \<Rightarrow> idempotency_key \<Rightarrow> int \<Rightarrow> int
    \<Rightarrow> origin \<Rightarrow> int option \<Rightarrow> jobj \<Rightarrow> (accept_result \<Rightarrow> prog) \<Rightarrow> prog" where
  "accept_fresh E a tv strat idem bucket window orig deadline body k = Draw (\<lambda>uuid.
     let tid = take 24 uuid;
         seconds = (case deadline of
             Some d \<Rightarrow> if d = 0 then py_int (strategy_get strat ''deadline_seconds'' 1800) else d
           | None \<Rightarrow> py_int (strategy_get strat ''deadline_seconds'' 1800))
     in Tell (E_put_request (request_key (ac_tenant a) tid) (JObj body) (body_ttl_seconds (he_settings E)))
       (Tell (E_put_request (response_key (ac_tenant a) tid) (archived JNull JNull True) (response_ttl_seconds (he_settings E)))
         (ask_now (\<lambda>now. draw_token (tv_resolved tv) (\<lambda>token.
            accept_insert E a tv idem bucket (accepted_row a tv strat idem bucket window tid now seconds token orig) body k)))))"

text \<open>The accept quota and the depth of the queue, before anything is read or written.\<close>

definition admit :: "string \<Rightarrow> prog \<Rightarrow> prog" where
  admit_def [simp]: "admit chan k = Admit chan (\<lambda>d.
     if \<not> sd_granted d then Fail (AcceptError 429 ''accept rate limit exceeded'' (sd_retry_after d)) else k)"

definition check_capacity :: "api \<Rightarrow> string \<Rightarrow> prog \<Rightarrow> prog" where
  check_capacity_def [simp]: "check_capacity A q k = Depth q (\<lambda>depth.
     if ap_max_depth A \<le> depth then Fail (AcceptError 503 (''queue '' @ q @ '' saturated'') (Some 2)) else k)"

definition accept_create :: "api \<Rightarrow> auth_context \<Rightarrow> template_version \<Rightarrow> jobj \<Rightarrow> string option \<Rightarrow> origin \<Rightarrow> int option
    \<Rightarrow> (accept_result \<Rightarrow> prog) \<Rightarrow> prog" where
  "accept_create A a tv body given orig deadline k =
     (let E = ap_env A;
          strat = strategy_for (he_setting_names E) (he_policies E) (ac_channel a) (tv_resolved tv)
      in admit (ac_channel a) (check_capacity A ''submit:default''
          (let idem = resolve_key (he_lib E) given (ac_key_hash a) body (rt_normalize (tv_resolved tv));
               window = py_int (strategy_get strat ''idempotency_window_seconds'' 86400)
           in ask_now (\<lambda>now. let bucket = window_bucket now window in
             Seek (find_by_idempotency (ik_key idem) bucket) (\<lambda>existing. case existing of
                 Some t \<Rightarrow> replay_or_conflict t (ik_body_digest idem) k
               | None \<Rightarrow> accept_fresh E a tv strat idem bucket window orig deadline body k)))))"

end
