(* ===== verification/Routing.thy ===== *)
theory Routing
  imports Render
begin

text \<open>
  \<open>gateway/routing.py\<close>: the rest of a protocol path is matched against the create, query and cancel paths of the
  template. A compiled pattern is the list of literal pieces between the occurrences of \<open>{id}\<close>; each gap is
  \<open>([^/]+)\<close>, matched greedily with backtracking, and the end is \<open>/?$\<close>, where \<open>$\<close> also matches before a final newline.
\<close>

datatype route_match = Create | Query "string" | Cancel "string"

definition normalize_path :: "string \<Rightarrow> string" where
  "normalize_path raw =
     (let p = strip (takeWhile (\<lambda>c. c \<noteq> CHR ''?'') raw);
          p = (if starts_with ''/'' p then p else CHR ''/'' # p);
          p = rstrip_char (CHR ''/'') p
      in if p = [] then ''/'' else p)"

text \<open>\<open>skip\<close> counts the characters of an occurrence already consumed.\<close>

fun pieces :: "nat \<Rightarrow> string \<Rightarrow> string list" where
  "pieces skip [] = [[]]"
| "pieces (Suc k) (c # s) = pieces k s"
| "pieces 0 (c # s) =
     (if starts_with ID_PLACEHOLDER (c # s) then [] # pieces (length ID_PLACEHOLDER - 1) s
      else (case pieces 0 s of [] \<Rightarrow> [[c]] | w # ws \<Rightarrow> (c # w) # ws))"

definition path_pattern :: "string \<Rightarrow> string list" where
  "path_pattern template_path = pieces 0 (normalize_path template_path)"

definition at_end :: "string \<Rightarrow> bool" where
  "at_end r \<longleftrightarrow> r \<in> {[], ''/'', [CHR 0x0A], [CHR ''/'', CHR 0x0A]}"

text \<open>The captures of a match, from the longest candidate of each gap downwards.\<close>

fun first_some :: "'a option list \<Rightarrow> 'a option" where
  "first_some [] = None"
| "first_some (None # xs) = first_some xs"
| "first_some (Some x # xs) = Some x"

fun match_pieces :: "string list \<Rightarrow> string \<Rightarrow> string list option" where
  "match_pieces [] s = None"
| "match_pieces [lit] s = (if starts_with lit s \<and> at_end (drop (length lit) s) then Some [] else None)"
| "match_pieces (lit # l # ls) s =
     (if \<not> starts_with lit s then None
      else (let r = drop (length lit) s in
        first_some (List.map (\<lambda>k. map_option ((#) (take k r)) (match_pieces (l # ls) (drop k r)))
          (rev [1..<Suc (length (takeWhile (\<lambda>c. c \<noteq> CHR ''/'') r))]))))"

text \<open>\<open>m.group(1)\<close> of a pattern without a gap raises.\<close>

definition group1 :: "string list \<Rightarrow> string res" where
  "group1 caps = (case caps of [] \<Rightarrow> Inl (IndexError ''no such group'') | c # _ \<Rightarrow> Inr c)"

definition match_route :: "resolved_template \<Rightarrow> string \<Rightarrow> string \<Rightarrow> route_match option res" where
  "match_route t raw_path verb =
     (let path = normalize_path raw_path; m = upper verb in
      if m = upper (rt_create_method t) \<and> path = normalize_path (rt_create_path t) then Inr (Some Create)
      else (case (if m = upper (rt_cancel_method t) then match_pieces (path_pattern (rt_cancel_path_template t)) path else None) of
          Some caps \<Rightarrow> bind_res (group1 caps) (\<lambda>i. Inr (Some (Cancel i)))
        | None \<Rightarrow> (case (if m = upper (rt_get_method t) then match_pieces (path_pattern (rt_get_path_template t)) path else None) of
              Some caps \<Rightarrow> bind_res (group1 caps) (\<lambda>i. Inr (Some (Query i)))
            | None \<Rightarrow> Inr None)))"

definition scheme_char :: "char \<Rightarrow> bool" where
  "scheme_char c \<longleftrightarrow> ascii_alnum c \<or> c \<in> set ''+.-''"

definition looks_like_absolute_url :: "string \<Rightarrow> bool" where
  "looks_like_absolute_url v = (case v of
      [] \<Rightarrow> False
    | c # s \<Rightarrow> ascii_alpha c \<and> starts_with ''://'' (dropWhile scheme_char s))"

subsection \<open>Lemmas\<close>

lemma pieces_plain: "CHR ''{'' \<notin> set s \<Longrightarrow> pieces 0 s = [s]"
proof (induction s)
  case (Cons c s)
  then have "\<not> starts_with ID_PLACEHOLDER (c # s)" by (auto simp: starts_with_def ID_PLACEHOLDER_def)
  then show ?case using Cons by simp
qed simp

lemma pieces_skip: "pieces (length u) (u @ s) = pieces 0 s"
  by (induction u) (cases s; simp)+

lemma pieces_one:
  assumes "CHR ''{'' \<notin> set pre" and "CHR ''{'' \<notin> set post"
  shows "pieces 0 (pre @ ID_PLACEHOLDER @ post) = [pre, post]"
  using assms(1)
proof (induction pre)
  case Nil
  have "pieces 3 (''id}'' @ post) = pieces 0 post"
    using pieces_skip [of "''id}''" post] by (simp add: eval_nat_numeral)
  then show ?case using pieces_plain [OF assms(2)] by (simp add: ID_PLACEHOLDER_def starts_with_def)
next
  case (Cons c pre)
  then have "\<not> starts_with ID_PLACEHOLDER (c # pre @ ID_PLACEHOLDER @ post)"
    by (auto simp: starts_with_def ID_PLACEHOLDER_def)
  then show ?case using Cons by simp
qed

lemma first_some_found:
  assumes "k \<in> set ks" and "f k = Some x" and "\<And>j. j \<in> set ks \<Longrightarrow> k < j \<Longrightarrow> f j = None" and "sorted_wrt (>) ks"
  shows "first_some (List.map f ks) = Some x"
  using assms
proof (induction ks)
  case (Cons j ks)
  show ?case
  proof (cases "j = k")
    case False
    then have "k \<in> set ks" and "k < j" using Cons.prems(1,4) by auto
    then show ?thesis using Cons by simp
  qed (use Cons.prems(2) in simp)
qed simp

lemma match_one_gap:
  assumes s: "s \<noteq> []" "CHR ''/'' \<notin> set s"
  shows "match_pieces [pre, post] (pre @ s @ post) = Some [s]"
proof -
  let ?r = "s @ post"
  let ?m = "length (takeWhile (\<lambda>c. c \<noteq> CHR ''/'') ?r)"
  let ?f = "\<lambda>k. map_option ((#) (take k ?r)) (match_pieces [post] (drop k ?r))"
  have m: "length s \<le> ?m" using s(2) by (subst takeWhile_append2) auto
  have "first_some (List.map ?f (rev [1..<Suc ?m])) = Some [s]"
  proof (rule first_some_found [where k = "length s"])
    show "length s \<in> set (rev [1..<Suc ?m])" using m s(1) by (cases s) auto
    show "?f (length s) = Some [s]" by (simp add: starts_with_def at_end_def)
    show "?f j = None" if "j \<in> set (rev [1..<Suc ?m])" and "length s < j" for j
    proof -
      have "?m \<le> length ?r" by (rule length_takeWhile_le)
      moreover have "j \<le> ?m" using that(1) by auto
      ultimately have "j \<le> length ?r" by (rule order_trans [rotated])
      then have "length (drop j ?r) < length post" using that(2) by simp
      then have "\<not> starts_with post (drop j ?r)"
        unfolding starts_with_def by (metis length_take min_less_iff_conj nat_neq_iff)
      then show ?thesis by simp
    qed
    show "sorted_wrt (>) (rev [1..<Suc ?m])" by (simp add: sorted_wrt_rev del: upt_Suc)
  qed
  moreover have "starts_with pre (pre @ s @ post)" "drop (length pre) (pre @ s @ post) = s @ post"
    by (simp_all add: starts_with_def)
  ultimately show ?thesis unfolding match_pieces.simps Let_def by (simp only: not_True_eq_False if_False)
qed

lemma normalize_plain:
  assumes "starts_with ''/'' p" and "CHR ''?'' \<notin> set p" and "last p \<noteq> CHR ''/''" and "\<not> py_space (last p)"
  shows "normalize_path p = p"
proof -
  obtain r where p: "p = CHR ''/'' # r" using assms(1) by (cases p) (auto simp: starts_with_def)
  have 1: "takeWhile (\<lambda>c. c \<noteq> CHR ''?'') p = p" using assms(2) by (auto simp: takeWhile_eq_all_conv)
  have 2: "strip p = p" by (rule strip_plain) (use p assms(4) in \<open>simp_all add: py_space_def\<close>)
  have 3: "rstrip_char (CHR ''/'') p = p"
  proof -
    have "hd (rev p) = last p" by (simp add: hd_rev p)
    then have "dropWhile (\<lambda>x. x = CHR ''/'') (rev p) = rev p" using assms(3) by (simp only: dropWhile_eq_self_iff simp_thms)
    then show ?thesis by (simp add: rstrip_char_def)
  qed
  have 4: "p \<noteq> []" by (simp add: p)
  show ?thesis using assms(1) 4 unfolding normalize_path_def Let_def 1 2 by (simp add: 3)
qed

definition plain_template :: "string \<Rightarrow> string \<Rightarrow> bool" where
  "plain_template pre post \<longleftrightarrow> starts_with ''/'' pre \<and> CHR ''{'' \<notin> set (pre @ post) \<and> CHR ''?'' \<notin> set (pre @ post)
     \<and> (post \<noteq> [] \<longrightarrow> last post \<noteq> CHR ''/'' \<and> \<not> py_space (last post))"

lemma safe_char_no_space: "safe_char c \<Longrightarrow> \<not> py_space c"
  by (auto simp: safe_char_def ascii_alnum_def ascii_alpha_def ascii_upper_def ascii_lower_def py_digit_def py_space_def Let_def)

lemma starts_with_slash_append: "starts_with ''/'' pre \<Longrightarrow> starts_with ''/'' (pre @ r)"
  by (cases pre) (simp_all add: starts_with_def)

lemma plain_normal:
  assumes "plain_template pre post" and "s \<noteq> []" and "CHR ''?'' \<notin> set s"
    and "last s \<noteq> CHR ''/''" and "\<not> py_space (last s)"
  shows "normalize_path (pre @ s @ post) = pre @ s @ post"
  by (rule normalize_plain; cases post) (use assms in \<open>auto simp: plain_template_def starts_with_slash_append\<close>)

lemma pattern_of_plain:
  assumes "plain_template pre post"
  shows "path_pattern (pre @ ID_PLACEHOLDER @ post) = [pre, post]"
proof -
  have "normalize_path (pre @ ID_PLACEHOLDER @ post) = pre @ ID_PLACEHOLDER @ post"
    by (rule plain_normal [OF assms]) (simp_all add: ID_PLACEHOLDER_def py_space_def)
  then show ?thesis using pieces_one assms by (simp add: path_pattern_def plain_template_def)
qed

lemma rendered_path_matches:
  assumes "plain_template pre post" and "render_path (pre @ ID_PLACEHOLDER @ post) [(''id'', JStr i)] = Inr p"
  shows "normalize_path p = p \<and> match_pieces (path_pattern (pre @ ID_PLACEHOLDER @ post)) p = Some [i]"
proof -
  obtain s where s: "p = pre @ s @ post" "list_all safe_char s" "s \<noteq> []" "py_str (JStr i) = s"
    using render_path_id [of pre post "JStr i" p] assms by (auto simp: plain_template_def)
  have "CHR ''?'' \<notin> set s" "CHR ''/'' \<notin> set s" using s(2) safe_char_plain by (auto simp: list_all_iff)
  moreover have "safe_char (last s)" using s(2,3) by (simp add: list_all_iff)
  ultimately show ?thesis
    using s plain_normal [OF assms(1) s(3)] safe_char_plain safe_char_no_space match_one_gap [OF s(3)] pattern_of_plain [OF assms(1)]
    by auto
qed

subsection \<open>Properties\<close>

text \<open>
  Routing recovers what rendering put into a path. For a template whose query (or cancel) path has one \<open>{id}\<close>, the
  path rendered for an upstream id is routed to the query (or cancel) of exactly that id, whatever the other paths are,
  as long as the methods differ as the schema has it.
\<close>

theorem route_recovers_rendered_id:
  assumes "plain_template pre post" and "render_path (pre @ ID_PLACEHOLDER @ post) [(''id'', JStr i)] = Inr p"
  shows "(rt_get_path_template t = pre @ ID_PLACEHOLDER @ post \<and> upper verb = upper (rt_get_method t)
        \<and> upper verb \<noteq> upper (rt_create_method t) \<and> upper verb \<noteq> upper (rt_cancel_method t)
        \<longrightarrow> match_route t p verb = Inr (Some (Query i)))
    \<and> (rt_cancel_path_template t = pre @ ID_PLACEHOLDER @ post \<and> upper verb = upper (rt_cancel_method t)
        \<and> upper verb \<noteq> upper (rt_create_method t)
        \<longrightarrow> match_route t p verb = Inr (Some (Cancel i)))"
  using rendered_path_matches [OF assms] by (auto simp: match_route_def Let_def group1_def)

theorem route_recovers_rendered_id_witness:
  "match_route sample_template ''/v1/tasks/abc-1'' ''get'' = Inr (Some (Query ''abc-1''))"
proof -
  have "plain_template ''/v1/tasks/'' []" by code_simp
  moreover have "render_path (''/v1/tasks/'' @ ID_PLACEHOLDER @ []) [(''id'', JStr ''abc-1'')] = Inr ''/v1/tasks/abc-1''" by code_simp
  moreover have "rt_get_path_template sample_template = ''/v1/tasks/'' @ ID_PLACEHOLDER @ []
      \<and> upper ''get'' = upper (rt_get_method sample_template)
      \<and> upper ''get'' \<noteq> upper (rt_create_method sample_template) \<and> upper ''get'' \<noteq> upper (rt_cancel_method sample_template)"
    by code_simp
  ultimately show ?thesis using route_recovers_rendered_id by blast
qed

text \<open>A path with a query string loses it when the pattern is built, and a pattern without a gap has no group to read.\<close>

lemma query_template_unroutable:
  "match_route (sample_template\<lparr>rt_get_path_template := ''/v1/task?id={id}''\<rparr>) ''/v1/task?id=abc'' ''GET''
     = Inl (IndexError ''no such group'')"
  by code_simp

end
