(* ===== verification/Output.thy ===== *)
theory Output
  imports Template Models
begin

text \<open>
  \<open>gateway/output.py\<close>: the response of the query side. The upstream's own document with the status, the
  result and the error field rewritten where the lifecycle of the gateway requires it. \<open>store\<close> says whether
  a result store is configured; \<open>late\<close> is the deadline clock of the expression sandbox. The texts of the degradation
  notices are left out, their codes are kept.
\<close>

definition PENDING_PLACEHOLDER_STATUS :: string where
  "PENDING_PLACEHOLDER_STATUS = ''queued''"

definition degraded_notices :: "bool \<Rightarrow> task \<Rightarrow> resolved_template \<Rightarrow> bool \<Rightarrow> string list" where
  "degraded_notices store t tpl result_available =
     (case dict_get (attributes_of t) ''cancel_degraded'' of
        Some v \<Rightarrow> if truthy v then [''cancel_requested''] else [] | None \<Rightarrow> [])
     @ (if rp_mode (rt_result_policy tpl) = RM_PASSTHROUGH then [''passthrough_result''] else [])
     @ (if rp_mode (rt_result_policy tpl) = RM_STORE \<and> \<not> store then [''transfer_disabled''] else [])
     @ (case result_degraded t of Some v \<Rightarrow> if truthy v then [''result_unavailable''] else [] | None \<Rightarrow> [])
     @ (if status t = POLL_UNRECOGNIZED then [''poll_unrecognized''] else [])
     @ (if is_internal_terminal (status t) then [''gateway_internal_terminal''] else [])
     @ (if \<not> cap_upstream_idempotent (rt_capabilities tpl) then [''upstream_idempotent_false''] else [])
     @ (if rt_status_source tpl = SRC_CALLBACK \<and> \<not> cap_callback (rt_capabilities tpl)
        then [''callback_unavailable''] else [])
     @ (if \<not> result_available \<and> status t = SUCCEEDED \<and> rp_mode (rt_result_policy tpl) = RM_STORE \<and> store
        then [''result_pending''] else [])"

definition opt_json :: "string option \<Rightarrow> json" where
  "opt_json x = (case x of None \<Rightarrow> JNull | Some s \<Rightarrow> JStr s)"

definition envelope :: "pylib \<Rightarrow> bool \<Rightarrow> task \<Rightarrow> resolved_template \<Rightarrow> bool \<Rightarrow> jobj" where
  "envelope L store t tpl result_available =
     [(''task_id'', JStr (task_id t)), (''alias'', JStr (template_alias t)),
      (''template_version'', JInt (template_version t)), (''raw_status'', opt_json (raw_status t)),
      (''terminal'', JStr (output_terminal_value (output_terminal (status t)))),
      (''internal_status'', JStr (status_value (status t))), (''attempts'', JInt (attempts t)),
      (''error_code'', opt_json (map_option error_code_value (error_code t))),
      (''next_poll_at'', opt_json (map_option (lib_isoformat L) (next_poll_at t))),
      (''deadline_at'', opt_json (map_option (lib_isoformat L) (deadline_at t))),
      (''degraded'', JArr (List.map (\<lambda>c. JObj [(''code'', JStr c)]) (degraded_notices store t tpl result_available)))]"

definition native_snapshot :: "task \<Rightarrow> json" where
  "native_snapshot t = (case status_snapshot t of None \<Rightarrow> JObj [] | Some s \<Rightarrow> s)"

definition failure_values :: "resolved_template \<Rightarrow> string list" where
  "failure_values tpl = tm_failure (rt_terminal tpl) @ tm_expired (rt_terminal tpl)"

definition native_in :: "string option \<Rightarrow> string list \<Rightarrow> bool" where
  "native_in x vs \<longleftrightarrow> (case x of None \<Rightarrow> False | Some s \<Rightarrow> s \<in> set vs)"

text \<open>The value to write and whether it must be written; \<open>None\<close> only where the raw status is.\<close>

definition effective_status_value :: "task \<Rightarrow> resolved_template \<Rightarrow> string option \<times> bool" where
  "effective_status_value t tpl =
     (let native = raw_status t; success = tm_success (rt_terminal tpl) in
      if status t = SUCCEEDED then
        (if native_in native success then (native, False) else (Some (first_or success ''succeeded''), True))
      else if status t = CANCELLED then
        (if native_in native (failure_values tpl) then (native, False) else (Some (effective_failure_status tpl), True))
      else if is_internal_terminal (status t) then
        (if native_in native (failure_values tpl) \<and> status t = TIMEOUT \<and> native_in native (tm_expired (rt_terminal tpl))
         then (native, False) else (Some (effective_failure_status tpl), True))
      else if native = None then (Some PENDING_PLACEHOLDER_STATUS, True)
      else (native, False))"

text \<open>\<open>except Exception\<close> around \<open>try_extract\<close>: whatever it raises counts as absent.\<close>

definition status_present :: "(nat \<Rightarrow> bool) \<Rightarrow> json \<Rightarrow> string \<Rightarrow> bool" where
  "status_present late doc spec = (case try_extract late doc spec of Inr (Some _) \<Rightarrow> True | _ \<Rightarrow> False)"

definition rewrite_status :: "(nat \<Rightarrow> bool) \<Rightarrow> task \<Rightarrow> resolved_template \<Rightarrow> json \<Rightarrow> json res" where
  "rewrite_status late t tpl doc = (case effective_status_value t tpl of
       (None, _) \<Rightarrow> Inr doc
     | (Some v, must) \<Rightarrow>
         if must \<or> \<not> status_present late doc (rt_status_field tpl)
         then write_or_skip doc (rt_status_field tpl) (JStr v) else Inr doc)"

definition with_hint :: "json \<Rightarrow> json" where
  "with_hint doc = (case doc of
       JObj d \<Rightarrow> JObj (if dict_get d ''_result_hint'' = None
                 then dict_set ''_result_hint'' (JStr ''unavailable_or_pending'') d else d)
     | _ \<Rightarrow> doc)"

definition error_detail :: "task \<Rightarrow> resolved_template \<Rightarrow> string" where
  "error_detail t tpl = (let msg = strip (case error_message t of None \<Rightarrow> [] | Some m \<Rightarrow> m) in
     if msg = [] then effective_failure_error_code tpl else msg)"

definition rewrite_result :: "bool \<Rightarrow> task \<Rightarrow> resolved_template \<Rightarrow> string option \<Rightarrow> json \<Rightarrow> json res" where
  "rewrite_result store t tpl result_url doc =
     (if status t = SUCCEEDED then
        (if rp_mode (rt_result_policy tpl) = RM_STORE \<and> store
         then bind_res (write_or_skip doc (rt_result_location tpl) (opt_json result_url))
            (\<lambda>d. Inr (if result_url = None then with_hint d else d))
         else Inr doc)
      else if is_internal_terminal (status t) \<or> status t = CANCELLED then
        bind_res (case tm_error_field (rt_terminal tpl) of
            Some (c # f) \<Rightarrow> write_or_skip doc (c # f) (JStr (error_detail t tpl))
          | _ \<Rightarrow> Inr doc)
          (\<lambda>d. if rp_mode (rt_result_policy tpl) = RM_STORE
               then write_or_skip d (rt_result_location tpl) JNull else Inr d)
      else Inr doc)"

definition build_native_query_response :: "(nat \<Rightarrow> bool) \<Rightarrow> bool \<Rightarrow> task \<Rightarrow> resolved_template \<Rightarrow> string option
    \<Rightarrow> json res" where
  "build_native_query_response late store t tpl result_url = (case native_snapshot t of
       JObj d \<Rightarrow> bind_res (rewrite_status late t tpl (JObj d)) (rewrite_result store t tpl result_url)
     | s \<Rightarrow> Inr s)"

definition body_field_name :: "resolved_template \<Rightarrow> string option res" where
  "body_field_name tpl = bind_res (compile_expression (rt_result_location tpl)) (\<lambda>p.
     Inr (if p = [] then None else (case last p of Key k \<Rightarrow> Some k | Index _ \<Rightarrow> None)))"

definition response_headers :: "task \<Rightarrow> secs \<Rightarrow> string dict" where
  "response_headers t refresh_interval =
     [(''X-AG-Task-Id'', task_id t), (''X-AG-Internal-Status'', status_value (status t)), (''X-AG-Envelope'', ''1'')]
     @ (if status t = SUCCEEDED \<or> status t = POLL_UNRECOGNIZED \<or> is_internal_terminal (status t)
        then [(''X-AG-Snapshot'', ''terminal'')]
        else [(''X-AG-Snapshot'', ''cached''), (''Retry-After'', show_int (max 1 (py_int refresh_interval)))])"

definition create_response :: "json \<Rightarrow> json" where
  "create_response native_body = native_body"

subsection \<open>Lemmas\<close>

text \<open>A template whose status values and paths do not contradict each other.\<close>

definition status_path_ok :: "resolved_template \<Rightarrow> bool" where
  "status_path_ok tpl \<longleftrightarrow> (\<exists>p. compile_expression (rt_status_field tpl) = Inr p \<and> p \<noteq> [] \<and> list_all is_key p
     \<and> (\<forall>q. compile_expression (rt_result_location tpl) = Inr q \<longrightarrow> diverge p q)
     \<and> (\<forall>f q. tm_error_field (rt_terminal tpl) = Some f \<longrightarrow> compile_expression f = Inr q \<longrightarrow> diverge p q)
     \<and> hd p \<noteq> Key ''_result_hint'')"

definition status_values_ok :: "resolved_template \<Rightarrow> bool" where
  "status_values_ok tpl \<longleftrightarrow> tm_success (rt_terminal tpl) \<noteq> []
     \<and> effective_failure_status tpl \<in> set (failure_values tpl)
     \<and> set (tm_success (rt_terminal tpl)) \<inter> set (failure_values tpl) = {}"

lemma hint_reads:
  assumes "compile_expression spec = Inr p" and "p \<noteq> []" and "hd p \<noteq> Key ''_result_hint''"
    and "read_now doc spec = Inr x"
  shows "read_now (with_hint doc) spec = Inr x"
proof (cases doc)
  case (JObj d)
  obtain s ss where p: "p = s # ss" using assms(2) by (cases p) auto
  show ?thesis
    using assms(1,3,4) JObj p by (cases s) (auto simp: read_now_def with_hint_def)
qed (use assms in \<open>simp_all add: with_hint_def\<close>)

lemma rewrite_result_reads:
  assumes "status_path_ok tpl" and "rewrite_result store t tpl url (JObj d) = Inr doc"
    and "read_now (JObj d) (rt_status_field tpl) = Inr x"
  shows "read_now doc (rt_status_field tpl) = Inr x"
proof -
  obtain p where p: "compile_expression (rt_status_field tpl) = Inr p" "p \<noteq> []" "list_all is_key p"
    "\<forall>q. compile_expression (rt_result_location tpl) = Inr q \<longrightarrow> diverge p q"
    "\<forall>f q. tm_error_field (rt_terminal tpl) = Some f \<longrightarrow> compile_expression f = Inr q \<longrightarrow> diverge p q"
    "hd p \<noteq> Key ''_result_hint''"
    using assms(1) unfolding status_path_ok_def by blast
  have res: "read_now d1 (rt_status_field tpl) = Inr x"
    if "write_or_skip (JObj c) (rt_result_location tpl) v = Inr d1" "read_now (JObj c) (rt_status_field tpl) = Inr x" for c d1 v
    by (rule write_or_skip_other [OF p(1,3,4) that])
  have err: "read_now d1 (rt_status_field tpl) = Inr x"
    if "tm_error_field (rt_terminal tpl) = Some f" "write_or_skip (JObj d) f v = Inr d1" for f d1 v
    by (rule write_or_skip_other [OF p(1,3) _ that(2) assms(3)]) (use p(5) that(1) in blast)
  show ?thesis
  proof (cases "status t = SUCCEEDED")
    case True
    then show ?thesis
      using assms(2,3) res hint_reads [OF p(1,2,6)]
      by (auto simp: rewrite_result_def bind_res_Inr_iff split: if_splits)
  next
    case False
    show ?thesis
    proof (cases "is_internal_terminal (status t) \<or> status t = CANCELLED")
      case True
      then obtain e where e: "(case tm_error_field (rt_terminal tpl) of
            Some (c # f) \<Rightarrow> write_or_skip (JObj d) (c # f) (JStr (error_detail t tpl))
          | _ \<Rightarrow> Inr (JObj d)) = Inr e"
        and doc: "(if rp_mode (rt_result_policy tpl) = RM_STORE
               then write_or_skip e (rt_result_location tpl) JNull else Inr e) = Inr doc"
        using assms(2) False by (auto simp: rewrite_result_def bind_res_Inr_iff)
      have "\<exists>c. e = JObj c" and "read_now e (rt_status_field tpl) = Inr x"
        using e assms(3) err write_or_skip_obj by (auto split: option.splits list.splits)
      then show ?thesis using doc res by (auto split: if_splits)
    next
      case False2: False
      then show ?thesis using assms(2,3) False by (simp add: rewrite_result_def)
    qed
  qed
qed

lemma effective_status_Some: "\<exists>v b. effective_status_value t tpl = (Some v, b)"
  by (auto simp: effective_status_value_def Let_def native_in_def split: option.splits)

lemma effective_status_class:
  assumes "status_values_ok tpl" and "effective_status_value t tpl = (Some v, b)"
  shows "(status t = SUCCEEDED \<longrightarrow> maps_status tpl v = Some SUCCEEDED)
    \<and> (status t = CANCELLED \<or> is_internal_terminal (status t) \<longrightarrow> maps_status tpl v = Some FAILED \<or> maps_status tpl v = Some TIMEOUT)
    \<and> (\<not> is_business_terminal (status t) \<longrightarrow> v = (case raw_status t of None \<Rightarrow> PENDING_PLACEHOLDER_STATUS | Some s \<Rightarrow> s))"
proof -
  have fail: "maps_status tpl x = Some FAILED \<or> maps_status tpl x = Some TIMEOUT" if "x \<in> set (failure_values tpl)" for x
    using assms(1) that by (auto simp: maps_status_def status_values_ok_def failure_values_def)
  have succ: "first_or (tm_success (rt_terminal tpl)) d \<in> set (tm_success (rt_terminal tpl))" for d
    using assms(1) by (cases "tm_success (rt_terminal tpl)") (auto simp: first_or_def status_values_ok_def)
  have eff: "effective_failure_status tpl \<in> set (failure_values tpl)"
    using assms(1) by (simp add: status_values_ok_def)
  show ?thesis
  proof (cases "status t = SUCCEEDED")
    case True
    then have "v \<in> set (tm_success (rt_terminal tpl))"
      using assms(2) succ by (auto simp: effective_status_value_def Let_def native_in_def split: if_splits option.splits)
    with True show ?thesis
      by (simp add: maps_status_def is_internal_terminal_def INTERNAL_TERMINAL_def is_business_terminal_def BUSINESS_TERMINAL_def)
  next
    case ns: False
    show ?thesis
    proof (cases "status t = CANCELLED \<or> is_internal_terminal (status t)")
      case True
      then have "v \<in> set (failure_values tpl)"
        using assms(2) ns eff by (auto simp: effective_status_value_def Let_def native_in_def split: if_splits option.splits)
      moreover have "is_business_terminal (status t)"
        using True by (auto simp: is_internal_terminal_def INTERNAL_TERMINAL_def is_business_terminal_def BUSINESS_TERMINAL_def)
      ultimately show ?thesis using ns fail by simp
    next
      case False
      then show ?thesis
        using assms(2) ns by (auto simp: effective_status_value_def Let_def split: if_splits option.splits)
    qed
  qed
qed

subsection \<open>Properties\<close>

text \<open>
  A client that reads the status of a query response through the template's own mapping learns the
  outcome the gateway recorded. For templates whose paths and status values do not contradict each other, and a
  snapshot whose status field, where present, is the recorded raw status, the response carries a status value that
  the template maps to success for a succeeded task and to a failure for a cancelled task and for the
  gateway's internal terminal states; a task in progress shows its raw status, or the placeholder.
\<close>

theorem query_response_truthful:
  assumes "status_path_ok tpl" and "status_values_ok tpl" and "native_snapshot t = JObj d"
    and "\<forall>s. raw_status t = Some s \<longrightarrow> status_present late (JObj d) (rt_status_field tpl) \<longrightarrow>
           read_now (JObj d) (rt_status_field tpl) = Inr (JStr s)"
    and "build_native_query_response late store t tpl url = Inr doc"
  shows "\<exists>v. read_now doc (rt_status_field tpl) = Inr (JStr v)
    \<and> (status t = SUCCEEDED \<longrightarrow> maps_status tpl v = Some SUCCEEDED)
    \<and> (status t = CANCELLED \<or> is_internal_terminal (status t) \<longrightarrow> maps_status tpl v = Some FAILED \<or> maps_status tpl v = Some TIMEOUT)
    \<and> (\<not> is_business_terminal (status t) \<longrightarrow> v = (case raw_status t of None \<Rightarrow> PENDING_PLACEHOLDER_STATUS | Some s \<Rightarrow> s))"
proof -
  obtain v b where v: "effective_status_value t tpl = (Some v, b)" using effective_status_Some by blast
  obtain p where p: "compile_expression (rt_status_field tpl) = Inr p" "p \<noteq> []" "list_all is_key p"
    using assms(1) unfolding status_path_ok_def by blast
  obtain d1 where d1: "rewrite_status late t tpl (JObj d) = Inr d1" "rewrite_result store t tpl url d1 = Inr doc"
    using assms(3,5) by (auto simp: build_native_query_response_def bind_res_Inr_iff)
  obtain c where c: "d1 = JObj c" and r: "read_now (JObj c) (rt_status_field tpl) = Inr (JStr v)"
  proof (cases "b \<or> \<not> status_present late (JObj d) (rt_status_field tpl)")
    case True
    then have "write_or_skip (JObj d) (rt_status_field tpl) (JStr v) = Inr d1"
      using d1(1) by (simp add: rewrite_status_def v)
    moreover obtain d' where "write_or_skip (JObj d) (rt_status_field tpl) (JStr v) = Inr (JObj d')"
      "read_now (JObj d') (rt_status_field tpl) = Inr (JStr v)"
      using write_or_skip_reads [OF p(1,3,2)] by blast
    ultimately show ?thesis using that [of d'] by simp
  next
    case False
    then have "raw_status t = Some v"
      using v by (auto simp: effective_status_value_def Let_def split: if_splits)
    with False assms(4) d1(1) that [of d] show ?thesis by (simp add: rewrite_status_def v)
  qed
  have "read_now doc (rt_status_field tpl) = Inr (JStr v)"
    by (rule rewrite_result_reads [OF assms(1) d1(2) [unfolded c] r])
  with effective_status_class [OF assms(2) v] show ?thesis by blast
qed

definition timed_out_task :: task where
  "timed_out_task = (new_task ''a'' ''k'' 0 ''chan'' ''video'' 0)\<lparr>status := TIMEOUT, raw_status := Some ''running'',
     status_snapshot := Some (JObj [(''status'', JStr ''running'')])\<rparr>"

theorem query_response_truthful_witness:
  "\<exists>v. read_now (JObj [(''status'', JStr ''failed''), (''url'', JNull)]) ''$.status'' = Inr (JStr v)
     \<and> (maps_status sample_template v = Some FAILED \<or> maps_status sample_template v = Some TIMEOUT)"
proof -
  have 1: "compile_expression (rt_status_field sample_template) = Inr [Key ''status'']"
    "compile_expression (rt_result_location sample_template) = Inr [Key ''url'']"
    "tm_error_field (rt_terminal sample_template) = None" "rt_status_field sample_template = ''$.status''"
    "is_internal_terminal (status timed_out_task)"
    by code_simp+
  have path: "status_path_ok sample_template"
    unfolding status_path_ok_def by (rule exI [of _ "[Key ''status'']"]) (simp add: 1(1,2,3))
  have vals: "status_values_ok sample_template" by code_simp
  have snap: "native_snapshot timed_out_task = JObj [(''status'', JStr ''running'')]" by code_simp
  have raw: "raw_status timed_out_task = Some ''running''" by code_simp
  have b: "build_native_query_response (\<lambda>_. False) True timed_out_task sample_template None
      = Inr (JObj [(''status'', JStr ''failed''), (''url'', JNull)])" by code_simp
  have cons: "\<forall>s. raw_status timed_out_task = Some s \<longrightarrow>
      status_present (\<lambda>_. False) (JObj [(''status'', JStr ''running'')]) (rt_status_field sample_template) \<longrightarrow>
      read_now (JObj [(''status'', JStr ''running'')]) (rt_status_field sample_template) = Inr (JStr s)"
    using 1(1) by (simp add: raw read_now_def)
  from query_response_truthful [OF path vals snap cons b] 1 show ?thesis by auto
qed

end
