(* ===== verification/Routes.thy ===== *)
theory Routes
  imports Accept Routing Output
begin

text \<open>
  \<open>gateway/routes.py\<close>: the protocol side (create, query, cancel) and the callback endpoint as programs. A response is the
  effect \<open>E_reply\<close>; an \<open>HTTPException\<close> is the exception the program ends in. Header names of a request are lower-case.
  Metrics and log lines are left out.
\<close>

record web_request =
  wr_method :: string
  wr_headers :: "string dict"
  wr_raw :: string
  wr_json :: "json option"

text \<open>\<open>wr_json\<close> is \<open>json.loads\<close> of the body, \<open>None\<close> where it raises.\<close>

definition reply :: "int \<Rightarrow> json \<Rightarrow> string dict \<Rightarrow> prog" where
  "reply code body headers = Tell (E_reply code body headers) Done"

definition wants_envelope :: "web_request \<Rightarrow> bool" where
  "wants_envelope q \<longleftrightarrow> strip (header_or (wr_headers q) ''x-ag-envelope'' []) \<in> {''1'', ''true'', ''yes''}"

definition explicit_idempotency :: "web_request \<Rightarrow> string option" where
  "explicit_idempotency q = (case dict_get (wr_headers q) ''idempotency-key'' of
      Some (c # s) \<Rightarrow> Some (strip (c # s))
    | _ \<Rightarrow> (case dict_get (wr_headers q) ''x-ag-idempotency-key'' of
         Some (c # s) \<Rightarrow> Some (strip (c # s)) | _ \<Rightarrow> None))"

definition request_origin :: "web_request \<Rightarrow> origin res" where
  "request_origin q = (let raw = lower (strip (header_or (wr_headers q) ''x-ag-origin'' [])) in
     if raw = [] \<or> raw = ''user'' then Inr ORIGIN_USER
     else if raw = ''dry_run'' then Inr ORIGIN_DRY_RUN
     else if raw = ''replay'' then Inr ORIGIN_REPLAY
     else Inl (HTTPException 400 ''invalid X-AG-Origin''))"

definition request_body :: "web_request \<Rightarrow> jobj res" where
  "request_body q = (if wr_raw q = [] then Inr [] else (case wr_json q of
      None \<Rightarrow> Inl (HTTPException 400 ''request body must be valid JSON'')
    | Some (JObj kvs) \<Rightarrow> Inr kvs
    | Some _ \<Rightarrow> Inl (HTTPException 400 ''request body must be a JSON object'')))"

subsection \<open>Create\<close>

text \<open>\<open>except AcceptError\<close> around the acceptance; whatever else it raises propagates.\<close>

definition retry_headers :: "secs option \<Rightarrow> string dict" where
  "retry_headers ra = (case ra of
      None \<Rightarrow> [] | Some x \<Rightarrow> if x = 0 then [] else [(''Retry-After'', show_int (max 1 (py_int x)))])"

definition on_accept_error :: "exn option \<Rightarrow> prog" where
  "on_accept_error r = (case r of
      None \<Rightarrow> Done
    | Some (AcceptError code detail ra) \<Rightarrow> reply code (JObj [(''detail'', JStr detail)]) (retry_headers ra)
    | Some e \<Rightarrow> Fail e)"

definition handle_create :: "api \<Rightarrow> auth_context \<Rightarrow> template_version \<Rightarrow> web_request \<Rightarrow> prog" where
  "handle_create A a tv q = require (request_body q) (\<lambda>body. require (request_origin q) (\<lambda>orig.
     after_do on_accept_error (accept_create A a tv body (explicit_idempotency q) orig None
       (\<lambda>r. reply (ar_http_status r) (ar_body r) (ar_headers r)))))"

subsection \<open>Query\<close>

definition presigned_result_url :: "henv \<Rightarrow> task \<Rightarrow> resolved_template \<Rightarrow> (string option \<Rightarrow> prog) \<Rightarrow> prog" where
  "presigned_result_url E t tpl k = (case result_ref t of
      None \<Rightarrow> k None
    | Some ref \<Rightarrow>
        if rp_mode (rt_result_policy tpl) \<noteq> RM_STORE \<or> \<not> he_result_store E then k None
        else (let dflt = result_presign_ttl_seconds (he_settings E);
                  own = (case rp_presign_ttl_seconds (rt_result_policy tpl) of Some n \<Rightarrow> n | None \<Rightarrow> 0);
                  strat = strategy_get (rt_strategy tpl) ''presign_ttl_seconds'' (of_int dflt)
              in Presign ref (if own \<noteq> 0 then own else if strat \<noteq> 0 then py_int strat else dflt) k))"

definition by_identifier :: "string \<Rightarrow> string \<Rightarrow> task option \<Rightarrow> (task option \<Rightarrow> prog) \<Rightarrow> prog" where
  "by_identifier chan ident found k = (case found of
      Some t \<Rightarrow> k (Some t)
    | None \<Rightarrow> Load ident (\<lambda>row. case row of
         Some t \<Rightarrow> k (if channel t = chan then Some t else None) | None \<Rightarrow> k None))"

definition find_task :: "string \<Rightarrow> string \<Rightarrow> (task option \<Rightarrow> prog) \<Rightarrow> prog" where
  "find_task chan ident k = Seek (find_by_upstream_id chan ident) (\<lambda>found. by_identifier chan ident found k)"

text \<open>The lookup with the ownership check; both failures are the same \<open>404\<close>.\<close>

definition owned_task :: "henv \<Rightarrow> auth_context \<Rightarrow> string \<Rightarrow> (task \<Rightarrow> prog) \<Rightarrow> prog" where
  "owned_task E a ident k = find_task (ac_channel a) ident (\<lambda>found. case found of
      None \<Rightarrow> Fail (HTTPException 404 ''task not found'')
    | Some t \<Rightarrow> require (assert_owned (he_settings E) t a) (\<lambda>_. k t))"

text \<open>The refresh on behalf of the caller; every exception is swallowed and leaves the row as it was read.\<close>

definition refresh_task :: "henv \<Rightarrow> task \<Rightarrow> resolved_template \<Rightarrow> strategy \<Rightarrow> string option \<Rightarrow> (task \<Rightarrow> prog) \<Rightarrow> prog" where
  "refresh_task E t tpl strat bearer k =
     (case render_get tpl (case upstream_task_id t of Some u \<Rightarrow> u | None \<Rightarrow> []) of
        Inl e \<Rightarrow> k t
      | Inr request \<Rightarrow> Http (task_id t) request CTX_POLL bearer (\<lambda>answer. case answer of
            Inl e \<Rightarrow> k t
          | Inr result \<Rightarrow>
              if \<not> cr_ok result then k t
              else after_do (\<lambda>r. case r of
                  Some e \<Rightarrow> k t
                | None \<Rightarrow> Load (task_id t) (\<lambda>row. k (case row of Some t' \<Rightarrow> t' | None \<Rightarrow> t)))
                (handle_poll_result E t tpl strat result)))"

definition needs_refresh :: "time \<Rightarrow> secs \<Rightarrow> task \<Rightarrow> bool" where
  "needs_refresh now min_refresh t \<longleftrightarrow> status_snapshot t = None
     \<or> (case status_snapshot_at t of None \<Rightarrow> True | Some s \<Rightarrow> min_refresh \<le> now - s)"

definition answer_query :: "henv \<Rightarrow> resolved_template \<Rightarrow> secs \<Rightarrow> bool \<Rightarrow> task \<Rightarrow> prog" where
  "answer_query E tpl min_refresh enveloped t = presigned_result_url E t tpl (\<lambda>url.
     require (build_native_query_response (he_late E) (he_result_store E) t tpl url) (\<lambda>native.
       let headers = response_headers t min_refresh in
       if enveloped
       then reply 200 (JObj [(''_envelope'', JObj (envelope (he_lib E) (he_result_store E) t tpl (result_ref t \<noteq> None))),
              (''data'', native)]) headers
       else reply 200 native headers))"

definition handle_query :: "henv \<Rightarrow> auth_context \<Rightarrow> template_version \<Rightarrow> string \<Rightarrow> web_request \<Rightarrow> prog" where
  "handle_query E a tv ident q =
     (let tpl = tv_resolved tv;
          strat = strategy_for (he_setting_names E) (he_policies E) (ac_channel a) tpl;
          min_refresh = strategy_get strat ''min_refresh_interval'' 3;
          finish = answer_query E tpl min_refresh (wants_envelope q)
      in owned_task E a ident (\<lambda>t.
        if is_business_terminal (status t) \<or> \<not> some_truthy (ac_bearer a) \<or> upstream_task_id t = None then finish t
        else if status_snapshot t = None \<or> status_snapshot_at t = None
             then refresh_task E t tpl strat (ac_bearer a) finish
        else ask_now (\<lambda>now. if needs_refresh now min_refresh t
             then refresh_task E t tpl strat (ac_bearer a) finish else finish t)))"

subsection \<open>Cancel\<close>

definition handle_cancel :: "henv \<Rightarrow> auth_context \<Rightarrow> template_version \<Rightarrow> string \<Rightarrow> prog" where
  "handle_cancel E a tv ident =
     (let tpl = tv_resolved tv; env = (\<lambda>t. JObj (envelope (he_lib E) (he_result_store E) t tpl False)) in
      owned_task E a ident (\<lambda>t.
        if is_business_terminal (status t)
        then reply 409 (JObj [(''_envelope'', env t),
               (''detail'', JStr (''task already in terminal state '' @ status_value (status t)))]) []
        else apply_write (W_set_cancel_requested (task_id t)) (\<lambda>accepted.
          if \<not> accepted then Fail (HTTPException 409 ''cancel not allowed in current state'')
          else enqueue (task_id t) ''cancel:default'' ''cancel_upstream'' []
            (Tell (E_audit ''task.cancelled'' ''task'' (task_id t)
               [(''upstream_id'', JStr ident), (''caps_cancel'', JBool (cap_cancel (rt_capabilities tpl)))])
              (Load (task_id t) (\<lambda>row.
                reply 202 (JObj [(''_envelope'', env (case row of Some t' \<Rightarrow> t' | None \<Rightarrow> t)),
                  (''detail'', JStr ''cancel requested''),
                  (''degraded'', JBool (\<not> cap_cancel (rt_capabilities tpl)))]) []))))))"

subsection \<open>Dispatch\<close>

text \<open>
  The version is picked with a random number scaled by the process. \<open>direct\<close> is what \<open>build_direct_version\<close>
  makes of the channel's inline configuration for the alias and the path (theory \<open>Registry\<close>).
\<close>

definition request_path :: "string \<Rightarrow> string" where
  "request_path rest = (if rest = [] then ''/'' else CHR ''/'' # lstrip_char (CHR ''/'') rest)"

definition route_request :: "api \<Rightarrow> auth_context \<Rightarrow> template_version \<Rightarrow> string \<Rightarrow> web_request \<Rightarrow> prog" where
  "route_request A a tv path q = require (match_route (tv_resolved tv) path (wr_method q)) (\<lambda>m. case m of
      None \<Rightarrow> Fail (HTTPException 404 ''unsupported path for alias'')
    | Some Create \<Rightarrow> handle_create A a tv q
    | Some (Query i) \<Rightarrow> handle_query (ap_env A) a tv i q
    | Some (Cancel i) \<Rightarrow> handle_cancel (ap_env A) a tv i)"

type_synonym direct_resolver = "string \<Rightarrow> string \<Rightarrow> string \<Rightarrow> template_version option res"

definition async_dispatch :: "direct_resolver \<Rightarrow> api \<Rightarrow> string \<Rightarrow> string
    \<Rightarrow> web_request \<Rightarrow> prog" where
  "async_dispatch direct A alias rest q =
     (let E = ap_env A; path = request_path rest in
      require (authenticate (he_lib E) (he_settings E) (wr_headers q) alias) (\<lambda>a.
        Ask Q_random (\<lambda>pick.
          case template_for_channel (he_registry E) (he_policies E) (ac_channel a) alias pick of
            Inr tv \<Rightarrow> route_request A a tv path q
          | Inl (KeyError _) \<Rightarrow>
              if \<not> (url_direct_config_enabled (he_settings E) \<and> url_direct_enabled (he_settings E) (he_policies E) (ac_channel a))
              then Fail (HTTPException 404 ''unknown alias'')
              else require (direct (ac_channel a) alias path) (\<lambda>found. case found of
                  None \<Rightarrow> Fail (HTTPException 404 ''unknown alias'')
                | Some tv \<Rightarrow> route_request A a tv path q)
          | Inl e \<Rightarrow> Fail e)))"

end
