(* ===== verification/Callbacks.thy ===== *)
theory Callbacks
  imports Routes
begin

text \<open>
  The callback endpoint of \<open>gateway/routes.py\<close>: verification, deduplication, orphans, and what a verified callback may do
  to the task. \<open>str\<close> of a payload that is no object is cut to 1000 characters, unreadable text to 2000.
\<close>

definition safe_json :: "web_request \<Rightarrow> json" where
  "safe_json q = (if wr_raw q = [] then JObj [] else (case wr_json q of
      Some v \<Rightarrow> v | None \<Rightarrow> JObj [(''raw'', JStr (take 2000 (wr_raw q)))]))"

definition object_or_empty :: "json \<Rightarrow> json" where
  "object_or_empty v = (case v of JObj d \<Rightarrow> JObj d | _ \<Rightarrow> JObj [])"

definition stored_payload :: "json \<Rightarrow> json" where
  "stored_payload v = (case v of JObj d \<Rightarrow> JObj d | _ \<Rightarrow> JObj [(''raw'', JStr (take 1000 (py_str v)))])"

text \<open>The text found at a path of the task's template, when the row, its template and the value are there.\<close>

definition template_field :: "henv \<Rightarrow> task option \<Rightarrow> json \<Rightarrow> (resolved_template \<Rightarrow> string) \<Rightarrow> string option res" where
  "template_field E row payload loc = (case row of
      None \<Rightarrow> Inr None
    | Some t \<Rightarrow> (case registry_get (he_registry E) (template_alias t) (Some (template_version t)) of
          None \<Rightarrow> Inr None
        | Some tv \<Rightarrow> bind_res (try_extract (he_late E) (object_or_empty payload) (loc (tv_resolved tv)))
            (\<lambda>found. Inr (map_option py_str found))))"

definition or_header :: "string option \<Rightarrow> web_request \<Rightarrow> string \<Rightarrow> string option" where
  "or_header x q name = (case x of Some (c # s) \<Rightarrow> Some (c # s) | _ \<Rightarrow> dict_get (wr_headers q) name)"

subsection \<open>What a callback does to its task\<close>

definition callback_audit :: "string \<Rightarrow> jobj \<Rightarrow> prog \<Rightarrow> prog" where
  "callback_audit tid refs k = Tell (E_audit ''task.callback'' ''task'' tid refs) k"

definition callback_snapshot :: "json \<Rightarrow> json" where
  "callback_snapshot payload = (case payload of JObj d \<Rightarrow> JObj d | v \<Rightarrow> JObj [(''raw'', v)])"

text \<open>The poll is the main source: the terminal status is only noted, and the next poll moved to now.\<close>

definition arbitrate :: "task \<Rightarrow> string option \<Rightarrow> task_status \<Rightarrow> prog" where
  "arbitrate t raw mapped =
     note_attributes (task_id t) [(''pending_terminal_from_callback'',
         JObj [(''raw_status'', opt_json raw), (''mapped'', JStr (status_value mapped))])] (\<lambda>_.
       ask_now (\<lambda>n. apply_write (W_schedule_next_poll (task_id t) n) (\<lambda>_.
         callback_audit (task_id t) [(''applied'', JBool False), (''reason'', JStr ''arbitration_required''),
           (''raw_status'', opt_json raw)] Done)))"

definition callback_assignments :: "task_status \<Rightarrow> string option \<Rightarrow> json \<Rightarrow> time \<Rightarrow> time \<Rightarrow> assignment list" where
  "callback_assignments mapped raw snapshot n1 n2 =
     (if mapped = SUCCEEDED then
        [SetRawStatus raw, SetSnapshot (Some snapshot), SetSnapshotAt (Some n1), SetNextPollAt None, SetFinishedAt (Some n2)]
      else if mapped = TIMEOUT then
        [SetRawStatus raw, SetSnapshot (Some snapshot), SetErrorCode (Some EC_TIMEOUT), SetFinishedAt (Some n1), SetNextPollAt None]
      else
        [SetRawStatus raw, SetSnapshot (Some snapshot), SetSnapshotAt (Some n1), SetErrorCode (Some EC_UPSTREAM_TERMINAL),
         SetFinishedAt None])"

definition callback_target :: "task_status \<Rightarrow> task_status" where
  "callback_target mapped = (if mapped = SUCCEEDED \<or> mapped = TIMEOUT then mapped else FAILED)"

text \<open>The callback is the main source: it moves the task along the whitelist.\<close>

definition apply_terminal :: "henv \<Rightarrow> task \<Rightarrow> string option \<Rightarrow> task_status \<Rightarrow> json \<Rightarrow> prog" where
  "apply_terminal E t raw mapped snapshot = ask_now (\<lambda>n1. ask_now (\<lambda>n2.
     apply_write (W_advance (task_id t) (callback_target mapped) (Some [status t])
         (callback_assignments mapped raw snapshot n1 n2)) (\<lambda>hit.
       if hit then callback_audit (task_id t) [(''applied'', JBool True), (''mapped'', JStr (status_value mapped)),
            (''raw_status'', opt_json raw)]
            (finalize_task E [(''task_id'', JStr (task_id t))])
       else Done)))"

definition apply_callback :: "henv \<Rightarrow> string \<Rightarrow> json \<Rightarrow> string option \<Rightarrow> prog" where
  "apply_callback E tid payload raw = Load tid (\<lambda>row.
     let drop_it = callback_audit tid [(''applied'', JBool False), (''reason'', JStr ''task terminal or missing''),
            (''raw_status'', opt_json raw)] Done
     in (case row of
          None \<Rightarrow> drop_it
        | Some t \<Rightarrow>
            if is_business_terminal (status t) then drop_it
            else (case registry_get (he_registry E) (template_alias t) (Some (template_version t)) of
                None \<Rightarrow> Done
              | Some tv \<Rightarrow> (case maps_status (tv_resolved tv) (case raw of Some s \<Rightarrow> s | None \<Rightarrow> []) of
                    None \<Rightarrow> apply_write (W_record_poll_result (task_id t) (Some (callback_snapshot payload)) raw
                              (next_poll_at t) [status t]) (\<lambda>_. Done)
                  | Some mapped \<Rightarrow>
                      if rt_status_source (tv_resolved tv) = SRC_POLL then arbitrate t raw mapped
                      else apply_terminal E t raw mapped (callback_snapshot payload)))))"

subsection \<open>The endpoint\<close>

definition callback_accepted :: "jobj \<Rightarrow> json" where
  "callback_accepted marks = JObj ((''accepted'', JBool True) # marks)"

definition fresh_callback :: "henv \<Rightarrow> task option \<Rightarrow> string \<Rightarrow> string option \<Rightarrow> string option \<Rightarrow> json \<Rightarrow> prog" where
  "fresh_callback E row chan uid raw payload = (case row of
      None \<Rightarrow>
        let done = reply 200 (callback_accepted [(''orphan'', JBool True)]) [] in
        (case uid of
            Some (c # u) \<Rightarrow> Tell (E_stash_orphan chan (c # u) raw (case payload of JObj d \<Rightarrow> Some d | _ \<Rightarrow> None)) done
          | _ \<Rightarrow> done)
    | Some t \<Rightarrow> after_do (\<lambda>r. case r of None \<Rightarrow> reply 200 (callback_accepted []) [] | Some e \<Rightarrow> Fail e)
        (apply_callback E (task_id t) payload raw))"

definition record_callback :: "api \<Rightarrow> web_request \<Rightarrow> string option \<Rightarrow> task option \<Rightarrow> prog" where
  "record_callback A q kid row =
     (let E = ap_env A; payload = safe_json q;
          chan = (case row of Some t \<Rightarrow> channel t | None \<Rightarrow> header_or (wr_headers q) ''x-ag-channel'' ''unknown'')
      in require (case row of Some t \<Rightarrow> if template_alias t = [] then Inr None
                     else template_field E row payload rt_id_location | None \<Rightarrow> Inr None) (\<lambda>found.
         let uid = or_header found q ''x-ag-upstream-id'' in
         require (template_field E row payload rt_status_field) (\<lambda>raw.
           let dedup = callback_dedup_key (dict_get (wr_headers q) ''x-ag-event-id'') uid raw
                 (callback_body_digest (he_lib E) (wr_raw q))
           in ask_now (\<lambda>n. NewEvent \<lparr>cb_channel = chan, cb_dedup_key = dedup, cb_upstream_task_id = uid, cb_raw_status = raw,
                cb_kid = kid, cb_payload = Some (stored_payload payload), cb_received_at = n\<rparr> (\<lambda>fresh.
              if \<not> fresh then reply 200 (callback_accepted [(''duplicate'', JBool True)]) []
              else fresh_callback E row chan uid raw payload)))))"

definition receive_callback :: "api \<Rightarrow> string \<Rightarrow> web_request \<Rightarrow> prog" where
  "receive_callback A token q = ask_now (\<lambda>now.
     let v = verify (he_lib (ap_env A)) (ap_auth A) (wr_headers q) (wr_raw q) now in
     if \<not> vr_ok v then
       Tell (E_audit ''callback.signature_failed'' ''callback'' (take 12 token)
           [(''kid'', opt_json (vr_kid v)), (''reason'', opt_json (vr_reason v)), (''replay_suspect'', JBool (vr_replay_suspect v))])
         (reply 202 (JObj [(''accepted'', JBool False)]) [])
     else Seek (find_by_callback_token token) (record_callback A q (vr_kid v)))"

end
