(* ===== verification/Derive.thy ===== *)
theory Derive
  imports Template Urls "HOL-Library.Monad_Syntax"
begin

text \<open>
  \<open>templates/schema.py\<close> (the draft of a template and its validation) and \<open>templates/derive.py\<close> (the platform patches
  and the expansion of a draft). Validation is pydantic's: a model is read field by field, an unknown field, a missing
  required one or a value that is not of the declared type rejects it. The conversions pydantic makes to a declared
  scalar type are the parameter \<open>pd_coerce\<close>, the errors it lists for a rejected value are \<open>pd_errors\<close>. Strategy
  values are numbers, and no patch names \<open>_provenance\<close>.
\<close>

record pydantic =
  pd_coerce :: "string \<Rightarrow> json \<Rightarrow> json option"
  pd_errors :: "json \<Rightarrow> string list"

text \<open>What the documentation promises: a value of the declared type is taken as it is.\<close>

definition keeps_typed_values :: "pydantic \<Rightarrow> bool" where
  "keeps_typed_values P \<longleftrightarrow>
     (\<forall>s. pd_coerce P ''str'' (JStr s) = Some (JStr s)) \<and> (\<forall>b. pd_coerce P ''bool'' (JBool b) = Some (JBool b))
     \<and> (\<forall>i. pd_coerce P ''int'' (JInt i) = Some (JInt i))"

subsection \<open>Reading values\<close>

definition read_str :: "pydantic \<Rightarrow> json \<Rightarrow> string option" where
  "read_str P v = (case pd_coerce P ''str'' v of Some (JStr s) \<Rightarrow> Some s | _ \<Rightarrow> None)"

definition read_bool :: "pydantic \<Rightarrow> json \<Rightarrow> bool option" where
  "read_bool P v = (case pd_coerce P ''bool'' v of Some (JBool b) \<Rightarrow> Some b | _ \<Rightarrow> None)"

definition read_whole :: "pydantic \<Rightarrow> json \<Rightarrow> int option" where
  "read_whole P v = (case pd_coerce P ''int'' v of Some (JInt i) \<Rightarrow> Some i | _ \<Rightarrow> None)"

definition read_opt :: "(json \<Rightarrow> 'a option) \<Rightarrow> json \<Rightarrow> 'a option option" where
  "read_opt f v = (if v = JNull then Some None else map_option Some (f v))"

definition read_list :: "(json \<Rightarrow> 'a option) \<Rightarrow> json \<Rightarrow> 'a list option" where
  "read_list f v = (case v of JArr xs \<Rightarrow> those (List.map f xs) | _ \<Rightarrow> None)"

text \<open>\<open>_as_list\<close>: a single string stands for the list of it.\<close>

definition read_strs_or_one :: "pydantic \<Rightarrow> json \<Rightarrow> string list option" where
  "read_strs_or_one P v = read_list (read_str P) (case v of JStr s \<Rightarrow> JArr [JStr s] | _ \<Rightarrow> v)"

definition read_dict :: "(json \<Rightarrow> 'a option) \<Rightarrow> json \<Rightarrow> 'a dict option" where
  "read_dict f v = (case v of
      JObj d \<Rightarrow> those (List.map (\<lambda>(k, x). map_option (Pair k) (f x)) d)
    | _ \<Rightarrow> None)"

definition read_obj :: "json \<Rightarrow> jobj option" where
  "read_obj v = (case v of JObj d \<Rightarrow> Some d | _ \<Rightarrow> None)"

definition read_number :: "pylib \<Rightarrow> json \<Rightarrow> rat option" where
  "read_number L v = (case v of JInt i \<Rightarrow> Some (of_int i) | JFloat t \<Rightarrow> lib_float L t | _ \<Rightarrow> None)"

definition read_one_of :: "(string \<times> 'a) list \<Rightarrow> json \<Rightarrow> 'a option" where
  "read_one_of names v = (case v of JStr s \<Rightarrow> map_of names s | _ \<Rightarrow> None)"

text \<open>A field with a default, a required field, and \<open>extra="forbid"\<close>.\<close>

definition field_or :: "jobj \<Rightarrow> string \<Rightarrow> (json \<Rightarrow> 'a option) \<Rightarrow> 'a \<Rightarrow> 'a option" where
  "field_or d k f dflt = (case dict_get d k of None \<Rightarrow> Some dflt | Some v \<Rightarrow> f v)"

definition required :: "jobj \<Rightarrow> string \<Rightarrow> (json \<Rightarrow> 'a option) \<Rightarrow> 'a option" where
  "required d k f = (case dict_get d k of None \<Rightarrow> None | Some v \<Rightarrow> f v)"

definition only_fields :: "string list \<Rightarrow> json \<Rightarrow> jobj option" where
  "only_fields names v = (case v of
      JObj d \<Rightarrow> if list_all (\<lambda>(k, x). k \<in> set names) d then Some d else None
    | _ \<Rightarrow> None)"

subsection \<open>Names of the enumerations\<close>

definition confirm_strategy_names :: "(string \<times> confirm_strategy) list" where
  "confirm_strategy_names = [(''query_by_client_key'', CS_QUERY_BY_CLIENT_KEY), (''list_and_match'', CS_LIST_AND_MATCH),
     (''manual_only'', CS_MANUAL_ONLY)]"

fun confirm_strategy_value :: "confirm_strategy \<Rightarrow> string" where
  "confirm_strategy_value CS_QUERY_BY_CLIENT_KEY = ''query_by_client_key''"
| "confirm_strategy_value CS_LIST_AND_MATCH = ''list_and_match''"
| "confirm_strategy_value CS_MANUAL_ONLY = ''manual_only''"

definition status_source_names :: "(string \<times> status_source) list" where
  "status_source_names = [(''poll'', SRC_POLL), (''callback'', SRC_CALLBACK)]"

fun status_source_value :: "status_source \<Rightarrow> string" where
  "status_source_value SRC_POLL = ''poll''"
| "status_source_value SRC_CALLBACK = ''callback''"

definition result_mode_names :: "(string \<times> result_mode) list" where
  "result_mode_names = [(''store'', RM_STORE), (''passthrough'', RM_PASSTHROUGH), (''redirect'', RM_REDIRECT)]"

fun result_mode_value :: "result_mode \<Rightarrow> string" where
  "result_mode_value RM_STORE = ''store''"
| "result_mode_value RM_PASSTHROUGH = ''passthrough''"
| "result_mode_value RM_REDIRECT = ''redirect''"

subsection \<open>The parts of a template\<close>

definition capability_fields :: "string list" where
  "capability_fields = [''upstream_idempotent'', ''confirm_strategy'', ''cancel'', ''callback'', ''list_tasks'',
     ''max_payload_bytes'', ''permanent_result_url'', ''rate_limit_side_effect_free'', ''per_key_isolation'']"

definition read_capabilities :: "pydantic \<Rightarrow> json \<Rightarrow> capabilities option" where
  "read_capabilities P v = do {
     d \<leftarrow> only_fields capability_fields v;
     ui \<leftarrow> field_or d ''upstream_idempotent'' (read_bool P) False;
     cs \<leftarrow> field_or d ''confirm_strategy'' (read_one_of confirm_strategy_names) CS_MANUAL_ONLY;
     ca \<leftarrow> field_or d ''cancel'' (read_bool P) False;
     cb \<leftarrow> field_or d ''callback'' (read_bool P) False;
     lt \<leftarrow> field_or d ''list_tasks'' (read_bool P) False;
     mp \<leftarrow> field_or d ''max_payload_bytes'' (read_whole P) 1048576;
     pr \<leftarrow> field_or d ''permanent_result_url'' (read_bool P) False;
     rl \<leftarrow> field_or d ''rate_limit_side_effect_free'' (read_bool P) False;
     pk \<leftarrow> field_or d ''per_key_isolation'' (read_bool P) True;
     Some \<lparr>cap_upstream_idempotent = ui, cap_confirm_strategy = cs, cap_cancel = ca, cap_callback = cb,
       cap_list_tasks = lt, cap_max_payload_bytes = mp, cap_permanent_result_url = pr,
       cap_rate_limit_side_effect_free = rl, cap_per_key_isolation = pk\<rparr> }"

definition terminal_fields :: "string list" where
  "terminal_fields = [''success'', ''failure'', ''expired'', ''internal_terminal_rewrite'',
     ''internal_terminal_error_code'', ''error_field'']"

definition read_terminal :: "pydantic \<Rightarrow> json \<Rightarrow> terminal_mapping option" where
  "read_terminal P v = do {
     d \<leftarrow> only_fields terminal_fields v;
     su \<leftarrow> field_or d ''success'' (read_strs_or_one P) [''succeeded''];
     fa \<leftarrow> field_or d ''failure'' (read_strs_or_one P) [''failed''];
     ex \<leftarrow> field_or d ''expired'' (read_strs_or_one P) [''expired''];
     rw \<leftarrow> field_or d ''internal_terminal_rewrite'' (read_opt (read_str P)) None;
     ec \<leftarrow> field_or d ''internal_terminal_error_code'' (read_opt (read_str P)) None;
     ef \<leftarrow> field_or d ''error_field'' (read_opt (read_str P)) None;
     Some \<lparr>tm_success = su, tm_failure = fa, tm_expired = ex, tm_internal_rewrite = rw,
       tm_internal_error_code = ec, tm_error_field = ef\<rparr> }"

definition result_policy_fields :: "string list" where
  "result_policy_fields = [''mode'', ''presign_ttl_seconds'', ''retention_days'', ''unavailable_gone'']"

definition read_result_policy :: "pydantic \<Rightarrow> json \<Rightarrow> result_policy option" where
  "read_result_policy P v = do {
     d \<leftarrow> only_fields result_policy_fields v;
     mo \<leftarrow> field_or d ''mode'' (read_one_of result_mode_names) RM_STORE;
     pt \<leftarrow> field_or d ''presign_ttl_seconds'' (read_opt (read_whole P)) None;
     rd \<leftarrow> field_or d ''retention_days'' (read_opt (read_whole P)) None;
     ug \<leftarrow> field_or d ''unavailable_gone'' (read_bool P) True;
     Some \<lparr>rp_mode = mo, rp_presign_ttl_seconds = pt, rp_retention_days = rd, rp_unavailable_gone = ug\<rparr> }"

definition normalize_fields :: "string list" where
  "normalize_fields = [''fields'', ''case_insensitive_fields'', ''trim_strings'']"

definition read_normalize :: "pydantic \<Rightarrow> json \<Rightarrow> normalization_rules option" where
  "read_normalize P v = do {
     d \<leftarrow> only_fields normalize_fields v;
     fs \<leftarrow> field_or d ''fields'' (read_list (read_str P)) [];
     ci \<leftarrow> field_or d ''case_insensitive_fields'' (read_list (read_str P)) [];
     ts \<leftarrow> field_or d ''trim_strings'' (read_bool P) True;
     Some \<lparr>nr_fields = fs, nr_case_insensitive_fields = ci, nr_trim_strings = ts\<rparr> }"

text \<open>\<open>StrategyOverride\<close>, as the entries \<open>model_dump(exclude_none=True)\<close> gives.\<close>

definition strategy_fields :: "(string \<times> string) list" where
  "strategy_fields = [(''idempotency_window_seconds'', ''int''), (''max_attempts'', ''int''), (''deadline_seconds'', ''int''),
     (''min_refresh_interval'', ''float''), (''retention_days'', ''int''), (''presign_ttl_seconds'', ''int''),
     (''unknown_max_per_channel'', ''int''), (''unknown_max_lifetime_seconds'', ''int''), (''submit_confirm_window_seconds'', ''int'')]"

definition read_coerced :: "pylib \<Rightarrow> pydantic \<Rightarrow> string \<Rightarrow> json \<Rightarrow> rat option" where
  "read_coerced L P ty v = Option.bind (pd_coerce P ty v) (read_number L)"

definition read_strategy :: "pylib \<Rightarrow> pydantic \<Rightarrow> json \<Rightarrow> strategy option" where
  "read_strategy L P v = do {
     d \<leftarrow> only_fields (List.map fst strategy_fields) v;
     vals \<leftarrow> those (List.map (\<lambda>(k, ty). map_option (Pair k) (field_or d k (read_opt (read_coerced L P ty)) None)) strategy_fields);
     Some (List.concat (List.map (\<lambda>(k, x). case x of None \<Rightarrow> [] | Some r \<Rightarrow> [(k, r)]) vals)) }"

subsection \<open>The draft\<close>

text \<open>Beside the value of a part, the names of its fields that were given (\<open>model_fields_set\<close>).\<close>

record template_draft =
  td_alias :: string
  td_base_url :: string
  td_create_path :: string
  td_result_location :: string
  td_id_location :: "string option"
  td_get_path_template :: "string option"
  td_cancel_path_template :: "string option"
  td_status_field :: "string option"
  td_terminal :: "(terminal_mapping \<times> string list) option"
  td_capabilities :: "(capabilities \<times> string list) option"
  td_result_policy :: "(result_policy \<times> string list) option"
  td_pool :: "string option"
  td_status_source :: "status_source option"
  td_callback_param :: "string option"
  td_namespace :: "string option"
  td_create_method :: string
  td_get_method :: string
  td_cancel_method :: string
  td_extra_headers :: "string dict"
  td_request_body_template :: "jobj option"
  td_normalize :: "(normalization_rules \<times> string list) option"
  td_strategy :: "strategy option"
  td_notes :: "string option"

definition draft_fields :: "string list" where
  "draft_fields = [''alias'', ''base_url'', ''create_path'', ''result_location'', ''id_location'', ''get_path_template'',
     ''cancel_path_template'', ''status_field'', ''terminal'', ''capabilities'', ''result_policy'', ''pool'', ''status_source'',
     ''callback_param'', ''namespace'', ''create_method'', ''get_method'', ''cancel_method'', ''extra_headers'',
     ''request_body_template'', ''normalize'', ''strategy'', ''notes'']"

text \<open>\<open>str.isalnum\<close> on a code point up to 255.\<close>

definition py_alnum :: "char \<Rightarrow> bool" where
  "py_alnum c \<longleftrightarrow> (let n = (of_char c :: nat) in ascii_alnum c \<or> n \<in> {170, 178, 179, 181, 185, 186, 188, 189, 190}
     \<or> (192 \<le> n \<and> n \<le> 255 \<and> n \<noteq> 215 \<and> n \<noteq> 247))"

definition alias_shape :: "string \<Rightarrow> string option" where
  "alias_shape v = (let s = strip v in
     if s = [] \<or> 64 < length s \<or> \<not> list_all (\<lambda>c. py_alnum c \<or> c = CHR ''-'' \<or> c = CHR ''_'') s then None else Some s)"

text \<open>\<open>v.split("//", 1)[1].split("/", 1)[0]\<close> of a url with one of the two schemes.\<close>

definition authority_part :: "string \<Rightarrow> string" where
  "authority_part url = takeWhile (\<lambda>c. c \<noteq> CHR ''/'') (drop 2 (dropWhile (\<lambda>c. c \<noteq> CHR ''/'') url))"

definition base_url_shape :: "string \<Rightarrow> string option" where
  "base_url_shape v = (let s = rstrip_char (CHR ''/'') (strip v) in
     if \<not> (starts_with ''http://'' s \<or> starts_with ''https://'' s) then None
     else if CHR ''@'' \<in> set (authority_part s) then None else Some s)"

definition path_shape :: "string \<Rightarrow> string option" where
  "path_shape v = (let s = strip v in if starts_with ''/'' s then Some s else None)"

definition given :: "json \<Rightarrow> string list" where
  "given v = (case v of JObj d \<Rightarrow> List.map fst d | _ \<Rightarrow> [])"

text \<open>An optional part: its value with the fields that were given.\<close>

definition read_part :: "(json \<Rightarrow> 'a option) \<Rightarrow> json \<Rightarrow> ('a \<times> string list) option option" where
  "read_part f = read_opt (\<lambda>v. map_option (\<lambda>x. (x, given v)) (f v))"

definition one_of :: "string list \<Rightarrow> json \<Rightarrow> string option" where
  "one_of names v = (case v of JStr s \<Rightarrow> if s \<in> set names then Some s else None | _ \<Rightarrow> None)"

definition shaped :: "pydantic \<Rightarrow> (string \<Rightarrow> string option) \<Rightarrow> json \<Rightarrow> string option" where
  "shaped P f v = Option.bind (read_str P v) f"

definition load_draft :: "pylib \<Rightarrow> pydantic \<Rightarrow> jobj \<Rightarrow> template_draft option" where
  "load_draft L P raw = do {
     d \<leftarrow> only_fields draft_fields (JObj raw);
     al \<leftarrow> required d ''alias'' (shaped P alias_shape);
     bu \<leftarrow> required d ''base_url'' (shaped P base_url_shape);
     cp \<leftarrow> required d ''create_path'' (shaped P path_shape);
     rl \<leftarrow> required d ''result_location'' (read_str P);
     il \<leftarrow> field_or d ''id_location'' (read_opt (read_str P)) None;
     gp \<leftarrow> field_or d ''get_path_template'' (read_opt (shaped P path_shape)) None;
     xp \<leftarrow> field_or d ''cancel_path_template'' (read_opt (shaped P path_shape)) None;
     sf \<leftarrow> field_or d ''status_field'' (read_opt (read_str P)) None;
     te \<leftarrow> field_or d ''terminal'' (read_part (read_terminal P)) None;
     ca \<leftarrow> field_or d ''capabilities'' (read_part (read_capabilities P)) None;
     rp \<leftarrow> field_or d ''result_policy'' (read_part (read_result_policy P)) None;
     po \<leftarrow> field_or d ''pool'' (read_opt (read_str P)) None;
     ss \<leftarrow> field_or d ''status_source'' (read_opt (read_one_of status_source_names)) None;
     cb \<leftarrow> field_or d ''callback_param'' (read_opt (read_str P)) None;
     ns \<leftarrow> field_or d ''namespace'' (read_opt (read_str P)) None;
     cm \<leftarrow> field_or d ''create_method'' (one_of [''POST'', ''PUT'']) ''POST'';
     gm \<leftarrow> field_or d ''get_method'' (one_of [''GET'']) ''GET'';
     xm \<leftarrow> field_or d ''cancel_method'' (one_of [''DELETE'', ''POST'']) ''DELETE'';
     eh \<leftarrow> field_or d ''extra_headers'' (read_dict (read_str P)) [];
     rb \<leftarrow> field_or d ''request_body_template'' (read_opt read_obj) None;
     nr \<leftarrow> field_or d ''normalize'' (read_part (read_normalize P)) None;
     st \<leftarrow> field_or d ''strategy'' (read_opt (read_strategy L P)) None;
     nt \<leftarrow> field_or d ''notes'' (read_opt (read_str P)) None;
     Some \<lparr>td_alias = al, td_base_url = bu, td_create_path = cp, td_result_location = rl, td_id_location = il,
       td_get_path_template = gp, td_cancel_path_template = xp, td_status_field = sf, td_terminal = te,
       td_capabilities = ca, td_result_policy = rp, td_pool = po, td_status_source = ss, td_callback_param = cb,
       td_namespace = ns, td_create_method = cm, td_get_method = gm, td_cancel_method = xm, td_extra_headers = eh,
       td_request_body_template = rb, td_normalize = nr, td_strategy = st, td_notes = nt\<rparr> }"

definition is_full_tier :: "template_draft \<Rightarrow> bool" where
  "is_full_tier t \<longleftrightarrow> td_namespace t \<noteq> None \<or> td_extra_headers t \<noteq> []
     \<or> (case td_request_body_template t of None \<Rightarrow> False | Some b \<Rightarrow> b \<noteq> [])
     \<or> td_normalize t \<noteq> None \<or> td_strategy t \<noteq> None \<or> td_notes t \<noteq> None \<or> td_create_method t \<noteq> ''POST''"

definition template_tier :: "template_draft \<Rightarrow> template_tier" where
  "template_tier t =
     (if is_full_tier t then TIER_FULL
      else if td_id_location t \<noteq> None \<or> td_get_path_template t \<noteq> None \<or> td_cancel_path_template t \<noteq> None
        \<or> td_terminal t \<noteq> None \<or> td_capabilities t \<noteq> None \<or> td_result_policy t \<noteq> None \<or> td_pool t \<noteq> None
        \<or> td_status_source t \<noteq> None \<or> td_callback_param t \<noteq> None \<or> td_status_field t \<noteq> None
      then TIER_DIFF else TIER_MINIMAL)"

subsection \<open>The parts as JSON\<close>

text \<open>\<open>model_dump(mode="json")\<close>.\<close>

definition opt_str :: "string option \<Rightarrow> json" where
  "opt_str x = (case x of None \<Rightarrow> JNull | Some s \<Rightarrow> JStr s)"

definition opt_int :: "int option \<Rightarrow> json" where
  "opt_int x = (case x of None \<Rightarrow> JNull | Some i \<Rightarrow> JInt i)"

definition strs :: "string list \<Rightarrow> json" where
  "strs xs = JArr (List.map JStr xs)"

definition dump_capabilities :: "capabilities \<Rightarrow> json" where
  "dump_capabilities c = JObj
     [(''upstream_idempotent'', JBool (cap_upstream_idempotent c)),
      (''confirm_strategy'', JStr (confirm_strategy_value (cap_confirm_strategy c))), (''cancel'', JBool (cap_cancel c)),
      (''callback'', JBool (cap_callback c)), (''list_tasks'', JBool (cap_list_tasks c)),
      (''max_payload_bytes'', JInt (cap_max_payload_bytes c)),
      (''permanent_result_url'', JBool (cap_permanent_result_url c)),
      (''rate_limit_side_effect_free'', JBool (cap_rate_limit_side_effect_free c)),
      (''per_key_isolation'', JBool (cap_per_key_isolation c))]"

definition dump_terminal :: "terminal_mapping \<Rightarrow> json" where
  "dump_terminal t = JObj
     [(''success'', strs (tm_success t)), (''failure'', strs (tm_failure t)), (''expired'', strs (tm_expired t)),
      (''internal_terminal_rewrite'', opt_str (tm_internal_rewrite t)),
      (''internal_terminal_error_code'', opt_str (tm_internal_error_code t)), (''error_field'', opt_str (tm_error_field t))]"

definition dump_result_policy :: "result_policy \<Rightarrow> json" where
  "dump_result_policy p = JObj
     [(''mode'', JStr (result_mode_value (rp_mode p))), (''presign_ttl_seconds'', opt_int (rp_presign_ttl_seconds p)),
      (''retention_days'', opt_int (rp_retention_days p)), (''unavailable_gone'', JBool (rp_unavailable_gone p))]"

definition dump_normalize :: "normalization_rules \<Rightarrow> json" where
  "dump_normalize n = JObj
     [(''fields'', strs (nr_fields n)), (''case_insensitive_fields'', strs (nr_case_insensitive_fields n)),
      (''trim_strings'', JBool (nr_trim_strings n))]"

text \<open>A strategy value: the refresh interval is a float, the others are integers.\<close>

definition dump_number :: "pylib \<Rightarrow> string \<Rightarrow> rat \<Rightarrow> json" where
  "dump_number L k r = (if map_of strategy_fields k = Some ''float'' then JFloat (lib_float_repr L r) else JInt (py_int r))"

definition dump_strategy :: "pylib \<Rightarrow> strategy \<Rightarrow> json" where
  "dump_strategy L st = JObj (List.map (\<lambda>(k, r). (k, dump_number L k r)) st)"

subsection \<open>The expanded template as JSON\<close>

definition resolved_fields :: "string list" where
  "resolved_fields = [''alias'', ''namespace'', ''base_url'', ''create_path'', ''create_method'', ''get_path_template'',
     ''get_method'', ''cancel_path_template'', ''cancel_method'', ''id_location'', ''status_field'', ''result_location'',
     ''terminal'', ''capabilities'', ''result_policy'', ''pool'', ''status_source'', ''callback_param'', ''normalize'',
     ''strategy'', ''extra_headers'', ''request_body_template'', ''notes'']"

definition read_resolved :: "pylib \<Rightarrow> pydantic \<Rightarrow> field_source dict \<Rightarrow> jobj \<Rightarrow> resolved_template option" where
  "read_resolved L P prov payload = do {
     d \<leftarrow> only_fields resolved_fields (JObj payload);
     al \<leftarrow> required d ''alias'' (read_str P);
     ns \<leftarrow> required d ''namespace'' (read_str P);
     bu \<leftarrow> required d ''base_url'' (read_str P);
     cp \<leftarrow> required d ''create_path'' (read_str P);
     cm \<leftarrow> required d ''create_method'' (read_str P);
     gp \<leftarrow> required d ''get_path_template'' (read_str P);
     gm \<leftarrow> required d ''get_method'' (read_str P);
     xp \<leftarrow> required d ''cancel_path_template'' (read_str P);
     xm \<leftarrow> required d ''cancel_method'' (read_str P);
     il \<leftarrow> required d ''id_location'' (read_str P);
     sf \<leftarrow> required d ''status_field'' (read_str P);
     rl \<leftarrow> required d ''result_location'' (read_str P);
     te \<leftarrow> required d ''terminal'' (read_terminal P);
     ca \<leftarrow> required d ''capabilities'' (read_capabilities P);
     rp \<leftarrow> required d ''result_policy'' (read_result_policy P);
     po \<leftarrow> required d ''pool'' (read_str P);
     ss \<leftarrow> required d ''status_source'' (read_one_of status_source_names);
     cb \<leftarrow> required d ''callback_param'' (read_str P);
     nr \<leftarrow> required d ''normalize'' (read_normalize P);
     st \<leftarrow> required d ''strategy'' (read_dict (read_number L));
     eh \<leftarrow> required d ''extra_headers'' (read_dict (read_str P));
     rb \<leftarrow> field_or d ''request_body_template'' (read_opt read_obj) None;
     nt \<leftarrow> field_or d ''notes'' (read_opt (read_str P)) None;
     Some \<lparr>rt_alias = al, rt_namespace = ns, rt_base_url = bu, rt_create_path = cp, rt_create_method = cm,
       rt_get_path_template = gp, rt_get_method = gm, rt_cancel_path_template = xp, rt_cancel_method = xm,
       rt_id_location = il, rt_status_field = sf, rt_result_location = rl, rt_terminal = te, rt_capabilities = ca,
       rt_result_policy = rp, rt_pool = po, rt_status_source = ss, rt_callback_param = cb, rt_normalize = nr,
       rt_strategy = st, rt_extra_headers = eh, rt_request_body_template = rb, rt_notes = nt, rt_provenance = prov\<rparr> }"

definition opt_obj :: "jobj option \<Rightarrow> json" where
  "opt_obj x = (case x of None \<Rightarrow> JNull | Some d \<Rightarrow> JObj d)"

definition dump_headers :: "string dict \<Rightarrow> json" where
  "dump_headers hs = JObj (List.map (\<lambda>(k, v). (k, JStr v)) hs)"

text \<open>\<open>model_dump(mode="json", exclude={"provenance"})\<close>.\<close>

definition resolved_to_raw_dict :: "pylib \<Rightarrow> resolved_template \<Rightarrow> jobj" where
  "resolved_to_raw_dict L t =
     [(''alias'', JStr (rt_alias t)), (''namespace'', JStr (rt_namespace t)), (''base_url'', JStr (rt_base_url t)),
      (''create_path'', JStr (rt_create_path t)), (''create_method'', JStr (rt_create_method t)),
      (''get_path_template'', JStr (rt_get_path_template t)), (''get_method'', JStr (rt_get_method t)),
      (''cancel_path_template'', JStr (rt_cancel_path_template t)), (''cancel_method'', JStr (rt_cancel_method t)),
      (''id_location'', JStr (rt_id_location t)), (''status_field'', JStr (rt_status_field t)),
      (''result_location'', JStr (rt_result_location t)), (''terminal'', dump_terminal (rt_terminal t)),
      (''capabilities'', dump_capabilities (rt_capabilities t)), (''result_policy'', dump_result_policy (rt_result_policy t)),
      (''pool'', JStr (rt_pool t)), (''status_source'', JStr (status_source_value (rt_status_source t))),
      (''callback_param'', JStr (rt_callback_param t)), (''normalize'', dump_normalize (rt_normalize t)),
      (''strategy'', dump_strategy L (rt_strategy t)), (''extra_headers'', dump_headers (rt_extra_headers t)),
      (''request_body_template'', opt_obj (rt_request_body_template t)), (''notes'', opt_str (rt_notes t))]"

definition version_hash :: "pylib \<Rightarrow> resolved_template \<Rightarrow> string" where
  "version_hash L t = take 16 (lib_sha256 L (dumps True True (JObj (resolved_to_raw_dict L t))))"

subsection \<open>Platform patches\<close>

record platform_patch =
  pp_id :: string
  pp_fields :: jobj
  pp_match_hosts :: "string list"
  pp_match_aliases :: "string list"

definition patch_matches :: "platform_patch \<Rightarrow> string \<Rightarrow> string \<Rightarrow> bool res" where
  "patch_matches p alias url = bind_res (urlparse [] url) (\<lambda>u.
     let host = lower (case url_hostname (split_url.truncate u) of None \<Rightarrow> [] | Some h \<Rightarrow> h)
     in Inr (alias \<in> set (pp_match_aliases p)
         \<or> (host \<noteq> [] \<and> list_ex (\<lambda>h. host = h \<or> ends_with (CHR ''.'' # h) host) (pp_match_hosts p))))"

fun set_in :: "string list \<Rightarrow> json \<Rightarrow> jobj \<Rightarrow> jobj res" where
  "set_in [] v d = Inr d"
| "set_in [k] v d = Inr (dict_set k v d)"
| "set_in (k # k' # ks) v d = (case dict_get d k of
      None \<Rightarrow> bind_res (set_in (k' # ks) v []) (\<lambda>c. Inr (dict_set k (JObj c) d))
    | Some (JObj c) \<Rightarrow> bind_res (set_in (k' # ks) v c) (\<lambda>c'. Inr (dict_set k (JObj c') d))
    | Some _ \<Rightarrow> Inl (if ks = [] then TypeError ''item assignment'' else AttributeError ''setdefault''))"

fun get_in :: "string list \<Rightarrow> json \<Rightarrow> json" where
  "get_in [] v = v"
| "get_in (k # ks) (JObj d) = (case dict_get d k of None \<Rightarrow> JNull | Some v \<Rightarrow> get_in ks v)"
| "get_in (k # ks) v = JNull"

definition dotted_parts :: "string \<Rightarrow> string list" where
  "dotted_parts dotted = split_on (CHR ''.'') dotted"

type_synonym provenance = "field_source dict"

fun apply_fields :: "jobj \<Rightarrow> jobj \<times> provenance \<Rightarrow> (jobj \<times> provenance) res" where
  "apply_fields [] s = Inr s"
| "apply_fields ((dotted, v) # fs) (payload, prov) =
     (if dict_get prov dotted = Some FS_EXPLICIT then apply_fields fs (payload, prov)
      else bind_res (set_in (dotted_parts dotted) v payload)
        (\<lambda>payload'. apply_fields fs (payload', dict_set dotted FS_PATCHED prov)))"

fun apply_platform_patches :: "string \<Rightarrow> string \<Rightarrow> platform_patch list \<Rightarrow> jobj \<times> provenance
    \<Rightarrow> ((jobj \<times> provenance) \<times> string list) res" where
  "apply_platform_patches alias url [] s = Inr (s, [])"
| "apply_platform_patches alias url (p # ps) s = bind_res (patch_matches p alias url) (\<lambda>hit.
     if \<not> hit then apply_platform_patches alias url ps s
     else bind_res (apply_fields (pp_fields p) s) (\<lambda>s'.
       bind_res (apply_platform_patches alias url ps s') (\<lambda>(s'', ids). Inr (s'', pp_id p # ids))))"

subsection \<open>The expansion\<close>

definition source_of :: "'a option \<Rightarrow> field_source \<Rightarrow> field_source" where
  "source_of x s = (if x = None then s else FS_EXPLICIT)"

definition text_source :: "string option \<Rightarrow> field_source \<Rightarrow> field_source" where
  "text_source x s = (case x of Some (c # r) \<Rightarrow> FS_EXPLICIT | _ \<Rightarrow> s)"

text \<open>\<open>alias.rsplit("-", 1)[0] if "-" in alias else "default"\<close>.\<close>

definition default_namespace :: "string \<Rightarrow> string" where
  "default_namespace alias = (if CHR ''-'' \<in> set alias
     then rev (drop 1 (dropWhile (\<lambda>c. c \<noteq> CHR ''-'') (rev alias))) else ''default'')"

definition draft_result_policy :: "settings \<Rightarrow> template_draft \<Rightarrow> result_policy" where
  "draft_result_policy st t =
     (let p = (case td_result_policy t of None \<Rightarrow> default_result_policy | Some (p, fs) \<Rightarrow> p);
          names = (case td_result_policy t of None \<Rightarrow> [] | Some (p, fs) \<Rightarrow> fs)
      in if ''mode'' \<in> set names then p
         else p\<lparr>rp_mode := (if result_mode_store_default st then RM_STORE else RM_PASSTHROUGH)\<rparr>)"

definition leaf_sources :: "string \<Rightarrow> ('a \<times> string list) option \<Rightarrow> provenance" where
  "leaf_sources part x = (case x of None \<Rightarrow> [] | Some (v, names) \<Rightarrow> List.map (\<lambda>f. (part @ ''.'' @ f, FS_EXPLICIT)) names)"

definition part_of :: "('a \<times> string list) option \<Rightarrow> 'a \<Rightarrow> 'a" where
  "part_of x d = (case x of None \<Rightarrow> d | Some (v, names) \<Rightarrow> v)"

definition draft_provenance :: "template_draft \<Rightarrow> provenance" where
  "draft_provenance t = dict_update []
     ([(''get_path_template'', text_source (td_get_path_template t) FS_DERIVED),
       (''cancel_path_template'', text_source (td_cancel_path_template t) FS_DERIVED),
       (''id_location'', text_source (td_id_location t) FS_DEFAULT), (''status_field'', text_source (td_status_field t) FS_DEFAULT),
       (''terminal'', source_of (td_terminal t) FS_DEFAULT), (''capabilities'', source_of (td_capabilities t) FS_DEFAULT),
       (''result_policy'', source_of (td_result_policy t) FS_DEFAULT)]
      @ (if ''mode'' \<in> set (case td_result_policy t of None \<Rightarrow> [] | Some (p, fs) \<Rightarrow> fs) then []
         else [(''result_policy.mode'', FS_DEFAULT)])
      @ [(''pool'', text_source (td_pool t) FS_DEFAULT), (''status_source'', source_of (td_status_source t) FS_DEFAULT),
         (''callback_param'', text_source (td_callback_param t) FS_DEFAULT), (''namespace'', text_source (td_namespace t) FS_DERIVED),
         (''normalize'', source_of (td_normalize t) FS_DEFAULT)]
      @ leaf_sources ''capabilities'' (td_capabilities t) @ leaf_sources ''terminal'' (td_terminal t)
      @ leaf_sources ''result_policy'' (td_result_policy t) @ leaf_sources ''normalize'' (td_normalize t)
      @ [(''strategy'', FS_DEFAULT)]
      @ (case td_strategy t of None \<Rightarrow> [] | Some st \<Rightarrow> List.map (\<lambda>(k, v). (''strategy.'' @ k, FS_EXPLICIT)) st)
      @ [(''base_url'', FS_EXPLICIT), (''result_location'', FS_EXPLICIT), (''create_path'', FS_EXPLICIT), (''alias'', FS_EXPLICIT),
         (''create_method'', if td_create_method t \<noteq> ''POST'' then FS_EXPLICIT else FS_DEFAULT)])"

definition no_rules :: normalization_rules where
  "no_rules = \<lparr>nr_fields = [], nr_case_insensitive_fields = [], nr_trim_strings = True\<rparr>"

definition draft_payload :: "pylib \<Rightarrow> settings \<Rightarrow> template_draft \<Rightarrow> jobj" where
  "draft_payload L st t =
     (let by_id = td_create_path t @ ''/{id}'' in
      [(''alias'', JStr (td_alias t)), (''namespace'', JStr (or_str (td_namespace t) (default_namespace (td_alias t)))),
       (''base_url'', JStr (td_base_url t)), (''create_path'', JStr (td_create_path t)), (''create_method'', JStr (td_create_method t)),
       (''get_path_template'', JStr (or_str (td_get_path_template t) by_id)), (''get_method'', JStr (td_get_method t)),
       (''cancel_path_template'', JStr (or_str (td_cancel_path_template t) by_id)), (''cancel_method'', JStr (td_cancel_method t)),
       (''id_location'', JStr (or_str (td_id_location t) ''$.id'')), (''status_field'', JStr (or_str (td_status_field t) ''$.status'')),
       (''result_location'', JStr (td_result_location t)), (''terminal'', dump_terminal (part_of (td_terminal t) default_terminal)),
       (''capabilities'', dump_capabilities (part_of (td_capabilities t) default_capabilities)),
       (''result_policy'', dump_result_policy (draft_result_policy st t)), (''pool'', JStr (or_str (td_pool t) ''shared'')),
       (''status_source'', JStr (status_source_value (case td_status_source t of None \<Rightarrow> SRC_POLL | Some s \<Rightarrow> s))),
       (''callback_param'', JStr (or_str (td_callback_param t) ''callback_url'')),
       (''normalize'', dump_normalize (part_of (td_normalize t) no_rules)),
       (''strategy'', dump_strategy L (dict_update (load_strategy_defaults st) (case td_strategy t of None \<Rightarrow> [] | Some s \<Rightarrow> s))),
       (''extra_headers'', dump_headers (td_extra_headers t)), (''request_body_template'', opt_obj (td_request_body_template t)),
       (''notes'', opt_str (td_notes t))])"

definition patched_draft :: "pylib \<Rightarrow> settings \<Rightarrow> platform_patch list \<Rightarrow> template_draft
    \<Rightarrow> ((jobj \<times> provenance) \<times> string list) res" where
  "patched_draft L st patches t =
     apply_platform_patches (td_alias t) (td_base_url t) patches (draft_payload L st t, draft_provenance t)"

text \<open>The expanded template and the ids of the patches that matched, sorted (\<open>provenance["_patches"]\<close>).\<close>

definition resolve :: "pylib \<Rightarrow> pydantic \<Rightarrow> settings \<Rightarrow> platform_patch list \<Rightarrow> template_draft
    \<Rightarrow> (resolved_template \<times> string list) res" where
  "resolve L P st patches t =
     bind_res (patched_draft L st patches t) (\<lambda>((payload, prov), ids). case read_resolved L P prov payload of
         None \<Rightarrow> Inl (ValueError ''validation'')
       | Some r \<Rightarrow> Inr (r, sort (remdups ids)))"

definition effective_review_ok :: "resolved_template \<Rightarrow> string list" where
  "effective_review_ok t = (let c = rt_capabilities t in
     (if cap_confirm_strategy c = CS_MANUAL_ONLY then [''confirm_strategy''] else [])
     @ (if \<not> cap_upstream_idempotent c then [''upstream_idempotent''] else [])
     @ (if cap_rate_limit_side_effect_free c then [''rate_limit_side_effect_free''] else [])
     @ (if cap_per_key_isolation c then [''per_key_isolation''] else [])
     @ (if rp_mode (rt_result_policy t) = RM_PASSTHROUGH then [''result_policy''] else []))"

end
