(* ===== verification/Validator.thy ===== *)
theory Validator
  imports Derive Redaction
begin

text \<open>
  \<open>templates/validator.py\<close>: the checks a raw template goes through before it is registered. An issue is the field it is
  about and its severity; its text is left out. \<open>late\<close> is the deadline clock of the expression evaluator, and
  \<open>patches\<close> what \<open>load_builtin_patches()\<close> reads.
\<close>

datatype severity = Error | Warning

type_synonym issue = "string \<times> severity"

record validation_report =
  vr_tier :: "template_tier option"
  vr_resolved :: "resolved_template option"
  vr_patch_ids :: "string list"
  vr_issues :: "issue list"
  vr_assumptions :: "string list"

definition report_errors :: "validation_report \<Rightarrow> issue list" where
  "report_errors r = filter (\<lambda>i. snd i = Error) (vr_issues r)"

definition report_warnings :: "validation_report \<Rightarrow> issue list" where
  "report_warnings r = filter (\<lambda>i. snd i = Warning) (vr_issues r)"

definition report_ok :: "validation_report \<Rightarrow> bool" where
  "report_ok r \<longleftrightarrow> report_errors r = [] \<and> vr_resolved r \<noteq> None"

definition add_issues :: "issue list \<Rightarrow> validation_report \<Rightarrow> validation_report" where
  "add_issues is r = r\<lparr>vr_issues := vr_issues r @ is\<rparr>"

definition issue_if :: "bool \<Rightarrow> string \<Rightarrow> severity \<Rightarrow> issue list" where
  "issue_if b f s = (if b then [(f, s)] else [])"

subsection \<open>The checks\<close>

definition check_expressions :: "resolved_template \<Rightarrow> issue list" where
  "check_expressions t =
     issue_if (\<not> is_valid_expression (rt_id_location t)) ''id_location'' Error
   @ issue_if (\<not> is_valid_expression (rt_status_field t)) ''status_field'' Error
   @ issue_if (\<not> is_valid_expression (rt_result_location t)) ''result_location'' Error"

definition check_paths :: "resolved_template \<Rightarrow> issue list" where
  "check_paths t =
     issue_if (\<not> contains ''{id}'' (rt_get_path_template t)) ''get_path_template'' Error
   @ issue_if (cap_cancel (rt_capabilities t) \<and> \<not> contains ''{id}'' (rt_cancel_path_template t)) ''cancel_path_template'' Error
   @ issue_if (rt_base_url t = []) ''base_url'' Error
   @ issue_if (rt_status_source t = SRC_CALLBACK \<and> \<not> cap_callback (rt_capabilities t)) ''status_source'' Error"

definition check_terminal :: "resolved_template \<Rightarrow> issue list" where
  "check_terminal t = (let m = rt_terminal t in
     issue_if (tm_success m = []) ''terminal.success'' Error
   @ issue_if (tm_failure m = []) ''terminal.failure'' Error
   @ issue_if (list_ex (\<lambda>s. s \<in> set (tm_failure m)) (tm_success m)) ''terminal'' Error
   @ issue_if (effective_failure_status t \<notin> set (tm_failure m) \<union> set (tm_expired m))
       ''terminal.internal_terminal_rewrite'' Warning)"

definition check_capabilities :: "resolved_template \<Rightarrow> issue list" where
  "check_capabilities t = (let c = rt_capabilities t; n = nr_fields (rt_normalize t) in
     issue_if (cap_confirm_strategy c = CS_LIST_AND_MATCH \<and> n = []) ''normalize.fields'' Error
   @ issue_if (cap_per_key_isolation c \<and> cap_upstream_idempotent c) ''capabilities'' Warning
   @ issue_if (rp_mode (rt_result_policy t) = RM_PASSTHROUGH \<and> \<not> cap_permanent_result_url c) ''result_policy.mode'' Error
   @ issue_if (rp_mode (rt_result_policy t) = RM_REDIRECT) ''result_policy.mode'' Error
   @ issue_if (cap_callback c \<and> strip (rt_callback_param t) = []) ''callback_param'' Error
   @ (case rt_request_body_template t of None \<Rightarrow> []
      | Some b \<Rightarrow> issue_if (list_ex (\<lambda>f. f \<notin> fst ` set b) n) ''normalize.fields'' Warning))"

definition risky_deadline_warning :: "rat \<Rightarrow> rat \<Rightarrow> bool" where
  "risky_deadline_warning deadline poll_max \<longleftrightarrow> 0 < deadline \<and> 0 < poll_max \<and> deadline \<le> 2 * poll_max"

text \<open>The last loop of the check, over the keys of the draft's override, never finds an unknown one.\<close>

definition check_strategy :: "rat \<Rightarrow> resolved_template \<Rightarrow> issue list" where
  "check_strategy poll_max t = (let st = rt_strategy t in
     issue_if (py_int (strategy_get st ''max_attempts'' 1) < 1) ''strategy.max_attempts'' Error
   @ issue_if (strategy_get st ''deadline_seconds'' 1 \<le> 0) ''strategy.deadline_seconds'' Error
   @ issue_if (risky_deadline_warning (strategy_get st ''deadline_seconds'' 0) poll_max) ''strategy.deadline_seconds'' Warning
   @ issue_if (strategy_get st ''min_refresh_interval'' 0 < 0) ''strategy.min_refresh_interval'' Error
   @ issue_if (py_int (strategy_get st ''idempotency_window_seconds'' 1) \<le> 0) ''strategy.idempotency_window_seconds'' Error)"

definition CREDENTIAL_HEADERS :: "string list" where
  "CREDENTIAL_HEADERS = [''authorization'', ''x-api-key'', ''api-key'', ''x-goog-api-key'']"

definition check_credentials :: "resolved_template \<Rightarrow> issue list" where
  "check_credentials t = List.concat (List.map (\<lambda>(k, v). issue_if (lower k \<in> set CREDENTIAL_HEADERS) ''extra_headers'' Error)
     (rt_extra_headers t))"

subsection \<open>Sample responses\<close>

definition check_sample_create :: "(nat \<Rightarrow> bool) \<Rightarrow> jobj option \<Rightarrow> resolved_template \<Rightarrow> validation_report \<Rightarrow> validation_report res" where
  "check_sample_create late sample t r = (case sample of
      None \<Rightarrow> Inr r
    | Some doc \<Rightarrow> if \<not> report_ok r then Inr r
        else bind_res (try_extract late (JObj doc) (rt_id_location t)) (\<lambda>found. Inr (case found of
            None \<Rightarrow> add_issues [(''id_location'', Error)] r
          | Some v \<Rightarrow> add_issues (issue_if (\<not> is_safe_interpolation_value v) ''id_location'' Error) r)))"

definition check_sample_status :: "(nat \<Rightarrow> bool) \<Rightarrow> jobj option \<Rightarrow> resolved_template \<Rightarrow> validation_report \<Rightarrow> validation_report res" where
  "check_sample_status late sample t r = (case sample of
      None \<Rightarrow> Inr r
    | Some doc \<Rightarrow> if \<not> report_ok r then Inr r
        else bind_res (try_extract late (JObj doc) (rt_status_field t)) (\<lambda>found. Inr (case found of
            None \<Rightarrow> add_issues [(''status_field'', Warning)] r
          | Some v \<Rightarrow> add_issues (issue_if (maps_status t (py_str v) = None) ''terminal'' Warning) r)))"

subsection \<open>The validation\<close>

definition empty_report :: validation_report where
  "empty_report = \<lparr>vr_tier = None, vr_resolved = None, vr_patch_ids = [], vr_issues = [], vr_assumptions = []\<rparr>"

definition rejected :: "pydantic \<Rightarrow> json \<Rightarrow> validation_report \<Rightarrow> validation_report" where
  "rejected P v r = add_issues (List.map (\<lambda>f. (f, Error)) (pd_errors P v)) r"

definition checked :: "rat \<Rightarrow> template_tier \<Rightarrow> resolved_template \<Rightarrow> string list \<Rightarrow> validation_report" where
  "checked poll_max tier t ids =
     (let r = \<lparr>vr_tier = Some tier, vr_resolved = Some t, vr_patch_ids = ids,
            vr_issues = check_expressions t @ check_paths t @ check_terminal t @ check_capabilities t
              @ check_strategy poll_max t @ check_credentials t, vr_assumptions = []\<rparr>
      in if report_ok r then r\<lparr>vr_assumptions := effective_review_ok t\<rparr> else r)"

text \<open>\<open>resolve(draft)\<close>: a validation error of the expanded form becomes a report; what a patch raises is passed on.\<close>

definition validate :: "pylib \<Rightarrow> pydantic \<Rightarrow> settings \<Rightarrow> platform_patch list \<Rightarrow> (nat \<Rightarrow> bool)
    \<Rightarrow> jobj option \<Rightarrow> jobj option \<Rightarrow> rat option \<Rightarrow> jobj \<Rightarrow> validation_report res" where
  "validate L P st patches late sample_status sample_create poll_max raw = (case load_draft L P raw of
      None \<Rightarrow> Inr (rejected P (JObj raw) empty_report)
    | Some t \<Rightarrow> bind_res (patched_draft L st patches t) (\<lambda>((payload, prov), ids). case read_resolved L P prov payload of
          None \<Rightarrow> Inr (rejected P (JObj payload) (empty_report\<lparr>vr_tier := Some (template_tier t)\<rparr>))
        | Some r \<Rightarrow>
            bind_res (check_sample_create late sample_create r
                (checked (case poll_max of None \<Rightarrow> poll_max_interval st | Some m \<Rightarrow> m) (template_tier t) r (sort (remdups ids))))
              (check_sample_status late sample_status r)))"

definition validate_raw :: "pylib \<Rightarrow> pydantic \<Rightarrow> settings \<Rightarrow> platform_patch list \<Rightarrow> jobj \<Rightarrow> validation_report res" where
  "validate_raw L P st patches raw = validate L P st patches (\<lambda>_. False) None None None raw"

end
