(* ===== verification/Registry.thy ===== *)
theory Registry
  imports Validator Container Render
begin

text \<open>
  The rest of \<open>templates/registry.py\<close>: registration, the classification of a change and revision in place; and
  \<open>gateway/direct.py\<close>, which builds a version from a channel's inline configuration. \<open>builtin\<close> are the patches
  validation loads by itself, \<open>own\<close> those the registry was made with. Times of creation and update, and log lines,
  are left out.
\<close>

subsection \<open>Lookups\<close>

definition aliases :: "registry \<Rightarrow> string list" where
  "aliases r = sort (List.map fst r)"

definition all_versions :: "registry \<Rightarrow> template_version list" where
  "all_versions r = List.concat (List.map (versions_of r) (aliases r))"

definition is_namespace_owned :: "registry \<Rightarrow> string \<Rightarrow> string \<Rightarrow> bool" where
  "is_namespace_owned r alias ns = (case registry_get r alias None of None \<Rightarrow> False | Some tv \<Rightarrow> tv_namespace tv = ns)"

definition config_hash :: "pylib \<Rightarrow> template_version \<Rightarrow> string" where
  "config_hash L tv = take 16 (lib_sha256 L (dumps True True (JObj (tv_raw tv))))"

definition version_ref :: "template_version \<Rightarrow> string" where
  "version_ref tv = tv_alias tv @ ''@'' @ show_int (tv_version tv)"

subsection \<open>Registration\<close>

text \<open>\<open>provenance["_patches"]\<close> is the ids joined by commas; it is split again.\<close>

definition recorded_patches :: "string list \<Rightarrow> string list" where
  "recorded_patches ids = filter (\<lambda>p. p \<noteq> []) (split_on (CHR '','') (join '','' ids))"

definition draft_of :: "pylib \<Rightarrow> pydantic \<Rightarrow> jobj \<Rightarrow> template_draft res" where
  "draft_of L P raw = (case load_draft L P raw of None \<Rightarrow> Inl (ValueError ''validation'') | Some t \<Rightarrow> Inr t)"

definition reported_or_resolved :: "pylib \<Rightarrow> pydantic \<Rightarrow> settings \<Rightarrow> platform_patch list \<Rightarrow> jobj \<Rightarrow> validation_report
    \<Rightarrow> (resolved_template \<times> string list) res" where
  "reported_or_resolved L P st own raw report = (case vr_resolved report of
      Some t \<Rightarrow> Inr (t, vr_patch_ids report)
    | None \<Rightarrow> bind_res (draft_of L P raw) (resolve L P st own))"

definition new_version :: "registry \<Rightarrow> int option \<Rightarrow> bool \<Rightarrow> jobj \<Rightarrow> resolved_template \<Rightarrow> string list \<Rightarrow> template_version" where
  "new_version reg version enabled raw t ids =
     \<lparr>tv_alias = rt_alias t, tv_namespace = rt_namespace t,
      tv_version = (case version of Some v \<Rightarrow> if v = 0 then next_version reg (rt_alias t) else v
                    | None \<Rightarrow> next_version reg (rt_alias t)),
      tv_enabled = enabled, tv_resolved = t, tv_raw = raw, tv_patch_ids = recorded_patches ids, tv_canary_weight = 1\<rparr>"

definition register :: "pylib \<Rightarrow> pydantic \<Rightarrow> settings \<Rightarrow> platform_patch list \<Rightarrow> platform_patch list \<Rightarrow> int option \<Rightarrow> bool \<Rightarrow> bool
    \<Rightarrow> jobj \<Rightarrow> registry \<Rightarrow> (registry \<times> template_version option \<times> validation_report) res" where
  "register L P st builtin own version enabled validate_first raw reg =
     bind_res (validate_raw L P st builtin raw) (\<lambda>report.
       if validate_first \<and> \<not> report_ok report then Inr (reg, None, report)
       else bind_res (reported_or_resolved L P st own raw report) (\<lambda>(t, ids).
         let tv = new_version reg version enabled raw t ids in Inr (put_version reg tv, Some tv, report)))"

text \<open>\<open>reload_files\<close>: the documents of the template files in order, as version 1 and without validation first.\<close>

fun reload_files :: "pylib \<Rightarrow> pydantic \<Rightarrow> settings \<Rightarrow> platform_patch list \<Rightarrow> platform_patch list \<Rightarrow> jobj list
    \<Rightarrow> registry \<Rightarrow> registry res" where
  "reload_files L P st builtin own [] reg = Inr reg"
| "reload_files L P st builtin own (raw # raws) reg =
     bind_res (register L P st builtin own (Some 1) True False raw reg) (\<lambda>(reg', _). reload_files L P st builtin own raws reg')"

subsection \<open>Changes\<close>

definition EPHEMERAL_FIELDS :: "string list" where
  "EPHEMERAL_FIELDS = [''status_field'', ''terminal'', ''terminal.success'', ''terminal.failure'', ''terminal.expired'',
     ''terminal.internal_terminal_rewrite'', ''terminal.internal_terminal_error_code'', ''terminal.error_field'',
     ''id_location'', ''result_location'', ''notes'']"

definition FORCED_REVIEW_FIELDS :: "string list" where
  "FORCED_REVIEW_FIELDS = [''base_url'', ''create_path'', ''create_method'', ''get_method'', ''cancel_method'',
     ''get_path_template'', ''cancel_path_template'', ''callback_param'', ''extra_headers'', ''request_body_template'',
     ''id_location'', ''result_location'', ''status_field'', ''status_source'', ''pool'', ''terminal'', ''normalize'', ''namespace'']"

definition FORCED_REVIEW_PREFIXES :: "string list" where
  "FORCED_REVIEW_PREFIXES = [''capabilities'', ''result_policy'', ''strategy'']"

datatype apply_mode = IN_PLACE | VERSIONED

record change_plan =
  pl_changed_fields :: "string list"
  pl_apply_mode :: apply_mode
  pl_requires_dual_review :: bool
  pl_forced_review_fields :: "string list"
  pl_is_noop :: bool

text \<open>Python's equality of JSON values: numbers by value, objects whatever the order of their keys, a value and itself.\<close>

fun number_of :: "pylib \<Rightarrow> json \<Rightarrow> rat option" where
  "number_of L (JBool b) = Some (if b then 1 else 0)"
| "number_of L (JInt i) = Some (of_int i)"
| "number_of L (JFloat t) = lib_float L t"
| "number_of L _ = None"

fun json_eq :: "pylib \<Rightarrow> json \<Rightarrow> json \<Rightarrow> bool"
and items_eq :: "pylib \<Rightarrow> json list \<Rightarrow> json list \<Rightarrow> bool"
and fields_eq :: "pylib \<Rightarrow> (string \<times> json) list \<Rightarrow> jobj \<Rightarrow> bool" where
  "json_eq L (JArr xs) v = (case v of JArr ys \<Rightarrow> items_eq L xs ys | _ \<Rightarrow> False)"
| "json_eq L (JObj d) v = (case v of JObj e \<Rightarrow> length d = length e \<and> fields_eq L d e | _ \<Rightarrow> False)"
| "json_eq L JNull v = (v = JNull)"
| "json_eq L (JStr s) v = (v = JStr s)"
| "json_eq L (JBool b) v = (number_of L v = number_of L (JBool b))"
| "json_eq L (JInt i) v = (number_of L v = number_of L (JInt i))"
| "json_eq L (JFloat t) v = (v = JFloat t \<or> (lib_float L t \<noteq> None \<and> number_of L v = lib_float L t))"
| "items_eq L [] ys = (ys = [])"
| "items_eq L (x # xs) ys = (case ys of [] \<Rightarrow> False | y # ys' \<Rightarrow> json_eq L x y \<and> items_eq L xs ys')"
| "fields_eq L [] e = True"
| "fields_eq L ((k, x) # d) e = (case dict_get e k of None \<Rightarrow> False | Some y \<Rightarrow> json_eq L x y \<and> fields_eq L d e)"

definition opt_eq :: "pylib \<Rightarrow> json option \<Rightarrow> json option \<Rightarrow> bool" where
  "opt_eq L a b \<longleftrightarrow> a = b \<or> json_eq L (case a of None \<Rightarrow> JNull | Some v \<Rightarrow> v) (case b of None \<Rightarrow> JNull | Some v \<Rightarrow> v)"

function flatten_into :: "string \<Rightarrow> jobj \<Rightarrow> jobj \<Rightarrow> jobj" where
  "flatten_into pre [] out = out"
| "flatten_into pre ((k, v) # d) out =
     flatten_into pre d (case v of
         JObj c \<Rightarrow> dict_update (dict_set (pre @ k) v out) (flatten_into (pre @ k @ ''.'') c [])
       | _ \<Rightarrow> dict_set (pre @ k) v out)"
  by pat_completeness auto

termination
  by (relation "measure (\<lambda>(pre, d, out). size_list (size_prod (\<lambda>_. 0) size) d)") auto

definition flatten :: "jobj \<Rightarrow> jobj" where
  "flatten d = flatten_into [] d []"

definition changed_fields :: "pylib \<Rightarrow> resolved_template \<Rightarrow> resolved_template \<Rightarrow> string list" where
  "changed_fields L old new =
     (let a = flatten (resolved_to_raw_dict L old); b = flatten (resolved_to_raw_dict L new);
          changed = filter (\<lambda>k. \<not> opt_eq L (dict_get a k) (dict_get b k)) (sort (remdups (List.map fst a @ List.map fst b)))
      in filter (\<lambda>k. \<not> list_ex (starts_with (k @ ''.'')) changed) changed)"

definition needs_forced_review :: "string \<Rightarrow> bool" where
  "needs_forced_review f \<longleftrightarrow> f \<in> set FORCED_REVIEW_FIELDS \<or> list_ex (\<lambda>p. starts_with p f) FORCED_REVIEW_PREFIXES"

definition classify_change :: "pylib \<Rightarrow> resolved_template \<Rightarrow> resolved_template \<Rightarrow> change_plan" where
  "classify_change L old new = (let changed = changed_fields L old new; forced = filter needs_forced_review changed in
     if changed = [] then
       \<lparr>pl_changed_fields = [], pl_apply_mode = IN_PLACE, pl_requires_dual_review = False, pl_forced_review_fields = [], pl_is_noop = True\<rparr>
     else
       \<lparr>pl_changed_fields = changed,
        pl_apply_mode = (if list_all (\<lambda>f. f \<in> set EPHEMERAL_FIELDS) changed then IN_PLACE else VERSIONED),
        pl_requires_dual_review = (forced \<noteq> []), pl_forced_review_fields = forced, pl_is_noop = False\<rparr>)"

definition new_alias_plan :: change_plan where
  "new_alias_plan = \<lparr>pl_changed_fields = [''<new-alias>''], pl_apply_mode = VERSIONED, pl_requires_dual_review = True,
     pl_forced_review_fields = [''<new-alias>''], pl_is_noop = False\<rparr>"

definition plan_change :: "pylib \<Rightarrow> pydantic \<Rightarrow> settings \<Rightarrow> platform_patch list \<Rightarrow> jobj \<Rightarrow> registry \<Rightarrow> change_plan res" where
  "plan_change L P st own raw reg =
     bind_res (draft_of L P raw) (\<lambda>t. bind_res (resolve L P st own t) (\<lambda>(new, ids).
       Inr (case registry_get reg (rt_alias new) None of
           None \<Rightarrow> new_alias_plan
         | Some old \<Rightarrow> classify_change L (tv_resolved old) new)))"

text \<open>The version \<open>get(alias)\<close> returns is changed where it stands in the registry.\<close>

definition revise :: "registry \<Rightarrow> template_version \<Rightarrow> resolved_template \<Rightarrow> jobj \<Rightarrow> registry" where
  "revise reg cur t raw = dict_set (rt_alias t)
     (List.map (\<lambda>v. if tv_version v = tv_version cur then v\<lparr>tv_resolved := t, tv_raw := raw\<rparr> else v) (versions_of reg (rt_alias t))) reg"

definition patch_in_place :: "pylib \<Rightarrow> pydantic \<Rightarrow> settings \<Rightarrow> platform_patch list \<Rightarrow> platform_patch list \<Rightarrow> jobj
    \<Rightarrow> registry \<Rightarrow> (registry \<times> template_version option \<times> validation_report \<times> change_plan) res" where
  "patch_in_place L P st builtin own raw reg =
     bind_res (plan_change L P st own raw reg) (\<lambda>plan.
       bind_res (validate_raw L P st builtin raw) (\<lambda>report.
         if \<not> report_ok report then Inr (reg, None, report, plan)
         else if pl_apply_mode plan \<noteq> IN_PLACE then Inl (ValueError ''in place'')
         else (case vr_resolved report of
             None \<Rightarrow> Inl AssertionError
           | Some t \<Rightarrow> (case registry_get reg (rt_alias t) None of
                 None \<Rightarrow> Inl AssertionError
               | Some cur \<Rightarrow> Inr (revise reg cur t raw, Some (cur\<lparr>tv_resolved := t, tv_raw := raw\<rparr>), report, plan)))))"

subsection \<open>gateway/direct.py\<close>

definition MINIMAL_KEYS :: "string list" where
  "MINIMAL_KEYS = [''base_url'', ''create_path'', ''result_location'']"

definition OPTIONAL_KEYS :: "string list" where
  "OPTIONAL_KEYS = [''id_location'', ''get_path_template'', ''cancel_path_template'', ''result_policy'', ''capabilities'',
     ''terminal'', ''normalize'', ''strategy'', ''pool'']"

definition direct_config :: "policies \<Rightarrow> string \<Rightarrow> jobj option" where
  "direct_config ps chan = cp_url_direct (policy_of ps chan)"

text \<open>\<open>[str(p) for p in v]\<close>.\<close>

fun iterated :: "json \<Rightarrow> string list res" where
  "iterated (JArr xs) = Inr (List.map py_str xs)"
| "iterated (JStr s) = Inr (List.map (\<lambda>c. [c]) s)"
| "iterated (JObj d) = Inr (List.map fst d)"
| "iterated _ = Inl (TypeError ''not iterable'')"

definition path_prefixes :: "settings \<Rightarrow> jobj \<Rightarrow> string list res" where
  "path_prefixes st cfg =
     bind_res (case dict_get cfg ''allowed_prefixes'' of
         Some v \<Rightarrow> if truthy v then iterated v else Inr (url_direct_allowed_prefixes st)
       | None \<Rightarrow> Inr (url_direct_allowed_prefixes st))
       (\<lambda>ps. Inr (if ps = [] then [case dict_get cfg ''create_path'' of None \<Rightarrow> ''/'' | Some v \<Rightarrow> py_str v] else ps))"

definition path_allowed :: "settings \<Rightarrow> policies \<Rightarrow> string \<Rightarrow> string \<Rightarrow> bool res" where
  "path_allowed st ps chan path = (case direct_config ps chan of
      None \<Rightarrow> Inr False
    | Some [] \<Rightarrow> Inr False
    | Some (x # cfg) \<Rightarrow> bind_res (path_prefixes st (x # cfg)) (\<lambda>prefixes. Inr (list_ex (\<lambda>p. starts_with p path) prefixes)))"

definition direct_raw :: "string \<Rightarrow> jobj \<Rightarrow> jobj" where
  "direct_raw alias cfg = (''alias'', JStr alias) # List.concat (List.map (\<lambda>k. case dict_get cfg k of
      None \<Rightarrow> [] | Some v \<Rightarrow> if v = JNull then [] else [(k, v)]) (MINIMAL_KEYS @ OPTIONAL_KEYS))"

definition direct_template :: "pylib \<Rightarrow> pydantic \<Rightarrow> settings \<Rightarrow> platform_patch list \<Rightarrow> string \<Rightarrow> string \<Rightarrow> jobj
    \<Rightarrow> template_version option res" where
  "direct_template L P st builtin chan alias raw =
     bind_res (validate_raw L P st builtin raw) (\<lambda>report.
       if \<not> report_ok report then Inr None
       else bind_res (draft_of L P raw) (\<lambda>t. bind_res (resolve L P st builtin t) (\<lambda>(r, ids).
         Inr (Some \<lparr>tv_alias = alias, tv_namespace = ''direct:'' @ chan, tv_version = 0, tv_enabled = True,
           tv_resolved = r\<lparr>rt_provenance := dict_set ''_direct'' FS_EXPLICIT (rt_provenance r)\<rparr>, tv_raw = raw,
           tv_patch_ids = [''url_direct''], tv_canary_weight = 1\<rparr>))))"

definition build_direct_version :: "pylib \<Rightarrow> pydantic \<Rightarrow> settings \<Rightarrow> platform_patch list \<Rightarrow> policies
    \<Rightarrow> string \<Rightarrow> string \<Rightarrow> string \<Rightarrow> template_version option res" where
  "build_direct_version L P st builtin ps chan alias path = (case direct_config ps chan of
      None \<Rightarrow> Inr None
    | Some [] \<Rightarrow> Inr None
    | Some (x # cfg) \<Rightarrow>
        if list_ex (\<lambda>k. case dict_get (x # cfg) k of None \<Rightarrow> True | Some v \<Rightarrow> \<not> truthy v) MINIMAL_KEYS then Inr None
        else bind_res (path_allowed st ps chan path) (\<lambda>allowed.
          if \<not> allowed then Inr None
          else direct_template L P st builtin chan alias (direct_raw alias (x # cfg))))"

end
