(* ===== verification/AuditLog.thy ===== *)
theory AuditLog
  imports Json Python
begin

text \<open>
  \<open>db/audit.py\<close>: the append-only audit log and its hash chain. The log is the list of rows in the
  order of their ids; appending reads the last row and inserts one, which are two steps of a
  transaction.
\<close>

record audit_row =
  ae_id :: nat
  ae_event_type :: string
  ae_actor :: string
  ae_actor_role :: "string option"
  ae_subject_type :: "string option"
  ae_subject_id :: "string option"
  ae_payload_digest :: "string option"
  ae_refs :: "jobj option"
  ae_detail :: "string option"
  ae_prev_hash :: "string option"
  ae_hash :: string
  ae_created_at :: time

type_synonym audit_log = "audit_row list"

definition digest_payload :: "pylib \<Rightarrow> json \<Rightarrow> string" where
  "digest_payload L v = lib_sha256 L (dumps True False v)"

definition or_text :: "string option \<Rightarrow> string \<Rightarrow> string" where
  "or_text x d = (case x of Some (c # s) \<Rightarrow> c # s | _ \<Rightarrow> d)"

text \<open>\<open>_canonical_timestamp\<close>: the UTC wall clock of an instant, to the microsecond.\<close>

definition canonical_timestamp :: "pylib \<Rightarrow> time \<Rightarrow> string" where
  "canonical_timestamp L created = lib_strftime L created"

definition hash_material :: "pylib \<Rightarrow> string \<Rightarrow> string \<Rightarrow> string option \<Rightarrow> string option \<Rightarrow> string option
    \<Rightarrow> time \<Rightarrow> string" where
  "hash_material L event_type actor subject_id digest prev created =
     join ''|'' [or_text prev ''genesis'', event_type, actor, or_text subject_id ''-'', or_text digest ''-'',
       canonical_timestamp L created]"

definition compute_hash :: "pylib \<Rightarrow> string \<Rightarrow> string \<Rightarrow> string option \<Rightarrow> string option \<Rightarrow> string option
    \<Rightarrow> time \<Rightarrow> string" where
  "compute_hash L event_type actor subject_id digest prev created =
     lib_sha256 L (hash_material L event_type actor subject_id digest prev created)"

text \<open>What a caller passes to \<open>append\<close>.\<close>

record audit_event =
  av_event_type :: string
  av_actor :: string
  av_actor_role :: "string option"
  av_subject_type :: "string option"
  av_subject_id :: "string option"
  av_payload :: "json option"
  av_refs :: "jobj option"
  av_detail :: "string option"

definition last_hash :: "audit_log \<Rightarrow> string option" where
  "last_hash rows = (if rows = [] then None else Some (ae_hash (last rows)))"

definition next_id :: "audit_log \<Rightarrow> nat" where
  "next_id rows = (if rows = [] then 1 else ae_id (last rows) + 1)"

text \<open>The row made from the tail that was read.\<close>

definition audit_row_of :: "pylib \<Rightarrow> time \<Rightarrow> audit_event \<Rightarrow> string option \<Rightarrow> nat \<Rightarrow> audit_row" where
  "audit_row_of L now e prev i =
     (let digest = map_option (digest_payload L) (av_payload e) in
      \<lparr>ae_id = i, ae_event_type = av_event_type e, ae_actor = av_actor e, ae_actor_role = av_actor_role e,
       ae_subject_type = av_subject_type e, ae_subject_id = av_subject_id e, ae_payload_digest = digest,
       ae_refs = av_refs e, ae_detail = av_detail e, ae_prev_hash = prev,
       ae_hash = compute_hash L (av_event_type e) (av_actor e) (av_subject_id e) digest prev now,
       ae_created_at = now\<rparr>)"

definition append_event :: "pylib \<Rightarrow> time \<Rightarrow> audit_event \<Rightarrow> audit_log \<Rightarrow> audit_log" where
  "append_event L now e rows = rows @ [audit_row_of L now e (last_hash rows) (next_id rows)]"

text \<open>
  \<open>verify_chain\<close>: \<open>None\<close> for an intact chain, otherwise the id of the row it breaks at and whether
  the link or the content is wrong.
\<close>

datatype chain_break = Prev_mismatch nat | Hash_mismatch nat

definition row_hash :: "pylib \<Rightarrow> audit_row \<Rightarrow> string option \<Rightarrow> string" where
  "row_hash L r prev = compute_hash L (ae_event_type r) (ae_actor r) (ae_subject_id r) (ae_payload_digest r) prev
     (ae_created_at r)"

fun verify_from :: "pylib \<Rightarrow> string option \<Rightarrow> audit_log \<Rightarrow> chain_break option" where
  "verify_from L prev [] = None"
| "verify_from L prev (r # rows) =
     (if ae_prev_hash r \<noteq> prev then Some (Prev_mismatch (ae_id r))
      else if ae_hash r \<noteq> row_hash L r prev then Some (Hash_mismatch (ae_id r))
      else verify_from L (Some (ae_hash r)) rows)"

definition verify_chain :: "pylib \<Rightarrow> nat \<Rightarrow> audit_log \<Rightarrow> chain_break option" where
  "verify_chain L limit rows = verify_from L None (take limit rows)"

definition tail_hash :: "audit_log \<Rightarrow> string option" where
  "tail_hash rows = (if rows = [] then None else Some (ae_hash (last rows)))"

subsection \<open>Lemmas\<close>

lemma verify_from_append:
  "verify_from L prev (xs @ ys) = (case verify_from L prev xs of
       Some b \<Rightarrow> Some b
     | None \<Rightarrow> verify_from L (if xs = [] then prev else Some (ae_hash (last xs))) ys)"
  by (induction xs arbitrary: prev) (auto split: option.split)

lemma verify_from_take: "verify_from L prev xs = None \<Longrightarrow> verify_from L prev (take n xs) = None"
  using verify_from_append [of L prev "take n xs" "drop n xs"] by (auto split: option.splits)

lemma verify_append_event:
  "verify_from L None rows = None \<Longrightarrow> verify_from L None (append_event L now e rows) = None"
  by (auto simp: append_event_def verify_from_append audit_row_of_def Let_def row_hash_def last_hash_def)

fun append_all :: "pylib \<Rightarrow> (time \<times> audit_event) list \<Rightarrow> audit_log \<Rightarrow> audit_log" where
  "append_all L [] rows = rows"
| "append_all L ((now, e) # es) rows = append_all L es (append_event L now e rows)"

lemma verify_append_all: "verify_from L None rows = None \<Longrightarrow> verify_from L None (append_all L es rows) = None"
  by (induction es rows rule: append_all.induct) (auto simp: verify_append_event)

lemma append_all_prefix: "\<exists>more. append_all L es rows = rows @ more"
proof (induction es rows rule: append_all.induct)
  case (2 L now e es rows)
  then show ?case by (auto simp: append_event_def)
qed simp

text \<open>The text a row's hash is taken of, given the hash before it.\<close>

definition row_material :: "pylib \<Rightarrow> audit_row \<Rightarrow> string" where
  "row_material L r = hash_material L (ae_event_type r) (ae_actor r) (ae_subject_id r) (ae_payload_digest r)
     (ae_prev_hash r) (ae_created_at r)"

lemma verify_from_rows:
  "verify_from L prev rows = None \<Longrightarrow> r \<in> set rows \<Longrightarrow> ae_hash r = lib_sha256 L (row_material L r)"
  by (induction rows arbitrary: prev)
    (auto simp: row_hash_def compute_hash_def row_material_def split: if_splits)

lemma verify_from_snoc:
  "verify_from L prev (xs @ [r]) = None \<longleftrightarrow> verify_from L prev xs = None
     \<and> ae_prev_hash r = (if xs = [] then prev else Some (ae_hash (last xs)))
     \<and> ae_hash r = lib_sha256 L (row_material L r)"
  by (auto simp: verify_from_append row_hash_def compute_hash_def row_material_def split: option.splits)

text \<open>The hashes are 64 hexadecimal digits.\<close>

definition hex_digest :: "pylib \<Rightarrow> bool" where
  "hex_digest L \<longleftrightarrow> (\<forall>s. length (lib_sha256 L s) = 64 \<and> CHR ''|'' \<notin> set (lib_sha256 L s))"

text \<open>Two rows of the two logs at hand whose texts differ and have one digest.\<close>

definition colliding_rows :: "pylib \<Rightarrow> audit_log \<Rightarrow> audit_log \<Rightarrow> bool" where
  "colliding_rows L xs ys \<longleftrightarrow>
     list_ex (\<lambda>r. list_ex (\<lambda>q. row_material L r \<noteq> row_material L q \<and> lib_sha256 L (row_material L r) = lib_sha256 L (row_material L q)) ys) xs"

lemma cpython_hex_digest: "hex_digest (cpython L)"
  using cpython_sha256 by (simp add: hex_digest_def)

lemma bar_prefix:
  "CHR ''|'' \<notin> set a \<Longrightarrow> CHR ''|'' \<notin> set b \<Longrightarrow> a @ CHR ''|'' # x = b @ CHR ''|'' # y \<Longrightarrow> a = b"
proof (induction a arbitrary: b)
  case Nil
  then show ?case by (cases b) auto
next
  case (Cons c a)
  then show ?case by (cases b) auto
qed

lemma row_material_prev:
  assumes "row_material L r = row_material L q"
    and "CHR ''|'' \<notin> set (or_text (ae_prev_hash r) ''genesis'')" and "CHR ''|'' \<notin> set (or_text (ae_prev_hash q) ''genesis'')"
  shows "or_text (ae_prev_hash r) ''genesis'' = or_text (ae_prev_hash q) ''genesis''"
proof -
  obtain x y where "row_material L r = or_text (ae_prev_hash r) ''genesis'' @ CHR ''|'' # x"
    "row_material L q = or_text (ae_prev_hash q) ''genesis'' @ CHR ''|'' # y"
    by (simp add: row_material_def hash_material_def)
  with assms bar_prefix show ?thesis by simp
qed

lemma tail_prev:
  assumes "hex_digest L" and "verify_from L None xs = None"
  shows "or_text (tail_hash xs) ''genesis'' = (case tail_hash xs of None \<Rightarrow> ''genesis'' | Some h \<Rightarrow> h)
    \<and> CHR ''|'' \<notin> set (or_text (tail_hash xs) ''genesis'') \<and> (\<forall>h. tail_hash xs = Some h \<longrightarrow> length h = 64)"
proof (cases "xs = []")
  case False
  then have "ae_hash (last xs) = lib_sha256 L (row_material L (last xs))"
    using verify_from_rows [OF assms(2), of "last xs"] by simp
  then have "length (ae_hash (last xs)) = 64" "CHR ''|'' \<notin> set (ae_hash (last xs))"
    using assms(1) by (simp_all add: hex_digest_def)
  then show ?thesis using False by (cases "ae_hash (last xs)") (simp_all add: tail_hash_def or_text_def)
qed (simp add: tail_hash_def or_text_def)

lemma tamper_evidence:
  assumes "hex_digest L" and "\<not> colliding_rows L xs ys"
    and "verify_from L None xs = None" and "verify_from L None ys = None" and "tail_hash xs = tail_hash ys"
  shows "List.map (row_material L) xs = List.map (row_material L) ys"
  using assms(2-5)
proof (induction xs arbitrary: ys rule: rev_induct)
  case Nil
  then show ?case by (auto simp: tail_hash_def split: if_splits)
next
  case (snoc r xs)
  then obtain q zs where ys: "ys = zs @ [q]"
    by (cases ys rule: rev_cases) (auto simp: tail_hash_def)
  have r: "verify_from L None xs = None" "ae_prev_hash r = tail_hash xs" "ae_hash r = lib_sha256 L (row_material L r)"
    using snoc.prems(2) by (auto simp: verify_from_snoc tail_hash_def)
  have q: "verify_from L None zs = None" "ae_prev_hash q = tail_hash zs" "ae_hash q = lib_sha256 L (row_material L q)"
    using snoc.prems(3) by (auto simp: ys verify_from_snoc tail_hash_def)
  have "ae_hash r = ae_hash q" using snoc.prems(4) by (simp add: ys tail_hash_def)
  then have m: "row_material L r = row_material L q"
    using snoc.prems(1) r(3) q(3) unfolding colliding_rows_def by (simp add: ys)
  have apart: "\<not> colliding_rows L xs zs" using snoc.prems(1) by (simp add: ys colliding_rows_def list_ex_iff)
  note tx = tail_prev [OF assms(1) r(1)] and tz = tail_prev [OF assms(1) q(1)]
  have "or_text (tail_hash xs) ''genesis'' = or_text (tail_hash zs) ''genesis''"
    using row_material_prev [OF m] tx tz unfolding r(2) q(2) by blast
  then have "tail_hash xs = tail_hash zs"
    using tx tz by (cases "tail_hash xs"; cases "tail_hash zs") auto
  with snoc.IH [OF apart r(1) q(1)] m show ?case by (simp add: ys)
qed

subsection \<open>Properties\<close>

text \<open>
  C35: The log the writer builds verifies. Starting from an intact log, any sequence of appends one
  after the other keeps the rows there were, and the chain verifies whatever limit is asked for.
\<close>

theorem audit_log_verifies:
  assumes "verify_chain L (length rows) rows = None"
  shows "verify_chain L limit (append_all L es rows) = None \<and> (\<exists>more. append_all L es rows = rows @ more)"
  using assms verify_append_all append_all_prefix verify_from_take by (fastforce simp: verify_chain_def)

definition sample_event :: "string \<Rightarrow> audit_event" where
  "sample_event a = \<lparr>av_event_type = a, av_actor = ''system'', av_actor_role = None, av_subject_type = None,
     av_subject_id = None, av_payload = None, av_refs = None, av_detail = None\<rparr>"

theorem audit_log_verifies_witness:
  "verify_chain sample_lib 10 (append_all sample_lib [(1, sample_event ''a''), (2, sample_event ''b'')] []) = None"
  using audit_log_verifies [of sample_lib "[]" 10 "[(1, sample_event ''a''), (2, sample_event ''b'')]"]
  by (simp add: verify_chain_def del: append_all.simps)


definition noted_event :: audit_event where
  "noted_event = (sample_event ''a'')\<lparr>av_detail := Some ''by hand''\<rparr>"


text \<open>
  Two writers at once fork the chain. The last row is read and the new one inserted in two
  steps without a lock: when two writers read the same last row, their rows both name it as predecessor,
  and from then on verification reports the second row, although nobody tampered.
\<close>

theorem concurrent_appends_fork:
  assumes "verify_from L None rows = None"
    and "Some (ae_hash (audit_row_of L now1 e1 (last_hash rows) i)) \<noteq> last_hash rows"
    and "length rows + 2 \<le> limit"
  shows "verify_chain L limit (rows @ [audit_row_of L now1 e1 (last_hash rows) i, audit_row_of L now2 e2 (last_hash rows) j])
    = Some (Prev_mismatch j)"
proof -
  have tk: "take limit (rows @ [audit_row_of L now1 e1 (last_hash rows) i, audit_row_of L now2 e2 (last_hash rows) j])
    = rows @ [audit_row_of L now1 e1 (last_hash rows) i, audit_row_of L now2 e2 (last_hash rows) j]"
    using assms(3) by simp
  have fields: "ae_prev_hash (audit_row_of L n e p k) = p" "ae_id (audit_row_of L n e p k) = k"
    "ae_hash (audit_row_of L n e p k) = row_hash L (audit_row_of L n e p k) p" for n e p k
    by (simp_all add: audit_row_of_def Let_def row_hash_def)
  have prev: "(if rows = [] then None else Some (ae_hash (last rows))) = last_hash rows"
    by (simp add: last_hash_def)
  show ?thesis
    unfolding verify_chain_def tk verify_from_append assms(1) option.case prev
    using assms(2) fields by simp
qed

theorem concurrent_appends_fork_witness:
  "verify_chain sample_lib 10 [audit_row_of sample_lib 1 (sample_event ''a'') None 1,
      audit_row_of sample_lib 2 (sample_event ''b'') None 2] = Some (Prev_mismatch 2)"
  using concurrent_appends_fork [of sample_lib "[]" 1 "sample_event ''a''" 1 10 2 "sample_event ''b''" 2]
  by (simp add: last_hash_def)

end
