(* ===== verification/Polling.thy ===== *)
theory Polling
  imports Config "HOL-Library.AList"
begin

text \<open>
  \<open>infra/polling.py\<close>: the adaptive polling interval (duration histogram and percentiles), the AIMD
  multiplier and the pause after a 429, in the in-process controller and over the Redis keys of a
  channel. Times and intervals are rationals; the two clocks of the source are arguments.
\<close>

definition BUCKET_SECONDS :: int where
  "BUCKET_SECONDS = 10"

definition HIST_TTL_SECONDS :: int where
  "HIST_TTL_SECONDS = 7 * 24 * 3600"

definition PCT_CACHE_SECONDS :: int where
  "PCT_CACHE_SECONDS = 300"

definition AIMD_MIN :: rat where
  "AIMD_MIN = 1"

record poll_stats =
  ps_p10 :: rat
  ps_p50 :: rat
  ps_p95 :: rat
  ps_samples :: int
  ps_warm :: bool

definition cold :: "poll_stats \<Rightarrow> bool" where
  "cold s \<longleftrightarrow> \<not> ps_warm s"

definition bucket_label :: "secs \<Rightarrow> int" where
  "bucket_label seconds = \<lfloor>seconds / of_int BUCKET_SECONDS\<rfloor> * BUCKET_SECONDS"

fun percentile_from :: "(int \<times> int) list \<Rightarrow> rat \<Rightarrow> int \<Rightarrow> rat option" where
  "percentile_from [] target acc = None"
| "percentile_from ((b, n) # bs) target acc =
     (if of_int (acc + n) \<ge> target then Some (of_int (max b BUCKET_SECONDS))
      else percentile_from bs target (acc + n))"

definition percentile :: "(int \<times> int) list \<Rightarrow> int \<Rightarrow> rat \<Rightarrow> rat \<Rightarrow> rat" where
  "percentile buckets n_all q fallback =
     (if n_all \<le> 0 then fallback
      else (case percentile_from buckets (of_int n_all * q) 0 of
          Some v \<Rightarrow> v
        | None \<Rightarrow> if buckets = [] then fallback else of_int (fst (last buckets))))"

subsection \<open>The algorithm both controllers share\<close>

record poll_params =
  pp_base :: secs
  pp_minimum :: secs
  pp_maximum :: secs
  pp_initial :: secs
  pp_hot_start_samples :: int

definition params_of :: "settings \<Rightarrow> poll_params" where
  "params_of s = \<lparr>pp_base = poll_base_interval s, pp_minimum = poll_min_interval s,
     pp_maximum = poll_max_interval s, pp_initial = poll_initial_interval s,
     pp_hot_start_samples = poll_hot_start_samples s\<rparr>"

definition clamp :: "poll_params \<Rightarrow> rat \<Rightarrow> rat" where
  "clamp P v = max (pp_minimum P) (min (pp_maximum P) v)"

definition compute_interval :: "poll_params \<Rightarrow> secs \<Rightarrow> poll_stats \<Rightarrow> bool \<Rightarrow> rat res" where
  "compute_interval P elapsed st first_poll =
     (if cold st then Inr (clamp P (if first_poll then pp_initial P else max (pp_initial P) (pp_minimum P)))
      else if first_poll then Inr (clamp P (max (ps_p10 st) (pp_minimum P)))
      else (let p50 = max (ps_p50 st) (pp_minimum P) in
        if p50 = 0 then Inl ZeroDivisionError
        else Inr (clamp P (pp_base P * 2 powi (min \<lfloor>max 0 elapsed / p50\<rfloor> 8)))))"

definition aimd_up :: "poll_params \<Rightarrow> rat \<Rightarrow> rat" where
  "aimd_up P m = min (pp_maximum P / max (pp_base P) (1/1000000)) (max AIMD_MIN (m * 2))"

definition aimd_down :: "rat \<Rightarrow> rat" where
  "aimd_down m = max AIMD_MIN (m * (9/10))"

definition stats_of :: "poll_params \<Rightarrow> (int \<times> int) list \<Rightarrow> poll_stats" where
  "stats_of P hist = (let items = sort_key fst hist; n_all = sum_list (List.map snd items) in
     \<lparr>ps_p10 = percentile items n_all (1/10) (pp_initial P),
      ps_p50 = percentile items n_all (1/2) (pp_initial P),
      ps_p95 = percentile items n_all (95/100) (pp_initial P),
      ps_samples = n_all, ps_warm = (n_all \<ge> pp_hot_start_samples P)\<rparr>)"

definition add_sample :: "secs \<Rightarrow> (int \<times> int) list \<Rightarrow> (int \<times> int) list" where
  "add_sample seconds hist = (let label = bucket_label seconds in
     AList.update label ((case map_of hist label of None \<Rightarrow> 0 | Some n \<Rightarrow> n) + 1) hist)"

subsection \<open>The in-process controller\<close>

record mem_polling =
  mp_buckets :: "(int \<times> int) list dict"
  mp_multiplier :: "rat dict"
  mp_pause_until :: "time dict"
  mp_last_rate_limited :: "time dict"

definition hist_of :: "mem_polling \<Rightarrow> string \<Rightarrow> (int \<times> int) list" where
  "hist_of s chan = (case dict_get (mp_buckets s) chan of None \<Rightarrow> [] | Some h \<Rightarrow> h)"

definition current_multiplier :: "mem_polling \<Rightarrow> string \<Rightarrow> rat" where
  "current_multiplier s chan = (case dict_get (mp_multiplier s) chan of None \<Rightarrow> AIMD_MIN | Some m \<Rightarrow> m)"

definition record_duration :: "string \<Rightarrow> secs \<Rightarrow> mem_polling \<Rightarrow> mem_polling" where
  "record_duration chan seconds s =
     s\<lparr>mp_buckets := dict_set chan (add_sample seconds (hist_of s chan)) (mp_buckets s)\<rparr>"

definition record_terminal :: "string \<Rightarrow> secs \<Rightarrow> mem_polling \<Rightarrow> mem_polling" where
  "record_terminal chan seconds s = record_duration chan seconds s"

definition mem_stats :: "poll_params \<Rightarrow> mem_polling \<Rightarrow> string \<Rightarrow> poll_stats" where
  "mem_stats P s chan = stats_of P (hist_of s chan)"

definition base_interval :: "poll_params \<Rightarrow> mem_polling \<Rightarrow> string \<Rightarrow> secs \<Rightarrow> bool \<Rightarrow> rat res" where
  "base_interval P s chan elapsed first_poll = compute_interval P elapsed (mem_stats P s chan) first_poll"

definition next_interval :: "poll_params \<Rightarrow> mem_polling \<Rightarrow> string \<Rightarrow> secs \<Rightarrow> bool \<Rightarrow> rat res" where
  "next_interval P s chan elapsed first_poll =
     bind_res (compute_interval P elapsed (mem_stats P s chan) first_poll)
       (\<lambda>i. Inr (clamp P (i * current_multiplier s chan)))"

definition note_rate_limited :: "poll_params \<Rightarrow> time \<Rightarrow> string \<Rightarrow> secs option \<Rightarrow> mem_polling \<Rightarrow> rat \<times> mem_polling" where
  "note_rate_limited P now chan retry_after s =
     (let new = aimd_up P (current_multiplier s chan);
          s1 = s\<lparr>mp_multiplier := dict_set chan new (mp_multiplier s),
                 mp_last_rate_limited := dict_set chan now (mp_last_rate_limited s)\<rparr>
      in (new, case retry_after of
            Some r \<Rightarrow> if r \<noteq> 0 then s1\<lparr>mp_pause_until := dict_set chan (now + r) (mp_pause_until s1)\<rparr> else s1
          | None \<Rightarrow> s1))"

definition note_clean_period :: "string \<Rightarrow> mem_polling \<Rightarrow> rat \<times> mem_polling" where
  "note_clean_period chan s = (let new = aimd_down (current_multiplier s chan) in
     (new, s\<lparr>mp_multiplier := dict_set chan new (mp_multiplier s)\<rparr>))"

definition decay_if_clean :: "time \<Rightarrow> string \<Rightarrow> secs \<Rightarrow> mem_polling \<Rightarrow> rat option \<times> mem_polling" where
  "decay_if_clean now chan quiet s =
     (case dict_get (mp_last_rate_limited s) chan of
        Some t \<Rightarrow> if now - t < quiet then (None, s)
          else (case note_clean_period chan s of (m, s') \<Rightarrow> (Some m, s'))
      | None \<Rightarrow> (case note_clean_period chan s of (m, s') \<Rightarrow> (Some m, s')))"

definition paused_for :: "time \<Rightarrow> mem_polling \<Rightarrow> string \<Rightarrow> secs" where
  "paused_for now s chan = max 0 ((case dict_get (mp_pause_until s) chan of None \<Rightarrow> 0 | Some t \<Rightarrow> t) - now)"

text \<open>\<open>snapshot\<close>, before the rounding of its numbers; \<open>wall\<close> is \<open>time.time()\<close>.\<close>

record poll_snapshot =
  sn_multiplier :: rat
  sn_paused_for :: secs
  sn_last_rate_limited_at :: "time option"
  sn_samples :: int
  sn_warm :: bool
  sn_max_multiplier :: rat

definition snapshot :: "poll_params \<Rightarrow> time \<Rightarrow> time \<Rightarrow> mem_polling \<Rightarrow> string \<Rightarrow> poll_snapshot" where
  "snapshot P wall now s chan = (let samples = sum_list (List.map snd (hist_of s chan)) in
     \<lparr>sn_multiplier = current_multiplier s chan, sn_paused_for = paused_for now s chan,
      sn_last_rate_limited_at = map_option (\<lambda>t. wall - (now - t)) (dict_get (mp_last_rate_limited s) chan),
      sn_samples = samples, sn_warm = (samples \<ge> pp_hot_start_samples P),
      sn_max_multiplier = pp_maximum P / max (pp_base P) (1/1000000)\<rparr>)"

definition reset_polling :: "string \<Rightarrow> bool \<Rightarrow> mem_polling \<Rightarrow> mem_polling" where
  "reset_polling chan include_samples s =
     s\<lparr>mp_multiplier := dict_pop chan (mp_multiplier s), mp_pause_until := dict_pop chan (mp_pause_until s),
       mp_last_rate_limited := dict_pop chan (mp_last_rate_limited s),
       mp_buckets := (if include_samples then dict_pop chan (mp_buckets s) else mp_buckets s)\<rparr>"

definition empty_polling :: mem_polling where
  "empty_polling = \<lparr>mp_buckets = [], mp_multiplier = [], mp_pause_until = [], mp_last_rate_limited = []\<rparr>"

subsection \<open>The Redis controller\<close>

text \<open>
  The keys Redis holds for one channel, \<open>None\<close> when absent or expired; with each value the lifetime
  given when it was written. The server may drop any of them at any time.
\<close>

record poll_keys =
  pk_hist :: "(int \<times> int) list"
  pk_pct :: "(poll_stats \<times> int) option"
  pk_aimd :: "(rat \<times> int) option"
  pk_pause :: "(time \<times> int) option"
  pk_rl :: "(time \<times> int) option"

definition rl_ttl_seconds :: "settings \<Rightarrow> int" where
  "rl_ttl_seconds s = max 600 (py_int (aimd_quiet_seconds s * 3))"

definition redis_stats :: "poll_params \<Rightarrow> poll_keys \<Rightarrow> poll_stats \<times> poll_keys" where
  "redis_stats P ks = (case pk_pct ks of
       Some (st, _) \<Rightarrow> (st, ks)
     | None \<Rightarrow> (let st = stats_of P (pk_hist ks) in (st, ks\<lparr>pk_pct := Some (st, PCT_CACHE_SECONDS)\<rparr>)))"

definition redis_multiplier :: "poll_keys \<Rightarrow> rat" where
  "redis_multiplier ks = (case pk_aimd ks of None \<Rightarrow> AIMD_MIN | Some (m, _) \<Rightarrow> m)"

definition redis_record_duration :: "secs \<Rightarrow> poll_keys \<Rightarrow> poll_keys" where
  "redis_record_duration seconds ks = ks\<lparr>pk_hist := add_sample seconds (pk_hist ks)\<rparr>"

definition redis_next_interval :: "poll_params \<Rightarrow> secs \<Rightarrow> bool \<Rightarrow> poll_keys \<Rightarrow> rat res \<times> poll_keys" where
  "redis_next_interval P elapsed first_poll ks = (case redis_stats P ks of (st, ks') \<Rightarrow>
     (bind_res (compute_interval P elapsed st first_poll) (\<lambda>i. Inr (clamp P (i * redis_multiplier ks'))), ks'))"

definition redis_base_interval :: "poll_params \<Rightarrow> secs \<Rightarrow> bool \<Rightarrow> poll_keys \<Rightarrow> rat res \<times> poll_keys" where
  "redis_base_interval P elapsed first_poll ks = (case redis_stats P ks of (st, ks') \<Rightarrow>
     (compute_interval P elapsed st first_poll, ks'))"

definition redis_note_rate_limited :: "settings \<Rightarrow> poll_params \<Rightarrow> time \<Rightarrow> secs option \<Rightarrow> poll_keys
    \<Rightarrow> rat \<times> poll_keys" where
  "redis_note_rate_limited S P now retry_after ks =
     (let new = aimd_up P (redis_multiplier ks);
          pause = max 0 (case retry_after of None \<Rightarrow> 0 | Some r \<Rightarrow> r);
          ks1 = ks\<lparr>pk_aimd := Some (new, HIST_TTL_SECONDS), pk_rl := Some (now, rl_ttl_seconds S)\<rparr>
      in (new, if pause > 0 then ks1\<lparr>pk_pause := Some (now + pause, max 60 (py_int pause + 60))\<rparr> else ks1))"

definition redis_note_clean_period :: "poll_keys \<Rightarrow> rat \<times> poll_keys" where
  "redis_note_clean_period ks = (let new = aimd_down (redis_multiplier ks) in
     (new, ks\<lparr>pk_aimd := Some (new, HIST_TTL_SECONDS)\<rparr>))"

definition redis_decay_if_clean :: "time \<Rightarrow> secs \<Rightarrow> poll_keys \<Rightarrow> rat option \<times> poll_keys" where
  "redis_decay_if_clean now quiet ks = (case pk_rl ks of
       Some (t, _) \<Rightarrow> if now - t < quiet then (None, ks)
         else (case redis_note_clean_period ks of (m, ks') \<Rightarrow> (Some m, ks'))
     | None \<Rightarrow> (case redis_note_clean_period ks of (m, ks') \<Rightarrow> (Some m, ks')))"

definition redis_paused_for :: "time \<Rightarrow> poll_keys \<Rightarrow> secs" where
  "redis_paused_for now ks = (case pk_pause ks of None \<Rightarrow> 0 | Some (t, _) \<Rightarrow> max 0 (t - now))"

definition redis_samples :: "poll_keys \<Rightarrow> int" where
  "redis_samples ks = sum_list (List.map snd (pk_hist ks))"

text \<open>The clock of the Redis keys is \<open>time.time()\<close>.\<close>

definition redis_snapshot :: "poll_params \<Rightarrow> time \<Rightarrow> poll_keys \<Rightarrow> poll_snapshot" where
  "redis_snapshot P now ks =
     \<lparr>sn_multiplier = redis_multiplier ks, sn_paused_for = redis_paused_for now ks, sn_last_rate_limited_at = map_option fst (pk_rl ks),
      sn_samples = redis_samples ks, sn_warm = (redis_samples ks \<ge> pp_hot_start_samples P),
      sn_max_multiplier = pp_maximum P / max (pp_base P) (1/1000000)\<rparr>"

definition redis_reset :: "bool \<Rightarrow> poll_keys \<Rightarrow> poll_keys" where
  "redis_reset include_samples ks =
     (let ks1 = ks\<lparr>pk_aimd := None, pk_pause := None, pk_rl := None\<rparr> in
      if include_samples then ks1\<lparr>pk_hist := [], pk_pct := None\<rparr> else ks1)"

subsection \<open>Lemmas\<close>

lemma clamp_bounds: "pp_minimum P \<le> pp_maximum P \<Longrightarrow> pp_minimum P \<le> clamp P v \<and> clamp P v \<le> pp_maximum P"
  by (simp add: clamp_def)

lemma clamp_mono: "v \<le> w \<Longrightarrow> clamp P v \<le> clamp P w"
  unfolding clamp_def by (intro max.mono min.mono order_refl)

lemma compute_interval_total:
  assumes "0 < pp_minimum P"
  shows "\<exists>v. compute_interval P elapsed st first_poll = Inr (clamp P v)"
proof -
  have "max (ps_p50 st) (pp_minimum P) \<noteq> 0" using assms by (simp add: max_def)
  then show ?thesis unfolding compute_interval_def Let_def by (cases "cold st"; cases first_poll; simp; blast)
qed

lemma powi_mono2: "(a::int) \<le> b \<Longrightarrow> (2::rat) powi a \<le> 2 powi b"
  by (rule power_int_increasing) simp_all

lemma compute_interval_mono:
  assumes "0 < pp_minimum P" and "0 \<le> pp_base P" and "e1 \<le> e2"
    and "compute_interval P e1 st False = Inr v1" and "compute_interval P e2 st False = Inr v2"
  shows "v1 \<le> v2"
proof (cases "cold st")
  case True
  then show ?thesis using assms(4,5) by (simp add: compute_interval_def)
next
  case False
  let ?p = "max (ps_p50 st) (pp_minimum P)"
  have p: "0 < ?p" using assms(1) by simp
  have "max 0 e1 / ?p \<le> max 0 e2 / ?p"
    using p assms(3) by (intro divide_right_mono) auto
  then have "min \<lfloor>max 0 e1 / ?p\<rfloor> 8 \<le> min \<lfloor>max 0 e2 / ?p\<rfloor> 8"
    by (intro min.mono floor_mono order_refl)
  then have "pp_base P * 2 powi (min \<lfloor>max 0 e1 / ?p\<rfloor> 8) \<le> pp_base P * 2 powi (min \<lfloor>max 0 e2 / ?p\<rfloor> 8)"
    by (rule mult_left_mono [OF powi_mono2 assms(2)])
  then have "clamp P (pp_base P * 2 powi (min \<lfloor>max 0 e1 / ?p\<rfloor> 8)) \<le> clamp P (pp_base P * 2 powi (min \<lfloor>max 0 e2 / ?p\<rfloor> 8))"
    by (rule clamp_mono)
  moreover have "compute_interval P e st False = Inr (clamp P (pp_base P * 2 powi (min \<lfloor>max 0 e / ?p\<rfloor> 8)))" for e
    using False p by (simp add: compute_interval_def Let_def)
  ultimately show ?thesis using assms(4,5) by (metis sum.inject(2))
qed

lemma percentile_from_spec:
  assumes "percentile_from bs target acc = Some v"
  shows "\<exists>pre b n post. bs = pre @ (b, n) # post \<and> v = of_int (max b BUCKET_SECONDS)
    \<and> target \<le> of_int (acc + sum_list (List.map snd pre) + n)
    \<and> (\<forall>xs ys. pre = xs @ ys \<longrightarrow> xs \<noteq> [] \<longrightarrow> of_int (acc + sum_list (List.map snd xs)) < target)"
  using assms
proof (induction bs target acc rule: percentile_from.induct)
  case (2 b n bs target acc)
  show ?case
  proof (cases "of_int (acc + n) \<ge> target")
    case True
    then show ?thesis using 2(2) by (intro exI [of _ "[]"]) auto
  next
    case False
    then obtain pre c m post where *: "bs = pre @ (c, m) # post" "v = of_int (max c BUCKET_SECONDS)"
      "target \<le> of_int (acc + n + sum_list (List.map snd pre) + m)"
      "\<forall>xs ys. pre = xs @ ys \<longrightarrow> xs \<noteq> [] \<longrightarrow> of_int (acc + n + sum_list (List.map snd xs)) < target"
      using 2 by auto
    have "of_int (acc + sum_list (List.map snd xs)) < target" if "(b, n) # pre = xs @ ys" "xs \<noteq> []" for xs ys
      using that False *(4) by (cases xs) (force simp: add.assoc)+
    then show ?thesis
      using * by (intro exI [of _ "(b, n) # pre"] exI [of _ c] exI [of _ m] exI [of _ post]) (auto simp: add.assoc)
  qed
qed simp

lemma percentile_from_total:
  "target \<le> of_int (acc + sum_list (List.map snd bs)) \<Longrightarrow> bs \<noteq> [] \<Longrightarrow> percentile_from bs target acc \<noteq> None"
proof (induction bs target acc rule: percentile_from.induct)
  case (2 b n bs target acc)
  then show ?case by (cases bs) (auto simp: add.assoc)
qed simp

text \<open>The AIMD multiplier stays in its band.\<close>

definition aimd_ok :: "poll_params \<Rightarrow> rat \<Rightarrow> bool" where
  "aimd_ok P m \<longleftrightarrow> 1 \<le> m \<and> m \<le> pp_maximum P / max (pp_base P) (1/1000000)"

definition params_ok :: "poll_params \<Rightarrow> bool" where
  "params_ok P \<longleftrightarrow> 0 < pp_base P \<and> 0 < pp_minimum P \<and> pp_minimum P \<le> pp_maximum P
     \<and> pp_base P \<le> pp_maximum P \<and> 1/1000000 \<le> pp_maximum P"

lemma aimd_room: "params_ok P \<Longrightarrow> 1 \<le> pp_maximum P / max (pp_base P) (1/1000000)"
  by (auto simp: params_ok_def le_divide_eq max_def split: if_splits)

lemma aimd_up_ok: "params_ok P \<Longrightarrow> aimd_ok P (aimd_up P m)"
  using aimd_room [of P] by (simp add: aimd_ok_def aimd_up_def AIMD_MIN_def)

lemma aimd_down_ok: "params_ok P \<Longrightarrow> aimd_ok P m \<Longrightarrow> aimd_ok P (aimd_down m) \<and> aimd_down m \<le> m"
proof -
  assume P: "params_ok P" and m: "aimd_ok P m"
  have "m * (9/10) \<le> m" using m by (simp add: aimd_ok_def)
  then show ?thesis using m aimd_room [OF P] unfolding aimd_ok_def aimd_down_def AIMD_MIN_def by linarith
qed

definition polling_ok :: "poll_params \<Rightarrow> mem_polling \<Rightarrow> bool" where
  "polling_ok P s \<longleftrightarrow> (\<forall>chan. aimd_ok P (current_multiplier s chan))"

datatype poll_op =
    P_sample string secs
  | P_limited time string "secs option"
  | P_clean time string secs
  | P_reset string bool

fun poll_op_step :: "poll_params \<Rightarrow> poll_op \<Rightarrow> mem_polling \<Rightarrow> mem_polling" where
  "poll_op_step P (P_sample chan d) s = record_terminal chan d s"
| "poll_op_step P (P_limited now chan ra) s = snd (note_rate_limited P now chan ra s)"
| "poll_op_step P (P_clean now chan quiet) s = snd (decay_if_clean now chan quiet s)"
| "poll_op_step P (P_reset chan inc) s = reset_polling chan inc s"

lemma polling_ok_empty: "params_ok P \<Longrightarrow> polling_ok P empty_polling"
  using aimd_room by (simp add: polling_ok_def current_multiplier_def empty_polling_def aimd_ok_def AIMD_MIN_def)

lemma current_multiplier_simps [simp]:
  "current_multiplier (s\<lparr>mp_multiplier := dict_set c m ms\<rparr>) chan
     = (if chan = c then m else current_multiplier (s\<lparr>mp_multiplier := ms\<rparr>) chan)"
  "current_multiplier (s\<lparr>mp_buckets := b\<rparr>) chan = current_multiplier s chan"
  "current_multiplier (s\<lparr>mp_pause_until := d\<rparr>) chan = current_multiplier s chan"
  "current_multiplier (s\<lparr>mp_last_rate_limited := d\<rparr>) chan = current_multiplier s chan"
  by (simp_all add: current_multiplier_def)

lemma current_multiplier_limited:
  "current_multiplier (snd (note_rate_limited P now c ra s)) chan
     = (if chan = c then aimd_up P (current_multiplier s c) else current_multiplier s chan)"
  by (auto simp: note_rate_limited_def Let_def current_multiplier_def split: option.splits)

lemma current_multiplier_clean:
  "current_multiplier (snd (decay_if_clean now c quiet s)) chan \<in>
     {current_multiplier s chan, if chan = c then aimd_down (current_multiplier s c) else current_multiplier s chan}"
  by (auto simp: decay_if_clean_def note_clean_period_def Let_def current_multiplier_def split: option.splits)

lemma current_multiplier_reset:
  "current_multiplier (reset_polling c inc s) chan = (if chan = c then AIMD_MIN else current_multiplier s chan)"
  by (simp add: reset_polling_def current_multiplier_def)

lemma polling_ok_step:
  assumes "params_ok P" and "polling_ok P s"
  shows "polling_ok P (poll_op_step P x s)"
proof (cases x)
  case (P_clean now chan quiet)
  show ?thesis
    unfolding polling_ok_def
  proof
    fix c
    have "aimd_ok P (current_multiplier s c)" "aimd_ok P (aimd_down (current_multiplier s chan))"
      using assms aimd_down_ok by (auto simp: polling_ok_def)
    then show "aimd_ok P (current_multiplier (poll_op_step P x s) c)"
      using current_multiplier_clean [of now chan quiet s c] by (auto simp: P_clean split: if_splits)
  qed
next
  case (P_reset chan inc)
  then show ?thesis
    using assms aimd_room by (auto simp: polling_ok_def current_multiplier_reset aimd_ok_def AIMD_MIN_def)
qed (use assms aimd_up_ok in \<open>auto simp: polling_ok_def record_terminal_def record_duration_def current_multiplier_limited\<close>)

lemma polling_ok_run:
  "params_ok P \<Longrightarrow> polling_ok P s \<Longrightarrow> polling_ok P (fold (poll_op_step P) ops s)"
  by (induction ops arbitrary: s) (auto intro: polling_ok_step)

lemma clamp_idem [simp]: "clamp P (clamp P v) = clamp P v"
  by (simp add: clamp_def)

lemma interval_with_multiplier:
  assumes "0 < pp_minimum P" and "1 \<le> m"
  shows "clamp P b \<le> clamp P (clamp P b * m)"
proof -
  have "0 \<le> clamp P b" using assms(1) by (simp add: clamp_def le_max_iff_disj)
  then have "clamp P b \<le> clamp P b * m" using assms(2) by (simp add: mult_le_cancel_left1)
  then show ?thesis using clamp_mono [of "clamp P b" "clamp P b * m" P] by simp
qed

text \<open>The in-process state of one channel and the Redis keys of that channel, when no key has expired.\<close>

definition same_channel :: "string \<Rightarrow> mem_polling \<Rightarrow> poll_keys \<Rightarrow> bool" where
  "same_channel chan s ks \<longleftrightarrow> pk_hist ks = hist_of s chan \<and> redis_multiplier ks = current_multiplier s chan
     \<and> map_option fst (pk_rl ks) = dict_get (mp_last_rate_limited s) chan
     \<and> map_option fst (pk_pause ks) = dict_get (mp_pause_until s) chan"

lemma hist_of_simps [simp]:
  "hist_of (s\<lparr>mp_multiplier := d\<rparr>) chan = hist_of s chan"
  "hist_of (s\<lparr>mp_pause_until := e\<rparr>) chan = hist_of s chan"
  "hist_of (s\<lparr>mp_last_rate_limited := e\<rparr>) chan = hist_of s chan"
  by (simp_all add: hist_of_def)

lemma same_intervals:
  assumes "same_channel chan s ks" and "pk_pct ks = None"
  shows "fst (redis_next_interval P elapsed first_poll ks) = next_interval P s chan elapsed first_poll
    \<and> fst (redis_base_interval P elapsed first_poll ks) = base_interval P s chan elapsed first_poll"
  using assms
  by (simp add: redis_next_interval_def redis_base_interval_def redis_stats_def Let_def next_interval_def
      base_interval_def mem_stats_def same_channel_def redis_multiplier_def)

lemma redis_multiplier_simps [simp]:
  "redis_multiplier (ks\<lparr>pk_aimd := Some (m, t)\<rparr>) = m" "redis_multiplier (ks\<lparr>pk_aimd := None\<rparr>) = AIMD_MIN"
  "redis_multiplier (ks\<lparr>pk_rl := r\<rparr>) = redis_multiplier ks" "redis_multiplier (ks\<lparr>pk_pause := p\<rparr>) = redis_multiplier ks"
  "redis_multiplier (ks\<lparr>pk_hist := h\<rparr>) = redis_multiplier ks" "redis_multiplier (ks\<lparr>pk_pct := c\<rparr>) = redis_multiplier ks"
  by (simp_all add: redis_multiplier_def)

lemma same_limited:
  assumes "same_channel chan s ks" and "\<forall>r. retry_after = Some r \<longrightarrow> 0 \<le> r"
  shows "fst (redis_note_rate_limited S P now retry_after ks) = fst (note_rate_limited P now chan retry_after s)
    \<and> same_channel chan (snd (note_rate_limited P now chan retry_after s)) (snd (redis_note_rate_limited S P now retry_after ks))"
proof (cases retry_after)
  case None
  then show ?thesis
    using assms(1) by (simp add: redis_note_rate_limited_def note_rate_limited_def Let_def same_channel_def
        current_multiplier_def)
next
  case (Some r)
  with assms(2) have "0 \<le> r" by simp
  then show ?thesis
    using assms(1) Some by (cases "r = 0") (simp_all add: redis_note_rate_limited_def note_rate_limited_def Let_def
        same_channel_def current_multiplier_def)
qed

lemma same_clean:
  assumes "same_channel chan s ks"
  shows "fst (redis_note_clean_period ks) = fst (note_clean_period chan s)
    \<and> same_channel chan (snd (note_clean_period chan s)) (snd (redis_note_clean_period ks))"
  using assms
  by (simp add: redis_note_clean_period_def note_clean_period_def Let_def same_channel_def current_multiplier_def)

lemma same_decay:
  assumes "same_channel chan s ks"
  shows "fst (redis_decay_if_clean now quiet ks) = fst (decay_if_clean now chan quiet s)
    \<and> same_channel chan (snd (decay_if_clean now chan quiet s)) (snd (redis_decay_if_clean now quiet ks))"
proof (cases "pk_rl ks")
  case None
  then have "dict_get (mp_last_rate_limited s) chan = None" using assms by (auto simp: same_channel_def)
  with None show ?thesis
    using same_clean [OF assms] by (simp add: redis_decay_if_clean_def decay_if_clean_def case_prod_beta)
next
  case (Some v)
  then have "dict_get (mp_last_rate_limited s) chan = Some (fst v)" using assms by (auto simp: same_channel_def)
  with Some show ?thesis
    using same_clean [OF assms] assms by (simp add: redis_decay_if_clean_def decay_if_clean_def case_prod_beta)
qed

lemma same_paused:
  assumes "same_channel chan s ks" and "0 \<le> now"
  shows "redis_paused_for now ks = paused_for now s chan"
proof (cases "pk_pause ks")
  case None
  then have "dict_get (mp_pause_until s) chan = None" using assms by (auto simp: same_channel_def)
  with None assms(2) show ?thesis by (simp add: redis_paused_for_def paused_for_def)
next
  case (Some v)
  then have "dict_get (mp_pause_until s) chan = Some (fst v)" using assms by (auto simp: same_channel_def)
  with Some show ?thesis by (simp add: redis_paused_for_def paused_for_def case_prod_beta)
qed

lemma same_snapshot:
  assumes "same_channel chan s ks" and "0 \<le> now"
  shows "redis_snapshot P now ks = snapshot P now now s chan"
  using assms same_paused [OF assms]
  by (simp add: redis_snapshot_def snapshot_def same_channel_def redis_samples_def Let_def option.map_ident)

lemma same_other:
  assumes "same_channel chan s ks"
  shows "same_channel chan (record_terminal chan d s) (redis_record_duration d ks)
    \<and> same_channel chan (reset_polling chan inc s) (redis_reset inc ks)"
  using assms
  by (simp add: record_terminal_def record_duration_def redis_record_duration_def reset_polling_def redis_reset_def
      same_channel_def hist_of_def current_multiplier_def Let_def)

subsection \<open>Properties\<close>

text \<open>
  Poll intervals are bounded, whatever has happened. After any history of samples, 429s, clean
  periods and resets from the empty controller, with settings in the sane range, both intervals exist
  (no division by zero), lie between the configured minimum and maximum, the interval with the AIMD
  multiplier is never shorter than the one without, and the multiplier is between 1 and maximum/base.
\<close>

theorem poll_interval_bounded:
  assumes "params_ok P"
  shows "\<exists>v b. next_interval P (fold (poll_op_step P) ops empty_polling) chan elapsed first_poll = Inr v
    \<and> base_interval P (fold (poll_op_step P) ops empty_polling) chan elapsed first_poll = Inr b
    \<and> pp_minimum P \<le> b \<and> b \<le> v \<and> v \<le> pp_maximum P
    \<and> aimd_ok P (current_multiplier (fold (poll_op_step P) ops empty_polling) chan)"
proof -
  let ?s = "fold (poll_op_step P) ops empty_polling"
  have ok: "aimd_ok P (current_multiplier ?s chan)"
    using polling_ok_run [OF assms polling_ok_empty [OF assms], of ops] by (simp add: polling_ok_def)
  have P: "0 < pp_minimum P" "pp_minimum P \<le> pp_maximum P" using assms by (simp_all add: params_ok_def)
  obtain b where b: "compute_interval P elapsed (mem_stats P ?s chan) first_poll = Inr (clamp P b)"
    using compute_interval_total [OF P(1)] by blast
  have "next_interval P ?s chan elapsed first_poll = Inr (clamp P (clamp P b * current_multiplier ?s chan))"
    "base_interval P ?s chan elapsed first_poll = Inr (clamp P b)"
    by (simp_all add: next_interval_def base_interval_def b)
  then show ?thesis
    using ok clamp_bounds [OF P(2)] interval_with_multiplier [OF P(1)] unfolding aimd_ok_def by blast
qed

theorem poll_interval_bounded_witness:
  "\<exists>v. next_interval (params_of default_settings) (fold (poll_op_step (params_of default_settings))
       [P_limited 0 ''a'' None, P_limited 1 ''a'' None] empty_polling) ''a'' 100 False = Inr v \<and> 3 \<le> v \<and> v \<le> 60"
proof -
  have "params_ok (params_of default_settings)" by code_simp
  from poll_interval_bounded [OF this, of "[P_limited 0 ''a'' None, P_limited 1 ''a'' None]" "''a''" 100 False]
  show ?thesis by (auto simp: params_of_def default_settings_def)
qed

text \<open>
  Polling slows down as a task ages. With the same statistics and a positive minimum, the
  interval of a later poll is never shorter when more time has elapsed.
\<close>

theorem poll_backs_off:
  assumes "0 < pp_minimum P" and "0 \<le> pp_base P" and "e1 \<le> e2"
    and "base_interval P s chan e1 False = Inr v1" and "base_interval P s chan e2 False = Inr v2"
  shows "v1 \<le> v2"
  using compute_interval_mono [OF assms(1-3)] assms(4,5) by (simp add: base_interval_def)

theorem poll_backs_off_witness:
  "base_interval (params_of default_settings) (empty_polling\<lparr>mp_buckets := [(''a'', [(10, 40)])]\<rparr>) ''a'' 5 False = Inr 3
    \<and> base_interval (params_of default_settings) (empty_polling\<lparr>mp_buckets := [(''a'', [(10, 40)])]\<rparr>) ''a'' 25 False = Inr 12
    \<and> (3 :: rat) \<le> 12"
proof -
  let ?s = "empty_polling\<lparr>mp_buckets := [(''a'', [(10, 40)])]\<rparr>"
  have 1: "base_interval (params_of default_settings) ?s ''a'' 5 False = Inr 3" by code_simp
  have 2: "base_interval (params_of default_settings) ?s ''a'' 25 False = Inr 12" by code_simp
  have "0 < pp_minimum (params_of default_settings)" "0 \<le> pp_base (params_of default_settings)" by code_simp+
  from poll_backs_off [OF this _ 1 2] 1 2 show ?thesis by simp
qed

text \<open>
  The percentile of a histogram. On the sorted buckets with a positive number of samples and a quantile in
  (0, 1], it is the first bucket (at least 10 s) at which the samples counted so far reach that share of
  all samples, and at every earlier bucket they do not.
\<close>

theorem percentile_is_quantile:
  assumes "0 < sum_list (List.map snd items)" and "q \<le> 1"
  shows "\<exists>pre b n post. items = pre @ (b, n) # post
    \<and> percentile items (sum_list (List.map snd items)) q fallback = of_int (max b BUCKET_SECONDS)
    \<and> of_int (sum_list (List.map snd items)) * q \<le> of_int (sum_list (List.map snd pre) + n)
    \<and> (\<forall>xs ys. pre = xs @ ys \<longrightarrow> xs \<noteq> [] \<longrightarrow>
         of_int (sum_list (List.map snd xs)) < of_int (sum_list (List.map snd items)) * q)"
proof -
  have ne: "items \<noteq> []" using assms(1) by auto
  have "of_int (sum_list (List.map snd items)) * q \<le> of_int (0 + sum_list (List.map snd items))"
    using assms by (simp add: mult_le_cancel_left1)
  from percentile_from_total [OF this ne] obtain v
    where v: "percentile_from items (of_int (sum_list (List.map snd items)) * q) 0 = Some v" by blast
  with assms(1) have "percentile items (sum_list (List.map snd items)) q fallback = v"
    by (simp add: percentile_def)
  with percentile_from_spec [OF v] show ?thesis by (simp only: add_0)
qed

theorem percentile_is_quantile_witness:
  "percentile [(0, 5), (10, 3), (30, 2)] 10 (1/2) 0 = 10 \<and>
   (\<exists>pre b n post. [(0, 5), (10, 3), (30, 2)] = pre @ (b :: int, n :: int) # post
      \<and> percentile [(0, 5), (10, 3), (30, 2)] 10 (1/2) 0 = of_int (max b BUCKET_SECONDS))"
  using percentile_is_quantile [of "[(0, 5), (10, 3), (30, 2)]" "1/2" 0]
  by (auto simp: percentile_def BUCKET_SECONDS_def)

text \<open>
  The two controllers agree. While no Redis key has expired and the percentiles are not cached, a channel
  in the same state gives the same intervals, multiplier changes, pause and decay decision, and every
  operation leaves it in the same state.
\<close>

theorem redis_polling_matches_memory:
  assumes "same_channel chan s ks" and "pk_pct ks = None" and "\<forall>r. retry_after = Some r \<longrightarrow> 0 \<le> r"
  shows "fst (redis_next_interval P elapsed first_poll ks) = next_interval P s chan elapsed first_poll
    \<and> fst (redis_base_interval P elapsed first_poll ks) = base_interval P s chan elapsed first_poll
    \<and> fst (redis_note_rate_limited S P now retry_after ks) = fst (note_rate_limited P now chan retry_after s)
    \<and> same_channel chan (snd (note_rate_limited P now chan retry_after s)) (snd (redis_note_rate_limited S P now retry_after ks))
    \<and> fst (redis_decay_if_clean now quiet ks) = fst (decay_if_clean now chan quiet s)
    \<and> same_channel chan (snd (decay_if_clean now chan quiet s)) (snd (redis_decay_if_clean now quiet ks))
    \<and> same_channel chan (record_terminal chan d s) (redis_record_duration d ks)
    \<and> same_channel chan (reset_polling chan inc s) (redis_reset inc ks)
    \<and> (0 \<le> now \<longrightarrow> redis_paused_for now ks = paused_for now s chan \<and> redis_snapshot P now ks = snapshot P now now s chan)"
  using same_intervals [OF assms(1,2)] same_limited [OF assms(1,3)] same_decay [OF assms(1)]
    same_other [OF assms(1)] same_paused [OF assms(1)] same_snapshot [OF assms(1)] by blast

theorem redis_polling_matches_memory_witness:
  "fst (redis_note_rate_limited default_settings (params_of default_settings) 7 (Some 2)
      \<lparr>pk_hist = [], pk_pct = None, pk_aimd = None, pk_pause = None, pk_rl = None\<rparr>)
    = fst (note_rate_limited (params_of default_settings) 7 ''a'' (Some 2) empty_polling)"
proof -
  have "same_channel ''a'' empty_polling \<lparr>pk_hist = [], pk_pct = None, pk_aimd = None, pk_pause = None, pk_rl = None\<rparr>"
    by code_simp
  from redis_polling_matches_memory [OF this, of "Some 2"] show ?thesis by simp
qed

end
