(* ===== verification/Admin.thy ===== *)
theory Admin
  imports Registry AuditLog Accept Polling "HOL-Library.AList"
begin

text \<open>
  \<open>admin/app.py\<close>: the governance side - who is asking, the approval tickets, and the operations on templates, canary
  weights, credential references, the audit log and the pacing of a channel. An operation is a function of the state of the
  admin process and the database it writes; what it has changed before it raises stays changed. \<open>me_db n\<close> is what the
  \<open>n\<close>-th database transaction of a request raises. The free text of audit records, metrics and log lines are left out.
\<close>

subsection \<open>Identity\<close>

record actor =
  who_name :: string
  who_roles :: "string list"

definition ALL_ROLES :: "string list" where
  "ALL_ROLES = [''template-author'', ''approver'', ''operator'', ''auditor'']"

definition HIGH_RISK_ACTIONS :: "string list dict" where
  "HIGH_RISK_ACTIONS = [(''template.publish'', [''template-author'', ''approver'']), (''template.patch'', [''template-author'', ''approver'']),
     (''template.canary'', [''operator'', ''approver'']), (''task.replay'', [''operator'', ''approver'']),
     (''credential_ref.change'', [''operator'', ''approver''])]"

definition has_role :: "string list \<Rightarrow> actor \<Rightarrow> bool" where
  "has_role rs who \<longleftrightarrow> list_ex (\<lambda>r. r \<in> set (who_roles who)) rs"

definition is_approver :: "actor \<Rightarrow> bool" where
  "is_approver who \<longleftrightarrow> has_role [''approver''] who"

definition bearer_part :: "string \<Rightarrow> string" where
  "bearer_part authorization =
     (if starts_with ''bearer '' (lower authorization) then strip (drop 7 authorization) else authorization)"

definition parse_actor :: "settings \<Rightarrow> string dict \<Rightarrow> actor res" where
  "parse_actor st hs =
     (let name = strip (header_or hs ''x-ag-actor'' []);
          roles = filter (\<lambda>r. r \<noteq> []) (List.map strip (split_on (CHR '','') (strip (header_or hs ''x-ag-roles'' []))))
      in if \<not> (dict_get hs ''x-ag-admin-token'' = Some (admin_token st)
               \<or> bearer_part (header_or hs ''authorization'' []) = admin_token st)
         then Inl (HTTPException 401 ''admin credential required'')
         else if name = [] then Inl (HTTPException 401 ''X-AG-Actor required (SSO subject)'')
         else if \<not> list_all (\<lambda>r. r \<in> set ALL_ROLES) roles then Inl (HTTPException 403 ''unknown roles'')
         else if roles = [] then Inl (HTTPException 403 ''actor has no roles'')
         else Inr \<lparr>who_name = name, who_roles = roles\<rparr>)"

definition require_roles :: "string list \<Rightarrow> settings \<Rightarrow> string dict \<Rightarrow> actor res" where
  "require_roles rs st hs = bind_res (parse_actor st hs) (\<lambda>who.
     if has_role rs who then Inr who else Inl (HTTPException 403 ''requires one of the roles''))"

subsection \<open>Approval tickets\<close>

record ticket =
  tk_id :: string
  tk_action :: string
  tk_subject :: string
  tk_payload_digest :: string
  tk_submitted_by :: string
  tk_impact :: json
  tk_approved_by :: "string option"
  tk_approved_at :: "time option"
  tk_created_at :: time
  tk_expires_at :: time

type_synonym approvals = "ticket dict"

definition tk_approved :: "ticket \<Rightarrow> bool" where
  "tk_approved t \<longleftrightarrow> tk_approved_by t \<noteq> None \<and> tk_approved_at t \<noteq> None"

definition tk_expired :: "time \<Rightarrow> ticket \<Rightarrow> bool" where
  "tk_expired now t \<longleftrightarrow> now > tk_expires_at t"

text \<open>\<open>create\<close>; \<open>uuid\<close> is \<open>uuid4().hex\<close>.\<close>

definition create_ticket :: "time \<Rightarrow> string \<Rightarrow> string \<Rightarrow> string \<Rightarrow> string \<Rightarrow> string \<Rightarrow> json \<Rightarrow> approvals \<Rightarrow> ticket \<times> approvals" where
  "create_ticket now uuid action subject digest submitter impact ts =
     (let t = \<lparr>tk_id = take 16 uuid, tk_action = action, tk_subject = subject, tk_payload_digest = digest,
            tk_submitted_by = submitter, tk_impact = impact, tk_approved_by = None, tk_approved_at = None,
            tk_created_at = now, tk_expires_at = now + 4 * 3600\<rparr>
      in (t, dict_set (tk_id t) t ts))"

definition approve_ticket :: "time \<Rightarrow> string \<Rightarrow> actor \<Rightarrow> approvals \<Rightarrow> (ticket \<times> approvals) res" where
  "approve_ticket now tid who ts = (case dict_get ts tid of
      None \<Rightarrow> Inl (HTTPException 404 ''unknown approval ticket'')
    | Some t \<Rightarrow>
        if tk_expired now t then Inl (HTTPException 410 ''approval ticket expired'')
        else if tk_submitted_by t = who_name who then Inl (HTTPException 403 ''submitter must not approve'')
        else if \<not> is_approver who then Inl (HTTPException 403 ''requires approver role'')
        else let t' = t\<lparr>tk_approved_by := Some (who_name who), tk_approved_at := Some now\<rparr> in Inr (t', dict_set tid t' ts))"

definition consume_ticket :: "time \<Rightarrow> string option \<Rightarrow> string \<Rightarrow> string \<Rightarrow> approvals \<Rightarrow> ticket res" where
  "consume_ticket now presented action subject ts = (case presented of
      Some (c # tid) \<Rightarrow> (case dict_get ts (c # tid) of
          None \<Rightarrow> Inl (HTTPException 404 ''unknown approval ticket'')
        | Some t \<Rightarrow>
            if \<not> tk_approved t then Inl (HTTPException 409 ''approval ticket not approved'')
            else if tk_expired now t then Inl (HTTPException 410 ''approval ticket expired'')
            else if tk_action t \<noteq> action \<or> tk_subject t \<noteq> subject
                 then Inl (HTTPException 409 ''approval ticket does not match operation'')
            else if Some (tk_submitted_by t) = tk_approved_by t then Inl (HTTPException 403 ''submitter must not approve'')
            else Inr t)
    | _ \<Rightarrow> Inl (HTTPException 409 ''approval ticket required''))"

definition pending_tickets :: "time \<Rightarrow> approvals \<Rightarrow> ticket list" where
  "pending_tickets now ts = filter (\<lambda>t. \<not> tk_approved t \<and> \<not> tk_expired now t) (List.map snd ts)"

subsection \<open>The process\<close>

record admin_env =
  me_lib :: pylib
  me_pydantic :: pydantic
  me_settings :: settings
  me_builtin :: "platform_patch list"
  me_own :: "platform_patch list"
  me_late :: "nat \<Rightarrow> bool"
  me_db :: "nat \<Rightarrow> exn option"

record governance =
  gv_registry :: registry
  gv_policies :: policies
  gv_approvals :: approvals
  gv_polling :: mem_polling
  gv_rows :: "template_row list"
  gv_audit :: audit_log

type_synonym 'a outcome_of = "'a res \<times> governance"

definition step_then :: "'a res \<times> 's \<Rightarrow> ('a \<Rightarrow> 's \<Rightarrow> 'b res \<times> 's) \<Rightarrow> 'b res \<times> 's" where
  "step_then r k = (case r of (Inl e, s) \<Rightarrow> (Inl e, s) | (Inr x, s) \<Rightarrow> k x s)"

text \<open>\<open>audit(...)\<close>, in a transaction of its own.\<close>

definition audit_governance :: "admin_env \<Rightarrow> time \<Rightarrow> nat \<Rightarrow> actor \<Rightarrow> string \<Rightarrow> string \<Rightarrow> string \<Rightarrow> json option \<Rightarrow> jobj
    \<Rightarrow> governance \<Rightarrow> unit outcome_of" where
  "audit_governance E now n who event_type subject_type subject_id payload refs g = (case me_db E n of
      Some e \<Rightarrow> (Inl e, g)
    | None \<Rightarrow> (Inr (), g\<lparr>gv_audit := append_event (me_lib E) now
        \<lparr>av_event_type = event_type, av_actor = who_name who, av_actor_role = Some (join '','' (who_roles who)),
         av_subject_type = Some subject_type, av_subject_id = Some subject_id, av_payload = payload, av_refs = Some refs,
         av_detail = None\<rparr> (gv_audit g)\<rparr>))"

definition persist_template :: "admin_env \<Rightarrow> time \<Rightarrow> nat \<Rightarrow> template_version \<Rightarrow> actor \<Rightarrow> string option
    \<Rightarrow> governance \<Rightarrow> unit outcome_of" where
  "persist_template E now n tv who approved_by g = (case me_db E n of
      Some e \<Rightarrow> (Inl e, g)
    | None \<Rightarrow> (Inr (), g\<lparr>gv_rows := upsert_template_version now
        \<lparr>tr_alias = tv_alias tv, tr_namespace = tv_namespace tv, tr_version = tv_version tv, tr_enabled = tv_enabled tv,
         tr_config = tv_raw tv, tr_config_hash = config_hash (me_lib E) tv, tr_patch_ids = tv_patch_ids tv,
         tr_canary_weight = tv_canary_weight tv, tr_in_place_patches = 0, tr_created_by = Some (who_name who),
         tr_approved_by = approved_by, tr_updated_at = now\<rparr> (gv_rows g)\<rparr>))"

definition approval_header :: "string dict \<Rightarrow> string option" where
  "approval_header hs = dict_get hs ''x-ag-approval''"

subsection \<open>What the answers hold\<close>

definition apply_mode_value :: "apply_mode \<Rightarrow> string" where
  "apply_mode_value m = (case m of IN_PLACE \<Rightarrow> ''in_place'' | VERSIONED \<Rightarrow> ''versioned'')"

definition plan_dict :: "change_plan \<Rightarrow> json" where
  "plan_dict p = JObj [(''changed_fields'', strs (pl_changed_fields p)), (''apply_mode'', JStr (apply_mode_value (pl_apply_mode p))),
     (''requires_dual_review'', JBool (pl_requires_dual_review p)), (''forced_review_fields'', strs (pl_forced_review_fields p)),
     (''is_noop'', JBool (pl_is_noop p))]"

definition tier_value :: "template_tier \<Rightarrow> string" where
  "tier_value t = (case t of TIER_MINIMAL \<Rightarrow> ''minimal'' | TIER_DIFF \<Rightarrow> ''diff'' | TIER_FULL \<Rightarrow> ''full'')"

definition severity_value :: "severity \<Rightarrow> string" where
  "severity_value s = (case s of Error \<Rightarrow> ''error'' | Warning \<Rightarrow> ''warning'')"

definition issue_dict :: "issue \<Rightarrow> json" where
  "issue_dict i = JObj [(''field'', JStr (fst i)), (''severity'', JStr (severity_value (snd i)))]"

definition report_dict :: "pylib \<Rightarrow> validation_report \<Rightarrow> json" where
  "report_dict L r = JObj [(''ok'', JBool (report_ok r)),
     (''tier'', opt_str (map_option tier_value (vr_tier r))),
     (''version_hash'', opt_str (map_option (version_hash L) (vr_resolved r))),
     (''errors'', JArr (List.map issue_dict (report_errors r))), (''warnings'', JArr (List.map issue_dict (report_warnings r))),
     (''assumptions'', strs (vr_assumptions r))]"

definition field_source_value :: "field_source \<Rightarrow> string" where
  "field_source_value s = (case s of FS_EXPLICIT \<Rightarrow> ''explicit'' | FS_DERIVED \<Rightarrow> ''derived'' | FS_DEFAULT \<Rightarrow> ''default'' | FS_PATCHED \<Rightarrow> ''patched'')"

definition provenance_dict :: "string list \<Rightarrow> resolved_template \<Rightarrow> json" where
  "provenance_dict ids t = JObj (dict_set ''_patches'' (JStr (join '','' ids))
     (List.map (\<lambda>(k, s). (k, JStr (field_source_value s))) (rt_provenance t)))"

definition resolved_dict :: "pylib \<Rightarrow> string list \<Rightarrow> resolved_template \<Rightarrow> json" where
  "resolved_dict L ids t = JObj (resolved_to_raw_dict L t @ [(''provenance'', provenance_dict ids t)])"

subsection \<open>Templates\<close>

definition missing_capabilities :: "capabilities \<Rightarrow> string list" where
  "missing_capabilities c = (case dump_capabilities c of
      JObj kvs \<Rightarrow> List.map fst (filter (\<lambda>(k, v). v = JBool False) kvs) | _ \<Rightarrow> [])"

definition list_templates_admin :: "admin_env \<Rightarrow> string dict \<Rightarrow> governance \<Rightarrow> json list res" where
  "list_templates_admin E hs g = bind_res (require_roles ALL_ROLES (me_settings E) hs) (\<lambda>_.
     Inr (List.map (\<lambda>tv. JObj
       [(''alias'', JStr (tv_alias tv)), (''namespace'', JStr (tv_namespace tv)), (''version'', JInt (tv_version tv)),
        (''enabled'', JBool (tv_enabled tv)), (''canary_weight'', JFloat (lib_float_repr (me_lib E) (tv_canary_weight tv))),
        (''config_hash'', JStr (config_hash (me_lib E) tv)), (''version_hash'', JStr (version_hash (me_lib E) (tv_resolved tv))),
        (''patch_ids'', strs (tv_patch_ids tv)),
        (''missing_capabilities'', strs (missing_capabilities (rt_capabilities (tv_resolved tv))))])
       (all_versions (gv_registry g))))"

definition get_template_admin :: "admin_env \<Rightarrow> string dict \<Rightarrow> string \<Rightarrow> int option \<Rightarrow> governance \<Rightarrow> json res" where
  "get_template_admin E hs alias version g = bind_res (require_roles ALL_ROLES (me_settings E) hs) (\<lambda>_.
     case registry_get (gv_registry g) alias version of
       None \<Rightarrow> Inl (HTTPException 404 ''unknown alias'')
     | Some tv \<Rightarrow> Inr (JObj
         [(''alias'', JStr (tv_alias tv)), (''namespace'', JStr (tv_namespace tv)), (''version'', JInt (tv_version tv)),
          (''resolved'', resolved_dict (me_lib E) (tv_patch_ids tv) (tv_resolved tv)),
          (''provenance'', provenance_dict (tv_patch_ids tv) (tv_resolved tv)), (''patch_ids'', strs (tv_patch_ids tv)),
          (''raw'', JObj (tv_raw tv))]))"

definition preview_change :: "admin_env \<Rightarrow> resolved_template \<Rightarrow> governance \<Rightarrow> change_plan" where
  "preview_change E t g = (case registry_get (gv_registry g) (rt_alias t) None of
      Some tv \<Rightarrow> classify_change (me_lib E) (tv_resolved tv) t | None \<Rightarrow> new_alias_plan)"

definition preview_template :: "admin_env \<Rightarrow> string dict \<Rightarrow> jobj \<Rightarrow> jobj option \<Rightarrow> jobj option \<Rightarrow> governance \<Rightarrow> json res" where
  "preview_template E hs raw sample_status sample_create g =
     bind_res (require_roles ALL_ROLES (me_settings E) hs) (\<lambda>_.
       bind_res (validate (me_lib E) (me_pydantic E) (me_settings E) (me_builtin E) (me_late E) sample_status sample_create None raw)
        (\<lambda>report. let base = [(''validation'', report_dict (me_lib E) report)] in
          case vr_resolved report of
            None \<Rightarrow> Inr (JObj base)
          | Some t \<Rightarrow> bind_res (preview_requests t None ''task-abc123'' None) (\<lambda>preview.
              Inr (JObj (base @ [(''preview'', JObj preview), (''resolved'', resolved_dict (me_lib E) (vr_patch_ids report) t),
                (''provenance'', provenance_dict (vr_patch_ids report) t), (''change'', plan_dict (preview_change E t g))])))))"

text \<open>After the registry has changed: the database row, then the audit record.\<close>

definition record_change :: "admin_env \<Rightarrow> time \<Rightarrow> actor \<Rightarrow> string option \<Rightarrow> template_version \<Rightarrow> string \<Rightarrow> string \<Rightarrow> jobj \<Rightarrow> jobj
    \<Rightarrow> json \<Rightarrow> governance \<Rightarrow> json outcome_of" where
  "record_change E now who approval tv event_type subject refs raw answer g =
     step_then (persist_template E now 0 tv who approval g) (\<lambda>_ g.
       step_then (audit_governance E now 1 who event_type ''template'' subject (Some (JObj raw)) refs g) (\<lambda>_ g. (Inr answer, g)))"

definition patched_answer :: "admin_env \<Rightarrow> time \<Rightarrow> actor \<Rightarrow> string option \<Rightarrow> string \<Rightarrow> jobj \<Rightarrow> change_plan
    \<Rightarrow> governance \<Rightarrow> json outcome_of" where
  "patched_answer E now who approval alias raw plan g =
     (case patch_in_place (me_lib E) (me_pydantic E) (me_settings E) (me_builtin E) (me_own E) raw (gv_registry g) of
        Inl e \<Rightarrow> (Inl e, g)
      | Inr (reg, None, _) \<Rightarrow> (Inl (HTTPException 400 ''validation''), g)
      | Inr (reg, Some tv, _) \<Rightarrow> record_change E now who approval tv ''template.patched_in_place''
          (alias @ ''@'' @ show_int (tv_version tv))
          [(''apply_mode'', JStr (apply_mode_value (pl_apply_mode plan))), (''approval_ticket'', opt_str approval)] raw
          (JObj [(''alias'', JStr alias), (''version'', JInt (tv_version tv)),
            (''version_hash'', JStr (version_hash (me_lib E) (tv_resolved tv))), (''change'', plan_dict plan)])
          (g\<lparr>gv_registry := reg\<rparr>))"

definition patch_template :: "admin_env \<Rightarrow> time \<Rightarrow> string dict \<Rightarrow> string \<Rightarrow> jobj \<Rightarrow> governance \<Rightarrow> json outcome_of" where
  "patch_template E now hs alias raw g =
     step_then (require_roles [''template-author'', ''approver''] (me_settings E) hs, g) (\<lambda>who g.
       case plan_change (me_lib E) (me_pydantic E) (me_settings E) (me_own E) raw (gv_registry g) of
         Inl e \<Rightarrow> (Inl (HTTPException 400 ''invalid template''), g)
       | Inr plan \<Rightarrow>
           if pl_apply_mode plan \<noteq> IN_PLACE then (Inl (HTTPException 409 ''not allowed in place''), g)
           else step_then (consume_ticket now (approval_header hs) ''template.patch'' alias (gv_approvals g), g)
             (\<lambda>_ g. patched_answer E now who (approval_header hs) alias raw plan g))"

definition published_answer :: "admin_env \<Rightarrow> time \<Rightarrow> actor \<Rightarrow> string option \<Rightarrow> jobj \<Rightarrow> change_plan
    \<Rightarrow> governance \<Rightarrow> json outcome_of" where
  "published_answer E now who approval raw plan g =
     (case register (me_lib E) (me_pydantic E) (me_settings E) (me_builtin E) (me_own E) None True True raw (gv_registry g) of
        Inl e \<Rightarrow> (Inl e, g)
      | Inr (reg, None, _) \<Rightarrow> (Inl (HTTPException 400 ''validation''), g)
      | Inr (reg, Some tv, report) \<Rightarrow> record_change E now who approval tv ''template.changed'' (version_ref tv)
          [(''change'', plan_dict plan), (''approval_ticket'', opt_str approval), (''patch_ids'', strs (tv_patch_ids tv))] raw
          (JObj [(''alias'', JStr (tv_alias tv)), (''version'', JInt (tv_version tv)),
            (''version_hash'', JStr (version_hash (me_lib E) (tv_resolved tv))), (''change'', plan_dict plan),
            (''assumptions'', strs (vr_assumptions report))])
          (g\<lparr>gv_registry := reg\<rparr>))"

definition publish_template :: "admin_env \<Rightarrow> time \<Rightarrow> string dict \<Rightarrow> jobj \<Rightarrow> governance \<Rightarrow> json outcome_of" where
  "publish_template E now hs raw g =
     step_then (require_roles [''template-author'', ''approver''] (me_settings E) hs, g) (\<lambda>who g.
     step_then (validate_raw (me_lib E) (me_pydantic E) (me_settings E) (me_builtin E) raw, g) (\<lambda>report g.
       case vr_resolved report of
         None \<Rightarrow> (Inl (HTTPException 400 ''validation''), g)
       | Some t \<Rightarrow>
           if \<not> report_ok report then (Inl (HTTPException 400 ''validation''), g)
           else step_then (plan_change (me_lib E) (me_pydantic E) (me_settings E) (me_own E) raw (gv_registry g), g) (\<lambda>plan g.
             if pl_requires_dual_review plan
             then step_then (consume_ticket now (approval_header hs) ''template.publish'' (rt_alias t) (gv_approvals g), g)
               (\<lambda>_ g. published_answer E now who (approval_header hs) raw plan g)
             else published_answer E now who (approval_header hs) raw plan g)))"

subsection \<open>Canary weights\<close>

text \<open>\<open>int(v)\<close> of a JSON value.\<close>

definition json_int :: "pylib \<Rightarrow> json \<Rightarrow> int res" where
  "json_int L v = (case v of
      JStr s \<Rightarrow> (case read_int s of Some i \<Rightarrow> Inr i | None \<Rightarrow> Inl (ValueError ''int''))
    | _ \<Rightarrow> bind_res (json_number L v) (\<lambda>x. Inr (py_int x)))"

definition field_or_default :: "jobj \<Rightarrow> string \<Rightarrow> json \<Rightarrow> json" where
  "field_or_default body k d = (case dict_get body k of Some v \<Rightarrow> v | None \<Rightarrow> d)"

definition bind_canary :: "string \<Rightarrow> string \<Rightarrow> int \<Rightarrow> rat \<Rightarrow> policies \<Rightarrow> policies" where
  "bind_canary chan alias version w ps =
     (let p = policy_of ps chan; b = (case dict_get (cp_canary p) alias of None \<Rightarrow> [] | Some b \<Rightarrow> b)
      in dict_set chan (p\<lparr>cp_canary := dict_set alias (AList.update version (max 0 (min 1 w)) b) (cp_canary p)\<rparr>) ps)"

definition canary_impact :: "table \<Rightarrow> string \<Rightarrow> string \<Rightarrow> json" where
  "canary_impact tbl chan alias = JObj [(''channel'', JStr chan),
     (''active_tasks'', JInt (case map_of (active_counts_by_channel tbl) chan of None \<Rightarrow> 0 | Some n \<Rightarrow> n)), (''alias'', JStr alias)]"

definition canary_recorded :: "admin_env \<Rightarrow> time \<Rightarrow> string dict \<Rightarrow> string \<Rightarrow> table \<Rightarrow> string \<Rightarrow> int \<Rightarrow> rat \<Rightarrow> actor
    \<Rightarrow> governance \<Rightarrow> json outcome_of" where
  "canary_recorded E now hs alias tbl chan version w who g =
     (let impact = canary_impact tbl chan alias; weight = JFloat (lib_float_repr (me_lib E) w) in
      case me_db E 0 of
        Some e \<Rightarrow> (Inl e, g)
      | None \<Rightarrow> step_then (audit_governance E now 1 who ''template.canary_changed'' ''template'' (alias @ ''@'' @ show_int version) None
          [(''channel'', JStr chan), (''weight'', weight), (''impact'', impact), (''approval_ticket'', opt_str (approval_header hs))] g)
          (\<lambda>_ g. (Inr (JObj [(''channel'', JStr chan), (''alias'', JStr alias), (''version'', JInt version), (''weight'', weight),
             (''impact'', impact)]), g)))"

definition set_canary :: "admin_env \<Rightarrow> time \<Rightarrow> string dict \<Rightarrow> string \<Rightarrow> table \<Rightarrow> jobj \<Rightarrow> governance \<Rightarrow> json outcome_of" where
  "set_canary E now hs alias tbl body g =
     step_then (require_roles [''operator'', ''approver''] (me_settings E) hs, g) (\<lambda>who g.
     step_then (json_int (me_lib E) (field_or_default body ''version'' (JInt 0)), g) (\<lambda>version g.
     step_then (json_number (me_lib E) (field_or_default body ''weight'' (JInt 0)), g) (\<lambda>w g.
       let chan = py_str (field_or_default body ''channel'' (JStr [])) in
       if chan = [] then (Inl (HTTPException 400 ''channel required''), g)
       else (let g = g\<lparr>gv_policies := bind_canary chan alias version w (gv_policies g)\<rparr> in
         step_then (consume_ticket now (approval_header hs) ''template.canary'' alias (gv_approvals g), g)
           (\<lambda>_ g. canary_recorded E now hs alias tbl chan version w who g)))))"

subsection \<open>Approvals\<close>

definition create_approval :: "admin_env \<Rightarrow> time \<Rightarrow> string \<Rightarrow> string dict \<Rightarrow> jobj \<Rightarrow> governance \<Rightarrow> json outcome_of" where
  "create_approval E now uuid hs body g =
     step_then (require_roles ALL_ROLES (me_settings E) hs, g) (\<lambda>who g.
       let action = py_str (field_or_default body ''action'' (JStr [])); subject = py_str (field_or_default body ''subject'' (JStr [])) in
       case dict_get HIGH_RISK_ACTIONS action of
         None \<Rightarrow> (Inl (HTTPException 400 ''unknown action''), g)
       | Some roles \<Rightarrow>
           if \<not> has_role roles who then (Inl (HTTPException 403 ''requires one of the roles''), g)
           else (case create_ticket now uuid action subject (digest_payload (me_lib E) (field_or_default body ''payload'' (JObj [])))
                (who_name who) (field_or_default body ''impact'' (JObj [])) (gv_approvals g) of (t, ts) \<Rightarrow>
             step_then (audit_governance E now 0 who ''governance.operation'' ''approval'' (tk_id t) None
                 [(''action'', JStr action), (''subject'', JStr subject), (''impact'', tk_impact t)] (g\<lparr>gv_approvals := ts\<rparr>))
               (\<lambda>_ g. (Inr (JObj [(''ticket_id'', JStr (tk_id t)), (''action'', JStr action), (''subject'', JStr subject),
                  (''submitted_by'', JStr (who_name who)), (''expires_at'', JStr (lib_isoformat (me_lib E) (tk_expires_at t)))]), g))))"

definition approve :: "admin_env \<Rightarrow> time \<Rightarrow> string dict \<Rightarrow> string \<Rightarrow> governance \<Rightarrow> json outcome_of" where
  "approve E now hs tid g =
     step_then (require_roles [''approver''] (me_settings E) hs, g) (\<lambda>who g.
       case approve_ticket now tid who (gv_approvals g) of
         Inl e \<Rightarrow> (Inl e, g)
       | Inr (t, ts) \<Rightarrow> step_then (audit_governance E now 0 who ''governance.operation'' ''approval'' (tk_id t) None
             [(''action'', JStr (tk_action t)), (''subject'', JStr (tk_subject t)), (''submitted_by'', JStr (tk_submitted_by t))]
             (g\<lparr>gv_approvals := ts\<rparr>))
           (\<lambda>_ g. (Inr (JObj [(''ticket_id'', JStr (tk_id t)), (''approved_by'', JStr (who_name who)), (''status'', JStr ''approved'')]), g)))"

definition list_approvals :: "admin_env \<Rightarrow> time \<Rightarrow> string dict \<Rightarrow> governance \<Rightarrow> json list res" where
  "list_approvals E now hs g = bind_res (require_roles ALL_ROLES (me_settings E) hs) (\<lambda>_.
     Inr (List.map (\<lambda>t. JObj [(''ticket_id'', JStr (tk_id t)), (''action'', JStr (tk_action t)), (''subject'', JStr (tk_subject t)),
         (''submitted_by'', JStr (tk_submitted_by t)), (''impact'', tk_impact t),
         (''created_at'', JStr (lib_isoformat (me_lib E) (tk_created_at t)))])
       (pending_tickets now (gv_approvals g))))"

subsection \<open>Credential references and the audit log\<close>

definition register_credential_ref :: "admin_env \<Rightarrow> time \<Rightarrow> string dict \<Rightarrow> jobj \<Rightarrow> governance \<Rightarrow> json outcome_of" where
  "register_credential_ref E now hs body g =
     step_then (require_roles [''operator'', ''approver''] (me_settings E) hs, g) (\<lambda>who g.
       let given_name = field_or_default body ''name'' JNull; name = (if truthy given_name then strip (py_str given_name) else []) in
       if name = [] then (Inl (HTTPException 400 ''name required''), g)
       else if truthy (field_or_default body ''secret'' JNull) then (Inl (HTTPException 400 ''no secrets here''), g)
       else step_then (consume_ticket now (approval_header hs) ''credential_ref.change'' name (gv_approvals g), g) (\<lambda>_ g.
         step_then (audit_governance E now 0 who ''credential_ref.changed'' ''credential_ref'' name None
             [(''purpose'', JStr ''dry_run''), (''provider'', field_or_default body ''provider'' JNull)] g)
           (\<lambda>_ g. (Inr (JObj [(''name'', JStr name), (''registered'', JBool True)]), g))))"

definition audit_entry :: "pylib \<Rightarrow> audit_row \<Rightarrow> json" where
  "audit_entry L r = JObj [(''id'', JInt (int (ae_id r))), (''event_type'', JStr (ae_event_type r)), (''actor'', JStr (ae_actor r)),
     (''actor_role'', opt_str (ae_actor_role r)),
     (''subject'', JStr ((case ae_subject_type r of None \<Rightarrow> ''None'' | Some s \<Rightarrow> s) @ '':'' @ (case ae_subject_id r of None \<Rightarrow> ''None'' | Some s \<Rightarrow> s))),
     (''payload_digest'', opt_str (ae_payload_digest r)), (''refs'', opt_obj (ae_refs r)), (''detail'', opt_str (ae_detail r)),
     (''hash'', JStr (ae_hash r)), (''prev_hash'', opt_str (ae_prev_hash r)), (''created_at'', JStr (lib_isoformat L (ae_created_at r)))]"

definition read_audit :: "admin_env \<Rightarrow> string dict \<Rightarrow> nat \<Rightarrow> string option \<Rightarrow> governance \<Rightarrow> json list res" where
  "read_audit E hs limit event_type g = bind_res (require_roles [''auditor'', ''approver''] (me_settings E) hs) (\<lambda>_.
     Inr (List.map (audit_entry (me_lib E)) (take limit (rev (filter (\<lambda>r. case event_type of
         Some (c # s) \<Rightarrow> ae_event_type r = c # s | _ \<Rightarrow> True) (gv_audit g))))))"

definition verify_audit :: "admin_env \<Rightarrow> string dict \<Rightarrow> governance \<Rightarrow> chain_break option res" where
  "verify_audit E hs g = bind_res (require_roles [''auditor'', ''approver''] (me_settings E) hs) (\<lambda>_.
     Inr (verify_chain (me_lib E) 10000 (gv_audit g)))"

subsection \<open>Pacing of a channel\<close>

text \<open>
  The pattern \<open>^[a-z0-9][a-z0-9._-]{0,63}$\<close> under \<open>re.match\<close>: \<open>$\<close> also matches before a final newline.
\<close>

definition channel_first :: "char \<Rightarrow> bool" where
  "channel_first c \<longleftrightarrow> ascii_lower c \<or> py_digit c"

definition channel_rest :: "char \<Rightarrow> bool" where
  "channel_rest c \<longleftrightarrow> channel_first c \<or> c \<in> {CHR ''.'', CHR ''_'', CHR ''-''}"

definition drop_newline :: "string \<Rightarrow> string" where
  "drop_newline s = (if s \<noteq> [] \<and> last s = CHR 0x0A then butlast s else s)"

definition validated_channel :: "string \<Rightarrow> string res" where
  "validated_channel chan = (case drop_newline chan of
      [] \<Rightarrow> Inl (HTTPException 400 ''invalid channel name'')
    | c # s \<Rightarrow> if channel_first c \<and> list_all channel_rest s \<and> length s \<le> 63 then Inr chan
        else Inl (HTTPException 400 ''invalid channel name''))"

record pacing =
  pc_snapshot :: poll_snapshot
  pc_next_poll_interval :: rat
  pc_resubmit_base_interval :: rat

text \<open>The numbers before they are rounded to three digits. \<open>wall\<close> is \<open>time.time()\<close>.\<close>

definition get_channel_pacing :: "admin_env \<Rightarrow> time \<Rightarrow> time \<Rightarrow> string dict \<Rightarrow> string \<Rightarrow> governance \<Rightarrow> pacing res" where
  "get_channel_pacing E wall now hs chan g = bind_res (require_roles ALL_ROLES (me_settings E) hs) (\<lambda>_.
     bind_res (validated_channel chan) (\<lambda>chan. let P = params_of (me_settings E) in
       bind_res (next_interval P (gv_polling g) chan 0 True) (\<lambda>n. bind_res (base_interval P (gv_polling g) chan 0 True) (\<lambda>b.
         Inr \<lparr>pc_snapshot = snapshot P wall now (gv_polling g) chan, pc_next_poll_interval = n, pc_resubmit_base_interval = b\<rparr>))))"

definition multiplier_text :: "pylib \<Rightarrow> poll_snapshot \<Rightarrow> json" where
  "multiplier_text L s = JFloat (lib_float_repr L (sn_multiplier s))"

definition reset_channel_pacing :: "admin_env \<Rightarrow> time \<Rightarrow> time \<Rightarrow> string dict \<Rightarrow> string \<Rightarrow> jobj \<Rightarrow> governance
    \<Rightarrow> (poll_snapshot \<times> poll_snapshot) outcome_of" where
  "reset_channel_pacing E wall now hs chan body g =
     step_then (require_roles [''operator'', ''approver''] (me_settings E) hs, g) (\<lambda>who g.
     step_then (validated_channel chan, g) (\<lambda>chan g.
       let samples = truthy (field_or_default body ''include_samples'' (JBool False)); P = params_of (me_settings E);
           before = snapshot P wall now (gv_polling g) chan;
           g = g\<lparr>gv_polling := reset_polling chan samples (gv_polling g)\<rparr>;
           after = snapshot P wall now (gv_polling g) chan
       in step_then (audit_governance E now 0 who ''governance.operation'' ''channel'' chan None
            [(''operation'', JStr ''pacing.reset''), (''include_samples'', JBool samples),
             (''before'', multiplier_text (me_lib E) before), (''after'', multiplier_text (me_lib E) after)] g)
          (\<lambda>_ g. (Inr (before, after), g))))"

definition root_livez :: "int \<times> json" where
  "root_livez = (200, JObj [(''status'', JStr ''ok'')])"

definition root_readyz :: "bool \<Rightarrow> bool \<Rightarrow> int \<times> json" where
  "root_readyz db_ok cache_ok = (if db_ok then 200 else 503, JObj [(''db'', JBool db_ok), (''cache'', JBool cache_ok)])"

text \<open>What the admin application answers without a role: its probes, under the root and under its prefix.\<close>

definition admin_probe :: "string \<Rightarrow> bool \<Rightarrow> bool \<Rightarrow> (int \<times> json) option" where
  "admin_probe path db_ok cache_ok =
     (if path = ''/healthz'' \<or> path = ''/livez'' \<or> path = ''/admin/healthz'' then Some root_livez
      else if path = ''/readyz'' then Some (root_readyz db_ok cache_ok) else None)"

end
