(* ===== verification/AdminTasks.thy ===== *)
theory AdminTasks
  imports Admin Routes
begin

text \<open>
  The operations of \<open>admin/app.py\<close> on tasks - list, replay, close and dry run - as programs over the actions of
  \<open>Prog\<close>. The approval tickets and the times of the last replays belong to the admin process and are read without an
  \<open>await\<close>: they are arguments, as they are at that moment; a ticket's expiry and the replay rate are read off one clock.
\<close>

subsection \<open>The task list\<close>

definition task_entry :: "pylib \<Rightarrow> task \<Rightarrow> json" where
  "task_entry L t = (let iso = (\<lambda>x. opt_str (map_option (lib_isoformat L) x)) in JObj
     [(''task_id'', JStr (task_id t)), (''alias'', JStr (template_alias t)), (''template_version'', JInt (template_version t)),
      (''channel'', JStr (channel t)), (''tenant'', JStr (tenant t)), (''status'', JStr (status_value (status t))),
      (''attempts'', JInt (attempts t)), (''max_attempts'', JInt (max_attempts t)), (''origin'', JStr (origin_value (origin t))),
      (''replay_of'', opt_str (replay_of t)), (''error_code'', opt_str (map_option error_code_value (error_code t))),
      (''upstream_task_id'', opt_str (upstream_task_id t)), (''created_at'', iso (Some (created_at t))),
      (''deadline_at'', iso (deadline_at t)), (''next_poll_at'', iso (next_poll_at t))])"

definition list_tasks :: "pylib \<Rightarrow> settings \<Rightarrow> string dict \<Rightarrow> string option \<Rightarrow> string option \<Rightarrow> nat \<Rightarrow> table \<Rightarrow> json list res" where
  "list_tasks L st hs wanted_status wanted_channel limit tbl = bind_res (require_roles ALL_ROLES st hs) (\<lambda>_.
     Inr (List.map (task_entry L) (take limit (sort_key (\<lambda>t. - created_at t) (filter (\<lambda>t.
       (case wanted_status of Some (c # s) \<Rightarrow> status_value (status t) = c # s | _ \<Rightarrow> True)
       \<and> (case wanted_channel of Some (c # s) \<Rightarrow> channel t = c # s | _ \<Rightarrow> True)) tbl)))))"

subsection \<open>Replay\<close>

definition enforce_replay_rate :: "int \<Rightarrow> time \<Rightarrow> time list \<Rightarrow> unit res \<times> time list" where
  "enforce_replay_rate limit now replays = (let recent = filter (\<lambda>t. now - t < 60) replays in
     if limit \<le> int (length recent) then (Inl (HTTPException 429 ''replay rate limit exceeded''), recent)
     else (Inr (), recent @ [now]))"

definition human_confirmed :: "string dict \<Rightarrow> bool" where
  "human_confirmed hs \<longleftrightarrow> lower (header_or hs ''x-ag-human-confirmed'' []) \<in> {''1'', ''true'', ''yes''}"

definition replay_key :: "task \<Rightarrow> string" where
  "replay_key parent = retry_key (idempotency_key parent) (attempt_of (idempotency_key parent) + 1)"

definition replay_row :: "template_version \<Rightarrow> task \<Rightarrow> string \<Rightarrow> string \<Rightarrow> time \<Rightarrow> string option \<Rightarrow> string \<Rightarrow> task" where
  "replay_row tv parent fresh ref now token reason =
     (new_task fresh (replay_key parent) (window_bucket now (idempotency_window_seconds parent)) (channel parent) (template_alias parent) now)
       \<lparr>idempotency_window_seconds := idempotency_window_seconds parent, tenant := tenant parent, task_type := task_type parent,
        template_version := template_version parent, max_attempts := max_attempts parent,
        deadline_at := Some (now + of_int (py_int (strategy_get (rt_strategy (tv_resolved tv)) ''deadline_seconds'' 1800))),
        origin := ORIGIN_REPLAY, replay_of := Some (task_id parent), callback_token := token, create_req_ref := Some ref,
        create_req_digest := create_req_digest parent, attributes := Some [(''replay_reason'', JStr (take 200 reason))]\<rparr>"

definition replay_impact :: "task \<Rightarrow> json" where
  "replay_impact parent = JObj [(''upstream_calls'', JInt 1), (''derived_key'', JStr (replay_key parent)),
     (''parent_status'', JStr (status_value (status parent)))]"

definition stored_body :: "task \<Rightarrow> (jobj \<Rightarrow> prog) \<Rightarrow> prog" where
  "stored_body parent k = (case create_req_ref parent of
      Some (c # ref) \<Rightarrow> AskBody (c # ref) (\<lambda>r. k (case r of Inl e \<Rightarrow> [] | Inr body \<Rightarrow> body))
    | _ \<Rightarrow> k [])"

text \<open>The new row and what follows it: the credential, the message, the audit record.\<close>

definition replay_insert :: "henv \<Rightarrow> string dict \<Rightarrow> task \<Rightarrow> task \<Rightarrow> string \<Rightarrow> prog" where
  "replay_insert E hs parent fresh credential = Insert fresh (\<lambda>r. case r of
      Some e \<Rightarrow> Fail e
    | None \<Rightarrow> Tell (E_put_credential (task_id fresh) credential (credential_ttl_seconds (he_settings E)))
        (enqueue (task_id fresh) ''submit:default'' ''submit_upstream'' []
          (Tell (E_audit ''task.replay'' ''task'' (task_id fresh)
             [(''parent'', JStr (task_id parent)), (''impact'', replay_impact parent), (''approval_ticket'', opt_str (approval_header hs))])
            (reply 200 (JObj [(''child_task_id'', JStr (task_id fresh)), (''replay_of'', JStr (task_id parent)),
               (''impact'', replay_impact parent)]) []))))"

definition replay_fresh :: "henv \<Rightarrow> string dict \<Rightarrow> template_version \<Rightarrow> task \<Rightarrow> jobj \<Rightarrow> string \<Rightarrow> prog" where
  "replay_fresh E hs tv parent body credential = Draw (\<lambda>uuid.
     let fresh = take 24 uuid; ref = request_key (tenant parent) fresh in
     Tell (E_put_request ref (JObj body) (body_ttl_seconds (he_settings E)))
       (ask_now (\<lambda>now. draw_token (tv_resolved tv) (\<lambda>token.
         replay_insert E hs parent (replay_row tv parent fresh ref now token (header_or hs ''x-ag-replay-reason'' [])) credential))))"

text \<open>After the approval and the rate limit.\<close>

definition replay_approved :: "henv \<Rightarrow> string dict \<Rightarrow> task \<Rightarrow> prog" where
  "replay_approved E hs parent =
     (if some_truthy (upstream_task_id parent) then Fail (HTTPException 409 ''upstream task exists'')
      else (case registry_get (he_registry E) (template_alias parent) (Some (template_version parent)) of
          None \<Rightarrow> Fail (HTTPException 409 ''template version unavailable'')
        | Some tv \<Rightarrow>
            if \<not> confirm_auto_allowed (rt_capabilities (tv_resolved tv)) \<and> \<not> human_confirmed hs
            then Fail (HTTPException 409 ''human confirmation required'')
            else stored_body parent (\<lambda>body.
              let credential = strip (header_or hs ''x-ag-credential'' []) in
              if credential = [] then Fail (HTTPException 409 ''data-plane credential required'')
              else replay_fresh E hs tv parent body credential)))"

definition replayable :: "task \<Rightarrow> bool" where
  "replayable t \<longleftrightarrow> is_business_terminal (status t) \<or> status t = FAILED"

definition replay_task :: "henv \<Rightarrow> approvals \<Rightarrow> time list \<Rightarrow> string dict \<Rightarrow> string \<Rightarrow> prog" where
  "replay_task E tickets replays hs tid =
     require (require_roles [''operator'', ''approver''] (he_settings E) hs) (\<lambda>_. Load tid (\<lambda>row. case row of
         None \<Rightarrow> Fail (HTTPException 404 ''task not found'')
       | Some parent \<Rightarrow>
           if \<not> replayable parent then Fail (HTTPException 409 ''only terminal/retryable tasks can be replayed'')
           else if origin parent = ORIGIN_DRY_RUN then Fail (HTTPException 409 ''dry-run tasks are not replayable'')
           else ask_now (\<lambda>now. require (consume_ticket now (approval_header hs) ''task.replay'' tid tickets) (\<lambda>_.
             require (fst (enforce_replay_rate (replay_rate_per_minute (he_settings E)) now replays)) (\<lambda>_.
               replay_approved E hs parent)))))"

subsection \<open>Close\<close>

definition close_reason :: "jobj \<Rightarrow> string res" where
  "close_reason body = (case field_or_default body ''reason'' (JStr ''closed by human'') of
      JStr s \<Rightarrow> Inr (take 500 s) | _ \<Rightarrow> Inl (TypeError ''reason''))"

definition close_task :: "settings \<Rightarrow> approvals \<Rightarrow> string dict \<Rightarrow> string \<Rightarrow> jobj \<Rightarrow> prog" where
  "close_task st tickets hs tid body =
     require (require_roles [''operator'', ''approver''] st hs) (\<lambda>_. ask_now (\<lambda>now.
       require (consume_ticket now (approval_header hs) ''task.replay'' tid tickets) (\<lambda>_. Load tid (\<lambda>row. case row of
           None \<Rightarrow> Fail (HTTPException 404 ''task not found'')
         | Some t \<Rightarrow> require (close_reason body) (\<lambda>reason. ask_now (\<lambda>now.
             apply_write (W_advance tid DEAD (Some [status t]) [SetErrorCode (Some EC_UNKNOWN_EXHAUSTED),
                 SetErrorMessage (Some reason), SetFinishedAt (Some now), SetNextPollAt None]) (\<lambda>moved.
               if \<not> moved then Fail (HTTPException 409 ''illegal transition from current state'')
               else Tell (E_audit ''governance.operation'' ''task'' tid
                   [(''operation'', JStr ''close''), (''reason'', field_or_default body ''reason'' JNull)])
                 (reply 200 (JObj [(''task_id'', JStr tid), (''status'', JStr (status_value DEAD))]) []))))))))"

subsection \<open>Dry run\<close>

definition body_text :: "jobj \<Rightarrow> string \<Rightarrow> string \<Rightarrow> string" where
  "body_text body k d = (let v = field_or_default body k JNull in if truthy v then py_str v else d)"

definition uncleaned :: "string \<Rightarrow> json" where
  "uncleaned reason = JObj [(''cleaned'', JBool False), (''reason'', JStr reason)]"

text \<open>\<open>describe\<close> is \<open>str(exc)\<close>.\<close>

definition cleanup_dry_run :: "(exn \<Rightarrow> string) \<Rightarrow> henv \<Rightarrow> string \<Rightarrow> template_version \<Rightarrow> (json \<Rightarrow> prog) \<Rightarrow> prog" where
  "cleanup_dry_run describe E tid tv k = Load tid (\<lambda>row. case row of
      None \<Rightarrow> k (uncleaned ''task vanished'')
    | Some t \<Rightarrow>
        if \<not> cap_cancel (rt_capabilities (tv_resolved tv)) then note_attributes tid [(''dry_run_marked'', JBool True)]
          (\<lambda>_. k (uncleaned ''upstream cannot cancel; marked to converge naturally''))
        else (case upstream_task_id t of
            Some (c # u) \<Rightarrow>
              let failed = (\<lambda>e. k (uncleaned (take 200 (scrub_text [] (describe e))))) in
              (case render_cancel (tv_resolved tv) (c # u) of
                 Inl e \<Rightarrow> failed e
               | Inr request \<Rightarrow> AskCred tid (\<lambda>bearer. Http tid request CTX_CANCEL (if some_truthy bearer then bearer else None) (\<lambda>answer. case answer of
                   Inl e \<Rightarrow> failed e
                 | Inr result \<Rightarrow> Tell (E_drop_credential tid) (k (JObj [(''cleaned'', JBool (cr_ok result)),
                     (''upstream_status'', opt_int (response_status result))])))))
          | _ \<Rightarrow> k (uncleaned ''no upstream task created'')))"

definition dry_run_auth :: "pylib \<Rightarrow> actor \<Rightarrow> jobj \<Rightarrow> string \<Rightarrow> auth_context" where
  "dry_run_auth L who body credential =
     \<lparr>ac_channel = body_text body ''channel'' ''dry-run'', ac_tenant = body_text body ''tenant'' ''dry-run'',
      ac_bearer = (if credential = [] then None else Some credential), ac_key_hash = key_hash_of L (or_else credential ''dry-run''),
      ac_actor = who_name who, ac_mode = ''admin''\<rparr>"

definition refused_as_http :: "exn option \<Rightarrow> prog" where
  "refused_as_http r = (case r of None \<Rightarrow> Done | Some (AcceptError code detail ra) \<Rightarrow> Fail (HTTPException code detail) | Some e \<Rightarrow> Fail e)"

definition dry_run_finish :: "(exn \<Rightarrow> string) \<Rightarrow> henv \<Rightarrow> string \<Rightarrow> string \<Rightarrow> template_version \<Rightarrow> accept_result \<Rightarrow> prog" where
  "dry_run_finish describe E alias credential tv r = cleanup_dry_run describe E (ar_task_id r) tv (\<lambda>cleanup.
     Tell (E_audit ''task.dry_run'' ''task'' (ar_task_id r)
         [(''alias'', JStr alias), (''http_status'', JInt (ar_http_status r)), (''cleanup'', cleanup)])
       (reply 200 (JObj [(''task_id'', JStr (ar_task_id r)), (''http_status'', JInt (ar_http_status r)),
          (''response'', scrub_payload (if credential = [] then [] else [credential]) (ar_body r)), (''cleanup'', cleanup)]) []))"

text \<open>A \<open>body\<close> that is no object is left out: it ends in \<open>TypeError\<close>.\<close>

definition dry_run_body :: "jobj \<Rightarrow> jobj res" where
  "dry_run_body body = (let v = field_or_default body ''body'' JNull in
     if \<not> truthy v then Inr [] else (case v of JObj kvs \<Rightarrow> Inr kvs | _ \<Rightarrow> Inl (TypeError ''body'')))"

definition dry_run :: "(exn \<Rightarrow> string) \<Rightarrow> api \<Rightarrow> string dict \<Rightarrow> jobj \<Rightarrow> prog" where
  "dry_run describe A hs body = (let E = ap_env A in
     require (require_roles [''operator'', ''template-author'', ''approver''] (he_settings E) hs) (\<lambda>who.
       let alias = body_text body ''alias'' []; credential = body_text body ''credential'' [] in
       if alias = [] then Fail (HTTPException 400 ''alias required'')
       else (case registry_get (he_registry E) alias None of
           None \<Rightarrow> Fail (HTTPException 404 ''unknown alias'')
         | Some tv \<Rightarrow> require (dry_run_body body) (\<lambda>payload.
             after_do refused_as_http (accept_create A (dry_run_auth (he_lib E) who body credential) tv payload None ORIGIN_DRY_RUN None
               (dry_run_finish describe E alias credential tv))))))"

subsection \<open>Calls of the admin API\<close>

datatype admin_call =
    Replay_call approvals "time list" "string dict" string
  | Close_call approvals "string dict" string jobj
  | Dry_run_call "exn \<Rightarrow> string" "string dict" jobj

definition serve_admin :: "api \<Rightarrow> admin_call \<Rightarrow> prog" where
  "serve_admin A c = (case c of
      Replay_call tickets replays hs tid \<Rightarrow> replay_task (ap_env A) tickets replays hs tid
    | Close_call tickets hs tid body \<Rightarrow> close_task (he_settings (ap_env A)) tickets hs tid body
    | Dry_run_call describe hs body \<Rightarrow> dry_run describe A hs body)"

end
