(* ===== verification/Serving.thy ===== *)
theory Serving
  imports Callbacks AdminTasks
begin

text \<open>
  Every request the gateway serves, as one program each: the protocol side and the callbacks of \<open>gateway/routes.py\<close>, and the
  operations on tasks of \<open>admin/app.py\<close>.
\<close>

datatype api_call =
    Async_call string string web_request
  | Callback_call string web_request
  | Admin_call admin_call

definition serve :: "direct_resolver \<Rightarrow> api \<Rightarrow> api_call \<Rightarrow> prog" where
  "serve direct A c = (case c of
      Async_call alias rest q \<Rightarrow> async_dispatch direct A alias rest q
    | Callback_call token q \<Rightarrow> receive_callback A token q
    | Admin_call x \<Rightarrow> serve_admin A x)"

end
