(* ===== verification/HandlerFacts.thy ===== *)
theory HandlerFacts
  imports Handlers
begin

text \<open>
  Facts about every path of the handlers, whatever the environment answers: a handler touches only
  the task named in its message, through legal writes; a create request is sent only by
  \<open>submit_upstream\<close> and only after this very program has won the submit intent; a concurrency slot
  that was granted is given back exactly once.
\<close>

subsection \<open>Handlers stay on their task\<close>

fun sane :: "bool \<Rightarrow> string \<Rightarrow> act \<Rightarrow> bool" where
  "sane sl tid (A_write w) = (write_ok w \<and> write_target w = tid)"
| "sane sl tid (A_http t q c) = (t = tid \<and> c \<noteq> CTX_SUBMIT)"
| "sane sl tid (A_send q n m) = (dict_get m ''task_id'' = Some (JStr tid))"
| "sane sl tid (A_tell (E_drop_credential t)) = (t = tid)"
| "sane sl tid (A_tell (E_release c t)) = sl"
| "sane sl tid (A_tell _) = True"
| "sane sl tid (A_acquire c t) = sl"
| "sane sl tid (A_insert t) = False"

text \<open>
  The flag says whether slots may be taken and given back. \<open>sane_create\<close> is \<open>sane\<close> with the create
  request included.
\<close>

definition sane_create :: "bool \<Rightarrow> string \<Rightarrow> act \<Rightarrow> bool" where
  "sane_create sl tid a \<longleftrightarrow> (case a of A_http t q c \<Rightarrow> t = tid | _ \<Rightarrow> sane sl tid a)"

lemma sane_imp_create: "sane sl tid a \<Longrightarrow> sane_create sl tid a"
  by (cases a) (auto simp: sane_create_def)

lemma sane_create_simps [simp]:
  "sane_create sl tid (A_write w) = (write_ok w \<and> write_target w = tid)"
  "sane_create sl tid (A_http t r c) = (t = tid)"
  "sane_create sl tid (A_send q n m) = (dict_get m ''task_id'' = Some (JStr tid))"
  "sane_create sl tid (A_tell e) = sane sl tid (A_tell e)"
  "sane_create sl tid (A_acquire ch tn) = sl"
  "\<not> sane_create sl tid (A_insert x)"
  by (simp_all add: sane_create_def)

abbreviation good :: "bool \<Rightarrow> string \<Rightarrow> prog \<Rightarrow> bool" where
  "good sl tid p \<equiv> prog_all (sane sl tid) p"

abbreviation good_create :: "bool \<Rightarrow> string \<Rightarrow> prog \<Rightarrow> bool" where
  "good_create sl tid p \<equiv> prog_all (sane_create sl tid) p"

lemma good_imp_create: "good sl tid p \<Longrightarrow> good_create sl tid p"
  by (erule prog_all_mono) (rule sane_imp_create)

lemma good_enqueue_Nil [simp]: "good sl tid (enqueue tid q name [] k) = good sl tid k"
  by (simp add: enqueue_def)

lemma good_enqueue_1 [simp]:
  "a \<noteq> ''task_id'' \<Longrightarrow> good sl tid (enqueue tid q name [(a, v)] k) = good sl tid k"
  by (simp add: enqueue_def)

lemma plus_seconds_some: "\<exists>t x. plus_seconds t d = Inr x"
  by (rule exI [of _ "- d"]) (simp add: plus_seconds_def END_OF_TIME_def)

lemma good_self_later [simp]: "good sl tid (enqueue_self_later tid d k) = good sl tid k"
  using plus_seconds_some [of "max 0 d"] by (auto simp: enqueue_self_later_def)

lemma good_note [simp]: "good sl tid (note_attributes tid attrs k) \<longleftrightarrow> (\<forall>b. good sl tid (k b))"
proof
  assume *: "good sl tid (note_attributes tid attrs k)"
  show "\<forall>b. good sl tid (k b)"
  proof
    fix b
    from * have "loads tid (Some ((new_task tid [] 0 [] [] 0))) \<longrightarrow> (\<forall>b. good sl tid (k b))"
      by (auto simp: note_attributes_def simp del: loads_simps)
    then show "good sl tid (k b)" by (simp add: new_task_def)
  qed
next
  assume "\<forall>b. good sl tid (k b)"
  then show "good sl tid (note_attributes tid attrs k)"
    by (auto simp: note_attributes_def split: option.splits)
qed

lemma good_terminal_sample [simp]: "good sl tid (terminal_sample t k) = good sl tid k"
  by (simp add: terminal_sample_def)

lemma good_finalize_terminal [simp]:
  "good sl tid (finalize_terminal t st k) \<longleftrightarrow> task_id t = tid \<and> good sl tid k"
  by (auto simp: finalize_terminal_def)

lemma good_finalize_success [simp]:
  "task_id t = tid \<Longrightarrow> good sl tid (finalize_success E t tpl k) = good sl tid k"
  by (auto simp: finalize_success_def Let_def)

lemma good_advance_dead [simp]:
  "task_id t = tid \<Longrightarrow> good sl tid (advance_dead t e c m r k) \<longleftrightarrow> (\<forall>b. good sl tid (k b))"
  by (auto simp: advance_dead_def)

lemma good_past_deadline [intro!]:
  "(\<And>b. good sl tid (k b)) \<Longrightarrow> good sl tid (past_deadline t k)"
  by (auto simp: past_deadline_def split: option.splits)

lemma good_release_wait [intro!]:
  "task_id t = tid \<Longrightarrow> good sl tid k \<Longrightarrow> good sl tid (release_for_upstream_wait E t e d c m dec k)"
  by (auto simp: release_for_upstream_wait_def)

lemma good_reschedule [intro!]:
  "task_id t = tid \<Longrightarrow> good sl tid k \<Longrightarrow> good sl tid (reschedule t el s k)"
  by (auto simp: reschedule_def Let_def)

lemma good_channel_healthy [simp]: "good sl tid (note_channel_healthy E c k) = good sl tid k"
  by (simp add: note_channel_healthy_def)

lemma good_store_create [intro!]: "good sl tid k \<Longrightarrow> good sl tid (store_create_response E t r k)"
  by (auto simp: store_create_response_def split: option.splits)

lemma good_ssrf [simp]: "task_id t = tid \<Longrightarrow> good sl tid (submit_ssrf_rejected t e r)"
  by (simp add: submit_ssrf_rejected_def)

lemma good_submit_succeeded [simp]: "task_id t = tid \<Longrightarrow> good sl tid (submit_succeeded E t tpl r)"
  by (auto simp: submit_succeeded_def Let_def split: option.splits)

lemma good_submit_result: "task_id t = tid \<Longrightarrow> good sl tid (handle_submit_result E t tpl strat r)"
  by (auto simp: handle_submit_result_def Let_def submit_rate_limited_def submit_channel_fault_def
      submit_retry_safe_def split: option.splits)

lemma good_poll_unrecognized [simp]: "task_id t = tid \<Longrightarrow> good sl tid (enter_poll_unrecognized t r m)"
  by (auto simp: enter_poll_unrecognized_def Let_def)

lemma good_poll_failed_call [simp]: "task_id t = tid \<Longrightarrow> good sl tid (poll_failed_call t el L r)"
  by (auto simp: poll_failed_call_def Let_def split: option.splits)

lemma good_poll_result: "task_id t = tid \<Longrightarrow> good sl tid (handle_poll_result E t tpl strat r)"
  by (auto simp: handle_poll_result_def Let_def poll_still_running_def poll_succeeded_def
      poll_timed_out_def poll_failed_upstream_def split: option.splits)

lemma good_poll_with_slot: "task_id t = tid \<Longrightarrow> good sl tid (poll_with_slot E t tpl strat b)"
  by (auto simp: poll_with_slot_def good_poll_result)

lemma good_poll_upstream: "ctx_task_id payload = Inr tid \<Longrightarrow> good True tid (poll_upstream E payload)"
  by (auto simp: poll_upstream_def good_poll_with_slot split: option.splits prod.splits)

lemma good_close [simp]: "task_id t = tid \<Longrightarrow> good sl tid (close_for_review t c m)"
  by (auto simp: close_for_review_def)

lemma good_confirm [intro!]:
  "task_id t = tid \<Longrightarrow> (\<And>c u d. good sl tid (k c u d)) \<Longrightarrow> good sl tid (confirm E t tpl b k)"
  by (auto simp: confirm_def Let_def split: option.splits json.splits)

lemma good_compensate: "ctx_task_id payload = Inr tid \<Longrightarrow> good sl tid (compensate_orphan E payload)"
  by (auto simp: compensate_orphan_def compensate_undecided_def act_on_confirmation_def split: option.splits)

lemma good_cancel: "ctx_task_id payload = Inr tid \<Longrightarrow> good sl tid (cancel_upstream E payload)"
  by (auto simp: cancel_upstream_def cancel_degraded_def cancel_answered_def split: option.splits)

lemma good_finalize_task: "ctx_task_id payload = Inr tid \<Longrightarrow> good sl tid (finalize_task E payload)"
  by (auto simp: finalize_task_def Let_def split: option.splits)

lemma good_store_result: "ctx_task_id payload = Inr tid \<Longrightarrow> good sl tid (store_result E payload)"
  by (auto simp: store_result_def transfer_error_def transfer_done_def transfer_failed_audit_def Let_def
      split: option.splits json.splits sum.splits)

lemma good_create_past_deadline [intro!]:
  "(\<And>b. good_create sl tid (k b)) \<Longrightarrow> good_create sl tid (past_deadline t k)"
  by (auto simp: past_deadline_def split: option.splits)

lemma good_create_self_later [simp]: "good_create sl tid (enqueue_self_later tid d k) = good_create sl tid k"
  using plus_seconds_some [of "max 0 d"] by (auto simp: enqueue_self_later_def)

lemma good_create_finalize [simp]:
  "task_id t = tid \<Longrightarrow> good_create sl tid (finalize_terminal t st k) = good_create sl tid k"
  by (simp add: finalize_terminal_def terminal_sample_def)

lemma good_create_dead [simp]:
  "task_id t = tid \<Longrightarrow> good_create sl tid (advance_dead t e c m r k) \<longleftrightarrow> (\<forall>b. good_create sl tid (k b))"
  by (simp add: advance_dead_def)

lemma good_submit_with_slot: "task_id t = tid \<Longrightarrow> good_create sl tid (submit_with_slot E t tpl strat b)"
  by (auto simp: submit_with_slot_def load_create_body_def good_submit_result
      good_imp_create split: option.splits list.splits sum.splits exn.splits)

lemma good_submit_upstream: "ctx_task_id payload = Inr tid \<Longrightarrow> good_create True tid (submit_upstream E payload)"
  by (auto simp: submit_upstream_def submit_admitted_def good_submit_with_slot
      split: option.splits prod.splits)

lemma good_dispatch:
  assumes "ctx_task_id payload = Inr tid"
  shows "good_create True tid (dispatch_message E name payload)"
  using good_submit_upstream [OF assms] good_imp_create [OF good_poll_upstream [OF assms]]
    good_imp_create [OF good_compensate [where sl = True, OF assms]] good_imp_create [OF good_cancel [where sl = True, OF assms]]
    good_imp_create [OF good_finalize_task [where sl = True, OF assms]] good_imp_create [OF good_store_result [where sl = True, OF assms]]
  by (simp add: dispatch_message_def HANDLERS_def)

lemma dispatch_without_task_id:
  assumes "ctx_task_id payload = Inl e"
  shows "\<exists>e'. dispatch_message E name payload = Fail e'"
  using assms by (auto simp: dispatch_message_def HANDLERS_def submit_upstream_def poll_upstream_def
      compensate_orphan_def cancel_upstream_def finalize_task_def store_result_def require_def split: option.splits)

text \<open>Every write is a legal one.\<close>

definition legal :: "act \<Rightarrow> bool" where
  "legal a \<longleftrightarrow> (case a of A_write w \<Rightarrow> write_ok w | _ \<Rightarrow> True)"

lemma legal_simps [simp]:
  "legal (A_write w) = write_ok w" "legal (A_http t q x)" "legal (A_send qn n m)" "legal (A_tell e)"
  "legal (A_acquire ch tn)" "legal (A_insert row)"
  by (simp_all add: legal_def)

subsection \<open>A create request needs a freshly won intent\<close>

text \<open>
  \<open>guarded tid armed p\<close>: on every path of \<open>p\<close>, a create request for \<open>tid\<close> is preceded by a won
  \<open>mark_submit_intent\<close> of \<open>tid\<close> in this program (\<open>armed\<close> says it has been won already), and one win
  serves one request only.
\<close>

primrec guarded :: "string \<Rightarrow> bool \<Rightarrow> prog \<Rightarrow> bool" where
  "guarded tid armed Done = True"
| "guarded tid armed (Fail e) = True"
| "guarded tid armed (Load t k) = (\<forall>x. loads t x \<longrightarrow> guarded tid armed (k x))"
| "guarded tid armed (Write w k) = (\<forall>x. guarded tid (armed \<or> (w = W_mark_submit_intent tid \<and> x = Inr True)) (k x))"
| "guarded tid armed (Ask q k) = (\<forall>x. guarded tid armed (k x))"
| "guarded tid armed (AskCred t k) = (\<forall>x. guarded tid armed (k x))"
| "guarded tid armed (AskBody t k) = (\<forall>x. guarded tid armed (k x))"
| "guarded tid armed (Acquire c t a b k) = (\<forall>x. guarded tid armed (k x))"
| "guarded tid armed (Http t q c b k) =
     ((t = tid \<and> c = CTX_SUBMIT \<longrightarrow> armed)
      \<and> (\<forall>x. guarded tid (armed \<and> \<not> (t = tid \<and> c = CTX_SUBMIT)) (k x)))"
| "guarded tid armed (Fetch u k) = (\<forall>x. guarded tid armed (k x))"
| "guarded tid armed (Enqueue q n m k) = (\<forall>x. guarded tid armed (k x))"
| "guarded tid armed (Tell e p) = guarded tid armed p"
| "guarded tid armed (Seek f k) = (\<forall>x. guarded tid armed (k x))"
| "guarded tid armed (Insert t k) = (\<forall>x. guarded tid armed (k x))"
| "guarded tid armed (Draw k) = (\<forall>x. guarded tid armed (k x))"
| "guarded tid armed (AskStored r k) = (\<forall>x. guarded tid armed (k x))"
| "guarded tid armed (Admit c k) = (\<forall>x. guarded tid armed (k x))"
| "guarded tid armed (Depth q k) = (\<forall>x. guarded tid armed (k x))"
| "guarded tid armed (Presign r l k) = (\<forall>x. guarded tid armed (k x))"
| "guarded tid armed (NewEvent v k) = (\<forall>x. guarded tid armed (k x))"

lemma guarded_finally: "guarded tid armed (finally_do e p) = guarded tid armed p"
  by (induction p arbitrary: armed) auto

lemma guarded_mono: "guarded tid False p \<Longrightarrow> guarded tid armed p"
proof (induction p arbitrary: armed)
  case (Write w k)
  show ?case
  proof (simp, intro allI)
    fix x
    show "guarded tid (armed \<or> w = W_mark_submit_intent tid \<and> x = Inr True) (k x)"
      using Write.IH [of "k x" armed] Write.prems
      by (cases "w = W_mark_submit_intent tid \<and> x = Inr True") (simp_all, metis+)
  qed
next
  case (Http t q c b k)
  then show ?case by (cases armed) auto
qed auto

text \<open>A program that never sends a create request is guarded.\<close>

definition no_create :: "act \<Rightarrow> bool" where
  "no_create a \<longleftrightarrow> (case a of A_http t q c \<Rightarrow> c \<noteq> CTX_SUBMIT | _ \<Rightarrow> True)"

lemma no_create_guarded: "prog_all no_create p \<Longrightarrow> guarded tid armed p"
  by (induction p arbitrary: armed) (auto simp: no_create_def)

lemma good_no_create: "good sl t p \<Longrightarrow> prog_all no_create p"
  by (erule prog_all_mono) (auto simp: no_create_def split: act.splits)

lemma good_guarded: "good sl t p \<Longrightarrow> guarded tid armed p"
  by (rule no_create_guarded [OF good_no_create])

lemma foreign_guarded: "good_create sl t p \<Longrightarrow> t \<noteq> tid \<Longrightarrow> guarded tid armed p"
  by (induction p arbitrary: armed) auto

lemma guarded_apply [simp]:
  "guarded tid armed (apply_write w k) \<longleftrightarrow>
     guarded tid (armed \<or> w = W_mark_submit_intent tid) (k True) \<and> guarded tid armed (k False)"
  by (auto simp: apply_write_def all_bool_eq split: sum.splits)

lemma guarded_parts [simp]:
  "guarded tid armed (enqueue_self_later s d Done)"
  "guarded tid armed (finalize_terminal t st Done)"
  "guarded tid armed (advance_dead t e c m r (\<lambda>_. finalize_terminal t st Done))"
  by (rule good_guarded [where sl = True and t = s] good_guarded [where sl = True and t = "task_id t"]; simp)+

lemma guarded_submit_with_slot: "guarded (task_id t) armed (submit_with_slot E t tpl strat b)"
proof -
  have "guarded (task_id t) True (load_create_body t (\<lambda>body. case body of
           Inl (RequestDataNotFound m) \<Rightarrow>
             advance_dead t [status t] EC_REQUEST_LOST
               (Some ''create request body missing in request store'') False
               (\<lambda>moved. if moved then finalize_terminal t DEAD Done else Done)
         | Inl e \<Rightarrow> Fail e
         | Inr b' \<Rightarrow>
             require (render_create tpl b' (callback_url_for E t tpl)) (\<lambda>request.
             Http (task_id t) request CTX_SUBMIT b (\<lambda>result.
               require result (handle_submit_result E t tpl strat)))))"
    using good_guarded [OF good_submit_result [where sl = True and t = t and tid = "task_id t" and E = E
        and tpl = tpl and strat = strat], of "task_id t"]
    by (auto simp: load_create_body_def require_def
        intro!: good_guarded [where sl = True and t = "task_id t"] split: option.splits list.splits sum.splits exn.splits)
  then show ?thesis by (simp add: submit_with_slot_def)
qed

lemma guarded_submit_upstream: "ctx_task_id payload = Inr tid \<Longrightarrow> guarded tid armed (submit_upstream E payload)"
  by (auto simp: submit_upstream_def submit_admitted_def require_def past_deadline_def ask_now_def guarded_finally
      guarded_submit_with_slot split: option.splits prod.splits sum.splits)

lemma guarded_dispatch: "guarded tid armed (dispatch_message E name payload)"
proof (cases "ctx_task_id payload")
  case (Inl e)
  then show ?thesis using dispatch_without_task_id [OF Inl, of E name] by auto
next
  case (Inr t)
  show ?thesis
  proof (cases "t = tid")
    case True
    with Inr have tid: "ctx_task_id payload = Inr tid" by simp
    show ?thesis
      using guarded_submit_upstream [OF tid] good_guarded [OF good_poll_upstream [OF tid]]
        good_guarded [OF good_compensate [where sl = True, OF tid]] good_guarded [OF good_cancel [where sl = True, OF tid]]
        good_guarded [OF good_finalize_task [where sl = True, OF tid]] good_guarded [OF good_store_result [where sl = True, OF tid]]
      by (simp add: dispatch_message_def HANDLERS_def)
  next
    case False
    then show ?thesis using foreign_guarded [OF good_dispatch [OF Inr]] by simp
  qed
qed

subsection \<open>Slots are given back\<close>

text \<open>
  \<open>slots_ok held p\<close>: on every path of \<open>p\<close>, with \<open>held\<close> the slot taken so far, a slot is only asked
  for when none is held, only the held one is released, and none is held at the end, whether the
  program returns or raises.
\<close>

primrec slots_ok :: "(string \<times> string) option \<Rightarrow> prog \<Rightarrow> bool" where
  "slots_ok held Done = (held = None)"
| "slots_ok held (Fail e) = (held = None)"
| "slots_ok held (Load t k) = (\<forall>x. loads t x \<longrightarrow> slots_ok held (k x))"
| "slots_ok held (Write w k) = (\<forall>x. slots_ok held (k x))"
| "slots_ok held (Ask q k) = (\<forall>x. slots_ok held (k x))"
| "slots_ok held (AskCred t k) = (\<forall>x. slots_ok held (k x))"
| "slots_ok held (AskBody t k) = (\<forall>x. slots_ok held (k x))"
| "slots_ok held (Acquire c t a b k) =
     (held = None \<and> (\<forall>d. slots_ok (if sd_granted d then Some (c, t) else None) (k d)))"
| "slots_ok held (Http t q c b k) = (\<forall>x. slots_ok held (k x))"
| "slots_ok held (Fetch u k) = (\<forall>x. slots_ok held (k x))"
| "slots_ok held (Enqueue q n m k) = (\<forall>x. slots_ok held (k x))"
| "slots_ok held (Tell e p) = (case e of
       E_release c t \<Rightarrow> held = Some (c, t) \<and> slots_ok None p
     | _ \<Rightarrow> slots_ok held p)"
| "slots_ok held (Seek f k) = (\<forall>x. slots_ok held (k x))"
| "slots_ok held (Insert t k) = (\<forall>x. slots_ok held (k x))"
| "slots_ok held (Draw k) = (\<forall>x. slots_ok held (k x))"
| "slots_ok held (AskStored r k) = (\<forall>x. slots_ok held (k x))"
| "slots_ok held (Admit c k) = (\<forall>x. slots_ok held (k x))"
| "slots_ok held (Depth q k) = (\<forall>x. slots_ok held (k x))"
| "slots_ok held (Presign r l k) = (\<forall>x. slots_ok held (k x))"
| "slots_ok held (NewEvent v k) = (\<forall>x. slots_ok held (k x))"

definition slotless :: "act \<Rightarrow> bool" where
  "slotless a \<longleftrightarrow> (case a of A_acquire _ _ \<Rightarrow> False | A_tell (E_release _ _) \<Rightarrow> False | _ \<Rightarrow> True)"

lemma slotless_simps [simp]:
  "slotless (A_write w)" "slotless (A_http t q x)" "slotless (A_send qn n m)"
  "slotless (A_tell e) \<longleftrightarrow> (\<forall>c u. e \<noteq> E_release c u)" "\<not> slotless (A_acquire ch tn)" "slotless (A_insert row)"
  by (auto simp: slotless_def split: effect.splits)

lemma slotless_slots: "prog_all slotless p \<Longrightarrow> slots_ok None p"
  by (induction p) (auto split: effect.splits)

lemma slotless_finally: "prog_all slotless p \<Longrightarrow> slots_ok (Some (c, t)) (finally_do (E_release c t) p)"
  by (induction p) (auto split: effect.splits)

lemma sane_slotless: "sane False tid a \<Longrightarrow> slotless a"
  by (cases a) (auto elim: sane.elims)

lemma sane_create_slotless: "sane_create False tid a \<Longrightarrow> slotless a"
  by (cases a) (auto elim: sane.elims)

lemma good_slots: "good False tid p \<Longrightarrow> slots_ok None p"
  by (rule slotless_slots) (erule prog_all_mono, rule sane_slotless)

lemma slots_parts [simp]:
  "slots_ok None (enqueue_self_later s d Done)"
  "slots_ok None (finalize_terminal t st Done)"
  "slots_ok None (advance_dead t e c m r (\<lambda>_. finalize_terminal t st Done))"
  "slots_ok None (enqueue s q n [] Done)"
  by (rule good_slots [where tid = s] good_slots [where tid = "task_id t"]; simp)+

lemma slots_apply [simp]:
  "slots_ok None (apply_write w k) \<longleftrightarrow> (\<forall>b. slots_ok None (k b))"
  by (auto simp: apply_write_def split: sum.splits)

lemma slots_submit [simp]:
  "slots_ok (Some (channel t, tenant t))
     (finally_do (E_release (channel t) (tenant t)) (submit_with_slot E t tpl strat b))"
  by (rule slotless_finally, rule prog_all_mono [OF good_submit_with_slot [where sl = False, OF refl]])
    (rule sane_create_slotless)

lemma slots_poll [simp]:
  "slots_ok (Some (channel t, tenant t))
     (finally_do (E_release (channel t) (tenant t)) (poll_with_slot E t tpl strat b))"
  by (rule slotless_finally, rule prog_all_mono [OF good_poll_with_slot [where sl = False, OF refl]])
    (rule sane_slotless)

lemma slots_submit_upstream: "slots_ok None (submit_upstream E payload)"
  by (auto simp: submit_upstream_def submit_admitted_def require_def past_deadline_def ask_now_def
      split: option.splits prod.splits sum.splits)

lemma slots_poll_upstream: "slots_ok None (poll_upstream E payload)"
  by (auto simp: poll_upstream_def require_def past_deadline_def ask_now_def
      split: option.splits prod.splits sum.splits)

lemma slots_dispatch: "slots_ok None (dispatch_message E name payload)"
proof (cases "ctx_task_id payload")
  case (Inl e)
  then show ?thesis using dispatch_without_task_id [OF Inl, of E name] by auto
next
  case (Inr tid)
  show ?thesis
    using slots_submit_upstream slots_poll_upstream good_slots [OF good_compensate [OF Inr]]
      good_slots [OF good_cancel [OF Inr]] good_slots [OF good_finalize_task [OF Inr]]
      good_slots [OF good_store_result [OF Inr]]
    by (simp add: dispatch_message_def HANDLERS_def)
qed

end
