(* ===== verification/ApiFacts.thy ===== *)
theory ApiFacts
  imports Serving HandlerFacts
begin

text \<open>
  Facts about every path of the API's programs: their writes are legal, a create request is sent only after this very
  program has won the submit intent, and a slot that was granted is given back exactly once.
\<close>

subsection \<open>Programs without create requests and slots\<close>

definition mild_act :: "act \<Rightarrow> bool" where
  "mild_act a \<longleftrightarrow> (case a of
      A_write w \<Rightarrow> write_ok w
    | A_http t q x \<Rightarrow> x \<noteq> CTX_SUBMIT
    | A_tell e \<Rightarrow> (\<forall>c t. e \<noteq> E_release c t)
    | A_acquire c t \<Rightarrow> False
    | _ \<Rightarrow> True)"

lemma mild_act_simps [simp]:
  "mild_act (A_write w) = write_ok w" "mild_act (A_http t q x) \<longleftrightarrow> x \<noteq> CTX_SUBMIT" "mild_act (A_send qn n m)"
  "mild_act (A_insert row)" "mild_act (A_tell e) \<longleftrightarrow> (\<forall>c t. e \<noteq> E_release c t)" "\<not> mild_act (A_acquire ch tn)"
  by (auto simp: mild_act_def split: effect.splits)

abbreviation mild :: "prog \<Rightarrow> bool" where
  "mild p \<equiv> prog_all mild_act p"

lemma sane_mild: "sane False tid a \<Longrightarrow> mild_act a"
  by (cases a) (auto elim: sane.elims)

lemma good_mild: "good False tid p \<Longrightarrow> mild p"
  by (erule prog_all_mono) (rule sane_mild)

lemma mild_guarded: "mild p \<Longrightarrow> guarded tid armed p"
  by (rule no_create_guarded, erule prog_all_mono) (auto simp: no_create_def mild_act_def split: act.splits)

lemma mild_slotless: "mild p \<Longrightarrow> prog_all slotless p"
  by (erule prog_all_mono) (auto simp: slotless_def mild_act_def split: act.splits effect.splits)

lemma mild_slots: "mild p \<Longrightarrow> slots_ok None p"
  by (rule slotless_slots) (rule mild_slotless)

lemma mild_enqueue [simp]: "mild (enqueue tid q name payload k) = mild k"
  by (simp add: enqueue_def)

lemma mild_reply [simp]: "mild (reply code body headers)"
  by (simp add: reply_def)

lemma mild_poll_result: "mild (handle_poll_result E t tpl strat r)"
  by (rule good_mild [OF good_poll_result [OF refl]])

lemma mild_finalize_task: "mild (finalize_task E [(''task_id'', JStr tid)])"
proof (cases "ctx_task_id [(''task_id'', JStr tid)]")
  case (Inl e)
  then show ?thesis by (simp add: finalize_task_def)
next
  case (Inr t)
  then show ?thesis by (rule good_mild [OF good_finalize_task])
qed

subsection \<open>Query, cancel, callback\<close>

lemma mild_find_task: "(\<And>x. mild (k x)) \<Longrightarrow> mild (find_task chan ident k)"
  by (auto simp: find_task_def by_identifier_def split: option.splits)

lemma mild_owned: "(\<And>t. mild (k t)) \<Longrightarrow> mild (owned_task E a ident k)"
  unfolding owned_task_def by (rule mild_find_task) (auto split: option.splits)

lemma mild_presigned: "(\<And>u. mild (k u)) \<Longrightarrow> mild (presigned_result_url E t tpl k)"
  by (auto simp: presigned_result_url_def Let_def split: option.splits)

lemma mild_answer_query: "mild (answer_query E tpl m env t)"
  unfolding answer_query_def by (rule mild_presigned) (auto simp: Let_def)

lemma mild_refresh: "(\<And>t. mild (k t)) \<Longrightarrow> mild (refresh_task E t tpl strat b k)"
  by (auto simp: refresh_task_def intro!: prog_all_after mild_poll_result split: sum.splits option.splits)

lemma mild_handle_query: "mild (handle_query E a tv ident q)"
  unfolding handle_query_def Let_def
  by (rule mild_owned) (auto intro!: mild_refresh mild_answer_query)

lemma mild_handle_cancel: "mild (handle_cancel E a tv ident)"
  unfolding handle_cancel_def Let_def by (rule mild_owned) auto

lemma mild_audit [simp]: "mild (callback_audit tid refs k) = mild k"
  by (simp add: callback_audit_def)

lemma mild_apply_callback: "mild (apply_callback E tid payload raw)"
proof -
  have "mild (arbitrate t raw mapped)" for t mapped
    by (auto simp: arbitrate_def note_attributes_def split: option.splits)
  moreover have "mild (apply_terminal E t raw mapped snap)" for t mapped snap
    by (auto simp: apply_terminal_def callback_assignments_def mild_finalize_task has_col_def)
  ultimately show ?thesis by (auto simp: apply_callback_def Let_def split: option.splits)
qed

lemma mild_receive_callback: "mild (receive_callback A token q)"
proof -
  have "mild (fresh_callback E row chan uid raw payload)" for E row chan uid raw payload
    by (auto simp: fresh_callback_def Let_def intro!: prog_all_after mild_apply_callback split: option.splits list.splits)
  then show ?thesis by (auto simp: receive_callback_def record_callback_def Let_def)
qed

subsection \<open>Sequencing\<close>

lemma guarded_after:
  "guarded tid armed p \<Longrightarrow> (\<And>r. guarded tid False (f r)) \<Longrightarrow> guarded tid armed (after_do f p)"
  by (induction p arbitrary: armed) (auto intro: guarded_mono)

lemma slots_after: "slots_ok held p \<Longrightarrow> (\<And>r. slots_ok None (f r)) \<Longrightarrow> slots_ok held (after_do f p)"
  by (induction p arbitrary: held) (auto split: effect.splits)

lemma slots_after_slotless:
  "prog_all slotless p \<Longrightarrow> (\<And>r. slots_ok held (f r)) \<Longrightarrow> slots_ok held (after_do f p)"
  by (induction p) (auto split: effect.splits)

subsection \<open>Create\<close>

lemma mild_replay: "(\<And>r. mild (k r)) \<Longrightarrow> mild (replay_or_conflict t digest k)"
  by (auto simp: replay_or_conflict_def Let_def split: option.splits json.splits list.splits)

lemma mild_inline_answer: "(\<And>r. mild (k r)) \<Longrightarrow> mild (inline_answer E a tpl tid result k)"
  by (auto simp: inline_answer_def must_reload_def Let_def split: option.splits)

lemma mild_submit_result: "mild (must_reload tid (\<lambda>t. handle_submit_result E t tpl strat result))"
  by (auto simp: must_reload_def good_mild [OF good_submit_result [OF refl]] split: option.splits)

lemma guarded_release_then: "mild p \<Longrightarrow> guarded tid armed (release_then a p r)"
  by (auto simp: release_then_def mild_guarded split: option.splits)

lemma guarded_inline_with_slot:
  assumes "\<And>r. mild (k r)"
  shows "guarded tid0 True (inline_with_slot E a tv tid0 body k)"
  by (auto simp: inline_with_slot_def Let_def split: sum.splits
      intro!: guarded_release_then guarded_after mild_guarded [OF mild_submit_result] mild_inline_answer assms)

lemma foreign_inline_with_slot:
  assumes "\<And>r. mild (k r)" and "tid0 \<noteq> tid"
  shows "guarded tid armed (inline_with_slot E a tv tid0 body k)"
  using assms(2) by (auto simp: inline_with_slot_def Let_def split: sum.splits
      intro!: guarded_release_then guarded_after mild_guarded [OF mild_submit_result] mild_inline_answer assms(1))

lemma guarded_inline_submit:
  assumes "\<And>r. mild (k r)"
  shows "guarded tid armed (inline_submit E a tv tid0 body k)"
proof (cases "tid0 = tid")
  case True
  then show ?thesis
    using guarded_inline_with_slot [OF assms]
    by (auto simp: inline_submit_def assms mild_guarded ask_now_def split: prod.splits)
next
  case False
  then show ?thesis
    using foreign_inline_with_slot [OF assms False]
    by (auto simp: inline_submit_def assms mild_guarded ask_now_def split: prod.splits)
qed

lemma slots_inline_with_slot:
  assumes "\<And>r. mild (k r)"
  shows "slots_ok (Some (ac_channel a, ac_tenant a)) (inline_with_slot E a tv tid0 body k)"
proof -
  have "slots_ok (Some (ac_channel a, ac_tenant a)) (release_then a (inline_answer E a tpl tid0 result k) r)" for tpl result r
    using mild_slots [OF mild_inline_answer [OF assms]] by (auto simp: release_then_def split: option.splits)
  then show ?thesis
    by (auto simp: inline_with_slot_def Let_def release_then_def split: sum.splits
        intro!: slots_after_slotless mild_slotless [OF mild_submit_result])
qed

lemma slots_inline_submit:
  assumes "\<And>r. mild (k r)"
  shows "slots_ok None (inline_submit E a tv tid0 body k)"
  using slots_inline_with_slot [OF assms]
  by (auto simp: inline_submit_def assms mild_slots ask_now_def split: prod.splits)

lemma mild_legal: "mild p \<Longrightarrow> prog_all legal p"
  by (erule prog_all_mono) (auto simp: legal_def mild_act_def split: act.splits)

lemma legal_inline_submit:
  assumes "\<And>r. mild (k r)"
  shows "prog_all legal (inline_submit E a tv tid0 body k)"
proof -
  have "prog_all legal (release_then a (inline_answer E a tpl tid0 result k) r)" for tpl result r
    using mild_legal [OF mild_inline_answer [OF assms]] by (auto simp: release_then_def split: option.splits)
  moreover have "prog_all legal (inline_with_slot E a tv tid0 body k)"
    using calculation by (auto simp: inline_with_slot_def Let_def release_then_def split: sum.splits
        intro!: prog_all_after mild_legal [OF mild_submit_result])
  ultimately show ?thesis
    by (auto simp: inline_submit_def assms mild_legal ask_now_def enqueue_def split: prod.splits)
qed

text \<open>The three properties together; a program with all of them may run among the workers.\<close>

definition civil :: "string \<Rightarrow> prog \<Rightarrow> bool" where
  "civil tid p \<longleftrightarrow> prog_all legal p \<and> guarded tid False p \<and> slots_ok None p"

lemma mild_civil: "mild p \<Longrightarrow> civil tid p"
  by (simp add: civil_def mild_legal mild_guarded mild_slots)

lemma civil_simps [simp]:
  "civil tid Done" "civil tid (Fail exn)" "civil tid (Seek f k) \<longleftrightarrow> (\<forall>x. civil tid (k x))"
  "civil tid (Draw h) \<longleftrightarrow> (\<forall>x. civil tid (h x))" "civil tid (Admit c d) \<longleftrightarrow> (\<forall>x. civil tid (d x))"
  "civil tid (Depth qn m) \<longleftrightarrow> (\<forall>x. civil tid (m x))" "civil tid (Insert row ins) \<longleftrightarrow> (\<forall>x. civil tid (ins x))"
  "civil tid (Ask qq now) \<longleftrightarrow> (\<forall>x. civil tid (now x))"
  "(\<And>ch tn. eff \<noteq> E_release ch tn) \<Longrightarrow> civil tid (Tell eff p) = civil tid p"
  by (auto simp: civil_def split: effect.splits)

lemma civil_after:
  "civil tid p \<Longrightarrow> (\<And>r. civil tid (f r)) \<Longrightarrow> civil tid (after_do f p)"
  by (simp add: civil_def prog_all_after guarded_after slots_after)

lemma civil_require: "(\<And>x. r = Inr x \<Longrightarrow> civil tid (k x)) \<Longrightarrow> civil tid (require r k)"
  by (cases r) (auto simp: require_def)

lemma civil_accept_inserted:
  assumes "\<And>r. mild (k r)"
  shows "civil tid (accept_inserted E a tv idem orig tid0 body k)"
proof -
  have "civil tid (inline_submit E a tv tid0 body k)"
    using legal_inline_submit guarded_inline_submit slots_inline_submit assms by (simp add: civil_def)
  then show ?thesis
    by (auto simp: accept_inserted_def retain_credential_def audit_accept_def mild_civil assms split: option.splits list.splits)
qed

lemma civil_accept_fresh:
  assumes "\<And>r. mild (k r)"
  shows "civil tid (accept_fresh E a tv strat idem bucket window orig deadline body k)"
proof -
  have "civil tid (accept_insert E a tv idem bucket row body k)" for row
    by (auto simp: accept_insert_def civil_accept_inserted assms mild_replay mild_civil split: option.splits exn.splits)
  then show ?thesis by (simp add: accept_fresh_def Let_def draw_token_def ask_now_def)
qed

lemma civil_accept_create:
  assumes "\<And>r. mild (k r)"
  shows "civil tid (accept_create A a tv body explicit_key orig deadline k)"
  by (auto simp: accept_create_def Let_def ask_now_def civil_accept_fresh assms mild_replay mild_civil split: option.splits)

lemma civil_handle_create: "civil tid (handle_create A a tv q)"
  unfolding handle_create_def
  by (intro civil_require civil_after civil_accept_create)
    (auto simp: on_accept_error_def intro!: mild_civil split: option.splits exn.splits)

lemma civil_route_request: "civil tid (route_request A a tv path q)"
  unfolding route_request_def
  by (rule civil_require)
    (auto simp: civil_handle_create mild_civil mild_handle_query mild_handle_cancel split: option.splits route_match.splits)

subsection \<open>The admin API\<close>

lemma mild_stored_body: "(\<And>b. mild (k b)) \<Longrightarrow> mild (stored_body t k)"
  by (auto simp: stored_body_def split: option.splits list.splits sum.splits)

lemma mild_replay_insert: "mild (replay_insert E hs parent row credential)"
  by (auto simp: replay_insert_def split: option.splits)

lemma mild_replay_task: "mild (replay_task E tickets replays hs tid)"
proof -
  have "mild (replay_fresh E hs tv parent body credential)" for tv parent body credential
    by (simp add: replay_fresh_def Let_def draw_token_def mild_replay_insert)
  then have "mild (replay_approved E hs parent)" for parent
    by (auto simp: replay_approved_def Let_def intro!: mild_stored_body split: option.splits)
  then show ?thesis by (auto simp: replay_task_def split: option.splits)
qed

lemma mild_close_task: "mild (close_task st tickets hs tid body)"
  by (auto simp: close_task_def has_col_def split: option.splits)

lemma mild_cleanup: "(\<And>c. mild (k c)) \<Longrightarrow> mild (cleanup_dry_run describe E tid tv k)"
  by (auto simp: cleanup_dry_run_def Let_def note_attributes_def split: option.splits list.splits sum.splits)

lemma civil_dry_run: "civil tid (dry_run describe A hs body)"
proof -
  have "mild (dry_run_finish describe E nm credential tv r)" for E nm credential tv r
    by (simp add: dry_run_finish_def mild_cleanup)
  then show ?thesis
    by (auto simp: dry_run_def Let_def refused_as_http_def intro!: civil_require civil_after civil_accept_create
        split: option.splits exn.splits)
qed

lemma civil_serve_admin: "civil tid (serve_admin A c)"
  by (cases c) (simp_all add: serve_admin_def mild_civil mild_replay_task mild_close_task civil_dry_run)

lemma civil_serve: "civil tid (serve direct A c)"
proof (cases c)
  case (Async_call nm rest q)
  then show ?thesis
    by (auto simp: serve_def async_dispatch_def Let_def civil_route_request intro!: civil_require split: sum.splits exn.splits option.splits)
next
  case (Callback_call token q)
  then show ?thesis by (simp add: serve_def mild_civil mild_receive_callback)
qed (simp add: serve_def civil_serve_admin)

end
