(* ===== verification/Interleave.thy ===== *)
theory Interleave
  imports ApiFacts
begin

text \<open>
  The workers and the API running together. A state is the task table, the pool of programs in
  progress and the trace of what they did (newest first). A step runs one action of one program,
  delivers a message (any message, any number of times: the bus is at-least-once and its order is
  not used), starts to serve a request of a client or a callback, inserts a task (a replay), lets the
  scheduler, the inspector or an operator write through the DAO, or kills a program in the middle. Clock readings, random numbers and
  the answers of the stores, the polling controller and the upstream are arbitrary.
\<close>

record gateway =
  gw_table :: table
  gw_pool :: "prog list"
  gw_trace :: "event list"

subsection \<open>One action of one program\<close>

inductive pstep :: "table \<Rightarrow> prog \<Rightarrow> event list \<Rightarrow> table \<Rightarrow> prog \<Rightarrow> bool" where
  p_load: "pstep tbl (Load t k) [] tbl (k (get_task t tbl))"
| p_write: "exec_write now w tbl = (r, tbl') \<Longrightarrow> pstep tbl (Write w k) [Wrote w r] tbl' (k r)"
| p_ask: "pstep tbl (Ask q k) [] tbl (k x)"
| p_cred: "pstep tbl (AskCred t k) [] tbl (k c)"
| p_body: "pstep tbl (AskBody t k) [] tbl (k b)"
| p_acquire: "pstep tbl (Acquire c t a b k) [Acquired c t (sd_granted d)] tbl (k d)"
| p_http: "pstep tbl (Http t q c b k) [Called t q c b] tbl (k x)"
| p_fetch: "pstep tbl (Fetch u k) [Fetched u] tbl (k f)"
| p_send: "pstep tbl (Enqueue q n m k) [Sent q n m] tbl (k None)"
| p_saturated: "pstep tbl (Enqueue q n m k) [] tbl (k (Some e))"
| p_tell: "pstep tbl (Tell e p) [Told e] tbl p"
| p_seek: "pstep tbl (Seek f k) [] tbl (k (f tbl))"
| p_insert: "insert_task t tbl = Inr tbl' \<Longrightarrow> pstep tbl (Insert t k) [Inserted t] tbl' (k None)"
| p_conflict: "insert_task t tbl = Inl e \<Longrightarrow> pstep tbl (Insert t k) [] tbl (k (Some e))"
| p_draw: "pstep tbl (Draw k) [] tbl (k i)"
| p_stored: "pstep tbl (AskStored r k) [] tbl (k v)"
| p_admit: "pstep tbl (Admit c k) [] tbl (k d)"
| p_depth: "pstep tbl (Depth q k) [] tbl (k m)"
| p_presign: "pstep tbl (Presign r l k) [] tbl (k u)"
| p_event: "pstep tbl (NewEvent v k) [] tbl (k b)"

inductive_cases pstep_LoadE [elim]: "pstep tbl (Load t k) es tbl' p"
inductive_cases pstep_WriteE [elim]: "pstep tbl (Write w k) es tbl' p"
inductive_cases pstep_AskE [elim]: "pstep tbl (Ask q k) es tbl' p"
inductive_cases pstep_AskCredE [elim]: "pstep tbl (AskCred t k) es tbl' p"
inductive_cases pstep_AskBodyE [elim]: "pstep tbl (AskBody t k) es tbl' p"
inductive_cases pstep_AcquireE [elim]: "pstep tbl (Acquire c t a b k) es tbl' p"
inductive_cases pstep_HttpE [elim]: "pstep tbl (Http t q c b k) es tbl' p"
inductive_cases pstep_FetchE [elim]: "pstep tbl (Fetch u k) es tbl' p"
inductive_cases pstep_EnqueueE [elim]: "pstep tbl (Enqueue q n m k) es tbl' p"
inductive_cases pstep_TellE [elim]: "pstep tbl (Tell e k) es tbl' p"
inductive_cases pstep_SeekE [elim]: "pstep tbl (Seek f k) es tbl' p"
inductive_cases pstep_InsertE [elim]: "pstep tbl (Insert t k) es tbl' p"
inductive_cases pstep_DrawE [elim]: "pstep tbl (Draw k) es tbl' p"
inductive_cases pstep_AskStoredE [elim]: "pstep tbl (AskStored r k) es tbl' p"
inductive_cases pstep_AdmitE [elim]: "pstep tbl (Admit c k) es tbl' p"
inductive_cases pstep_DepthE [elim]: "pstep tbl (Depth q k) es tbl' p"
inductive_cases pstep_PresignE [elim]: "pstep tbl (Presign r l k) es tbl' p"
inductive_cases pstep_NewEventE [elim]: "pstep tbl (NewEvent v k) es tbl' p"
inductive_simps pstep_Done [simp]: "pstep tbl Done es tbl' p"
inductive_simps pstep_Fail [simp]: "pstep tbl (Fail e) es tbl' p"

subsection \<open>Steps of the system\<close>

text \<open>\<open>crashes\<close> says whether workers may die in the middle of a handler.\<close>

inductive step :: "direct_resolver \<Rightarrow> api \<Rightarrow> bool \<Rightarrow> gateway \<Rightarrow> gateway \<Rightarrow> bool" for D A crashes where
  s_deliver: "step D A crashes s (s\<lparr>gw_pool := gw_pool s @ [dispatch_message (ap_env A) name payload]\<rparr>)"
| s_serve: "step D A crashes s (s\<lparr>gw_pool := gw_pool s @ [serve D A c]\<rparr>)"
| s_accept: "insert_task t (gw_table s) = Inr tbl' \<Longrightarrow> step D A crashes s (s\<lparr>gw_table := tbl'\<rparr>)"
| s_outside: "write_ok w \<Longrightarrow> \<forall>t. w \<noteq> W_mark_submit_intent t \<Longrightarrow> exec_write now w (gw_table s) = (r, tbl') \<Longrightarrow>
    step D A crashes s (s\<lparr>gw_table := tbl', gw_trace := Wrote w r # gw_trace s\<rparr>)"
| s_run: "i < length (gw_pool s) \<Longrightarrow> pstep (gw_table s) (gw_pool s ! i) es tbl' p' \<Longrightarrow>
    step D A crashes s (s\<lparr>gw_table := tbl', gw_pool := (gw_pool s)[i := p'], gw_trace := es @ gw_trace s\<rparr>)"
| s_crash: "crashes \<Longrightarrow> i < length (gw_pool s) \<Longrightarrow>
    step D A crashes s (s\<lparr>gw_pool := (gw_pool s)[i := Done]\<rparr>)"

definition start :: "table \<Rightarrow> gateway" where
  "start tbl = \<lparr>gw_table = tbl, gw_pool = [], gw_trace = []\<rparr>"

definition reachable :: "direct_resolver \<Rightarrow> api \<Rightarrow> bool \<Rightarrow> table \<Rightarrow> gateway \<Rightarrow> bool" where
  "reachable D A crashes tbl s \<longleftrightarrow> (step D A crashes)\<^sup>*\<^sup>* (start tbl) s"

lemma reachable_induct [consumes 1, case_names start step]:
  assumes "reachable D A cr tbl s" and "P (start tbl)"
    and "\<And>s s'. reachable D A cr tbl s \<Longrightarrow> P s \<Longrightarrow> step D A cr s s' \<Longrightarrow> P s'"
  shows "P s"
  using assms(1) unfolding reachable_def
  by (induction rule: rtranclp_induct) (auto intro: assms(2) assms(3) simp: reachable_def)

subsection \<open>Every write in the pool is legal\<close>

lemma legal_dispatch: "prog_all legal (dispatch_message E name payload)"
proof (cases "ctx_task_id payload")
  case (Inl e)
  then show ?thesis using dispatch_without_task_id [OF Inl, of E name] by auto
next
  case (Inr tid)
  show ?thesis
    by (rule prog_all_mono [OF good_dispatch [OF Inr]]) (auto simp: legal_def split: act.splits)
qed

lemma pstep_legal: "pstep tbl p es tbl' p' \<Longrightarrow> prog_all legal p \<Longrightarrow> prog_all legal p'"
  by (induction rule: pstep.induct) (auto simp: loads_get_task)

text \<open>How one step changes the table.\<close>

lemma pstep_table:
  "pstep tbl p es tbl' p' \<Longrightarrow> prog_all legal p \<Longrightarrow>
     tbl' = tbl \<or> (\<exists>w now. write_ok w \<and> tbl' = snd (exec_write now w tbl)) \<or> (\<exists>t. insert_task t tbl = Inr tbl')"
  by (induction rule: pstep.induct) (auto simp: legal_def, metis snd_conv)

lemma serve_legal: "prog_all legal (serve D A c)"
  using civil_serve by (simp add: civil_def)

lemma pool_legal:
  "reachable D A cr tbl s \<Longrightarrow> list_all (prog_all legal) (gw_pool s)"
proof (induction rule: reachable_induct)
  case (step s s')
  from step(2,3) show ?case
    by (induction rule: step.induct)
      (auto simp: legal_dispatch serve_legal list_all_length nth_list_update nth_append less_Suc_eq intro: pstep_legal)
qed (simp add: start_def)

definition table_change :: "table \<Rightarrow> table \<Rightarrow> bool" where
  "table_change tbl tbl' \<longleftrightarrow> tbl' = tbl \<or> (\<exists>w now. write_ok w \<and> tbl' = snd (exec_write now w tbl))
     \<or> (\<exists>t. insert_task t tbl = Inr tbl')"

lemma step_table_change:
  assumes "step D A cr s s'" and "list_all (prog_all legal) (gw_pool s)"
  shows "table_change (gw_table s) (gw_table s')"
  using assms
proof (induction rule: step.induct)
  case (s_run i s es tbl' p')
  then have "prog_all legal (gw_pool s ! i)" by (simp add: list_all_length)
  with s_run pstep_table show ?case by (fastforce simp: table_change_def)
qed (auto simp: table_change_def, metis snd_conv)

lemma find_append_Some: "find P xs = Some x \<Longrightarrow> find P (xs @ ys) = Some x"
  by (induction xs) auto

lemma insert_get:
  "insert_task t tbl = Inr tbl' \<Longrightarrow> get_task tid tbl = Some r \<Longrightarrow> get_task tid tbl' = Some r"
  by (auto simp: insert_task_def get_task_def find_append_Some split: if_splits)

lemma table_change_get:
  assumes "table_change tbl tbl'" and "get_task tid tbl = Some r"
  shows "\<exists>r'. get_task tid tbl' = Some r' \<and> row_step r r'"
  using assms exec_write_get insert_get unfolding table_change_def
  by (metis row_step_refl)

lemma reachable_evolves:
  assumes "reachable D A cr tbl s" and "get_task tid tbl = Some r"
  shows "\<exists>r'. get_task tid (gw_table s) = Some r' \<and> can_transition\<^sup>*\<^sup>* (status r) (status r')
    \<and> identity_columns r' = identity_columns r \<and> row_version r \<le> row_version r'"
  using assms(1)
proof (induction rule: reachable_induct)
  case start
  then show ?case using assms(2) by (simp add: start_def)
next
  case (step s s')
  then obtain q where q: "get_task tid (gw_table s) = Some q" "can_transition\<^sup>*\<^sup>* (status r) (status q)"
    "identity_columns q = identity_columns r" "row_version r \<le> row_version q" by blast
  obtain r' where r': "get_task tid (gw_table s') = Some r'" "row_step q r'"
    using table_change_get [OF step_table_change [OF step(2) pool_legal [OF step(1)]] q(1)] by blast
  have "can_transition\<^sup>*\<^sup>* (status r) (status r')"
    by (rule rtranclp_trans [OF q(2) row_step_status [OF r'(2)]])
  then show ?case
    using r' q row_step_identity [OF r'(2)] row_step_version [OF r'(2)] by auto
qed

subsection \<open>Counting create requests\<close>

definition is_create :: "string \<Rightarrow> event \<Rightarrow> bool" where
  "is_create tid e \<longleftrightarrow> (case e of Called t q c b \<Rightarrow> t = tid \<and> c = CTX_SUBMIT | _ \<Rightarrow> False)"

definition is_win :: "string \<Rightarrow> event \<Rightarrow> bool" where
  "is_win tid e \<longleftrightarrow> e = Wrote (W_mark_submit_intent tid) (Inr True)"

definition is_release :: "string \<Rightarrow> event \<Rightarrow> bool" where
  "is_release tid e \<longleftrightarrow> (case e of Wrote w r \<Rightarrow> releases_intent tid w \<and> r = Inr True | _ \<Rightarrow> False)"

definition count_of :: "(event \<Rightarrow> bool) \<Rightarrow> event list \<Rightarrow> nat" where
  "count_of P es = length (filter P es)"

abbreviation creates :: "string \<Rightarrow> event list \<Rightarrow> nat" where
  "creates tid \<equiv> count_of (is_create tid)"

abbreviation wins :: "string \<Rightarrow> event list \<Rightarrow> nat" where
  "wins tid \<equiv> count_of (is_win tid)"

abbreviation releases :: "string \<Rightarrow> event list \<Rightarrow> nat" where
  "releases tid \<equiv> count_of (is_release tid)"

lemma count_of_append [simp]: "count_of P (es @ fs) = count_of P es + count_of P fs"
  by (simp add: count_of_def)

lemma count_of_simps [simp]:
  "count_of P [] = 0" "count_of P (e # es) = (if P e then Suc (count_of P es) else count_of P es)"
  by (simp_all add: count_of_def)

text \<open>Intents: every win but the one currently held has been given back.\<close>

definition held :: "string \<Rightarrow> table \<Rightarrow> bool" where
  "held tid tbl \<longleftrightarrow> (case get_task tid tbl of Some r \<Rightarrow> submit_started_at r \<noteq> None | None \<Rightarrow> False)"

lemma held_iff: "ids_ok tbl \<Longrightarrow> held tid tbl \<longleftrightarrow> get_task tid tbl \<noteq> None \<and> intent_held tid tbl"
  using get_task_unique get_task_in
  by (fastforce simp: held_def intent_held_def split: option.splits)

lemma exec_write_exists:
  "write_ok w \<Longrightarrow> get_task tid tbl \<noteq> None \<Longrightarrow> get_task tid (snd (exec_write now w tbl)) \<noteq> None"
  using exec_write_get by (metis option.distinct(1) option.exhaust)

lemma write_keeps_held:
  assumes "ids_ok tbl" and "write_ok w" and "\<not> releases_intent tid w" and "held tid tbl"
  shows "held tid (snd (exec_write now w tbl))"
proof -
  have "ids_ok (snd (exec_write now w tbl))"
    using assms(1) exec_write_ids [OF assms(2)] by simp
  then show ?thesis
    using assms exec_write_exists exec_write_intent_held by (simp add: held_iff)
qed

lemma win_takes:
  assumes "ids_ok tbl" and "exec_write now (W_mark_submit_intent tid) tbl = (Inr True, tbl')"
  shows "\<not> held tid tbl \<and> held tid tbl'"
proof
  have hit: "fst (mark_submit_intent now tid tbl)" and tbl': "tbl' = snd (mark_submit_intent now tid tbl)"
    using assms(2) by (auto simp: ok_def)
  then obtain r where r: "r \<in> set tbl" "task_id r = tid" "submit_started_at r = None"
    by (auto simp: mark_submit_intent_hit)
  then have g: "get_task tid tbl = Some r"
    using get_task_unique [OF assms(1)] by blast
  with r show "\<not> held tid tbl" by (simp add: held_def)
  have w: "write_ok (W_mark_submit_intent tid)" by simp
  have "snd (exec_write now (W_mark_submit_intent tid) tbl) = tbl'" using assms(2) by simp
  then have "ids_ok tbl'" and "get_task tid tbl' \<noteq> None"
    using exec_write_ids [OF w, of now tbl] exec_write_exists [OF w, of tid tbl now] assms(1) g by simp_all
  then show "held tid tbl'"
    using mark_submit_intent_held [OF assms(1) hit] by (simp add: held_iff tbl')
qed

lemma intent_miss_unchanged:
  assumes "exec_write now (W_mark_submit_intent tid) tbl = (r, tbl')" and "r \<noteq> Inr True"
  shows "tbl' = tbl"
proof -
  have "\<not> fst (mark_submit_intent now tid tbl)" and tbl': "tbl' = snd (mark_submit_intent now tid tbl)"
    using assms by (auto simp: ok_def)
  then have "\<forall>r \<in> set tbl. \<not> (task_id r = tid \<and> status r = ACCEPTED \<and> submit_started_at r = None)"
    by (auto simp: mark_submit_intent_hit)
  then show ?thesis
    unfolding tbl' mark_submit_intent_snd by (intro map_idI) auto
qed

lemma release_miss_unchanged:
  assumes "exec_write now w tbl = (r, tbl')" and "releases_intent tid w" and "r \<noteq> Inr True"
  shows "tbl' = tbl"
proof (cases w)
  case (W_release_submit_intent t e np dec code msg rt attrs dl)
  obtain vs where vs: "release_submit_intent now t e np dec code msg rt attrs dl tbl = cas now t e vs no_extra tbl"
    by (simp add: release_submit_intent_def)
  have "r = Inr (fst (cas now t e vs no_extra tbl))" "tbl' = snd (cas now t e vs no_extra tbl)"
    using assms(1) W_release_submit_intent by (auto simp: ok_def vs)
  with assms(3) show ?thesis by (auto intro: cas_miss)
next
  case (W_advance t dst e vs)
  show ?thesis
  proof (cases "tbl' = tbl")
    case False
    then obtain ss us where "r = Inr (fst (cas now t ss us no_extra tbl))" "tbl' = snd (cas now t ss us no_extra tbl)"
      using assms(1) W_advance by (auto simp: advance_def case_prod_beta prod_eq_iff Let_def split: option.splits)
    with assms(3) show ?thesis by (auto intro: cas_miss)
  qed
qed (use assms in simp_all)

definition held_count :: "string \<Rightarrow> table \<Rightarrow> nat" where
  "held_count tid tbl = (if held tid tbl then 1 else 0)"

lemma write_counts:
  assumes "ids_ok tbl" and "write_ok w" and "exec_write now w tbl = (r, tbl')"
  shows "wins tid [Wrote w r] + held_count tid tbl \<le> releases tid [Wrote w r] + held_count tid tbl'"
proof (cases "is_win tid (Wrote w r)")
  case True
  then show ?thesis
    using win_takes [OF assms(1)] assms(3) by (auto simp: is_win_def is_release_def held_count_def)
next
  case False
  show ?thesis
  proof (cases "releases_intent tid w")
    case True
    then show ?thesis
      using False release_miss_unchanged [OF assms(3) True] by (auto simp: is_release_def held_count_def)
  next
    case no_release: False
    then show ?thesis
      using False write_keeps_held [OF assms(1,2) no_release, of now] assms(3)
      by (auto simp: is_release_def held_count_def)
  qed
qed

lemma insert_ids:
  "insert_task t tbl = Inr tbl' \<Longrightarrow> ids_ok tbl \<Longrightarrow> ids_ok tbl'"
  by (auto simp: insert_task_def conflicts_def list_ex_iff split: if_splits)

lemma insert_held: "insert_task t tbl = Inr tbl' \<Longrightarrow> held_count tid tbl \<le> held_count tid tbl'"
  by (auto simp: held_count_def held_def dest: insert_get split: option.splits if_splits)

text \<open>
  The flag of a program says whether it has won the intent of \<open>tid\<close> and not yet sent the create
  request for it.
\<close>

definition armed_count :: "bool list \<Rightarrow> nat" where
  "armed_count flags = count_list flags True"

lemma armed_count_simps [simp]:
  "armed_count [] = 0" "armed_count (flags @ [b]) = armed_count flags + (if b then 1 else 0)"
  by (simp_all add: armed_count_def count_list_append)

lemma armed_count_update:
  "i < length flags \<Longrightarrow> armed_count (flags[i := b]) + (if flags ! i then 1 else 0)
     = armed_count flags + (if b then 1 else 0)"
proof (induction flags arbitrary: i)
  case (Cons f flags)
  then show ?case by (cases i) (force simp: armed_count_def split: if_splits)+
qed simp

definition intent_inv :: "string \<Rightarrow> gateway \<Rightarrow> bool list \<Rightarrow> bool" where
  "intent_inv tid s flags \<longleftrightarrow> ids_ok (gw_table s)
     \<and> list_all2 (guarded tid) flags (gw_pool s)
     \<and> creates tid (gw_trace s) + armed_count flags \<le> wins tid (gw_trace s)
     \<and> wins tid (gw_trace s) \<le> releases tid (gw_trace s) + held_count tid (gw_table s)"

text \<open>One action of a guarded program: what it adds to the counts and to its flag.\<close>

lemma pstep_guarded:
  assumes "pstep tbl p es tbl' p'" and "guarded tid b p" and "prog_all legal p" and "ids_ok tbl"
  shows "\<exists>b'. guarded tid b' p' \<and> ids_ok tbl'
    \<and> creates tid es + (if b' then 1 else 0) \<le> wins tid es + (if b then 1 else 0)
    \<and> wins tid es + held_count tid tbl \<le> releases tid es + held_count tid tbl'"
  using assms
proof (induction rule: pstep.induct)
  case (p_write now w tbl r tbl' k)
  then have w: "write_ok w" by (simp add: legal_def)
  have "ids_ok tbl'" using exec_write_ids [OF w, of now tbl] p_write(1,4) by simp
  moreover have "guarded tid (b \<or> w = W_mark_submit_intent tid \<and> r = Inr True) (k r)"
    using p_write(2) by simp
  ultimately show ?case
    using write_counts [OF p_write(4) w p_write(1), of tid]
    by (intro exI [of _ "b \<or> w = W_mark_submit_intent tid \<and> r = Inr True"])
      (auto simp: is_create_def is_win_def)
next
  case (p_http tbl t q c bearer k x)
  then show ?case
    by (intro exI [of _ "b \<and> \<not> (t = tid \<and> c = CTX_SUBMIT)"])
      (auto simp: is_create_def is_win_def is_release_def)
qed (auto simp: is_create_def is_win_def is_release_def loads_get_task insert_ids insert_held intro!: exI [of _ b])

lemma intent_inv_step:
  assumes "step D A cr s s'" and "intent_inv tid s flags" and "list_all (prog_all legal) (gw_pool s)"
  shows "\<exists>flags'. intent_inv tid s' flags'"
  using assms
proof (induction rule: step.induct)
  case (s_deliver s name payload)
  then show ?case
    by (intro exI [of _ "flags @ [False]"])
      (auto simp: intent_inv_def guarded_dispatch intro!: list_all2_appendI)
next
  case (s_serve s c)
  have "guarded tid False (serve D A c)" using civil_serve by (simp add: civil_def)
  with s_serve show ?case
    by (intro exI [of _ "flags @ [False]"]) (auto simp: intent_inv_def intro!: list_all2_appendI)
next
  case (s_accept t s tbl')
  then show ?case
    using insert_ids [OF s_accept(1)] insert_held [OF s_accept(1), of tid]
    by (intro exI [of _ flags]) (auto simp: intent_inv_def)
next
  case (s_outside w now s r tbl')
  then have ids: "ids_ok (gw_table s)" by (simp add: intent_inv_def)
  have "ids_ok tbl'" using exec_write_ids [OF s_outside(1), of now "gw_table s"] s_outside(3) ids by simp
  moreover have "\<not> is_win tid (Wrote w r)" and "\<not> is_create tid (Wrote w r)"
    using s_outside(2) by (auto simp: is_win_def is_create_def)
  ultimately show ?case
    using s_outside(4) write_counts [OF ids s_outside(1,3), of tid]
    by (intro exI [of _ flags]) (auto simp: intent_inv_def)
next
  case (s_run i s es tbl' p')
  then have len: "i < length flags" and g: "guarded tid (flags ! i) (gw_pool s ! i)"
    and l: "prog_all legal (gw_pool s ! i)" and ids: "ids_ok (gw_table s)"
    by (auto simp: intent_inv_def list_all2_conv_all_nth list_all_length)
  obtain b' where b': "guarded tid b' p'" "ids_ok tbl'"
    "creates tid es + (if b' then 1 else 0) \<le> wins tid es + (if flags ! i then 1 else 0)"
    "wins tid es + held_count tid (gw_table s) \<le> releases tid es + held_count tid tbl'"
    using pstep_guarded [OF s_run(2) g l ids] by blast
  have "list_all2 (guarded tid) (flags[i := b']) ((gw_pool s)[i := p'])"
    using s_run(3) b'(1) by (auto simp: intent_inv_def intro: list_all2_update_cong)
  then show ?case
    using s_run(3) b' armed_count_update [OF len, of b']
    by (intro exI [of _ "flags[i := b']"]) (auto simp: intent_inv_def)
next
  case (s_crash i s)
  then have len: "i < length flags" by (auto simp: intent_inv_def dest: list_all2_lengthD)
  have "list_all2 (guarded tid) (flags[i := False]) ((gw_pool s)[i := Done])"
    using s_crash(3) by (auto simp: intent_inv_def intro: list_all2_update_cong)
  then show ?case
    using s_crash(3) armed_count_update [OF len, of False]
    by (intro exI [of _ "flags[i := False]"]) (auto simp: intent_inv_def split: if_splits)
qed

lemma reachable_intent_inv:
  assumes "reachable D A cr tbl s" and "ids_ok tbl"
  shows "\<exists>flags. intent_inv tid s flags"
  using assms(1)
proof (induction rule: reachable_induct)
  case start
  then show ?case
    using assms(2) by (intro exI [of _ "[]"]) (simp add: intent_inv_def start_def)
next
  case (step s s')
  then show ?case using intent_inv_step pool_legal by blast
qed

subsection \<open>Counting slots\<close>

abbreviation granted :: "string \<Rightarrow> string \<Rightarrow> event list \<Rightarrow> nat" where
  "granted c t \<equiv> count_of (\<lambda>e. e = Acquired c t True)"

abbreviation released :: "string \<Rightarrow> string \<Rightarrow> event list \<Rightarrow> nat" where
  "released c t \<equiv> count_of (\<lambda>e. e = Told (E_release c t))"

definition finished :: "prog \<Rightarrow> bool" where
  "finished p \<longleftrightarrow> (case p of Done \<Rightarrow> True | Fail _ \<Rightarrow> True | _ \<Rightarrow> False)"

definition slot_inv :: "string \<Rightarrow> string \<Rightarrow> gateway \<Rightarrow> (string \<times> string) option list \<Rightarrow> bool" where
  "slot_inv c t s hs \<longleftrightarrow> list_all2 slots_ok hs (gw_pool s)
     \<and> granted c t (gw_trace s) = released c t (gw_trace s) + count_list hs (Some (c, t))"

lemma pstep_slots:
  assumes "pstep tbl p es tbl' p'" and "slots_ok h p"
  shows "\<exists>h'. slots_ok h' p'
    \<and> granted c t es + (if h = Some (c, t) then 1 else 0)
        = released c t es + (if h' = Some (c, t) then 1 else 0)"
  using assms
proof (induction rule: pstep.induct)
  case (p_acquire tbl c' t' a b k d)
  then show ?case
    by (intro exI [of _ "if sd_granted d then Some (c', t') else None"]) auto
next
  case (p_tell tbl e p)
  then show ?case by (cases e) auto
qed (auto simp: loads_get_task intro!: exI [of _ h])

lemma count_list_update:
  "i < length hs \<Longrightarrow> count_list (hs[i := h]) x + (if hs ! i = x then 1 else 0)
     = count_list hs x + (if h = x then 1 else 0)"
proof (induction hs arbitrary: i)
  case (Cons g hs)
  then show ?case by (cases i) (force split: if_splits)+
qed simp

lemma slot_inv_step:
  assumes "step D A False s s'" and "slot_inv c t s hs"
  shows "\<exists>hs'. slot_inv c t s' hs'"
  using assms
proof (induction rule: step.induct)
  case (s_deliver s name payload)
  then show ?case
    by (intro exI [of _ "hs @ [None]"])
      (auto simp: slot_inv_def slots_dispatch count_list_append intro!: list_all2_appendI)
next
  case (s_serve s c)
  have "slots_ok None (serve D A c)" using civil_serve by (simp add: civil_def)
  with s_serve show ?case
    by (intro exI [of _ "hs @ [None]"]) (auto simp: slot_inv_def count_list_append intro!: list_all2_appendI)
next
  case (s_run i s es tbl' p')
  then have len: "i < length hs" and g: "slots_ok (hs ! i) (gw_pool s ! i)"
    by (auto simp: slot_inv_def list_all2_conv_all_nth)
  obtain h' where h': "slots_ok h' p'" "granted c t es + (if hs ! i = Some (c, t) then 1 else 0)
        = released c t es + (if h' = Some (c, t) then 1 else 0)"
    using pstep_slots [OF s_run(2) g] by blast
  have "list_all2 slots_ok (hs[i := h']) ((gw_pool s)[i := p'])"
    using s_run(3) h'(1) by (auto simp: slot_inv_def intro: list_all2_update_cong)
  then show ?case
    using s_run(3) h'(2) count_list_update [OF len, of h' "Some (c, t)"]
    by (intro exI [of _ "hs[i := h']"]) (auto simp: slot_inv_def)
qed (auto simp: slot_inv_def)

lemma reachable_slot_inv: "reachable D A False tbl s \<Longrightarrow> \<exists>hs. slot_inv c t s hs"
proof (induction rule: reachable_induct)
  case start
  then show ?case by (intro exI [of _ "[]"]) (simp add: slot_inv_def start_def)
next
  case (step s s')
  then show ?case using slot_inv_step by blast
qed

lemma count_unfinished:
  "list_all2 slots_ok hs ps \<Longrightarrow> x \<noteq> None \<Longrightarrow> count_list hs x \<le> length (filter (\<lambda>p. \<not> finished p) ps)"
proof (induction rule: list_all2_induct)
  case (Cons h hs p ps)
  then show ?case by (cases p) (auto simp: finished_def)
qed simp

subsection \<open>Properties\<close>

text \<open>
  C1: No double submission, under every interleaving. From a table with distinct ids, whatever the
  workers do, with messages duplicated and reordered and workers killed anywhere, the number of create
  requests sent upstream for a task is at most one more than the number of times its submit intent
  was explicitly given back.
\<close>

theorem no_double_create:
  assumes "reachable D A crashes tbl s" and "distinct (List.map task_id tbl)"
  shows "creates tid (gw_trace s) \<le> 1 + releases tid (gw_trace s)"
proof -
  obtain flags where "intent_inv tid s flags"
    using reachable_intent_inv [OF assms] by blast
  then show ?thesis by (auto simp: intent_inv_def held_count_def split: if_splits)
qed

definition no_direct :: direct_resolver where
  "no_direct = (\<lambda>_ _ _. Inr None)"

definition sample_api :: api where
  "sample_api = \<lparr>ap_env = sample_env, ap_max_depth = 100, ap_auth = authenticator_of default_settings\<rparr>"

lemma ap_env_sample [simp]: "ap_env sample_api = sample_env"
  by (simp add: sample_api_def)

definition submit_message :: jobj where
  "submit_message = [(''task_id'', JStr ''a'')]"

definition two_deliveries :: gateway where
  "two_deliveries = (start [sample_task ''a'' ACCEPTED])\<lparr>gw_pool :=
     [dispatch_message sample_env ''submit_upstream'' submit_message,
      dispatch_message sample_env ''submit_upstream'' submit_message]\<rparr>"

lemma two_deliveries_reachable: "reachable no_direct sample_api cr [sample_task ''a'' ACCEPTED] two_deliveries"
proof -
  let ?s = "start [sample_task ''a'' ACCEPTED]"
  let ?p = "dispatch_message sample_env ''submit_upstream'' submit_message"
  have "step no_direct sample_api cr ?s (?s\<lparr>gw_pool := [?p]\<rparr>)"
    using s_deliver [of no_direct sample_api cr ?s] by (simp add: start_def)
  moreover have "step no_direct sample_api cr (?s\<lparr>gw_pool := [?p]\<rparr>) two_deliveries"
    using s_deliver [of no_direct sample_api cr "?s\<lparr>gw_pool := [?p]\<rparr>"] by (simp add: two_deliveries_def)
  ultimately show ?thesis by (simp add: reachable_def)
qed

theorem no_double_create_witness:
  "creates ''a'' (gw_trace two_deliveries) \<le> 1 + releases ''a'' (gw_trace two_deliveries)"
  by (rule no_double_create [OF two_deliveries_reachable [where cr = True]]) simp



text \<open>
  Concurrency slots are not leaked. As long as no worker is killed in the middle of a handler,
  the slots granted for a channel and tenant are those released plus at most one for each program
  still running; when every program has returned or raised, they are equal.
\<close>

theorem slots_balance:
  assumes "reachable D A False tbl s"
  shows "released c t (gw_trace s) \<le> granted c t (gw_trace s)
    \<and> granted c t (gw_trace s) \<le> released c t (gw_trace s) + length (filter (\<lambda>p. \<not> finished p) (gw_pool s))
    \<and> (list_all finished (gw_pool s) \<longrightarrow> granted c t (gw_trace s) = released c t (gw_trace s))"
proof -
  obtain hs where hs: "slot_inv c t s hs"
    using reachable_slot_inv [OF assms] by blast
  have "count_list hs (Some (c, t)) \<le> length (filter (\<lambda>p. \<not> finished p) (gw_pool s))"
    using hs count_unfinished by (auto simp: slot_inv_def)
  moreover have "list_all finished (gw_pool s) \<Longrightarrow> filter (\<lambda>p. \<not> finished p) (gw_pool s) = []"
    by (simp add: filter_empty_conv list_all_iff)
  ultimately show ?thesis using hs by (auto simp: slot_inv_def)
qed

theorem slots_balance_witness:
  "granted ''chan'' ''t'' (gw_trace two_deliveries) \<le> released ''chan'' ''t'' (gw_trace two_deliveries) + 2"
proof -
  have "length (filter (\<lambda>p. \<not> finished p) (gw_pool two_deliveries)) \<le> 2"
    by (simp add: two_deliveries_def)
  with slots_balance [OF two_deliveries_reachable] show ?thesis
    using le_trans add_left_mono by blast
qed

end
