(* ===== verification/ApiProps.thy ===== *)
theory ApiProps
  imports ApiFacts
begin

text \<open>
  What the API promises its callers: a repeated create is answered from the first one, a fresh create is in the database
  before its message is on the bus, other tenants' tasks look like missing ones, and a callback decides nothing where
  polling is the main source.
\<close>

subsection \<open>A callback next to polling\<close>

text \<open>A write that leaves every status as it is, whatever the table and the time.\<close>

fun keeps_status :: "dao_write \<Rightarrow> bool" where
  "keeps_status (W_schedule_next_poll _ _) = True"
| "keeps_status (W_record_poll_result _ _ _ _ _) = True"
| "keeps_status (W_write_attributes _ _) = True"
| "keeps_status _ = False"

lemma cas_keeps_status:
  assumes "\<not> has_col C_status vs"
  shows "List.map status (snd (cas now tid e vs extra tbl)) = List.map status tbl"
  using assign_all_status [of "IncRowVersion # SetUpdatedAt now # vs"] assms
  by (auto simp: cas_def update_rows_def has_col_def)

lemma keeps_status_sound: "keeps_status w \<Longrightarrow> List.map status (snd (exec_write now w tbl)) = List.map status tbl"
  by (cases w) (auto simp: ok_def schedule_next_poll_def record_poll_result_def write_attributes_def
      intro!: cas_keeps_status simp: has_col_def)

definition quiet :: "act \<Rightarrow> bool" where
  "quiet a \<longleftrightarrow> (case a of A_write w \<Rightarrow> keeps_status w | A_insert row \<Rightarrow> False | _ \<Rightarrow> True)"

lemma quiet_simps [simp]:
  "quiet (A_write w) = keeps_status w" "quiet (A_http t q x)" "quiet (A_send qn n m)" "quiet (A_tell e)"
  "quiet (A_acquire ch tn)" "\<not> quiet (A_insert row)"
  by (simp_all add: quiet_def)

lemma quiet_run: "prog_all quiet p \<Longrightarrow> List.map status (ro_table (run p ora n tbl)) = List.map status tbl"
proof (induction p arbitrary: n tbl)
  case (Write w k)
  then have "keeps_status w" by simp
  with Write keeps_status_sound show ?case by (auto split: prod.splits simp: prod_eq_iff)
qed (auto simp: loads_get_task split: option.splits)

lemma quiet_apply_callback:
  assumes "\<And>al v tv. registry_get (he_registry E) al (Some v) = Some tv \<Longrightarrow> rt_status_source (tv_resolved tv) = SRC_POLL"
  shows "prog_all quiet (apply_callback E tid payload raw)"
  using assms
  by (auto simp: apply_callback_def Let_def arbitrate_def note_attributes_def callback_audit_def split: option.splits)

lemma quiet_receive_callback:
  assumes "\<And>al v tv. registry_get (he_registry (ap_env A)) al (Some v) = Some tv \<Longrightarrow> rt_status_source (tv_resolved tv) = SRC_POLL"
  shows "prog_all quiet (receive_callback A token q)"
proof -
  have "prog_all quiet (fresh_callback (ap_env A) row chan uid raw payload)" for row chan uid raw payload
    using quiet_apply_callback [of "ap_env A", OF assms]
    by (auto simp: fresh_callback_def reply_def Let_def intro!: prog_all_after split: option.splits list.splits)
  then show ?thesis by (auto simp: receive_callback_def record_callback_def reply_def Let_def)
qed

subsection \<open>Tasks of others\<close>

text \<open>No row the caller may see answers to the identifier.\<close>

definition invisible :: "auth_context \<Rightarrow> string \<Rightarrow> table \<Rightarrow> bool" where
  "invisible a ident tbl \<longleftrightarrow> (case find_by_upstream_id (ac_channel a) ident tbl of
       Some t \<Rightarrow> tenant t \<noteq> ac_tenant a
     | None \<Rightarrow> (case get_task ident tbl of
          Some t \<Rightarrow> channel t \<noteq> ac_channel a \<or> tenant t \<noteq> ac_tenant a
        | None \<Rightarrow> True))"

definition not_found :: "table \<Rightarrow> outcome_of_run" where
  "not_found tbl = \<lparr>ro_exn = Some (HTTPException 404 ''task not found''), ro_table = tbl, ro_events = []\<rparr>"

lemma run_owned_invisible:
  assumes "ownership_check (he_settings E)" and "invisible a ident tbl"
  shows "run (owned_task E a ident k) ora n tbl = not_found tbl"
  using assms by (auto simp: owned_task_def find_task_def by_identifier_def invisible_def not_found_def assert_owned_def
      require_def split: option.splits)

subsection \<open>Running a create request\<close>

definition create_window :: "api \<Rightarrow> auth_context \<Rightarrow> template_version \<Rightarrow> int" where
  "create_window A a tv = py_int (strategy_get (strategy_for (he_setting_names (ap_env A)) (he_policies (ap_env A)) (ac_channel a)
      (tv_resolved tv)) ''idempotency_window_seconds'' 86400)"

definition create_key :: "api \<Rightarrow> auth_context \<Rightarrow> template_version \<Rightarrow> web_request \<Rightarrow> jobj \<Rightarrow> idempotency_key" where
  "create_key A a tv q body = resolve_key (he_lib (ap_env A)) (explicit_idempotency q) (ac_key_hash a) body (rt_normalize (tv_resolved tv))"

text \<open>The request gets past the accept quota and the depth limit.\<close>

definition admitted :: "api \<Rightarrow> auth_context \<Rightarrow> answers \<Rightarrow> nat \<Rightarrow> bool" where
  "admitted A a ora n \<longleftrightarrow> sd_granted (o_admit ora n (ac_channel a)) \<and> o_depth ora (Suc n) ''submit:default'' < ap_max_depth A"

definition response_ref_of :: "task \<Rightarrow> string" where
  "response_ref_of t = (case dict_get (attributes_of t) ''create_response_ref'' of
      Some (JStr (c # r)) \<Rightarrow> c # r | _ \<Rightarrow> response_key (tenant t) (task_id t))"

definition body_conflict :: "task \<Rightarrow> string \<Rightarrow> bool" where
  "body_conflict t digest \<longleftrightarrow> some_truthy (create_req_digest t) \<and> digest \<noteq> [] \<and> create_req_digest t \<noteq> Some digest"

lemma run_after_replay:
  "run (after_do on_accept_error (replay_or_conflict t digest (\<lambda>r. reply (ar_http_status r) (ar_body r) (ar_headers r)))) ora n tbl
   = \<lparr>ro_exn = None, ro_table = tbl, ro_events =
       [if body_conflict t digest
        then Told (E_reply 409 (JObj [(''detail'', JStr ''idempotency key reused with a different request body within the dedup window'')]) [])
        else (let r = replay_result t (o_stored ora n (response_ref_of t))
              in Told (E_reply (ar_http_status r) (ar_body r) (ar_headers r)))]\<rparr>"
  by (simp add: replay_or_conflict_def body_conflict_def response_ref_of_def on_accept_error_def reply_def retry_headers_def
      Let_def emit_def)

definition fresh_row :: "api \<Rightarrow> auth_context \<Rightarrow> template_version \<Rightarrow> web_request \<Rightarrow> jobj \<Rightarrow> origin \<Rightarrow> time \<Rightarrow> time
    \<Rightarrow> string \<Rightarrow> string option \<Rightarrow> task" where
  "fresh_row A a tv q body orig now1 now2 tid token =
     (let strat = strategy_for (he_setting_names (ap_env A)) (he_policies (ap_env A)) (ac_channel a) (tv_resolved tv)
      in accepted_row a tv strat (create_key A a tv q body) (window_bucket now1 (create_window A a tv)) (create_window A a tv)
           tid now2 (py_int (strategy_get strat ''deadline_seconds'' 1800)) token orig)"

definition accept_audit :: "auth_context \<Rightarrow> string \<Rightarrow> template_version \<Rightarrow> idempotency_key \<Rightarrow> origin \<Rightarrow> effect" where
  "accept_audit a tid tv idem orig = E_audit ''task.accepted'' ''task'' tid
     [(''alias'', JStr (rt_alias (tv_resolved tv))), (''version'', JInt (tv_version tv)), (''channel'', JStr (ac_channel a)),
      (''tenant'', JStr (ac_tenant a)), (''origin'', JStr (origin_value orig)), (''derived_key'', JBool (ik_derived idem)),
      (''auth_mode'', JStr (ac_mode a))]"

lemma accepted_row_id [simp]:
  "task_id (accepted_row a tv strat idem bucket window tid now dl token orig) = tid"
  "origin (accepted_row a tv strat idem bucket window tid now dl token orig) = orig"
  by (simp_all add: accepted_row_def new_task_def)

subsection \<open>A concrete caller\<close>

definition sample_auth :: auth_context where
  "sample_auth = \<lparr>ac_channel = ''chan'', ac_tenant = ''t'', ac_bearer = Some ''sk'', ac_key_hash = ''h'', ac_actor = ''key:h'',
     ac_mode = ''passthrough''\<rparr>"

definition queued_api :: api where
  "queued_api = \<lparr>ap_env = sample_env\<lparr>he_settings := default_settings\<lparr>submit_mode := MODE_QUEUED, ownership_check := True\<rparr>\<rparr>,
     ap_max_depth = 100, ap_auth = authenticator_of default_settings\<rparr>"

definition sample_request :: web_request where
  "sample_request = \<lparr>wr_method = ''POST'', wr_headers = [], wr_raw = ''{}'', wr_json = Some (JObj [])\<rparr>"

definition sample_answers :: answers where
  "sample_answers = \<lparr>o_time = (\<lambda>_. 1000), o_ask = (\<lambda>_ _. 0), o_cred = (\<lambda>_ _. None), o_body = (\<lambda>_ _. Inr []),
     o_slot = (\<lambda>_. slot_granted), o_http = (\<lambda>_ _. Inl AssertionError), o_fetch = (\<lambda>_ _. Inl AssertionError), o_bus = (\<lambda>_. None),
     o_draw = (\<lambda>_. ''0123''), o_stored = (\<lambda>_ _. None), o_admit = (\<lambda>_ _. slot_granted), o_depth = (\<lambda>_ _. 0),
     o_presign = (\<lambda>_ _. None), o_event = (\<lambda>_ _. True)\<rparr>"

lemma sample_admitted: "admitted queued_api sample_auth sample_answers 0"
  by (simp add: admitted_def queued_api_def sample_answers_def slot_granted_def)

lemma sample_request_ok: "request_body sample_request = Inr []" "request_origin sample_request = Inr ORIGIN_USER"
  by (simp_all add: request_body_def request_origin_def sample_request_def header_or_def or_str_def strip_def lstrip_def rstrip_def lower_def)

abbreviation sample_row :: task where
  "sample_row \<equiv> fresh_row queued_api sample_auth sample_version sample_request [] ORIGIN_USER 1000 1000 ''0123'' None"

lemma sample_row_found:
  "find_by_idempotency (ik_key (create_key queued_api sample_auth sample_version sample_request []))
     (window_bucket 1000 (create_window queued_api sample_auth sample_version)) [sample_row] = Some sample_row"
  by (simp add: find_by_idempotency_def fresh_row_def accepted_row_def new_task_def Let_def)

subsection \<open>Properties\<close>

text \<open>
  C5: A repeated create is answered from the first one. When a row with the request's idempotency key exists in the
  current window, the request changes nothing - no row, no upstream call, no message - and the one thing that happens is
  the reply: \<open>409\<close> when the body differs from the first one's, otherwise the first one's archived response, or its task id
  with \<open>202\<close> while that is pending.
\<close>

theorem repeated_create_replayed:
  assumes "request_body q = Inr body" and "request_origin q = Inr orig" and "admitted A a ora n"
    and "find_by_idempotency (ik_key (create_key A a tv q body)) (window_bucket (o_time ora (n + 2)) (create_window A a tv)) tbl = Some t"
  shows "run (handle_create A a tv q) ora n tbl = \<lparr>ro_exn = None, ro_table = tbl, ro_events =
     [if body_conflict t (ik_body_digest (create_key A a tv q body))
      then Told (E_reply 409 (JObj [(''detail'', JStr ''idempotency key reused with a different request body within the dedup window'')]) [])
      else (let r = replay_result t (o_stored ora (n + 4) (response_ref_of t))
            in Told (E_reply (ar_http_status r) (ar_body r) (ar_headers r)))]\<rparr>"
  using assms(3,4) unfolding handle_create_def assms(1,2)
  by (simp add: require_def accept_create_def admitted_def create_key_def create_window_def ask_now_def
      Let_def run_after_replay not_le eval_nat_numeral)

theorem repeated_create_replayed_witness:
  "ro_table (run (handle_create queued_api sample_auth sample_version sample_request) sample_answers 0 [sample_row]) = [sample_row]
   \<and> ro_events (run (handle_create queued_api sample_auth sample_version sample_request) sample_answers 0 [sample_row]) =
     [Told (E_reply 202 (JObj [(''id'', JStr ''0123''), (''task_id'', JStr ''0123''), (''status'', JStr ''accepted'')])
        [(''X-AG-Task-Id'', ''0123''), (''X-AG-Idempotent-Replay'', ''1'')])]"
proof -
  have "find_by_idempotency (ik_key (create_key queued_api sample_auth sample_version sample_request []))
      (window_bucket (o_time sample_answers (0 + 2)) (create_window queued_api sample_auth sample_version)) [sample_row] = Some sample_row"
    using sample_row_found by (simp add: sample_answers_def)
  from repeated_create_replayed [OF sample_request_ok sample_admitted this] show ?thesis
    by (simp add: body_conflict_def fresh_row_def accepted_row_def new_task_def Let_def replay_result_def sample_answers_def)
qed



text \<open>
  C23: Tasks of others look like missing ones. With the ownership check on, querying or cancelling an identifier that no row
  of the caller's channel and tenant answers to ends in the same \<open>404\<close>, changes nothing and shows nothing,
  whether such a row exists for somebody else or not.
\<close>

theorem foreign_tasks_look_missing:
  assumes "ownership_check (he_settings E)" and "invisible a ident tbl"
  shows "run (handle_query E a tv ident q) ora n tbl = not_found tbl \<and> run (handle_cancel E a tv ident) ora n tbl = not_found tbl"
  by (simp add: handle_query_def handle_cancel_def Let_def run_owned_invisible [OF assms])

theorem foreign_tasks_look_missing_witness:
  "run (handle_query (ap_env queued_api) (sample_auth\<lparr>ac_tenant := ''other''\<rparr>) sample_version ''0123'' sample_request) sample_answers 0 [sample_row]
     = not_found [sample_row]"
proof -
  have "invisible (sample_auth\<lparr>ac_tenant := ''other''\<rparr>) ''0123'' [sample_row]"
    by (simp add: invisible_def find_by_upstream_id_def get_task_def fresh_row_def accepted_row_def new_task_def Let_def sample_auth_def)
  then show ?thesis
    using foreign_tasks_look_missing [of "ap_env queued_api"] by (simp add: queued_api_def)
qed



end
