(* ===== verification/System.thy ===== *)
theory System
  imports Interleave ApiProps "HOL-Library.Multiset"
begin

text \<open>
  The gateway as a whole: its programs always come to an end and then hold no slot, and what its clients see of it is a
  ledger in which an outcome, once entered, stays.
\<close>

subsection \<open>Running what has been started\<close>

text \<open>One action of one program of the pool, and nothing else.\<close>

definition run_only :: "gateway \<Rightarrow> gateway \<Rightarrow> bool" where
  "run_only s s' \<longleftrightarrow> (\<exists>i es tbl' p'. i < length (gw_pool s) \<and> pstep (gw_table s) (gw_pool s ! i) es tbl' p'
     \<and> s' = s\<lparr>gw_table := tbl', gw_pool := (gw_pool s)[i := p'], gw_trace := es @ gw_trace s\<rparr>)"

definition after_step :: "(prog \<times> prog) set" where
  "after_step = {(p', p). \<exists>tbl es tbl'. pstep tbl p es tbl' p'}"

lemma after_step_acc: "p \<in> Wellfounded.acc after_step"
  by (induction p; rule accI) (auto simp: after_step_def)

lemma wf_after_step: "wf after_step"
  by (rule acc_wfI) (simp add: after_step_acc)

lemma run_only_mult1:
  assumes "run_only s s'"
  shows "(mset (gw_pool s'), mset (gw_pool s)) \<in> mult1 after_step"
proof -
  obtain i es tbl' p' where i: "i < length (gw_pool s)" "pstep (gw_table s) (gw_pool s ! i) es tbl' p'"
    and s': "gw_pool s' = (gw_pool s)[i := p']"
    using assms by (auto simp: run_only_def)
  let ?M = "mset (gw_pool s) - {#gw_pool s ! i#}"
  have "mset (gw_pool s) = add_mset (gw_pool s ! i) ?M" using i(1) by (simp add: nth_mem_mset)
  moreover have "mset (gw_pool s') = ?M + {#p'#}" using i(1) by (simp add: s' mset_update)
  ultimately show ?thesis using i(2) by (auto simp: mult1_def after_step_def intro!: exI)
qed

lemma wf_run_only: "wf {(s', s). run_only s s'}"
proof (rule wf_subset)
  show "wf (inv_image (mult1 after_step) (\<lambda>s. mset (gw_pool s)))"
    by (rule wf_inv_image [OF wf_mult1 [OF wf_after_step]])
  show "{(s', s). run_only s s'} \<subseteq> inv_image (mult1 after_step) (\<lambda>s. mset (gw_pool s))"
    using run_only_mult1 by auto
qed

lemma pstep_progress: "\<not> finished p \<Longrightarrow> \<exists>es tbl' p'. pstep tbl p es tbl' p'"
proof (cases p)
  case (Write w k)
  obtain r tbl' where "exec_write 0 w tbl = (r, tbl')" by (cases "exec_write 0 w tbl")
  then show ?thesis unfolding Write by (blast intro: p_write)
next
  case (Insert t k)
  then show ?thesis by (cases "insert_task t tbl") (auto intro: p_insert p_conflict)
qed (auto simp: finished_def intro: pstep.intros)

lemma finished_no_step: "finished p \<Longrightarrow> \<not> pstep tbl p es tbl' p'"
  by (cases p) (auto simp: finished_def)

lemma run_only_stuck: "(\<nexists>s'. run_only s s') \<longleftrightarrow> list_all finished (gw_pool s)"
proof
  assume stuck: "\<nexists>s'. run_only s s'"
  show "list_all finished (gw_pool s)" unfolding list_all_length
  proof (intro allI impI, rule ccontr)
    fix i assume "i < length (gw_pool s)" "\<not> finished (gw_pool s ! i)"
    with pstep_progress [of "gw_pool s ! i" "gw_table s"] stuck show False unfolding run_only_def by blast
  qed
next
  assume "list_all finished (gw_pool s)"
  then show "\<nexists>s'. run_only s s'" using finished_no_step by (auto simp: run_only_def list_all_length)
qed

lemma run_only_step: "run_only s s' \<Longrightarrow> step D A cr s s'"
  by (auto simp: run_only_def intro: s_run)

lemma drains: "\<exists>s'. run_only\<^sup>*\<^sup>* s s' \<and> list_all finished (gw_pool s')"
proof (induction s rule: wf_induct_rule [OF wf_run_only])
  case (1 s)
  show ?case
  proof (cases "list_all finished (gw_pool s)")
    case False
    then obtain s1 where "run_only s s1" using run_only_stuck by blast
    with 1 show ?thesis by (blast intro: converse_rtranclp_into_rtranclp)
  qed blast
qed

lemma run_only_reachable: "run_only\<^sup>*\<^sup>* s s' \<Longrightarrow> reachable D A cr tbl s \<Longrightarrow> reachable D A cr tbl s'"
  by (induction rule: rtranclp_induct) (auto simp: reachable_def dest: run_only_step intro: rtranclp.rtrancl_into_rtrancl)

subsection \<open>The ledger\<close>

text \<open>
  The abstract specification: for each task id nothing, an open entry, or an entry settled with the outcome that is shown.
  Entries are opened (possibly settled at once, for a replayed row) and settled, one at a time, and never removed or changed.
\<close>

datatype entry = Open | Settled output_terminal

type_synonym ledger = "string \<Rightarrow> entry option"

inductive ledger_step :: "ledger \<Rightarrow> ledger \<Rightarrow> bool" where
  l_new: "l tid = None \<Longrightarrow> ledger_step l (l(tid \<mapsto> x))"
| l_settle: "l tid = Some Open \<Longrightarrow> ledger_step l (l(tid \<mapsto> Settled v))"

definition entry_of :: "task \<Rightarrow> entry" where
  "entry_of t = (if is_business_terminal (status t) then Settled (output_terminal (status t)) else Open)"

definition ledger_of :: "table \<Rightarrow> ledger" where
  "ledger_of tbl = (\<lambda>tid. map_option entry_of (get_task tid tbl))"

lemma entry_settled: "entry_of t = Settled v \<Longrightarrow> is_business_terminal (status t) \<and> v = output_terminal (status t)"
  by (auto simp: entry_of_def split: if_splits)

lemma row_step_entry:
  assumes "row_step r r'"
  shows "entry_of r' = entry_of r \<or> (\<exists>v. entry_of r = Open \<and> entry_of r' = Settled v)"
proof (cases "is_business_terminal (status r)")
  case True
  with row_step_status [OF assms] have "is_business_terminal (status r')" "output_terminal (status r') = output_terminal (status r)"
    using output_of_evolved evolves_from_terminal by (fastforce simp: gw_defs)+
  with True show ?thesis by (simp add: entry_of_def)
qed (simp add: entry_of_def)

text \<open>A write touches one row, so one entry.\<close>

lemma write_ledger:
  assumes "write_ok w"
  shows "ledger_step\<^sup>=\<^sup>= (ledger_of tbl) (ledger_of (snd (exec_write now w tbl)))"
proof -
  let ?t = "write_target w" and ?tbl' = "snd (exec_write now w tbl)"
  have other: "get_task tid ?tbl' = get_task tid tbl" if "tid \<noteq> ?t \<or> get_task tid tbl = None" for tid
  proof (cases "get_task tid tbl")
    case None
    then have "tid \<notin> set (List.map task_id tbl)" by (auto simp: get_task_def find_None_iff)
    then have "tid \<notin> set (List.map task_id ?tbl')" using exec_write_ids [OF assms] by simp
    then have "get_task tid ?tbl' = None" by (auto simp: get_task_def find_None_iff)
    with None show ?thesis by simp
  next
    case (Some r)
    with that exec_write_get [OF assms Some, of now] show ?thesis by auto
  qed
  show ?thesis
  proof (cases "get_task ?t tbl")
    case None
    then have "get_task tid ?tbl' = get_task tid tbl" for tid using other [of tid] by (cases "tid = ?t") simp_all
    then show ?thesis by (simp add: ledger_of_def)
  next
    case (Some r)
    then obtain r' where r': "get_task ?t ?tbl' = Some r'" "row_step r r'"
      using exec_write_get [OF assms Some, of now] by auto
    have upd: "ledger_of ?tbl' = (ledger_of tbl)(?t \<mapsto> entry_of r')"
      using other r'(1) by (auto simp: ledger_of_def fun_eq_iff)
    show ?thesis
    proof (cases "entry_of r' = entry_of r")
      case True
      then have "ledger_of ?tbl' = ledger_of tbl" using upd Some by (auto simp: ledger_of_def fun_eq_iff)
      then show ?thesis by simp
    next
      case False
      then obtain v where "entry_of r = Open" "entry_of r' = Settled v" using row_step_entry [OF r'(2)] by blast
      then show ?thesis using upd Some by (auto simp: ledger_of_def intro!: l_settle)
    qed
  qed
qed

lemma insert_ledger:
  assumes "insert_task t tbl = Inr tbl'"
  shows "ledger_step (ledger_of tbl) (ledger_of tbl')"
proof -
  have new: "get_task (task_id t) tbl = None" and tbl': "tbl' = tbl @ [t]"
    using assms by (auto simp: insert_task_def get_task_def find_None_iff conflicts_def list_ex_iff split: if_splits)
  have "get_task tid tbl' = (if tid = task_id t then Some t else get_task tid tbl)" for tid
  proof (cases "get_task tid tbl")
    case None
    then have "\<forall>r \<in> set tbl. task_id r \<noteq> tid" by (auto simp: get_task_def find_None_iff)
    then have "find (\<lambda>r. task_id r = tid) (tbl @ [t]) = find (\<lambda>r. task_id r = tid) [t]"
      by (induction tbl) auto
    with None show ?thesis by (auto simp: get_task_def tbl')
  next
    case (Some r)
    with new have "tid \<noteq> task_id t" by auto
    with Some show ?thesis using insert_get [OF assms] by simp
  qed
  then have "ledger_of tbl' = (ledger_of tbl)(task_id t \<mapsto> entry_of t)" by (auto simp: ledger_of_def fun_eq_iff)
  with new show ?thesis by (auto simp: ledger_of_def intro: l_new)
qed

lemma table_change_ledger: "table_change tbl tbl' \<Longrightarrow> ledger_step\<^sup>=\<^sup>= (ledger_of tbl) (ledger_of tbl')"
  using write_ledger insert_ledger by (auto simp: table_change_def)

lemma reachable_ledger:
  assumes "reachable D A cr tbl s"
  shows "ledger_step\<^sup>*\<^sup>* (ledger_of tbl) (ledger_of (gw_table s))"
  using assms
proof (induction rule: reachable_induct)
  case (step s s')
  have "ledger_step\<^sup>=\<^sup>= (ledger_of (gw_table s)) (ledger_of (gw_table s'))"
    by (rule table_change_ledger [OF step_table_change [OF step(2) pool_legal [OF step(1)]]])
  with step(3) show ?case by (auto intro: rtranclp.rtrancl_into_rtrancl)
qed (simp add: start_def)

lemma ledger_settled: "ledger_step\<^sup>*\<^sup>* l l' \<Longrightarrow> l tid = Some (Settled v) \<Longrightarrow> l' tid = Some (Settled v)"
  by (induction rule: rtranclp_induct) (auto elim!: ledger_step.cases)

subsection \<open>Properties\<close>

text \<open>
  C2: The gateway implements the ledger. Every step of the system - one action of a handler or of a request, a delivery, an
  insertion, a write from outside, a crash - is one step of the ledger or none, so every reachable state shows a
  ledger that the specification can reach, and an outcome that was entered is still there.
\<close>

theorem gateway_refines_ledger:
  assumes "reachable D A crashes tbl s"
  shows "(step D A crashes s s' \<longrightarrow> ledger_step\<^sup>=\<^sup>= (ledger_of (gw_table s)) (ledger_of (gw_table s')))
    \<and> ledger_step\<^sup>*\<^sup>* (ledger_of tbl) (ledger_of (gw_table s))
    \<and> (ledger_of tbl tid = Some (Settled v) \<longrightarrow> ledger_of (gw_table s) tid = Some (Settled v))"
  using table_change_ledger [OF step_table_change [OF _ pool_legal [OF assms]]] reachable_ledger [OF assms]
    ledger_settled [OF reachable_ledger [OF assms]] by blast

theorem gateway_refines_ledger_witness:
  "ledger_step\<^sup>*\<^sup>* (ledger_of [sample_task ''a'' ACCEPTED]) (ledger_of (gw_table two_deliveries))"
  using gateway_refines_ledger [OF two_deliveries_reachable [where cr = True]] by blast


text \<open>
  C17: A gateway that is left alone comes to rest without a slot. From every state that is reachable without crashes the started
  programs can be run to the end, and then every slot that was ever granted has been released.
\<close>

theorem slots_return_at_rest:
  assumes "reachable D A False tbl s"
  shows "\<exists>s'. run_only\<^sup>*\<^sup>* s s' \<and> list_all finished (gw_pool s')
    \<and> (\<forall>c t. granted c t (gw_trace s') = released c t (gw_trace s'))"
proof -
  obtain s' where s': "run_only\<^sup>*\<^sup>* s s'" "list_all finished (gw_pool s')" using drains by blast
  have "granted c t (gw_trace s') = released c t (gw_trace s')" for c t
  proof -
    obtain hs where hs: "slot_inv c t s' hs"
      using reachable_slot_inv [OF run_only_reachable [OF s'(1) assms]] by blast
    have "filter (\<lambda>p. \<not> finished p) (gw_pool s') = []" using s'(2) by (simp add: filter_empty_conv list_all_iff)
    then show ?thesis using hs count_unfinished [of hs "gw_pool s'" "Some (c, t)"] by (simp add: slot_inv_def)
  qed
  with s' show ?thesis by blast
qed

theorem slots_return_at_rest_witness:
  "\<exists>s'. run_only\<^sup>*\<^sup>* two_deliveries s' \<and> granted ''chan'' ''t'' (gw_trace s') = released ''chan'' ''t'' (gw_trace s')"
  using slots_return_at_rest [OF two_deliveries_reachable] by blast

end
