(* ===== verification/Bus.thy ===== *)
theory Bus
  imports Loads
begin

text \<open>
  \<open>bus/base.py\<close>, \<open>bus/memory.py\<close> and \<open>bus/stream.py\<close>: messages, the in-process broker and the broker over
  Redis Streams. The stream commands of Redis are a parameter whose documented behaviour is \<open>stream_laws\<close>;
  \<open>datetime.fromisoformat\<close> and the printing of floats (\<open>canon\<close>, see \<open>Loads\<close>) are parameters of \<open>decode\<close>.
\<close>

record message =
  mg_name :: string
  mg_payload :: jobj
  mg_id :: string
  mg_enqueued_at :: time
  mg_deliveries :: int

definition message_task_id :: "message \<Rightarrow> string option" where
  "message_task_id m = (case dict_get (mg_payload m) ''task_id'' of
       None \<Rightarrow> None
     | Some JNull \<Rightarrow> None
     | Some v \<Rightarrow> Some (py_str v))"

definition encode :: "pylib \<Rightarrow> message \<Rightarrow> string dict" where
  "encode L m = [(''name'', mg_name m), (''payload'', dumps False False (JObj (mg_payload m))),
     (''enqueued_at'', lib_isoformat L (mg_enqueued_at m))]"

definition text_or :: "string option \<Rightarrow> string \<Rightarrow> string" where
  "text_or x d = (case x of Some (c # s) \<Rightarrow> c # s | _ \<Rightarrow> d)"

definition decode :: "(string \<Rightarrow> string) \<Rightarrow> (string \<Rightarrow> time option) \<Rightarrow> time \<Rightarrow> string \<Rightarrow> string dict \<Rightarrow> string
    \<Rightarrow> message res" where
  "decode canon fromiso now name raw message_id =
     bind_res (json_loads canon (text_or (dict_get raw ''payload'') ''{}'')) (\<lambda>v. case v of
         JObj payload \<Rightarrow> Inr \<lparr>mg_name = name, mg_payload = payload, mg_id = message_id,
           mg_enqueued_at = (case fromiso (text_or (dict_get raw ''enqueued_at'') []) of Some t \<Rightarrow> t | None \<Rightarrow> now),
           mg_deliveries = 1\<rparr>
       | _ \<Rightarrow> Inl (TypeError ''payload''))"

subsection \<open>The in-process broker\<close>

record mem_bus =
  mb_max_depth :: int
  mb_queues :: "message list dict"
  mb_dlq :: "(message \<times> string) list dict"
  mb_acked :: "string list"
  mb_counter :: nat

definition new_bus :: "int \<Rightarrow> mem_bus" where
  "new_bus depth = \<lparr>mb_max_depth = depth, mb_queues = [], mb_dlq = [], mb_acked = [], mb_counter = 0\<rparr>"

definition queued :: "mem_bus \<Rightarrow> string \<Rightarrow> message list" where
  "queued b q = (case dict_get (mb_queues b) q of None \<Rightarrow> [] | Some ms \<Rightarrow> ms)"

definition mem_ensure_queue :: "string \<Rightarrow> mem_bus \<Rightarrow> mem_bus" where
  "mem_ensure_queue q b = b\<lparr>mb_queues := dict_set q (queued b q) (mb_queues b)\<rparr>"

definition mem_depth :: "mem_bus \<Rightarrow> string \<Rightarrow> int" where
  "mem_depth b q = int (length (queued b q))"

definition mem_enqueue :: "time \<Rightarrow> string \<Rightarrow> string \<Rightarrow> jobj \<Rightarrow> mem_bus \<Rightarrow> string res \<times> mem_bus" where
  "mem_enqueue now q name payload b0 =
     (let b = mem_ensure_queue q b0 in
      if mem_depth b q \<ge> mb_max_depth b then (Inl (QueueSaturated q (mem_depth b q) (mb_max_depth b)), b)
      else (let n = mb_counter b + 1;
                m = \<lparr>mg_name = name, mg_payload = payload, mg_id = ''mem-'' @ show_nat n, mg_enqueued_at = now,
                     mg_deliveries = 1\<rparr>
            in (Inr (mg_id m), b\<lparr>mb_counter := n, mb_queues := dict_set q (queued b q @ [m]) (mb_queues b)\<rparr>)))"

text \<open>\<open>consume\<close> when nothing arrives while it waits: the first message is taken whatever \<open>count\<close> is.\<close>

definition mem_consume :: "string \<Rightarrow> nat \<Rightarrow> mem_bus \<Rightarrow> message list \<times> mem_bus" where
  "mem_consume q count b0 =
     (let b = mem_ensure_queue q b0; n = max 1 count in
      (take n (queued b q), b\<lparr>mb_queues := dict_set q (drop n (queued b q)) (mb_queues b)\<rparr>))"

definition mem_ack :: "string \<Rightarrow> string \<Rightarrow> mem_bus \<Rightarrow> mem_bus" where
  "mem_ack q message_id b = b\<lparr>mb_acked := mb_acked b @ [message_id]\<rparr>"

definition mem_dead_letter :: "string \<Rightarrow> message \<Rightarrow> string \<Rightarrow> mem_bus \<Rightarrow> mem_bus" where
  "mem_dead_letter q m reason b =
     b\<lparr>mb_dlq := dict_set q ((case dict_get (mb_dlq b) q of None \<Rightarrow> [] | Some ms \<Rightarrow> ms) @ [(m, reason)]) (mb_dlq b)\<rparr>"

definition mem_pending :: "mem_bus \<Rightarrow> string \<Rightarrow> int" where
  "mem_pending b q = 0"

definition mem_drain :: "string \<Rightarrow> mem_bus \<Rightarrow> nat \<times> mem_bus" where
  "mem_drain q b0 = (let b = mem_ensure_queue q b0 in
     (length (queued b q), b\<lparr>mb_queues := dict_set q [] (mb_queues b)\<rparr>))"

subsection \<open>The broker over Redis Streams\<close>

record stream_conf =
  st_prefix :: string
  st_group :: string
  st_max_depth :: int

definition stream_name :: "stream_conf \<Rightarrow> string \<Rightarrow> string" where
  "stream_name c q = st_prefix c @ q"

definition dlq_name :: "stream_conf \<Rightarrow> string \<Rightarrow> string" where
  "dlq_name c q = st_prefix c @ ''dlq:'' @ q"

record 's stream_cmds =
  x_len :: "'s \<Rightarrow> string \<Rightarrow> int"
  x_add :: "string \<Rightarrow> string dict \<Rightarrow> int \<Rightarrow> 's \<Rightarrow> string \<times> 's"
  x_group :: "string \<Rightarrow> string \<Rightarrow> 's \<Rightarrow> 's"
  x_read :: "string \<Rightarrow> string \<Rightarrow> string \<Rightarrow> nat \<Rightarrow> 's \<Rightarrow> (string \<times> string dict) list \<times> 's"
  x_ack :: "string \<Rightarrow> string \<Rightarrow> string \<Rightarrow> 's \<Rightarrow> 's"

definition stream_ensure_queue :: "'s stream_cmds \<Rightarrow> stream_conf \<Rightarrow> string \<Rightarrow> 's \<Rightarrow> 's" where
  "stream_ensure_queue X c q s = x_group X (stream_name c q) (st_group c) s"

definition stream_depth :: "'s stream_cmds \<Rightarrow> stream_conf \<Rightarrow> 's \<Rightarrow> string \<Rightarrow> int" where
  "stream_depth X c s q = x_len X s (stream_name c q)"

definition stream_enqueue :: "'s stream_cmds \<Rightarrow> stream_conf \<Rightarrow> pylib \<Rightarrow> time \<Rightarrow> string \<Rightarrow> string \<Rightarrow> jobj \<Rightarrow> 's
    \<Rightarrow> string res \<times> 's" where
  "stream_enqueue X c L now q name payload s =
     (let depth = stream_depth X c s q in
      if depth \<ge> st_max_depth c then (Inl (QueueSaturated q depth (st_max_depth c)), s)
      else (let m = \<lparr>mg_name = name, mg_payload = payload, mg_id = [], mg_enqueued_at = now, mg_deliveries = 1\<rparr>
            in case x_add X (stream_name c q) (encode L m) (st_max_depth c * 2) (stream_ensure_queue X c q s) of
                 (i, s') \<Rightarrow> (Inr i, s')))"

fun decode_all :: "(string \<Rightarrow> string) \<Rightarrow> (string \<Rightarrow> time option) \<Rightarrow> time \<Rightarrow> (string \<times> string dict) list
    \<Rightarrow> message list res" where
  "decode_all canon fromiso now [] = Inr []"
| "decode_all canon fromiso now ((i, raw) # es) =
     bind_res (decode canon fromiso now (case dict_get raw ''name'' of None \<Rightarrow> [] | Some n \<Rightarrow> n) raw i)
       (\<lambda>m. bind_res (decode_all canon fromiso now es) (\<lambda>ms. Inr (m # ms)))"

definition stream_consume :: "'s stream_cmds \<Rightarrow> stream_conf \<Rightarrow> (string \<Rightarrow> string) \<Rightarrow> (string \<Rightarrow> time option)
    \<Rightarrow> time \<Rightarrow> string \<Rightarrow> string \<Rightarrow> nat \<Rightarrow> 's \<Rightarrow> message list res \<times> 's" where
  "stream_consume X c canon fromiso now q consumer count s =
     (case x_read X (st_group c) consumer (stream_name c q) count (stream_ensure_queue X c q s) of
        (entries, s') \<Rightarrow> (decode_all canon fromiso now entries, s'))"

definition stream_ack :: "'s stream_cmds \<Rightarrow> stream_conf \<Rightarrow> string \<Rightarrow> string \<Rightarrow> 's \<Rightarrow> 's" where
  "stream_ack X c q message_id s = x_ack X (stream_name c q) (st_group c) message_id s"

definition stream_dead_letter :: "'s stream_cmds \<Rightarrow> stream_conf \<Rightarrow> pylib \<Rightarrow> string \<Rightarrow> message \<Rightarrow> string \<Rightarrow> 's \<Rightarrow> 's" where
  "stream_dead_letter X c L q m reason s =
     stream_ack X c q (mg_id m)
       (snd (x_add X (dlq_name c q)
          (dict_set ''failed_at'' (lib_isoformat L (mg_enqueued_at m)) (dict_set ''reason'' (take 500 reason) (encode L m)))
          10000 s))"

text \<open>What the code relies on: adding is counted up to the trimming length, reading and acking remove nothing.\<close>

definition stream_laws :: "'s stream_cmds \<Rightarrow> bool" where
  "stream_laws X \<longleftrightarrow>
     (\<forall>k f maxlen s. x_len X s k < maxlen \<longrightarrow> x_len X (snd (x_add X k f maxlen s)) k = x_len X s k + 1)
     \<and> (\<forall>k f maxlen s k'. k' \<noteq> k \<longrightarrow> x_len X (snd (x_add X k f maxlen s)) k' = x_len X s k')
     \<and> (\<forall>k g s k'. x_len X (x_group X k g s) k' = x_len X s k')
     \<and> (\<forall>g cons k n s k'. x_len X (snd (x_read X g cons k n s)) k' = x_len X s k')
     \<and> (\<forall>k g i s k'. x_len X (x_ack X k g i s) k' = x_len X s k')"

subsection \<open>Sequences of operations\<close>

datatype bus_op =
    B_put time string string jobj
  | B_get string nat
  | B_ack string string
  | B_dead string message string

text \<open>The state of the broker, the messages accepted on \<open>q\<close> and those handed out from it, in order.\<close>

fun mem_bus_run :: "string \<Rightarrow> bus_op list \<Rightarrow> mem_bus \<Rightarrow> mem_bus \<times> message list \<times> message list" where
  "mem_bus_run q [] b = (b, [], [])"
| "mem_bus_run q (B_put now k name payload # ops) b =
     (case mem_enqueue now k name payload b of (r, b') \<Rightarrow>
        (case mem_bus_run q ops b' of (b'', ins, outs) \<Rightarrow>
           (b'', (if k = q \<and> \<not> isl r then [last (queued b' q)] else []) @ ins, outs)))"
| "mem_bus_run q (B_get k n # ops) b =
     (case mem_consume k n b of (ms, b') \<Rightarrow>
        (case mem_bus_run q ops b' of (b'', ins, outs) \<Rightarrow> (b'', ins, (if k = q then ms else []) @ outs)))"
| "mem_bus_run q (B_ack k i # ops) b = mem_bus_run q ops (mem_ack k i b)"
| "mem_bus_run q (B_dead k m r # ops) b = mem_bus_run q ops (mem_dead_letter k m r b)"

lemma queued_simps [simp]:
  "queued (b\<lparr>mb_queues := dict_set k ms qs\<rparr>) q = (if q = k then ms else queued (b\<lparr>mb_queues := qs\<rparr>) q)"
  "queued (b\<lparr>mb_counter := n, mb_queues := d\<rparr>) q = queued (b\<lparr>mb_queues := d\<rparr>) q"
  "queued (mem_ack k i b) q = queued b q" "queued (mem_dead_letter k m r b) q = queued b q"
  "queued (mem_ensure_queue k b) q = queued b q"
  by (simp_all add: queued_def mem_ack_def mem_dead_letter_def mem_ensure_queue_def)

lemma queued_same [simp]: "queued (b\<lparr>mb_queues := mb_queues b\<rparr>) q = queued b q"
  by simp

lemma enqueue_queued:
  "mem_enqueue now k name payload b = (r, b') \<Longrightarrow>
     queued b' q = queued b q @ (if k = q \<and> \<not> isl r then [last (queued b' q)] else [])"
  by (auto simp: mem_enqueue_def Let_def queued_def mem_ensure_queue_def split: if_splits)

lemma enqueue_decision:
  "fst (mem_enqueue now k name payload b) =
     (if mem_depth b k \<ge> mb_max_depth b then Inl (QueueSaturated k (mem_depth b k) (mb_max_depth b))
      else Inr (''mem-'' @ show_nat (mb_counter b + 1)))"
  by (simp add: mem_enqueue_def Let_def mem_depth_def mem_ensure_queue_def queued_def)

lemma consume_queued:
  "mem_consume k n b = (ms, b') \<Longrightarrow> queued b q = (if k = q then ms else []) @ queued b' q"
  by (auto simp: mem_consume_def Let_def queued_def mem_ensure_queue_def)

lemma mem_bus_conserves:
  "mem_bus_run q ops b = (b', ins, outs) \<Longrightarrow> queued b q @ ins = outs @ queued b' q"
proof (induction q ops b arbitrary: b' ins outs rule: mem_bus_run.induct)
  case (2 q now k name payload ops b)
  obtain r b1 where e: "mem_enqueue now k name payload b = (r, b1)" by fastforce
  obtain b2 i2 o2 where r: "mem_bus_run q ops b1 = (b2, i2, o2)" by (metis prod_cases3)
  from 2(1) [OF e [symmetric] r] enqueue_queued [OF e, of q] 2(2) show ?case
    by (simp add: e r) (metis append.assoc append_Nil2)
next
  case (3 q k n ops b)
  obtain ms b1 where e: "mem_consume k n b = (ms, b1)" by fastforce
  obtain b2 i2 o2 where r: "mem_bus_run q ops b1 = (b2, i2, o2)" by (metis prod_cases3)
  from 3(1) [OF e [symmetric] r] consume_queued [OF e, of q] 3(2) show ?case by (simp add: e r)
qed auto

text \<open>The broker over Redis.\<close>

fun stream_run :: "'s stream_cmds \<Rightarrow> stream_conf \<Rightarrow> pylib \<Rightarrow> (string \<Rightarrow> string) \<Rightarrow> (string \<Rightarrow> time option)
    \<Rightarrow> string \<Rightarrow> bus_op list \<Rightarrow> 's \<Rightarrow> 's \<times> nat" where
  "stream_run X c L canon fromiso q [] s = (s, 0)"
| "stream_run X c L canon fromiso q (B_put now k name payload # ops) s =
     (case stream_enqueue X c L now k name payload s of (r, s') \<Rightarrow>
        (case stream_run X c L canon fromiso q ops s' of (s'', n) \<Rightarrow>
           (s'', if k = q \<and> \<not> isl r then Suc n else n)))"
| "stream_run X c L canon fromiso q (B_get k n # ops) s =
     stream_run X c L canon fromiso q ops (snd (stream_consume X c canon fromiso 0 k ''c'' n s))"
| "stream_run X c L canon fromiso q (B_ack k i # ops) s = stream_run X c L canon fromiso q ops (stream_ack X c k i s)"
| "stream_run X c L canon fromiso q (B_dead k m r # ops) s =
     stream_run X c L canon fromiso q ops (stream_dead_letter X c L k m r s)"

definition no_dlq_name :: "string \<Rightarrow> bus_op list \<Rightarrow> bool" where
  "no_dlq_name q ops \<longleftrightarrow> (\<forall>k m r. B_dead k m r \<in> set ops \<longrightarrow> q \<noteq> ''dlq:'' @ k)"

lemma stream_enqueue_depth:
  assumes "stream_laws X" and "0 < st_max_depth c" and "stream_enqueue X c L now k name payload s = (r, s')"
  shows "stream_depth X c s' q = stream_depth X c s q + (if k = q \<and> \<not> isl r then 1 else 0)"
proof (cases "stream_depth X c s k \<ge> st_max_depth c")
  case True
  with assms(3) show ?thesis by (auto simp: stream_enqueue_def Let_def)
next
  case False
  let ?s = "stream_ensure_queue X c k s"
  have g: "x_len X ?s j = x_len X s j" for j
    using assms(1) by (simp add: stream_laws_def stream_ensure_queue_def)
  have lt: "x_len X ?s (stream_name c k) < st_max_depth c * 2"
    using False assms(2) by (simp add: g stream_depth_def)
  obtain f where s': "s' = snd (x_add X (stream_name c k) f (st_max_depth c * 2) ?s)" and r: "\<not> isl r"
    using False assms(3) by (auto simp: stream_enqueue_def Let_def case_prod_beta)
  have "x_len X s' (stream_name c q) = x_len X s (stream_name c q) + (if k = q then 1 else 0)"
    using assms(1) lt g by (cases "k = q") (simp_all add: s' stream_laws_def stream_name_def)
  with r show ?thesis by (simp add: stream_depth_def)
qed

lemma stream_other_depth:
  assumes "stream_laws X"
  shows "stream_depth X c (snd (stream_consume X c canon fromiso t k cons n s)) q = stream_depth X c s q"
    and "stream_depth X c (stream_ack X c k i s) q = stream_depth X c s q"
    and "q \<noteq> ''dlq:'' @ k \<Longrightarrow> stream_depth X c (stream_dead_letter X c L k m r s) q = stream_depth X c s q"
  using assms
  by (simp_all add: stream_laws_def stream_depth_def stream_consume_def stream_ack_def stream_dead_letter_def
      stream_ensure_queue_def case_prod_beta stream_name_def dlq_name_def)

lemma stream_run_depth:
  assumes "stream_laws X" and "0 < st_max_depth c" and "no_dlq_name q ops"
  shows "stream_depth X c (fst (stream_run X c L canon fromiso q ops s)) q
    = stream_depth X c s q + int (snd (stream_run X c L canon fromiso q ops s))"
  using assms(3)
proof (induction ops arbitrary: s)
  case (Cons x ops)
  then have nd: "no_dlq_name q ops" by (auto simp: no_dlq_name_def)
  note ih = Cons.IH [OF nd]
  show ?case
  proof (cases x)
    case (B_put now k name payload)
    obtain r s' where e: "stream_enqueue X c L now k name payload s = (r, s')" by fastforce
    show ?thesis
      using ih [of s'] stream_enqueue_depth [OF assms(1,2) e, of q] by (simp add: B_put e case_prod_beta)
  next
    case (B_dead k m r)
    with Cons.prems have "q \<noteq> ''dlq:'' @ k" by (auto simp: no_dlq_name_def)
    then show ?thesis using ih by (simp add: B_dead stream_other_depth [OF assms(1)])
  qed (use ih in \<open>simp_all add: stream_other_depth [OF assms(1)]\<close>)
qed simp

subsection \<open>Properties\<close>

text \<open>
  The in-process broker is a FIFO queue. Over any sequence of operations on any queues, the
  messages accepted on a queue are, in order, those handed out from it followed by those still in it: none is
  lost, duplicated or reordered; and a message is refused, with \<open>QueueSaturated\<close> and without changing any
  queue, exactly when the queue is at its maximal depth.
\<close>

theorem memory_bus_fifo:
  "(case mem_bus_run q ops (new_bus n) of (b, ins, outs) \<Rightarrow> ins = outs @ queued b q)
   \<and> fst (mem_enqueue now k name payload b) = (if mem_depth b k \<ge> mb_max_depth b
        then Inl (QueueSaturated k (mem_depth b k) (mb_max_depth b)) else Inr (''mem-'' @ show_nat (mb_counter b + 1)))
   \<and> ((\<exists>e. fst (mem_enqueue now k name payload b) = Inl e) \<longrightarrow>
        (\<forall>j. queued (snd (mem_enqueue now k name payload b)) j = queued b j))"
proof (intro conjI impI allI)
  obtain b' ins outs where r: "mem_bus_run q ops (new_bus n) = (b', ins, outs)" by (metis prod_cases3)
  have "queued (new_bus n) q = []" by (simp add: queued_def new_bus_def)
  with mem_bus_conserves [OF r] r show "case mem_bus_run q ops (new_bus n) of (b, ins, outs) \<Rightarrow> ins = outs @ queued b q"
    by simp
next
  fix j
  assume "\<exists>e. fst (mem_enqueue now k name payload b) = Inl e"
  then show "queued (snd (mem_enqueue now k name payload b)) j = queued b j"
    using enqueue_queued [of now k name payload b "fst (mem_enqueue now k name payload b)"
        "snd (mem_enqueue now k name payload b)" j] by auto
qed (rule enqueue_decision)

theorem memory_bus_fifo_witness:
  "(case mem_bus_run ''q'' [B_put 0 ''q'' ''a'' [], B_put 0 ''q'' ''b'' [], B_get ''q'' 1] (new_bus 2) of
     (b, ins, outs) \<Rightarrow> ins = outs @ queued b ''q'')"
  by (rule conjunct1 [OF memory_bus_fifo])


definition sample_message :: message where
  "sample_message = \<lparr>mg_name = ''poll_upstream'', mg_payload = [(''task_id'', JStr ''a''), (''attempt'', JInt 2), (''delay'', JFloat ''1.5'')],
     mg_id = ''mem-1'', mg_enqueued_at = 0, mg_deliveries = 1\<rparr>"


text \<open>
  C38: The broker over Redis Streams fills up for good. Its depth is the length of the stream, which
  reading and acknowledging do not shorten: whatever was consumed, acknowledged or dead-lettered in between,
  the depth of a queue is its depth at the start plus the number of messages accepted on it since, so once the
  maximal depth of messages has ever been accepted, every further message is refused with \<open>QueueSaturated\<close>.
\<close>

theorem stream_bus_saturates:
  assumes "stream_laws X" and "0 < st_max_depth c" and "no_dlq_name q ops"
    and "stream_run X c L canon fromiso q ops s = (s', n)"
  shows "stream_depth X c s' q = stream_depth X c s q + int n
    \<and> (stream_depth X c s q + int n \<ge> st_max_depth c \<longrightarrow>
        fst (stream_enqueue X c L now q name payload s') = Inl (QueueSaturated q (stream_depth X c s' q) (st_max_depth c)))"
  using stream_run_depth [OF assms(1-3), of L canon fromiso s] assms(4) by (simp add: stream_enqueue_def)

definition len_cmds :: "int dict stream_cmds" where
  "len_cmds = (let at0 = (\<lambda>s k. case dict_get s k of None \<Rightarrow> 0 | Some n \<Rightarrow> n) in
     \<lparr>x_len = at0, x_add = (\<lambda>k f maxlen s. (''id'', dict_set k (min maxlen (at0 s k + 1)) s)),
      x_group = (\<lambda>k g s. s), x_read = (\<lambda>g cons k n s. ([], s)), x_ack = (\<lambda>k g i s. s)\<rparr>)"

theorem stream_bus_saturates_witness:
  "fst (stream_enqueue len_cmds \<lparr>st_prefix = ''p'', st_group = ''g'', st_max_depth = 1\<rparr> sample_lib 0 ''q'' ''n'' []
     (fst (stream_run len_cmds \<lparr>st_prefix = ''p'', st_group = ''g'', st_max_depth = 1\<rparr> sample_lib
        (\<lambda>t. t) (\<lambda>_. None) ''q'' [B_put 0 ''q'' ''a'' [], B_get ''q'' 1, B_ack ''q'' ''id''] [])))
    = Inl (QueueSaturated ''q'' 1 1)"
proof -
  let ?c = "\<lparr>st_prefix = ''p'', st_group = ''g'', st_max_depth = 1\<rparr>"
  let ?ops = "[B_put 0 ''q'' ''a'' [], B_get ''q'' 1, B_ack ''q'' ''id'']"
  have laws: "stream_laws len_cmds"
    by (auto simp: stream_laws_def len_cmds_def)
  obtain s' n where r: "stream_run len_cmds ?c sample_lib (\<lambda>t. t) (\<lambda>_. None) ''q'' ?ops [] = (s', n)"
    by fastforce
  have n: "snd (stream_run len_cmds ?c sample_lib (\<lambda>t. t) (\<lambda>_. None) ''q'' ?ops []) = 1"
    "stream_depth len_cmds ?c [] ''q'' = 0"
    by code_simp+
  from stream_bus_saturates [OF laws _ _ r, of 0 "''n''" "[]"] r n show ?thesis
    by (simp add: no_dlq_name_def del: stream_run.simps)
qed

end
