(* ===== verification/Maintenance.thy ===== *)
theory Maintenance
  imports Queries DaoFacts Container Bus Concurrency
begin

text \<open>
  The passes of \<open>workers/scheduler.py\<close> and \<open>workers/inspector.py\<close>. A pass of the scheduler or
  of the inspector is one database transaction: it reads rows, writes them one after the other and puts messages on the
  bus; when it raises, its writes are rolled back and the messages already sent stay sent. The clock is read once per
  pass, the statements of a transaction are not interleaved with those of others, and \<open>bus\<close> says for each
  message, by its number, whether the bus refuses it.
\<close>

subsection \<open>Transactions\<close>

record tick =
  tk_table :: table
  tk_orphans :: "orphan_callback list"
  tk_sent :: "(string \<times> string \<times> jobj) list"
  tk_actions :: nat

type_synonym refusals = "nat \<Rightarrow> exn option"

definition start_tick :: "table \<Rightarrow> orphan_callback list \<Rightarrow> tick" where
  "start_tick tbl orphans = \<lparr>tk_table = tbl, tk_orphans = orphans, tk_sent = [], tk_actions = 0\<rparr>"

definition did :: "tick \<Rightarrow> tick" where
  "did s = s\<lparr>tk_actions := tk_actions s + 1\<rparr>"

text \<open>A statement gives the exception it raises, if any, and the state it leaves.\<close>

type_synonym statement = "tick \<Rightarrow> exn option \<times> tick"

fun each :: "('a \<Rightarrow> statement) \<Rightarrow> 'a list \<Rightarrow> statement" where
  "each f [] s = (None, s)"
| "each f (x # xs) s = (case f x s of (None, s') \<Rightarrow> each f xs s' | (Some e, s') \<Rightarrow> (Some e, s'))"

definition then_do :: "statement \<Rightarrow> statement \<Rightarrow> statement" where
  "then_do f g s = (case f s of (None, s') \<Rightarrow> g s' | (Some e, s') \<Rightarrow> (Some e, s'))"

text \<open>\<open>async with session_scope()\<close>.\<close>

definition transaction :: "statement \<Rightarrow> statement" where
  "transaction f s = (case f s of
      (None, s') \<Rightarrow> (None, s')
    | (Some e, s') \<Rightarrow> (Some e, s'\<lparr>tk_table := tk_table s, tk_orphans := tk_orphans s\<rparr>))"

definition bus_send :: "refusals \<Rightarrow> string \<Rightarrow> string \<Rightarrow> jobj \<Rightarrow> statement" where
  "bus_send bus q name payload s = (case bus (length (tk_sent s)) of
      Some e \<Rightarrow> (Some e, s)
    | None \<Rightarrow> (None, s\<lparr>tk_sent := tk_sent s @ [(q, name, payload)]\<rparr>))"

text \<open>A DAO write; \<open>k\<close> says what follows when it hit a row.\<close>

definition when_moved :: "time \<Rightarrow> dao_write \<Rightarrow> statement \<Rightarrow> statement" where
  "when_moved now w k s = (case exec_write now w (tk_table s) of
      (Inl e, tbl) \<Rightarrow> (Some e, s\<lparr>tk_table := tbl\<rparr>)
    | (Inr hit, tbl) \<Rightarrow> (if hit then k (s\<lparr>tk_table := tbl\<rparr>) else (None, s\<lparr>tk_table := tbl\<rparr>)))"

definition finish :: statement where
  "finish s = (None, did s)"

definition task_message :: "task \<Rightarrow> jobj" where
  "task_message t = [(''task_id'', JStr (task_id t))]"

subsection \<open>The scheduler\<close>

definition target_queue_and_name :: "registry \<Rightarrow> task \<Rightarrow> (string \<times> string) option" where
  "target_queue_and_name reg t =
     (let name = (case DISPATCH_BY_STATUS (status t) of
          Some n \<Rightarrow> Some n
        | None \<Rightarrow> if status t = ACCEPTED \<and> submit_started_at t = None then Some ACCEPTED_RESUBMIT_HANDLER else None)
      in (case name of
          None \<Rightarrow> None
        | Some n \<Rightarrow>
            if n = ''poll_upstream''
            then Some (poll_queue (case registry_get reg (template_alias t) (Some (template_version t)) of
                   Some tv \<Rightarrow> rt_pool (tv_resolved tv) | None \<Rightarrow> []), n)
            else if n = ''submit_upstream'' then Some (''submit:default'', n)
            else if n = ''compensate_orphan'' then Some (''compensate:default'', n)
            else Some (''finalize:default'', n)))"

definition dispatch_task :: "registry \<Rightarrow> refusals \<Rightarrow> secs \<Rightarrow> time \<Rightarrow> task \<Rightarrow> statement" where
  "dispatch_task reg bus lease now t s = (case target_queue_and_name reg t of
      None \<Rightarrow> (None, s)
    | Some (q, n) \<Rightarrow> when_moved now (W_lease_dispatch (task_id t) lease [status t])
        (then_do (bus_send bus q n (task_message t)) finish) s)"

definition dispatch_due :: "registry \<Rightarrow> refusals \<Rightarrow> nat \<Rightarrow> secs \<Rightarrow> time \<Rightarrow> statement" where
  "dispatch_due reg bus batch lease now =
     transaction (\<lambda>s. each (dispatch_task reg bus lease now) (due_for_dispatch batch now (tk_table s)) s)"

subsection \<open>The inspector\<close>

definition stalled_step :: "refusals \<Rightarrow> time \<Rightarrow> task \<Rightarrow> statement" where
  "stalled_step bus now t =
     (if submit_started_at t = None
      then then_do (bus_send bus ''submit:default'' ''submit_upstream'' (task_message t)) finish
      else when_moved now (W_advance (task_id t) SUBMIT_UNKNOWN (Some [ACCEPTED])
             [SetErrorCode (Some EC_TRANSPORT),
              SetErrorMessage (Some ''accepted stalled with submit intent (worker crash window)''),
              SetUnknownSince (Some now), SetNextPollAt (Some now)])
           (then_do (bus_send bus ''compensate:default'' ''compensate_orphan'' (task_message t)) finish))"

definition scan_accepted_stalls :: "refusals \<Rightarrow> secs \<Rightarrow> time \<Rightarrow> statement" where
  "scan_accepted_stalls bus stall now =
     transaction (\<lambda>s. each (stalled_step bus now) (stalled_accepted stall 200 now (tk_table s)) s)"

definition deadline_write :: "pylib \<Rightarrow> time \<Rightarrow> task \<Rightarrow> dao_write" where
  "deadline_write L now t = W_advance (task_id t) TIMEOUT (Some [status t])
     [SetErrorCode (Some EC_TIMEOUT),
      SetErrorMessage (Some (''deadline exceeded at '' @ (case deadline_at t of Some d \<Rightarrow> lib_datetime_str L d | None \<Rightarrow> ''None''))),
      SetFinishedAt (Some now), SetNextPollAt None]"

definition scan_deadlines :: "pylib \<Rightarrow> time \<Rightarrow> statement" where
  "scan_deadlines L now = transaction (\<lambda>s.
     each (\<lambda>t. when_moved now (deadline_write L now t) finish) (overdue_deadlines 200 now (tk_table s)) s)"

text \<open>
  The tasks to hand to a human: those past the lifetime, and per channel over its limit the oldest; the loop over a
  channel's rows stops by the number of victims so far, whatever their channel.
\<close>

fun add_victims :: "string \<Rightarrow> int \<Rightarrow> task list \<Rightarrow> string list \<Rightarrow> string list" where
  "add_victims chan limit [] vs = vs"
| "add_victims chan limit (t # ts) vs =
     (if channel t \<noteq> chan then add_victims chan limit ts vs
      else if limit \<le> int (length (vs @ [task_id t])) then vs @ [task_id t]
      else add_victims chan limit ts (vs @ [task_id t]))"

definition victims_of :: "int \<Rightarrow> secs \<Rightarrow> time \<Rightarrow> table \<Rightarrow> string list" where
  "victims_of max_per_channel max_lifetime now tbl =
     (let old = over_lifetime_unknown max_lifetime 200 now tbl in
      fold (\<lambda>(chan, n) vs. if n \<le> max_per_channel then vs
              else add_victims chan (n - max_per_channel + int (length old)) (unknown_tasks (nat n) now tbl) vs)
        (count_unknown_by_channel tbl) (List.map task_id old))"

definition bound_one :: "time \<Rightarrow> string \<Rightarrow> statement" where
  "bound_one now tid s = (case get_task tid (tk_table s) of
      None \<Rightarrow> (None, s)
    | Some t \<Rightarrow> when_moved now (W_advance tid DEAD_AWAITING_CONFIRM (Some [status t])
        [SetErrorCode (Some EC_UNKNOWN_EXHAUSTED),
         SetErrorMessage (Some ''unknown bounded: exceeded channel limit or max lifetime''), SetNextPollAt None]) finish s)"

text \<open>\<open>dict.fromkeys\<close> keeps the first of equal ids.\<close>

definition bound_unknowns :: "int \<Rightarrow> secs \<Rightarrow> time \<Rightarrow> statement" where
  "bound_unknowns max_per_channel max_lifetime now = transaction (\<lambda>s.
     each (bound_one now) (rev (remdups (rev (victims_of max_per_channel max_lifetime now (tk_table s))))) s)"

definition resolve_orphan :: "time \<Rightarrow> nat \<times> orphan_callback \<Rightarrow> statement" where
  "resolve_orphan now = (\<lambda>(i, r) s. case find_by_upstream_id (oc_channel r) (oc_upstream_task_id r) (tk_table s) of
      None \<Rightarrow> (None, s)
    | Some t \<Rightarrow> (None, did (s\<lparr>tk_orphans := (tk_orphans s)[i := r\<lparr>oc_resolved := True, oc_resolved_task_id := Some (task_id t),
         oc_resolved_at := Some now\<rparr>]\<rparr>)))"

definition unresolved_indexed :: "nat \<Rightarrow> orphan_callback list \<Rightarrow> (nat \<times> orphan_callback) list" where
  "unresolved_indexed limit rs = take limit (sort_key (\<lambda>p. oc_received_at (snd p))
     (filter (\<lambda>p. \<not> oc_resolved (snd p)) (List.enumerate 0 rs)))"

definition stalled_active_step :: "refusals \<Rightarrow> time \<Rightarrow> task \<Rightarrow> statement" where
  "stalled_active_step bus now t = when_moved now (W_advance (task_id t) SUBMIT_UNKNOWN (Some [status t])
      [SetErrorCode (Some EC_UNKNOWN_EXHAUSTED), SetErrorMessage (Some ''active task stalled: heartbeat missing''),
       SetUnknownSince (Some now), SetNextPollAt (Some now)])
    (then_do (bus_send bus ''compensate:default'' ''compensate_orphan'' (task_message t)) finish)"

definition reconcile_orphans :: "refusals \<Rightarrow> secs \<Rightarrow> time \<Rightarrow> statement" where
  "reconcile_orphans bus stall now = transaction (then_do
     (\<lambda>s. each (resolve_orphan now) (unresolved_indexed 200 (tk_orphans s)) s)
     (\<lambda>s. each (stalled_active_step bus now)
        (stalled_active stall 200 now [UPSTREAM_SUBMITTED, IN_PROGRESS] (tk_table s)) s))"

definition transfer_attempts :: "task \<Rightarrow> int" where
  "transfer_attempts t = (case dict_get (attributes_of t) ''transfer_attempts'' of Some (JInt n) \<Rightarrow> n | _ \<Rightarrow> 1)"

definition dispatch_pending_transfers :: "refusals \<Rightarrow> time \<Rightarrow> statement" where
  "dispatch_pending_transfers bus now = transaction (\<lambda>s.
     each (\<lambda>t. then_do (bus_send bus TRANSFER_QUEUE ''store_result''
         [(''task_id'', JStr (task_id t)), (''attempt'', JInt (transfer_attempts t))]) finish)
       (pending_transfers 100 now (tk_table s)) s)"

text \<open>The calibration of the in-process limiter to the number of active rows of each channel.\<close>

definition calibrate_concurrency :: "table \<Rightarrow> counts \<Rightarrow> counts \<times> nat" where
  "calibrate_concurrency tbl c =
     fold (\<lambda>(chan, n) (c, fixed). case mem_calibrate chan n c of (drift, c') \<Rightarrow> (c', if drift \<noteq> 0 then Suc fixed else fixed))
       (active_counts_by_channel tbl) (c, 0)"

definition run_tick :: "pylib \<Rightarrow> settings \<Rightarrow> refusals \<Rightarrow> time \<Rightarrow> statement" where
  "run_tick L st bus now =
     then_do (scan_accepted_stalls bus (of_int (accepted_stall_seconds st)) now)
    (then_do (scan_deadlines L now)
    (then_do (bound_unknowns (unknown_max_per_channel st) (of_int (unknown_max_lifetime_seconds st)) now)
    (then_do (reconcile_orphans bus 180 now) (dispatch_pending_transfers bus now))))"

text \<open>The loops: a tick that raises does not stop them.\<close>

fun run_ticks :: "(time \<Rightarrow> statement) \<Rightarrow> time list \<Rightarrow> tick \<Rightarrow> tick" where
  "run_ticks pass [] s = s"
| "run_ticks pass (now # later) s = run_ticks pass later (snd (pass now s))"

end
