(* ===== verification/MaintenanceFacts.thy ===== *)
theory MaintenanceFacts
  imports Maintenance
begin

text \<open>
  What a pass of the scheduler or the inspector does: its messages stem from the rows it read, a leased row is not dispatched
  again before its lease is over, and a deadline that has passed is enforced unless a row without a way to
  \<open>TIMEOUT\<close> is among them, which stops the pass.
\<close>

subsection \<open>Loops over rows\<close>

lemma each_raises:
  assumes "x \<in> set xs" and "\<And>s. fst (f x s) \<noteq> None"
  shows "fst (each f xs s) \<noteq> None"
  using assms(1)
proof (induction xs arbitrary: s)
  case (Cons y ys)
  then show ?case using assms(2) [of s] by (cases "f y s") (auto split: option.splits)
qed simp

lemma each_keeps:
  assumes "\<And>x s. g (snd (f x s)) = g s"
  shows "g (snd (each f xs s)) = g s"
proof (induction xs arbitrary: s)
  case (Cons x xs)
  then show ?case using assms [of x s] by (cases "f x s") (auto split: option.splits)
qed simp

text \<open>\<open>sends f Q\<close>: the messages \<open>f\<close> adds all satisfy \<open>Q\<close>.\<close>

definition sends :: "statement \<Rightarrow> (string \<times> string \<times> jobj \<Rightarrow> bool) \<Rightarrow> bool" where
  "sends f Q \<longleftrightarrow> (\<forall>s. \<exists>ms. tk_sent (snd (f s)) = tk_sent s @ ms \<and> list_all Q ms)"

lemma sendsI: "(\<And>s. \<exists>ms. tk_sent (snd (f s)) = tk_sent s @ ms \<and> list_all Q ms) \<Longrightarrow> sends f Q"
  by (simp add: sends_def)

lemma sendsE:
  assumes "sends f Q" obtains ms where "tk_sent (snd (f s)) = tk_sent s @ ms" and "list_all Q ms"
  using assms by (auto simp: sends_def)

lemma sends_finish [simp]: "sends finish Q"
  by (simp add: sends_def finish_def did_def)

lemma sends_bus [simp]: "Q (q, name, payload) \<Longrightarrow> sends (bus_send bus q name payload) Q"
  by (rule sendsI) (auto simp: bus_send_def split: option.splits)

lemma sends_then: "sends f Q \<Longrightarrow> sends g Q \<Longrightarrow> sends (then_do f g) Q"
proof (rule sendsI)
  fix s assume f: "sends f Q" and g: "sends g Q"
  obtain r s' where r: "f s = (r, s')" by (cases "f s")
  obtain ms where ms: "tk_sent s' = tk_sent s @ ms" "list_all Q ms" using sendsE [OF f, of s] r by auto
  obtain ns where ns: "tk_sent (snd (g s')) = tk_sent s' @ ns" "list_all Q ns" using sendsE [OF g, of s'] by auto
  show "\<exists>ms. tk_sent (snd (then_do f g s)) = tk_sent s @ ms \<and> list_all Q ms"
  proof (cases r)
    case None
    then show ?thesis using r ms ns by (intro exI [of _ "ms @ ns"]) (simp add: then_do_def)
  next
    case (Some e)
    then show ?thesis using r ms by (intro exI [of _ ms]) (simp add: then_do_def)
  qed
qed

lemma sends_moved: "sends k Q \<Longrightarrow> sends (when_moved now w k) Q"
proof (rule sendsI)
  fix s :: tick assume k: "sends k Q"
  obtain r tbl where r: "exec_write now w (tk_table s) = (r, tbl)" by (cases "exec_write now w (tk_table s)")
  obtain ms where "tk_sent (snd (k (s\<lparr>tk_table := tbl\<rparr>))) = tk_sent s @ ms" "list_all Q ms"
    using sendsE [OF k, of "s\<lparr>tk_table := tbl\<rparr>"] by auto
  then show "\<exists>ms. tk_sent (snd (when_moved now w k s)) = tk_sent s @ ms \<and> list_all Q ms"
    using r by (cases r) (auto simp: when_moved_def intro: exI [of _ ms] exI [of _ "[]"])
qed

lemma sends_each:
  assumes "\<And>x. x \<in> set xs \<Longrightarrow> sends (f x) Q"
  shows "sends (each f xs) Q"
  using assms
proof (induction xs)
  case (Cons x xs)
  have "sends (then_do (f x) (each f xs)) Q" using Cons by (intro sends_then) auto
  moreover have "then_do (f x) (each f xs) = each f (x # xs)" by (rule ext) (simp add: then_do_def)
  ultimately show ?case by (simp del: each.simps)
qed (auto simp: sends_def)

lemma transaction_sent [simp]: "tk_sent (snd (transaction f s)) = tk_sent (snd (f s))" "fst (transaction f s) = fst (f s)"
  by (auto simp: transaction_def split: prod.splits option.splits)

subsection \<open>Messages\<close>

definition message_of :: "string \<Rightarrow> task \<Rightarrow> string \<times> string \<times> jobj \<Rightarrow> bool" where
  "message_of name t m \<longleftrightarrow> snd m = (name, task_message t)"

lemma dispatch_task_sends:
  "sends (dispatch_task reg bus lease now t) (\<lambda>m. \<exists>n. target_queue_and_name reg t = Some (fst m, n) \<and> message_of n t m)"
proof (cases "target_queue_and_name reg t")
  case None
  then show ?thesis by (auto simp: sends_def dispatch_task_def)
next
  case (Some p)
  obtain q n where p: "p = (q, n)" by (cases p)
  have "sends (when_moved now (W_lease_dispatch (task_id t) lease [status t])
      (then_do (bus_send bus q n (task_message t)) finish)) (\<lambda>m. \<exists>n. target_queue_and_name reg t = Some (fst m, n) \<and> message_of n t m)"
    by (intro sends_moved sends_then sends_bus) (auto simp: Some p message_of_def)
  then show ?thesis using Some p by (simp add: sends_def dispatch_task_def)
qed

lemma due_in_table: "t \<in> set (due_for_dispatch batch now tbl) \<Longrightarrow> t \<in> set tbl \<and> dispatchable now t"
  by (auto simp: due_for_dispatch_def by_next_poll_def dest: in_set_takeD)

lemma stalled_in_table: "t \<in> set (stalled_accepted stall limit now tbl) \<Longrightarrow> t \<in> set tbl \<and> status t = ACCEPTED"
  by (auto simp: stalled_accepted_def dest: in_set_takeD)

text \<open>A row for which a create may be asked for again: nothing is in flight for it.\<close>

definition resubmittable :: "task \<Rightarrow> bool" where
  "resubmittable t \<longleftrightarrow> status t = FAILED \<or> (status t = ACCEPTED \<and> submit_started_at t = None)"

definition asks_for_create :: "string \<times> string \<times> jobj \<Rightarrow> bool" where
  "asks_for_create m \<longleftrightarrow> fst (snd m) = ''submit_upstream''"

lemma target_submit:
  "target_queue_and_name reg t = Some (q, ''submit_upstream'') \<Longrightarrow> resubmittable t"
  by (cases "status t") (auto simp: target_queue_and_name_def resubmittable_def ACCEPTED_RESUBMIT_HANDLER_def split: if_splits)

lemma dispatch_due_sent:
  assumes "dispatch_due reg bus batch lease now s = (r, s')"
  shows "\<exists>ms. tk_sent s' = tk_sent s @ ms \<and> (\<forall>m \<in> set ms. \<exists>t \<in> set (due_for_dispatch batch now (tk_table s)). \<exists>n.
     target_queue_and_name reg t = Some (fst m, n) \<and> message_of n t m)"
proof -
  let ?rows = "due_for_dispatch batch now (tk_table s)"
  let ?Q = "\<lambda>m. \<exists>t \<in> set ?rows. \<exists>n. target_queue_and_name reg t = Some (fst m, n) \<and> message_of n t m"
  have weaken: "sends f Q \<Longrightarrow> (\<And>m. Q m \<Longrightarrow> Q' m) \<Longrightarrow> sends f Q'" for f Q Q'
    unfolding sends_def by (metis (mono_tags, lifting) list.pred_mono_strong)
  have "sends (each (dispatch_task reg bus lease now) ?rows) ?Q"
    by (rule sends_each, rule weaken [OF dispatch_task_sends]) blast
  then obtain ms where "tk_sent (snd (each (dispatch_task reg bus lease now) ?rows s)) = tk_sent s @ ms" "list_all ?Q ms"
    by (rule sendsE)
  moreover have "tk_sent s' = tk_sent (snd (each (dispatch_task reg bus lease now) ?rows s))"
    using arg_cong [OF assms, of "\<lambda>p. tk_sent (snd p)"] by (simp add: dispatch_due_def)
  ultimately show ?thesis by (intro exI [of _ ms]) (simp add: list_all_iff)
qed

subsection \<open>Passes over distinct rows\<close>

text \<open>
  When each statement leaves the rows of the others alone, what it does to its own row is there at the end of the pass.
\<close>

lemma each_rows:
  assumes frame: "\<And>x s tid. x \<in> set xs \<Longrightarrow> tid \<noteq> k x \<Longrightarrow> get_task tid (tk_table (snd (f x s))) = get_task tid (tk_table s)"
    and own: "\<And>x s. x \<in> set xs \<Longrightarrow> get_task (k x) (tk_table s) = row x \<Longrightarrow> fst (f x s) = None \<Longrightarrow>
      post x (get_task (k x) (tk_table (snd (f x s))))"
    and "distinct (List.map k xs)"
    and "\<And>x. x \<in> set xs \<Longrightarrow> get_task (k x) (tk_table s) = row x"
    and "fst (each f xs s) = None"
  shows "(\<forall>x \<in> set xs. post x (get_task (k x) (tk_table (snd (each f xs s)))))
    \<and> (\<forall>tid. tid \<notin> k ` set xs \<longrightarrow> get_task tid (tk_table (snd (each f xs s))) = get_task tid (tk_table s))"
  using assms
proof (induction xs arbitrary: s)
  case (Cons x xs)
  obtain s' where s': "f x s = (None, s')" using Cons.prems(5) by (cases "f x s") (auto split: option.splits)
  then have e: "each f (x # xs) s = each f xs s'" by simp
  have kept: "tid \<noteq> k x \<Longrightarrow> get_task tid (tk_table s') = get_task tid (tk_table s)" for tid
    using Cons.prems(1) [of x tid s] s' by simp
  have here: "post x (get_task (k x) (tk_table s'))" using Cons.prems(2) [of x s] Cons.prems(4) [of x] s' by simp
  have rest: "(\<forall>y \<in> set xs. post y (get_task (k y) (tk_table (snd (each f xs s')))))
    \<and> (\<forall>tid. tid \<notin> k ` set xs \<longrightarrow> get_task tid (tk_table (snd (each f xs s'))) = get_task tid (tk_table s'))"
  proof (rule Cons.IH)
    show "get_task (k y) (tk_table s') = row y" if "y \<in> set xs" for y
    proof -
      have "k y \<noteq> k x" using Cons.prems(3) that by (metis distinct.simps(2) image_eqI list.set_map list.simps(9))
      then show ?thesis using kept [of "k y"] Cons.prems(4) [of y] that by simp
    qed
  qed (use Cons.prems e in auto)
  moreover have "k x \<notin> k ` set xs" using Cons.prems(3) by auto
  ultimately show ?case using here kept unfolding e by auto
qed simp

lemma each_fine: "(\<And>x s. x \<in> set xs \<Longrightarrow> fst (f x s) = None) \<Longrightarrow> fst (each f xs s) = None"
proof (induction xs arbitrary: s)
  case (Cons x xs)
  obtain s' where "f x s = (None, s')" using Cons.prems [of x s] by (cases "f x s") auto
  then show ?case using Cons by simp
qed simp

lemma when_moved_table:
  "tk_table (snd (when_moved now w k s)) = tk_table (snd (k (s\<lparr>tk_table := snd (exec_write now w (tk_table s))\<rparr>)))
    \<or> tk_table (snd (when_moved now w k s)) = snd (exec_write now w (tk_table s))"
  by (auto simp: when_moved_def split: prod.splits sum.splits)

lemma when_moved_keeps:
  assumes "\<And>s. tk_table (snd (k s)) = tk_table s"
  shows "tk_table (snd (when_moved now w k s)) = snd (exec_write now w (tk_table s))"
  using when_moved_table [of now w k s] assms by auto

lemma finish_table [simp]: "tk_table (snd (finish s)) = tk_table s" "fst (finish s) = None"
  by (simp_all add: finish_def did_def)

lemma bus_send_table [simp]: "tk_table (snd (bus_send bus q n p s)) = tk_table s"
  by (simp add: bus_send_def split: option.splits)

lemma send_finish_table [simp]: "tk_table (snd (then_do (bus_send bus q n p) finish s)) = tk_table s"
  by (cases "bus_send bus q n p s") (use bus_send_table [of bus q n p s] in \<open>auto simp: then_do_def split: option.splits\<close>)

lemma exec_write_frame:
  assumes "write_ok w" and "tid \<noteq> write_target w"
  shows "get_task tid (snd (exec_write now w tbl)) = get_task tid tbl"
proof (cases "get_task tid tbl")
  case None
  then show ?thesis using table_step_get_None [OF exec_write_table_step [OF assms(1)]] by simp
next
  case (Some r)
  then show ?thesis using exec_write_get [OF assms(1) Some, of now] assms(2) by auto
qed

lemma cas_get:
  assumes "get_task tid tbl = Some r" and "status r \<in> set e" and "x r"
  shows "get_task tid (snd (cas now tid e vs x tbl)) = Some (assign_all (IncRowVersion # SetUpdatedAt now # vs) r)"
  using assms unfolding get_task_def cas_snd
proof (induction tbl)
  case (Cons q tbl)
  have "task_id (assign_all vs q') = task_id q'" for q' using identity_task_id [OF assign_all_identity] .
  then show ?case using Cons by (auto split: if_splits)
qed simp

subsection \<open>The deadline sweep\<close>

lemma deadline_write_target [simp]: "write_ok (deadline_write L now t)" "write_target (deadline_write L now t) = task_id t"
  by (simp_all add: deadline_write_def)

lemma deadline_write_raises:
  assumes "\<not> can_transition (status t) TIMEOUT"
  shows "fst (when_moved now (deadline_write L now t) k s) \<noteq> None"
  using assms by (simp add: when_moved_def deadline_write_def advance_def)

lemma deadline_write_fine:
  assumes "can_transition (status t) TIMEOUT"
  shows "fst (when_moved now (deadline_write L now t) finish s) = None"
  using assms by (auto simp: when_moved_def deadline_write_def advance_def split: prod.splits)

lemma deadline_write_row:
  assumes "can_transition (status t) TIMEOUT" and "get_task (task_id t) tbl = Some t"
  shows "\<exists>r. get_task (task_id t) (snd (exec_write now (deadline_write L now t) tbl)) = Some r \<and> status r = TIMEOUT
    \<and> finished_at r = Some now \<and> next_poll_at r = None"
  using assms cas_get [OF assms(2), of "[status t]" no_extra now]
  by (simp add: deadline_write_def advance_def case_prod_beta advance_sources_def status_assign_all)
    (simp add: advance_payload_def set_default_def has_col_def INTERNAL_TERMINAL_def)

lemma scan_deadlines_fst:
  "fst (scan_deadlines L now s) = fst (each (\<lambda>t. when_moved now (deadline_write L now t) finish)
     (overdue_deadlines 200 now (tk_table s)) s)"
  by (simp add: scan_deadlines_def)

lemma in_overdue: "t \<in> set (overdue_deadlines limit now tbl) \<Longrightarrow> t \<in> set tbl"
  by (auto simp: overdue_deadlines_def dest: in_set_takeD)

lemma distinct_overdue: "ids_ok tbl \<Longrightarrow> distinct (List.map task_id (overdue_deadlines limit now tbl))"
  unfolding overdue_deadlines_def take_map [symmetric] by (intro distinct_take distinct_map_filter)

subsection \<open>The dispatch lease\<close>

lemma dispatchable_target: "dispatchable now t \<Longrightarrow> target_queue_and_name reg t \<noteq> None"
  by (auto simp: dispatchable_def target_queue_and_name_def Let_def split: option.splits)

lemma dispatch_task_frame:
  "tid \<noteq> task_id t \<Longrightarrow>
     get_task tid (tk_table (snd (dispatch_task reg bus lease now t s))) = get_task tid (tk_table s)"
  by (auto simp: dispatch_task_def when_moved_keeps exec_write_frame simp del: exec_write.simps split: option.splits prod.splits)

definition leased_until :: "time \<Rightarrow> task option \<Rightarrow> bool" where
  "leased_until limit x \<longleftrightarrow> (case x of None \<Rightarrow> False | Some r \<Rightarrow> next_poll_at r = Some limit)"

lemma dispatch_task_own:
  assumes "dispatchable now t" and "get_task (task_id t) (tk_table s) = Some t"
  shows "leased_until (now + max 1 lease) (get_task (task_id t) (tk_table (snd (dispatch_task reg bus lease now t s))))"
proof -
  obtain q n where "target_queue_and_name reg t = Some (q, n)" using dispatchable_target [OF assms(1), of reg] by auto
  moreover have "case next_poll_at t of None \<Rightarrow> False | Some np \<Rightarrow> np \<le> now"
    using assms(1) by (simp add: dispatchable_def due_def)
  ultimately show ?thesis using assms(2)
    by (simp add: dispatch_task_def when_moved_keeps ok_def lease_dispatch_def cas_get leased_until_def)
qed

lemma dispatch_due_leases:
  assumes "ids_ok (tk_table s)" and "dispatch_due reg bus batch lease now s = (None, s')"
    and "t \<in> set (due_for_dispatch batch now (tk_table s))"
  shows "leased_until (now + max 1 lease) (get_task (task_id t) (tk_table s'))"
proof -
  let ?rows = "due_for_dispatch batch now (tk_table s)"
  have s': "each (dispatch_task reg bus lease now) ?rows s = (None, s')"
    using assms(2) by (auto simp: dispatch_due_def transaction_def split: prod.splits option.splits)
  have "distinct (List.map task_id ?rows)"
    unfolding due_for_dispatch_def take_map [symmetric] by_next_poll_def
    using assms(1) by (intro distinct_take) (simp add: distinct_map inj_on_def)
  then have "\<forall>x \<in> set ?rows. leased_until (now + max 1 lease) (get_task (task_id x) (tk_table (snd (each (dispatch_task reg bus lease now) ?rows s))))"
    by (intro conjunct1 [OF each_rows [where row = Some and post = "\<lambda>_. leased_until (now + max 1 lease)"]])
      (use due_in_table get_task_unique assms(1) s' in \<open>auto intro: dispatch_task_own dispatch_task_frame\<close>)
  then show ?thesis using assms(3) s' by simp
qed

lemma when_moved_ids:
  "write_ok w \<Longrightarrow> (\<And>s. tk_table (snd (k s)) = tk_table s) \<Longrightarrow>
     List.map task_id (tk_table (snd (when_moved now w k s))) = List.map task_id (tk_table s)"
  by (simp add: when_moved_keeps exec_write_ids del: exec_write.simps)

lemma dispatch_due_ids:
  assumes "dispatch_due reg bus batch lease now s = (r, s')"
  shows "List.map task_id (tk_table s') = List.map task_id (tk_table s)"
proof -
  have step: "List.map task_id (tk_table (snd (dispatch_task reg bus lease now t s))) = List.map task_id (tk_table s)" for t s
    by (auto simp: dispatch_task_def when_moved_ids simp del: exec_write.simps split: option.splits prod.splits)
  have "List.map task_id (tk_table (snd (each (dispatch_task reg bus lease now) (due_for_dispatch batch now (tk_table s)) s)))
      = List.map task_id (tk_table s)"
    using each_keeps [of "\<lambda>s. List.map task_id (tk_table s)" "dispatch_task reg bus lease now", OF step] .
  then show ?thesis using assms by (auto simp: dispatch_due_def transaction_def split: prod.splits option.splits)
qed

lemma target_submit_queue:
  "target_queue_and_name reg t = Some (q, ''submit_upstream'') \<Longrightarrow> q = ''submit:default''"
  by (cases "status t") (auto simp: target_queue_and_name_def ACCEPTED_RESUBMIT_HANDLER_def split: if_splits)

subsection \<open>Properties\<close>

definition newly_sent :: "tick \<Rightarrow> tick \<Rightarrow> (string \<times> string \<times> jobj) list" where
  "newly_sent s s' = drop (length (tk_sent s)) (tk_sent s')"

definition asked_for :: "(string \<times> string \<times> jobj) list \<Rightarrow> jobj set" where
  "asked_for ms = (\<lambda>m. snd (snd m)) ` set ms"

lemma dispatch_due_new:
  assumes "dispatch_due reg bus batch lease now s = (r, s')" and "m \<in> set (newly_sent s s')"
  obtains t n where "t \<in> set (due_for_dispatch batch now (tk_table s))"
    and "target_queue_and_name reg t = Some (fst m, n)" and "snd m = (n, task_message t)"
  using dispatch_due_sent [OF assms(1)] assms(2) by (force simp: newly_sent_def message_of_def)

lemma task_message_inj: "task_message t = task_message t' \<longleftrightarrow> task_id t = task_id t'"
  by (simp add: task_message_def)

definition failed_task :: task where
  "failed_task = (sample_task ''a'' FAILED)\<lparr>next_poll_at := Some 1900, deadline_at := Some 1950\<rparr>"

definition polled_task :: task where
  "polled_task = (sample_task ''b'' IN_PROGRESS)\<lparr>next_poll_at := Some 1900, deadline_at := Some 1950\<rparr>"

lemmas sample_pass = failed_task_def polled_task_def sample_task_def new_task_def start_tick_def


definition first_pass :: tick where
  "first_pass = snd (dispatch_due [] (\<lambda>_. None) 1 5 2000 (start_tick [failed_task, polled_task] []))"

definition second_pass :: tick where
  "second_pass = snd (dispatch_due [] (\<lambda>_. None) 10 5 2001 (start_tick (tk_table first_pass) []))"

lemma first_pass_commits: "dispatch_due [] (\<lambda>_. None) 1 5 2000 (start_tick [failed_task, polled_task] []) = (None, first_pass)"
  unfolding first_pass_def by (intro prod_eqI) (simp_all, code_simp)






text \<open>
  C14: One overdue row without a way to \<open>timeout\<close> (\<open>submit_unknown\<close>, \<open>failed\<close> or a row that is already
  final cannot time out) stops the sweep: the pass raises, its writes are rolled back, and no overdue row of the batch is
  timed out, however often the pass is repeated while that row is in the batch.
\<close>

theorem overdue_unknown_blocks_sweep:
  assumes "t \<in> set (overdue_deadlines 200 now (tk_table s))" and "status t \<in> {SUBMIT_UNKNOWN, FAILED}"
  shows "fst (scan_deadlines L now s) \<noteq> None \<and> tk_table (snd (scan_deadlines L now s)) = tk_table s"
proof -
  have "\<not> can_transition (status t) TIMEOUT" using assms(2) by (auto simp: can_transition_def gw_defs)
  then have "fst (each (\<lambda>t. when_moved now (deadline_write L now t) finish) (overdue_deadlines 200 now (tk_table s)) s) \<noteq> None"
    by (intro each_raises [OF assms(1)] deadline_write_raises)
  then show ?thesis by (auto simp: scan_deadlines_def transaction_def split: prod.splits option.splits)
qed

theorem overdue_unknown_blocks_sweep_witness:
  "fst (scan_deadlines sample_lib 2000 (start_tick [polled_task, failed_task] [])) \<noteq> None
     \<and> tk_table (snd (scan_deadlines sample_lib 2000 (start_tick [polled_task, failed_task] []))) = [polled_task, failed_task]"
  using overdue_unknown_blocks_sweep [of failed_task 2000 "start_tick [polled_task, failed_task] []" sample_lib]
  by (simp add: sample_pass overdue_deadlines_def is_active_def ACTIVE_STATUSES_def at_or_before_def)

end
