(* ===== verification/Stores.thy ===== *)
theory Stores
  imports Json Container
begin

text \<open>
  The short-lived stores of a task: create bodies and response archives (\<open>infra/request_store.py\<close>), the
  caller's credential (\<open>infra/credentials.py\<close>) and the in-process result store (\<open>infra/object_store.py\<close>). The Redis
  variants keep an expiry with each value; the clock is an argument. What a reader relies on is the locale
  \<open>kv_store\<close>.
\<close>

subsection \<open>In process\<close>

definition mem_put_json :: "string \<Rightarrow> json \<Rightarrow> int \<Rightarrow> string dict \<Rightarrow> string dict" where
  "mem_put_json key payload ttl s = dict_set key (dumps False False payload) s"

definition mem_get_bytes :: "string \<Rightarrow> string dict \<Rightarrow> string res" where
  "mem_get_bytes key s = (case dict_get s key of None \<Rightarrow> Inl (RequestDataNotFound key) | Some v \<Rightarrow> Inr v)"

definition mem_drop :: "string \<Rightarrow> string dict \<Rightarrow> string dict" where
  "mem_drop key s = dict_pop key s"

definition mem_cred_put :: "string \<Rightarrow> string \<Rightarrow> int \<Rightarrow> string dict \<Rightarrow> string dict" where
  "mem_cred_put tid header ttl s = dict_set tid header s"

definition mem_cred_get :: "string \<Rightarrow> string dict \<Rightarrow> string option" where
  "mem_cred_get tid s = dict_get s tid"

definition mem_cred_drop :: "string \<Rightarrow> string dict \<Rightarrow> string dict" where
  "mem_cred_drop tid s = dict_pop tid s"

subsection \<open>Over Redis: \<open>SET key value EX ttl\<close>, \<open>GET\<close>, \<open>DEL\<close>\<close>

text \<open>The commands of Redis, at a clock.\<close>

record 's kv_cmds =
  kv_set :: "time \<Rightarrow> string \<Rightarrow> string \<Rightarrow> int \<Rightarrow> 's \<Rightarrow> 's"
  kv_get :: "time \<Rightarrow> 's \<Rightarrow> string \<Rightarrow> string option"
  kv_del :: "string \<Rightarrow> 's \<Rightarrow> 's"

definition redis_put_json :: "'s kv_cmds \<Rightarrow> time \<Rightarrow> string \<Rightarrow> json \<Rightarrow> int \<Rightarrow> 's \<Rightarrow> 's" where
  "redis_put_json R now key payload ttl s = kv_set R now key (dumps False False payload) (max 60 ttl) s"

definition redis_get_bytes :: "'s kv_cmds \<Rightarrow> time \<Rightarrow> string \<Rightarrow> 's \<Rightarrow> string res" where
  "redis_get_bytes R now key s = (case kv_get R now s key of None \<Rightarrow> Inl (RequestDataNotFound key) | Some v \<Rightarrow> Inr v)"

definition redis_drop :: "'s kv_cmds \<Rightarrow> string \<Rightarrow> 's \<Rightarrow> 's" where
  "redis_drop R key s = kv_del R key s"

text \<open>An empty header is not stored.\<close>

definition redis_cred_put :: "'s kv_cmds \<Rightarrow> time \<Rightarrow> string \<Rightarrow> string \<Rightarrow> int \<Rightarrow> 's \<Rightarrow> 's" where
  "redis_cred_put R now tid header ttl s =
     (if header = [] then s else kv_set R now (credential_key tid) header (max 60 ttl) s)"

definition redis_cred_get :: "'s kv_cmds \<Rightarrow> time \<Rightarrow> string \<Rightarrow> 's \<Rightarrow> string option" where
  "redis_cred_get R now tid s = kv_get R now s (credential_key tid)"

definition redis_cred_drop :: "'s kv_cmds \<Rightarrow> string \<Rightarrow> 's \<Rightarrow> 's" where
  "redis_cred_drop R tid s = kv_del R (credential_key tid) s"

subsection \<open>The in-process result store\<close>

record result_store =
  os_objects :: "(string \<times> string) dict"
  os_base_url :: string

definition put_bytes :: "string \<Rightarrow> string \<Rightarrow> string \<Rightarrow> result_store \<Rightarrow> string \<times> result_store" where
  "put_bytes key content ctype s = (key, s\<lparr>os_objects := dict_set key (content, ctype) (os_objects s)\<rparr>)"

definition put_json :: "string \<Rightarrow> json \<Rightarrow> result_store \<Rightarrow> string \<times> result_store" where
  "put_json key payload s = put_bytes key (dumps False False payload) ''application/json'' s"

definition get_bytes :: "string \<Rightarrow> result_store \<Rightarrow> string res" where
  "get_bytes key s = (case dict_get (os_objects s) key of None \<Rightarrow> Inl (ObjectNotFound key) | Some (b, _) \<Rightarrow> Inr b)"

definition object_exists :: "string \<Rightarrow> result_store \<Rightarrow> bool" where
  "object_exists key s \<longleftrightarrow> dict_get (os_objects s) key \<noteq> None"

definition presign_get :: "string \<Rightarrow> int \<Rightarrow> result_store \<Rightarrow> string res" where
  "presign_get key ttl s = (if object_exists key s
     then Inr (os_base_url s @ ''/'' @ key @ ''?ttl='' @ show_int ttl) else Inl (ObjectNotFound key))"

definition delete_prefix :: "string \<Rightarrow> result_store \<Rightarrow> nat \<times> result_store" where
  "delete_prefix pre s =
     (let victims = remdups (filter (starts_with pre) (List.map fst (os_objects s))) in
      (length victims, s\<lparr>os_objects := fold dict_pop victims (os_objects s)\<rparr>))"

subsection \<open>What a reader relies on\<close>

text \<open>\<open>alive ttl age\<close>: a value written with lifetime \<open>ttl\<close> can still be read at that age.\<close>

locale kv_store =
  fixes put :: "time \<Rightarrow> string \<Rightarrow> 'v \<Rightarrow> int \<Rightarrow> 's \<Rightarrow> 's"
    and get :: "time \<Rightarrow> string \<Rightarrow> 's \<Rightarrow> 'w option"
    and drop_key :: "string \<Rightarrow> 's \<Rightarrow> 's"
    and enc :: "'v \<Rightarrow> 'w"
    and storable :: "'v \<Rightarrow> bool"
    and alive :: "int \<Rightarrow> secs \<Rightarrow> bool"
  assumes get_put: "storable v \<Longrightarrow> t0 \<le> t \<Longrightarrow> alive ttl (t - t0) \<Longrightarrow> get t k (put t0 k v ttl s) = Some (enc v)"
    and get_put_other: "k' \<noteq> k \<Longrightarrow> get t k' (put t0 k v ttl s) = get t k' s"
    and get_drop: "get t k' (drop_key k s) = (if k' = k then None else get t k' s)"

datatype 'v kv_op = Put time string 'v int | Drop string

fun kv_key :: "'v kv_op \<Rightarrow> string" where
  "kv_key (Put t k v ttl) = k"
| "kv_key (Drop k) = k"

fun kv_run :: "(time \<Rightarrow> string \<Rightarrow> 'v \<Rightarrow> int \<Rightarrow> 's \<Rightarrow> 's) \<Rightarrow> (string \<Rightarrow> 's \<Rightarrow> 's) \<Rightarrow> 'v kv_op list \<Rightarrow> 's \<Rightarrow> 's" where
  "kv_run p d [] s = s"
| "kv_run p d (Put t k v ttl # ops) s = kv_run p d ops (p t k v ttl s)"
| "kv_run p d (Drop k # ops) s = kv_run p d ops (d k s)"

context kv_store begin

lemma run_other: "\<forall>x \<in> set ops. kv_key x \<noteq> k \<Longrightarrow> get t k (kv_run put drop_key ops s) = get t k s"
proof (induction ops arbitrary: s)
  case (Cons x ops)
  then show ?case by (cases x) (auto simp: get_put_other get_drop)
qed simp

lemma survives:
  assumes "storable v" and "t0 \<le> t" and "alive ttl (t - t0)" and "\<forall>x \<in> set ops. kv_key x \<noteq> k"
  shows "get t k (kv_run put drop_key ops (put t0 k v ttl s)) = Some (enc v)"
  using run_other [OF assms(4)] get_put [OF assms(1-3)] by simp

lemma dropped_stays_dropped:
  "\<forall>x \<in> set ops. kv_key x \<noteq> k \<Longrightarrow> get t k (kv_run put drop_key ops (drop_key k s)) = None"
  using run_other get_drop by simp

end

definition to_option :: "'a res \<Rightarrow> 'a option" where
  "to_option r = (case r of Inl _ \<Rightarrow> None | Inr x \<Rightarrow> Some x)"

lemma to_option_Some: "to_option r = Some x \<Longrightarrow> r = Inr x"
  by (cases r) (simp_all add: to_option_def)

interpretation mem_request: kv_store "\<lambda>t. mem_put_json" "\<lambda>t k s. to_option (mem_get_bytes k s)" mem_drop
    "dumps False False" "\<lambda>_. True" "\<lambda>_ _. True"
  by unfold_locales (auto simp: mem_put_json_def mem_get_bytes_def mem_drop_def to_option_def split: option.splits)

interpretation mem_credentials: kv_store "\<lambda>t. mem_cred_put" "\<lambda>t. mem_cred_get" mem_cred_drop "\<lambda>h. h" "\<lambda>_. True" "\<lambda>_ _. True"
  by unfold_locales (auto simp: mem_cred_put_def mem_cred_get_def mem_cred_drop_def)

text \<open>The documented behaviour of the commands, with expiry.\<close>

locale redis_kv =
  fixes R :: "'s kv_cmds"
  assumes get_set: "t0 \<le> t \<Longrightarrow> kv_get R t (kv_set R t0 k v ttl s) k = (if t < t0 + of_int ttl then Some v else None)"
    and get_set_other: "k' \<noteq> k \<Longrightarrow> kv_get R t (kv_set R t0 k v ttl s) k' = kv_get R t s k'"
    and get_del: "kv_get R t (kv_del R k s) k' = (if k' = k then None else kv_get R t s k')"

lemma credential_key_inj [simp]: "credential_key a = credential_key b \<longleftrightarrow> a = b"
  by (simp add: credential_key_def)

sublocale redis_kv \<subseteq> requests: kv_store "redis_put_json R" "\<lambda>t k s. to_option (redis_get_bytes R t k s)" "redis_drop R"
    "dumps False False" "\<lambda>_. True" "\<lambda>ttl age. age < of_int (max 60 ttl)"
  by unfold_locales
    (simp_all add: redis_put_json_def redis_get_bytes_def redis_drop_def to_option_def get_set get_set_other get_del algebra_simps)

sublocale redis_kv \<subseteq> credentials: kv_store "redis_cred_put R" "redis_cred_get R" "redis_cred_drop R"
    "\<lambda>h. h" "\<lambda>h. h \<noteq> []" "\<lambda>ttl age. age < of_int (max 60 ttl)"
  by unfold_locales
    (simp_all add: redis_cred_put_def redis_cred_get_def redis_cred_drop_def get_set get_set_other get_del algebra_simps)

text \<open>A table of values with their expiry keeps these laws.\<close>

definition expiring_cmds :: "(string \<times> time) dict kv_cmds" where
  "expiring_cmds = \<lparr>kv_set = (\<lambda>t k v ttl s. dict_set k (v, t + of_int ttl) s),
     kv_get = (\<lambda>t s k. case dict_get s k of Some (v, e) \<Rightarrow> if t < e then Some v else None | None \<Rightarrow> None),
     kv_del = dict_pop\<rparr>"

interpretation expiring: redis_kv expiring_cmds
  by unfold_locales (simp_all add: expiring_cmds_def)

subsection \<open>Properties\<close>

context redis_kv begin

lemma body_survives:
  assumes "t0 \<le> t" and "t - t0 < of_int (max 60 ttl)" and "\<forall>x \<in> set ops. kv_key x \<noteq> k"
  shows "redis_get_bytes R t k (kv_run (redis_put_json R) (redis_drop R) ops (redis_put_json R t0 k body ttl s))
    = Inr (dumps False False body)"
  by (rule to_option_Some, rule requests.survives [OF TrueI assms(1) assms(2) assms(3)])

lemma body_expires:
  assumes "t0 + of_int (max 60 ttl) \<le> t" and "\<forall>x \<in> set ops. kv_key x \<noteq> k"
  shows "redis_get_bytes R t k (kv_run (redis_put_json R) (redis_drop R) ops (redis_put_json R t0 k body ttl s))
    = Inl (RequestDataNotFound k)"
proof -
  have "(0 :: int) \<le> max 60 ttl" by simp
  then have "(0 :: rat) \<le> of_int (max 60 ttl)" by (simp only: of_int_0_le_iff)
  then have "t0 \<le> t" using assms(1) by linarith
  have "to_option (redis_get_bytes R t k (redis_put_json R t0 k body ttl s)) = None"
    using assms(1) by (simp add: redis_put_json_def redis_get_bytes_def to_option_def get_set [OF \<open>t0 \<le> t\<close>] del: of_int_max)
  then have "to_option (redis_get_bytes R t k (kv_run (redis_put_json R) (redis_drop R) ops (redis_put_json R t0 k body ttl s))) = None"
    using requests.run_other [OF assms(2)] by simp
  then show ?thesis by (auto simp: redis_get_bytes_def to_option_def split: option.splits)
qed

end

lemma mem_body_survives:
  assumes "\<forall>x \<in> set ops. kv_key x \<noteq> k"
  shows "mem_get_bytes k (kv_run (\<lambda>t. mem_put_json) mem_drop ops (mem_put_json k body ttl s)) = Inr (dumps False False body)"
proof -
  have "to_option (mem_get_bytes k (kv_run (\<lambda>t. mem_put_json) mem_drop ops (mem_put_json k body ttl s)))
      = Some (dumps False False body)"
    by (rule mem_request.survives [OF TrueI order_refl TrueI assms])
  then show ?thesis by (rule to_option_Some)
qed

lemma lifetime_covers_deadline:
  assumes "task_deadline_seconds st \<le> 3300" and "age \<le> of_int (task_deadline_seconds st)"
  shows "(age :: rat) < of_int (max 60 (body_ttl_seconds st))"
proof -
  have "task_deadline_seconds st < max 60 (body_ttl_seconds st)"
    using assms(1) by (simp add: body_ttl_seconds_def)
  then show ?thesis using assms(2) by (meson le_less_trans of_int_less_iff)
qed

lemma lifetime_capped: "body_ttl_seconds st \<le> 3600"
  by (simp add: body_ttl_seconds_def)

lemma expired_after_an_hour:
  assumes "(t0 :: rat) + 3600 \<le> t"
  shows "t0 + of_int (max 60 (body_ttl_seconds st)) \<le> t"
proof -
  have "max 60 (body_ttl_seconds st) \<le> 3600" using lifetime_capped [of st] by simp
  then have "(of_int (max 60 (body_ttl_seconds st)) :: rat) \<le> of_int 3600" by (simp only: of_int_le_iff)
  then show ?thesis using assms by simp
qed

text \<open>
  a create body written at acceptance, with the lifetime the settings give, is still there unchanged up to the
  task's deadline, in both request stores and whatever is written or dropped under other keys meanwhile, when the
  deadline is at most 55 minutes. The lifetime is capped: whatever the deadline, the Redis store has lost the body an
  hour after acceptance, which for a longer deadline is before it.
\<close>

theorem create_body_available:
  assumes "redis_kv R" and "\<forall>x \<in> set ops. kv_key x \<noteq> request_key ten tid" and "t0 \<le> t"
  shows "(task_deadline_seconds st \<le> 3300 \<and> t - t0 \<le> of_int (task_deadline_seconds st) \<longrightarrow>
        redis_get_bytes R t (request_key ten tid) (kv_run (redis_put_json R) (redis_drop R) ops
          (redis_put_json R t0 (request_key ten tid) body (body_ttl_seconds st) s)) = Inr (dumps False False body))
    \<and> mem_get_bytes (request_key ten tid) (kv_run (\<lambda>t. mem_put_json) mem_drop ops
          (mem_put_json (request_key ten tid) body (body_ttl_seconds st) m)) = Inr (dumps False False body)
    \<and> (t0 + 3600 \<le> t \<longrightarrow>
        redis_get_bytes R t (request_key ten tid) (kv_run (redis_put_json R) (redis_drop R) ops
          (redis_put_json R t0 (request_key ten tid) body (body_ttl_seconds st) s))
        = Inl (RequestDataNotFound (request_key ten tid)))"
  by (intro conjI impI redis_kv.body_survives [OF assms(1) assms(3) _ assms(2)] mem_body_survives [OF assms(2)]
      redis_kv.body_expires [OF assms(1) _ assms(2)] lifetime_covers_deadline expired_after_an_hour) simp_all

theorem create_body_available_witness:
  "redis_get_bytes expiring_cmds 1800 (request_key ''t'' ''k1'')
     (kv_run (redis_put_json expiring_cmds) (redis_drop expiring_cmds) [Drop (request_key ''t'' ''k2'')]
       (redis_put_json expiring_cmds 0 (request_key ''t'' ''k1'') (JBool True) (body_ttl_seconds default_settings) []))
   = Inr (dumps False False (JBool True))"
  using create_body_available [OF expiring.redis_kv_axioms, of "[Drop (request_key ''t'' ''k2'')]" "''t''" "''k1''" 0 1800 default_settings "JBool True" "[]"]
  by (simp add: request_key_def default_settings_def)

lemma dict_get_pops: "dict_get (fold dict_pop ks d) k = (if k \<in> set ks then None else dict_get d k)"
  by (induction ks arbitrary: d) (auto)

lemma dict_get_None_iff: "dict_get d k = None \<longleftrightarrow> k \<notin> fst ` set d"
  by (induction d) (auto split: if_splits)

text \<open>
  deleting by prefix removes exactly the objects whose key starts with it, leaves the content of every other object
  as it was, and reports how many there were.
\<close>

theorem delete_prefix_exact:
  "get_bytes key (snd (delete_prefix pre s))
     = (if starts_with pre key then Inl (ObjectNotFound key) else get_bytes key s)
   \<and> fst (delete_prefix pre s) = card {k. object_exists k s \<and> starts_with pre k}"
proof
  let ?vs = "remdups (filter (starts_with pre) (List.map fst (os_objects s)))"
  have mem: "k \<in> set ?vs \<longleftrightarrow> object_exists k s \<and> starts_with pre k" for k
    by (auto simp: object_exists_def dict_get_None_iff)
  show "get_bytes key (snd (delete_prefix pre s)) = (if starts_with pre key then Inl (ObjectNotFound key) else get_bytes key s)"
    using mem [of key]
    by (cases "dict_get (os_objects s) key")
      (auto simp: delete_prefix_def get_bytes_def object_exists_def dict_get_pops Let_def)
  have "fst (delete_prefix pre s) = card (set ?vs)"
    by (simp add: delete_prefix_def Let_def length_remdups_card_conv)
  also have "set ?vs = {k. object_exists k s \<and> starts_with pre k}" using mem by blast
  finally show "fst (delete_prefix pre s) = card {k. object_exists k s \<and> starts_with pre k}" .
qed

end
