(* ===== verification/DeriveFacts.thy ===== *)
theory DeriveFacts
  imports Derive
begin

text \<open>
  What the expansion of a draft keeps: a patch changes no field the author gave explicitly, and the expanded template read
  back from its dump is the template.
\<close>

subsection \<open>Writing a field leaves the other leaves alone\<close>

text \<open>\<open>leaf q v d\<close>: there is a value at \<open>q\<close>, and it is no object.\<close>

fun leaf :: "string list \<Rightarrow> json \<Rightarrow> jobj \<Rightarrow> bool" where
  "leaf [] v d = False"
| "leaf [k] v d = (dict_get d k = Some v \<and> \<not> is_dict v)"
| "leaf (k # k' # ks) v d = (case dict_get d k of Some (JObj c) \<Rightarrow> leaf (k' # ks) v c | _ \<Rightarrow> False)"

lemma set_in_leaf:
  assumes "set_in p x d = Inr d'" and "leaf q v d" and "\<not> Sublist.prefix p q"
  shows "leaf q v d'"
  using assms
proof (induction p x d arbitrary: d' q rule: set_in.induct)
  case (2 k x d)
  then show ?case by (cases "(q, v, d)" rule: leaf.cases) (auto split: option.splits json.splits)
next
  case (3 k k' ks x d)
  show ?case
  proof (cases "hd q = k")
    case False
    with 3 show ?thesis
      by (cases "(q, v, d)" rule: leaf.cases) (auto simp: bind_res_Inr_iff split: option.splits json.splits)
  next
    case True
    then show ?thesis using 3
      by (cases "(q, v, d)" rule: leaf.cases) (auto simp: bind_res_Inr_iff split: option.splits json.splits)
  qed
qed simp

definition pinned :: "provenance \<Rightarrow> string list \<Rightarrow> bool" where
  "pinned prov q \<longleftrightarrow> (\<forall>p. p \<noteq> [] \<and> Sublist.prefix p q \<longrightarrow> dict_get prov (join ''.'' p) = Some FS_EXPLICIT)"

lemma pinned_other:
  assumes "pinned prov q" and "dict_get prov dotted \<noteq> Some FS_EXPLICIT"
  shows "\<not> Sublist.prefix (dotted_parts dotted) q \<and> pinned (dict_set dotted s prov) q"
proof -
  have "dotted_parts dotted \<noteq> []" by (cases dotted) (auto simp: dotted_parts_def split: list.splits)
  then have "\<not> Sublist.prefix (dotted_parts dotted) q"
    using assms join_split_on [of "CHR ''.''" dotted] by (auto simp: pinned_def dotted_parts_def)
  then show ?thesis using assms by (auto simp: pinned_def)
qed

lemma apply_fields_leaf:
  assumes "apply_fields fs (payload, prov) = Inr (payload', prov')" and "pinned prov q" and "leaf q v payload"
  shows "leaf q v payload' \<and> pinned prov' q"
  using assms
proof (induction fs "(payload, prov)" arbitrary: payload prov rule: apply_fields.induct)
  case (2 dotted x fs payload prov)
  show ?case
  proof (cases "dict_get prov dotted = Some FS_EXPLICIT")
    case True
    then show ?thesis using 2 by auto
  next
    case False
    then obtain p1 where p1: "set_in (dotted_parts dotted) x payload = Inr p1"
        "apply_fields fs (p1, dict_set dotted FS_PATCHED prov) = Inr (payload', prov')"
      using 2(3) by (auto simp: bind_res_Inr_iff)
    then show ?thesis
      using 2(2) [OF False p1(2)] pinned_other [OF 2(4) False] set_in_leaf [OF p1(1) 2(5)] by blast
  qed
qed simp

lemma apply_platform_patches_leaf:
  assumes "apply_platform_patches alias url ps (payload, prov) = Inr ((payload', prov'), ids)"
    and "pinned prov q" and "leaf q v payload"
  shows "leaf q v payload'"
  using assms
proof (induction ps arbitrary: payload prov ids)
  case (Cons p ps)
  show ?case
  proof (cases "patch_matches p alias url = Inr True")
    case True
    then obtain p1 v1 ids1 where "apply_fields (pp_fields p) (payload, prov) = Inr (p1, v1)"
        "apply_platform_patches alias url ps (p1, v1) = Inr ((payload', prov'), ids1)"
      using Cons(2) by (auto simp: bind_res_Inr_iff)
    then show ?thesis using Cons(1) apply_fields_leaf [OF _ Cons(3,4)] by blast
  next
    case False
    then have "apply_platform_patches alias url ps (payload, prov) = Inr ((payload', prov'), ids)"
      using Cons(2) by (auto simp: bind_res_Inr_iff split: if_splits)
    then show ?thesis using Cons(1,3,4) by blast
  qed
qed simp

subsection \<open>What a template is read from\<close>

lemma required_Some: "required d k f = Some x \<longleftrightarrow> (\<exists>v. dict_get d k = Some v \<and> f v = Some x)"
  by (simp add: required_def split: option.splits)

lemma read_resolved_texts:
  assumes "read_resolved L P prov d = Some r"
  shows "required d ''alias'' (read_str P) = Some (rt_alias r) \<and> required d ''namespace'' (read_str P) = Some (rt_namespace r)
    \<and> required d ''base_url'' (read_str P) = Some (rt_base_url r) \<and> required d ''create_path'' (read_str P) = Some (rt_create_path r)
    \<and> required d ''create_method'' (read_str P) = Some (rt_create_method r)
    \<and> required d ''get_path_template'' (read_str P) = Some (rt_get_path_template r)
    \<and> required d ''cancel_path_template'' (read_str P) = Some (rt_cancel_path_template r)
    \<and> required d ''id_location'' (read_str P) = Some (rt_id_location r)
    \<and> required d ''status_field'' (read_str P) = Some (rt_status_field r)
    \<and> required d ''result_location'' (read_str P) = Some (rt_result_location r)
    \<and> required d ''pool'' (read_str P) = Some (rt_pool r)
    \<and> required d ''callback_param'' (read_str P) = Some (rt_callback_param r)
    \<and> required d ''capabilities'' (read_capabilities P) = Some (rt_capabilities r)
    \<and> required d ''status_source'' (read_one_of status_source_names) = Some (rt_status_source r)"
  using assms by (auto simp: read_resolved_def only_fields_def bind_eq_Some_conv split: if_splits)

lemma read_str_JStr [simp]: "keeps_typed_values P \<Longrightarrow> read_str P (JStr s) = Some s"
  and read_bool_JBool [simp]: "keeps_typed_values P \<Longrightarrow> read_bool P (JBool b) = Some b"
  and read_whole_JInt [simp]: "keeps_typed_values P \<Longrightarrow> read_whole P (JInt i) = Some i"
  by (simp_all add: keeps_typed_values_def read_str_def read_bool_def read_whole_def)

lemma required_leaf:
  "leaf [k] (JStr s) d \<Longrightarrow> keeps_typed_values P \<Longrightarrow> required d k (read_str P) = Some x \<Longrightarrow> x = s"
  by (simp add: required_def)

subsection \<open>The sources of a draft's fields\<close>

lemma dict_get_dict_update_explicit:
  assumes "(k, c) \<in> set e" and "\<And>s. (k, s) \<in> set e \<Longrightarrow> s = c"
  shows "dict_get (dict_update [] e) k = Some c"
proof -
  have "k \<in> fst ` set (rev e)" using image_eqI [OF _ assms(1), of k fst] by simp
  then obtain s where s: "dict_get (rev e) k = Some s"
    by (metis dict_get_def map_of_eq_None_iff not_Some_eq)
  then have "(k, s) \<in> set e" by (metis dict_get_def map_of_SomeD set_rev)
  with s assms(2) show ?thesis by (simp add: dict_get_update)
qed

lemma leaf_sources_explicit: "(k, s) \<in> set (leaf_sources part x) \<Longrightarrow> s = FS_EXPLICIT"
  by (auto simp: leaf_sources_def split: option.splits)

lemma leaf_sources_in: "f \<in> set names \<Longrightarrow> (part @ ''.'' @ f, FS_EXPLICIT) \<in> set (leaf_sources part (Some (v, names)))"
  by (auto simp: leaf_sources_def)

lemma strategy_sources_explicit:
  "(k, s) \<in> set (case st of None \<Rightarrow> [] | Some st \<Rightarrow> List.map (\<lambda>(k, v). (''strategy.'' @ k, FS_EXPLICIT)) st) \<Longrightarrow> s = FS_EXPLICIT"
  by (auto split: option.splits)

lemma prefix_one: "p \<noteq> [] \<and> Sublist.prefix p [k] \<longleftrightarrow> p = [k]"
  by (cases p) auto

lemma prefix_two: "p \<noteq> [] \<and> Sublist.prefix p [k, k'] \<longleftrightarrow> p = [k] \<or> p = [k, k']"
  by (cases p; cases "List.tl p") auto

lemma pinned_top: "pinned prov [k] \<longleftrightarrow> dict_get prov k = Some FS_EXPLICIT"
  by (simp add: pinned_def prefix_one)

lemma pinned_sub:
  "pinned prov [k, k'] \<longleftrightarrow> dict_get prov k = Some FS_EXPLICIT \<and> dict_get prov (k @ ''.'' @ k') = Some FS_EXPLICIT"
  unfolding pinned_def prefix_two by (metis join.simps(2,3))

text \<open>\<open>marks e k\<close>: the entry \<open>k\<close> is explicit whenever it is set.\<close>

definition marks :: "provenance \<Rightarrow> string \<Rightarrow> bool" where
  "marks e k \<longleftrightarrow> (\<forall>s. (k, s) \<in> set e \<longrightarrow> s = FS_EXPLICIT)"

lemma marks_Nil [simp]: "marks [] k"
  and marks_Cons [simp]: "marks ((j, s) # e) k \<longleftrightarrow> (j = k \<longrightarrow> s = FS_EXPLICIT) \<and> marks e k"
  and marks_append [simp]: "marks (a @ b) k \<longleftrightarrow> marks a k \<and> marks b k"
  by (auto simp: marks_def)

lemma marks_if [simp]: "marks (if c then a else b) k \<longleftrightarrow> (if c then marks a k else marks b k)"
  by simp

lemma marks_leaves [simp]: "marks (leaf_sources part x) k"
  by (simp add: marks_def leaf_sources_explicit)

lemma marks_strategy [simp]:
  "marks (case st of None \<Rightarrow> [] | Some st \<Rightarrow> List.map (\<lambda>(k, v). (''strategy.'' @ k, FS_EXPLICIT)) st) k"
  by (auto simp: marks_def split: option.splits)

lemma explicit_entry:
  "(k, FS_EXPLICIT) \<in> set e \<Longrightarrow> marks e k \<Longrightarrow> dict_get (dict_update [] e) k = Some FS_EXPLICIT"
  by (rule dict_get_dict_update_explicit) (auto simp: marks_def)

lemma explicit_text:
  "pinned (draft_provenance t) [''base_url'']" "pinned (draft_provenance t) [''create_path'']"
  "pinned (draft_provenance t) [''alias'']" "pinned (draft_provenance t) [''result_location'']"
  unfolding pinned_top draft_provenance_def by (rule explicit_entry; simp)+

lemma explicit_option:
  "td_get_path_template t = Some (c # s) \<Longrightarrow> pinned (draft_provenance t) [''get_path_template'']"
  "td_cancel_path_template t = Some (c # s) \<Longrightarrow> pinned (draft_provenance t) [''cancel_path_template'']"
  "td_id_location t = Some (c # s) \<Longrightarrow> pinned (draft_provenance t) [''id_location'']"
  "td_status_field t = Some (c # s) \<Longrightarrow> pinned (draft_provenance t) [''status_field'']"
  "td_callback_param t = Some (c # s) \<Longrightarrow> pinned (draft_provenance t) [''callback_param'']"
  "td_status_source t = Some src \<Longrightarrow> pinned (draft_provenance t) [''status_source'']"
  unfolding pinned_top draft_provenance_def by (rule explicit_entry; simp add: text_source_def source_of_def)+

lemma explicit_capability:
  assumes "td_capabilities t = Some (c, names)" and "f \<in> set names"
  shows "pinned (draft_provenance t) [''capabilities'', f]"
proof -
  have "(''capabilities'' @ ''.'' @ f, FS_EXPLICIT) \<in> set (leaf_sources ''capabilities'' (td_capabilities t))"
    unfolding assms(1) by (rule leaf_sources_in [OF assms(2)])
  then have "dict_get (draft_provenance t) (''capabilities'' @ ''.'' @ f) = Some FS_EXPLICIT"
    unfolding draft_provenance_def by - (rule explicit_entry; simp)
  moreover have "dict_get (draft_provenance t) ''capabilities'' = Some FS_EXPLICIT"
    unfolding draft_provenance_def by (rule explicit_entry; simp add: assms(1) source_of_def)
  ultimately show ?thesis by (simp add: pinned_sub)
qed

lemma resolve_payload:
  assumes "resolve L P st patches t = Inr (r, ids)"
  shows "\<exists>payload prov. read_resolved L P prov payload = Some r
    \<and> (\<forall>q v. pinned (draft_provenance t) q \<longrightarrow> leaf q v (draft_payload L st t) \<longrightarrow> leaf q v payload)"
proof -
  obtain payload prov ids' where a: "patched_draft L st patches t = Inr ((payload, prov), ids')"
      "read_resolved L P prov payload = Some r"
    using assms by (auto simp: resolve_def bind_res_Inr_iff split: option.splits)
  show ?thesis using a(2) apply_platform_patches_leaf [OF a(1) [unfolded patched_draft_def]] by blast
qed

lemma draft_payload_texts:
  "leaf [''base_url''] (JStr (td_base_url t)) (draft_payload L st t)"
  "leaf [''create_path''] (JStr (td_create_path t)) (draft_payload L st t)"
  "leaf [''alias''] (JStr (td_alias t)) (draft_payload L st t)"
  "leaf [''result_location''] (JStr (td_result_location t)) (draft_payload L st t)"
  "td_get_path_template t = Some (c # s) \<Longrightarrow> leaf [''get_path_template''] (JStr (c # s)) (draft_payload L st t)"
  "td_cancel_path_template t = Some (c # s) \<Longrightarrow> leaf [''cancel_path_template''] (JStr (c # s)) (draft_payload L st t)"
  "td_id_location t = Some (c # s) \<Longrightarrow> leaf [''id_location''] (JStr (c # s)) (draft_payload L st t)"
  "td_status_field t = Some (c # s) \<Longrightarrow> leaf [''status_field''] (JStr (c # s)) (draft_payload L st t)"
  "td_callback_param t = Some (c # s) \<Longrightarrow> leaf [''callback_param''] (JStr (c # s)) (draft_payload L st t)"
  "td_status_source t = Some src \<Longrightarrow> leaf [''status_source''] (JStr (status_source_value src)) (draft_payload L st t)"
  by (simp_all add: draft_payload_def Let_def or_str_def)

lemma draft_payload_capabilities:
  assumes "td_capabilities t = Some (c, names)"
  shows "leaf [''capabilities'', ''confirm_strategy''] (JStr (confirm_strategy_value (cap_confirm_strategy c))) (draft_payload L st t)"
    "leaf [''capabilities'', ''upstream_idempotent''] (JBool (cap_upstream_idempotent c)) (draft_payload L st t)"
    "leaf [''capabilities'', ''cancel''] (JBool (cap_cancel c)) (draft_payload L st t)"
    "leaf [''capabilities'', ''callback''] (JBool (cap_callback c)) (draft_payload L st t)"
  using assms by (simp_all add: draft_payload_def Let_def part_of_def dump_capabilities_def)

lemma read_capabilities_fields:
  assumes "read_capabilities P v = Some c" and "v = JObj d"
  shows "field_or d ''confirm_strategy'' (read_one_of confirm_strategy_names) CS_MANUAL_ONLY = Some (cap_confirm_strategy c)
    \<and> field_or d ''upstream_idempotent'' (read_bool P) False = Some (cap_upstream_idempotent c)
    \<and> field_or d ''cancel'' (read_bool P) False = Some (cap_cancel c)
    \<and> field_or d ''callback'' (read_bool P) False = Some (cap_callback c)"
  using assms by (auto simp: read_capabilities_def only_fields_def bind_eq_Some_conv split: if_splits)

lemma confirm_strategy_read [simp]: "map_of confirm_strategy_names (confirm_strategy_value s) = Some s"
  by (cases s) (simp_all add: confirm_strategy_names_def)

lemma status_source_read [simp]: "map_of status_source_names (status_source_value s) = Some s"
  by (cases s) (simp_all add: status_source_names_def)

definition kept_capabilities :: "string list \<Rightarrow> capabilities \<Rightarrow> capabilities \<Rightarrow> bool" where
  "kept_capabilities names a b \<longleftrightarrow>
     (''confirm_strategy'' \<in> set names \<longrightarrow> cap_confirm_strategy b = cap_confirm_strategy a)
   \<and> (''upstream_idempotent'' \<in> set names \<longrightarrow> cap_upstream_idempotent b = cap_upstream_idempotent a)
   \<and> (''cancel'' \<in> set names \<longrightarrow> cap_cancel b = cap_cancel a)
   \<and> (''callback'' \<in> set names \<longrightarrow> cap_callback b = cap_callback a)"

lemma capabilities_kept:
  assumes "required payload ''capabilities'' (read_capabilities P) = Some b" and "keeps_typed_values P"
    and td: "td_capabilities t = Some (a, names)"
    and keep: "\<And>q v. pinned (draft_provenance t) q \<Longrightarrow> leaf q v (draft_payload L st t) \<Longrightarrow> leaf q v payload"
  shows "kept_capabilities names a b"
proof -
  obtain v where v: "dict_get payload ''capabilities'' = Some v" "read_capabilities P v = Some b"
    using assms(1) by (auto simp: required_Some)
  then obtain d where d: "v = JObj d" by (cases v) (auto simp: read_capabilities_def only_fields_def)
  note read = read_capabilities_fields [OF v(2) d]
  have here: "field_or d k f x = f w" if "k \<in> set names" "leaf [''capabilities'', k] w (draft_payload L st t)" for k f x w
    using keep [OF explicit_capability [OF td that(1)] that(2)] v(1) d by (auto simp: field_or_def)
  note at_draft = draft_payload_capabilities [OF td]
  have "cap_confirm_strategy b = cap_confirm_strategy a" if "''confirm_strategy'' \<in> set names"
    using read here [OF that at_draft(1), of "read_one_of confirm_strategy_names" CS_MANUAL_ONLY] by (simp add: read_one_of_def)
  moreover have "cap_upstream_idempotent b = cap_upstream_idempotent a" if "''upstream_idempotent'' \<in> set names"
    using read here [OF that at_draft(2), of "read_bool P" False] assms(2) by simp
  moreover have "cap_cancel b = cap_cancel a" if "''cancel'' \<in> set names"
    using read here [OF that at_draft(3), of "read_bool P" False] assms(2) by simp
  moreover have "cap_callback b = cap_callback a" if "''callback'' \<in> set names"
    using read here [OF that at_draft(4), of "read_bool P" False] assms(2) by simp
  ultimately show ?thesis by (simp add: kept_capabilities_def)
qed

subsection \<open>Reading a dump\<close>

lemma those_map_id: "(\<And>x. x \<in> set xs \<Longrightarrow> f (g x) = Some x) \<Longrightarrow> those (List.map f (List.map g xs)) = Some xs"
  by (induction xs) auto

lemma read_strs [simp]: "keeps_typed_values P \<Longrightarrow> read_list (read_str P) (strs xs) = Some xs"
  using those_map_id [of xs "read_str P" JStr] by (simp add: read_list_def strs_def comp_def)

lemma read_strs_or_one [simp]: "keeps_typed_values P \<Longrightarrow> read_strs_or_one P (strs xs) = Some xs"
  using read_strs [of P xs] by (simp add: read_strs_or_one_def strs_def)

lemma read_opt_str [simp]: "keeps_typed_values P \<Longrightarrow> read_opt (read_str P) (opt_str x) = Some x"
  by (cases x) (simp_all add: read_opt_def opt_str_def)

lemma read_opt_int [simp]: "keeps_typed_values P \<Longrightarrow> read_opt (read_whole P) (opt_int x) = Some x"
  by (cases x) (simp_all add: read_opt_def opt_int_def)

lemma read_opt_obj [simp]: "read_opt read_obj (opt_obj x) = Some x"
  by (cases x) (simp_all add: read_opt_def opt_obj_def read_obj_def)

lemma read_headers [simp]: "keeps_typed_values P \<Longrightarrow> read_dict (read_str P) (dump_headers hs) = Some hs"
  using those_map_id [of hs "\<lambda>(k, x). map_option (Pair k) (read_str P x)" "\<lambda>(k, v). (k, JStr v)"]
  by (simp add: read_dict_def dump_headers_def case_prod_beta comp_def)

lemma result_mode_read [simp]: "map_of result_mode_names (result_mode_value m) = Some m"
  by (cases m) (simp_all add: result_mode_names_def)

lemma read_dump_capabilities [simp]: "keeps_typed_values P \<Longrightarrow> read_capabilities P (dump_capabilities c) = Some c"
  by (simp add: read_capabilities_def dump_capabilities_def only_fields_def capability_fields_def field_or_def read_one_of_def)

lemma read_dump_terminal [simp]: "keeps_typed_values P \<Longrightarrow> read_terminal P (dump_terminal m) = Some m"
  by (simp add: read_terminal_def dump_terminal_def only_fields_def terminal_fields_def field_or_def)

lemma read_dump_result_policy [simp]: "keeps_typed_values P \<Longrightarrow> read_result_policy P (dump_result_policy p) = Some p"
  by (simp add: read_result_policy_def dump_result_policy_def only_fields_def result_policy_fields_def field_or_def read_one_of_def)

lemma read_dump_normalize [simp]: "keeps_typed_values P \<Longrightarrow> read_normalize P (dump_normalize n) = Some n"
  by (simp add: read_normalize_def dump_normalize_def only_fields_def normalize_fields_def field_or_def)

subsection \<open>Samples\<close>

text \<open>A pydantic that takes values as they are, a draft and a patch for the witnesses.\<close>

definition plain_pydantic :: pydantic where
  "plain_pydantic = \<lparr>pd_coerce = (\<lambda>ty v. Some v), pd_errors = (\<lambda>v. [''<root>''])\<rparr>"

lemma plain_pydantic_keeps: "keeps_typed_values plain_pydantic"
  by (simp add: keeps_typed_values_def plain_pydantic_def)

definition sample_draft :: template_draft where
  "sample_draft = \<lparr>td_alias = ''video-x'', td_base_url = ''https://up.example'', td_create_path = ''/v1/tasks'',
     td_result_location = ''$.url'', td_id_location = None, td_get_path_template = None, td_cancel_path_template = None,
     td_status_field = None, td_terminal = None,
     td_capabilities = Some (default_capabilities\<lparr>cap_cancel := True\<rparr>, [''cancel'']), td_result_policy = None, td_pool = None,
     td_status_source = None, td_callback_param = None, td_namespace = None, td_create_method = ''POST'', td_get_method = ''GET'',
     td_cancel_method = ''DELETE'', td_extra_headers = [], td_request_body_template = None, td_normalize = None,
     td_strategy = None, td_notes = None\<rparr>"

definition sample_patch :: platform_patch where
  "sample_patch = \<lparr>pp_id = ''p1'', pp_fields = [(''base_url'', JStr ''https://other.example''),
       (''capabilities.cancel'', JBool False), (''status_field'', JStr ''$.state'')],
     pp_match_hosts = [], pp_match_aliases = [''video-x'']\<rparr>"

definition three_lib :: pylib where
  "three_lib = sample_lib\<lparr>lib_float := (\<lambda>_. Some 3)\<rparr>"

definition resolved_sample :: "(resolved_template \<times> string list) res" where
  "resolved_sample = resolve three_lib plain_pydantic default_settings [sample_patch] sample_draft"

lemma resolved_sample_value:
  "(case resolved_sample of Inl e \<Rightarrow> None
    | Inr (r, ids) \<Rightarrow> Some (rt_status_field r, rt_namespace r, ids)) = Some (''$.state'', ''video'', [''p1''])"
  by code_simp

subsection \<open>Properties\<close>



text \<open>
  The dump of a template reads back as the template, so it determines it: comparing dumps compares templates, and the
  version hash covers every field but the provenance. Strategy values have to be what the dump can write: whole numbers, and
  for the refresh interval a number the text of a float reads back as.
\<close>

theorem template_dump_round_trip:
  assumes "keeps_typed_values P"
    and "list_all (\<lambda>(k, v). read_number L (dump_number L k v) = Some v) (rt_strategy t)"
  shows "read_resolved L P (rt_provenance t) (resolved_to_raw_dict L t) = Some t"
proof -
  have "read_dict (read_number L) (dump_strategy L (rt_strategy t)) = Some (rt_strategy t)"
    using those_map_id [of "rt_strategy t" "\<lambda>(k, x). map_option (Pair k) (read_number L x)" "\<lambda>(k, r). (k, dump_number L k r)"] assms(2)
    by (auto simp: read_dict_def dump_strategy_def list_all_iff case_prod_beta comp_def)
  moreover have "read_one_of status_source_names (JStr (status_source_value s)) = Some s" for s
    by (simp add: read_one_of_def)
  ultimately show ?thesis using assms(1)
    by (simp add: read_resolved_def resolved_to_raw_dict_def only_fields_def resolved_fields_def required_def field_or_def)
qed

theorem template_dump_round_trip_witness:
  "read_resolved three_lib plain_pydantic (rt_provenance sample_template) (resolved_to_raw_dict three_lib sample_template) = Some sample_template"
  by (rule template_dump_round_trip [OF plain_pydantic_keeps], code_simp)

end
