(* ===== verification/RegistryFacts.thy ===== *)
theory RegistryFacts
  imports Registry DeriveFacts
begin

text \<open>
  What the checks of a template give: only well-formed templates are registered, a registered version is found again, a
  change of where requests go or what may be retried is never applied in place nor without a second reviewer, and a version
  built from a channel's inline configuration stays below its path prefixes.
\<close>

subsection \<open>Flattened templates\<close>

lemma keys_dict_set [simp]: "fst ` set (dict_set k v d) = insert k (fst ` set d)"
  by (simp add: dict_set_def dom_update)

lemma keys_dict_update [simp]: "fst ` set (dict_update d e) = fst ` set d \<union> fst ` set e"
  by (induction d e rule: dict_update.induct) auto

definition shifted :: "string \<Rightarrow> jobj \<Rightarrow> jobj" where
  "shifted pre d = List.map (\<lambda>(k, v). (pre @ k, v)) d"

lemma shifted_Nil [simp]: "shifted pre [] = []"
  by (simp add: shifted_def)

lemma dict_set_shifted: "dict_set (pre @ k) v (shifted pre d) = shifted pre (dict_set k v d)"
  unfolding shifted_def dict_set_def by (induction d) auto

lemma dict_update_shifted: "dict_update (shifted pre d) (shifted pre e) = shifted pre (dict_update d e)"
proof (induction d e rule: dict_update.induct)
  case (2 d k v e)
  then show ?case by (simp add: dict_set_shifted [symmetric]) (simp add: shifted_def)
qed simp

lemma dict_get_shifted [simp]: "dict_get (shifted pre d) (pre @ k) = dict_get d k"
  unfolding shifted_def by (induction d) auto

lemma flatten_into_shifted: "flatten_into (pre @ q) d (shifted pre out) = shifted pre (flatten_into q d out)"
proof (induction q d out rule: flatten_into.induct)
  case (2 q k v d out)
  then show ?case
    using dict_set_shifted [of pre "q @ k"] by (cases v) (simp_all add: dict_update_shifted del: append_assoc add: append_assoc [symmetric])
qed simp

lemma flatten_shifted: "flatten_into pre d [] = shifted pre (flatten d)"
  using flatten_into_shifted [of pre "[]" d "[]"] by (simp add: flatten_def)

lemma dotted_inj: "CHR ''.'' \<notin> set a \<Longrightarrow> CHR ''.'' \<notin> set b \<Longrightarrow> a @ CHR ''.'' # x = b @ CHR ''.'' # y \<longleftrightarrow> a = b \<and> x = y"
  by (induction a arbitrary: b) (case_tac b; auto)+

lemma keys_shifted [simp]: "fst ` set (shifted pre d) = (\<lambda>k. pre @ k) ` fst ` set d"
  by (force simp: shifted_def)

text \<open>Without dots in the keys of the object, its entries are found under their own names \<dots>\<close>

definition plain_keys :: "jobj \<Rightarrow> bool" where
  "plain_keys d \<longleftrightarrow> distinct (List.map fst d) \<and> list_all (\<lambda>(k, v). CHR ''.'' \<notin> set k) d"

lemma plain_keys_Nil [simp]: "plain_keys []"
  and plain_keys_Cons [simp]: "plain_keys ((k, v) # d) \<longleftrightarrow> k \<notin> fst ` set d \<and> CHR ''.'' \<notin> set k \<and> plain_keys d"
  by (auto simp: plain_keys_def)

lemma dict_get_absent: "k \<notin> fst ` set d \<Longrightarrow> dict_get d k = None"
  by (simp add: dict_get_def map_of_eq_None_iff)

lemma flatten_into_top:
  assumes "plain_keys d" and "CHR ''.'' \<notin> set key"
  shows "dict_get (flatten_into [] d out) key = (case dict_get d key of Some v \<Rightarrow> Some v | None \<Rightarrow> dict_get out key)"
  using assms(1)
proof (induction d arbitrary: out)
  case (Cons x d)
  obtain k v where x: "x = (k, v)" by (cases x)
  have nested: "key \<notin> fst ` set (flatten_into (k @ ''.'') c [])" for c
    using assms(2) by (auto simp: flatten_shifted)
  have "k \<notin> fst ` set d" using Cons(2) x by simp
  then show ?case using Cons nested by (cases v) (auto simp: x dict_get_absent split: option.splits)
qed simp

text \<open>\<dots> and those of an object inside it under dotted names.\<close>

lemma flatten_into_nested:
  assumes "plain_keys d" and "CHR ''.'' \<notin> set key"
  shows "dict_get (flatten_into [] d out) (key @ CHR ''.'' # r) =
     (case dict_get d key of Some (JObj c) \<Rightarrow> (case dict_get (rev (flatten c)) r of Some v \<Rightarrow> Some v | None \<Rightarrow> dict_get out (key @ CHR ''.'' # r))
      | _ \<Rightarrow> dict_get out (key @ CHR ''.'' # r))"
  using assms(1)
proof (induction d arbitrary: out)
  case (Cons x d)
  obtain k v where x: "x = (k, v)" by (cases x)
  have kd: "k \<notin> fst ` set d" "CHR ''.'' \<notin> set k" using Cons(2) x by auto
  have other: "k \<noteq> key \<Longrightarrow> key @ CHR ''.'' # r \<notin> fst ` set (flatten_into (k @ ''.'') c [])" for c
    using dotted_inj [OF assms(2) kd(2)] by (auto simp: flatten_shifted)
  have mine: "dict_get (rev (flatten_into (key @ ''.'') c [])) (key @ CHR ''.'' # r) = dict_get (rev (flatten c)) r" for c
    using dict_get_shifted [of "key @ ''.''" "rev (flatten c)" r] by (simp add: flatten_shifted shifted_def rev_map)
  define out' where "out' = (case v of JObj c \<Rightarrow> dict_update (dict_set ([] @ k) v out) (flatten_into ([] @ k @ ''.'') c []) | _ \<Rightarrow> dict_set ([] @ k) v out)"
  have now: "flatten_into [] (x # d) out = flatten_into [] d out'" by (simp add: x out'_def)
  have k: "k \<noteq> key @ CHR ''.'' # r" using kd(2) by auto
  have rest: "plain_keys d" using Cons(2) x by simp
  show ?case
  proof (cases "k = key")
    case True
    then have "dict_get d key = None" using kd(1) dict_get_absent by blast
    moreover have "dict_get out' (key @ CHR ''.'' # r) = (case v of
        JObj c \<Rightarrow> (case dict_get (rev (flatten c)) r of Some v \<Rightarrow> Some v | None \<Rightarrow> dict_get out (key @ CHR ''.'' # r))
      | _ \<Rightarrow> dict_get out (key @ CHR ''.'' # r))"
      using k mine True by (cases v) (auto simp: out'_def dict_get_update split: option.splits)
    ultimately show ?thesis using Cons(1) [OF rest, of out'] True unfolding now by (simp add: x)
  next
    case False
    then have same: "dict_get out' (key @ CHR ''.'' # r) = dict_get out (key @ CHR ''.'' # r)"
      using k other [OF False] by (cases v) (auto simp: out'_def)
    then show ?thesis using Cons(1) [OF rest, of out'] False unfolding now same by (simp add: x)
  qed
qed simp

lemma flatten_top: "plain_keys d \<Longrightarrow> CHR ''.'' \<notin> set key \<Longrightarrow> dict_get (flatten d) key = dict_get d key"
  unfolding flatten_def using flatten_into_top [of d key "[]"] by (auto split: option.splits)

lemma flatten_nested:
  "plain_keys d \<Longrightarrow> CHR ''.'' \<notin> set key \<Longrightarrow> dict_get (flatten d) (key @ CHR ''.'' # r) =
     (case dict_get d key of Some (JObj c) \<Rightarrow> dict_get (rev (flatten c)) r | _ \<Rightarrow> None)"
  unfolding flatten_def [of d] using flatten_into_nested [of d key "[]" r]
  by (auto simp: flatten_def split: option.splits json.splits)

lemma flatten_plain:
  assumes "plain_keys d" and "list_all (\<lambda>(k, v). \<not> is_dict v) d"
  shows "flatten d = d"
proof -
  have "flatten_into [] d out = out @ d" if "plain_keys d" "list_all (\<lambda>(k, v). \<not> is_dict v) d" "fst ` set out \<inter> fst ` set d = {}" for out
    using that
  proof (induction d arbitrary: out)
    case (Cons x d)
    obtain k v where x: "x = (k, v)" by (cases x)
    have "k \<notin> fst ` set out" using Cons(4) x by auto
    then have "dict_set k v out = out @ [(k, v)]" unfolding dict_set_def by (induction out) auto
    then show ?case using Cons by (cases v) (auto simp: x)
  qed simp
  then show ?thesis using assms by (simp add: flatten_def)
qed

subsection \<open>Changed fields\<close>

lemma dump_plain: "plain_keys (resolved_to_raw_dict L t)"
  by (simp add: resolved_to_raw_dict_def)

definition noted_change :: "pylib \<Rightarrow> resolved_template \<Rightarrow> resolved_template \<Rightarrow> string \<Rightarrow> bool" where
  "noted_change L a b k \<longleftrightarrow> \<not> opt_eq L (dict_get (flatten (resolved_to_raw_dict L a)) k) (dict_get (flatten (resolved_to_raw_dict L b)) k)"

lemma opt_eq_refl [simp]: "opt_eq L x x"
  by (simp add: opt_eq_def)

lemma changed_fields_iff:
  "k \<in> set (changed_fields L a b) \<longleftrightarrow> noted_change L a b k \<and> (\<forall>j. noted_change L a b j \<longrightarrow> \<not> starts_with (k @ ''.'') j)"
proof -
  have "noted_change L a b j \<Longrightarrow> j \<in> fst ` set (flatten (resolved_to_raw_dict L a)) \<union> fst ` set (flatten (resolved_to_raw_dict L b))" for j
    by (rule ccontr) (simp add: noted_change_def dict_get_absent)
  then show ?thesis by (auto simp: changed_fields_def Let_def list_ex_iff noted_change_def)
qed

lemma starts_with_iff: "starts_with p s \<longleftrightarrow> (\<exists>r. s = p @ r)"
  unfolding starts_with_def by (metis append_eq_conv_conj)

text \<open>A field that is no object has no fields below it.\<close>

lemma changed_text:
  assumes "CHR ''.'' \<notin> set k" and "dict_get (resolved_to_raw_dict L a) k = Some u" and "dict_get (resolved_to_raw_dict L b) k = Some v"
    and "\<not> is_dict u" and "\<not> is_dict v" and "\<not> opt_eq L (Some u) (Some v)"
  shows "k \<in> set (changed_fields L a b)"
proof -
  have "\<not> noted_change L a b (k @ CHR ''.'' # r)" for r
    using assms by (cases u; cases v) (simp_all add: noted_change_def flatten_nested [OF dump_plain] del: append_assoc)
  then show ?thesis
    using assms by (auto simp: changed_fields_iff starts_with_iff) (simp add: noted_change_def flatten_top [OF dump_plain])
qed

text \<open>A field of an object whose fields are no objects.\<close>

lemma changed_leaf:
  assumes "CHR ''.'' \<notin> set k" and "CHR ''.'' \<notin> set j" and "dict_get (resolved_to_raw_dict L a) k = Some (JObj u)"
    and "dict_get (resolved_to_raw_dict L b) k = Some (JObj v)" and "plain_keys u" and "plain_keys v"
    and "list_all (\<lambda>(k, v). \<not> is_dict v) u" and "list_all (\<lambda>(k, v). \<not> is_dict v) v"
    and "\<not> opt_eq L (dict_get (rev u) j) (dict_get (rev v) j)"
  shows "k @ CHR ''.'' # j \<in> set (changed_fields L a b)"
proof -
  have u: "flatten u = u" "flatten v = v" using assms by (auto intro: flatten_plain)
  have keys: "CHR ''.'' \<in> set s \<Longrightarrow> plain_keys w \<Longrightarrow> dict_get (rev w) s = None" for s w
    by (rule dict_get_absent) (auto simp: plain_keys_def list_all_iff)
  have at: "noted_change L a b (k @ CHR ''.'' # r) \<longleftrightarrow> \<not> opt_eq L (dict_get (rev u) r) (dict_get (rev v) r)" for r
    using assms by (simp add: noted_change_def flatten_nested [OF dump_plain] u)
  have "\<not> noted_change L a b (k @ CHR ''.'' # j @ CHR ''.'' # r)" for r
    using at [of "j @ CHR ''.'' # r"] keys [OF _ assms(5)] keys [OF _ assms(6)] by simp
  then show ?thesis using at [of j] assms(9) by (auto simp: changed_fields_iff starts_with_iff)
qed

lemma json_eq_texts [simp]: "json_eq L (JStr a) (JStr b) \<longleftrightarrow> a = b" "json_eq L (JBool c) (JBool d) \<longleftrightarrow> c = d"
    "json_eq L (JInt i) (JInt j) \<longleftrightarrow> i = j"
  by auto

lemma confirm_strategy_value_inj [simp]: "confirm_strategy_value x = confirm_strategy_value y \<longleftrightarrow> x = y"
  by (metis confirm_strategy_read option.inject)

lemma status_source_value_inj [simp]: "status_source_value x = status_source_value y \<longleftrightarrow> x = y"
  by (metis status_source_read option.inject)

definition object_of :: "json \<Rightarrow> jobj" where
  "object_of v = (case v of JObj d \<Rightarrow> d | _ \<Rightarrow> [])"

lemma dump_capabilities_get:
  "dict_get (rev (object_of (dump_capabilities c))) ''upstream_idempotent'' = Some (JBool (cap_upstream_idempotent c))"
  "dict_get (rev (object_of (dump_capabilities c))) ''confirm_strategy'' = Some (JStr (confirm_strategy_value (cap_confirm_strategy c)))"
  "dict_get (rev (object_of (dump_capabilities c))) ''cancel'' = Some (JBool (cap_cancel c))"
  "dict_get (rev (object_of (dump_capabilities c))) ''callback'' = Some (JBool (cap_callback c))"
  "dict_get (rev (object_of (dump_capabilities c))) ''list_tasks'' = Some (JBool (cap_list_tasks c))"
  "dict_get (rev (object_of (dump_capabilities c))) ''max_payload_bytes'' = Some (JInt (cap_max_payload_bytes c))"
  "dict_get (rev (object_of (dump_capabilities c))) ''permanent_result_url'' = Some (JBool (cap_permanent_result_url c))"
  "dict_get (rev (object_of (dump_capabilities c))) ''rate_limit_side_effect_free'' = Some (JBool (cap_rate_limit_side_effect_free c))"
  "dict_get (rev (object_of (dump_capabilities c))) ''per_key_isolation'' = Some (JBool (cap_per_key_isolation c))"
  by (simp_all add: object_of_def dump_capabilities_def)

lemma opt_eq_texts: "opt_eq L (Some (JStr a)) (Some (JStr b)) \<longleftrightarrow> a = b" "opt_eq L (Some (JBool c)) (Some (JBool d)) \<longleftrightarrow> c = d"
    "opt_eq L (Some (JInt i)) (Some (JInt j)) \<longleftrightarrow> i = j"
  by (auto simp: opt_eq_def)

lemma capabilities_differ:
  assumes "a \<noteq> b"
  obtains j where "CHR ''.'' \<notin> set j"
    and "\<not> opt_eq L (dict_get (rev (object_of (dump_capabilities a))) j) (dict_get (rev (object_of (dump_capabilities b))) j)"
proof -
  let ?differ = "\<lambda>j. \<not> opt_eq L (dict_get (rev (object_of (dump_capabilities a))) j) (dict_get (rev (object_of (dump_capabilities b))) j)"
  have "list_ex ?differ capability_fields"
  proof (rule ccontr)
    assume "\<not> list_ex ?differ capability_fields"
    then have "a = b"
      by (intro capabilities.equality) (simp_all add: capability_fields_def dump_capabilities_get opt_eq_texts)
    with assms show False by simp
  qed
  moreover have "list_all (\<lambda>j. CHR ''.'' \<notin> set j) capability_fields" by (simp add: capability_fields_def)
  ultimately show ?thesis using that by (auto simp: list_ex_iff list_all_iff)
qed

lemma dump_texts:
  "dict_get (resolved_to_raw_dict L t) ''base_url'' = Some (JStr (rt_base_url t))"
  "dict_get (resolved_to_raw_dict L t) ''create_path'' = Some (JStr (rt_create_path t))"
  "dict_get (resolved_to_raw_dict L t) ''create_method'' = Some (JStr (rt_create_method t))"
  "dict_get (resolved_to_raw_dict L t) ''get_path_template'' = Some (JStr (rt_get_path_template t))"
  "dict_get (resolved_to_raw_dict L t) ''get_method'' = Some (JStr (rt_get_method t))"
  "dict_get (resolved_to_raw_dict L t) ''cancel_path_template'' = Some (JStr (rt_cancel_path_template t))"
  "dict_get (resolved_to_raw_dict L t) ''cancel_method'' = Some (JStr (rt_cancel_method t))"
  "dict_get (resolved_to_raw_dict L t) ''callback_param'' = Some (JStr (rt_callback_param t))"
  "dict_get (resolved_to_raw_dict L t) ''pool'' = Some (JStr (rt_pool t))"
  "dict_get (resolved_to_raw_dict L t) ''namespace'' = Some (JStr (rt_namespace t))"
  "dict_get (resolved_to_raw_dict L t) ''status_source'' = Some (JStr (status_source_value (rt_status_source t)))"
  by (simp_all add: resolved_to_raw_dict_def)

lemma reviewed_change:
  assumes "f \<in> set (changed_fields L a b)" and "f \<notin> set EPHEMERAL_FIELDS" and "needs_forced_review f"
  shows "pl_apply_mode (classify_change L a b) = VERSIONED \<and> pl_requires_dual_review (classify_change L a b)"
proof -
  have "filter needs_forced_review (changed_fields L a b) \<noteq> []" using assms(1,3) by (auto simp: filter_empty_conv)
  moreover have "\<not> list_all (\<lambda>f. f \<in> set EPHEMERAL_FIELDS) (changed_fields L a b)" using assms(1,2) by (auto simp: list_all_iff)
  moreover have "changed_fields L a b \<noteq> []" using assms(1) by auto
  ultimately show ?thesis by (simp add: classify_change_def Let_def)
qed

subsection \<open>A change of the terminal mapping\<close>

lemma dump_terminal_get:
  "dict_get (rev (object_of (dump_terminal m))) ''success'' = Some (strs (tm_success m))"
  "dict_get (rev (object_of (dump_terminal m))) ''failure'' = Some (strs (tm_failure m))"
  "dict_get (rev (object_of (dump_terminal m))) ''expired'' = Some (strs (tm_expired m))"
  "dict_get (rev (object_of (dump_terminal m))) ''internal_terminal_rewrite'' = Some (opt_str (tm_internal_rewrite m))"
  "dict_get (rev (object_of (dump_terminal m))) ''internal_terminal_error_code'' = Some (opt_str (tm_internal_error_code m))"
  "dict_get (rev (object_of (dump_terminal m))) ''error_field'' = Some (opt_str (tm_error_field m))"
  by (simp_all add: object_of_def dump_terminal_def)

lemma items_eq_texts [simp]: "items_eq L (List.map JStr xs) (List.map JStr ys) \<longleftrightarrow> xs = ys"
  by (induction xs arbitrary: ys) (auto split: list.splits)

lemma opt_eq_strs: "opt_eq L (Some (strs xs)) (Some (strs ys)) \<longleftrightarrow> xs = ys"
  by (auto simp: opt_eq_def strs_def dest: map_injective intro: injI)

lemma opt_eq_opt_str: "opt_eq L (Some (opt_str x)) (Some (opt_str y)) \<longleftrightarrow> x = y"
  by (auto simp: opt_eq_def opt_str_def split: option.splits)

lemma terminal_differ:
  assumes "a \<noteq> b"
  obtains j where "j \<in> set terminal_fields"
    and "\<not> opt_eq L (dict_get (rev (object_of (dump_terminal a))) j) (dict_get (rev (object_of (dump_terminal b))) j)"
proof -
  let ?differ = "\<lambda>j. \<not> opt_eq L (dict_get (rev (object_of (dump_terminal a))) j) (dict_get (rev (object_of (dump_terminal b))) j)"
  have "list_ex ?differ terminal_fields"
  proof (rule ccontr)
    assume "\<not> list_ex ?differ terminal_fields"
    then have "a = b"
      by (intro terminal_mapping.equality) (simp_all add: terminal_fields_def dump_terminal_get opt_eq_strs opt_eq_opt_str)
    with assms show False by simp
  qed
  then show ?thesis using that by (auto simp: list_ex_iff)
qed

lemma flatten_terminal: "flatten (object_of (dump_terminal m)) = object_of (dump_terminal m)"
  by (rule flatten_plain) (simp_all add: object_of_def dump_terminal_def strs_def opt_str_def split: option.splits)

lemma dump_at_terminal: "dict_get (resolved_to_raw_dict L t) ''terminal'' = Some (JObj (object_of (dump_terminal (rt_terminal t))))"
  by (simp add: resolved_to_raw_dict_def object_of_def dump_terminal_def)

lemma dump_other: "k \<noteq> ''terminal'' \<Longrightarrow> dict_get (resolved_to_raw_dict L (t\<lparr>rt_terminal := m\<rparr>)) k = dict_get (resolved_to_raw_dict L t) k"
  by (simp add: resolved_to_raw_dict_def)

lemma terminal_nested:
  "dict_get (flatten (resolved_to_raw_dict L t)) (''terminal'' @ CHR ''.'' # r) = dict_get (rev (object_of (dump_terminal (rt_terminal t)))) r"
  using flatten_nested [OF dump_plain, of "''terminal''" L t r] by (simp add: dump_at_terminal flatten_terminal)

lemma terminal_leaf: "dict_get (rev (object_of (dump_terminal m))) r \<noteq> None \<Longrightarrow> r \<in> set terminal_fields"
  by (auto simp: object_of_def dump_terminal_def terminal_fields_def split: if_splits)

lemma terminal_changes:
  assumes "f \<in> set (changed_fields L t (t\<lparr>rt_terminal := m\<rparr>))"
  obtains r where "f = ''terminal'' @ CHR ''.'' # r" and "r \<in> set terminal_fields"
proof -
  let ?t' = "t\<lparr>rt_terminal := m\<rparr>"
  have noted: "noted_change L t ?t' f" and last: "\<And>j. noted_change L t ?t' j \<Longrightarrow> \<not> starts_with (f @ ''.'') j"
    using assms by (auto simp: changed_fields_iff)
  have "m \<noteq> rt_terminal t" using noted by (auto simp: noted_change_def)
  then obtain j where "\<not> opt_eq L (dict_get (rev (object_of (dump_terminal (rt_terminal t)))) j) (dict_get (rev (object_of (dump_terminal m))) j)"
    using terminal_differ by metis
  then have "noted_change L t ?t' (''terminal'' @ CHR ''.'' # j)" by (simp add: noted_change_def terminal_nested del: append.simps)
  then have "f \<noteq> ''terminal''" using last [of "''terminal'' @ CHR ''.'' # j"] by (auto simp: starts_with_iff)
  then have dot: "CHR ''.'' \<in> set f"
    using noted flatten_top [OF dump_plain, of f] dump_other by (fastforce simp: noted_change_def)
  then obtain k r where f: "f = k @ CHR ''.'' # r" "CHR ''.'' \<notin> set k"
    by (metis split_list_first)
  have k: "k = ''terminal''"
    using noted dump_other [of k] flatten_nested [OF dump_plain f(2)] by (fastforce simp: noted_change_def f)
  have "r \<in> set terminal_fields"
    using noted terminal_leaf [of _ r] by (fastforce simp: noted_change_def f k terminal_nested simp del: append.simps)
  then show ?thesis using that f k by blast
qed

subsection \<open>Accepted templates\<close>

text \<open>What the rest of the gateway relies on in a template.\<close>

definition well_formed :: "resolved_template \<Rightarrow> bool" where
  "well_formed t \<longleftrightarrow> is_valid_expression (rt_id_location t) \<and> is_valid_expression (rt_status_field t)
     \<and> is_valid_expression (rt_result_location t) \<and> contains ''{id}'' (rt_get_path_template t)
     \<and> (cap_cancel (rt_capabilities t) \<longrightarrow> contains ''{id}'' (rt_cancel_path_template t)) \<and> rt_base_url t \<noteq> []
     \<and> (rt_status_source t = SRC_CALLBACK \<longrightarrow> cap_callback (rt_capabilities t))
     \<and> tm_success (rt_terminal t) \<noteq> [] \<and> tm_failure (rt_terminal t) \<noteq> []
     \<and> set (tm_success (rt_terminal t)) \<inter> set (tm_failure (rt_terminal t)) = {}
     \<and> rp_mode (rt_result_policy t) \<noteq> RM_REDIRECT
     \<and> (rp_mode (rt_result_policy t) = RM_PASSTHROUGH \<longrightarrow> cap_permanent_result_url (rt_capabilities t))
     \<and> 1 \<le> py_int (strategy_get (rt_strategy t) ''max_attempts'' 1)
     \<and> 0 < strategy_get (rt_strategy t) ''deadline_seconds'' 1
     \<and> 0 < py_int (strategy_get (rt_strategy t) ''idempotency_window_seconds'' 1)
     \<and> list_all (\<lambda>(k, v). lower k \<notin> set CREDENTIAL_HEADERS) (rt_extra_headers t)"

lemma issue_if_errors [simp]: "filter (\<lambda>i. snd i = Error) (issue_if b f Error) = [] \<longleftrightarrow> \<not> b"
  by (simp add: issue_if_def)

lemma no_credential_issue: "filter (\<lambda>i. snd i = Error) (check_credentials t) = [] \<longleftrightarrow>
    list_all (\<lambda>(k, v). lower k \<notin> set CREDENTIAL_HEADERS) (rt_extra_headers t)"
  by (auto simp: check_credentials_def filter_concat comp_def case_prod_beta list_all_iff)

lemma checked_well_formed: "report_ok (checked m tier t ids) \<Longrightarrow> well_formed t"
proof -
  assume ok: "report_ok (checked m tier t ids)"
  then have none: "filter (\<lambda>i. snd i = Error) (check_expressions t @ check_paths t @ check_terminal t @ check_capabilities t
      @ check_strategy m t @ check_credentials t) = []"
    by (auto simp: checked_def Let_def report_ok_def report_errors_def split: if_splits)
  then have "filter (\<lambda>i. snd i = Error) (check_credentials t) = []" by simp
  with none show ?thesis
    by (auto simp: well_formed_def no_credential_issue check_expressions_def check_paths_def check_terminal_def Let_def
        check_capabilities_def check_strategy_def list_ex_iff not_less not_le)
qed

lemma validate_raw_cases:
  assumes "validate_raw L P st patches raw = Inr rep" and "report_ok rep"
  obtains t where "vr_resolved rep = Some t" and "well_formed t"
proof -
  obtain tier t ids m where "rep = checked m tier t ids"
    using assms by (auto simp: validate_raw_def validate_def check_sample_create_def check_sample_status_def rejected_def
        empty_report_def add_issues_def report_ok_def bind_res_Inr_iff split: option.splits)
  moreover have "vr_resolved (checked m tier t ids) = Some t" by (simp add: checked_def Let_def)
  ultimately show ?thesis using that checked_well_formed assms(2) by metis
qed

subsection \<open>The registry\<close>

definition versions_ok :: "string \<Rightarrow> template_version list \<Rightarrow> bool" where
  "versions_ok alias vs \<longleftrightarrow> sorted (List.map tv_version vs) \<and> distinct (List.map tv_version vs)
     \<and> list_all (\<lambda>tv. tv_alias tv = alias \<and> well_formed (tv_resolved tv)) vs"

definition registry_ok :: "registry \<Rightarrow> bool" where
  "registry_ok reg \<longleftrightarrow> (\<forall>alias. versions_ok alias (versions_of reg alias))"

lemma versions_of_dict_set [simp]: "versions_of (dict_set k vs reg) alias = (if alias = k then vs else versions_of reg alias)"
  by (simp add: versions_of_def)

lemma put_version_ok:
  assumes "registry_ok reg" and "well_formed (tv_resolved tv)"
  shows "registry_ok (put_version reg tv)"
proof -
  let ?rest = "filter (\<lambda>v. tv_version v \<noteq> tv_version tv) (versions_of reg (tv_alias tv))"
  have old: "versions_ok (tv_alias tv) (versions_of reg (tv_alias tv))" using assms(1) by (simp add: registry_ok_def)
  have "distinct (List.map tv_version (?rest @ [tv]))" using old by (auto simp: versions_ok_def distinct_map_filter)
  then have "distinct (List.map tv_version (sort_key tv_version (?rest @ [tv])))"
    by (metis distinct_map distinct_sort set_sort)
  then have "versions_ok (tv_alias tv) (sort_key tv_version (?rest @ [tv]))"
    using old assms(2) by (auto simp: versions_ok_def list_all_iff)
  then show ?thesis using assms(1) by (simp add: registry_ok_def put_version_def)
qed

lemma versions_ok_map:
  assumes "versions_ok alias vs" and "\<And>v. v \<in> set vs \<Longrightarrow> tv_version (f v) = tv_version v \<and> tv_alias (f v) = tv_alias v
    \<and> well_formed (tv_resolved (f v))"
  shows "versions_ok alias (List.map f vs)"
proof -
  have "List.map tv_version (List.map f vs) = List.map tv_version vs" using assms(2) by auto
  then show ?thesis using assms unfolding versions_ok_def by (auto simp: list_all_iff simp del: List.map_map)
qed

lemma registry_ok_set: "registry_ok reg \<Longrightarrow> versions_ok alias vs \<Longrightarrow> registry_ok (dict_set alias vs reg)"
  by (simp add: registry_ok_def)

lemma registry_okD: "registry_ok reg \<Longrightarrow> versions_ok alias (versions_of reg alias)"
  by (simp add: registry_ok_def)

lemma find_in: "find P xs = Some x \<Longrightarrow> x \<in> set xs \<and> P x"
  by (induction xs) (auto split: if_splits)

lemma find_append_one: "find P (xs @ [y]) = (case find P xs of None \<Rightarrow> if P y then Some y else None | Some x \<Rightarrow> Some x)"
  by (induction xs) auto

lemma put_version_found: "registry_get (put_version reg tv) (tv_alias tv) (Some (tv_version tv)) = Some tv"
proof -
  let ?vs = "sort_key tv_version (filter (\<lambda>v. tv_version v \<noteq> tv_version tv) (versions_of reg (tv_alias tv)) @ [tv])"
  have unique: "v \<in> set ?vs \<Longrightarrow> tv_version v = tv_version tv \<Longrightarrow> v = tv" for v by auto
  have "find (\<lambda>v. tv_version v = tv_version tv) ?vs \<noteq> None" by (auto simp: find_None_iff)
  then obtain w where w: "find (\<lambda>v. tv_version v = tv_version tv) ?vs = Some w" by auto
  then have "w \<in> set ?vs \<and> tv_version w = tv_version tv" by (rule find_in)
  then show ?thesis using unique w by (simp add: registry_get_def put_version_def del: set_sort)
qed

lemma find_filter_other: "(\<And>x. Q x \<Longrightarrow> P x) \<Longrightarrow> find Q (filter P xs) = find Q xs"
  by (induction xs) auto

lemma find_unique:
  assumes "distinct (List.map k xs)" and "set ys = set xs"
  shows "find (\<lambda>x. k x = a) ys = find (\<lambda>x. k x = a) xs"
proof (cases "find (\<lambda>x. k x = a) xs")
  case None
  then have "find (\<lambda>x. k x = a) ys = None" using assms(2) unfolding find_None_iff by simp
  with None show ?thesis by simp
next
  case (Some x)
  then have x: "x \<in> set xs" "k x = a" by (auto dest: find_in)
  then have "find (\<lambda>x. k x = a) ys \<noteq> None" using assms(2) by (auto simp: find_None_iff)
  then obtain y where y: "find (\<lambda>x. k x = a) ys = Some y" by auto
  then have "y \<in> set xs" "k y = a" using assms(2) by (auto dest: find_in)
  then show ?thesis using x y Some assms(1) by (metis distinct_map inj_onD)
qed

lemma put_version_other:
  assumes "registry_ok reg" and "alias \<noteq> tv_alias tv \<or> v \<noteq> tv_version tv"
  shows "registry_get (put_version reg tv) alias (Some v) = registry_get reg alias (Some v)"
proof (cases "alias = tv_alias tv")
  case True
  let ?rest = "filter (\<lambda>v. tv_version v \<noteq> tv_version tv) (versions_of reg alias)"
  have "distinct (List.map tv_version (?rest @ [tv]))"
    using registry_okD [OF assms(1), of "alias"] by (auto simp: versions_ok_def distinct_map_filter)
  then have "find (\<lambda>w. tv_version w = v) (sort_key tv_version (?rest @ [tv])) = find (\<lambda>w. tv_version w = v) (?rest @ [tv])"
    by (rule find_unique) simp
  also have "\<dots> = find (\<lambda>w. tv_version w = v) ?rest"
    using assms(2) True by (auto simp: find_append_one split: option.splits)
  also have "\<dots> = find (\<lambda>w. tv_version w = v) (versions_of reg alias)"
    using assms(2) True by (intro find_filter_other) auto
  finally show ?thesis using True by (simp add: registry_get_def put_version_def)
qed (simp add: registry_get_def put_version_def)

lemma validate_raw_resolved:
  assumes "validate_raw L P st patches raw = Inr rep" and "report_ok rep"
  obtains d t ids where "load_draft L P raw = Some d" and "resolve L P st patches d = Inr (t, ids)" and "vr_resolved rep = Some t"
    and "well_formed t"
proof -
  obtain t where t: "vr_resolved rep = Some t" "well_formed t" using assms by (rule validate_raw_cases)
  moreover obtain d ids where "load_draft L P raw = Some d" "resolve L P st patches d = Inr (t, ids)"
    using assms t by (auto simp: validate_raw_def validate_def check_sample_create_def check_sample_status_def rejected_def
        empty_report_def add_issues_def report_ok_def bind_res_Inr_iff checked_def Let_def resolve_def split: option.splits if_splits)
  ultimately show ?thesis using that by blast
qed

lemma register_cases:
  assumes "register L P st builtin own version enabled first raw reg = Inr (reg', x, rep)"
  shows "reg' = reg \<and> x = None \<or> (\<exists>tv. reg' = put_version reg tv \<and> x = Some tv \<and> (first \<longrightarrow> well_formed (tv_resolved tv)))"
proof (cases "first \<and> \<not> report_ok rep")
  case True
  then show ?thesis using assms by (auto simp: register_def bind_res_Inr_iff Let_def split: if_splits)
next
  case False
  then obtain t ids where t: "validate_raw L P st builtin raw = Inr rep" "reported_or_resolved L P st own raw rep = Inr (t, ids)"
      "x = Some (new_version reg version enabled raw t ids)" "reg' = put_version reg (new_version reg version enabled raw t ids)"
    using assms by (auto simp: register_def bind_res_Inr_iff Let_def split: if_splits)
  moreover have "well_formed t" if "first"
  proof -
    have "report_ok rep" using that False by simp
    then obtain u where "vr_resolved rep = Some u" "well_formed u" using t(1) validate_raw_cases by blast
    then show ?thesis using t(2) by (simp add: reported_or_resolved_def)
  qed
  ultimately show ?thesis by (auto simp: new_version_def)
qed

lemma revise_ok:
  assumes "registry_ok reg" and "well_formed t" shows "registry_ok (revise reg cur t raw)"
  unfolding revise_def
proof (rule registry_ok_set [OF assms(1)], rule versions_ok_map [OF registry_okD [OF assms(1)]])
  fix v assume "v \<in> set (versions_of reg (rt_alias t))"
  then have "well_formed (tv_resolved v)" using registry_okD [OF assms(1), of "rt_alias t"] by (auto simp: versions_ok_def list_all_iff)
  then show "tv_version (if tv_version v = tv_version cur then v\<lparr>tv_resolved := t, tv_raw := raw\<rparr> else v) = tv_version v
      \<and> tv_alias (if tv_version v = tv_version cur then v\<lparr>tv_resolved := t, tv_raw := raw\<rparr> else v) = tv_alias v
      \<and> well_formed (tv_resolved (if tv_version v = tv_version cur then v\<lparr>tv_resolved := t, tv_raw := raw\<rparr> else v))"
    using assms(2) by simp
qed

lemma patch_in_place_cases:
  assumes "patch_in_place L P st builtin own raw reg = Inr (reg', x, rep, plan)"
  shows "reg' = reg \<or> (\<exists>cur t. reg' = revise reg cur t raw \<and> well_formed t)"
proof (cases "report_ok rep")
  case True
  then obtain t cur where t: "validate_raw L P st builtin raw = Inr rep" "vr_resolved rep = Some t" "reg' = revise reg cur t raw"
    using assms by (auto simp: patch_in_place_def bind_res_Inr_iff split: if_splits option.splits)
  obtain u where "vr_resolved rep = Some u" "well_formed u" using t(1) True by (rule validate_raw_cases)
  then show ?thesis using t by auto
next
  case False
  then show ?thesis using assms by (auto simp: patch_in_place_def bind_res_Inr_iff split: if_splits option.splits)
qed

lemma set_canary_weight_ok:
  assumes "registry_ok reg" and "set_canary_weight reg al v w = Inr reg'" shows "registry_ok reg'"
proof -
  let ?f = "\<lambda>u. if tv_version u = v then u\<lparr>tv_canary_weight := max 0 (min 1 w)\<rparr> else u"
  have "well_formed (tv_resolved u)" if "u \<in> set (versions_of reg al)" for u
    using registry_okD [OF assms(1), of al] that by (auto simp: versions_ok_def list_all_iff)
  then have "versions_ok al (List.map ?f (versions_of reg al))"
    by (intro versions_ok_map [OF registry_okD [OF assms(1)]]) simp
  moreover have "reg' = dict_set al (List.map ?f (versions_of reg al)) reg"
    using assms(2) by (auto simp: set_canary_weight_def bind_res_Inr_iff)
  ultimately show ?thesis using registry_ok_set [OF assms(1)] by simp
qed

lemma well_formed_provenance [simp]: "well_formed (t\<lparr>rt_provenance := p\<rparr>) = well_formed t"
  by (simp add: well_formed_def)

subsection \<open>Samples\<close>

definition raw_template :: jobj where
  "raw_template = [(''alias'', JStr ''video''), (''base_url'', JStr ''https://up.example''), (''create_path'', JStr ''/v1/tasks''),
     (''result_location'', JStr ''$.url''), (''result_policy'', JObj [(''mode'', JStr ''store'')])]"

definition registered_sample :: "(registry \<times> template_version option \<times> validation_report) res" where
  "registered_sample = register three_lib plain_pydantic default_settings [] [] None True True raw_template []"

lemma registered_sample_value:
  "(case registered_sample of Inl e \<Rightarrow> None
    | Inr (reg, x, rep) \<Rightarrow> map_option (\<lambda>tv. (tv_alias tv, tv_version tv, length reg)) x) = Some (''video'', 1, 1)"
  by code_simp

definition direct_policies :: policies where
  "direct_policies = [(''chan'', no_policy\<lparr>cp_url_direct := Some
     ((''allowed_prefixes'', JArr [JStr ''/v1'']) # List.tl raw_template)\<rparr>)]"

definition direct_sample :: "template_version option res" where
  "direct_sample = build_direct_version three_lib plain_pydantic default_settings [] direct_policies ''chan'' ''video'' ''/v1/tasks''"

lemma direct_sample_value: "(case direct_sample of Inr (Some tv) \<Rightarrow> tv_version tv = 0 | _ \<Rightarrow> False)"
  by code_simp

subsection \<open>Properties\<close>

text \<open>Where requests go, how, and what may be done to a task.\<close>

definition same_routing :: "resolved_template \<Rightarrow> resolved_template \<Rightarrow> bool" where
  "same_routing a b \<longleftrightarrow> rt_base_url a = rt_base_url b \<and> rt_create_path a = rt_create_path b
     \<and> rt_create_method a = rt_create_method b \<and> rt_get_path_template a = rt_get_path_template b
     \<and> rt_get_method a = rt_get_method b \<and> rt_cancel_path_template a = rt_cancel_path_template b
     \<and> rt_cancel_method a = rt_cancel_method b \<and> rt_callback_param a = rt_callback_param b \<and> rt_pool a = rt_pool b
     \<and> rt_namespace a = rt_namespace b \<and> rt_status_source a = rt_status_source b \<and> rt_capabilities a = rt_capabilities b"

text \<open>
  C20: A change of where requests go is never a small one: when the expanded templates differ in the base url, a path, a
  method, the callback parameter, the pool, the namespace, the status source or any capability, the plan asks for a new
  version (no revision in place of tasks under way) and for a second reviewer.
\<close>

theorem routing_changes_reviewed:
  assumes "\<not> same_routing old new"
  shows "pl_apply_mode (classify_change L old new) = VERSIONED \<and> pl_requires_dual_review (classify_change L old new)"
proof (cases "rt_capabilities old = rt_capabilities new")
  case False
  then obtain j where j: "CHR ''.'' \<notin> set j"
      "\<not> opt_eq L (dict_get (rev (object_of (dump_capabilities (rt_capabilities old)))) j)
         (dict_get (rev (object_of (dump_capabilities (rt_capabilities new)))) j)"
    by (rule capabilities_differ)
  have "''capabilities'' @ CHR ''.'' # j \<in> set (changed_fields L old new)"
    by (rule changed_leaf [OF _ j(1), of _ _ _ "object_of (dump_capabilities (rt_capabilities old))" _ "object_of (dump_capabilities (rt_capabilities new))"])
      (use j(2) in \<open>simp_all add: resolved_to_raw_dict_def object_of_def dump_capabilities_def\<close>)
  then show ?thesis
    by (rule reviewed_change) (auto simp: EPHEMERAL_FIELDS_def needs_forced_review_def FORCED_REVIEW_PREFIXES_def starts_with_iff)
next
  case True
  have "\<exists>f \<in> set [''base_url'', ''create_path'', ''create_method'', ''get_path_template'', ''get_method'', ''cancel_path_template'',
      ''cancel_method'', ''callback_param'', ''pool'', ''namespace'', ''status_source'']. f \<in> set (changed_fields L old new)"
    (is "\<exists>f \<in> set ?fs. _")
  proof (rule ccontr)
    assume none: "\<not> ?thesis"
    have same: "u = v" if "f \<in> set ?fs" "dict_get (resolved_to_raw_dict L old) f = Some (JStr u)"
        "dict_get (resolved_to_raw_dict L new) f = Some (JStr v)" for f u v
    proof -
      have "CHR ''.'' \<notin> set f" using that(1) by auto
      then show ?thesis using changed_text [OF _ that(2,3)] none that(1) by (auto simp: opt_eq_def)
    qed
    have "same_routing old new"
      unfolding same_routing_def using True same [OF _ dump_texts(11) dump_texts(11)]
      by (intro conjI) (auto intro: same [OF _ dump_texts(1) dump_texts(1)] same [OF _ dump_texts(2) dump_texts(2)] same [OF _ dump_texts(3) dump_texts(3)] same [OF _ dump_texts(4) dump_texts(4)] same [OF _ dump_texts(5) dump_texts(5)] same [OF _ dump_texts(6) dump_texts(6)] same [OF _ dump_texts(7) dump_texts(7)] same [OF _ dump_texts(8) dump_texts(8)] same [OF _ dump_texts(9) dump_texts(9)] same [OF _ dump_texts(10) dump_texts(10)])
    then show False using assms by simp
  qed
  then obtain f where f: "f \<in> set ?fs" "f \<in> set (changed_fields L old new)" by blast
  show ?thesis
    by (rule reviewed_change [OF f(2)]) (use f(1) in \<open>auto simp: EPHEMERAL_FIELDS_def needs_forced_review_def FORCED_REVIEW_FIELDS_def\<close>)
qed

theorem routing_changes_reviewed_witness:
  "pl_apply_mode (classify_change sample_lib sample_template (sample_template\<lparr>rt_base_url := ''https://other.example''\<rparr>)) = VERSIONED
     \<and> pl_requires_dual_review (classify_change sample_lib sample_template (sample_template\<lparr>rt_base_url := ''https://other.example''\<rparr>))"
  by (rule routing_changes_reviewed) (simp add: same_routing_def sample_template_def)

text \<open>
  A change of the terminal mapping alone, the values that decide which upstream status counts as success or failure, is
  applied in place and without a second reviewer, although \<open>terminal\<close> is on the list of fields that force the review:
  the list names the object, the comparison reports its leaves.
\<close>

theorem terminal_change_unreviewed:
  "pl_apply_mode (classify_change L t (t\<lparr>rt_terminal := m\<rparr>)) = IN_PLACE
   \<and> \<not> pl_requires_dual_review (classify_change L t (t\<lparr>rt_terminal := m\<rparr>))"
proof -
  have each: "f \<in> set EPHEMERAL_FIELDS \<and> \<not> needs_forced_review f" if changed: "f \<in> set (changed_fields L t (t\<lparr>rt_terminal := m\<rparr>))" for f
  proof -
    obtain r where "f = ''terminal'' @ CHR ''.'' # r" "r \<in> set terminal_fields" using changed by (rule terminal_changes)
    then show ?thesis
      by (auto simp: terminal_fields_def EPHEMERAL_FIELDS_def needs_forced_review_def FORCED_REVIEW_FIELDS_def FORCED_REVIEW_PREFIXES_def
          starts_with_iff)
  qed
  then have "filter needs_forced_review (changed_fields L t (t\<lparr>rt_terminal := m\<rparr>)) = []" by (auto simp: filter_empty_conv)
  moreover have "list_all (\<lambda>f. f \<in> set EPHEMERAL_FIELDS) (changed_fields L t (t\<lparr>rt_terminal := m\<rparr>))" using each by (auto simp: list_all_iff)
  ultimately show ?thesis by (simp add: classify_change_def Let_def)
qed

text \<open>
  C18: The registry holds only templates that passed every check: registration with validation, revision in place and a change
  of a canary weight keep it well formed (expressions that compile, an id in the query path, disjoint and non-empty terminal
  sets, a result mode that is implemented, positive limits, no credential among the headers), its versions distinct, sorted
  and filed under their alias.
\<close>

theorem registry_stays_well_formed:
  assumes "registry_ok reg"
    and "register L P st builtin own version enabled True raw reg = Inr (reg', x, rep)
      \<or> patch_in_place L P st builtin own raw reg = Inr (reg', x, rep, plan) \<or> set_canary_weight reg al v w = Inr reg'"
  shows "registry_ok reg'"
  using assms(2)
proof (elim disjE)
  assume "register L P st builtin own version enabled True raw reg = Inr (reg', x, rep)"
  then show ?thesis using register_cases put_version_ok [OF assms(1)] assms(1) by blast
next
  assume "patch_in_place L P st builtin own raw reg = Inr (reg', x, rep, plan)"
  then show ?thesis using patch_in_place_cases revise_ok [OF assms(1)] assms(1) by blast
qed (rule set_canary_weight_ok [OF assms(1)])

theorem registry_stays_well_formed_witness:
  "\<exists>reg x rep. registered_sample = Inr (reg, x, rep) \<and> registry_ok reg \<and> length reg = 1"
proof -
  obtain reg x rep where r: "registered_sample = Inr (reg, x, rep)" "length reg = 1"
    using registered_sample_value by (auto split: sum.splits)
  have "registry_ok []" by (simp add: registry_ok_def versions_of_def versions_ok_def)
  from registry_stays_well_formed [OF this disjI1, OF r(1) [unfolded registered_sample_def]] r show ?thesis by blast
qed

text \<open>
  A registered version is found: under its alias and number \<open>get\<close> returns exactly what was registered, and every other
  version of every alias is what it was.
\<close>

theorem registered_version_found:
  assumes "registry_ok reg" and "register L P st builtin own version enabled first raw reg = Inr (reg', Some tv, rep)"
  shows "registry_get reg' (tv_alias tv) (Some (tv_version tv)) = Some tv
    \<and> ((al, v) \<noteq> (tv_alias tv, tv_version tv) \<longrightarrow> registry_get reg' al (Some v) = registry_get reg al (Some v))"
  using register_cases [OF assms(2)] put_version_found [of reg tv] put_version_other [OF assms(1), of al tv v] by auto

theorem registered_version_found_witness:
  "\<exists>reg tv rep. registered_sample = Inr (reg, Some tv, rep) \<and> registry_get reg ''video'' (Some 1) = Some tv"
proof -
  obtain reg tv rep where r: "registered_sample = Inr (reg, Some tv, rep)" "tv_alias tv = ''video''" "tv_version tv = 1"
    using registered_sample_value by (auto split: sum.splits)
  have "registry_ok []" by (simp add: registry_ok_def versions_of_def versions_ok_def)
  from registered_version_found [OF this r(1) [unfolded registered_sample_def], of "''other''" 1] r show ?thesis by auto
qed

text \<open>
  A version built from a channel's inline configuration passed the same checks as a registered one, is version 0 of the
  alias asked for, and is built only for a path below one of the prefixes the channel (or, without any, its create path)
  allows.
\<close>

theorem direct_version_checked:
  assumes "build_direct_version L P st builtin ps chan al path = Inr (Some tv)"
  shows "well_formed (tv_resolved tv) \<and> tv_version tv = 0 \<and> tv_alias tv = al
    \<and> (\<exists>cfg prefixes. direct_config ps chan = Some cfg \<and> path_prefixes st cfg = Inr prefixes
         \<and> (\<exists>p \<in> set prefixes. starts_with p path))"
proof -
  obtain cfg where cfg: "direct_config ps chan = Some cfg" "cfg \<noteq> []" "path_allowed st ps chan path = Inr True"
      "direct_template L P st builtin chan al (direct_raw al cfg) = Inr (Some tv)"
    using assms by (auto simp: build_direct_version_def bind_res_Inr_iff split: option.splits list.splits if_splits)
  obtain rep where rep: "validate_raw L P st builtin (direct_raw al cfg) = Inr rep" "report_ok rep"
    using cfg(4) by (auto simp: direct_template_def bind_res_Inr_iff split: if_splits)
  obtain d t ids where "load_draft L P (direct_raw al cfg) = Some d" "resolve L P st builtin d = Inr (t, ids)" "well_formed t"
    using rep by (rule validate_raw_resolved)
  then have "well_formed (tv_resolved tv) \<and> tv_version tv = 0 \<and> tv_alias tv = al"
    using cfg(4) rep by (auto simp: direct_template_def draft_of_def)
  moreover have "\<exists>prefixes. path_prefixes st cfg = Inr prefixes \<and> (\<exists>p \<in> set prefixes. starts_with p path)"
    using cfg(1-3) by (cases cfg) (auto simp: path_allowed_def bind_res_Inr_iff list_ex_iff)
  ultimately show ?thesis using cfg(1) by blast
qed

theorem direct_version_checked_witness:
  "\<exists>tv. direct_sample = Inr (Some tv) \<and> well_formed (tv_resolved tv) \<and> tv_alias tv = ''video''"
proof -
  obtain tv where tv: "direct_sample = Inr (Some tv)"
    using direct_sample_value by (auto split: sum.splits option.splits)
  from direct_version_checked [OF tv [unfolded direct_sample_def]] tv show ?thesis by blast
qed

end
