(* ===== verification/Worker.thy ===== *)
theory Worker
  imports Bus Container
begin

text \<open>
  \<open>workers/worker.py\<close> and \<open>bus/factory.py\<close>: the message loop of a worker over the operations of its bus. A handler is a
  function of the message and the state of the bus, to which it may send; what it raises is its result. \<open>describe\<close> is
  \<open>f"{type(exc).__name__}: {exc}"\<close>. Heartbeats, metrics, logging and signals are left out; the loop runs for a given
  number of rounds or until it stops by itself.
\<close>

datatype bus_kind = BUS_MEMORY | BUS_TASKIQ | BUS_STREAM

definition make_bus :: "settings \<Rightarrow> bus_kind" where
  "make_bus s = (if queue_driver s = DRIVER_MEMORY then BUS_MEMORY
     else if queue_driver s = DRIVER_TASKIQ then BUS_TASKIQ
     else if is_test s then BUS_MEMORY else BUS_STREAM)"

definition make_stream_bus :: "settings \<Rightarrow> stream_conf" where
  "make_stream_bus s = \<lparr>st_prefix = queue_stream_prefix s, st_group = queue_group s, st_max_depth = queue_max_depth s\<rparr>"

text \<open>What a worker uses of its bus; \<open>wb_claim\<close> is there when the bus has \<open>claim_stale\<close>.\<close>

record 's worker_bus =
  wb_consume :: "string \<Rightarrow> 's \<Rightarrow> message list res \<times> 's"
  wb_ack :: "string \<Rightarrow> string \<Rightarrow> 's \<Rightarrow> 's"
  wb_dead :: "string \<Rightarrow> message \<Rightarrow> string \<Rightarrow> 's \<Rightarrow> 's"
  wb_claim :: "(string \<Rightarrow> 's \<Rightarrow> message list res \<times> 's) option"
  wb_ensure :: "string \<Rightarrow> 's \<Rightarrow> 's"

type_synonym 's handler = "message \<Rightarrow> 's \<Rightarrow> exn option \<times> 's"

definition MAX_HANDLER_FAILURES :: int where
  "MAX_HANDLER_FAILURES = 3"

subsection \<open>One message\<close>

datatype handled = Handled | Raised exn | TimedOut

definition handle_message :: "'s worker_bus \<Rightarrow> (exn \<Rightarrow> string) \<Rightarrow> (message \<Rightarrow> 's \<Rightarrow> handled \<times> 's) \<Rightarrow> message \<Rightarrow> 's \<Rightarrow> 's" where
  "handle_message B describe H m s = (case H m s of
      (TimedOut, s') \<Rightarrow> wb_dead B ''unknown'' m ''handler timeout'' s'
    | (Raised e, s') \<Rightarrow> if MAX_HANDLER_FAILURES \<le> mg_deliveries m then wb_dead B ''unknown'' m (describe e) s' else s'
    | (Handled, s') \<Rightarrow> wb_ack B ''unknown'' (mg_id m) s')"

subsection \<open>The loop\<close>

record worker_state =
  ws_processed :: nat
  ws_stop :: bool

definition reached :: "nat option \<Rightarrow> nat \<Rightarrow> bool" where
  "reached stop_after n \<longleftrightarrow> (case stop_after of None \<Rightarrow> False | Some k \<Rightarrow> k \<le> n)"

fun work_messages :: "'s worker_bus \<Rightarrow> (exn \<Rightarrow> string) \<Rightarrow> 's handler \<Rightarrow> nat option \<Rightarrow> string \<Rightarrow> message list
    \<Rightarrow> worker_state \<Rightarrow> 's \<Rightarrow> worker_state \<times> 's" where
  "work_messages B describe H stop_after q [] w s = (w, s)"
| "work_messages B describe H stop_after q (m # ms) w s = (case H m s of
      (Some e, s') \<Rightarrow> work_messages B describe H stop_after q ms w
        (if MAX_HANDLER_FAILURES \<le> mg_deliveries m then wb_dead B q m (describe e) s' else s')
    | (None, s') \<Rightarrow> (let s'' = wb_ack B q (mg_id m) s'; w' = w\<lparr>ws_processed := Suc (ws_processed w)\<rparr> in
        if reached stop_after (ws_processed w') then (w'\<lparr>ws_stop := True\<rparr>, s'')
        else work_messages B describe H stop_after q ms w' s''))"

text \<open>An exception of \<open>consume\<close> ends the worker.\<close>

fun work_queues :: "'s worker_bus \<Rightarrow> (exn \<Rightarrow> string) \<Rightarrow> 's handler \<Rightarrow> nat option \<Rightarrow> string list
    \<Rightarrow> worker_state \<Rightarrow> 's \<Rightarrow> exn option \<times> worker_state \<times> 's" where
  "work_queues B describe H stop_after [] w s = (None, w, s)"
| "work_queues B describe H stop_after (q # qs) w s = (case wb_consume B q s of
      (Inl e, s') \<Rightarrow> (Some e, w, s')
    | (Inr ms, s') \<Rightarrow> (case work_messages B describe H stop_after q ms w s' of (w', s'') \<Rightarrow>
        if reached stop_after (ws_processed w') then (None, w', s'') else work_queues B describe H stop_after qs w' s''))"

fun replay_stale :: "'s worker_bus \<Rightarrow> 's handler \<Rightarrow> string \<Rightarrow> message list \<Rightarrow> 's \<Rightarrow> 's" where
  "replay_stale B H q [] s = s"
| "replay_stale B H q (m # ms) s = (case H m s of
      (None, s') \<Rightarrow> replay_stale B H q ms (wb_ack B q (mg_id m) s')
    | (Some e, s') \<Rightarrow> replay_stale B H q ms s')"

fun claim_queues :: "'s worker_bus \<Rightarrow> 's handler \<Rightarrow> string list \<Rightarrow> 's \<Rightarrow> exn option \<times> 's" where
  "claim_queues B H [] s = (None, s)"
| "claim_queues B H (q # qs) s = (case wb_claim B of
      None \<Rightarrow> (None, s)
    | Some claim \<Rightarrow> (case claim q s of
          (Inl e, s') \<Rightarrow> (Some e, s')
        | (Inr ms, s') \<Rightarrow> claim_queues B H qs (replay_stale B H q ms s')))"

definition worker_round :: "'s worker_bus \<Rightarrow> (exn \<Rightarrow> string) \<Rightarrow> 's handler \<Rightarrow> nat option \<Rightarrow> string list \<Rightarrow> nat
    \<Rightarrow> worker_state \<Rightarrow> 's \<Rightarrow> exn option \<times> worker_state \<times> 's" where
  "worker_round B describe H stop_after queues tick w s = (case work_queues B describe H stop_after queues w s of
      (Some e, w', s') \<Rightarrow> (Some e, w', s')
    | (None, w', s') \<Rightarrow> if tick mod 30 = 0 then (case claim_queues B H queues s' of (e, s'') \<Rightarrow> (e, w', s'')) else (None, w', s'))"

text \<open>\<open>rounds\<close> is the number of rounds until a signal stops the worker.\<close>

fun worker_rounds :: "'s worker_bus \<Rightarrow> (exn \<Rightarrow> string) \<Rightarrow> 's handler \<Rightarrow> nat option \<Rightarrow> string list \<Rightarrow> nat \<Rightarrow> nat
    \<Rightarrow> worker_state \<Rightarrow> 's \<Rightarrow> exn option \<times> worker_state \<times> 's" where
  "worker_rounds B describe H stop_after queues 0 tick w s = (None, w, s)"
| "worker_rounds B describe H stop_after queues (Suc n) tick w s =
     (if ws_stop w then (None, w, s)
      else (case worker_round B describe H stop_after queues (Suc tick) w s of
          (Some e, w', s') \<Rightarrow> (Some e, w', s')
        | (None, w', s') \<Rightarrow> worker_rounds B describe H stop_after queues n (Suc tick) w' s'))"

definition run_worker :: "'s worker_bus \<Rightarrow> (exn \<Rightarrow> string) \<Rightarrow> 's handler \<Rightarrow> nat option \<Rightarrow> string list \<Rightarrow> nat \<Rightarrow> 's
    \<Rightarrow> exn option \<times> worker_state \<times> 's" where
  "run_worker B describe H stop_after pools rounds s =
     (let queues = queues_for_pools pools in
      worker_rounds B describe H stop_after queues rounds 0 \<lparr>ws_processed = 0, ws_stop = False\<rparr> (fold (wb_ensure B) queues s))"

subsection \<open>claim\_stale of the stream bus\<close>

text \<open>
  \<open>XAUTOCLAIM\<close> gives the next cursor and the entries with their fields (none for a deleted entry). The loop ends at the
  cursor \<open>0-0\<close> or at an empty page; \<open>fuel\<close> bounds the pages, running out of it is \<open>None\<close>.
\<close>

type_synonym 's autoclaim = "string \<Rightarrow> string \<Rightarrow> 's \<Rightarrow> (string \<times> (string \<times> string dict) list) \<times> 's"

text \<open>What \<open>XPENDING\<close> answers: a table or a list, by the version of the client library.\<close>

datatype pending_info = Pending_table "int option" | Pending_list "int list"

definition pending_of :: "pending_info \<Rightarrow> int" where
  "pending_of info = (case info of
      Pending_table n \<Rightarrow> (case n of None \<Rightarrow> 0 | Some k \<Rightarrow> k)
    | Pending_list xs \<Rightarrow> (case xs of [] \<Rightarrow> 0 | k # _ \<Rightarrow> k))"

fun claim_pages :: "nat \<Rightarrow> 's autoclaim \<Rightarrow> string \<Rightarrow> string \<Rightarrow> (string \<times> string dict) list \<Rightarrow> 's
    \<Rightarrow> ((string \<times> string dict) list \<times> 's) option" where
  "claim_pages 0 X k cursor claimed s = None"
| "claim_pages (Suc n) X k cursor claimed s = (case X k cursor s of ((next, entries), s') \<Rightarrow>
     (let claimed' = claimed @ filter (\<lambda>(i, raw). raw \<noteq> []) entries
      in if next \<in> {''0-0'', ''0''} \<or> entries = [] then Some (claimed', s') else claim_pages n X k next claimed' s'))"

definition claim_stale :: "nat \<Rightarrow> 's autoclaim \<Rightarrow> stream_conf \<Rightarrow> (string \<Rightarrow> string) \<Rightarrow> (string \<Rightarrow> time option) \<Rightarrow> time
    \<Rightarrow> string \<Rightarrow> 's \<Rightarrow> (message list res \<times> 's) option" where
  "claim_stale fuel X c canon fromiso now q s =
     map_option (\<lambda>(claimed, s'). (decode_all canon fromiso now claimed, s')) (claim_pages fuel X (stream_name c q) ''0-0'' [] s)"

text \<open>The two buses a worker runs on. A claim that runs out of fuel ends the worker.\<close>

definition stream_worker_bus :: "nat \<Rightarrow> 's stream_cmds \<Rightarrow> 's autoclaim \<Rightarrow> stream_conf \<Rightarrow> pylib \<Rightarrow> (string \<Rightarrow> string)
    \<Rightarrow> (string \<Rightarrow> time option) \<Rightarrow> time \<Rightarrow> string \<Rightarrow> 's worker_bus" where
  "stream_worker_bus fuel X A c L canon fromiso now consumer =
     \<lparr>wb_consume = (\<lambda>q. stream_consume X c canon fromiso now q consumer 10), wb_ack = stream_ack X c,
      wb_dead = stream_dead_letter X c L,
      wb_claim = Some (\<lambda>q s. case claim_stale fuel A c canon fromiso now q s of
          None \<Rightarrow> (Inl (RuntimeError ''claim''), s) | Some r \<Rightarrow> r),
      wb_ensure = stream_ensure_queue X c\<rparr>"

definition memory_worker_bus :: "mem_bus worker_bus" where
  "memory_worker_bus = \<lparr>wb_consume = (\<lambda>q s. case mem_consume q 10 s of (ms, s') \<Rightarrow> (Inr ms, s')), wb_ack = mem_ack,
     wb_dead = mem_dead_letter, wb_claim = None, wb_ensure = mem_ensure_queue\<rparr>"

subsection \<open>Messages that are always delivered for the first time\<close>

text \<open>The contract of a bus that does not count deliveries, and what it means for the loop.\<close>

locale uncounted_bus =
  fixes inv :: "'s \<Rightarrow> bool" and B :: "'s worker_bus" and H :: "'s handler"
  assumes consume_first: "inv s \<Longrightarrow> wb_consume B q s = (r, s') \<Longrightarrow> inv s' \<and> (\<forall>ms. r = Inr ms \<longrightarrow> (\<forall>m \<in> set ms. mg_deliveries m = 1))"
    and claim_keeps: "inv s \<Longrightarrow> wb_claim B = Some claim \<Longrightarrow> inv (snd (claim q s))"
    and ack_keeps: "inv s \<Longrightarrow> inv (wb_ack B q i s)"
    and ensure_keeps: "inv s \<Longrightarrow> inv (wb_ensure B q s)"
    and handler_keeps: "inv s \<Longrightarrow> inv (snd (H m s))"
begin

abbreviation without_dlq :: "(string \<Rightarrow> message \<Rightarrow> string \<Rightarrow> 's \<Rightarrow> 's) \<Rightarrow> 's worker_bus" where
  "without_dlq dead \<equiv> B\<lparr>wb_dead := dead\<rparr>"

lemma messages:
  assumes "inv s" and "\<forall>m \<in> set ms. mg_deliveries m = 1"
  shows "work_messages (without_dlq dead) describe H stop_after q ms w s = work_messages B describe H stop_after q ms w s
    \<and> inv (snd (work_messages B describe H stop_after q ms w s))"
  using assms
proof (induction ms arbitrary: w s)
  case (Cons m ms)
  obtain r s' where h: "H m s = (r, s')" by (cases "H m s")
  then have "inv s'" using handler_keeps [OF Cons(2), of m] by simp
  then show ?case using Cons h ack_keeps by (cases r) (auto simp: MAX_HANDLER_FAILURES_def Let_def)
qed simp

lemma queues:
  assumes "inv s"
  shows "work_queues (without_dlq dead) describe H stop_after qs w s = work_queues B describe H stop_after qs w s
    \<and> inv (snd (snd (work_queues B describe H stop_after qs w s)))"
  using assms
proof (induction qs arbitrary: w s)
  case (Cons q qs)
  obtain r s' where c: "wb_consume B q s = (r, s')" by (cases "wb_consume B q s")
  note first = consume_first [OF Cons(2) c]
  show ?case
  proof (cases r)
    case (Inl e)
    then show ?thesis using c first by simp
  next
    case (Inr ms)
    obtain w' s'' where m: "work_messages B describe H stop_after q ms w s' = (w', s'')" by fastforce
    have "inv s'" "\<forall>m \<in> set ms. mg_deliveries m = 1" using first Inr by auto
    then show ?thesis using messages [of s' ms dead describe stop_after q w] Cons(1) [of s''] c Inr m by simp
  qed
qed simp

lemma stale: "inv s \<Longrightarrow> replay_stale (without_dlq dead) H q ms s = replay_stale B H q ms s \<and> inv (replay_stale B H q ms s)"
proof (induction ms arbitrary: s)
  case (Cons m ms)
  obtain r s' where h: "H m s = (r, s')" by (cases "H m s")
  then have "inv s'" using handler_keeps [OF Cons(2), of m] by simp
  then show ?case using Cons(1) h ack_keeps by (cases r) auto
qed simp

lemma claims: "inv s \<Longrightarrow> claim_queues (without_dlq dead) H qs s = claim_queues B H qs s \<and> inv (snd (claim_queues B H qs s))"
proof (induction qs arbitrary: s)
  case (Cons q qs)
  show ?case
  proof (cases "wb_claim B")
    case (Some claim)
    obtain r s' where c: "claim q s = (r, s')" by (cases "claim q s")
    then have "inv s'" using claim_keeps [OF Cons(2) Some, of q] by simp
    then show ?thesis using Cons(1) stale Some c by (cases r) auto
  qed (use Cons(2) in simp)
qed simp

lemma round:
  assumes "inv s"
  shows "worker_round (without_dlq dead) describe H stop_after qs tick w s = worker_round B describe H stop_after qs tick w s
    \<and> inv (snd (snd (worker_round B describe H stop_after qs tick w s)))"
proof -
  obtain r w' s' where q: "work_queues B describe H stop_after qs w s = (r, w', s')" by (metis prod_cases3)
  then have "inv s'" using queues [OF assms, of dead describe stop_after qs w] by simp
  then show ?thesis using queues [OF assms, of dead describe stop_after qs w] claims [of s' dead qs] q
    by (cases r) (auto simp: worker_round_def split: prod.splits)
qed

lemma rounds:
  "inv s \<Longrightarrow> worker_rounds (without_dlq dead) describe H stop_after qs n tick w s = worker_rounds B describe H stop_after qs n tick w s"
proof (induction n arbitrary: tick w s)
  case (Suc n)
  obtain r w' s' where q: "worker_round B describe H stop_after qs (Suc tick) w s = (r, w', s')" by (metis prod_cases3)
  then show ?case using round [OF Suc(2), of dead describe stop_after qs "Suc tick" w] Suc(1) [of s'] by (cases r) auto
qed simp

lemma dead_letter_unused: "inv s \<Longrightarrow> run_worker (without_dlq dead) describe H stop_after pools n s = run_worker B describe H stop_after pools n s"
proof -
  assume "inv s"
  then have "inv (fold (wb_ensure B) qs s)" for qs by (induction qs arbitrary: s) (auto intro: ensure_keeps)
  then show ?thesis by (simp add: run_worker_def Let_def rounds)
qed

end

lemma decode_first: "decode canon fromiso now name raw i = Inr m \<Longrightarrow> mg_deliveries m = 1"
  unfolding decode_def bind_res_Inr_iff by (elim exE conjE, case_tac x) auto

lemma decode_all_first: "decode_all canon fromiso now es = Inr ms \<Longrightarrow> m \<in> set ms \<Longrightarrow> mg_deliveries m = 1"
proof (induction es arbitrary: ms)
  case (Cons e es)
  obtain i raw where e: "e = (i, raw)" by (cases e)
  then show ?case using Cons by (auto simp: bind_res_Inr_iff dest: decode_first)
qed simp

interpretation streams: uncounted_bus "\<lambda>_. True" "stream_worker_bus fuel X A c L canon fromiso now consumer" H
  by unfold_locales (auto simp: stream_worker_bus_def stream_consume_def decode_all_first split: prod.splits)

definition first_deliveries :: "mem_bus \<Rightarrow> bool" where
  "first_deliveries b \<longleftrightarrow> (\<forall>q. \<forall>m \<in> set (queued b q). mg_deliveries m = 1)"

lemma mem_consume_first: "first_deliveries b \<Longrightarrow> mem_consume q n b = (ms, b') \<Longrightarrow> first_deliveries b' \<and> (\<forall>m \<in> set ms. mg_deliveries m = 1)"
proof -
  assume b: "first_deliveries b" and c: "mem_consume q n b = (ms, b')"
  have "m \<in> set (queued b j)" if "m \<in> set (if q = j then ms else []) \<or> m \<in> set (queued b' j)" for m j
    using that unfolding consume_queued [OF c, of j] by auto
  then show ?thesis using b unfolding first_deliveries_def by (metis (full_types))
qed

text \<open>A handler that leaves the bus alone, for the interpretation on the in-process bus.\<close>

interpretation memory: uncounted_bus first_deliveries memory_worker_bus "\<lambda>m s. (f m, s)"
proof unfold_locales
  fix s :: mem_bus and q i m
  assume s: "first_deliveries s"
  show "wb_consume memory_worker_bus q s = (r, s') \<Longrightarrow> first_deliveries s' \<and> (\<forall>ms. r = Inr ms \<longrightarrow> (\<forall>m \<in> set ms. mg_deliveries m = 1))" for r s'
    using mem_consume_first [OF s] by (auto simp: memory_worker_bus_def split: prod.splits)
  show "first_deliveries (wb_ack memory_worker_bus q i s)" "first_deliveries (wb_ensure memory_worker_bus q s)"
    "first_deliveries (snd (f m, s))" using s by (simp_all add: memory_worker_bus_def first_deliveries_def)
qed (simp add: memory_worker_bus_def)

subsection \<open>Properties\<close>

text \<open>
  C30: A message whose handler always fails never reaches the dead letter queue. Decoding a message sets its delivery count
  to 1 each time, whether it is consumed for the first time or claimed again, and a failure is dead-lettered only from the third
  delivery on: over the Redis Streams bus, for every handler and any number of rounds, the run of a worker is the same
  whatever dead-lettering would do.
\<close>

theorem poison_message_never_dead_lettered:
  "run_worker ((stream_worker_bus fuel X A c L canon fromiso now consumer)\<lparr>wb_dead := dead\<rparr>) describe H stop_after pools n s
   = run_worker (stream_worker_bus fuel X A c L canon fromiso now consumer) describe H stop_after pools n s"
  by (rule streams.dead_letter_unused) simp

text \<open>
  On the in-process bus a failed message is lost: when every handler of a batch of first deliveries fails, nothing of the
  batch is acknowledged, dead-lettered or queued again; each queue is left as \<open>consume\<close> left it.
\<close>

theorem failed_memory_message_lost:
  assumes "mem_consume q 10 b = (ms, b')" and "\<forall>m \<in> set ms. mg_deliveries m = 1"
  shows "(case work_messages memory_worker_bus describe (\<lambda>m s. (Some (f m), s)) stop_after q ms w b' of (w', b'') \<Rightarrow>
     w' = w \<and> queued b'' j = queued b' j \<and> mb_acked b'' = mb_acked b' \<and> mb_dlq b'' = mb_dlq b')"
proof -
  have "work_messages memory_worker_bus describe (\<lambda>m s. (Some (f m), s)) stop_after q ms w b' = (w, b')"
    using assms(2) by (induction ms) (auto simp: MAX_HANDLER_FAILURES_def)
  then show ?thesis by simp
qed

definition lost_sample :: mem_bus where
  "lost_sample = snd (mem_enqueue 0 ''submit:default'' ''submit_upstream'' [] (new_bus 5))"

theorem failed_memory_message_lost_witness:
  "(case work_messages memory_worker_bus (\<lambda>_. ''err'') (\<lambda>m s. (Some (ValueError ''bad''), s)) None ''submit:default''
      (fst (mem_consume ''submit:default'' 10 lost_sample)) \<lparr>ws_processed = 0, ws_stop = False\<rparr>
      (snd (mem_consume ''submit:default'' 10 lost_sample)) of (w', b'') \<Rightarrow>
     queued b'' ''submit:default'' = [] \<and> mb_acked b'' = [] \<and> mb_dlq b'' = [])
   \<and> length (fst (mem_consume ''submit:default'' 10 lost_sample)) = 1"
proof -
  have q: "queued (snd (mem_consume ''submit:default'' 10 lost_sample)) ''submit:default'' = []"
    "mb_acked (snd (mem_consume ''submit:default'' 10 lost_sample)) = []" "mb_dlq (snd (mem_consume ''submit:default'' 10 lost_sample)) = []"
    "list_all (\<lambda>m. mg_deliveries m = 1) (fst (mem_consume ''submit:default'' 10 lost_sample))"
    "length (fst (mem_consume ''submit:default'' 10 lost_sample)) = 1"
    by code_simp+
  from failed_memory_message_lost [where q = "''submit:default''" and j = "''submit:default''" and b = lost_sample
      and describe = "\<lambda>_. ''err''" and f = "\<lambda>_. ValueError ''bad''" and stop_after = None
      and w = "\<lparr>ws_processed = 0, ws_stop = False\<rparr>", OF prod.collapse [symmetric]] q
  show ?thesis by (auto simp: list_all_iff split: prod.splits)
qed

end
