(* ===== verification/AdminFacts.thy ===== *)
theory AdminFacts
  imports Admin RegistryFacts
begin

text \<open>
  What the admin side guarantees whatever is asked of it in whatever order: a change that needs a review is made only after
  two different people have asked for it and approved it, and the audit log stays intact; and where the approvals leave gaps.
\<close>

subsection \<open>Requests\<close>

datatype gov_call =
    G_publish "string dict" jobj
  | G_patch "string dict" string jobj
  | G_canary "string dict" string table jobj
  | G_create string "string dict" jobj
  | G_approve "string dict" string
  | G_credential "string dict" jobj
  | G_reset time "string dict" string jobj

text \<open>A request at a time, with the failures of its database transactions.\<close>

record gov_request =
  gr_db :: "nat \<Rightarrow> exn option"
  gr_now :: time
  gr_call :: gov_call

definition gov_exec :: "admin_env \<Rightarrow> gov_request \<Rightarrow> governance \<Rightarrow> governance" where
  "gov_exec E0 r g = (let E = E0\<lparr>me_db := gr_db r\<rparr>; now = gr_now r in case gr_call r of
      G_publish hs raw \<Rightarrow> snd (publish_template E now hs raw g)
    | G_patch hs nm raw \<Rightarrow> snd (patch_template E now hs nm raw g)
    | G_canary hs nm tbl body \<Rightarrow> snd (set_canary E now hs nm tbl body g)
    | G_create uuid hs body \<Rightarrow> snd (create_approval E now uuid hs body g)
    | G_approve hs tid \<Rightarrow> snd (approve E now hs tid g)
    | G_credential hs body \<Rightarrow> snd (register_credential_ref E now hs body g)
    | G_reset wall hs chan body \<Rightarrow> snd (reset_channel_pacing E wall now hs chan body g))"

definition gov_run :: "admin_env \<Rightarrow> gov_request list \<Rightarrow> governance \<Rightarrow> governance" where
  "gov_run E rs g = fold (gov_exec E) rs g"

lemma gov_run_snoc [simp]: "gov_run E (rs @ [r]) g = gov_exec E r (gov_run E rs g)"
  by (simp add: gov_run_def)

lemma gov_run_Nil [simp]: "gov_run E [] g = g"
  by (simp add: gov_run_def)

subsection \<open>Which part of the state a step changes\<close>

lemma step_then_Inl [simp]: "step_then (Inl e, s) k = (Inl e, s)"
  and step_then_Inr [simp]: "step_then (Inr x, s) k = k x s"
  by (simp_all add: step_then_def)

lemma step_then_keeps: "P (snd r) \<Longrightarrow> (\<And>x s. P s \<Longrightarrow> P (snd (k x s))) \<Longrightarrow> P (snd (step_then r k))"
  by (cases r; cases "fst r") (auto simp: step_then_def)

lemma audit_governance_approvals [simp]: "gv_approvals (snd (audit_governance E now n who et st sid p refs g)) = gv_approvals g"
  by (simp add: audit_governance_def split: option.split)

lemma audit_governance_registry [simp]: "gv_registry (snd (audit_governance E now n who et st sid p refs g)) = gv_registry g"
  by (simp add: audit_governance_def split: option.split)

lemma audit_governance_policies [simp]: "gv_policies (snd (audit_governance E now n who et st sid p refs g)) = gv_policies g"
  by (simp add: audit_governance_def split: option.split)

lemma persist_template_keeps [simp]:
  "gv_approvals (snd (persist_template E now n tv who a g)) = gv_approvals g"
  "gv_registry (snd (persist_template E now n tv who a g)) = gv_registry g"
  "gv_audit (snd (persist_template E now n tv who a g)) = gv_audit g"
  by (simp_all add: persist_template_def split: option.split)

lemma step_then_snd:
  assumes "\<And>x s. f (snd (k x s)) = f s"
  shows "f (snd (step_then r k)) = f (snd r)"
  using assms by (cases r; cases "fst r") (simp_all add: step_then_def)

lemma record_change_keeps [simp]:
  "gv_approvals (snd (record_change E now who a tv et sub refs raw answer g)) = gv_approvals g"
  "gv_registry (snd (record_change E now who a tv et sub refs raw answer g)) = gv_registry g"
  by (simp_all add: record_change_def step_then_snd [where f = gv_approvals] step_then_snd [where f = gv_registry])

lemma patched_answer_approvals [simp]: "gv_approvals (snd (patched_answer E now who a nm raw plan g)) = gv_approvals g"
  by (auto simp: patched_answer_def split: sum.split option.split)

lemma published_answer_approvals [simp]: "gv_approvals (snd (published_answer E now who a raw plan g)) = gv_approvals g"
  by (auto simp: published_answer_def split: sum.split option.split)

lemma patch_template_approvals [simp]: "gv_approvals (snd (patch_template E now hs nm raw g)) = gv_approvals g"
  by (auto simp: patch_template_def step_then_snd [where f = gv_approvals] split: sum.split)

lemma publish_template_approvals [simp]: "gv_approvals (snd (publish_template E now hs raw g)) = gv_approvals g"
  by (auto simp: publish_template_def step_then_snd [where f = gv_approvals] split: sum.split option.split)

lemma set_canary_approvals [simp]: "gv_approvals (snd (set_canary E now hs nm tbl body g)) = gv_approvals g"
  by (auto simp: set_canary_def canary_recorded_def Let_def step_then_snd [where f = gv_approvals] split: sum.split option.split)

lemma register_credential_ref_approvals [simp]: "gv_approvals (snd (register_credential_ref E now hs body g)) = gv_approvals g"
  by (auto simp: register_credential_ref_def Let_def step_then_snd [where f = gv_approvals])

lemma reset_channel_pacing_approvals [simp]: "gv_approvals (snd (reset_channel_pacing E wall now hs chan body g)) = gv_approvals g"
  by (auto simp: reset_channel_pacing_def Let_def step_then_snd [where f = gv_approvals])

subsection \<open>Where tickets come from\<close>

definition asked_for :: "settings \<Rightarrow> gov_request \<Rightarrow> ticket \<Rightarrow> bool" where
  "asked_for st r t \<longleftrightarrow> (\<exists>uuid hs body who. gr_call r = G_create uuid hs body \<and> parse_actor st hs = Inr who
     \<and> tk_submitted_by t = who_name who \<and> tk_action t = py_str (field_or_default body ''action'' (JStr []))
     \<and> tk_subject t = py_str (field_or_default body ''subject'' (JStr [])))"

definition approved_in :: "settings \<Rightarrow> gov_request \<Rightarrow> string \<Rightarrow> ticket \<Rightarrow> bool" where
  "approved_in st r tid t \<longleftrightarrow> (\<exists>hs who. gr_call r = G_approve hs tid \<and> parse_actor st hs = Inr who \<and> is_approver who
     \<and> tk_approved_by t = Some (who_name who) \<and> who_name who \<noteq> tk_submitted_by t \<and> gr_now r \<le> tk_expires_at t)"

definition ticket_backed :: "settings \<Rightarrow> gov_request list \<Rightarrow> string \<Rightarrow> ticket \<Rightarrow> bool" where
  "ticket_backed st rs tid t \<longleftrightarrow> (\<exists>r \<in> set rs. asked_for st r t) \<and> (tk_approved t \<longrightarrow> (\<exists>r \<in> set rs. approved_in st r tid t))"

lemma require_roles_parse: "require_roles rs st hs = Inr who \<Longrightarrow> parse_actor st hs = Inr who \<and> has_role rs who"
  by (auto simp: require_roles_def bind_res_Inr_iff split: if_splits)

lemma create_ticket_result:
  "create_ticket now uuid action subject digest submitter impact ts = (t, ts') \<Longrightarrow>
     tk_submitted_by t = submitter \<and> \<not> tk_approved t \<and> tk_action t = action \<and> tk_subject t = subject \<and> ts' = dict_set (tk_id t) t ts"
  by (auto simp: create_ticket_def Let_def tk_approved_def)

lemma create_approval_tickets:
  "gv_approvals (snd (create_approval E now uuid hs body g)) = gv_approvals g
   \<or> (\<exists>who t. parse_actor (me_settings E) hs = Inr who \<and> tk_submitted_by t = who_name who \<and> \<not> tk_approved t
        \<and> tk_action t = py_str (field_or_default body ''action'' (JStr [])) \<and> tk_subject t = py_str (field_or_default body ''subject'' (JStr []))
        \<and> gv_approvals (snd (create_approval E now uuid hs body g)) = dict_set (tk_id t) t (gv_approvals g))"
  (is "?r = _ \<or> ?new")
proof (cases "require_roles ALL_ROLES (me_settings E) hs")
  case (Inl e)
  then show ?thesis by (simp add: create_approval_def)
next
  case (Inr who)
  let ?action = "py_str (field_or_default body ''action'' (JStr []))"
  obtain t ts where t: "create_ticket now uuid ?action (py_str (field_or_default body ''subject'' (JStr [])))
      (digest_payload (me_lib E) (field_or_default body ''payload'' (JObj []))) (who_name who)
      (field_or_default body ''impact'' (JObj [])) (gv_approvals g) = (t, ts)" by fastforce
  show ?thesis
  proof (cases "\<exists>roles. dict_get HIGH_RISK_ACTIONS ?action = Some roles \<and> has_role roles who")
    case True
    then have "?r = ts" using Inr t by (auto simp: create_approval_def Let_def step_then_snd [where f = gv_approvals])
    with create_ticket_result [OF t] require_roles_parse [OF Inr] show ?thesis by blast
  next
    case False
    then have "?r = gv_approvals g" using Inr by (auto simp: create_approval_def Let_def split: option.split)
    then show ?thesis by blast
  qed
qed

lemma approve_tickets:
  "gv_approvals (snd (approve E now hs tid g)) = gv_approvals g
   \<or> (\<exists>who t. parse_actor (me_settings E) hs = Inr who \<and> is_approver who \<and> dict_get (gv_approvals g) tid = Some t
        \<and> who_name who \<noteq> tk_submitted_by t \<and> now \<le> tk_expires_at t
        \<and> gv_approvals (snd (approve E now hs tid g)) =
            dict_set tid (t\<lparr>tk_approved_by := Some (who_name who), tk_approved_at := Some now\<rparr>) (gv_approvals g))"
proof (cases "require_roles [''approver''] (me_settings E) hs")
  case (Inl e)
  then show ?thesis by (simp add: approve_def)
next
  case (Inr who)
  show ?thesis
  proof (cases "approve_ticket now tid who (gv_approvals g)")
    case (Inl e)
    then show ?thesis by (simp add: approve_def Inr)
  next
    case (Inr r)
    then show ?thesis using require_roles_parse [OF \<open>require_roles _ _ hs = Inr who\<close>]
      by (auto simp: approve_def \<open>require_roles _ _ hs = Inr who\<close> approve_ticket_def tk_expired_def Let_def
          step_then_snd [where f = gv_approvals] split: option.splits if_splits)
  qed
qed

lemma ticket_backed_more: "ticket_backed st rs tid t \<Longrightarrow> ticket_backed st (rs @ [r]) tid t"
  by (auto simp: ticket_backed_def)

lemma gov_exec_tickets:
  assumes "dict_get (gv_approvals (gov_exec E r g)) tid = Some t"
  shows "dict_get (gv_approvals g) tid = Some t \<or> (asked_for (me_settings E) r t \<and> \<not> tk_approved t)
     \<or> (\<exists>t0. dict_get (gv_approvals g) tid = Some t0 \<and> approved_in (me_settings E) r tid t \<and> tk_submitted_by t = tk_submitted_by t0
          \<and> tk_action t = tk_action t0 \<and> tk_subject t = tk_subject t0)"
proof (cases "gr_call r")
  case (G_create uuid hs body)
  let ?E = "E\<lparr>me_db := gr_db r\<rparr>"
  show ?thesis
    using create_approval_tickets [of ?E "gr_now r" uuid hs body g] assms
    by (auto simp: gov_exec_def G_create asked_for_def split: if_splits)
next
  case (G_approve hs tid')
  let ?E = "E\<lparr>me_db := gr_db r\<rparr>"
  show ?thesis
    using approve_tickets [of ?E "gr_now r" hs tid' g] assms
    by (auto simp: gov_exec_def G_approve approved_in_def split: if_splits)
qed (use assms in \<open>simp_all add: gov_exec_def Let_def\<close>)

lemma tickets_backed:
  assumes "gv_approvals g0 = []" and "dict_get (gv_approvals (gov_run E rs g0)) tid = Some t"
  shows "ticket_backed (me_settings E) rs tid t"
  using assms(2)
proof (induction rs arbitrary: t rule: rev_induct)
  case Nil
  then show ?case using assms(1) by simp
next
  case (snoc r rs)
  from gov_exec_tickets [OF snoc(2) [unfolded gov_run_snoc]] show ?case
  proof (elim disjE exE conjE)
    assume "dict_get (gv_approvals (gov_run E rs g0)) tid = Some t"
    then show ?thesis by (rule ticket_backed_more [OF snoc(1)])
  next
    assume "asked_for (me_settings E) r t" "\<not> tk_approved t"
    then show ?thesis by (auto simp: ticket_backed_def)
  next
    fix t0
    assume t0: "dict_get (gv_approvals (gov_run E rs g0)) tid = Some t0" "approved_in (me_settings E) r tid t"
      "tk_submitted_by t = tk_submitted_by t0" "tk_action t = tk_action t0" "tk_subject t = tk_subject t0"
    with snoc(1) [OF t0(1)] show ?thesis by (auto simp: ticket_backed_def asked_for_def)
  qed
qed

text \<open>Two different people, one of them an approver, have asked for the action on the subject and approved it.\<close>

definition two_people :: "settings \<Rightarrow> gov_request list \<Rightarrow> string \<Rightarrow> string \<Rightarrow> bool" where
  "two_people st rs action subject \<longleftrightarrow> (\<exists>r1 \<in> set rs. \<exists>r2 \<in> set rs. \<exists>uuid hs1 body hs2 tid who1 who2.
     gr_call r1 = G_create uuid hs1 body \<and> parse_actor st hs1 = Inr who1
     \<and> action = py_str (field_or_default body ''action'' (JStr [])) \<and> subject = py_str (field_or_default body ''subject'' (JStr []))
     \<and> gr_call r2 = G_approve hs2 tid \<and> parse_actor st hs2 = Inr who2 \<and> is_approver who2 \<and> who_name who1 \<noteq> who_name who2)"

lemma consume_ticket_found:
  "consume_ticket now p action subject ts = Inr t \<Longrightarrow>
     \<exists>tid. p = Some tid \<and> tid \<noteq> [] \<and> dict_get ts tid = Some t \<and> tk_approved t \<and> now \<le> tk_expires_at t
       \<and> tk_action t = action \<and> tk_subject t = subject \<and> Some (tk_submitted_by t) \<noteq> tk_approved_by t"
  by (auto simp: consume_ticket_def tk_expired_def split: option.splits list.splits if_splits)

lemma consumed_two_people:
  assumes "gv_approvals g0 = []" and "consume_ticket now p action subject (gv_approvals (gov_run E rs g0)) = Inr t"
  shows "two_people (me_settings E) rs action subject"
proof -
  obtain tid where t: "dict_get (gv_approvals (gov_run E rs g0)) tid = Some t" "tk_approved t" "tk_action t = action" "tk_subject t = subject"
    using consume_ticket_found [OF assms(2)] by blast
  then obtain r1 r2 where "r1 \<in> set rs" "asked_for (me_settings E) r1 t" "r2 \<in> set rs" "approved_in (me_settings E) r2 tid t"
    using tickets_backed [OF assms(1) t(1)] by (auto simp: ticket_backed_def)
  then show ?thesis unfolding two_people_def asked_for_def approved_in_def using t(3,4) by metis
qed

subsection \<open>What a publication and a revision change\<close>

lemma published_answer_registry:
  "gv_registry (snd (published_answer E now who a raw plan g)) =
     (case register (me_lib E) (me_pydantic E) (me_settings E) (me_builtin E) (me_own E) None True True raw (gv_registry g) of
        Inr (reg, Some tv, rep) \<Rightarrow> reg | _ \<Rightarrow> gv_registry g)"
  by (auto simp: published_answer_def split: sum.split option.split)

lemma register_alias:
  assumes "validate_raw L P st builtin raw = Inr report" and "report_ok report" and "vr_resolved report = Some t"
    and "register L P st builtin own v en True raw reg = Inr (reg', Some tv, rep)"
  shows "reg' = put_version reg tv \<and> tv_alias tv = rt_alias t"
  using assms by (auto simp: register_def bind_res_Inr_iff reported_or_resolved_def new_version_def Let_def)

lemma put_version_versions: "al \<noteq> tv_alias tv \<Longrightarrow> versions_of (put_version reg tv) al = versions_of reg al"
  by (simp add: put_version_def)

lemma publish_changes:
  assumes "versions_of (gv_registry (snd (publish_template E now hs raw g))) al \<noteq> versions_of (gv_registry g) al"
  obtains plan where "plan_change (me_lib E) (me_pydantic E) (me_settings E) (me_own E) raw (gv_registry g) = Inr plan"
    and "pl_requires_dual_review plan \<longrightarrow> (\<exists>t. consume_ticket now (approval_header hs) ''template.publish'' al (gv_approvals g) = Inr t)"
proof -
  let ?st = "me_settings E" and ?reg = "gv_registry (snd (publish_template E now hs raw g))"
  have changed: "?reg \<noteq> gv_registry g" using assms by auto
  obtain who where who: "require_roles [''template-author'', ''approver''] ?st hs = Inr who"
    using changed by (cases "require_roles [''template-author'', ''approver''] ?st hs") (auto simp: publish_template_def)
  obtain report where report: "validate_raw (me_lib E) (me_pydantic E) ?st (me_builtin E) raw = Inr report"
    using changed who by (cases "validate_raw (me_lib E) (me_pydantic E) ?st (me_builtin E) raw") (auto simp: publish_template_def)
  obtain t where t: "vr_resolved report = Some t" "report_ok report"
    using changed who report by (auto simp: publish_template_def split: option.splits if_splits)
  obtain plan where plan: "plan_change (me_lib E) (me_pydantic E) ?st (me_own E) raw (gv_registry g) = Inr plan"
    using changed who report t by (cases "plan_change (me_lib E) (me_pydantic E) ?st (me_own E) raw (gv_registry g)") (auto simp: publish_template_def)
  let ?ticket = "consume_ticket now (approval_header hs) ''template.publish'' (rt_alias t) (gv_approvals g)"
  have granted: "\<exists>x. ?ticket = Inr x" if "pl_requires_dual_review plan"
    using changed who report t plan that by (cases ?ticket) (auto simp: publish_template_def)
  have "?reg = gv_registry (snd (published_answer E now who (approval_header hs) raw plan g))"
    using changed granted who report t plan by (auto simp: publish_template_def)
  then obtain reg tv rep where reg:
      "register (me_lib E) (me_pydantic E) ?st (me_builtin E) (me_own E) None True True raw (gv_registry g) = Inr (reg, Some tv, rep)" "?reg = reg"
    using changed by (auto simp: published_answer_registry split: sum.splits option.splits)
  have "al = rt_alias t"
    using register_alias [OF report t(2,1) reg(1)] assms reg(2) put_version_versions by metis
  with that [OF plan] granted show ?thesis by simp
qed

lemma patched_answer_registry:
  "gv_registry (snd (patched_answer E now who a nm raw plan g)) =
     (case patch_in_place (me_lib E) (me_pydantic E) (me_settings E) (me_builtin E) (me_own E) raw (gv_registry g) of
        Inr (reg, Some tv, rep) \<Rightarrow> reg | _ \<Rightarrow> gv_registry g)"
  by (auto simp: patched_answer_def split: sum.split option.split)

lemma patch_changes:
  assumes "gv_registry (snd (patch_template E now hs nm raw g)) \<noteq> gv_registry g"
  shows "\<exists>t. consume_ticket now (approval_header hs) ''template.patch'' nm (gv_approvals g) = Inr t"
  using assms by (cases "require_roles [''template-author'', ''approver''] (me_settings E) hs";
      cases "consume_ticket now (approval_header hs) ''template.patch'' nm (gv_approvals g)")
    (auto simp: patch_template_def split: sum.splits if_splits)

lemma credential_changes:
  assumes "fst (register_credential_ref E now hs body g) = Inr answer"
  shows "\<exists>t. consume_ticket now (approval_header hs) ''credential_ref.change''
     (strip (py_str (field_or_default body ''name'' JNull))) (gv_approvals g) = Inr t"
  using assms by (cases "require_roles [''operator'', ''approver''] (me_settings E) hs";
      cases "consume_ticket now (approval_header hs) ''credential_ref.change'' (strip (py_str (field_or_default body ''name'' JNull))) (gv_approvals g)")
    (auto simp: register_credential_ref_def Let_def split: if_splits)

subsection \<open>Samples\<close>

definition sample_admin :: admin_env where
  "sample_admin = \<lparr>me_lib = three_lib, me_pydantic = plain_pydantic, me_settings = default_settings, me_builtin = [], me_own = [],
     me_late = (\<lambda>_. False), me_db = (\<lambda>_. None)\<rparr>"

definition new_governance :: governance where
  "new_governance = \<lparr>gv_registry = [], gv_policies = [], gv_approvals = [], gv_polling = empty_polling, gv_rows = [], gv_audit = []\<rparr>"

definition headers_of :: "string \<Rightarrow> string \<Rightarrow> string dict" where
  "headers_of name roles = [(''x-ag-admin-token'', ''dev-admin-token''), (''x-ag-actor'', name), (''x-ag-roles'', roles),
     (''x-ag-approval'', ''0123456789abcdef'')]"

definition sample_requests :: "gov_request list" where
  "sample_requests =
     [\<lparr>gr_db = (\<lambda>_. None), gr_now = 0, gr_call = G_create ''0123456789abcdef'' (headers_of ''ann'' ''template-author'')
         [(''action'', JStr ''template.publish''), (''subject'', JStr ''video'')]\<rparr>,
      \<lparr>gr_db = (\<lambda>_. None), gr_now = 10, gr_call = G_approve (headers_of ''bob'' ''approver'') ''0123456789abcdef''\<rparr>]"

definition sample_governance :: governance where
  "sample_governance = gov_run sample_admin sample_requests new_governance"

subsection \<open>Properties\<close>


lemma sample_ticket:
  "gv_registry sample_governance = [] \<and> (case consume_ticket 20 (approval_header (headers_of ''ann'' ''template-author''))
     ''template.publish'' ''video'' (gv_approvals sample_governance) of Inl e \<Rightarrow> False | Inr t \<Rightarrow> True)"
  by code_simp

lemma sample_author: "(case require_roles [''template-author'', ''approver''] default_settings (headers_of ''ann'' ''template-author'') of
    Inl e \<Rightarrow> False | Inr who \<Rightarrow> True)"
  by code_simp

lemma sample_plan: "(case plan_change three_lib plain_pydantic default_settings [] raw_template [] of
    Inl e \<Rightarrow> False | Inr plan \<Rightarrow> pl_requires_dual_review plan)"
  by code_simp

lemma sample_publication:
  "versions_of (gv_registry (snd (publish_template sample_admin 20 (headers_of ''ann'' ''template-author'') raw_template sample_governance))) ''video'' \<noteq> []"
proof -
  obtain reg tv rep where reg: "register three_lib plain_pydantic default_settings [] [] None True True raw_template [] = Inr (reg, Some tv, rep)"
      "tv_alias tv = ''video''"
    using registered_sample_value by (auto simp: registered_sample_def split: sum.splits)
  then have rep: "validate_raw three_lib plain_pydantic default_settings [] raw_template = Inr rep" "report_ok rep"
    by (auto simp: register_def bind_res_Inr_iff Let_def split: if_splits)
  then obtain u where u: "vr_resolved rep = Some u" by (auto simp: report_ok_def)
  note put = register_alias [OF rep u reg(1)]
  obtain who t plan where "require_roles [''template-author'', ''approver''] default_settings (headers_of ''ann'' ''template-author'') = Inr who"
      "consume_ticket 20 (approval_header (headers_of ''ann'' ''template-author'')) ''template.publish'' ''video'' (gv_approvals sample_governance) = Inr t"
      "plan_change three_lib plain_pydantic default_settings [] raw_template [] = Inr plan" "pl_requires_dual_review plan"
    using sample_author sample_ticket sample_plan by (auto split: sum.splits)
  then have "gv_registry (snd (publish_template sample_admin 20 (headers_of ''ann'' ''template-author'') raw_template sample_governance)) = reg"
    using rep u put reg sample_ticket by (simp add: publish_template_def sample_admin_def published_answer_registry)
  then show ?thesis using put reg(2) by (simp add: put_version_def versions_of_def sort_key_const)
qed


text \<open>The audit log of a governance state: intact, and \<open>g'\<close>'s continues \<open>g\<close>'s.\<close>

definition audit_continues :: "pylib \<Rightarrow> governance \<Rightarrow> governance \<Rightarrow> bool" where
  "audit_continues L g g' \<longleftrightarrow> (verify_from L None (gv_audit g) = None \<longrightarrow> verify_from L None (gv_audit g') = None)
     \<and> (\<exists>more. gv_audit g' = gv_audit g @ more)"

lemma audit_continues_same [simp]: "gv_audit g' = gv_audit g \<Longrightarrow> audit_continues L g g'"
  by (simp add: audit_continues_def)

lemma audit_continues_trans: "audit_continues L g g' \<Longrightarrow> audit_continues L g' g'' \<Longrightarrow> audit_continues L g g''"
  by (auto simp: audit_continues_def)

lemma audit_governance_continues: "gv_audit g' = gv_audit g \<Longrightarrow> audit_continues (me_lib E) g (snd (audit_governance E now n who et st sid p refs g'))"
  by (auto simp: audit_governance_def audit_continues_def verify_append_event split: option.split) (auto simp: append_event_def)

lemma continues_then:
  assumes "audit_continues L g (snd r)" and "\<And>x. fst r = Inr x \<Longrightarrow> snd (k x (snd r)) = snd r"
  shows "audit_continues L g (snd (step_then r k))"
  using assms by (cases r; cases "fst r") (auto simp: step_then_def)

lemma record_change_continues:
  "gv_audit g' = gv_audit g \<Longrightarrow> audit_continues (me_lib E) g (snd (record_change E now who a tv et sub refs raw answer g'))"
  unfolding record_change_def by (cases "persist_template E now 0 tv who a g'"; cases "fst (persist_template E now 0 tv who a g')")
    (auto intro!: continues_then audit_governance_continues dest: arg_cong [of _ _ "\<lambda>r. gv_audit (snd r)"])

definition governed :: "admin_env \<Rightarrow> governance \<Rightarrow> governance \<Rightarrow> bool" where
  "governed E g g' \<longleftrightarrow> (registry_ok (gv_registry g) \<longrightarrow> registry_ok (gv_registry g')) \<and> audit_continues (me_lib E) g g'"

lemma governed_same [simp]: "gv_registry g' = gv_registry g \<Longrightarrow> gv_audit g' = gv_audit g \<Longrightarrow> governed E g g'"
  by (simp add: governed_def)

lemma governed_patched: "governed E g (snd (patched_answer E now who a nm raw plan g))"
proof -
  have "registry_ok (gv_registry g) \<longrightarrow> registry_ok (gv_registry (snd (patched_answer E now who a nm raw plan g)))"
    using revise_ok by (auto simp: patched_answer_registry dest!: patch_in_place_cases split: sum.splits option.splits)
  then show ?thesis by (auto simp: governed_def patched_answer_def record_change_continues split: sum.splits option.splits)
qed

lemma governed_published: "governed E g (snd (published_answer E now who a raw plan g))"
proof -
  have "registry_ok (gv_registry g) \<longrightarrow> registry_ok (gv_registry (snd (published_answer E now who a raw plan g)))"
    using put_version_ok by (auto simp: published_answer_registry dest!: register_cases split: sum.splits option.splits)
  then show ?thesis by (auto simp: governed_def published_answer_def record_change_continues split: sum.splits option.splits)
qed

lemma governed_then:
  "gv_registry (snd r) = gv_registry g \<Longrightarrow> gv_audit (snd r) = gv_audit g \<Longrightarrow> (\<And>x. governed E g (snd (k x (snd r))))
   \<Longrightarrow> governed E g (snd (step_then r k))"
  by (cases r; cases "fst r") (auto simp: step_then_def)

lemma governed_audit:
  assumes "gv_registry g' = gv_registry g" and "gv_audit g' = gv_audit g" and "\<And>x s. snd (k x s) = s"
  shows "governed E g (snd (step_then (audit_governance E now n who et st sid p refs g') k))"
  using assms audit_governance_continues [OF assms(2), of E now n who et st sid p refs]
  by (auto simp: governed_def step_then_snd [where f = gv_registry] intro!: continues_then)

lemma governed_exec:
  assumes "me_db E = gr_db r"
  shows "governed E g (gov_exec E r g)"
proof -
  have E: "E\<lparr>me_db := gr_db r\<rparr> = E" using assms by simp
  show ?thesis
  proof (cases "gr_call r")
    case (G_publish hs raw)
    have "governed E g (snd (publish_template E (gr_now r) hs raw g))"
      by (auto simp: publish_template_def intro!: governed_then governed_published split: option.split)
    then show ?thesis by (simp add: gov_exec_def G_publish E)
  next
    case (G_patch hs nm raw)
    have "governed E g (snd (patch_template E (gr_now r) hs nm raw g))"
      by (auto simp: patch_template_def intro!: governed_then governed_patched split: sum.split)
    then show ?thesis by (simp add: gov_exec_def G_patch E)
  next
    case (G_canary hs nm tbl body)
    have "governed E g (snd (canary_recorded E (gr_now r) hs nm tbl chan version w who g'))"
      if "gv_registry g' = gv_registry g" "gv_audit g' = gv_audit g" for chan version w who g'
      using that by (auto simp: canary_recorded_def Let_def intro!: governed_audit split: option.split)
    then have "governed E g (snd (set_canary E (gr_now r) hs nm tbl body g))"
      by (auto simp: set_canary_def Let_def intro!: governed_then)
    then show ?thesis by (simp add: gov_exec_def G_canary E)
  next
    case (G_create uuid hs body)
    have "governed E g (snd (create_approval E (gr_now r) uuid hs body g))"
      by (auto simp: create_approval_def create_ticket_def Let_def intro!: governed_then governed_audit split: option.split)
    then show ?thesis by (simp add: gov_exec_def G_create E)
  next
    case (G_approve hs tid)
    have "governed E g (snd (approve E (gr_now r) hs tid g))"
      by (auto simp: approve_def intro!: governed_then governed_audit split: sum.split)
    then show ?thesis by (simp add: gov_exec_def G_approve E)
  next
    case (G_credential hs body)
    have "governed E g (snd (register_credential_ref E (gr_now r) hs body g))"
      by (auto simp: register_credential_ref_def Let_def intro!: governed_then governed_audit)
    then show ?thesis by (simp add: gov_exec_def G_credential E)
  next
    case (G_reset wall hs chan body)
    have "governed E g (snd (reset_channel_pacing E wall (gr_now r) hs chan body g))"
      by (auto simp: reset_channel_pacing_def Let_def intro!: governed_then governed_audit)
    then show ?thesis by (simp add: gov_exec_def G_reset E)
  qed
qed



text \<open>
  A refused change of a canary weight has already taken effect. Without an approval the request of an operator ends in
  \<open>409\<close>, but the weight of the version is then the requested one (clipped to between 0 and 1): the policy is written
  before the ticket is looked at.
\<close>

theorem refused_canary_takes_effect:
  assumes "require_roles [''operator'', ''approver''] (me_settings E) hs = Inr who" and "approval_header hs = None"
    and "json_int (me_lib E) (field_or_default body ''version'' (JInt 0)) = Inr version"
    and "json_number (me_lib E) (field_or_default body ''weight'' (JInt 0)) = Inr w"
    and "chan = py_str (field_or_default body ''channel'' (JStr []))" and "chan \<noteq> []"
  shows "fst (set_canary E now hs al tbl body g) = Inl (HTTPException 409 ''approval ticket required'')
    \<and> (\<exists>b. dict_get (cp_canary (policy_of (gv_policies (snd (set_canary E now hs al tbl body g))) chan)) al = Some b
         \<and> map_of b version = Some (max 0 (min 1 w)))"
  using assms by (simp add: set_canary_def consume_ticket_def bind_canary_def policy_of_def Let_def update_conv')

theorem refused_canary_takes_effect_witness:
  "\<exists>b. dict_get (cp_canary (policy_of (gv_policies (snd (set_canary sample_admin 0 (List.butlast (headers_of ''eve'' ''operator'')) ''video'' []
       [(''version'', JInt 2), (''weight'', JInt 1), (''channel'', JStr ''chan'')] new_governance))) ''chan'')) ''video'' = Some b
     \<and> map_of b 2 = Some 1"
proof -
  obtain who where "require_roles [''operator'', ''approver''] (me_settings sample_admin) (List.butlast (headers_of ''eve'' ''operator'')) = Inr who"
  proof -
    have "(case require_roles [''operator'', ''approver''] default_settings (List.butlast (headers_of ''eve'' ''operator'')) of
        Inl e \<Rightarrow> False | Inr who \<Rightarrow> True)" by code_simp
    then show ?thesis using that by (auto simp: sample_admin_def split: sum.splits)
  qed
  from refused_canary_takes_effect [OF this, where body = "[(''version'', JInt 2), (''weight'', JInt 1), (''channel'', JStr ''chan'')]"
      and version = 2 and w = 1 and chan = "''chan''" and al = "''video''" and g = new_governance]
  show ?thesis by (simp add: headers_of_def approval_header_def field_or_default_def json_int_def json_number_def py_int_def)
qed

definition leaves_tickets :: "gov_request \<Rightarrow> bool" where
  "leaves_tickets r \<longleftrightarrow> (case gr_call r of G_create _ _ _ \<Rightarrow> False | G_approve _ _ \<Rightarrow> False | _ \<Rightarrow> True)"

lemma leaves_tickets_run: "list_all leaves_tickets rs \<Longrightarrow> gv_approvals (gov_run E rs g) = gv_approvals g"
proof (induction rs rule: rev_induct)
  case (snoc r rs)
  then show ?case by (cases "gr_call r") (simp_all add: gov_exec_def leaves_tickets_def Let_def)
qed simp

text \<open>
  An approval is not used up. As long as no further ticket is submitted or approved, the same ticket backs any number of
  requests until it expires: whatever was done with it, it is accepted again.
\<close>

theorem approval_is_reusable:
  assumes "consume_ticket now p action subject (gv_approvals g) = Inr t" and "list_all leaves_tickets rs" and "now' \<le> tk_expires_at t"
  shows "consume_ticket now' p action subject (gv_approvals (gov_run E rs g)) = Inr t"
  using assms(1,3) by (auto simp: leaves_tickets_run [OF assms(2)] consume_ticket_def tk_expired_def split: option.splits list.splits if_splits)

definition second_request :: gov_request where
  "second_request = \<lparr>gr_db = (\<lambda>_. None), gr_now = 20, gr_call = G_publish (headers_of ''ann'' ''template-author'') raw_template\<rparr>"

theorem approval_is_reusable_witness:
  "\<exists>t. consume_ticket 30 (Some ''0123456789abcdef'') ''template.publish'' ''video'' (gv_approvals (gov_run sample_admin [second_request] sample_governance)) = Inr t"
proof -
  obtain t where t: "consume_ticket 20 (Some ''0123456789abcdef'') ''template.publish'' ''video'' (gv_approvals sample_governance) = Inr t"
    using sample_ticket by (auto simp: approval_header_def headers_of_def split: sum.splits)
  have "tk_expires_at t \<ge> 30"
  proof -
    have "(case dict_get (gv_approvals sample_governance) ''0123456789abcdef'' of None \<Rightarrow> False | Some t \<Rightarrow> tk_expires_at t \<ge> 30)"
      by code_simp
    then show ?thesis using consume_ticket_found [OF t] by auto
  qed
  from approval_is_reusable [OF t _ this, of "[second_request]" sample_admin] show ?thesis
    by (simp add: leaves_tickets_def second_request_def)
qed

text \<open>
  The ticket for a revision in place names the alias of the path, but what is revised is the alias of the body: with a
  ticket for one alias the registry gets the revision of another, and the versions of the alias that was approved stay.
\<close>

theorem revision_outside_its_ticket:
  assumes "require_roles [''template-author'', ''approver''] (me_settings E) hs = Inr who"
    and "consume_ticket now (approval_header hs) ''template.patch'' nm (gv_approvals g) = Inr t"
    and "patch_in_place (me_lib E) (me_pydantic E) (me_settings E) (me_builtin E) (me_own E) raw (gv_registry g) = Inr (reg', Some tv, rep, plan)"
  shows "gv_registry (snd (patch_template E now hs nm raw g)) = reg'
    \<and> (nm \<noteq> rt_alias (tv_resolved tv) \<longrightarrow> versions_of reg' nm = versions_of (gv_registry g) nm)"
proof -
  have reg: "versions_of reg' nm = versions_of (gv_registry g) nm" if "nm \<noteq> rt_alias (tv_resolved tv)" for nm
    using assms(3) that by (auto simp: patch_in_place_def bind_res_Inr_iff revise_def split: if_splits option.splits)
  have "plan_change (me_lib E) (me_pydantic E) (me_settings E) (me_own E) raw (gv_registry g) = Inr plan" "pl_apply_mode plan = IN_PLACE"
    using assms(3) by (auto simp: patch_in_place_def bind_res_Inr_iff split: if_splits option.splits)
  then have "gv_registry (snd (patch_template E now hs nm raw g)) = reg'"
    using assms by (simp add: patch_template_def patched_answer_registry)
  then show ?thesis using reg by blast
qed

lemma classify_change_same: "pl_apply_mode (classify_change L t t) = IN_PLACE"
proof -
  have "changed_fields L t t = []" by (simp add: changed_fields_def opt_eq_def Let_def)
  then show ?thesis by (simp add: classify_change_def)
qed

definition other_requests :: "gov_request list" where
  "other_requests =
     [\<lparr>gr_db = (\<lambda>_. None), gr_now = 0, gr_call = G_create ''0123456789abcdef'' (headers_of ''ann'' ''template-author'')
         [(''action'', JStr ''template.patch''), (''subject'', JStr ''other'')]\<rparr>,
      \<lparr>gr_db = (\<lambda>_. None), gr_now = 10, gr_call = G_approve (headers_of ''bob'' ''approver'') ''0123456789abcdef''\<rparr>]"

lemma other_ticket: "(case consume_ticket 20 (approval_header (headers_of ''ann'' ''template-author'')) ''template.patch'' ''other''
     (gv_approvals (gov_run sample_admin other_requests new_governance)) of Inl e \<Rightarrow> False | Inr t \<Rightarrow> True)"
  by code_simp

theorem revision_outside_its_ticket_witness:
  "\<exists>reg tv rep. registered_sample = Inr (reg, Some tv, rep) \<and> tv_alias tv = ''video''
     \<and> gv_registry (snd (patch_template sample_admin 20 (headers_of ''ann'' ''template-author'') ''other'' raw_template
           ((gov_run sample_admin other_requests new_governance)\<lparr>gv_registry := reg\<rparr>)))
       = revise reg tv (tv_resolved tv) raw_template"
proof -
  obtain reg tv rep where reg: "registered_sample = Inr (reg, Some tv, rep)" "tv_alias tv = ''video''"
    using registered_sample_value by (auto split: sum.splits)
  then have rep: "validate_raw three_lib plain_pydantic default_settings [] raw_template = Inr rep" "report_ok rep"
    by (auto simp: registered_sample_def register_def bind_res_Inr_iff Let_def split: if_splits)
  obtain d u ids where u: "load_draft three_lib plain_pydantic raw_template = Some d" "resolve three_lib plain_pydantic default_settings [] d = Inr (u, ids)"
      "vr_resolved rep = Some u" using rep by (rule validate_raw_resolved)
  have tv: "tv_resolved tv = u" "tv_enabled tv" "tv_canary_weight tv = 1" "reg = put_version [] tv" "rt_alias u = tv_alias tv"
    using reg(1) rep u(3) by (auto simp: registered_sample_def register_def bind_res_Inr_iff reported_or_resolved_def new_version_def Let_def)
  then have vs: "versions_of reg (rt_alias u) = [tv]" by (simp add: put_version_def versions_of_def sort_key_const)
  then have got: "registry_get reg (rt_alias u) None = Some tv" using tv by (simp add: registry_get_def)
  obtain who t where who: "require_roles [''template-author'', ''approver''] default_settings (headers_of ''ann'' ''template-author'') = Inr who"
    and t: "consume_ticket 20 (approval_header (headers_of ''ann'' ''template-author'')) ''template.patch'' ''other''
        (gv_approvals (gov_run sample_admin other_requests new_governance)) = Inr t"
    using sample_author other_ticket by (auto split: sum.splits)
  have "plan_change three_lib plain_pydantic default_settings [] raw_template reg = Inr (classify_change three_lib u u)"
    using u got tv(1) by (simp add: plan_change_def draft_of_def)
  then have "patch_in_place three_lib plain_pydantic default_settings [] [] raw_template reg
      = Inr (revise reg tv u raw_template, Some (tv\<lparr>tv_resolved := u, tv_raw := raw_template\<rparr>), rep, classify_change three_lib u u)"
    using rep u got by (simp add: patch_in_place_def classify_change_same)
  then have "gv_registry (snd (patch_template sample_admin 20 (headers_of ''ann'' ''template-author'') ''other'' raw_template
      ((gov_run sample_admin other_requests new_governance)\<lparr>gv_registry := reg\<rparr>))) = revise reg tv u raw_template"
    using revision_outside_its_ticket [where E = sample_admin and now = 20 and nm = "''other''" and t = t and who = who
        and hs = "headers_of ''ann'' ''template-author''" and raw = raw_template
        and g = "(gov_run sample_admin other_requests new_governance)\<lparr>gv_registry := reg\<rparr>"] who t
    by (simp add: sample_admin_def)
  with reg tv(1) show ?thesis by blast
qed

end
