(* ===== verification/AdminTaskFacts.thy ===== *)
theory AdminTaskFacts
  imports ApiProps AdminFacts
begin

text \<open>
  Replaying and closing a task from the admin side: under which conditions a replay inserts its row and how often, and which
  tasks a person can close.
\<close>

subsection \<open>The replay rate\<close>

text \<open>Attempts one after the other: the kept times and all that were granted.\<close>

definition replay_attempt :: "int \<Rightarrow> time \<Rightarrow> time list \<times> time list \<Rightarrow> time list \<times> time list" where
  "replay_attempt limit now s = (case enforce_replay_rate limit now (fst s) of
      (Inl e, ts) \<Rightarrow> (ts, snd s) | (Inr _, ts) \<Rightarrow> (ts, snd s @ [now]))"

definition replay_attempts :: "int \<Rightarrow> time list \<Rightarrow> time list \<times> time list" where
  "replay_attempts limit nows = fold (replay_attempt limit) nows ([], [])"

definition in_minute :: "time \<Rightarrow> time list \<Rightarrow> time list" where
  "in_minute x ts = filter (\<lambda>t. x - 60 < t \<and> t \<le> x) ts"

lemma replay_attempt_cases:
  assumes "fst s = filter (\<lambda>t. prev - t < 60) (snd s)" and "prev \<le> now"
  shows "fst (replay_attempt limit now s) = filter (\<lambda>t. now - t < 60) (snd (replay_attempt limit now s))
    \<and> (snd (replay_attempt limit now s) = snd s
       \<or> snd (replay_attempt limit now s) = snd s @ [now] \<and> int (length (filter (\<lambda>t. now - t < 60) (snd s))) < limit)"
proof -
  have "filter (\<lambda>t. now - t < 60) (fst s) = filter (\<lambda>t. now - t < 60) (snd s)"
    using assms by (auto intro!: filter_cong)
  then show ?thesis by (auto simp: replay_attempt_def enforce_replay_rate_def Let_def)
qed

lemma replay_attempts_bounded:
  assumes "sorted nows" and "0 \<le> limit"
  shows "\<exists>h. replay_attempts limit nows = (filter (\<lambda>t. (if nows = [] then 0 else List.last nows) - t < 60) h, h)
     \<and> set h \<subseteq> set nows \<and> (\<forall>x. int (length (in_minute x h)) \<le> limit)"
  using assms(1)
proof (induction nows rule: rev_induct)
  case Nil
  then show ?case using assms(2) by (simp add: replay_attempts_def in_minute_def)
next
  case (snoc now nows)
  let ?prev = "if nows = [] then 0 else List.last nows"
  from snoc obtain h where h: "replay_attempts limit nows = (filter (\<lambda>t. ?prev - t < 60) h, h)" "set h \<subseteq> set nows"
      "\<forall>x. int (length (in_minute x h)) \<le> limit" by (auto simp: sorted_append)
  define s where "s = (filter (\<lambda>t. ?prev - t < 60) h, h)"
  define s' where "s' = replay_attempt limit now s"
  have run: "replay_attempts limit (nows @ [now]) = s'" using h(1) by (simp add: replay_attempts_def s'_def s_def)
  have upto: "\<forall>t \<in> set h. t \<le> now" using snoc(2) h(2) by (auto simp: sorted_append)
  have new: "fst s' = filter (\<lambda>t. now - t < 60) (snd s')
      \<and> (snd s' = h \<or> snd s' = h @ [now] \<and> int (length (filter (\<lambda>t. now - t < 60) h)) < limit)"
  proof (cases "nows = []")
    case True
    then have "h = []" using h(2) by simp
    then show ?thesis using replay_attempt_cases [of s now now limit] by (simp add: s'_def s_def)
  next
    case False
    then have "List.last nows \<le> now" using snoc(2) by (auto simp: sorted_append)
    then show ?thesis using replay_attempt_cases [of s ?prev now limit] False by (simp add: s'_def s_def)
  qed
  have "int (length (in_minute x (snd s'))) \<le> limit" for x
  proof (cases "snd s' = h \<or> x < now")
    case True
    then have "in_minute x (snd s') = in_minute x h" using new by (auto simp: in_minute_def)
    then show ?thesis using h(3) by simp
  next
    case False
    then have "snd s' = h @ [now]" "int (length (filter (\<lambda>t. now - t < 60) h)) < limit" "now \<le> x" using new by auto
    moreover have "length (in_minute x h) \<le> length (filter (\<lambda>t. now - t < 60) h)"
    proof -
      have "in_minute x h = filter (\<lambda>t. x - 60 < t \<and> t \<le> x) (filter (\<lambda>t. now - t < 60) h)"
        using \<open>now \<le> x\<close> by (auto simp: in_minute_def intro!: filter_cong)
      then show ?thesis by (metis length_filter_le)
    qed
    ultimately show ?thesis by (simp add: in_minute_def)
  qed
  moreover have "set (snd s') \<subseteq> set (nows @ [now])" using new h(2) by auto
  ultimately show ?case using new run by (intro exI [of _ "snd s'"]) (auto simp: prod_eq_iff)
qed

subsection \<open>What a replay does\<close>

lemma run_replay_insert_table:
  "ro_table (run (replay_insert E hs parent row credential) ora n tbl) = (case insert_task row tbl of Inl e \<Rightarrow> tbl | Inr tbl' \<Rightarrow> tbl')"
  by (simp add: replay_insert_def enqueue_def send_def reply_def split: sum.split option.split)

lemma run_replay_fresh_table:
  "ro_table (run (replay_fresh E hs tv parent body credential) ora n tbl) = tbl
   \<or> (\<exists>fresh now token. ro_table (run (replay_fresh E hs tv parent body credential) ora n tbl) =
        tbl @ [replay_row tv parent fresh (request_key (tenant parent) fresh) now token (header_or hs ''x-ag-replay-reason'' [])])"
  by (auto simp: replay_fresh_def Let_def ask_now_def draw_token_def run_replay_insert_table insert_task_def)

text \<open>Everything a replay has checked when it inserts its row.\<close>

definition replay_allowed :: "henv \<Rightarrow> approvals \<Rightarrow> string dict \<Rightarrow> time \<Rightarrow> task \<Rightarrow> bool" where
  "replay_allowed E tickets hs now parent \<longleftrightarrow>
     (\<exists>who. require_roles [''operator'', ''approver''] (he_settings E) hs = Inr who)
     \<and> replayable parent \<and> origin parent \<noteq> ORIGIN_DRY_RUN \<and> \<not> some_truthy (upstream_task_id parent)
     \<and> (\<exists>t. consume_ticket now (approval_header hs) ''task.replay'' (task_id parent) tickets = Inr t)
     \<and> (\<exists>tv. registry_get (he_registry E) (template_alias parent) (Some (template_version parent)) = Some tv
          \<and> (confirm_auto_allowed (rt_capabilities (tv_resolved tv)) \<or> human_confirmed hs))
     \<and> strip (header_or hs ''x-ag-credential'' []) \<noteq> []"

definition replay_of_task :: "task \<Rightarrow> task \<Rightarrow> bool" where
  "replay_of_task parent row \<longleftrightarrow> status row = ACCEPTED \<and> origin row = ORIGIN_REPLAY \<and> replay_of row = Some (task_id parent)
     \<and> upstream_task_id row = None \<and> submit_started_at row = None \<and> attempts row = 0 \<and> channel row = channel parent
     \<and> tenant row = tenant parent \<and> idempotency_key row = replay_key parent \<and> create_req_digest row = create_req_digest parent"

lemma replay_row_of: "replay_of_task parent (replay_row tv parent fresh ref now token reason)"
  by (simp add: replay_of_task_def replay_row_def new_task_def)

lemma run_replay_approved_table:
  assumes "ro_table (run (replay_approved E hs parent) ora n tbl) \<noteq> tbl"
  shows "\<not> some_truthy (upstream_task_id parent) \<and> strip (header_or hs ''x-ag-credential'' []) \<noteq> []
    \<and> (\<exists>tv. registry_get (he_registry E) (template_alias parent) (Some (template_version parent)) = Some tv
          \<and> (confirm_auto_allowed (rt_capabilities (tv_resolved tv)) \<or> human_confirmed hs))
    \<and> (\<exists>row. ro_table (run (replay_approved E hs parent) ora n tbl) = tbl @ [row] \<and> replay_of_task parent row)"
proof -
  have fresh: "\<exists>row. ro_table (run (replay_fresh E hs tv parent body credential) ora m tbl) = tbl @ [row] \<and> replay_of_task parent row"
    if "ro_table (run (replay_fresh E hs tv parent body credential) ora m tbl) \<noteq> tbl" for tv body credential m
    using run_replay_fresh_table [of E hs tv parent body credential ora m tbl] that replay_row_of by metis
  show ?thesis
    using assms fresh by (auto simp: replay_approved_def stored_body_def Let_def split: option.splits if_splits list.splits)
qed

lemma run_replay_insert_conflict:
  assumes "insert_task row tbl = Inl e"
  shows "run (replay_insert E hs parent row credential) ora n tbl = \<lparr>ro_exn = Some e, ro_table = tbl, ro_events = []\<rparr>"
  using assms by (simp add: replay_insert_def)

definition failed_quietly :: "table \<Rightarrow> outcome_of_run \<Rightarrow> bool" where
  "failed_quietly tbl r \<longleftrightarrow> ro_table r = tbl \<and> ro_exn r \<noteq> None \<and> list_all (\<lambda>e. case e of Told (E_put_request _ _ _) \<Rightarrow> True | _ \<Rightarrow> False) (ro_events r)"

lemma failed_quietly_fail [simp]: "failed_quietly tbl \<lparr>ro_exn = Some e, ro_table = tbl, ro_events = []\<rparr>"
  by (simp add: failed_quietly_def)

lemma failed_quietly_put: "failed_quietly tbl r \<Longrightarrow> failed_quietly tbl (emit (Told (E_put_request k v ttl)) r)"
  by (simp add: failed_quietly_def)

lemma run_replay_fresh_conflict:
  assumes "earlier \<in> set tbl" and "idempotency_key earlier = replay_key parent"
    and "\<forall>k. idempotency_bucket earlier = window_bucket (o_time ora k) (idempotency_window_seconds parent)"
  shows "failed_quietly tbl (run (replay_fresh E hs tv parent body credential) ora n tbl)"
proof -
  have "insert_task (replay_row tv parent fresh ref (o_time ora k) token reason) tbl = Inl IntegrityError" for fresh ref k token reason
    using assms unfolding insert_task_def list_ex_iff by (auto simp: conflicts_def replay_row_def new_task_def intro!: bexI [of _ earlier])
  then show ?thesis
    by (auto simp: replay_fresh_def Let_def ask_now_def draw_token_def run_replay_insert_conflict intro!: failed_quietly_put)
qed

subsection \<open>A concrete task and its replay\<close>

definition dead_row :: task where
  "dead_row = (new_task ''0123'' ''key'' 0 ''chan'' ''tpl'' 0)\<lparr>status := DEAD, template_version := 1\<rparr>"

definition approved_ticket :: ticket where
  "approved_ticket = \<lparr>tk_id = ''0123456789abcdef'', tk_action = ''task.replay'', tk_subject = ''0123'', tk_payload_digest = ''d'',
     tk_submitted_by = ''ann'', tk_impact = JNull, tk_approved_by = Some ''bob'', tk_approved_at = Some 990, tk_created_at = 980, tk_expires_at = 2000\<rparr>"

definition operator_headers :: "string dict" where
  "operator_headers = headers_of ''ann'' ''operator'' @ [(''x-ag-credential'', ''sk''), (''x-ag-human-confirmed'', ''true'')]"

definition replay_answers :: answers where
  "replay_answers = sample_answers\<lparr>o_draw := (\<lambda>_. ''4567'')\<rparr>"

abbreviation sample_replay :: outcome_of_run where
  "sample_replay \<equiv> run (replay_task (ap_env queued_api) [(''0123456789abcdef'', approved_ticket)] [] operator_headers ''0123'')
     replay_answers 0 [dead_row]"

lemma sample_replay_inserts: "length (ro_table sample_replay) = 2"
  by code_simp

subsection \<open>Properties\<close>



text \<open>
  A task is replayed once in a window. While an earlier replay of it is in the table under the same window of the
  idempotency key, a further replay fails: it leaves the table as it is, sends no message and keeps no credential.
\<close>

theorem replay_once_per_window:
  assumes "get_task tid tbl = Some parent" and "earlier \<in> set tbl" and "idempotency_key earlier = replay_key parent"
    and "\<forall>k. idempotency_bucket earlier = window_bucket (o_time ora k) (idempotency_window_seconds parent)"
  shows "failed_quietly tbl (run (replay_task E tickets replays hs tid) ora n tbl)"
proof -
  note fresh = run_replay_fresh_conflict [OF assms(2-4)]
  have "failed_quietly tbl (run (replay_approved E hs parent) ora m tbl)" for m
    by (auto simp: replay_approved_def stored_body_def Let_def fresh split: option.splits list.splits)
  then show ?thesis
    using assms(1) by (auto simp: replay_task_def require_def ask_now_def split: sum.splits)
qed

theorem replay_once_per_window_witness:
  "failed_quietly [dead_row, (new_task ''4567'' (replay_key dead_row) (window_bucket 1000 86400) ''chan'' ''tpl'' 0)]
     (run (replay_task (ap_env queued_api) [(''0123456789abcdef'', approved_ticket)] [] operator_headers ''0123'') replay_answers 0
        [dead_row, (new_task ''4567'' (replay_key dead_row) (window_bucket 1000 86400) ''chan'' ''tpl'' 0)])"
proof -
  let ?earlier = "new_task ''4567'' (replay_key dead_row) (window_bucket 1000 86400) ''chan'' ''tpl'' 0"
  have "get_task ''0123'' [dead_row, ?earlier] = Some dead_row" by (simp add: get_task_def dead_row_def new_task_def)
  moreover have "\<forall>k. idempotency_bucket ?earlier = window_bucket (o_time replay_answers k) (idempotency_window_seconds dead_row)"
    by (simp add: replay_answers_def sample_answers_def dead_row_def new_task_def)
  ultimately show ?thesis
    by (intro replay_once_per_window [where earlier = ?earlier]) (simp_all add: new_task_def)
qed

definition closable :: "task_status list" where
  "closable = [ACCEPTED, UPSTREAM_SUBMITTED, IN_PROGRESS, FAILED, DEAD_AWAITING_CONFIRM]"

lemma closable_iff: "can_transition s DEAD \<longleftrightarrow> s \<in> set closable"
  by (cases s) (simp_all add: can_transition_def closable_def)

lemma closed_row:
  assumes "get_task tid tbl = Some t" and "can_transition (status t) DEAD"
  obtains tbl' t' where "exec_write now (W_advance tid DEAD (Some [status t]) [SetErrorCode (Some EC_UNKNOWN_EXHAUSTED),
      SetErrorMessage (Some reason), SetFinishedAt (Some fin), SetNextPollAt None]) tbl = (Inr True, tbl')"
    and "get_task tid tbl' = Some t'" and "status t' = DEAD" and "next_poll_at t' = None"
proof -
  let ?vs = "advance_payload now DEAD [SetErrorCode (Some EC_UNKNOWN_EXHAUSTED), SetErrorMessage (Some reason), SetFinishedAt (Some fin), SetNextPollAt None]"
  let ?f = "\<lambda>r. if task_id r = tid \<and> status r \<in> set [status t] \<and> no_extra r then assign_all (IncRowVersion # SetUpdatedAt now # ?vs) r else r"
  have t: "t \<in> set tbl" "task_id t = tid" using get_task_in [OF assms(1)] by auto
  have src: "advance_sources DEAD (Some [status t]) = [status t]" by (simp add: advance_sources_def)
  have "fst (cas now tid [status t] ?vs no_extra tbl)" using t by (auto simp: cas_hit_iff)
  then have run: "exec_write now (W_advance tid DEAD (Some [status t]) [SetErrorCode (Some EC_UNKNOWN_EXHAUSTED),
      SetErrorMessage (Some reason), SetFinishedAt (Some fin), SetNextPollAt None]) tbl = (Inr True, List.map ?f tbl)"
    using assms(2) cas_snd [of now tid "[status t]" ?vs no_extra tbl] by (auto simp: advance_def src split: prod.splits)
  have "get_task tid (List.map ?f tbl) = Some (?f t)"
    unfolding get_task_def by (subst find_map_same) (use assms(1) in \<open>auto simp: get_task_def\<close>)
  moreover have "status (?f t) = DEAD" "next_poll_at (?f t) = None"
    using t by (simp_all add: advance_payload_def set_default_def assign_all_def INTERNAL_TERMINAL_def)
  ultimately show ?thesis using run that by blast
qed

text \<open>
  What a person can close. With an approved ticket the close of a task ends in the state \<open>dead\<close> when the task is
  accepted, submitted, in progress, failed or waiting for confirmation. In every other state it raises
  \<open>TransitionError\<close> - no \<open>409\<close> - and changes nothing: among them are \<open>submit_unknown\<close> and
  \<open>poll_unrecognized\<close>, where a person is needed most.
\<close>

theorem close_task_outcome:
  assumes "require_roles [''operator'', ''approver''] st hs = Inr who"
    and "consume_ticket (o_time ora n) (approval_header hs) ''task.replay'' tid tickets = Inr ticket"
    and "get_task tid tbl = Some t" and "close_reason body = Inr reason" and "r = run (close_task st tickets hs tid body) ora n tbl"
  shows "if status t \<in> set closable
    then ro_exn r = None \<and> (\<exists>t'. get_task tid (ro_table r) = Some t' \<and> status t' = DEAD \<and> next_poll_at t' = None)
    else ro_exn r = Some (TransitionError (status_value (status t)) (status_value DEAD)) \<and> ro_table r = tbl"
proof (cases "status t \<in> set closable")
  case True
  then have legal: "can_transition (status t) DEAD" by (simp add: closable_iff)
  define vs where "vs = [SetErrorCode (Some EC_UNKNOWN_EXHAUSTED), SetErrorMessage (Some reason), SetFinishedAt (Some (o_time ora (n + 2))), SetNextPollAt None]"
  define w where "w = W_advance tid DEAD (Some [status t]) vs"
  obtain tbl' t' where moved: "exec_write (o_time ora (n + 3)) w tbl = (Inr True, tbl')" "get_task tid tbl' = Some t'" "status t' = DEAD" "next_poll_at t' = None"
    using closed_row [OF assms(3) legal, of "o_time ora (n + 3)" reason "o_time ora (n + 2)"] by (auto simp: w_def vs_def)
  have "r = emit (Wrote w (Inr True)) (run (Tell (E_audit ''governance.operation'' ''task'' tid
       [(''operation'', JStr ''close''), (''reason'', field_or_default body ''reason'' JNull)])
     (reply 200 (JObj [(''task_id'', JStr tid), (''status'', JStr (status_value DEAD))]) [])) ora (n + 4) tbl')"
    using assms moved(1) by (simp add: close_task_def require_def ask_now_def apply_write_def w_def vs_def eval_nat_numeral)
  then have "ro_exn r = None \<and> ro_table r = tbl'" by (simp add: reply_def)
  then show ?thesis using True moved by simp
next
  case False
  then have "\<not> can_transition (status t) DEAD" by (simp add: closable_iff)
  then show ?thesis
    using assms False by (simp add: close_task_def require_def ask_now_def apply_write_def advance_def)
qed

theorem close_task_outcome_witness:
  "ro_exn (run (close_task default_settings [(''0123456789abcdef'', approved_ticket)] operator_headers ''0123'' []) replay_answers 0
      [dead_row\<lparr>status := SUBMIT_UNKNOWN\<rparr>]) = Some (TransitionError ''submit_unknown'' ''dead'')"
proof -
  have "(case require_roles [''operator'', ''approver''] default_settings operator_headers of Inl e \<Rightarrow> False | Inr who \<Rightarrow> True)"
    by code_simp
  then obtain who where who: "require_roles [''operator'', ''approver''] default_settings operator_headers = Inr who"
    by (auto split: sum.splits)
  have ticket: "consume_ticket (o_time replay_answers 0) (approval_header operator_headers) ''task.replay'' ''0123''
      [(''0123456789abcdef'', approved_ticket)] = Inr approved_ticket"
    by (simp add: consume_ticket_def approved_ticket_def tk_approved_def tk_expired_def replay_answers_def sample_answers_def
        operator_headers_def headers_of_def approval_header_def)
  have row: "get_task ''0123'' [dead_row\<lparr>status := SUBMIT_UNKNOWN\<rparr>] = Some (dead_row\<lparr>status := SUBMIT_UNKNOWN\<rparr>)"
    by (simp add: get_task_def dead_row_def new_task_def)
  have reason: "close_reason [] = Inr ''closed by human''" by (simp add: close_reason_def field_or_default_def)
  show ?thesis
    using close_task_outcome [OF who ticket row reason refl] by (simp add: closable_def)
qed

text \<open>
  The replay rate. Whatever the times of the attempts, in any window of sixty seconds at most the configured number of
  replays is let through.
\<close>

theorem replay_rate_bound:
  assumes "sorted nows" and "0 \<le> limit"
  shows "int (length (in_minute x (snd (replay_attempts limit nows)))) \<le> limit"
proof -
  from replay_attempts_bounded [OF assms] obtain h where "snd (replay_attempts limit nows) = h" "\<forall>x. int (length (in_minute x h)) \<le> limit"
    by auto
  then show ?thesis by simp
qed

theorem replay_rate_bound_witness:
  "int (length (in_minute 70 (snd (replay_attempts 2 [0, 1, 2, 61, 70])))) \<le> 2 \<and> snd (replay_attempts 2 [0, 1, 2, 61, 70]) = [0, 1, 61, 70]"
proof -
  have "sorted [0, 1, 2, 61, 70 :: time]" by simp
  from replay_rate_bound [OF this, of 2 70]
  show ?thesis by (simp add: replay_attempts_def replay_attempt_def enforce_replay_rate_def Let_def)
qed

end
