(* ===== verification/Metrics.thy ===== *)
theory Metrics
  imports Json Config
begin

text \<open>
  \<open>observability/metrics.py\<close>: counters, gauges and histograms, the registry that hands them out and the text it exports.
  The modules keep the objects they were given, so the objects live in a store and a metric is known by its address. What the
  histogram counts is stated over the list of observations.
\<close>

subsection \<open>Counters and gauges\<close>

type_synonym labels = "(string \<times> string) list"

text \<open>\<open>tuple(sorted(labels.items()))\<close>; the names of the labels are distinct.\<close>

definition label_key :: "string dict \<Rightarrow> labels" where
  "label_key ls = sort_key fst ls"

text \<open>A gauge keeps what it is given: a whole number stays one.\<close>

datatype metric_value = Whole int | Fraction rat

definition metric_number :: "metric_value \<Rightarrow> rat" where
  "metric_number v = (case v of Whole i \<Rightarrow> of_int i | Fraction r \<Rightarrow> r)"

definition value_text :: "pylib \<Rightarrow> metric_value \<Rightarrow> string" where
  "value_text L v = (case v of Whole i \<Rightarrow> show_int i | Fraction r \<Rightarrow> lib_float_repr L r)"

record counter =
  mc_name :: string
  mc_help :: string
  mc_samples :: "(labels \<times> rat) list"

definition counter_inc :: "string dict \<Rightarrow> rat \<Rightarrow> counter \<Rightarrow> counter" where
  "counter_inc ls v c = (let key = label_key ls; before = (case map_of (mc_samples c) key of None \<Rightarrow> 0 | Some x \<Rightarrow> x)
     in c\<lparr>mc_samples := AList.update key (before + v) (mc_samples c)\<rparr>)"

definition label_text :: "labels \<Rightarrow> string" where
  "label_text key = join '','' (List.map (\<lambda>(k, v). k @ ''=\"'' @ v @ ''\"'') key)"

definition sample_line :: "string \<Rightarrow> labels \<Rightarrow> string \<Rightarrow> string" where
  "sample_line nm key v = (if label_text key = [] then nm @ '' '' @ v else nm @ ''{'' @ label_text key @ ''} '' @ v)"

definition metric_head :: "string \<Rightarrow> string \<Rightarrow> string \<Rightarrow> string list" where
  "metric_head nm help kind = [''# HELP '' @ nm @ '' '' @ help, ''# TYPE '' @ nm @ '' '' @ kind]"

definition counter_render :: "pylib \<Rightarrow> counter \<Rightarrow> string list" where
  "counter_render L c = metric_head (mc_name c) (mc_help c) ''counter''
     @ List.map (\<lambda>(key, v). sample_line (mc_name c) key (lib_float_repr L v)) (mc_samples c)"

record gauge =
  mg_name :: string
  mg_help :: string
  mg_values :: "(labels \<times> metric_value) list"

definition gauge_set :: "metric_value \<Rightarrow> string dict \<Rightarrow> gauge \<Rightarrow> gauge" where
  "gauge_set v ls g = g\<lparr>mg_values := AList.update (label_key ls) v (mg_values g)\<rparr>"

definition gauge_add :: "metric_value \<Rightarrow> string dict \<Rightarrow> gauge \<Rightarrow> gauge" where
  "gauge_add v ls g = (let key = label_key ls; sum = (case (map_of (mg_values g) key, v) of
         (None, _) \<Rightarrow> Fraction (metric_number v)
       | (Some (Whole i), Whole j) \<Rightarrow> Whole (i + j)
       | (Some w, _) \<Rightarrow> Fraction (metric_number w + metric_number v))
     in g\<lparr>mg_values := AList.update key sum (mg_values g)\<rparr>)"

definition gauge_render :: "pylib \<Rightarrow> gauge \<Rightarrow> string list" where
  "gauge_render L g = metric_head (mg_name g) (mg_help g) ''gauge''
     @ List.map (\<lambda>(key, v). sample_line (mg_name g) key (value_text L v)) (mg_values g)"

subsection \<open>Histograms\<close>

record histogram =
  mh_name :: string
  mh_help :: string
  mh_buckets :: "rat list"
  mh_counts :: "(labels \<times> nat list) list"
  mh_sums :: "(labels \<times> rat) list"
  mh_totals :: "(labels \<times> nat) list"

definition DEFAULT_BUCKETS :: "rat list" where
  "DEFAULT_BUCKETS = [5 / 1000, 25 / 1000, 1 / 10, 1 / 2, 1, 5, 30, 300]"

definition new_histogram :: "string \<Rightarrow> string \<Rightarrow> histogram" where
  "new_histogram nm help = \<lparr>mh_name = nm, mh_help = help, mh_buckets = DEFAULT_BUCKETS, mh_counts = [], mh_sums = [], mh_totals = []\<rparr>"

definition or_zero :: "(labels \<times> 'a::zero) list \<Rightarrow> labels \<Rightarrow> 'a" where
  "or_zero xs key = (case map_of xs key of None \<Rightarrow> 0 | Some x \<Rightarrow> x)"

definition counts_of :: "histogram \<Rightarrow> labels \<Rightarrow> nat list" where
  "counts_of h key = (case map_of (mh_counts h) key of None \<Rightarrow> replicate (length (mh_buckets h)) 0 | Some cs \<Rightarrow> cs)"

definition observe :: "rat \<Rightarrow> string dict \<Rightarrow> histogram \<Rightarrow> histogram" where
  "observe v ls h = (let key = label_key ls in
     h\<lparr>mh_counts := AList.update key (map2 (\<lambda>bound n. if v \<le> bound then n + 1 else n) (mh_buckets h) (counts_of h key)) (mh_counts h),
       mh_sums := AList.update key (or_zero (mh_sums h) key + v) (mh_sums h),
       mh_totals := AList.update key (or_zero (mh_totals h) key + 1) (mh_totals h)\<rparr>)"

definition bucket_line :: "string \<Rightarrow> labels \<Rightarrow> string \<Rightarrow> nat \<Rightarrow> string" where
  "bucket_line nm key bound n = (let suffix = ''le=\"'' @ bound @ ''\"''
     in nm @ ''_bucket{'' @ (if label_text key = [] then suffix else label_text key @ '','' @ suffix) @ ''} '' @ show_nat n)"

definition series_lines :: "pylib \<Rightarrow> histogram \<Rightarrow> labels \<times> nat list \<Rightarrow> string list" where
  "series_lines L h s = (case s of (key, counts) \<Rightarrow>
     let base = (if label_text key = [] then [] else ''{'' @ label_text key @ ''}'') in
     map2 (\<lambda>bound n. bucket_line (mh_name h) key (lib_float_repr L bound) n) (mh_buckets h) counts
     @ [bucket_line (mh_name h) key ''+Inf'' (or_zero (mh_totals h) key),
        mh_name h @ ''_sum'' @ base @ '' '' @ lib_float_repr L (or_zero (mh_sums h) key),
        mh_name h @ ''_count'' @ base @ '' '' @ show_nat (or_zero (mh_totals h) key)])"

definition histogram_render :: "pylib \<Rightarrow> histogram \<Rightarrow> string list" where
  "histogram_render L h = metric_head (mh_name h) (mh_help h) ''histogram'' @ concat (List.map (series_lines L h) (mh_counts h))"

subsection \<open>The registry\<close>

datatype metric = Counter_metric counter | Gauge_metric gauge | Histogram_metric histogram

record metrics =
  mx_store :: "metric list"
  mx_counters :: "nat dict"
  mx_gauges :: "nat dict"
  mx_histograms :: "nat dict"

definition no_metrics :: metrics where
  "no_metrics = \<lparr>mx_store = [], mx_counters = [], mx_gauges = [], mx_histograms = []\<rparr>"

text \<open>The address of the metric of that name, a new object when there is none.\<close>

definition registry_counter :: "string \<Rightarrow> string \<Rightarrow> metrics \<Rightarrow> nat \<times> metrics" where
  "registry_counter nm help m = (case dict_get (mx_counters m) nm of
      Some a \<Rightarrow> (a, m)
    | None \<Rightarrow> let a = length (mx_store m) in
        (a, m\<lparr>mx_store := mx_store m @ [Counter_metric \<lparr>mc_name = nm, mc_help = help, mc_samples = []\<rparr>],
              mx_counters := dict_set nm a (mx_counters m)\<rparr>))"

definition registry_gauge :: "string \<Rightarrow> string \<Rightarrow> metrics \<Rightarrow> nat \<times> metrics" where
  "registry_gauge nm help m = (case dict_get (mx_gauges m) nm of
      Some a \<Rightarrow> (a, m)
    | None \<Rightarrow> let a = length (mx_store m) in
        (a, m\<lparr>mx_store := mx_store m @ [Gauge_metric \<lparr>mg_name = nm, mg_help = help, mg_values = []\<rparr>],
              mx_gauges := dict_set nm a (mx_gauges m)\<rparr>))"

definition registry_histogram :: "string \<Rightarrow> string \<Rightarrow> metrics \<Rightarrow> nat \<times> metrics" where
  "registry_histogram nm help m = (case dict_get (mx_histograms m) nm of
      Some a \<Rightarrow> (a, m)
    | None \<Rightarrow> let a = length (mx_store m) in
        (a, m\<lparr>mx_store := mx_store m @ [Histogram_metric (new_histogram nm help)],
              mx_histograms := dict_set nm a (mx_histograms m)\<rparr>))"

definition metric_render :: "pylib \<Rightarrow> metric \<Rightarrow> string list" where
  "metric_render L x = (case x of Counter_metric c \<Rightarrow> counter_render L c | Gauge_metric g \<Rightarrow> gauge_render L g
     | Histogram_metric h \<Rightarrow> histogram_render L h)"

definition rendered :: "pylib \<Rightarrow> metrics \<Rightarrow> nat dict \<Rightarrow> string list" where
  "rendered L m names = concat (List.map (\<lambda>(_, a). if a < length (mx_store m) then metric_render L (mx_store m ! a) else []) names)"

definition NEWLINE :: string where
  "NEWLINE = [CHR 0x0A]"

definition render_metrics :: "pylib \<Rightarrow> metrics \<Rightarrow> string" where
  "render_metrics L m = join NEWLINE (rendered L m (mx_counters m) @ rendered L m (mx_gauges m) @ rendered L m (mx_histograms m)) @ NEWLINE"

definition reset_metrics :: "metrics \<Rightarrow> metrics" where
  "reset_metrics m = m\<lparr>mx_counters := [], mx_gauges := [], mx_histograms := []\<rparr>"

text \<open>An operation on the object a module holds.\<close>

datatype metric_op = Inc "string dict" rat | Set metric_value "string dict" | Add metric_value "string dict" | Observe rat "string dict"

definition apply_metric :: "metric_op \<Rightarrow> metric \<Rightarrow> metric" where
  "apply_metric x m = (case (x, m) of
      (Inc ls v, Counter_metric c) \<Rightarrow> Counter_metric (counter_inc ls v c)
    | (Set v ls, Gauge_metric g) \<Rightarrow> Gauge_metric (gauge_set v ls g)
    | (Add v ls, Gauge_metric g) \<Rightarrow> Gauge_metric (gauge_add v ls g)
    | (Observe v ls, Histogram_metric h) \<Rightarrow> Histogram_metric (observe v ls h)
    | _ \<Rightarrow> m)"

definition update_metric :: "nat \<times> metric_op \<Rightarrow> metrics \<Rightarrow> metrics" where
  "update_metric u m = (if fst u < length (mx_store m)
     then m\<lparr>mx_store := (mx_store m)[fst u := apply_metric (snd u) (mx_store m ! fst u)]\<rparr> else m)"

end
