(* ===== verification/MetricsFacts.thy ===== *)
theory MetricsFacts
  imports Metrics "HOL-Library.Multiset"
begin

text \<open>
  What the metrics count: a histogram over the list of its observations, a counter over its increments; the registry hands out one
  object per name; what a reset and unescaped label values do to the export.
\<close>

subsection \<open>Counting\<close>

text \<open>The values observed under a key.\<close>

definition observed :: "labels \<Rightarrow> (rat \<times> string dict) list \<Rightarrow> rat list" where
  "observed key obs = List.map fst (filter (\<lambda>(v, ls). label_key ls = key) obs)"

lemma observed_append: "observed key (xs @ ys) = observed key xs @ observed key ys"
  by (simp add: observed_def)

lemma observed_one [simp]: "observed key [(v, ls)] = (if label_key ls = key then [v] else [])"
  by (simp add: observed_def)

definition observe_all :: "(rat \<times> string dict) list \<Rightarrow> histogram \<Rightarrow> histogram" where
  "observe_all obs h = fold (\<lambda>(v, ls). observe v ls) obs h"

lemma observe_fields [simp]: "mh_buckets (observe v ls h) = mh_buckets h" "mh_name (observe v ls h) = mh_name h"
  by (simp_all add: observe_def Let_def)

lemma observe_all_buckets [simp]: "mh_buckets (observe_all obs h) = mh_buckets h"
  by (induction obs rule: rev_induct) (auto simp: observe_all_def)

lemma counts_of_observe:
  "counts_of (observe v ls h) key = (if label_key ls = key
     then map2 (\<lambda>bound n. if v \<le> bound then n + 1 else n) (mh_buckets h) (counts_of h key) else counts_of h key)"
  by (auto simp: observe_def counts_of_def Let_def update_conv' split: option.split)

lemma or_zero_observe:
  "or_zero (mh_totals (observe v ls h)) key = or_zero (mh_totals h) key + (if label_key ls = key then 1 else 0)"
  "or_zero (mh_sums (observe v ls h)) key = or_zero (mh_sums h) key + (if label_key ls = key then v else 0)"
  by (simp_all add: observe_def or_zero_def Let_def update_conv')

text \<open>
  A histogram counts what it was shown. After any observations, in any order and under any labels, the count of each bucket
  of a series is the number of its observations up to the bound, the last line their number and the sum their sum; two
  label sets that differ only in their order are one series.
\<close>

theorem histogram_counts:
  shows "counts_of (observe_all obs (new_histogram nm help)) key = List.map (\<lambda>b. length (filter (\<lambda>v. v \<le> b) (observed key obs))) DEFAULT_BUCKETS
    \<and> or_zero (mh_totals (observe_all obs (new_histogram nm help))) key = length (observed key obs)
    \<and> or_zero (mh_sums (observe_all obs (new_histogram nm help))) key = sum_list (observed key obs)"
proof (induction obs rule: rev_induct)
  case Nil
  then show ?case
    by (simp add: observe_all_def new_histogram_def counts_of_def or_zero_def observed_def map_replicate_const)
next
  case (snoc x obs)
  obtain v ls where x: "x = (v, ls)" by (cases x)
  let ?h = "observe_all obs (new_histogram nm help)"
  have "observe_all (obs @ [x]) (new_histogram nm help) = observe v ls ?h" by (simp add: observe_all_def x)
  moreover have "map2 (\<lambda>bound n. if v \<le> bound then n + 1 else n) DEFAULT_BUCKETS
      (List.map (\<lambda>b. length (filter (\<lambda>v. v \<le> b) (observed key obs))) DEFAULT_BUCKETS)
    = List.map (\<lambda>b. length (filter (\<lambda>v. v \<le> b) (observed key obs @ [v]))) DEFAULT_BUCKETS"
    by (simp add: list_eq_iff_nth_eq)
  moreover have "mh_buckets ?h = DEFAULT_BUCKETS" by (simp add: new_histogram_def)
  ultimately show ?case
    using snoc by (simp add: x counts_of_observe or_zero_observe observed_append)
qed

text \<open>The buckets are cumulative.\<close>

lemma buckets_cumulative:
  assumes "i \<le> j" and "j < length DEFAULT_BUCKETS" and "cs = List.map (\<lambda>b. length (filter (\<lambda>v. v \<le> b) vs)) DEFAULT_BUCKETS"
  shows "cs ! i \<le> cs ! j \<and> cs ! j \<le> length vs"
proof -
  have "sorted DEFAULT_BUCKETS" by (simp add: DEFAULT_BUCKETS_def)
  then have "DEFAULT_BUCKETS ! i \<le> DEFAULT_BUCKETS ! j" using assms by (simp add: sorted_nth_mono)
  then have "length (filter (\<lambda>v. v \<le> DEFAULT_BUCKETS ! i) vs) \<le> length (filter (\<lambda>v. v \<le> DEFAULT_BUCKETS ! j) vs)"
    by (induction vs) auto
  then show ?thesis using assms by simp
qed

lemma label_key_order:
  assumes "mset ls = mset ls'" and "distinct (List.map fst ls)"
  shows "label_key ls = label_key ls'"
proof -
  have "inj_on fst (set ls)" using assms(2) by (simp add: distinct_map)
  moreover have "set ls' = set ls" using assms(1) by (metis set_mset_mset)
  ultimately show ?thesis
    using assms(1) unfolding label_key_def
    by (intro sort_key_inj_key_eq) (simp_all add: inj_on_def)
qed

definition inc_all :: "(rat \<times> string dict) list \<Rightarrow> counter \<Rightarrow> counter" where
  "inc_all obs c = fold (\<lambda>(v, ls). counter_inc ls v) obs c"

lemma or_zero_inc: "or_zero (mc_samples (counter_inc ls v c)) key = or_zero (mc_samples c) key + (if label_key ls = key then v else 0)"
  by (auto simp: or_zero_def counter_inc_def Let_def update_conv' split: option.split)

lemma counter_sums: "or_zero (mc_samples (inc_all obs c)) key = or_zero (mc_samples c) key + sum_list (observed key obs)"
proof (induction obs rule: rev_induct)
  case (snoc x obs)
  obtain v ls where x: "x = (v, ls)" by (cases x)
  have "inc_all (obs @ [x]) c = counter_inc ls v (inc_all obs c)" by (simp add: inc_all_def x)
  then show ?case using snoc by (simp add: x observed_append or_zero_inc)
qed (simp add: inc_all_def observed_def)

subsection \<open>The registry\<close>

text \<open>The addresses of the registry are those of objects, none of them twice.\<close>

definition addresses :: "metrics \<Rightarrow> nat list" where
  "addresses m = List.map snd (mx_counters m) @ List.map snd (mx_gauges m) @ List.map snd (mx_histograms m)"

definition metrics_ok :: "metrics \<Rightarrow> bool" where
  "metrics_ok m \<longleftrightarrow> distinct (addresses m) \<and> (\<forall>a \<in> set (addresses m). a < length (mx_store m))"

lemma dict_set_fresh: "dict_get d k = None \<Longrightarrow> dict_set k v d = d @ [(k, v)]"
  by (induction d) (auto simp: dict_get_def dict_set_def split: if_splits)

lemma metrics_ok_extend:
  assumes "metrics_ok m" and "mset (addresses m') = mset (length (mx_store m) # addresses m)" and "mx_store m' = mx_store m @ [x]"
  shows "metrics_ok m'"
  using assms mset_eq_setD [OF assms(2)] mset_eq_imp_distinct_iff [OF assms(2)] by (auto simp: metrics_ok_def)

lemma metrics_ok_registry:
  "metrics_ok m \<Longrightarrow> metrics_ok (snd (registry_counter nm help m))"
  "metrics_ok m \<Longrightarrow> metrics_ok (snd (registry_gauge nm help m))"
  "metrics_ok m \<Longrightarrow> metrics_ok (snd (registry_histogram nm help m))"
  by (cases "dict_get (mx_counters m) nm", auto simp: registry_counter_def Let_def dict_set_fresh addresses_def intro: metrics_ok_extend)
    (cases "dict_get (mx_gauges m) nm", auto simp: registry_gauge_def Let_def dict_set_fresh addresses_def intro: metrics_ok_extend,
     cases "dict_get (mx_histograms m) nm", auto simp: registry_histogram_def Let_def dict_set_fresh addresses_def intro: metrics_ok_extend)

lemma metrics_ok_update: "metrics_ok m \<Longrightarrow> metrics_ok (update_metric u m)"
  by (simp add: metrics_ok_def addresses_def update_metric_def)

lemma rendered_Nil [simp]: "rendered L m [] = []"
  by (simp add: rendered_def)

lemma update_metric_names [simp]:
  "mx_counters (update_metric u m) = mx_counters m" "mx_gauges (update_metric u m) = mx_gauges m"
  "mx_histograms (update_metric u m) = mx_histograms m"
  by (simp_all add: update_metric_def)

lemma update_all_names:
  "mx_counters (fold update_metric us m) = mx_counters m \<and> mx_gauges (fold update_metric us m) = mx_gauges m
   \<and> mx_histograms (fold update_metric us m) = mx_histograms m"
  by (induction us arbitrary: m) simp_all

text \<open>
  A reset cuts the program off from its metrics. The modules keep the objects they were given at import, the registry forgets
  them: whatever is counted after a reset, the export stays empty.
\<close>

theorem reset_detaches_metrics:
  "render_metrics L (fold update_metric us (reset_metrics m)) = NEWLINE"
  by (simp add: render_metrics_def update_all_names reset_metrics_def)

text \<open>
  Label values are not escaped. Two label sets of a counter that are two series for the program are one line in the
  export: the value of a label can end the label and begin another.
\<close>

theorem labels_not_escaped:
  "\<exists>ls ls'. label_key ls \<noteq> label_key ls' \<and> sample_line nm (label_key ls) v = sample_line nm (label_key ls') v"
proof -
  let ?a = "[(''channel'', ''a\",result=\"ok'')]" and ?b = "[(''channel'', ''a''), (''result'', ''ok'')]"
  have "label_key ?a \<noteq> label_key ?b \<and> label_text (label_key ?a) = label_text (label_key ?b)" by code_simp
  then show ?thesis by (intro exI [of _ ?a] exI [of _ ?b]) (simp add: sample_line_def)
qed

end
