(* ===== verification/Probe.thy ===== *)
theory Probe
  imports Config
begin

text \<open>
  The liveness of the processes: \<open>observability/heartbeat.py\<close>, by which each background loop marks that it makes
  progress, and \<open>scripts/healthcheck.py\<close>, the probe of the container, with what the two promise each other. The text of
  the verdicts is left out.
\<close>

subsection \<open>Heartbeats\<close>

definition DEFAULT_HEARTBEAT_DIR :: string where
  "DEFAULT_HEARTBEAT_DIR = ''/tmp/ag-heartbeat''"

definition DEFAULT_PROBE_MAX_AGE_SECONDS :: secs where
  "DEFAULT_PROBE_MAX_AGE_SECONDS = 120"

definition LOOP_ROLES :: "string list" where
  "LOOP_ROLES = [''worker'', ''scheduler'', ''inspector'']"

definition environ_or :: "string dict \<Rightarrow> string \<Rightarrow> string \<Rightarrow> string" where
  "environ_or env k d = (case dict_get env k of Some (c # s) \<Rightarrow> c # s | _ \<Rightarrow> d)"

definition heartbeat_dir :: "string dict \<Rightarrow> string" where
  "heartbeat_dir env = environ_or env ''AG_HEARTBEAT_DIR'' DEFAULT_HEARTBEAT_DIR"

definition probe_max_age_seconds :: "pylib \<Rightarrow> string dict \<Rightarrow> secs" where
  "probe_max_age_seconds L env = (case dict_get env ''AG_PROBE_MAX_AGE_SECONDS'' of
      Some (c # s) \<Rightarrow> (case lib_float L (c # s) of Some x \<Rightarrow> x | None \<Rightarrow> DEFAULT_PROBE_MAX_AGE_SECONDS)
    | _ \<Rightarrow> DEFAULT_PROBE_MAX_AGE_SECONDS)"

definition beat_path :: "string dict \<Rightarrow> string \<Rightarrow> string" where
  "beat_path env role = heartbeat_dir env @ ''/'' @ role @ ''.beat''"

text \<open>
  The file times of a machine and what its processes have warned about. \<open>fault\<close> is the \<open>errno\<close> of the
  \<open>OSError\<close> with which touching a file fails.
\<close>

record machine =
  fs_mtime :: "time dict"
  fs_warned :: "(string \<times> int) list"

definition beat :: "string dict \<Rightarrow> int option \<Rightarrow> time \<Rightarrow> string \<Rightarrow> machine \<Rightarrow> bool \<times> machine" where
  "beat env fault now role m = (case fault of
      None \<Rightarrow> (True, m\<lparr>fs_mtime := dict_set (beat_path env role) now (fs_mtime m)\<rparr>)
    | Some errno \<Rightarrow> (False, if (role, errno) \<in> set (fs_warned m) then m else m\<lparr>fs_warned := fs_warned m @ [(role, errno)]\<rparr>))"

definition heartbeat_age :: "string dict \<Rightarrow> time \<Rightarrow> string \<Rightarrow> machine \<Rightarrow> secs option" where
  "heartbeat_age env now role m = map_option (\<lambda>t. max 0 (now - t)) (dict_get (fs_mtime m) (beat_path env role))"

subsection \<open>The role of a container\<close>

definition ROLE_BY_MODULE :: "string dict" where
  "ROLE_BY_MODULE =
     [(''async_gateway.gateway.app'', ''gateway''), (''async_gateway.admin.app'', ''admin''), (''async_gateway.workers.worker'', ''worker''),
      (''async_gateway.workers.scheduler'', ''scheduler''), (''async_gateway.workers.inspector'', ''inspector'')]"

definition HTTP_ROLES :: "string list" where
  "HTTP_ROLES = [''gateway'', ''admin'', ''http'']"

definition LOOP_ALIASES :: "string list" where
  "LOOP_ALIASES = LOOP_ROLES @ [''loop'']"

definition DEFAULT_HTTP_PORT :: int where
  "DEFAULT_HTTP_PORT = 8000"

text \<open>The decoded \<open>/proc/1/cmdline\<close>, or nothing when it cannot be read.\<close>

definition read_pid1_cmdline :: "string option \<Rightarrow> string list" where
  "read_pid1_cmdline raw = (case raw of None \<Rightarrow> [] | Some s \<Rightarrow> filter (\<lambda>part. part \<noteq> []) (split_on (CHR 0x00) s))"

fun infer_role :: "string list \<Rightarrow> string" where
  "infer_role [] = ''http''"
| "infer_role (token # cmdline) = (case find (\<lambda>(md, role). contains md token) ROLE_BY_MODULE of
      Some (md, role) \<Rightarrow> role | None \<Rightarrow> infer_role cmdline)"

definition PORT_OPTION :: string where
  "PORT_OPTION = ''--port''"

fun infer_port :: "string list \<Rightarrow> int \<Rightarrow> int" where
  "infer_port [] d = d"
| "infer_port (token # cmdline) d =
     (if token = PORT_OPTION \<and> cmdline \<noteq> [] then (case read_int (hd cmdline) of Some i \<Rightarrow> i | None \<Rightarrow> d)
      else if starts_with (PORT_OPTION @ ''='') token
      then (case read_int (drop (length PORT_OPTION + 1) token) of Some i \<Rightarrow> i | None \<Rightarrow> d)
      else infer_port cmdline d)"

definition http_url :: "string dict \<Rightarrow> string list \<Rightarrow> string" where
  "http_url env cmdline = environ_or env ''AG_PROBE_URL''
     (''http://127.0.0.1:'' @ show_int (infer_port cmdline DEFAULT_HTTP_PORT) @ ''/healthz'')"

definition resolve_role :: "string dict \<Rightarrow> string option \<Rightarrow> string list \<Rightarrow> string" where
  "resolve_role env explicit cmdline =
     (let role = lower (strip (case explicit of Some (c # s) \<Rightarrow> c # s | _ \<Rightarrow> environ_or env ''AG_PROBE_ROLE'' []))
      in if role \<noteq> [] then role else infer_role cmdline)"

subsection \<open>The probe\<close>

datatype probe_answer = Http_answered int | Http_refused int | Http_unreachable

text \<open>\<open>web\<close> is what a request without a proxy answers: a status, an \<open>HTTPError\<close>, any other exception.\<close>

definition check_http :: "(string \<Rightarrow> probe_answer) \<Rightarrow> string \<Rightarrow> bool" where
  "check_http web url = (case web url of Http_answered code \<Rightarrow> 200 \<le> code \<and> code < 300 | _ \<Rightarrow> False)"

definition check_loop :: "string dict \<Rightarrow> time \<Rightarrow> string \<Rightarrow> secs \<Rightarrow> machine \<Rightarrow> bool" where
  "check_loop env now role max_age m = (case heartbeat_age env now role m of None \<Rightarrow> False | Some age \<Rightarrow> \<not> age > max_age)"

record probe_args =
  pa_role :: "string option"
  pa_url :: "string option"
  pa_max_age :: "secs option"

text \<open>The exit code of the probe.\<close>

definition probe :: "pylib \<Rightarrow> string dict \<Rightarrow> probe_args \<Rightarrow> string option \<Rightarrow> (string \<Rightarrow> probe_answer) \<Rightarrow> time \<Rightarrow> machine \<Rightarrow> int" where
  "probe L env args pid1 web now m =
     (let env = (case pa_url args of Some (c # u) \<Rightarrow> dict_set ''AG_PROBE_URL'' (c # u) env | _ \<Rightarrow> env);
          cmdline = read_pid1_cmdline pid1; role = resolve_role env (pa_role args) cmdline
      in if role \<notin> set HTTP_ROLES \<and> role \<notin> set LOOP_ALIASES then 1
         else if role \<in> set HTTP_ROLES then (if check_http web (http_url env cmdline) then 0 else 1)
         else if check_loop env now (if role = ''loop'' then ''worker'' else role)
                (case pa_max_age args of Some x \<Rightarrow> x | None \<Rightarrow> probe_max_age_seconds L env) m then 0 else 1)"

subsection \<open>Facts\<close>

lemma beat_path_inj [simp]: "beat_path env a = beat_path env b \<longleftrightarrow> a = b"
  by (simp add: beat_path_def)

lemma heartbeat_age_beat:
  "heartbeat_age env now role (snd (beat env None t r m)) = (if r = role then Some (max 0 (now - t)) else heartbeat_age env now role m)"
  by (simp add: heartbeat_age_def beat_def)

text \<open>A run of the loops of a machine: who beats, when, and whether the file could be touched.\<close>

definition beats :: "string dict \<Rightarrow> (string \<times> time \<times> int option) list \<Rightarrow> machine \<Rightarrow> machine" where
  "beats env bs m = fold (\<lambda>(role, t, fault) m. snd (beat env fault t role m)) bs m"

definition last_beat :: "string \<Rightarrow> (string \<times> time \<times> int option) list \<Rightarrow> time option" where
  "last_beat role bs = (case rev (filter (\<lambda>(r, t, fault). r = role \<and> fault = None) bs) of [] \<Rightarrow> None | (r, t, fault) # _ \<Rightarrow> Some t)"

definition no_beats :: machine where
  "no_beats = \<lparr>fs_mtime = [], fs_warned = []\<rparr>"

lemma heartbeat_age_beats: "heartbeat_age env now role (beats env bs no_beats) = map_option (\<lambda>t. max 0 (now - t)) (last_beat role bs)"
proof (induction bs rule: rev_induct)
  case (snoc b bs)
  obtain r t fault where b: "b = (r, t, fault)" by (cases b)
  have "beats env (bs @ [b]) no_beats = snd (beat env fault t r (beats env bs no_beats))" by (simp add: beats_def b)
  then show ?case
    using snoc by (cases fault) (auto simp: heartbeat_age_beat b last_beat_def, simp add: beat_def heartbeat_age_def)
qed (simp add: beats_def no_beats_def last_beat_def heartbeat_age_def)

lemma loop_role_roles: "role \<in> set LOOP_ROLES \<Longrightarrow> role \<notin> set HTTP_ROLES \<and> role \<in> set LOOP_ALIASES \<and> role \<noteq> ''loop'' \<and> role \<noteq> []"
  by (auto simp: LOOP_ROLES_def HTTP_ROLES_def LOOP_ALIASES_def)

lemma loop_role_resolves:
  assumes "role \<in> set LOOP_ROLES"
  shows "resolve_role env (Some role) cmdline = role"
proof -
  have "lower (strip role) = role \<and> role \<noteq> []" using assms by (auto simp: LOOP_ROLES_def, code_simp+)
  then show ?thesis by (cases role) (auto simp: resolve_role_def)
qed

lemma probe_of_beats:
  assumes "role \<in> set LOOP_ROLES" and "pa_role args = Some role" and "pa_max_age args = Some max_age" and "pa_url args = None"
  shows "probe L env args pid1 web now (beats env bs no_beats) = 0
    \<longleftrightarrow> (\<exists>t. last_beat role bs = Some t \<and> max 0 (now - t) \<le> max_age)"
  using loop_role_roles [OF assms(1)] assms(2-4)
  by (auto simp: probe_def loop_role_resolves [OF assms(1)] check_loop_def heartbeat_age_beats split: option.splits)

text \<open>
  The probe of a background process is healthy exactly while its loop makes progress. Whatever the loops of the machine did,
  with beats that failed and beats of the others in between, the probe of a loop role exits with 0 if and only if that loop
  has left a heartbeat and the last one is not older than the bound; the command line of the container, the HTTP
  answers and the other loops do not matter.
\<close>

theorem probe_tracks_loop:
  assumes "role \<in> set LOOP_ROLES" and "pa_role args = Some role" and "pa_max_age args = Some max_age" and "pa_url args = None"
  shows "probe L env args pid1 web now (beats env bs no_beats) = 0
    \<longleftrightarrow> (\<exists>t. last_beat role bs = Some t \<and> max 0 (now - t) \<le> max_age)"
  by (rule probe_of_beats [OF assms])

theorem probe_tracks_loop_witness:
  "probe sample_lib [] \<lparr>pa_role = Some ''worker'', pa_url = None, pa_max_age = Some 120\<rparr> None (\<lambda>_. Http_unreachable) 200
     (beats [] [(''worker'', 100, None), (''scheduler'', 190, None), (''worker'', 150, Some 30)] no_beats) = 0
   \<and> probe sample_lib [] \<lparr>pa_role = Some ''worker'', pa_url = None, pa_max_age = Some 120\<rparr> None (\<lambda>_. Http_unreachable) 221
     (beats [] [(''worker'', 100, None), (''scheduler'', 190, None), (''worker'', 150, Some 30)] no_beats) \<noteq> 0"
proof -
  have "''worker'' \<in> set LOOP_ROLES" by (simp add: LOOP_ROLES_def)
  from probe_tracks_loop [OF this, of "\<lparr>pa_role = Some ''worker'', pa_url = None, pa_max_age = Some 120\<rparr>" 120] show ?thesis
    by (simp add: last_beat_def)
qed

text \<open>
  A container whose role is given as \<open>loop\<close> is probed by the heartbeat of a worker, whatever runs in it: with a
  scheduler that makes progress the probe fails.
\<close>

theorem loop_alias_is_worker:
  "probe L env \<lparr>pa_role = Some ''loop'', pa_url = None, pa_max_age = Some max_age\<rparr> pid1 web now
     (beats env [(''scheduler'', now, None)] no_beats) = 1"
proof -
  have "resolve_role env (Some ''loop'') cmdline = ''loop''" for cmdline
  proof -
    have "lower (strip ''loop'') = ''loop''" by code_simp
    then show ?thesis by (simp add: resolve_role_def)
  qed
  then show ?thesis
    by (simp add: probe_def HTTP_ROLES_def LOOP_ALIASES_def check_loop_def heartbeat_age_beats last_beat_def)
qed

end
