(* ===== verification/Loops.thy ===== *)
theory Loops
  imports Maintenance MetricsFacts Probe
begin

text \<open>
  The loops of the scheduler and of the inspector (\<open>run_scheduler\<close>, \<open>run_inspector\<close>) around the passes of
  \<open>Maintenance\<close>, with the gauges they publish and the heartbeats they leave for the probe of their container.
\<close>

subsection \<open>A process and what it meets\<close>

record process =
  pr_tick :: tick
  pr_machine :: machine
  pr_metrics :: metrics

text \<open>One round: its time, the \<open>errno\<close> of a heartbeat that cannot be written, the depths and refusals of the bus.\<close>

record round =
  ro_now :: time
  ro_fault :: "int option"
  ro_depth :: "string \<Rightarrow> int res"
  ro_bus :: refusals

text \<open>What a process was started with: its environment and the addresses of its gauges.\<close>

record process_env =
  pe_settings :: settings
  pe_registry :: registry
  pe_lib :: pylib
  pe_environ :: "string dict"
  pe_heartbeat :: nat
  pe_queue_depth :: nat
  pe_active :: nat
  pe_unknown :: nat

definition set_gauge :: "nat \<Rightarrow> metric_value \<Rightarrow> string dict \<Rightarrow> metrics \<Rightarrow> metrics" where
  "set_gauge a v ls = update_metric (a, Set v ls)"

subsection \<open>The scheduler\<close>

fun publish_queue_metrics :: "nat \<Rightarrow> (string \<Rightarrow> int res) \<Rightarrow> string list \<Rightarrow> metrics \<Rightarrow> exn option \<times> metrics" where
  "publish_queue_metrics a depth [] m = (None, m)"
| "publish_queue_metrics a depth (q # qs) m = (case depth q of
      Inl e \<Rightarrow> (Some e, m)
    | Inr d \<Rightarrow> publish_queue_metrics a depth qs (set_gauge a (Whole d) [(''queue'', q)] m))"

definition dispatch_pass :: "process_env \<Rightarrow> round \<Rightarrow> tick \<Rightarrow> exn option \<times> tick" where
  "dispatch_pass E r = dispatch_due (pe_registry E) (ro_bus r) (nat (scheduler_batch_size (pe_settings E))) 30 (ro_now r)"

text \<open>Round number \<open>n\<close>: a heartbeat only after a pass that went through.\<close>

definition scheduler_round :: "process_env \<Rightarrow> nat \<Rightarrow> round \<Rightarrow> process \<Rightarrow> process" where
  "scheduler_round E n r p = (case dispatch_pass E r (pr_tick p) of
      (Some e, s) \<Rightarrow> p\<lparr>pr_tick := s\<rparr>
    | (None, s) \<Rightarrow>
        let m = set_gauge (pe_heartbeat E) (Fraction (ro_now r)) [] (pr_metrics p) in
        p\<lparr>pr_tick := s, pr_machine := snd (beat (pe_environ E) (ro_fault r) (ro_now r) ''scheduler'' (pr_machine p)),
          pr_metrics := (if n mod 10 = 0 then snd (publish_queue_metrics (pe_queue_depth E) (ro_depth r) all_queues m) else m)\<rparr>)"

fun loop_rounds :: "(nat \<Rightarrow> round \<Rightarrow> process \<Rightarrow> process) \<Rightarrow> nat option \<Rightarrow> nat \<Rightarrow> round list \<Rightarrow> process \<Rightarrow> nat \<times> process" where
  "loop_rounds f max_ticks n [] p = (n, p)"
| "loop_rounds f max_ticks n (r # rs) p = (let p' = f (n + 1) r p in
     if (case max_ticks of None \<Rightarrow> False | Some k \<Rightarrow> k \<le> n + 1) then (n + 1, p') else loop_rounds f max_ticks (n + 1) rs p')"

text \<open>The rounds until the process is told to stop.\<close>

definition run_scheduler :: "process_env \<Rightarrow> nat option \<Rightarrow> round list \<Rightarrow> process \<Rightarrow> nat \<times> process" where
  "run_scheduler E max_ticks rs p = loop_rounds (scheduler_round E) max_ticks 0 rs p"

subsection \<open>The inspector\<close>

definition publish_gauges :: "nat \<Rightarrow> nat \<Rightarrow> table \<Rightarrow> metrics \<Rightarrow> metrics" where
  "publish_gauges active unknown tbl m =
     fold (\<lambda>(chan, n). set_gauge unknown (Whole n) [(''channel'', chan), (''status'', ''all'')]) (count_unknown_by_channel tbl)
       (fold (\<lambda>(chan, n). set_gauge active (Whole n) [(''channel'', chan)]) (active_counts_by_channel tbl) m)"

definition inspection :: "process_env \<Rightarrow> round \<Rightarrow> tick \<Rightarrow> exn option \<times> tick" where
  "inspection E r = run_tick (pe_lib E) (pe_settings E) (ro_bus r) (ro_now r)"

text \<open>A heartbeat after every round, also one that failed.\<close>

definition inspector_round :: "process_env \<Rightarrow> nat \<Rightarrow> round \<Rightarrow> process \<Rightarrow> process" where
  "inspector_round E n r p = (let (failed, s) = inspection E r (pr_tick p) in
     p\<lparr>pr_tick := s, pr_machine := snd (beat (pe_environ E) (ro_fault r) (ro_now r) ''inspector'' (pr_machine p)),
       pr_metrics := (if failed \<noteq> None then pr_metrics p
         else set_gauge (pe_heartbeat E) (Fraction (ro_now r)) [] (publish_gauges (pe_active E) (pe_unknown E) (tk_table s) (pr_metrics p)))\<rparr>)"

definition run_inspector :: "process_env \<Rightarrow> nat option \<Rightarrow> round list \<Rightarrow> process \<Rightarrow> nat \<times> process" where
  "run_inspector E max_ticks rs p = loop_rounds (inspector_round E) max_ticks 0 rs p"

subsection \<open>Heartbeats of the loops\<close>

lemma beats_append: "beats env bs (beats env as m) = beats env (as @ bs) m"
  by (simp add: beats_def)

lemma inspector_machine: "pr_machine (inspector_round E n r p) = beats (pe_environ E) [(''inspector'', ro_now r, ro_fault r)] (pr_machine p)"
  by (simp add: inspector_round_def beats_def split: prod.split)

lemma scheduler_machine: "pr_machine (scheduler_round E n r p) = beats (pe_environ E)
    (if fst (dispatch_pass E r (pr_tick p)) = None then [(''scheduler'', ro_now r, ro_fault r)] else []) (pr_machine p)"
  by (auto simp: scheduler_round_def beats_def Let_def split: prod.split option.split)

lemma inspector_machines:
  "pr_machine (snd (loop_rounds (inspector_round E) None n rs p))
     = beats (pe_environ E) (List.map (\<lambda>r. (''inspector'', ro_now r, ro_fault r)) rs) (pr_machine p)"
proof (induction rs arbitrary: n p)
  case (Cons r rs)
  then show ?case by (simp add: Let_def inspector_machine beats_append)
qed (simp add: beats_def)

text \<open>The heartbeats of a scheduler: those of the rounds whose pass went through.\<close>

fun scheduler_beats :: "process_env \<Rightarrow> nat \<Rightarrow> round list \<Rightarrow> process \<Rightarrow> (string \<times> time \<times> int option) list" where
  "scheduler_beats E n [] p = []"
| "scheduler_beats E n (r # rs) p = (if fst (dispatch_pass E r (pr_tick p)) = None then [(''scheduler'', ro_now r, ro_fault r)] else [])
     @ scheduler_beats E (n + 1) rs (scheduler_round E (n + 1) r p)"

lemma scheduler_machines:
  "pr_machine (snd (loop_rounds (scheduler_round E) None n rs p)) = beats (pe_environ E) (scheduler_beats E n rs p) (pr_machine p)"
proof (induction rs arbitrary: n p)
  case (Cons r rs)
  then show ?case by (simp add: Let_def scheduler_machine beats_append)
qed (simp add: beats_def)

subsection \<open>Gauges\<close>

definition gauge_value :: "nat \<Rightarrow> string dict \<Rightarrow> metrics \<Rightarrow> metric_value option" where
  "gauge_value a ls m = (if a < length (mx_store m) then (case mx_store m ! a of Gauge_metric g \<Rightarrow> map_of (mg_values g) (label_key ls) | _ \<Rightarrow> None) else None)"

definition is_gauge :: "nat \<Rightarrow> metrics \<Rightarrow> bool" where
  "is_gauge a m \<longleftrightarrow> a < length (mx_store m) \<and> (\<exists>g. mx_store m ! a = Gauge_metric g)"

lemma is_gauge_set [simp]: "is_gauge a (set_gauge b v ls m) = is_gauge a m"
  by (auto simp: is_gauge_def set_gauge_def update_metric_def apply_metric_def nth_list_update split: metric.splits)

lemma gauge_value_set:
  "is_gauge a m \<Longrightarrow> gauge_value a ls (set_gauge b v ls' m) = (if b = a \<and> label_key ls' = label_key ls then Some v else gauge_value a ls m)"
  by (auto simp: is_gauge_def gauge_value_def set_gauge_def update_metric_def apply_metric_def gauge_set_def update_conv' nth_list_update
      split: metric.splits)

lemma gauge_value_fold:
  assumes "is_gauge a m" and "\<forall>x \<in> set xs. b = a \<longrightarrow> label_key (f x) \<noteq> label_key ls"
  shows "is_gauge a (fold (\<lambda>x. set_gauge b (v x) (f x)) xs m) \<and> gauge_value a ls (fold (\<lambda>x. set_gauge b (v x) (f x)) xs m) = gauge_value a ls m"
  using assms by (induction xs arbitrary: m) (auto simp: gauge_value_set)

end
