(* ===== verification/LoopFacts.thy ===== *)
theory LoopFacts
  imports Loops MaintenanceFacts
begin

text \<open>
  What the loops of scheduler and inspector tell the outside: when the probe of their container is healthy, and what their
  gauges say.
\<close>

subsection \<open>Probes of the loops\<close>

definition probe_of :: "string \<Rightarrow> secs \<Rightarrow> probe_args" where
  "probe_of role max_age = \<lparr>pa_role = Some role, pa_url = None, pa_max_age = Some max_age\<rparr>"

lemma probe_of_fields [simp]: "pa_role (probe_of role a) = Some role" "pa_url (probe_of role a) = None" "pa_max_age (probe_of role a) = Some a"
  by (simp_all add: probe_of_def)

definition start_process :: "tick \<Rightarrow> metrics \<Rightarrow> process" where
  "start_process s m = \<lparr>pr_tick = s, pr_machine = no_beats, pr_metrics = m\<rparr>"

text \<open>
  The probes of the two loops ask different questions. The probe of a scheduler is healthy if and only if its last pass that
  went through, and whose heartbeat could be written, is recent enough: a scheduler whose passes keep failing is found out.
  The probe of an inspector only asks for a recent round: an inspector all of whose ticks fail is healthy.
\<close>

theorem probes_of_the_loops:
  shows "(probe L (pe_environ E) (probe_of ''scheduler'' max_age) pid1 web now (pr_machine (snd (run_scheduler E None rs (start_process s m)))) = 0
      \<longleftrightarrow> (\<exists>t. last_beat ''scheduler'' (scheduler_beats E 0 rs (start_process s m)) = Some t \<and> max 0 (now - t) \<le> max_age))
    \<and> (probe L (pe_environ E) (probe_of ''inspector'' max_age) pid1 web now (pr_machine (snd (run_inspector E None rs (start_process s m)))) = 0
      \<longleftrightarrow> (\<exists>t. last_beat ''inspector'' (List.map (\<lambda>r. (''inspector'', ro_now r, ro_fault r)) rs) = Some t \<and> max 0 (now - t) \<le> max_age))"
proof -
  have "''scheduler'' \<in> set LOOP_ROLES" "''inspector'' \<in> set LOOP_ROLES" by (simp_all add: LOOP_ROLES_def)
  then show ?thesis
    by (simp add: run_scheduler_def run_inspector_def scheduler_machines inspector_machines start_process_def probe_of_beats)
qed

subsection \<open>Gauges\<close>

lemma label_key_one [simp]: "label_key [x] = [x]"
  by (simp add: label_key_def)

lemma map_of_group_count:
  "map_of (group_count key rs) k = (if k \<in> key ` set rs then Some (int (length (filter (\<lambda>r. key r = k) rs))) else None)"
  by (simp add: group_count_def map_of_map_restrict restrict_map_def)

lemma gauge_per_channel:
  assumes "is_gauge a m" and "distinct (List.map fst xs)"
  shows "gauge_value a [(''channel'', c)] (fold (\<lambda>(chan, n). set_gauge a (Whole n) [(''channel'', chan)]) xs m)
    = (case map_of xs c of None \<Rightarrow> gauge_value a [(''channel'', c)] m | Some n \<Rightarrow> Some (Whole n))"
  using assms
proof (induction xs arbitrary: m)
  case (Cons x xs)
  obtain chan n where x: "x = (chan, n)" by (cases x)
  have "map_of xs chan = None" using Cons.prems by (simp add: x map_of_eq_None_iff)
  with Cons show ?case by (auto simp: x gauge_value_set split: option.split)
qed simp

lemma gauge_value_others:
  "is_gauge a m \<Longrightarrow> b \<noteq> a \<Longrightarrow> gauge_value a ls (fold (\<lambda>(chan, n). set_gauge b (v n) (f chan)) xs m) = gauge_value a ls m"
proof (induction xs arbitrary: m)
  case (Cons x xs)
  obtain chan n where x: "x = (chan, n)" by (cases x)
  have "gauge_value a ls (fold (\<lambda>(chan, n). set_gauge b (v n) (f chan)) xs (set_gauge b (v n) (f chan) m)) = gauge_value a ls m"
    using Cons.IH [of "set_gauge b (v n) (f chan) m"] Cons.prems by (simp add: gauge_value_set)
  then show ?case by (simp add: x)
qed simp

lemma is_gauge_fold: "is_gauge a (fold (\<lambda>(chan, n). set_gauge b (v n) (f chan)) xs m) = is_gauge a m"
proof (induction xs arbitrary: m)
  case (Cons x xs)
  then show ?case by (cases x) simp
qed simp

text \<open>
  What the gauge of the active tasks says. After a publication the value of a channel with active tasks is their number;
  a channel that has none any more keeps the value it had, however large: it never returns to zero.
\<close>

theorem active_gauge_goes_stale:
  assumes "is_gauge a m" and "u \<noteq> a"
  shows "gauge_value a [(''channel'', c)] (publish_gauges a u tbl m)
    = (if \<exists>t \<in> set tbl. is_active t \<and> channel t = c
       then Some (Whole (int (length (filter (\<lambda>t. channel t = c) (filter is_active tbl))))) else gauge_value a [(''channel'', c)] m)"
proof -
  have "distinct (List.map fst (active_counts_by_channel tbl))" by (simp add: active_counts_by_channel_def group_count_keys)
  then have "gauge_value a [(''channel'', c)] (publish_gauges a u tbl m)
      = (case map_of (active_counts_by_channel tbl) c of None \<Rightarrow> gauge_value a [(''channel'', c)] m | Some n \<Rightarrow> Some (Whole n))"
    using assms by (simp add: publish_gauges_def gauge_value_others is_gauge_fold gauge_per_channel)
  moreover have "map_of (active_counts_by_channel tbl) c = (if \<exists>t \<in> set tbl. is_active t \<and> channel t = c
      then Some (int (length (filter (\<lambda>t. channel t = c) (filter is_active tbl)))) else None)"
    unfolding active_counts_by_channel_def map_of_group_count by auto
  ultimately show ?thesis
    by (cases "\<exists>t \<in> set tbl. is_active t \<and> channel t = c") (simp_all only: if_True if_False option.case)
qed

definition sample_gauges :: metrics where
  "sample_gauges = snd (registry_gauge ''ag_unknown_tasks'' [] (snd (registry_gauge ''ag_active_tasks'' [] no_metrics)))"

theorem active_gauge_goes_stale_witness:
  "gauge_value 0 [(''channel'', ''chan'')] (publish_gauges 0 1 [] (publish_gauges 0 1 [new_task ''1'' ''k'' 0 ''chan'' ''tpl'' 0] sample_gauges)) = Some (Whole 1)"
proof -
  let ?m = "publish_gauges 0 1 [new_task ''1'' ''k'' 0 ''chan'' ''tpl'' 0] sample_gauges"
  have gauge: "is_gauge 0 sample_gauges"
    by (simp add: is_gauge_def sample_gauges_def registry_gauge_def no_metrics_def Let_def)
  then have "is_gauge 0 ?m" by (simp add: publish_gauges_def is_gauge_fold)
  then have "gauge_value 0 [(''channel'', ''chan'')] (publish_gauges 0 1 [] ?m) = gauge_value 0 [(''channel'', ''chan'')] ?m"
    using active_gauge_goes_stale [of 0 ?m 1 "''chan''" "[]"] by simp
  also have "\<dots> = Some (Whole 1)"
    using active_gauge_goes_stale [OF gauge, of 1 "''chan''" "[new_task ''1'' ''k'' 0 ''chan'' ''tpl'' 0]"]
    by (simp add: new_task_def is_active_def ACTIVE_STATUSES_def)
  finally show ?thesis .
qed

end
