(* ===== verification/Objects.thy ===== *)
theory Objects
  imports Stores
begin

text \<open>
  The result store over S3 (\<open>MinioResultStore\<close> of \<open>infra/object_store.py\<close>) and the choice of the store a process
  uses. The client library is a record of its calls; what the code relies on is the locale \<open>s3_client\<close>, and under it the store
  answers as the in-process one does.
\<close>

subsection \<open>The store over S3\<close>

text \<open>The calls of the client: each names the bucket, and a call that raises says with what.\<close>

record 's s3_calls =
  s3_bucket_exists :: "'s \<Rightarrow> string \<Rightarrow> bool res"
  s3_put_object :: "'s \<Rightarrow> string \<Rightarrow> string \<Rightarrow> string \<Rightarrow> string \<Rightarrow> 's res"
  s3_get_object :: "'s \<Rightarrow> string \<Rightarrow> string \<Rightarrow> string res"
  s3_stat_object :: "'s \<Rightarrow> string \<Rightarrow> string \<Rightarrow> unit res"
  s3_presigned :: "'s \<Rightarrow> string \<Rightarrow> string \<Rightarrow> int \<Rightarrow> string res"
  s3_list_objects :: "'s \<Rightarrow> string \<Rightarrow> string \<Rightarrow> string list"
  s3_remove_object :: "'s \<Rightarrow> string \<Rightarrow> string \<Rightarrow> 's res"

record minio_config =
  mn_endpoint :: string
  mn_access_key :: string
  mn_secret_key :: string
  mn_secure :: bool

definition remove_all :: "string \<Rightarrow> string \<Rightarrow> string" where
  "remove_all part s = replace_all (length part - 1) part [] s"

definition minio_client :: "settings \<Rightarrow> minio_config" where
  "minio_client st = \<lparr>mn_endpoint = remove_all ''https://'' (remove_all ''http://'' (s3_endpoint st)),
     mn_access_key = s3_access_key st, mn_secret_key = s3_secret_key st, mn_secure = s3_secure st\<rparr>"

text \<open>The state of the store: whether its bucket was seen, and the service.\<close>

type_synonym 's minio = "bool \<times> 's"

definition ensure_bucket :: "'s s3_calls \<Rightarrow> string \<Rightarrow> 's minio \<Rightarrow> unit res \<times> 's minio" where
  "ensure_bucket C bucket m = (if fst m then (Inr (), m)
     else (case s3_bucket_exists C (snd m) bucket of
         Inl e \<Rightarrow> (Inl e, m)
       | Inr False \<Rightarrow> (Inl (RuntimeError (''result bucket not available: '' @ bucket)), m)
       | Inr True \<Rightarrow> (Inr (), (True, snd m))))"

definition minio_put_bytes :: "'s s3_calls \<Rightarrow> string \<Rightarrow> string \<Rightarrow> string \<Rightarrow> string \<Rightarrow> 's minio \<Rightarrow> string res \<times> 's minio" where
  "minio_put_bytes C bucket key content ctype m = (case ensure_bucket C bucket m of
      (Inl e, m) \<Rightarrow> (Inl e, m)
    | (Inr _, m) \<Rightarrow> (case s3_put_object C (snd m) bucket key content ctype of Inl e \<Rightarrow> (Inl e, m) | Inr s \<Rightarrow> (Inr key, (fst m, s))))"

definition minio_put_json :: "'s s3_calls \<Rightarrow> string \<Rightarrow> string \<Rightarrow> json \<Rightarrow> 's minio \<Rightarrow> string res \<times> 's minio" where
  "minio_put_json C bucket key payload m = minio_put_bytes C bucket key (dumps False False payload) ''application/json'' m"

definition minio_get_bytes :: "'s s3_calls \<Rightarrow> string \<Rightarrow> string \<Rightarrow> 's minio \<Rightarrow> string res" where
  "minio_get_bytes C bucket key m = (case s3_get_object C (snd m) bucket key of Inl e \<Rightarrow> Inl (ObjectNotFound key) | Inr b \<Rightarrow> Inr b)"

definition minio_exists :: "'s s3_calls \<Rightarrow> string \<Rightarrow> string \<Rightarrow> 's minio \<Rightarrow> bool" where
  "minio_exists C bucket key m = (case s3_stat_object C (snd m) bucket key of Inl e \<Rightarrow> False | Inr _ \<Rightarrow> True)"

definition minio_presign_get :: "'s s3_calls \<Rightarrow> string \<Rightarrow> string \<Rightarrow> int \<Rightarrow> 's minio \<Rightarrow> string res" where
  "minio_presign_get C bucket key ttl m = s3_presigned C (snd m) bucket key ttl"

text \<open>The loop over the listing; an object that cannot be removed ends it with what was removed before.\<close>

fun purge :: "'s s3_calls \<Rightarrow> string \<Rightarrow> string list \<Rightarrow> nat \<Rightarrow> 's \<Rightarrow> nat res \<times> 's" where
  "purge C bucket [] n s = (Inr n, s)"
| "purge C bucket (key # keys) n s = (case s3_remove_object C s bucket key of Inl e \<Rightarrow> (Inl e, s) | Inr s' \<Rightarrow> purge C bucket keys (n + 1) s')"

definition minio_delete_prefix :: "'s s3_calls \<Rightarrow> string \<Rightarrow> string \<Rightarrow> 's minio \<Rightarrow> nat res \<times> 's minio" where
  "minio_delete_prefix C bucket pre m = (case purge C bucket (s3_list_objects C (snd m) bucket pre) 0 (snd m) of (r, s) \<Rightarrow> (r, (fst m, s)))"

subsection \<open>The store of a process\<close>

datatype store_choice = Injected | Over_s3 minio_config

text \<open>\<open>get_result_store\<close>: the store in use, made at the first call when the settings name a service.\<close>

definition get_result_store :: "settings \<Rightarrow> store_choice option \<Rightarrow> store_choice option" where
  "get_result_store st store = (case store of Some x \<Rightarrow> Some x | None \<Rightarrow> if s3_configured st then Some (Over_s3 (minio_client st)) else None)"

subsection \<open>What the store relies on\<close>

text \<open>\<open>content s bucket key\<close> is what the service holds.\<close>

locale s3_client =
  fixes C :: "'s s3_calls" and content :: "'s \<Rightarrow> string \<Rightarrow> string \<Rightarrow> string option"
  assumes bucket_seen: "s3_bucket_exists C s b = Inr True \<Longrightarrow> \<exists>s'. s3_put_object C s b k d ct = Inr s'"
    and put_content: "s3_put_object C s b k d ct = Inr s' \<Longrightarrow> content s' b' k' = (if b' = b \<and> k' = k then Some d else content s b' k')"
    and put_bucket: "s3_put_object C s b k d ct = Inr s' \<Longrightarrow> s3_bucket_exists C s' b' = s3_bucket_exists C s b'"
    and get_content: "s3_get_object C s b k = Inr d \<longleftrightarrow> content s b k = Some d"
    and stat_content: "s3_stat_object C s b k = Inr u \<longleftrightarrow> content s b k \<noteq> None"
    and list_content: "set (s3_list_objects C s b p) = {k. starts_with p k \<and> content s b k \<noteq> None} \<and> distinct (s3_list_objects C s b p)"
    and remove_content: "content s b k \<noteq> None \<Longrightarrow> \<exists>s'. s3_remove_object C s b k = Inr s'
      \<and> (\<forall>b' k'. content s' b' k' = (if b' = b \<and> k' = k then None else content s b' k')) \<and> (\<forall>b'. s3_bucket_exists C s' b' = s3_bucket_exists C s b')"

text \<open>Requests to a store and its answers.\<close>

datatype store_op = Put_bytes string string string | Get_bytes string | Exists string | Delete_prefix string
datatype store_answer = Key "string res" | Bytes "string res" | Found bool | Deleted "nat res"

definition mem_answer :: "store_op \<Rightarrow> result_store \<Rightarrow> store_answer \<times> result_store" where
  "mem_answer x s = (case x of
      Put_bytes k d ct \<Rightarrow> (case put_bytes k d ct s of (key, s') \<Rightarrow> (Key (Inr key), s'))
    | Get_bytes k \<Rightarrow> (Bytes (get_bytes k s), s)
    | Exists k \<Rightarrow> (Found (object_exists k s), s)
    | Delete_prefix p \<Rightarrow> (case delete_prefix p s of (n, s') \<Rightarrow> (Deleted (Inr n), s')))"

definition minio_answer :: "'s s3_calls \<Rightarrow> string \<Rightarrow> store_op \<Rightarrow> 's minio \<Rightarrow> store_answer \<times> 's minio" where
  "minio_answer C bucket x m = (case x of
      Put_bytes k d ct \<Rightarrow> (case minio_put_bytes C bucket k d ct m of (r, m') \<Rightarrow> (Key r, m'))
    | Get_bytes k \<Rightarrow> (Bytes (minio_get_bytes C bucket k m), m)
    | Exists k \<Rightarrow> (Found (minio_exists C bucket k m), m)
    | Delete_prefix p \<Rightarrow> (case minio_delete_prefix C bucket p m of (r, m') \<Rightarrow> (Deleted r, m')))"

fun answers_of :: "('op \<Rightarrow> 's \<Rightarrow> 'a \<times> 's) \<Rightarrow> 'op list \<Rightarrow> 's \<Rightarrow> 'a list" where
  "answers_of f [] s = []"
| "answers_of f (x # xs) s = (case f x s of (a, s') \<Rightarrow> a # answers_of f xs s')"

context s3_client begin

text \<open>The service holds what the in-process store holds.\<close>

definition same_objects :: "string \<Rightarrow> 's minio \<Rightarrow> result_store \<Rightarrow> bool" where
  "same_objects bucket m r \<longleftrightarrow> s3_bucket_exists C (snd m) bucket = Inr True
     \<and> (\<forall>k. content (snd m) bucket k = map_option fst (dict_get (os_objects r) k))"

lemma purge_content:
  assumes "distinct keys" and "\<forall>k \<in> set keys. content s b k \<noteq> None"
  shows "\<exists>s'. purge C b keys n s = (Inr (n + length keys), s')
    \<and> (\<forall>b' k'. content s' b' k' = (if b' = b \<and> k' \<in> set keys then None else content s b' k')) \<and> (\<forall>b'. s3_bucket_exists C s' b' = s3_bucket_exists C s b')"
  using assms
proof (induction keys arbitrary: n s)
  case (Cons k keys)
  obtain s1 where s1: "s3_remove_object C s b k = Inr s1" "\<forall>b' k'. content s1 b' k' = (if b' = b \<and> k' = k then None else content s b' k')"
      "\<forall>b'. s3_bucket_exists C s1 b' = s3_bucket_exists C s b'" using remove_content [of s b k] Cons.prems by auto
  have "\<forall>k' \<in> set keys. content s1 b k' \<noteq> None" using Cons.prems s1(2) by auto
  from Cons.IH [OF _ this, of "n + 1"] Cons.prems s1 show ?case by fastforce
qed simp

lemma answer_same:
  assumes "same_objects bucket m r" and "minio_answer C bucket x m = (a, m')"
  shows "\<exists>r'. mem_answer x r = (a, r') \<and> same_objects bucket m' r'"
proof (cases x)
  case (Put_bytes k d ct)
  obtain s' where s': "s3_put_object C (snd m) bucket k d ct = Inr s'" using bucket_seen [of "snd m" bucket k d ct] assms(1) by (auto simp: same_objects_def)
  have "a = Key (Inr k) \<and> snd m' = s'"
    using assms s' by (auto simp: Put_bytes minio_answer_def minio_put_bytes_def ensure_bucket_def same_objects_def split: if_splits)
  then show ?thesis
    using assms(1) put_content [OF s'] put_bucket [OF s']
    by (auto simp: Put_bytes mem_answer_def put_bytes_def same_objects_def)
next
  case (Get_bytes k)
  have "minio_get_bytes C bucket k m = get_bytes k r"
  proof (cases "content (snd m) bucket k")
    case None
    then have "\<exists>e. s3_get_object C (snd m) bucket k = Inl e" using get_content [of "snd m" bucket k] by (cases "s3_get_object C (snd m) bucket k") auto
    then show ?thesis using None assms(1) by (auto simp: same_objects_def minio_get_bytes_def get_bytes_def split: option.split)
  next
    case (Some d)
    then have "s3_get_object C (snd m) bucket k = Inr d" using get_content [of "snd m" bucket k] by simp
    then show ?thesis using Some assms(1) by (auto simp: same_objects_def minio_get_bytes_def get_bytes_def split: option.split)
  qed
  then show ?thesis using assms by (auto simp: Get_bytes mem_answer_def minio_answer_def)
next
  case (Exists k)
  have "minio_exists C bucket k m = object_exists k r"
    using assms(1) stat_content [of "snd m" bucket k]
    by (cases "s3_stat_object C (snd m) bucket k") (auto simp: same_objects_def minio_exists_def object_exists_def)
  then show ?thesis using assms by (auto simp: Exists mem_answer_def minio_answer_def)
next
  case (Delete_prefix p)
  let ?keys = "s3_list_objects C (snd m) bucket p"
  obtain s' where s': "purge C bucket ?keys 0 (snd m) = (Inr (length ?keys), s')"
      "\<forall>b' k'. content s' b' k' = (if b' = bucket \<and> k' \<in> set ?keys then None else content (snd m) b' k')"
      "\<forall>b'. s3_bucket_exists C s' b' = s3_bucket_exists C (snd m) b'"
    using purge_content [of ?keys "snd m" bucket 0] list_content [of "snd m" bucket p] by auto
  have keys: "set ?keys = {k. object_exists k r \<and> starts_with p k}"
    using list_content [of "snd m" bucket p] assms(1) by (auto simp: same_objects_def object_exists_def)
  have exact: "set (remdups (filter (starts_with p) (List.map fst (os_objects r)))) = set ?keys"
    unfolding keys by (auto simp: object_exists_def dict_get_None_iff)
  have "length ?keys = fst (delete_prefix p r)"
  proof -
    have "length ?keys = card (set ?keys)" using conjunct2 [OF list_content [of "snd m" bucket p]] by (rule distinct_card [symmetric])
    then show ?thesis unfolding exact [symmetric] by (simp add: delete_prefix_def Let_def length_remdups_card_conv)
  qed
  moreover have "dict_get (os_objects (snd (delete_prefix p r))) k = (if k \<in> set ?keys then None else dict_get (os_objects r) k)" for k
    using exact by (simp add: delete_prefix_def Let_def dict_get_pops)
  ultimately show ?thesis
    using assms s' by (auto simp: Delete_prefix mem_answer_def minio_answer_def minio_delete_prefix_def same_objects_def split: prod.splits)
qed

lemma same_answers: "same_objects bucket m r \<Longrightarrow> answers_of (minio_answer C bucket) ops m = answers_of mem_answer ops r"
proof (induction ops arbitrary: m r)
  case (Cons x ops)
  obtain a m' where step: "minio_answer C bucket x m = (a, m')" by (cases "minio_answer C bucket x m")
  obtain r' where "mem_answer x r = (a, r')" "same_objects bucket m' r'" using answer_same [OF Cons.prems step] by auto
  then show ?case using Cons.IH step by simp
qed simp

lemma fresh_bucket: "s3_bucket_exists C s bucket = Inr True \<Longrightarrow> \<forall>k. content s bucket k = None \<Longrightarrow> same_objects bucket (seen, s) \<lparr>os_objects = [], os_base_url = u\<rparr>"
  by (simp add: same_objects_def)

end

text \<open>A table of objects by bucket, with the buckets that exist, behaves like this.\<close>

definition table_calls :: "(string list \<times> ((string \<times> string) \<times> string) list) s3_calls" where
  "table_calls = \<lparr>s3_bucket_exists = (\<lambda>s b. Inr (b \<in> set (fst s))),
     s3_put_object = (\<lambda>s b k d ct. if b \<in> set (fst s) then Inr (fst s, AList.update (b, k) d (snd s)) else Inl (RuntimeError ''NoSuchBucket'')),
     s3_get_object = (\<lambda>s b k. case map_of (snd s) (b, k) of Some d \<Rightarrow> Inr d | None \<Rightarrow> Inl (KeyError ''NoSuchKey'')),
     s3_stat_object = (\<lambda>s b k. if map_of (snd s) (b, k) = None then Inl (KeyError ''NoSuchKey'') else Inr ()),
     s3_presigned = (\<lambda>s b k ttl. Inr (b @ ''/'' @ k)),
     s3_list_objects = (\<lambda>s b p. remdups (List.map snd (filter (\<lambda>(b', k). b' = b \<and> starts_with p k) (List.map fst (snd s))))),
     s3_remove_object = (\<lambda>s b k. Inr (fst s, AList.delete (b, k) (snd s)))\<rparr>"

interpretation table: s3_client table_calls "\<lambda>s b k. map_of (snd s) (b, k)"
proof unfold_locales
  fix s :: "string list \<times> ((string \<times> string) \<times> string) list" and b p :: string
  show "set (s3_list_objects table_calls s b p) = {k. starts_with p k \<and> map_of (snd s) (b, k) \<noteq> None} \<and> distinct (s3_list_objects table_calls s b p)"
    by (force simp: table_calls_def map_of_eq_None_iff)
qed (auto simp: table_calls_def update_conv' delete_conv' split: if_splits option.splits)

subsection \<open>Properties\<close>



text \<open>
  A missing bucket is never created. While the bucket does not exist every write fails and the service is left as it was, however
  often it is tried.
\<close>

theorem missing_bucket_refuses_writes:
  assumes "s3_bucket_exists C s bucket = Inr False"
  shows "minio_put_bytes C bucket key content ctype (False, s) = (Inl (RuntimeError (''result bucket not available: '' @ bucket)), (False, s))"
  using assms by (simp add: minio_put_bytes_def ensure_bucket_def)

theorem missing_bucket_refuses_writes_witness:
  "minio_put_bytes table_calls ''cdm'' ''k'' ''d'' ''t'' (False, ([''cdn''], [])) = (Inl (RuntimeError ''result bucket not available: cdm''), (False, ([''cdn''], [])))"
proof -
  have "s3_bucket_exists table_calls ([''cdn''], []) ''cdm'' = Inr False" by (simp add: table_calls_def)
  from missing_bucket_refuses_writes [OF this] show ?thesis by simp
qed

end
