(* ===== verification/Wiring.thy ===== *)
theory Wiring
  imports Objects Worker Client Redaction
begin

text \<open>
  How a process is put together: the environment variables that are lists or tables (\<open>config.py\<close>), the choice of the stores, the
  limiters and the bus (\<open>gateway/container.py\<close>, \<open>infra\<close>, \<open>bus/taskiq_adapter.py\<close>), transactions and times in
  the database (\<open>db/base.py\<close>, \<open>db/models.py\<close>), start and readiness of the gateway (\<open>gateway/app.py\<close>) and what reaches
  the log (\<open>observability/logging.py\<close>).
\<close>

subsection \<open>Settings from the environment\<close>

definition parse_list :: "(string \<Rightarrow> string) \<Rightarrow> string \<Rightarrow> json res" where
  "parse_list canon v = (let s = strip v in
     if s = [] then Inr (JArr [])
     else if hd s = CHR ''['' then json_loads canon s
     else Inr (JArr (List.map JStr (filter (\<lambda>x. x \<noteq> []) (List.map strip (split_on (CHR '','') s))))))"

definition key_pair :: "string \<Rightarrow> (string \<times> string) option" where
  "key_pair pair = (if CHR ''='' \<in> set pair
     then Some (strip (takeWhile (\<lambda>c. c \<noteq> CHR ''='') pair), strip (drop 1 (dropWhile (\<lambda>c. c \<noteq> CHR ''='') pair))) else None)"

definition parse_keys :: "(string \<Rightarrow> string) \<Rightarrow> string \<Rightarrow> json res" where
  "parse_keys canon v = (let s = strip v in
     if s = [] then Inr (JObj [])
     else if hd s = CHR ''{'' then json_loads canon s
     else Inr (JObj (fold (\<lambda>pair out. case key_pair pair of Some (kid, secret) \<Rightarrow> dict_set kid (JStr secret) out | None \<Rightarrow> out)
       (split_on (CHR '','') s) [])))"

definition is_sqlite :: "string \<Rightarrow> bool" where
  "is_sqlite database_url = starts_with ''sqlite'' database_url"

subsection \<open>Which infrastructure\<close>

datatype infra_kind = Redis_infra | Memory_infra

definition get_request_store :: "settings \<Rightarrow> infra_kind option \<Rightarrow> infra_kind" where
  "get_request_store st store = (case store of Some k \<Rightarrow> k
     | None \<Rightarrow> if \<not> is_test st \<and> redis_url st \<noteq> [] then Redis_infra else Memory_infra)"

definition get_credential_store :: "settings \<Rightarrow> infra_kind option \<Rightarrow> infra_kind" where
  "get_credential_store st store = (case store of Some k \<Rightarrow> k
     | None \<Rightarrow> if \<not> is_test st \<and> redis_url st \<noteq> [] then Redis_infra else Memory_infra)"

text \<open>A rate limiter is made with its rate and its burst.\<close>

record container =
  ct_limiter :: infra_kind
  ct_accept_limiter :: "infra_kind \<times> rat \<times> int"
  ct_polling :: infra_kind
  ct_result_store :: "store_choice option"
  ct_request_store :: infra_kind
  ct_bus :: "bus_kind option"

text \<open>Every part of a container can be given; the others follow the settings.\<close>

record container_args =
  ca_limiter :: "infra_kind option"
  ca_accept_limiter :: "(infra_kind \<times> rat \<times> int) option"
  ca_polling :: "infra_kind option"
  ca_result_store :: "store_choice option"
  ca_request_store :: "infra_kind option"

definition no_args :: container_args where
  "no_args = \<lparr>ca_limiter = None, ca_accept_limiter = None, ca_polling = None, ca_result_store = None, ca_request_store = None\<rparr>"

definition new_container :: "settings \<Rightarrow> container_args \<Rightarrow> store_choice option \<Rightarrow> infra_kind option \<Rightarrow> container" where
  "new_container st args result_global request_global =
     (let redis_ready = (\<not> is_test st \<and> redis_url st \<noteq> []);
          chosen = (\<lambda>given. case given of Some k \<Rightarrow> k | None \<Rightarrow> if redis_ready then Redis_infra else Memory_infra) in
      \<lparr>ct_limiter = chosen (ca_limiter args),
       ct_accept_limiter = (case ca_accept_limiter args of Some x \<Rightarrow> x
          | None \<Rightarrow> (chosen None, accept_rate_per_second st, accept_burst st)),
       ct_polling = chosen (ca_polling args),
       ct_result_store = (case ca_result_store args of Some x \<Rightarrow> Some x | None \<Rightarrow> get_result_store st result_global),
       ct_request_store = (case ca_request_store args of Some k \<Rightarrow> k | None \<Rightarrow> get_request_store st request_global),
       ct_bus = None\<rparr>)"

text \<open>The bus is made when it is first asked for.\<close>

definition container_bus :: "settings \<Rightarrow> container \<Rightarrow> bus_kind \<times> container" where
  "container_bus st c = (case ct_bus c of Some b \<Rightarrow> (b, c) | None \<Rightarrow> (make_bus st, c\<lparr>ct_bus := Some (make_bus st)\<rparr>))"

definition set_bus :: "bus_kind option \<Rightarrow> container \<Rightarrow> container" where
  "set_bus b c = c\<lparr>ct_bus := b\<rparr>"

definition get_container :: "settings \<Rightarrow> store_choice option \<Rightarrow> infra_kind option \<Rightarrow> container option \<Rightarrow> container" where
  "get_container st result_global request_global current =
     (case current of Some c \<Rightarrow> c | None \<Rightarrow> new_container st no_args result_global request_global)"

text \<open>
  \<open>upstream_client\<close>: a client for one call. \<open>factory\<close> says whether a transport is injected, \<open>pin\<close> overrides the setting.
\<close>

definition upstream_client :: "settings \<Rightarrow> bool \<Rightarrow> bool option \<Rightarrow> string option \<Rightarrow> client" where
  "upstream_client st factory pin bearer = remember_secret bearer
     \<lparr>uc_auth_header = upstream_auth_header st, uc_pin_dns = (case pin of None \<Rightarrow> ssrf_pin_dns st | Some b \<Rightarrow> b),
      uc_allow_hosts = ssrf_allow_hosts st, uc_allow_schemes = ssrf_allow_schemes st, uc_deny_private = ssrf_deny_private st,
      uc_max_result_bytes = result_max_bytes st, uc_injected = factory, uc_connection = None, uc_secrets = []\<rparr>"

text \<open>
  The bus over Taskiq: \<open>broker\<close> is there when the package could be loaded; it takes a message and gives the text of its
  \<open>task_id\<close>. Consuming is left to Taskiq's own worker.
\<close>

definition taskiq_enqueue :: "(string \<Rightarrow> string \<Rightarrow> jobj \<Rightarrow> string option) option \<Rightarrow> string \<Rightarrow> string \<Rightarrow> jobj \<Rightarrow> string res" where
  "taskiq_enqueue broker q name payload = (case broker of
      None \<Rightarrow> Inl (RuntimeError ''taskiq driver selected but taskiq/taskiq-redis is unavailable'')
    | Some kiq \<Rightarrow> Inr (case kiq q name payload of Some i \<Rightarrow> i | None \<Rightarrow> []))"

definition taskiq_worker_bus :: "'s worker_bus" where
  "taskiq_worker_bus = \<lparr>wb_consume = (\<lambda>q s. (Inl (RuntimeError ''NotImplementedError''), s)), wb_ack = (\<lambda>q i s. s),
     wb_dead = (\<lambda>q m why s. s), wb_claim = None, wb_ensure = (\<lambda>q s. s)\<rparr>"

definition taskiq_depth :: "string \<Rightarrow> int" where
  "taskiq_depth q = 0"

subsection \<open>The database\<close>

text \<open>\<open>session_scope\<close>: the body works on the session, the commit can fail; \<open>None\<close> says that it did not.\<close>

definition session_scope :: "('s \<Rightarrow> 'a res \<times> 's) \<Rightarrow> exn option \<Rightarrow> 's \<Rightarrow> 'a res \<times> 's" where
  "session_scope body commit db = (case body db of
      (Inl e, _) \<Rightarrow> (Inl e, db)
    | (Inr x, db') \<Rightarrow> (case commit of Some e \<Rightarrow> (Inl e, db) | None \<Rightarrow> (Inr x, db')))"

definition healthy :: "exn option \<Rightarrow> bool" where
  "healthy fault = (case fst (session_scope (\<lambda>s. (case fault of Some e \<Rightarrow> Inl e | None \<Rightarrow> Inr (), s)) None ()) of Inl _ \<Rightarrow> False | Inr _ \<Rightarrow> True)"

record engine_options =
  eo_echo :: bool
  eo_null_pool :: bool
  eo_pool_size :: "int option"
  eo_max_overflow :: "int option"
  eo_pre_ping :: bool

definition engine_options_for :: "string \<Rightarrow> bool \<Rightarrow> int \<Rightarrow> int \<Rightarrow> engine_options" where
  "engine_options_for database_url db_echo pool_size max_overflow =
     (if is_sqlite database_url
      then \<lparr>eo_echo = db_echo, eo_null_pool = True, eo_pool_size = None, eo_max_overflow = None, eo_pre_ping = False\<rparr>
      else \<lparr>eo_echo = db_echo, eo_null_pool = False, eo_pool_size = Some pool_size, eo_max_overflow = Some max_overflow, eo_pre_ping = True\<rparr>)"

text \<open>A \<open>datetime\<close>: its fields read as a time, and the offset from UTC when it has one.\<close>

record pydatetime =
  dt_wall :: time
  dt_offset :: "secs option"

definition as_utc :: "pydatetime \<Rightarrow> pydatetime" where
  "as_utc d = (case dt_offset d of None \<Rightarrow> d\<lparr>dt_offset := Some 0\<rparr> | Some off \<Rightarrow> \<lparr>dt_wall = dt_wall d - off, dt_offset = Some 0\<rparr>)"

definition process_bind_param :: "pydatetime option \<Rightarrow> pydatetime option" where
  "process_bind_param v = map_option as_utc v"

definition process_result_value :: "pydatetime option \<Rightarrow> pydatetime option" where
  "process_result_value v = map_option (\<lambda>d. if dt_offset d \<noteq> None then d else d\<lparr>dt_offset := Some 0\<rparr>) v"

text \<open>The column of an engine: one that keeps the zone, or one that drops it.\<close>

definition stored_datetime :: "bool \<Rightarrow> pydatetime option \<Rightarrow> pydatetime option" where
  "stored_datetime zoned v = (if zoned then v else map_option (\<lambda>d. d\<lparr>dt_offset := None\<rparr>) v)"

definition instant :: "pydatetime \<Rightarrow> time" where
  "instant d = dt_wall d - (case dt_offset d of None \<Rightarrow> 0 | Some off \<Rightarrow> off)"

subsection \<open>Start and readiness of the gateway\<close>

definition WARM_QUEUES :: "string list" where
  "WARM_QUEUES = [''submit:default'', ''cancel:default'', ''compensate:default'', ''finalize:default'']"

text \<open>\<open>lifespan\<close>: the queues made before the first that cannot be.\<close>

fun warm_queues :: "(string \<Rightarrow> 's \<Rightarrow> 's res) \<Rightarrow> string list \<Rightarrow> 's \<Rightarrow> 's" where
  "warm_queues ensure [] s = s"
| "warm_queues ensure (q # qs) s = (case ensure q s of Inl e \<Rightarrow> s | Inr s' \<Rightarrow> warm_queues ensure qs s')"

definition gateway_readyz :: "bool \<Rightarrow> bool \<Rightarrow> int \<times> json" where
  "gateway_readyz db_ok cache_ok = (if db_ok then 200 else 503, JObj [(''db'', JBool db_ok), (''cache'', JBool cache_ok)])"

subsection \<open>What reaches the log\<close>

text \<open>A record of the \<open>logging\<close> module: its message when that is a text, and the texts of its arguments.\<close>

record log_record =
  lr_msg :: "string option"
  lr_args :: "string list"

definition redacting_filter :: "log_record \<Rightarrow> bool \<times> log_record" where
  "redacting_filter r = (True, r\<lparr>lr_msg := map_option (scrub_text []) (lr_msg r)\<rparr>)"

text \<open>\<open>msg % args\<close> for the directive \<open>%s\<close>; a directive without an argument is left as it is.\<close>

fun percent_format :: "string \<Rightarrow> string list \<Rightarrow> string" where
  "percent_format [] args = []"
| "percent_format (c # s) args = (case args of [] \<Rightarrow> c # s
    | a # as \<Rightarrow> if c = CHR ''%'' \<and> s \<noteq> [] \<and> hd s = CHR ''s'' then a @ percent_format (tl s) as else c # percent_format s args)"

definition log_line :: "log_record \<Rightarrow> string" where
  "log_line r = percent_format (case lr_msg r of Some m \<Rightarrow> m | None \<Rightarrow> []) (lr_args r)"

definition sanitize_field :: "json \<Rightarrow> json" where
  "sanitize_field v = (case v of
      JObj kvs \<Rightarrow> if list_ex (\<lambda>(k, _). lower k \<in> {''authorization'', ''cookie''}) kvs
        then JObj (List.map (\<lambda>(k, x). (k, JStr x)) (otel_safe_headers (List.map (\<lambda>(k, x). (k, py_str x)) kvs))) else v
    | _ \<Rightarrow> v)"

definition log_event :: "string \<Rightarrow> jobj \<Rightarrow> log_record" where
  "log_event event fs = \<lparr>lr_msg = Some ''%s %s'', lr_args = [event, safe_json_dump [] 2048
     (JObj (List.map (\<lambda>(k, v). (k, if k \<in> {''headers'', ''response''} then sanitize_field v else v)) fs))]\<rparr>"

definition upstream_error_for_storage :: "json \<Rightarrow> string list \<Rightarrow> string" where
  "upstream_error_for_storage payload secrets = safe_json_dump secrets 4096 payload"

definition trace_headers_for_otel :: "string dict \<Rightarrow> string dict" where
  "trace_headers_for_otel hs = otel_safe_headers hs"

end
