(* ===== verification/WiringFacts.thy ===== *)
theory WiringFacts
  imports Wiring DeriveFacts
begin

text \<open>
  Facts about how a process is put together: its stores all follow one choice, a transaction happens as a whole or not at all, a time
  survives the database, a list survives the environment, and what the log filter does not see.
\<close>

subsection \<open>Infrastructure\<close>

text \<open>
  One choice of infrastructure. Unless they are given, the slots, the rate limit, the polling control, the request store and
  the credential store of a process are all over Redis, or, in tests or without a Redis URL, all in process: never one
  here and one there. The bus alone follows another rule: with the default driver and no Redis URL it is over Redis while
  everything else is in process.
\<close>

theorem one_choice_of_infrastructure:
  "(let c = new_container st no_args result_global None in
      ct_request_store c = ct_limiter c \<and> fst (ct_accept_limiter c) = ct_limiter c \<and> ct_polling c = ct_limiter c
      \<and> get_credential_store st None = ct_limiter c \<and> (ct_limiter c = Memory_infra \<longleftrightarrow> uses_ephemeral_infra st)
      \<and> (ct_limiter c = Memory_infra \<and> fst (container_bus st c) = BUS_STREAM
          \<longleftrightarrow> redis_url st = [] \<and> \<not> is_test st \<and> queue_driver st = DRIVER_STREAM))"
  by (cases "queue_driver st") (auto simp: new_container_def no_args_def get_request_store_def get_credential_store_def uses_ephemeral_infra_def
      container_bus_def make_bus_def Let_def)

lemma bus_made_once: "container_bus st (snd (container_bus st c)) = (fst (container_bus st c), snd (container_bus st c))"
  by (auto simp: container_bus_def split: option.splits)

subsection \<open>The database\<close>

lemma instant_as_utc [simp]: "instant (as_utc d) = instant d" "dt_offset (as_utc d) = Some 0"
  by (auto simp: instant_def as_utc_def split: option.split)

text \<open>
  A time survives the database. Whatever its zone, and whether or not the column keeps zones, a time that is written and
  read back is the same instant, with its zone known to be UTC; a time without a zone is taken for UTC.
\<close>

theorem datetime_round_trip:
  "\<exists>d'. process_result_value (stored_datetime zoned (process_bind_param (Some d))) = Some d'
     \<and> instant d' = instant d \<and> dt_offset d' = Some 0"
proof -
  have "instant ((as_utc d)\<lparr>dt_offset := None, dt_offset := Some 0\<rparr>) = instant d"
    using instant_as_utc [of d] by (simp add: instant_def)
  then show ?thesis by (simp add: process_result_value_def stored_datetime_def process_bind_param_def)
qed

text \<open>
  A transaction happens as a whole or not at all: when its body raises or the commit fails, the database is what it was and the
  exception is the caller's; otherwise every change of the body is there.
\<close>

theorem session_all_or_nothing:
  "(case fst (session_scope body commit db) of
      Inl e \<Rightarrow> snd (session_scope body commit db) = db \<and> (fst (body db) = Inl e \<or> commit = Some e)
    | Inr x \<Rightarrow> body db = (Inr x, snd (session_scope body commit db)) \<and> commit = None)"
  by (auto simp: session_scope_def split: sum.splits prod.splits option.splits)

subsection \<open>Settings\<close>

text \<open>An entry of a list that can be written between commas.\<close>

definition plain_entry :: "string \<Rightarrow> bool" where
  "plain_entry s \<longleftrightarrow> s \<noteq> [] \<and> CHR '','' \<notin> set s \<and> \<not> py_space (hd s) \<and> \<not> py_space (List.last s)"

lemma plain_entry_strip: "plain_entry s \<Longrightarrow> strip s = s"
  by (rule strip_plain) (auto simp: plain_entry_def)

lemma join_ends: "ws \<noteq> [] \<Longrightarrow> \<forall>w \<in> set ws. w \<noteq> [] \<Longrightarrow> join sep ws \<noteq> [] \<and> hd (join sep ws) = hd (hd ws) \<and> List.last (join sep ws) = List.last (List.last ws)"
  by (induction sep ws rule: join.induct) auto

text \<open>
  A list of settings survives the environment: written with commas, and with no entry that is empty, contains a comma or has
  space at an end, and the first not beginning with a bracket, it is read back as it was, whatever the JSON reader does.
\<close>

theorem settings_list_round_trip:
  assumes "ws \<noteq> []" and "\<forall>w \<in> set ws. plain_entry w" and "hd (hd ws) \<noteq> CHR ''[''"
  shows "parse_list canon (join '','' ws) = Inr (JArr (List.map JStr ws))"
proof -
  have ends: "join '','' ws \<noteq> []" "hd (join '','' ws) = hd (hd ws)" "List.last (join '','' ws) = List.last (List.last ws)"
    using join_ends [of ws "'',''"] assms(1,2) by (auto simp: plain_entry_def)
  have "plain_entry (hd ws)" "plain_entry (List.last ws)" using assms(1,2) by simp_all
  then have "strip (join '','' ws) = join '','' ws" using ends by (intro strip_plain) (simp_all add: plain_entry_def)
  moreover have "split_on (CHR '','') (join [CHR '',''] ws) = ws" using assms by (intro split_on_join) (auto simp: plain_entry_def)
  moreover have "List.map strip ws = ws" using assms(2) by (intro map_idI) (simp add: plain_entry_strip)
  moreover have "filter (\<lambda>x. x \<noteq> []) ws = ws" using assms(2) by (intro filter_True) (auto simp: plain_entry_def)
  ultimately show ?thesis using ends assms(3) by (simp add: parse_list_def Let_def)
qed

theorem settings_list_round_trip_witness:
  "parse_list (\<lambda>t. t) (join '','' [''a.example'', ''*.b.example'']) = Inr (JArr [JStr ''a.example'', JStr ''*.b.example''])"
  using settings_list_round_trip [of "[''a.example'', ''*.b.example'']" "\<lambda>t. t"]
  by (simp add: plain_entry_def py_space_def)

subsection \<open>The log\<close>

text \<open>
  The filter of the log does not see the arguments. Whatever is logged as an argument of a message reaches the log as it is,
  also when it has the shape of a credential: only the message before its arguments are put in is scrubbed.
\<close>

theorem log_arguments_not_scrubbed:
  "log_line (snd (redacting_filter \<lparr>lr_msg = Some ''upstream said %s'', lr_args = [s]\<rparr>)) = ''upstream said '' @ s"
proof -
  have "scrub_text [] ''upstream said %s'' = ''upstream said %s''" by code_simp
  then show ?thesis by (simp add: redacting_filter_def log_line_def)
qed

end
