(* ===== verification/Files.thy ===== *)
theory Files
  imports Registry Queries
begin

text \<open>
  What a process reads at its start: the patch files (\<open>load_builtin_patches\<close> of \<open>templates/derive.py\<close>), the template files of
  a new registry (\<open>templates/registry.py\<close>), and the policy row of a channel. The contents of the files, as the YAML library reads
  them, are arguments; a directory that is not there is \<open>None\<close>.
\<close>

subsection \<open>Patches\<close>

definition texts_of :: "json \<Rightarrow> string list res" where
  "texts_of v = (if \<not> truthy v then Inr [] else (case v of
      JArr xs \<Rightarrow> (case those (List.map (\<lambda>x. case x of JStr s \<Rightarrow> Some s | _ \<Rightarrow> None) xs) of Some ss \<Rightarrow> Inr ss | None \<Rightarrow> Inl (TypeError ''match''))
    | _ \<Rightarrow> Inl (TypeError ''match'')))"

definition item_field :: "jobj \<Rightarrow> string \<Rightarrow> json" where
  "item_field d k = (case dict_get d k of Some v \<Rightarrow> v | None \<Rightarrow> JNull)"

definition fields_of :: "json \<Rightarrow> jobj res" where
  "fields_of v = (if \<not> truthy v then Inr [] else (case v of JObj kvs \<Rightarrow> Inr kvs | _ \<Rightarrow> Inl (TypeError ''fields'')))"

text \<open>The \<open>reason\<close> of a patch is a comment and left out.\<close>

definition patch_of :: "json \<Rightarrow> platform_patch res" where
  "patch_of item = (case item of
      JObj d \<Rightarrow> (case dict_get d ''id'' of
          None \<Rightarrow> Inl (KeyError ''id'')
        | Some (JStr i) \<Rightarrow> bind_res (fields_of (item_field d ''fields'')) (\<lambda>fs.
            bind_res (texts_of (item_field d ''match_hosts'')) (\<lambda>hosts.
            bind_res (texts_of (item_field d ''match_aliases'')) (\<lambda>names.
              Inr \<lparr>pp_id = i, pp_fields = fs, pp_match_hosts = hosts, pp_match_aliases = names\<rparr>)))
        | Some v \<Rightarrow> Inl (TypeError ''id''))
    | _ \<Rightarrow> Inl (TypeError ''patch''))"

fun each_result :: "('a \<Rightarrow> 'b res) \<Rightarrow> 'a list \<Rightarrow> 'b list res" where
  "each_result f [] = Inr []"
| "each_result f (x # xs) = bind_res (f x) (\<lambda>y. bind_res (each_result f xs) (\<lambda>ys. Inr (y # ys)))"

definition file_patches :: "json \<Rightarrow> platform_patch list res" where
  "file_patches doc = (let raw = (if truthy doc then doc else JObj []) in (case raw of
      JObj d \<Rightarrow> (case dict_get d ''patches'' of
          None \<Rightarrow> Inr []
        | Some (JArr items) \<Rightarrow> each_result patch_of items
        | Some v \<Rightarrow> Inl (TypeError ''patches''))
    | _ \<Rightarrow> Inl (AttributeError ''get'')))"

definition load_builtin_patches :: "json list option \<Rightarrow> platform_patch list res" where
  "load_builtin_patches docs = (case docs of None \<Rightarrow> Inr []
     | Some ds \<Rightarrow> bind_res (each_result file_patches ds) (\<lambda>pss. Inr (List.concat pss)))"

subsection \<open>A new registry\<close>

text \<open>
  The documents of the template directories in order, the built-in one first when it is loaded; without the built-in templates
  nothing is read. The registry's own patches are those it is given, or those of the files.
\<close>

definition registry_patches :: "json list option \<Rightarrow> platform_patch list option \<Rightarrow> platform_patch list res" where
  "registry_patches patch_docs given_patches = (case given_patches of Some ps \<Rightarrow> Inr ps | None \<Rightarrow> load_builtin_patches patch_docs)"

definition new_registry :: "pylib \<Rightarrow> pydantic \<Rightarrow> settings \<Rightarrow> json list option \<Rightarrow> platform_patch list option \<Rightarrow> bool \<Rightarrow> jobj list option
    \<Rightarrow> jobj list option list \<Rightarrow> registry res" where
  "new_registry L P st patch_docs given_patches load_builtin builtin_docs extra_docs =
     bind_res (load_builtin_patches patch_docs) (\<lambda>builtin.
     bind_res (registry_patches patch_docs given_patches) (\<lambda>own.
       if load_builtin
       then reload_files L P st builtin own (List.concat (List.map (\<lambda>ds. case ds of None \<Rightarrow> [] | Some raws \<Rightarrow> raws) (builtin_docs # extra_docs))) []
       else Inr []))"

subsection \<open>Policy rows\<close>

record channel_policy_row =
  cr_channel :: string
  cr_namespace :: string
  cr_policy :: "jobj option"
  cr_canary :: "jobj option"
  cr_url_direct_enabled :: bool
  cr_enabled :: bool
  cr_created_at :: time
  cr_updated_at :: time

definition get_channel_policy :: "string \<Rightarrow> channel_policy_row list \<Rightarrow> channel_policy_row option" where
  "get_channel_policy chan rows = find (\<lambda>r. cr_channel r = chan) rows"

subsection \<open>Facts\<close>

lemma each_result_Inr: "each_result f xs = Inr ys \<Longrightarrow> List.length ys = List.length xs \<and> (\<forall>i < List.length xs. f (xs ! i) = Inr (ys ! i))"
proof (induction xs arbitrary: ys)
  case (Cons x xs)
  from Cons.prems obtain y zs where "f x = Inr y" "each_result f xs = Inr zs" "ys = y # zs" by (auto simp: bind_res_Inr_iff)
  then show ?case using Cons.IH [of zs] by (auto simp: less_Suc_eq_0_disj)
qed simp

lemma no_patch_files: "load_builtin_patches None = Inr [] \<and> load_builtin_patches (Some [JNull]) = Inr []"
  by (simp add: load_builtin_patches_def file_patches_def)

text \<open>A registry from the template files of one directory.\<close>

lemma new_registry_one_dir:
  "new_registry L P st None (Some own) True (Some raws) [] = reload_files L P st [] own raws []"
  by (simp add: new_registry_def registry_patches_def load_builtin_patches_def)

end
