(* ===== verification/FileFacts.thy ===== *)
theory FileFacts
  imports Files RegistryFacts
begin

text \<open>
  Template files and requests do not pass the same door: a template that a registration at run time refuses is served when it
  lies in the template directory.
\<close>

definition leaking_template :: jobj where
  "leaking_template = raw_template @ [(''extra_headers'', JObj [(''Authorization'', JStr ''Bearer x'')])]"

lemma leaking_template_report:
  "(case validate_raw three_lib plain_pydantic default_settings [] leaking_template of
      Inl e \<Rightarrow> None | Inr rep \<Rightarrow> map_option (\<lambda>t. (rt_alias t, report_ok rep)) (vr_resolved rep)) = Some (''video'', False)"
  by code_simp

text \<open>
  Template files are not held to the validation. A template that the registration at run time refuses for its errors, such as a
  credential among its headers, is registered, enabled and served when it is read from a file at the start of the process.
\<close>

theorem template_files_unvalidated:
  assumes "validate_raw L P st [] raw = Inr rep" and "\<not> report_ok rep" and "vr_resolved rep = Some t"
  shows "register L P st [] own None True True raw [] = Inr ([], None, rep)
    \<and> (\<exists>reg tv. new_registry L P st None (Some own) True (Some [raw]) [] = Inr reg
         \<and> registry_get reg (rt_alias t) None = Some tv \<and> tv_resolved tv = t \<and> tv_enabled tv)"
  using assms
  by (auto simp: new_registry_one_dir register_def reported_or_resolved_def Let_def registry_get_def versions_of_def put_version_def
      new_version_def sort_key_def)

theorem template_files_unvalidated_witness:
  "\<exists>reg tv. new_registry three_lib plain_pydantic default_settings None (Some []) True (Some [leaking_template]) [] = Inr reg
     \<and> registry_get reg ''video'' None = Some tv"
proof -
  obtain rep t where "validate_raw three_lib plain_pydantic default_settings [] leaking_template = Inr rep" "\<not> report_ok rep"
      "vr_resolved rep = Some t" "rt_alias t = ''video''"
    using leaking_template_report by (auto split: sum.splits)
  with template_files_unvalidated [OF this(1-3), of "[]"] show ?thesis by auto
qed

end
