(* ===== verification/DispatchFacts.thy ===== *)
theory DispatchFacts
  imports MaintenanceFacts
begin

text \<open>
  That the passes of the scheduler get around to every row: with a bus that accepts, a pass puts one message on it for each row it
  read, and a row nobody has touched since is read again once its lease is over. So a message that gets lost - the broker is
  not the place where tasks are kept - is sent anew.
\<close>

definition accepting :: refusals where
  "accepting k = None"

text \<open>The message a row is dispatched with.\<close>

definition message_for :: "registry \<Rightarrow> task \<Rightarrow> string \<times> string \<times> jobj" where
  "message_for reg t = (case target_queue_and_name reg t of Some (q, n) \<Rightarrow> (q, n, task_message t) | None \<Rightarrow> ([], [], []))"

definition leased :: "time \<Rightarrow> secs \<Rightarrow> task \<Rightarrow> task" where
  "leased now lease t = t\<lparr>row_version := row_version t + 1, updated_at := now, next_poll_at := Some (now + max 1 lease)\<rparr>"

lemma dispatch_task_done:
  assumes "dispatchable now t" and "get_task (task_id t) (tk_table s) = Some t"
  shows "\<exists>s'. dispatch_task reg accepting lease now t s = (None, s') \<and> tk_sent s' = tk_sent s @ [message_for reg t]
    \<and> get_task (task_id t) (tk_table s') = Some (leased now lease t)"
proof -
  obtain q n where q: "target_queue_and_name reg t = Some (q, n)" using dispatchable_target [OF assms(1), of reg] by auto
  let ?x = "\<lambda>t. case next_poll_at t of None \<Rightarrow> False | Some np \<Rightarrow> np \<le> now"
  have x: "?x t" using assms(1) by (simp add: dispatchable_def due_def)
  have hit: "fst (lease_dispatch now (task_id t) lease [status t] (tk_table s))"
    unfolding lease_dispatch_def cas_hit_iff using x get_task_in [OF assms(2)] by (intro bexI [of _ t]) auto
  have row: "get_task (task_id t) (snd (lease_dispatch now (task_id t) lease [status t] (tk_table s))) = Some (leased now lease t)"
    using cas_get [OF assms(2), of "[status t]" ?x] x by (simp add: lease_dispatch_def assign_all_def leased_def)
  obtain tbl where w: "exec_write now (W_lease_dispatch (task_id t) lease [status t]) (tk_table s) = (Inr True, tbl)"
    "get_task (task_id t) tbl = Some (leased now lease t)"
    using hit row by (simp add: ok_def case_prod_beta)
  then show ?thesis
    by (simp add: dispatch_task_def q when_moved_def then_do_def bus_send_def accepting_def finish_def did_def message_for_def del: exec_write.simps)
qed

lemma each_all:
  assumes "\<And>x s. x \<in> set xs \<Longrightarrow> get_task (k x) (tk_table s) = row x \<Longrightarrow>
      \<exists>s'. f x s = (None, s') \<and> tk_sent s' = tk_sent s @ [m x]"
    and "\<And>x s tid. x \<in> set xs \<Longrightarrow> tid \<noteq> k x \<Longrightarrow> get_task tid (tk_table (snd (f x s))) = get_task tid (tk_table s)"
    and "distinct (List.map k xs)" and "\<And>x. x \<in> set xs \<Longrightarrow> get_task (k x) (tk_table s) = row x"
  shows "\<exists>s'. each f xs s = (None, s') \<and> tk_sent s' = tk_sent s @ List.map m xs"
  using assms
proof (induction xs arbitrary: s)
  case (Cons x xs)
  obtain s' where s': "f x s = (None, s')" "tk_sent s' = tk_sent s @ [m x]"
    using Cons.prems(1) [of x s] Cons.prems(4) [of x] by auto
  have "get_task (k y) (tk_table s') = row y" if "y \<in> set xs" for y
  proof -
    have "k y \<noteq> k x" using Cons.prems(3) that by (metis distinct.simps(2) image_eqI list.set_map list.simps(9))
    then show ?thesis using Cons.prems(2) [of x "k y" s] Cons.prems(4) [of y] that s' by simp
  qed
  with Cons.IH [of s'] Cons.prems obtain s'' where "each f xs s' = (None, s'')" "tk_sent s'' = tk_sent s' @ List.map m xs" by auto
  then show ?case using s' by simp
qed simp

lemma distinct_due: "ids_ok tbl \<Longrightarrow> distinct (List.map task_id (due_for_dispatch batch now tbl))"
  unfolding due_for_dispatch_def take_map [symmetric] by_next_poll_def
  by (intro distinct_take) (simp add: distinct_map inj_on_def)

lemma dispatch_due_all:
  assumes "ids_ok (tk_table s)"
  shows "\<exists>s'. dispatch_due reg accepting batch lease now s = (None, s')
    \<and> newly_sent s s' = List.map (message_for reg) (due_for_dispatch batch now (tk_table s))"
proof -
  let ?rows = "due_for_dispatch batch now (tk_table s)"
  have "\<exists>s'. each (dispatch_task reg accepting lease now) ?rows s = (None, s') \<and> tk_sent s' = tk_sent s @ List.map (message_for reg) ?rows"
  proof (rule each_all [where k = task_id and row = Some])
    fix x and u :: tick
    assume x: "x \<in> set ?rows" and g: "get_task (task_id x) (tk_table u) = Some x"
    show "\<exists>u'. dispatch_task reg accepting lease now x u = (None, u') \<and> tk_sent u' = tk_sent u @ [message_for reg x]"
      using dispatch_task_done [OF conjunct2 [OF due_in_table [OF x]] g, of reg lease] by blast
  next
    fix x assume "x \<in> set ?rows"
    then show "get_task (task_id x) (tk_table s) = Some x" using due_in_table get_task_unique assms by blast
  qed (use dispatch_task_frame distinct_due [OF assms] in auto)
  then show ?thesis by (auto simp: dispatch_due_def transaction_def newly_sent_def)
qed

lemma dispatch_due_rows:
  assumes "ids_ok (tk_table s)" and "dispatch_due reg accepting batch lease now s = (None, s')"
    and "t \<in> set (due_for_dispatch batch now (tk_table s))"
  shows "get_task (task_id t) (tk_table s') = Some (leased now lease t)"
proof -
  let ?rows = "due_for_dispatch batch now (tk_table s)"
  have s': "each (dispatch_task reg accepting lease now) ?rows s = (None, s')"
    using assms(2) by (auto simp: dispatch_due_def transaction_def split: prod.splits option.splits)
  have own: "get_task (task_id x) (tk_table (snd (dispatch_task reg accepting lease now x u))) = Some (leased now lease x)"
    if "x \<in> set ?rows" "get_task (task_id x) (tk_table u) = Some x" for x u
    using dispatch_task_done [OF conjunct2 [OF due_in_table [OF that(1)]] that(2), of reg lease] by auto
  have "\<forall>x \<in> set ?rows. get_task (task_id x) (tk_table (snd (each (dispatch_task reg accepting lease now) ?rows s))) = Some (leased now lease x)"
    by (intro conjunct1 [OF each_rows [where row = Some and post = "\<lambda>x r. r = Some (leased now lease x)"]])
      (use due_in_table get_task_unique assms(1) s' distinct_due own dispatch_task_frame in auto)
  then show ?thesis using assms(3) s' by simp
qed

lemma all_due: "length tbl \<le> batch \<Longrightarrow> set (due_for_dispatch batch now tbl) = {t \<in> set tbl. dispatchable now t}"
proof -
  assume "length tbl \<le> batch"
  then have "length (by_next_poll (filter (dispatchable now) tbl)) \<le> batch"
    using order_trans [OF length_filter_le [of "dispatchable now" tbl]] by (simp add: by_next_poll_def)
  then show ?thesis by (simp add: due_for_dispatch_def by_next_poll_def)
qed

lemma leased_again: "dispatchable now t \<Longrightarrow> now + max 1 lease \<le> later \<Longrightarrow> dispatchable later (leased now lease t)"
  by (simp add: dispatchable_def leased_def due_def)

lemma message_for_leased [simp]: "message_for reg (leased now lease t) = message_for reg t"
proof -
  have "target_queue_and_name reg (leased now lease t) = target_queue_and_name reg t"
    by (simp add: target_queue_and_name_def leased_def cong: option.case_cong if_cong)
  moreover have "task_message (leased now lease t) = task_message t" by (simp add: task_message_def leased_def)
  ultimately show ?thesis by (simp only: message_for_def)
qed

subsection \<open>Properties\<close>

text \<open>
  C11: No task is lost with its message. A pass of the scheduler over a bus that accepts commits and puts the message of every row it
  read on the bus; and if nothing has come of the message of such a row - nobody has changed the table - then every later pass
  from the end of the lease on that has room for all rows puts it there again.
\<close>

theorem lost_message_sent_again:
  assumes "ids_ok (tk_table s)" and "t \<in> set (due_for_dispatch batch now (tk_table s))"
    and "tk_table u = tk_table (snd (dispatch_due reg accepting batch lease now s))"
    and "now + max 1 lease \<le> later" and "length (tk_table s) \<le> batch'"
  shows "fst (dispatch_due reg accepting batch lease now s) = None
    \<and> message_for reg t \<in> set (newly_sent s (snd (dispatch_due reg accepting batch lease now s)))
    \<and> fst (dispatch_due reg accepting batch' lease' later u) = None
    \<and> message_for reg t \<in> set (newly_sent u (snd (dispatch_due reg accepting batch' lease' later u)))"
proof -
  obtain s' where s': "dispatch_due reg accepting batch lease now s = (None, s')"
    "newly_sent s s' = List.map (message_for reg) (due_for_dispatch batch now (tk_table s))"
    using dispatch_due_all [OF assms(1)] by blast
  have ids: "List.map task_id (tk_table s') = List.map task_id (tk_table s)" by (rule dispatch_due_ids [OF s'(1)])
  have u: "tk_table u = tk_table s'" using assms(3) s'(1) by simp
  then have "ids_ok (tk_table u)" using ids assms(1) by simp
  then obtain u' where u': "dispatch_due reg accepting batch' lease' later u = (None, u')"
    "newly_sent u u' = List.map (message_for reg) (due_for_dispatch batch' later (tk_table u))"
    using dispatch_due_all by blast
  have "leased now lease t \<in> set (tk_table u)" using dispatch_due_rows [OF assms(1) s'(1) assms(2)] get_task_in u by metis
  moreover have "dispatchable later (leased now lease t)" using due_in_table [OF assms(2)] leased_again assms(4) by blast
  moreover have "length (tk_table u) = length (tk_table s)" using ids u by (metis length_map)
  ultimately have "leased now lease t \<in> set (due_for_dispatch batch' later (tk_table u))"
    using all_due [of "tk_table u" batch' later] assms(5) by simp
  then have "message_for reg (leased now lease t) \<in> set (newly_sent u u')" unfolding u'(2) by (simp del: message_for_leased)
  then show ?thesis using s' u' assms(2) by simp
qed

theorem lost_message_sent_again_witness:
  "message_for [] failed_task \<in> set (newly_sent (start_tick (tk_table first_pass) [])
       (snd (dispatch_due [] accepting 2 5 2005 (start_tick (tk_table first_pass) []))))
   \<and> message_for [] failed_task = (''submit:default'', ''submit_upstream'', [(''task_id'', JStr ''a'')])"
proof -
  have "accepting = (\<lambda>_. None)" by (rule ext) (simp add: accepting_def)
  then have "tk_table first_pass = tk_table (snd (dispatch_due [] accepting 1 5 2000 (start_tick [failed_task, polled_task] [])))"
    by (simp add: first_pass_def)
  moreover have "failed_task \<in> set (due_for_dispatch 1 2000 (tk_table (start_tick [failed_task, polled_task] [])))" by code_simp
  moreover have "ids_ok (tk_table (start_tick [failed_task, polled_task] []))" by (simp add: sample_pass)
  ultimately show ?thesis
    using lost_message_sent_again [of "start_tick [failed_task, polled_task] []" failed_task 1 2000
        "start_tick (tk_table first_pass) []" "[]" 5 2005 2 5]
    by (simp add: start_tick_def) (simp add: message_for_def target_queue_and_name_def sample_pass ACCEPTED_RESUBMIT_HANDLER_def task_message_def)
qed

subsection \<open>The smoke script\<close>

text \<open>\<open>scripts/smoke_workers.py\<close>: the row it inserts, and its first check, the message of that row on the bus after a pass.\<close>

definition smoke_row :: "time \<Rightarrow> string \<Rightarrow> task" where
  "smoke_row now tid = (new_task tid ''k-smoke'' 1 ''echo'' ''echo'' now)\<lparr>tenant := ''t'', task_type := ''echo'', status := IN_PROGRESS,
     upstream_task_id := Some ''up-smoke'', attempts := 1, next_poll_at := Some (now - 5)\<rparr>"

definition smoke_depth :: "registry \<Rightarrow> nat \<Rightarrow> secs \<Rightarrow> time \<Rightarrow> string \<Rightarrow> table \<Rightarrow> nat" where
  "smoke_depth reg batch lease now tid tbl = (let s = start_tick (tbl @ [smoke_row now tid]) [] in
     length (filter (\<lambda>m. fst m = ''poll:light-poll'') (tk_sent (snd (dispatch_due reg accepting batch lease now s)))))"

lemma smoke_check:
  assumes "ids_ok (tbl @ [smoke_row now tid])" and "length tbl < batch"
    and "registry_get reg ''echo'' (Some 1) = None \<or> (\<exists>tv. registry_get reg ''echo'' (Some 1) = Some tv \<and> rt_pool (tv_resolved tv) = ''shared'')"
  shows "1 \<le> smoke_depth reg batch lease now tid tbl"
proof -
  let ?s = "start_tick (tbl @ [smoke_row now tid]) []"
  obtain s' where s': "dispatch_due reg accepting batch lease now ?s = (None, s')"
    "newly_sent ?s s' = List.map (message_for reg) (due_for_dispatch batch now (tk_table ?s))"
    using dispatch_due_all [of ?s reg batch lease now] assms(1) by (auto simp: start_tick_def)
  have "dispatchable now (smoke_row now tid)" by (simp add: dispatchable_def smoke_row_def new_task_def due_def)
  then have "smoke_row now tid \<in> set (due_for_dispatch batch now (tk_table ?s))"
    using all_due [of "tk_table ?s" batch now] assms(2) by (simp add: start_tick_def)
  moreover have "message_for reg (smoke_row now tid) = (''poll:light-poll'', ''poll_upstream'', task_message (smoke_row now tid))"
    using assms(3) by (auto simp: message_for_def target_queue_and_name_def smoke_row_def new_task_def poll_queue_def pool_of_def DEFAULT_POOL_def)
  ultimately have "(''poll:light-poll'', ''poll_upstream'', task_message (smoke_row now tid)) \<in> set (tk_sent s')"
    using s'(2) by (force simp: newly_sent_def start_tick_def)
  then show ?thesis
    using s'(1) by (simp add: smoke_depth_def Let_def Suc_le_eq filter_empty_conv) (metis fst_conv)
qed

end
