(* ===== verification/UpstreamFacts.thy ===== *)
theory UpstreamFacts
  imports HandlerFacts
begin

text \<open>
  What the answer of an upstream does to the program that asked: the handlers of \<open>Handlers\<close> together with the checks of
  \<open>Urls\<close>, \<open>Ssrf\<close> and \<open>Client\<close>. Two kinds of answers end a handler in an exception before it has written anything: the url
  of a result whose port is no port, and a delay that leads out of the calendar.
\<close>

subsection \<open>A result url whose port is no port\<close>

text \<open>The url is refused by an exception of its own class, which is not the one the fetch turns into a result.\<close>

lemma fetch_raises:
  assumes "parse_url url = Inl (ValueError m)"
  shows "fetch_result R http c url bearer = (c, Inl (ValueError m))"
  using assms by (simp add: fetch_result_def validate_target_def)

lemma bad_port_parses: "parse_url ''https://files.example:99999/out.mp4'' = Inl (ValueError [])"
  by code_simp

definition wrote_nothing :: "outcome_of_run \<Rightarrow> bool" where
  "wrote_nothing r \<longleftrightarrow> list_all (\<lambda>e. case e of Wrote _ _ \<Rightarrow> False | Sent _ _ _ \<Rightarrow> False | Inserted _ \<Rightarrow> False | _ \<Rightarrow> True) (ro_events r)"

text \<open>A task whose result waits to be stored: the conditions \<open>store_result\<close> checks, and the url it takes.\<close>

definition awaits_transfer :: "henv \<Rightarrow> jobj \<Rightarrow> task \<Rightarrow> string \<Rightarrow> bool" where
  "awaits_transfer E payload t url \<longleftrightarrow>
     status t = SUCCEEDED \<and> result_ref t = None \<and> he_result_store E
     \<and> (\<exists>tpl strat attempt. task_template E t = Inr (tpl, strat) \<and> rp_mode (rt_result_policy tpl) = RM_STORE
        \<and> payload_attempt (he_lib E) payload = Inr attempt
        \<and> try_extract (he_late E) (or_empty (status_snapshot t)) (rt_result_location tpl) = Inr (Some (JStr url)))"

lemma run_store_result:
  assumes "ctx_task_id payload = Inr tid" and "get_task tid tbl = Some t" and "awaits_transfer E payload t url"
    and "\<forall>k. o_fetch ora k url = Inl e"
  shows "run (store_result E payload) ora n tbl = \<lparr>ro_exn = Some e, ro_table = tbl, ro_events = [Fetched url]\<rparr>"
  using assms by (auto simp: store_result_def require_def awaits_transfer_def emit_def)

subsection \<open>A delay out of the calendar\<close>

lemma plus_seconds_late: "END_OF_TIME \<le> d \<Longrightarrow> 0 \<le> n \<Longrightarrow> plus_seconds n d = Inl OverflowError"
  by (simp add: plus_seconds_def)

lemma run_release_late:
  assumes "END_OF_TIME \<le> d" and "\<forall>k. 0 \<le> o_time ora k"
  shows "ro_exn (run (release_for_upstream_wait E t ex d code m dec Done) ora n tbl) \<noteq> None
    \<and> ro_table (run (release_for_upstream_wait E t ex d code m dec Done) ora n tbl) = tbl
    \<and> ro_events (run (release_for_upstream_wait E t ex d code m dec Done) ora n tbl) = []"
  using assms by (simp add: release_for_upstream_wait_def require_def ask_now_def plus_seconds_late split: sum.split)

lemma run_rate_limited_late:
  assumes "cr_class r = Some c" and "cl_error_class c = CLS_RATE_LIMITED" and "cr_outcome r = O_HTTP_ERROR"
    and "cr_retry_after r = Some d" and "END_OF_TIME \<le> d" and "\<forall>k. 0 \<le> o_time ora k"
  shows "ro_exn (run (handle_submit_result E t tpl strat r) ora n tbl) \<noteq> None
    \<and> ro_table (run (handle_submit_result E t tpl strat r) ora n tbl) = tbl
    \<and> wrote_nothing (run (handle_submit_result E t tpl strat r) ora n tbl)"
proof -
  have "num_or (Some d) x = d" for x using assms(5) by (simp add: num_or_def END_OF_TIME_def)
  then show ?thesis
    using assms run_release_late [OF assms(5,6)]
    by (simp add: handle_submit_result_def cr_ok_def submit_rate_limited_def wrote_nothing_def)
qed

lemma run_apply_write:
  "exec_write (o_time ora n) w tbl = (Inr b, tbl') \<Longrightarrow>
     run (apply_write w k) ora n tbl = emit (Wrote w (Inr b)) (run (k b) ora (Suc n) tbl')"
  by (simp add: apply_write_def)

text \<open>The upstream answers every create with 429 and such a delay; the body is there and the request can be rendered.\<close>

definition endless_delay :: "henv \<Rightarrow> answers \<Rightarrow> bool" where
  "endless_delay E ora \<longleftrightarrow> (\<forall>k. 0 \<le> o_time ora k) \<and> (\<forall>k q. \<exists>now target up.
     o_http ora k q = Inr (call_result_of_response (he_lib E) now CTX_SUBMIT target up) \<and> ur_status_code up = 429
     \<and> END_OF_TIME \<le> extract_retry_after (he_lib E) now (ur_headers up) 1)"

lemma run_endless_delay:
  assumes "endless_delay E ora"
  shows "ro_exn (run (require (o_http ora k q) (handle_submit_result E t tpl strat)) ora n tbl) \<noteq> None
    \<and> ro_table (run (require (o_http ora k q) (handle_submit_result E t tpl strat)) ora n tbl) = tbl"
proof -
  obtain now target up where up: "o_http ora k q = Inr (call_result_of_response (he_lib E) now CTX_SUBMIT target up)"
    "ur_status_code up = 429" "END_OF_TIME \<le> extract_retry_after (he_lib E) now (ur_headers up) 1"
    using assms unfolding endless_delay_def by blast
  let ?r = "call_result_of_response (he_lib E) now CTX_SUBMIT target up"
  have "cr_class ?r = Some (classify_status 429 CTX_SUBMIT)" "cr_outcome ?r = O_HTTP_ERROR"
    "cr_retry_after ?r = Some (extract_retry_after (he_lib E) now (ur_headers up) 1)"
    using up(2) by (simp_all add: response_fields ur_ok_def)
  moreover have "cl_error_class (classify_status 429 CTX_SUBMIT) = CLS_RATE_LIMITED" by (simp add: classify_status_def)
  ultimately show ?thesis
    using run_rate_limited_late [of ?r _ _ ora] up assms by (simp add: require_def endless_delay_def)
qed

lemma run_load_body:
  assumes "\<forall>k ref. \<exists>b. o_body ora k ref = Inr b"
  obtains b j where "run (load_create_body t k) ora n tbl = run (k (Inr b)) ora j tbl"
proof (cases "create_req_ref t")
  case (Some r)
  then show ?thesis using assms that by (cases r) (auto simp: load_create_body_def, metis)
qed (use that in \<open>auto simp: load_create_body_def\<close>)

subsection \<open>An instance\<close>

definition hostile_url :: string where
  "hostile_url = ''https://files.example:99999/out.mp4''"

definition store_env :: henv where
  "store_env = sample_env\<lparr>he_result_store := True, he_lib := sample_lib\<lparr>lib_float := (\<lambda>_. Some (10 ^ 12))\<rparr>\<rparr>"

definition finished_task :: task where
  "finished_task = (sample_task ''a'' SUCCEEDED)\<lparr>status_snapshot := Some (JObj [(''url'', JStr hostile_url)])\<rparr>"

definition busy_response :: upstream_response where
  "busy_response = \<lparr>ur_status_code = 429, ur_headers = [(''Retry-After'', ''1e12'')], ur_json_body = None, ur_text = [], ur_raw_json_body = None\<rparr>"

definition hostile_answers :: answers where
  "hostile_answers = \<lparr>o_time = (\<lambda>_. 1000), o_ask = (\<lambda>_ _. 0), o_cred = (\<lambda>_ _. None), o_body = (\<lambda>_ _. Inr []),
     o_slot = (\<lambda>_. slot_granted), o_http = (\<lambda>_ _. Inr (call_result_of_response (he_lib store_env) 1000 CTX_SUBMIT sample_target busy_response)),
     o_fetch = (\<lambda>_ u. snd (fetch_result sample_resolver (\<lambda>_ _ _. HttpFails ReadTimeout []) sample_client u None)), o_bus = (\<lambda>_. None),
     o_draw = (\<lambda>_. ''0123''), o_stored = (\<lambda>_ _. None), o_admit = (\<lambda>_ _. slot_granted), o_depth = (\<lambda>_ _. 0),
     o_presign = (\<lambda>_ _. None), o_event = (\<lambda>_ _. True)\<rparr>"

lemma url_path: "compile_expression ''$.url'' = Inr [Key ''url'']"
  by code_simp

lemma hostile_url_short: "utf8_length (dumps False False (JStr hostile_url)) < 99"
  by code_simp

lemma finished_awaits_transfer: "awaits_transfer store_env [(''task_id'', JStr ''a'')] finished_task hostile_url"
proof -
  have tpl: "registry_require [(''tpl'', [sample_version])] ''tpl'' (Some 1) = Inr sample_version"
    by (simp add: registry_require_def registry_get_def versions_of_def sample_version_def)
  have "try_extract (\<lambda>_. False) (or_empty (status_snapshot finished_task)) (rt_result_location sample_template) = Inr (Some (JStr hostile_url))"
    using hostile_url_short
    by (simp add: finished_task_def or_empty_def try_extract_def extract_value_def extract_path_def url_path sample_template_def MAX_RESULT_BYTES_def)
  then show ?thesis
    using tpl by (simp add: awaits_transfer_def store_env_def finished_task_def sample_task_def new_task_def sample_env_def task_template_def
      sample_version_def payload_attempt_def sample_template_def default_result_policy_def)
qed

lemma sample_create_rendered: "\<exists>q. render_create sample_template b (callback_url_for store_env t sample_template) = Inr q"
proof -
  have "join_url ''https://up.example'' ''/v1/tasks'' = Inr ''https://up.example/v1/tasks''"
    by code_simp
  then show ?thesis
    by (auto simp: render_create_def callback_url_for_def sample_template_def default_capabilities_def bind_res_Inr_iff)
qed

lemma hostile_delay: "endless_delay store_env hostile_answers"
proof -
  have "END_OF_TIME \<le> extract_retry_after (he_lib store_env) 1000 (ur_headers busy_response) 1"
    by (simp add: extract_retry_after_def busy_response_def store_env_def sample_lib_def END_OF_TIME_def header_or_def Let_def)
  then show ?thesis
    by (auto simp: endless_delay_def hostile_answers_def busy_response_def intro!: exI [of _ 1000] exI [of _ sample_target])
qed

subsection \<open>Properties\<close>

text \<open>
  C16: A result url whose port is no port is never settled. Each time the task is taken up for its transfer the fetch raises, whatever
  the resolver and the HTTP client do: the handler ends in the exception with the table as it was and nothing written or sent -
  no reference, no note that the result is unavailable, no retry that counts.
\<close>

theorem bad_result_url_never_settles:
  assumes "ctx_task_id payload = Inr tid" and "get_task tid tbl = Some t" and "awaits_transfer E payload t url"
    and "parse_url url = Inl (ValueError m)"
    and "\<forall>k u. \<exists>R http c. o_fetch ora k u = snd (fetch_result R http c u None)"
  shows "ro_exn (run (store_result E payload) ora n tbl) = Some (ValueError m)
    \<and> ro_table (run (store_result E payload) ora n tbl) = tbl \<and> wrote_nothing (run (store_result E payload) ora n tbl)"
proof -
  have "\<forall>k. o_fetch ora k url = Inl (ValueError m)" using assms(5) fetch_raises [OF assms(4)] by (metis snd_conv)
  then show ?thesis using run_store_result [OF assms(1-3)] by (simp add: wrote_nothing_def)
qed

theorem bad_result_url_never_settles_witness:
  "ro_exn (run (store_result store_env [(''task_id'', JStr ''a'')]) hostile_answers 0 [finished_task]) = Some (ValueError [])"
proof -
  have "ctx_task_id [(''task_id'', JStr ''a'')] = Inr ''a''" by code_simp
  moreover have "get_task ''a'' [finished_task] = Some finished_task"
    by (simp add: get_task_def finished_task_def sample_task_def new_task_def)
  moreover have "parse_url hostile_url = Inl (ValueError [])" using bad_port_parses by (simp add: hostile_url_def)
  moreover have "\<forall>k u. \<exists>R http c. o_fetch hostile_answers k u = snd (fetch_result R http c u None)"
    by (auto simp: hostile_answers_def)
  ultimately show ?thesis
    using bad_result_url_never_settles finished_awaits_transfer by blast
qed



end
