(* ===== verification/Process.thy ===== *)
theory Process
  imports Wiring
begin

text \<open>
  What a process keeps open and how the gateway starts, answers its probes and stops: the engine and the session factory of
  \<open>db/base.py\<close>, the Redis client of \<open>infra/redis.py\<close>, and \<open>gateway/app.py\<close>. The three globals are a record that is passed
  along; SQLAlchemy and the Redis library are parameters (\<open>backends\<close>), each call of which may raise.
\<close>

record db_settings =
  database_url :: string
  db_echo :: bool
  db_pool_size :: int
  db_max_overflow :: int

text \<open>The objects are numbered as they are made.\<close>

record engine =
  en_serial :: nat
  en_url :: string
  en_options :: engine_options
  en_pragmas :: "string list"

record redis_client =
  rc_serial :: nat
  rc_url :: string

record process =
  pr_engine :: "engine option"
  pr_sessionmaker :: "engine option"
  pr_client :: "redis_client option"
  pr_made :: nat
  pr_open :: "nat list"

definition new_process :: process where
  "new_process = \<lparr>pr_engine = None, pr_sessionmaker = None, pr_client = None, pr_made = 0, pr_open = []\<rparr>"

record backends =
  be_create_engine :: "string \<Rightarrow> exn option"
  be_create_all :: "engine \<Rightarrow> exn option"
  be_select :: "engine \<Rightarrow> exn option"
  be_dispose :: "engine \<Rightarrow> exn option"
  be_from_url :: "string \<Rightarrow> exn option"
  be_ping :: "redis_client \<Rightarrow> bool res"
  be_aclose :: "redis_client \<Rightarrow> exn option"

type_synonym 'a action = "process \<Rightarrow> 'a res \<times> process"

definition bind_action :: "'a action \<Rightarrow> ('a \<Rightarrow> 'b action) \<Rightarrow> 'b action" where
  "bind_action m f p = (case m p of (Inl e, p') \<Rightarrow> (Inl e, p') | (Inr x, p') \<Rightarrow> f x p')"

definition call_backend :: "exn option \<Rightarrow> unit action" where
  "call_backend fault p = (case fault of Some e \<Rightarrow> Inl e | None \<Rightarrow> Inr (), p)"

subsection \<open>The engine\<close>

definition SQLITE_PRAGMAS :: "string list" where
  "SQLITE_PRAGMAS = [''PRAGMA journal_mode=WAL'', ''PRAGMA foreign_keys=ON'', ''PRAGMA busy_timeout=5000'']"

definition engine_for :: "db_settings \<Rightarrow> nat \<Rightarrow> engine" where
  "engine_for d n = \<lparr>en_serial = n, en_url = database_url d,
     en_options = engine_options_for (database_url d) (db_echo d) (db_pool_size d) (db_max_overflow d),
     en_pragmas = (if is_sqlite (database_url d) then SQLITE_PRAGMAS else [])\<rparr>"

definition get_engine :: "backends \<Rightarrow> db_settings \<Rightarrow> engine action" where
  "get_engine B d p = (case pr_engine p of
      Some e \<Rightarrow> (Inr e, p)
    | None \<Rightarrow> (case be_create_engine B (database_url d) of
        Some x \<Rightarrow> (Inl x, p)
      | None \<Rightarrow> (let e = engine_for d (pr_made p) in
          (Inr e, p\<lparr>pr_engine := Some e, pr_made := pr_made p + 1, pr_open := pr_made p # pr_open p\<rparr>))))"

definition get_sessionmaker :: "backends \<Rightarrow> db_settings \<Rightarrow> engine action" where
  "get_sessionmaker B d p = (case pr_sessionmaker p of
      Some e \<Rightarrow> (Inr e, p)
    | None \<Rightarrow> bind_action (get_engine B d) (\<lambda>e p. (Inr e, p\<lparr>pr_sessionmaker := Some e\<rparr>)) p)"

definition init_schema :: "backends \<Rightarrow> db_settings \<Rightarrow> unit action" where
  "init_schema B d = bind_action (get_engine B d) (\<lambda>e. call_backend (be_create_all B e))"

definition dispose_engine :: "backends \<Rightarrow> unit action" where
  "dispose_engine B p = (case pr_engine p of
      Some e \<Rightarrow> (case be_dispose B e of
          Some x \<Rightarrow> (Inl x, p)
        | None \<Rightarrow> (Inr (), p\<lparr>pr_engine := None, pr_sessionmaker := None, pr_open := removeAll (en_serial e) (pr_open p)\<rparr>))
    | None \<Rightarrow> (Inr (), p\<lparr>pr_engine := None, pr_sessionmaker := None\<rparr>))"

text \<open>\<open>healthy\<close>: a session that runs one statement; whatever it raises is caught.\<close>

definition db_healthy :: "backends \<Rightarrow> db_settings \<Rightarrow> process \<Rightarrow> bool \<times> process" where
  "db_healthy B d p = (case bind_action (get_sessionmaker B d) (\<lambda>e. call_backend (be_select B e)) p of
      (Inl _, p') \<Rightarrow> (False, p')
    | (Inr _, p') \<Rightarrow> (True, p'))"

subsection \<open>The Redis client\<close>

definition get_redis :: "backends \<Rightarrow> settings \<Rightarrow> redis_client action" where
  "get_redis B st p = (case pr_client p of
      Some c \<Rightarrow> (Inr c, p)
    | None \<Rightarrow> (case be_from_url B (redis_url st) of
        Some x \<Rightarrow> (Inl x, p)
      | None \<Rightarrow> (let c = \<lparr>rc_serial = pr_made p, rc_url = redis_url st\<rparr> in
          (Inr c, p\<lparr>pr_client := Some c, pr_made := pr_made p + 1, pr_open := pr_made p # pr_open p\<rparr>))))"

definition close_redis :: "backends \<Rightarrow> unit action" where
  "close_redis B p = (case pr_client p of
      None \<Rightarrow> (Inr (), p)
    | Some c \<Rightarrow> (case be_aclose B c of
        Some x \<Rightarrow> (Inl x, p)
      | None \<Rightarrow> (Inr (), p\<lparr>pr_client := None, pr_open := removeAll (rc_serial c) (pr_open p)\<rparr>)))"

definition redis_ping :: "backends \<Rightarrow> settings \<Rightarrow> process \<Rightarrow> bool \<times> process" where
  "redis_ping B st p = (case bind_action (get_redis B st) (\<lambda>c p. (be_ping B c, p)) p of
      (Inl _, p') \<Rightarrow> (False, p')
    | (Inr b, p') \<Rightarrow> (b, p'))"

definition set_client :: "redis_client option \<Rightarrow> process \<Rightarrow> process" where
  "set_client c p = p\<lparr>pr_client := c\<rparr>"

subsection \<open>The gateway\<close>

text \<open>
  \<open>lifespan\<close>: the tables of a local database are made, the queues are made as far as they can be, and at the end
  the limiter (where it can be closed), the Redis client and the engine are closed in this order.
\<close>

definition gateway_start :: "backends \<Rightarrow> db_settings \<Rightarrow> (string \<Rightarrow> 's \<Rightarrow> 's res) \<Rightarrow> 's \<Rightarrow> 's action" where
  "gateway_start B d ensure bus p =
     bind_action (if is_sqlite (database_url d) then init_schema B d else (\<lambda>p. (Inr (), p)))
       (\<lambda>_ p. (Inr (warm_queues ensure WARM_QUEUES bus), p)) p"

definition gateway_stop :: "backends \<Rightarrow> exn option \<Rightarrow> unit action" where
  "gateway_stop B limiter_fault = bind_action (call_backend limiter_fault) (\<lambda>_. bind_action (close_redis B) (\<lambda>_. dispose_engine B))"

text \<open>What is asked of the process between start and stop.\<close>

datatype process_op = Use_database | Use_redis | Ask_ready

definition readyz :: "backends \<Rightarrow> settings \<Rightarrow> db_settings \<Rightarrow> process \<Rightarrow> (int \<times> json) \<times> process" where
  "readyz B st d p = (case db_healthy B d p of (db_ok, p1) \<Rightarrow> (case redis_ping B st p1 of (cache_ok, p2) \<Rightarrow>
     (gateway_readyz db_ok cache_ok, p2)))"

fun process_step :: "backends \<Rightarrow> settings \<Rightarrow> db_settings \<Rightarrow> process_op \<Rightarrow> process \<Rightarrow> process" where
  "process_step B st d Use_database p = snd (get_sessionmaker B d p)"
| "process_step B st d Use_redis p = snd (get_redis B st p)"
| "process_step B st d Ask_ready p = snd (readyz B st d p)"

definition gateway_life :: "backends \<Rightarrow> settings \<Rightarrow> db_settings \<Rightarrow> (string \<Rightarrow> 's \<Rightarrow> 's res) \<Rightarrow> 's \<Rightarrow> process_op list \<Rightarrow> exn option
    \<Rightarrow> unit action" where
  "gateway_life B st d ensure bus ops limiter_fault =
     bind_action (gateway_start B d ensure bus)
       (\<lambda>_ p. gateway_stop B limiter_fault (fold (process_step B st d) ops p))"

text \<open>\<open>create_app\<close>: the address of the documentation, the fixed paths and the answer to an exception nobody caught.\<close>

definition docs_url :: "settings \<Rightarrow> string option" where
  "docs_url st = (if app_env st \<noteq> ENV_PROD then Some ''/docs'' else None)"

definition fixed_path :: "backends \<Rightarrow> settings \<Rightarrow> db_settings \<Rightarrow> string \<Rightarrow> string \<Rightarrow> process \<Rightarrow> (int \<times> json) option \<times> process" where
  "fixed_path B st d exported path p =
     (if path = ''/healthz'' then (Some (200, JObj [(''status'', JStr ''ok'')]), p)
      else if path = ''/readyz'' then (case readyz B st d p of (r, p') \<Rightarrow> (Some r, p'))
      else if path = ''/metrics'' then (Some (200, JStr exported), p)
      else (None, p))"

definition unhandled :: "exn \<Rightarrow> int \<times> json" where
  "unhandled e = (500, JObj [(''detail'', JStr ''internal error'')])"

subsection \<open>What a process holds\<close>

definition held :: "process \<Rightarrow> nat list" where
  "held p = (case pr_engine p of Some e \<Rightarrow> [en_serial e] | None \<Rightarrow> []) @ (case pr_client p of Some c \<Rightarrow> [rc_serial c] | None \<Rightarrow> [])"

text \<open>The session factory is that of the engine, and what is open is what the globals hold.\<close>

definition sound :: "process \<Rightarrow> bool" where
  "sound p \<longleftrightarrow> (pr_sessionmaker p = None \<or> pr_sessionmaker p = pr_engine p) \<and> set (pr_open p) = set (held p) \<and> distinct (held p)
     \<and> list_all (\<lambda>n. n < pr_made p) (held p)"

lemma sound_new: "sound new_process"
  by (simp add: sound_def new_process_def held_def)

lemmas process_defs = bind_action_def call_backend_def sound_def held_def

lemma sound_get_engine: "sound p \<Longrightarrow> sound (snd (get_engine B d p)) \<and> (\<forall>e. fst (get_engine B d p) = Inr e \<longrightarrow> pr_engine (snd (get_engine B d p)) = Some e)"
  by (auto simp: get_engine_def process_defs engine_for_def Let_def split: option.splits)

lemma sound_get_sessionmaker: "sound p \<Longrightarrow> sound (snd (get_sessionmaker B d p))"
  using sound_get_engine [of p B d]
  by (cases "get_engine B d p") (auto simp: get_sessionmaker_def process_defs split: option.splits sum.splits)

lemma sound_get_redis: "sound p \<Longrightarrow> sound (snd (get_redis B st p))"
  by (auto simp: get_redis_def process_defs Let_def split: option.splits)

lemma sound_ping: "sound p \<Longrightarrow> sound (snd (redis_ping B st p))"
  using sound_get_redis [of p B st] by (cases "get_redis B st p") (auto simp: redis_ping_def bind_action_def split: sum.splits)

lemma sound_healthy: "sound p \<Longrightarrow> sound (snd (db_healthy B d p))"
  using sound_get_sessionmaker [of p B d]
  by (cases "get_sessionmaker B d p") (auto simp: db_healthy_def bind_action_def call_backend_def split: sum.splits option.splits)

lemma sound_step: "sound p \<Longrightarrow> sound (process_step B st d x p)"
  using sound_get_sessionmaker [of p B d] sound_get_redis [of p B st] sound_ping [OF sound_healthy, of p B st B d]
  by (cases x) (auto simp: readyz_def case_prod_beta)

lemma sound_steps: "sound p \<Longrightarrow> sound (fold (process_step B st d) ops p)"
  by (induction ops arbitrary: p) (auto simp: sound_step)

lemma sound_init: "sound p \<Longrightarrow> sound (snd (init_schema B d p))"
  using sound_get_engine [of p B d]
  by (cases "get_engine B d p") (auto simp: init_schema_def bind_action_def call_backend_def split: sum.splits)

lemma sound_start: "sound p \<Longrightarrow> sound (snd (gateway_start B d ensure bus p))"
  using sound_init [of p B d]
  by (cases "init_schema B d p") (auto simp: gateway_start_def bind_action_def split: sum.splits)

definition closes :: "backends \<Rightarrow> bool" where
  "closes B \<longleftrightarrow> (\<forall>e. be_dispose B e = None) \<and> (\<forall>c. be_aclose B c = None)"

lemma sound_closed:
  assumes "sound p" and "closes B"
  shows "gateway_stop B None p = (Inr (), p\<lparr>pr_engine := None, pr_sessionmaker := None, pr_client := None, pr_open := []\<rparr>)"
proof -
  have "set (pr_open p) = set (held p)" using assms(1) by (simp add: sound_def)
  then have o: "removeAll n (pr_open p) = []" if "set (held p) \<subseteq> {n}" for n using that by (auto simp: removeAll_filter_not_eq filter_empty_conv)
  have oo: "removeAll m (removeAll n (pr_open p)) = []" if "set (held p) \<subseteq> {m, n}" for m n
    using that \<open>set (pr_open p) = set (held p)\<close> by (auto simp: removeAll_filter_not_eq filter_empty_conv)
  show ?thesis
    using assms(2) o oo \<open>set (pr_open p) = set (held p)\<close>
    by (cases "pr_engine p"; cases "pr_client p")
      (auto simp: gateway_stop_def close_redis_def dispose_engine_def bind_action_def call_backend_def closes_def held_def)
qed

text \<open>The engine a session would use: the one there is, or the one that would be made.\<close>

definition engine_at :: "backends \<Rightarrow> db_settings \<Rightarrow> process \<Rightarrow> engine option" where
  "engine_at B d p = (case pr_engine p of Some e \<Rightarrow> Some e
     | None \<Rightarrow> if be_create_engine B (database_url d) = None then Some (engine_for d (pr_made p)) else None)"

lemma healthy_iff: "sound p \<Longrightarrow> fst (db_healthy B d p) \<longleftrightarrow> (\<exists>e. engine_at B d p = Some e \<and> be_select B e = None)"
  by (auto simp: db_healthy_def get_sessionmaker_def get_engine_def engine_at_def bind_action_def call_backend_def sound_def Let_def
      split: option.splits)

subsection \<open>Properties\<close>

text \<open>
  C40: The gateway is ready exactly while its database answers. Whatever the process has done before - and whatever happened to the queues at
  the start - the readiness probe answers 200 if a session on its engine can run a statement and 503 otherwise; Redis, which
  is not where the tasks are kept, has no part in it. And when the gateway stops, it has closed everything it opened, if nothing
  refuses to be closed.
\<close>

theorem gateway_ready_while_database_answers:
  assumes "gateway_start B d ensure bus new_process = (Inr bus', p0)" and "p = fold (process_step B st d) ops p0"
  shows "fst (fst (readyz B st d p)) = (if (\<exists>e. engine_at B d p = Some e \<and> be_select B e = None) then 200 else 503)
    \<and> (closes B \<longrightarrow> fst (gateway_life B st d ensure bus ops None new_process) = Inr ()
         \<and> pr_open (snd (gateway_life B st d ensure bus ops None new_process)) = [])"
proof -
  have "sound p0" using sound_start [OF sound_new, of B d ensure bus] assms(1) by simp
  then have p: "sound p" using sound_steps assms(2) by blast
  have "gateway_life B st d ensure bus ops None new_process = gateway_stop B None p"
    using assms by (simp add: gateway_life_def bind_action_def)
  then show ?thesis
    using healthy_iff [OF p, of B d] sound_closed [OF p] by (simp add: readyz_def gateway_readyz_def case_prod_beta)
qed

definition flaky_backends :: backends where
  "flaky_backends = \<lparr>be_create_engine = (\<lambda>_. None), be_create_all = (\<lambda>_. None), be_select = (\<lambda>_. None), be_dispose = (\<lambda>_. None),
     be_from_url = (\<lambda>_. Some (ValueError ''redis url'')), be_ping = (\<lambda>_. Inl AssertionError), be_aclose = (\<lambda>_. None)\<rparr>"

definition postgres :: db_settings where
  "postgres = \<lparr>database_url = ''postgresql+asyncpg://db/ag'', db_echo = False, db_pool_size = 10, db_max_overflow = 20\<rparr>"

theorem gateway_ready_while_database_answers_witness:
  "fst (fst (readyz flaky_backends default_settings postgres
     (fold (process_step flaky_backends default_settings postgres) [Use_redis, Ask_ready] new_process))) = 200
   \<and> pr_open (snd (gateway_life flaky_backends default_settings postgres (\<lambda>_ _. Inl AssertionError) () [Use_redis, Ask_ready] None new_process)) = []"
proof -
  have start: "gateway_start flaky_backends postgres (\<lambda>_ _. Inl AssertionError) () new_process = (Inr (), new_process)"
    by (simp add: gateway_start_def postgres_def is_sqlite_def starts_with_def bind_action_def WARM_QUEUES_def)
  have "closes flaky_backends" by (simp add: closes_def flaky_backends_def)
  moreover have "\<exists>e. engine_at flaky_backends postgres p = Some e \<and> be_select flaky_backends e = None" for p
    by (auto simp: engine_at_def flaky_backends_def split: option.split)
  ultimately show ?thesis
    using gateway_ready_while_database_answers [OF start refl, of default_settings "[Use_redis, Ask_ready]"] by simp
qed

end
