(* ===== verification/SeedScript.thy ===== *)
theory SeedScript
  imports Bus Container Models
begin

text \<open>
  \<open>scripts/live_seed3d.py\<close>: the live check of one generation against a real upstream. The HTTP client, the database row the
  script looks up and the handlers are parameters; what the script itself decides is modelled, the printing is not.
\<close>

definition PLUGIN_PATH :: string where
  "PLUGIN_PATH = ''/api/v3/contents/generations/tasks''"

definition SEED_ALIAS :: string where
  "SEED_ALIAS = ''volc-seed3d''"

definition IMAGE_URL :: string where
  "IMAGE_URL = ''https://ark-project.tos-cn-beijing.volces.com/doc_image/i23d_flower.jpeg''"

definition SEED_TERMINAL :: "string list" where
  "SEED_TERMINAL = [''succeeded'', ''failed'', ''timeout'', ''cancelled'', ''dead'', ''dead_awaiting_confirm'']"

definition SEED_BODY :: jobj where
  "SEED_BODY = [(''model'', JStr ''doubao-seed3d-2-0-260328''), (''content'', JArr [
     JObj [(''type'', JStr ''text''), (''text'', JStr '' --subdivisionlevel high --fileformat obj'')],
     JObj [(''type'', JStr ''image_url''), (''image_url'', JObj [(''url'', JStr IMAGE_URL)])]])]"

definition short :: "json \<Rightarrow> nat \<Rightarrow> string" where
  "short payload limit = (let t = (case payload of JStr s \<Rightarrow> s | _ \<Rightarrow> dumps False False payload) in
     if length t \<le> limit then t else take limit t @ ''...(+'' @ show_nat (length t - limit) @ ''B)'')"

record seed_response =
  sr_status :: int
  sr_headers :: "string dict"
  sr_json :: "json option"
  sr_text :: string

text \<open>\<open>_report\<close> prints an answer and gives its body: the JSON value, or the text where it is none.\<close>

definition report :: "seed_response \<Rightarrow> json" where
  "report r = (case sr_json r of Some v \<Rightarrow> v | None \<Rightarrow> JStr (sr_text r))"

subsection \<open>The messages in the background\<close>

text \<open>
  \<open>_pump_background\<close>: batches of up to ten from each queue in turn, while fewer than \<open>limit\<close> have been handled. A state \<open>'s\<close>
  holds the bus and what the handlers change.
\<close>

function pump_queue :: "('s \<Rightarrow> message list \<times> 's) \<Rightarrow> (message \<Rightarrow> 's \<Rightarrow> 's) \<Rightarrow> nat \<Rightarrow> nat \<Rightarrow> 's \<Rightarrow> nat \<times> 's" where
  "pump_queue consume handle limit n s =
     (if n < limit then (case consume s of (ms, s') \<Rightarrow>
          if ms = [] then (n, s') else pump_queue consume handle limit (n + length ms) (fold handle ms s'))
      else (n, s))"
  by pat_completeness auto

termination
  by (relation "measure (\<lambda>(_, _, limit, n, _). limit - n)") (auto simp: neq_Nil_conv)

declare pump_queue.simps [simp del]

definition pump_background :: "(string \<Rightarrow> nat \<Rightarrow> 's \<Rightarrow> message list \<times> 's) \<Rightarrow> (string \<Rightarrow> message \<Rightarrow> 's \<Rightarrow> 's) \<Rightarrow> nat \<Rightarrow> 's \<Rightarrow> nat \<times> 's" where
  "pump_background consume handle limit s =
     fold (\<lambda>q (n, s). pump_queue (consume q 10) (handle q) limit n s) all_queues (0, s)"

subsection \<open>The result\<close>

definition REDACTED_MARK :: string where
  "REDACTED_MARK = ''***redacted***''"

definition probe_result_url :: "(string \<Rightarrow> seed_response res) \<Rightarrow> json \<Rightarrow> bool" where
  "probe_result_url probe v = (case v of
      JStr url \<Rightarrow> (starts_with ''http://'' url \<or> starts_with ''https://'' url) \<and> \<not> contains REDACTED_MARK url
        \<and> (case probe url of Inl _ \<Rightarrow> False | Inr r \<Rightarrow> sr_status r = 200 \<or> sr_status r = 206)
    | _ \<Rightarrow> False)"

definition content_file_url :: "json option \<Rightarrow> json res" where
  "content_file_url body = (case body of
      Some (JObj kvs) \<Rightarrow> (case (case dict_get kvs ''content'' of None \<Rightarrow> JObj [] | Some c \<Rightarrow> c) of
          JObj inner \<Rightarrow> Inr (case dict_get inner ''file_url'' of None \<Rightarrow> JNull | Some v \<Rightarrow> v)
        | _ \<Rightarrow> Inl (AttributeError ''get''))
    | _ \<Rightarrow> Inr JNull)"

text \<open>The polls until one shows a final status: the body of that answer, if there is one.\<close>

fun seed_poll :: "(nat \<Rightarrow> seed_response res) \<Rightarrow> nat \<Rightarrow> nat \<Rightarrow> json option res" where
  "seed_poll query k 0 = Inr None"
| "seed_poll query k (Suc n) = bind_res (query k) (\<lambda>r.
     if (case dict_get (sr_headers r) ''x-ag-internal-status'' of None \<Rightarrow> [] | Some s \<Rightarrow> s) \<in> set SEED_TERMINAL
     then Inr (Some (report r)) else seed_poll query (Suc k) n)"

definition seed_verdict :: "(string \<Rightarrow> seed_response res) \<Rightarrow> task \<Rightarrow> result_mode \<Rightarrow> json option \<Rightarrow> seed_response \<Rightarrow> bool res" where
  "seed_verdict probe row mode terminal_body endpoint =
     (if status row \<noteq> SUCCEEDED then Inr False
      else if mode = RM_PASSTHROUGH
      then bind_res (content_file_url terminal_body) (\<lambda>url. Inr (probe_result_url probe url \<and> sr_status endpoint = 409))
      else Inr (result_ref row \<noteq> None \<and> sr_status endpoint = 302))"

record seed_world =
  sw_create :: "seed_response res"
  sw_query :: "string \<Rightarrow> nat \<Rightarrow> seed_response res"
  sw_row :: "string \<Rightarrow> task option"
  sw_mode :: "task \<Rightarrow> result_mode res"
  sw_results :: "task \<Rightarrow> seed_response res"
  sw_probe :: "string \<Rightarrow> seed_response res"

definition first_text :: "string \<Rightarrow> string \<Rightarrow> string" where
  "first_text a b = (if a = [] then b else a)"

text \<open>The exit code of \<open>main\<close>; \<open>bearer\<close> is the option and \<open>env_bearer\<close> the variable \<open>ARK_API_KEY\<close>.\<close>

definition seed_main :: "seed_world \<Rightarrow> string \<Rightarrow> string \<Rightarrow> nat \<Rightarrow> int res" where
  "seed_main W bearer env_bearer max_polls =
     (if first_text bearer env_bearer = [] then Inr 2
      else bind_res (sw_create W) (\<lambda>created.
        if 400 \<le> sr_status created then Inr 1
        else (let uid = (case report created of JObj kvs \<Rightarrow> (case dict_get kvs ''id'' of None \<Rightarrow> JNull | Some v \<Rightarrow> v) | _ \<Rightarrow> JNull) in
          if \<not> truthy uid then Inr 1
          else bind_res (seed_poll (sw_query W (py_str uid)) 1 max_polls) (\<lambda>terminal_body.
            (case sw_row W (py_str uid) of
               None \<Rightarrow> Inr 1
             | Some row \<Rightarrow> bind_res (sw_mode W row) (\<lambda>mode. bind_res (sw_results W row) (\<lambda>endpoint.
                 bind_res (seed_verdict (sw_probe W) row mode terminal_body endpoint) (\<lambda>good. Inr (if good then 0 else 1)))))))))"

subsection \<open>What the script shows\<close>

text \<open>It handles fewer than ten messages more than the limit it was given, and never fewer than it was given time for.\<close>

lemma pump_queue_bound:
  assumes "\<And>s. length (fst (consume s)) \<le> k" and "n \<le> limit + k"
  shows "fst (pump_queue consume handle limit n s) \<le> limit + k"
  using assms
proof (induction consume handle limit n s rule: pump_queue.induct)
  case (1 consume handle limit n s)
  obtain ms s' where ms: "consume s = (ms, s')" by (cases "consume s")
  then have "length ms \<le> k" using 1(2) [of s] by simp
  then show ?case
    using 1(1) [OF _ ms [symmetric]] 1(2,3) ms by (subst pump_queue.simps) (cases "n < limit"; cases "ms = []"; simp)
qed

end
