(* ===== verification/Spec2Isabelle.thy ===== *)
theory Spec2Isabelle
  imports System MaintenanceFacts Errors Expression Render Ssrf Client Container Concurrency Polling AuditLog Bus
    CallbackAuth Output Stores Idempotency Routing RegistryFacts Worker AdminTaskFacts MetricsFacts Probe LoopFacts Objects
    WiringFacts FileFacts DispatchFacts UpstreamFacts Process SeedScript
begin

text \<open>
  This library is a verification development for the asynchronous task gateway in \<open>src/\<close>: a service that takes a request
  for a long-running job of some upstream (create, query, cancel), answers at once, and lets workers create, poll and finish the
  job. It is written beside the Python code under \<open>src/src/async_gateway\<close> and the scripts under \<open>src/scripts\<close>; file
  names below are relative to the former.

  \<^bold>\<open>The program and its model\<close>

  \<^item> \<^emph>\<open>Data.\<close> A task is a row of a table; its state changes only through conditional writes. \<open>Domain\<close>
    (\<open>domain/enums.py\<close>, \<open>domain/state_machine.py\<close>: states and the whitelist of transitions), \<open>Models\<close> (\<open>db/models.py\<close>: one
    record per row, the assignments of an \<open>UPDATE\<close>), \<open>Dao\<close> and \<open>Queries\<close> (\<open>db/dao.py\<close>: one function on the table per
    statement; \<open>dao_write\<close> lists them all).
  \<^item> \<^emph>\<open>Programs.\<close> A handler or a request is a tree of atomic actions with the rest of the program as a function of each answer
    (\<open>Prog\<close>): reading a row, one conditional write, a clock, a slot, one HTTP exchange, a message. \<open>Handlers\<close>
    (\<open>tasks/handlers.py\<close>), \<open>Accept\<close>, \<open>Routes\<close>, \<open>Callbacks\<close> (\<open>gateway/accept.py\<close>, \<open>gateway/routes.py\<close>), \<open>AdminTasks\<close>
    (replay, close and dry run of \<open>admin/app.py\<close>) and \<open>Serving\<close> (every request, as one program each).
  \<^item> \<^emph>\<open>Passes.\<close> The scheduler and the inspector work in transactions over the table (\<open>Maintenance\<close>:
    \<open>workers/scheduler.py\<close>, \<open>workers/inspector.py\<close>), inside loops that publish gauges and leave heartbeats (\<open>Loops\<close>); the
    worker takes messages off a bus (\<open>Worker\<close>: \<open>workers/worker.py\<close>, \<open>bus/factory.py\<close>).
  \<^item> \<^emph>\<open>Templates.\<close> What is known of an upstream: \<open>Template\<close> (the expanded form), \<open>Derive\<close> (\<open>templates/schema.py\<close>,
    \<open>templates/derive.py\<close>), \<open>Validator\<close>, \<open>Registry\<close> (\<open>templates/registry.py\<close>, \<open>gateway/direct.py\<close>), \<open>Files\<close> (what is read
    at the start), \<open>Expression\<close> (the path language), \<open>Render\<close> (\<open>templates/render.py\<close>), \<open>Container\<close> (which version and strategy a
    channel gets).
  \<^item> \<^emph>\<open>Upstream and safety.\<close> \<open>Client\<close> (\<open>upstream/client.py\<close>), \<open>Ssrf\<close>, \<open>Redaction\<close>, \<open>CallbackAuth\<close> (\<open>security\<close>),
    \<open>Errors\<close> (\<open>domain/errors.py\<close>), over the urls and addresses of \<open>Urls\<close> and \<open>Ipaddr\<close>.
  \<^item> \<^emph>\<open>Infrastructure.\<close> \<open>Bus\<close> (\<open>bus\<close>), \<open>Concurrency\<close>, \<open>Polling\<close>, \<open>Stores\<close>, \<open>Objects\<close> (\<open>infra\<close>), \<open>AuditLog\<close>
    (\<open>db/audit.py\<close>), \<open>Idempotency\<close>, \<open>Routing\<close>, \<open>Output\<close> (\<open>gateway\<close>), \<open>Config\<close> (\<open>config.py\<close>), \<open>Wiring\<close> (how a process is
    put together, its log), \<open>Process\<close> (the engine and the Redis client a process keeps, \<open>db/base.py\<close> and \<open>infra/redis.py\<close>; start,
    probes and stop of the gateway, \<open>gateway/app.py\<close>), \<open>Metrics\<close> and \<open>Probe\<close> (\<open>observability\<close>, the probe of the containers).
  \<^item> \<^emph>\<open>Governance.\<close> \<open>Admin\<close> (\<open>admin/app.py\<close>): actors and roles, approval tickets, templates, canary weights, credential
    references, the pace of a channel.
  \<^item> \<^emph>\<open>Scripts.\<close> \<open>SeedScript\<close> (\<open>scripts/live_seed3d.py\<close>), the smoke check in \<open>DispatchFacts\<close> (\<open>scripts/smoke_workers.py\<close>).
  \<^item> \<open>Prelude\<close> and \<open>Json\<close> hold what the others share: Python dictionaries and strings, exceptions as values (\<open>'a res\<close> is
    \<open>exn + 'a\<close>), JSON values and their texts. What the code takes from Python's library and depends on is defined as that
    library computes it: \<open>Loads\<close> (\<open>json.loads\<close>, with its round trip), \<open>Sha256\<close> (\<open>hashlib\<close>, \<open>hmac\<close>), \<open>Python\<close> (the texts of times),
    \<open>Urls\<close> (\<open>urllib.parse\<close>), \<open>Ipaddr\<close> (\<open>ipaddress\<close>).

  \<^bold>\<open>What is shown\<close>

  \<^item> One task: \<open>DaoFacts\<close> - every write touches one row and moves it along the whitelist; a submit intent has one winner.
  \<^item> One program: \<open>HandlerFacts\<close>, \<open>ApiFacts\<close> - on every path the writes are legal, a create is sent only after its own program won
    the intent, a slot is given back once; \<open>ApiProps\<close> - what a caller sees of one request.
  \<^item> All programs together: \<open>Interleave\<close> is the step relation of the system (any action of any program, deliveries in any order
    and number, crashes, the writes of scheduler and inspector) with its reachable states; no upstream task is created twice and no
    outcome flips. \<open>System\<close> refines it to a ledger of outcomes, and shows that every program ends and that at rest no slot is held.
  \<^item> The passes: \<open>MaintenanceFacts\<close> - leases, deadlines, which rows are submitted again and what blocks a sweep; \<open>DispatchFacts\<close> - a row whose message was
    lost is dispatched again; \<open>LoopFacts\<close> -
    what probes and gauges tell of the loops.
  \<^item> Templates: \<open>DeriveFacts\<close>, \<open>RegistryFacts\<close>, \<open>FileFacts\<close> - explicit fields survive patches, the registry stays well formed, which
    changes need a review, and which door has no check.
  \<^item> Governance: \<open>AdminFacts\<close>, \<open>AdminTaskFacts\<close> - two people for a change, the checks before a replay, and the gaps of the approvals.
  \<^item> What an upstream can do to the program that asks it: \<open>UpstreamFacts\<close> - a result url and a delay that end a handler for good;
    \<open>Client\<close> - a first call dials a validated address.
  \<^item> The parts on their own: limits (\<open>Concurrency\<close>, \<open>Polling\<close>), chain and signatures (\<open>AuditLog\<close>, \<open>CallbackAuth\<close>), keys of
    requests (\<open>Idempotency\<close>), messages (\<open>Bus\<close>), stores (\<open>Stores\<close>, \<open>Objects\<close>), start and stop (\<open>Process\<close>), requests and targets (\<open>Render\<close>, \<open>Ssrf\<close>, \<open>Client\<close>), the path language (\<open>Expression\<close>), metrics, probe
    and settings (\<open>MetricsFacts\<close>, \<open>Probe\<close>, \<open>WiringFacts\<close>).

  Interfaces are locales, each interpreted on the model and, where the provider is another program, on a table that behaves as its
  documentation says: \<open>conditional_update\<close> (the table), \<open>counter_store\<close> and \<open>slot_limiter\<close> (slots over Lua scripts and in
  process), \<open>rate_bucket\<close> and \<open>accept_quota\<close>, \<open>kv_store\<close> and \<open>redis_kv\<close> (short-lived stores), \<open>s3_client\<close> (result store),
  \<open>uncounted_bus\<close> (what a worker's bus leaves out).

  \<^bold>\<open>Parameters, bounds and fuel\<close>

  Python's integers are \<open>int\<close>, its floats and times rationals: sums and comparisons are exact, so rounding is not modelled. Code that
  is not under \<open>src/\<close> is an argument: pydantic's coercions (\<open>pydantic\<close>), the resolver, Redis (stream commands, counters,
  keys with an expiry), SQLAlchemy's engine (\<open>backends\<close>), the S3 client, the HTTP client. The functions of the standard library are
  passed as a record \<open>pylib\<close>, so that what holds for any of them is proved for any; \<open>cpython\<close> (\<open>Python\<close>) is that record with digests
  and times as Python computes them, and the theorems about digests are about it. Reading and printing of floats and the dates of
  HTTP stay parameters. What a proof needs of them is a hypothesis of the theorem or an assumption of
  a locale. A text is a list of characters up to 255; lower case and white space are those of that range. The answers of clock,
  stores and upstream in a run are arbitrary (\<open>answers\<close>), and so is their order in \<open>Interleave\<close>.

  Programs are finite trees, so they need no fuel: that they end is proved in \<open>System\<close>. The loops of the processes run over a given
  list of rounds; nothing bounds its length. The only fuel is that of \<open>claim_stale\<close> (\<open>Worker\<close>), which bounds the pages of
  \<open>XAUTOCLAIM\<close>, whose number Redis decides; running out of it is \<open>None\<close>, and no theorem rests on it: they hold for every fuel.

  \<^bold>\<open>Not modelled\<close>

  FastAPI, SQLAlchemy and the Redis library themselves, column types and indexes, the command lines and signals of the processes, the
  reading of files, the texts of log lines and of validation messages, printing and waiting in the scripts, and the migrations
  (\<open>alembic\<close>): they carry no logic of the gateway. The interval between two readings of a clock
  inside one pass is not modelled, nor two transactions inside each other: a transaction of a pass is one step. A database row is
  read and written as SQLAlchemy does it with \<open>READ COMMITTED\<close>: each statement sees the table as it then is.
\<close>

end
